(* ===== verification/Prelude.thy ===== *)
theory Prelude
  imports Main "HOL-Library.Char_ord" "HOL-Library.List_Lexorder" "HOL-Library.Sublist"
begin

text \<open>
  Shared vocabulary of the development: the exceptions the code raises, computations that
  either return or raise while changing a state, the Python string operations the code uses
  (on ASCII text, where a Python character is one \<open>char\<close>), and the few SQL idioms
  (\<open>SELECT ... WHERE\<close>, \<open>UPDATE ... WHERE\<close> with its row count) on tables kept as lists of
  rows in insertion order.
\<close>

named_theorems comp_simps \<open>unfolding rules of the computation combinators\<close>
named_theorems str_simps \<open>facts about the string operations\<close>
named_theorems table_simps \<open>facts about table updates\<close>

section \<open>Exceptions and results\<close>

text \<open>
  One constructor per exception class of the code. The classes that carry a \<open>code\<close> field
  keep it; the human readable message and the diagnostic \<open>details\<close> dictionary are dropped.
  \<open>IntegrityError\<close> carries the message SQLite produces, because handlers inspect it.
\<close>

datatype exc =
    CommandError string
  | EffectLedgerError string
  | RuntimeOutboxError string
  | IngestJobStateError string
  | ToolExecutionAttemptError string
  | ProjectRuntimeSlotError string
  | EdgeExecutionConflictError string string
  | InputBindingConflictError string string string
  | LifecycleStageStateWorkflowError string
  | AssumptionClosureWorkflowError string
  | GovernanceCommitmentChainError string
  | ProcurementFieldsThresholdsError string
  | PartitionCodecError
  | PointerAddressError
  | PartitionRefValidationError
  | InvalidRegistryKindError
  | PointerIdParseError
  | LegacyPointerResolutionError
  | LegacyPointerAmbiguityError
  | DuplicateEventIdError string
  | DuplicateIdempotencyKeyError string string
  | PointerConflictError string string int
  | PointerGenerationMismatchError string int int
  | PointerDefinitionMismatchError string
  | IntegrityError string
  | ValueError
  | OverflowError
  | RuntimeError
  | OtherException string

type_synonym 'a result = "exc + 'a"

definition rbind :: "'a result \<Rightarrow> ('a \<Rightarrow> 'b result) \<Rightarrow> 'b result" where
  "rbind r f = (case r of Inl e \<Rightarrow> Inl e | Inr x \<Rightarrow> f x)"

lemma rbind_simps [simp]:
  "rbind (Inl e) f = Inl e"
  "rbind (Inr x) f = f x"
  by (simp_all add: rbind_def)

lemma rbind_eq_Inr: "rbind r f = Inr y \<longleftrightarrow> (\<exists>x. r = Inr x \<and> f x = Inr y)"
  by (cases r) auto

definition require :: "bool \<Rightarrow> exc \<Rightarrow> unit result" where
  "require b e = (if b then Inr () else Inl e)"

lemma require_simps [simp]:
  "require True e = Inr ()"
  "require False e = Inl e"
  "require b e = Inr u \<longleftrightarrow> b"
  "require b e = Inl e' \<longleftrightarrow> \<not> b \<and> e' = e"
  by (auto simp: require_def)

text \<open>Checks run over the items of a list, left to right, stopping at the first failure.\<close>

fun check_all :: "('a \<Rightarrow> unit result) \<Rightarrow> 'a list \<Rightarrow> unit result" where
  "check_all f [] = Inr ()"
| "check_all f (x # xs) = rbind (f x) (\<lambda>_. check_all f xs)"

lemma check_all_ok [simp]: "check_all f xs = Inr u \<longleftrightarrow> (\<forall>x\<in>set xs. f x = Inr ())"
  by (induction xs) (auto simp: rbind_eq_Inr)

lemma check_all_cong [fundef_cong]:
  "xs = ys \<Longrightarrow> (\<And>x. x \<in> set ys \<Longrightarrow> f x = g x) \<Longrightarrow> check_all f xs = check_all g ys"
  by (induction xs arbitrary: ys) (auto simp: fun_eq_iff)

fun map_result :: "('a \<Rightarrow> 'b result) \<Rightarrow> 'a list \<Rightarrow> 'b list result" where
  "map_result f [] = Inr []"
| "map_result f (x # xs) = rbind (f x) (\<lambda>y. rbind (map_result f xs) (\<lambda>ys. Inr (y # ys)))"

lemma map_result_Inr:
  "map_result f xs = Inr ys \<longleftrightarrow> list_all2 (\<lambda>x y. f x = Inr y) xs ys"
  by (induction xs arbitrary: ys) (auto simp: rbind_eq_Inr list_all2_Cons1)

section \<open>Computations with state and exceptions\<close>

text \<open>
  A computation takes the state and gives a result together with the state it leaves. The
  state is there also when the computation raises: whether its changes survive is decided
  by the transaction around it.
\<close>

type_synonym ('a, 's) comp = "'s \<Rightarrow> 'a result \<times> 's"

definition ret :: "'a \<Rightarrow> ('a, 's) comp" where
  "ret x s = (Inr x, s)"

definition raise :: "exc \<Rightarrow> ('a, 's) comp" where
  "raise e s = (Inl e, s)"

definition seq :: "('a, 's) comp \<Rightarrow> ('a \<Rightarrow> ('b, 's) comp) \<Rightarrow> ('b, 's) comp" where
  "seq m f s = (case m s of (Inl e, s') \<Rightarrow> (Inl e, s') | (Inr x, s') \<Rightarrow> f x s')"

definition of_result :: "'a result \<Rightarrow> ('a, 's) comp" where
  "of_result r s = (r, s)"

definition asks :: "('s \<Rightarrow> 'a) \<Rightarrow> ('a, 's) comp" where
  "asks f s = (Inr (f s), s)"

definition modify :: "('s \<Rightarrow> 's) \<Rightarrow> (unit, 's) comp" where
  "modify f s = (Inr (), f s)"

definition handle :: "('a, 's) comp \<Rightarrow> (exc \<Rightarrow> ('a, 's) comp) \<Rightarrow> ('a, 's) comp" where
  "handle m h s = (case m s of (Inl e, s') \<Rightarrow> h e s' | (Inr x, s') \<Rightarrow> (Inr x, s'))"

fun for_each :: "('a \<Rightarrow> ('b, 's) comp) \<Rightarrow> 'a list \<Rightarrow> (unit, 's) comp" where
  "for_each f [] = ret ()"
| "for_each f (x # xs) = seq (f x) (\<lambda>_. for_each f xs)"

text \<open>The same, collecting what each item gives.\<close>

fun map_each :: "('a \<Rightarrow> ('b, 's) comp) \<Rightarrow> 'a list \<Rightarrow> ('b list, 's) comp" where
  "map_each f [] = ret []"
| "map_each f (x # xs) = seq (f x) (\<lambda>y. seq (map_each f xs) (\<lambda>ys. ret (y # ys)))"

lemma comp_apply [comp_simps]:
  "ret x s = (Inr x, s)"
  "raise e s = (Inl e, s)"
  "of_result r s = (r, s)"
  "asks f s = (Inr (f s), s)"
  "modify g s = (Inr (), g s)"
  by (simp_all add: ret_def raise_def of_result_def asks_def modify_def)

lemma seq_apply [comp_simps]:
  "m s = (Inl e, s') \<Longrightarrow> seq m f s = (Inl e, s')"
  "m s = (Inr x, s') \<Longrightarrow> seq m f s = f x s'"
  by (simp_all add: seq_def)

lemma seq_unit [comp_simps]:
  "seq (ret x) f = f x"
  "seq (raise e) f = raise e"
  "seq (asks g) f s = f (g s) s"
  "seq (modify h) k s = k () (h s)"
  "seq (of_result (Inl e)) f = raise e"
  "seq (of_result (Inr x)) f = f x"
  by (auto simp: seq_def comp_apply fun_eq_iff)

lemma seq_assoc: "seq (seq m f) g = seq m (\<lambda>x. seq (f x) g)"
  by (auto simp: seq_def fun_eq_iff split: prod.splits sum.splits)

lemma seq_eq_Inr:
  "seq m f s = (Inr y, s'') \<longleftrightarrow> (\<exists>x s'. m s = (Inr x, s') \<and> f x s' = (Inr y, s''))"
  by (auto simp: seq_def split: prod.splits sum.splits)

lemma seq_eq_Inl:
  "seq m f s = (Inl e, s'') \<longleftrightarrow>
     m s = (Inl e, s'') \<or> (\<exists>x s'. m s = (Inr x, s') \<and> f x s' = (Inl e, s''))"
  by (auto simp: seq_def split: prod.splits sum.splits)

text \<open>A predicate on states that a computation keeps, whether it returns or raises.\<close>

definition keeps :: "('s \<Rightarrow> bool) \<Rightarrow> ('a, 's) comp \<Rightarrow> bool" where
  "keeps P m \<longleftrightarrow> (\<forall>s. P s \<longrightarrow> P (snd (m s)))"

lemma keepsI: "(\<And>s. P s \<Longrightarrow> P (snd (m s))) \<Longrightarrow> keeps P m"
  by (simp add: keeps_def)

lemma keepsD: "keeps P m \<Longrightarrow> P s \<Longrightarrow> P (snd (m s))"
  by (simp add: keeps_def)

lemma keepsD': "keeps P m \<Longrightarrow> P s \<Longrightarrow> m s = (r, s') \<Longrightarrow> P s'"
  by (metis keeps_def snd_conv)

lemma keeps_basic [intro, simp]:
  "keeps P (ret x)"
  "keeps P (raise e)"
  "keeps P (of_result r)"
  "keeps P (asks f)"
  by (simp_all add: keeps_def comp_apply)

lemma keeps_seq [intro]:
  assumes "keeps P m" and "\<And>x. keeps P (f x)"
  shows "keeps P (seq m f)"
  using assms by (auto simp: keeps_def seq_def split: prod.splits sum.splits)

lemma keeps_modify: "(\<And>s. P s \<Longrightarrow> P (f s)) \<Longrightarrow> keeps P (modify f)"
  by (simp add: keeps_def comp_apply)

lemma keeps_handle:
  assumes "keeps P m" and "\<And>e. keeps P (h e)"
  shows "keeps P (handle m h)"
  using assms unfolding keeps_def handle_def
  by (auto split: prod.split sum.split)

lemma keeps_for_each [intro]:
  assumes "\<And>x. x \<in> set xs \<Longrightarrow> keeps P (f x)"
  shows "keeps P (for_each f xs)"
  using assms by (induction xs) auto

lemma keeps_map_each [intro]:
  assumes "\<And>x. x \<in> set xs \<Longrightarrow> keeps P (f x)"
  shows "keeps P (map_each f xs)"
  using assms by (induction xs) auto

text \<open>A computation that leaves the state alone when it raises.\<close>

definition atomic :: "('a, 's) comp \<Rightarrow> bool" where
  "atomic m \<longleftrightarrow> (\<forall>s e s'. m s = (Inl e, s') \<longrightarrow> s' = s)"

lemma atomicD: "atomic m \<Longrightarrow> m s = (Inl e, s') \<Longrightarrow> s' = s"
  by (simp add: atomic_def)

lemma atomic_basic [intro, simp]:
  "atomic (ret x)"
  "atomic (raise e)"
  "atomic (of_result r)"
  "atomic (asks f)"
  "atomic (modify g)"
  by (simp_all add: atomic_def comp_apply)

lemma atomic_check [intro]: "(\<And>x. atomic (f x)) \<Longrightarrow> atomic (seq (of_result r) f)"
  by (cases r) (auto simp: atomic_def seq_def comp_apply)

lemma atomic_ask [intro]: "(\<And>x. atomic (f x)) \<Longrightarrow> atomic (seq (asks g) f)"
  by (auto simp: atomic_def seq_def comp_apply)

lemma atomic_finish [intro]: "atomic m \<Longrightarrow> (\<And>x. f x = ret (g x)) \<Longrightarrow> atomic (seq m f)"
  by (auto simp: atomic_def seq_def comp_apply split: prod.splits sum.splits)

lemma atomic_reraise [intro]: "atomic m \<Longrightarrow> atomic (handle m (\<lambda>e. raise (g e)))"
  by (auto simp: atomic_def handle_def comp_apply split: prod.splits sum.splits)

lemma handle_raise_Inr: "handle m (\<lambda>e. raise (g e)) s = (Inr x, s') \<longleftrightarrow> m s = (Inr x, s')"
  by (auto simp: handle_def comp_apply split: prod.splits sum.splits)

lemma seq_of_result_Inr:
  "seq (of_result r) f s = (Inr y, s') \<longleftrightarrow> (\<exists>x. r = Inr x \<and> f x s = (Inr y, s'))"
  by (cases r) (auto simp: seq_def comp_apply)

lemma found_or_raise:
  "(case y of None \<Rightarrow> raise e | Some a \<Rightarrow> ret (g a)) s = (Inr x, t) \<longleftrightarrow> (\<exists>a. y = Some a \<and> x = g a \<and> t = s)"
  by (auto simp: comp_apply split: option.splits)

end
