(* ===== verification/Calendar.thy ===== *)
theory Calendar
  imports Py_Text
begin

text \<open>
  The part of Python's \<open>datetime.date\<close> the program uses: construction with its range
  checks, the proleptic Gregorian ordinal, adding days, and the ISO week calendar. The
  results proved here (ordinals and dates are inverse, ISO weeks and ordinals are inverse)
  carry the properties of the partition codec.
\<close>

record date =
  year :: int
  month :: int
  day :: int

definition is_leap :: "int \<Rightarrow> bool" where
  "is_leap y \<longleftrightarrow> y mod 4 = 0 \<and> (y mod 100 \<noteq> 0 \<or> y mod 400 = 0)"

definition days_before_year :: "int \<Rightarrow> int" where
  "days_before_year y = (let z = y - 1 in z * 365 + z div 4 - z div 100 + z div 400)"

definition month_lengths :: "int \<Rightarrow> int list" where
  "month_lengths y = [31, if is_leap y then 29 else 28, 31, 30, 31, 30, 31, 31, 30, 31, 30, 31]"

definition days_in_month :: "int \<Rightarrow> int \<Rightarrow> int" where
  "days_in_month y m = month_lengths y ! nat (m - 1)"

definition days_before_month :: "int \<Rightarrow> int \<Rightarrow> int" where
  "days_before_month y m = sum_list (take (nat (m - 1)) (month_lengths y))"

definition days_in_year :: "int \<Rightarrow> int" where
  "days_in_year y = (if is_leap y then 366 else 365)"

definition max_ordinal :: int where
  "max_ordinal = 3652059"

text \<open>\<open>date(y, m, d)\<close>: a \<open>ValueError\<close> outside the years 1 to 9999 or the month's days.\<close>

definition mk_date :: "int \<Rightarrow> int \<Rightarrow> int \<Rightarrow> date result" where
  "mk_date y m d =
     (if 1 \<le> y \<and> y \<le> 9999 \<and> 1 \<le> m \<and> m \<le> 12 \<and> 1 \<le> d \<and> d \<le> days_in_month y m
      then Inr \<lparr>year = y, month = m, day = d\<rparr> else Inl ValueError)"

definition valid_date :: "date \<Rightarrow> bool" where
  "valid_date x \<longleftrightarrow> 1 \<le> year x \<and> year x \<le> 9999 \<and> 1 \<le> month x \<and> month x \<le> 12 \<and>
     1 \<le> day x \<and> day x \<le> days_in_month (year x) (month x)"

definition to_ordinal :: "date \<Rightarrow> int" where
  "to_ordinal x = days_before_year (year x) + days_before_month (year x) (month x) + day x"

text \<open>
  \<open>date.fromordinal\<close>: the year is the last one that begins before the day, found from an
  estimate that is off by at most one; the month likewise.
\<close>

definition year_of_ordinal :: "int \<Rightarrow> int" where
  "year_of_ordinal n =
     (let y = (n * 400) div 146097 + 1
      in if n \<le> days_before_year y then y - 1
         else if n \<le> days_before_year (y + 1) then y else y + 1)"

fun find_month :: "int \<Rightarrow> int \<Rightarrow> int list \<Rightarrow> int \<times> int" where
  "find_month m r [] = (m, r)"
| "find_month m r (l # ls) = (if r \<le> l then (m, r) else find_month (m + 1) (r - l) ls)"

definition from_ordinal :: "int \<Rightarrow> date result" where
  "from_ordinal n =
     (if 1 \<le> n \<and> n \<le> max_ordinal then
        (let y = year_of_ordinal n; (m, d) = find_month 1 (n - days_before_year y) (month_lengths y)
         in Inr \<lparr>year = y, month = m, day = d\<rparr>)
      else Inl OverflowError)"

text \<open>\<open>d + timedelta(days=k)\<close>.\<close>

definition add_days :: "date \<Rightarrow> int \<Rightarrow> date result" where
  "add_days x k = from_ordinal (to_ordinal x + k)"

text \<open>ISO weeks: the Monday of week 1, \<open>isocalendar\<close> and \<open>fromisocalendar\<close>.\<close>

definition weekday_of :: "int \<Rightarrow> int" where
  "weekday_of n = (n + 6) mod 7"

definition iso_week1_monday :: "int \<Rightarrow> int" where
  "iso_week1_monday y =
     (let firstday = days_before_year y + 1;
          firstweekday = weekday_of firstday;
          week1monday = firstday - firstweekday
      in if firstweekday > 3 then week1monday + 7 else week1monday)"

definition isocalendar :: "date \<Rightarrow> int \<times> int \<times> int" where
  "isocalendar x =
     (let y = year x; week1 = iso_week1_monday y; today = to_ordinal x;
          week = (today - week1) div 7; dow = (today - week1) mod 7
      in if week < 0 then
           (let w1 = iso_week1_monday (y - 1) in (y - 1, (today - w1) div 7 + 1, (today - w1) mod 7 + 1))
         else if 52 \<le> week \<and> iso_week1_monday (y + 1) \<le> today then (y + 1, 1, dow + 1)
         else (y, week + 1, dow + 1))"

definition weeks_in_iso_year :: "int \<Rightarrow> int" where
  "weeks_in_iso_year y = (iso_week1_monday (y + 1) - iso_week1_monday y) div 7"

definition fromisocalendar :: "int \<Rightarrow> int \<Rightarrow> int \<Rightarrow> date result" where
  "fromisocalendar y w d =
     (if \<not> (1 \<le> y \<and> y \<le> 9999) then Inl ValueError
      else if \<not> (1 \<le> w \<and> (w \<le> 52 \<or>
             (w = 53 \<and> (let first = (days_before_year y + 1) mod 7
                        in first = 4 \<or> (first = 3 \<and> is_leap y))))) then Inl ValueError
      else if \<not> (1 \<le> d \<and> d \<le> 7) then Inl ValueError
      else (case from_ordinal (iso_week1_monday y + (w - 1) * 7 + (d - 1)) of
              Inl _ \<Rightarrow> Inl ValueError | Inr x \<Rightarrow> Inr x))"

definition isoformat :: "date \<Rightarrow> string" where
  "isoformat x = pad 4 (nat (year x)) @ ''-'' @ pad 2 (nat (month x)) @ ''-'' @ pad 2 (nat (day x))"

section \<open>Years and ordinals\<close>

lemma div_bounds:
  fixes z k :: int
  assumes "0 < k"
  shows "k * (z div k) \<le> z" and "z < k * (z div k) + k"
  using pos_mod_bound [OF assms, of z] pos_mod_sign [OF assms, of z] mult_div_mod_eq [of k z]
  by linarith+

lemma div_pred:
  fixes y k :: int
  assumes "1 < k"
  shows "y div k = (y - 1) div k + (if y mod k = 0 then 1 else 0)"
proof (cases "y mod k = 0")
  case True
  then have "y - 1 = k * (y div k - 1) + (k - 1)"
    using mult_div_mod_eq [of k y] by (simp add: right_diff_distrib)
  then have "(y - 1) div k = y div k - 1"
    by (rule int_div_pos_eq) (use assms in auto)
  with True show ?thesis by simp
next
  case False
  have "0 \<le> y mod k" using assms by (intro pos_mod_sign) simp
  then have "0 \<le> y mod k - 1" using False by linarith
  moreover have "y mod k < k" using assms by (intro pos_mod_bound) simp
  then have "y mod k - 1 < k" by linarith
  moreover have "y - 1 = k * (y div k) + (y mod k - 1)" using mult_div_mod_eq [of k y] by simp
  ultimately have "(y - 1) div k = y div k" by (metis int_div_pos_eq)
  with False show ?thesis by simp
qed

lemma leap_sum:
  fixes y a b c a' b' c' :: int
  assumes "a' = a + (if p then 1 else 0)" and "b' = b + (if q then 1 else 0)"
    and "c' = c + (if r then 1 else 0)" and "q \<Longrightarrow> p" and "r \<Longrightarrow> q"
  shows "y * 365 + a' - b' + c' =
    (y - 1) * 365 + a - b + c + (if p \<and> (\<not> q \<or> r) then 366 else 365)"
  using assms by (cases p; cases q; cases r) auto

lemma days_before_year_Suc: "days_before_year (y + 1) = days_before_year y + days_in_year y"
proof -
  have q: "y mod 100 = 0 \<Longrightarrow> y mod 4 = 0"
    using mod_mod_cancel [of 4 100 y] by simp
  have r: "y mod 400 = 0 \<Longrightarrow> y mod 100 = 0"
    using mod_mod_cancel [of 100 400 y] by simp
  have e: "y + 1 - 1 = y" by simp
  show ?thesis
    unfolding days_before_year_def days_in_year_def is_leap_def Let_def e
    by (rule leap_sum [OF div_pred div_pred div_pred q r]) simp_all
qed

lemma days_before_year_mono: "x \<le> y \<Longrightarrow> days_before_year x + 365 * (y - x) \<le> days_before_year y"
proof (induction y rule: int_ge_induct)
  case (step y)
  then show ?case
    using days_before_year_Suc [of y] by (simp add: days_in_year_def split: if_splits)
qed simp

lemma sum_month_lengths: "sum_list (month_lengths y) = days_in_year y"
  by (simp add: month_lengths_def days_in_year_def)

lemma length_month_lengths [simp]: "length (month_lengths y) = 12"
  by (simp add: month_lengths_def)

lemma month_lengths_pos: "l \<in> set (month_lengths y) \<Longrightarrow> 28 \<le> l \<and> l \<le> 31"
  by (auto simp: month_lengths_def split: if_splits)

lemma year_of_ordinal_between:
  "days_before_year (year_of_ordinal n) < n \<and> n \<le> days_before_year (year_of_ordinal n + 1)"
proof -
  define y where "y = (n * 400) div 146097 + 1"
  have q: "146097 * (y - 1) \<le> 400 * n" "400 * n < 146097 * y"
    using div_bounds [of 146097 "n * 400", OF zero_less_numeral]
    by (simp_all add: y_def algebra_simps)
  have lo: "days_before_year (y - 1) < n"
    using q div_bounds [of 4 "y - 2", OF zero_less_numeral] div_bounds [of 100 "y - 2", OF zero_less_numeral]
      div_bounds [of 400 "y - 2", OF zero_less_numeral]
    by (simp add: days_before_year_def Let_def)
  have "n \<le> (y + 1) * 365 + a - b + c"
    if "y + 1 < 4 * a + 4" "100 * b \<le> y + 1" "y + 1 < 400 * c + 400" for a b c
    using q that by simp
  from this [OF div_bounds(2) div_bounds(1) div_bounds(2)]
  have hi: "n \<le> days_before_year (y + 2)"
    by (simp add: days_before_year_def Let_def add.commute)
  have "year_of_ordinal n = (if n \<le> days_before_year y then y - 1
      else if n \<le> days_before_year (y + 1) then y else y + 1)"
    unfolding year_of_ordinal_def y_def Let_def ..
  then show ?thesis using lo hi by (simp add: add.commute)
qed

lemma year_of_ordinal_unique:
  assumes "days_before_year y < n" and "n \<le> days_before_year (y + 1)"
  shows "year_of_ordinal n = y"
proof (rule ccontr)
  assume neq: "year_of_ordinal n \<noteq> y"
  note b = year_of_ordinal_between [of n]
  show False
  proof (cases "year_of_ordinal n < y")
    case True
    then have "days_before_year (year_of_ordinal n + 1) \<le> days_before_year y"
      using days_before_year_mono [of "year_of_ordinal n + 1" y] by simp
    with b assms show False by simp
  next
    case False
    then have "days_before_year (y + 1) \<le> days_before_year (year_of_ordinal n)"
      using neq days_before_year_mono [of "y + 1" "year_of_ordinal n"] by simp
    with b assms show False by simp
  qed
qed

section \<open>Dates and ordinals are inverse\<close>

lemma find_month_spec:
  assumes "1 \<le> r" and "r \<le> sum_list ls" and "find_month m r ls = (m', d)"
  shows "m \<le> m' \<and> m' < m + int (length ls) \<and>
    r = sum_list (take (nat (m' - m)) ls) + d \<and> 1 \<le> d \<and> d \<le> ls ! nat (m' - m)"
  using assms
proof (induction ls arbitrary: m r)
  case (Cons l ls)
  show ?case
  proof (cases "r \<le> l")
    case False
    then have "find_month (m + 1) (r - l) ls = (m', d)" using Cons.prems by simp
    then have IH: "m + 1 \<le> m' \<and> m' < m + 1 + int (length ls) \<and>
        r - l = sum_list (take (nat (m' - (m + 1))) ls) + d \<and> 1 \<le> d \<and>
        d \<le> ls ! nat (m' - (m + 1))"
      using Cons.IH [of "r - l" "m + 1"] Cons.prems False by simp
    moreover have "nat (m' - m) = Suc (nat (m' - (m + 1)))"
    proof -
      have "0 \<le> m' - (m + 1)" using IH by linarith
      then show ?thesis by (subst Suc_nat_eq_nat_zadd1) auto
    qed
    ultimately show ?thesis by simp
  qed (use Cons.prems in auto)
qed simp

lemma find_month_unique:
  assumes "k < length ls" and "1 \<le> d" and "d \<le> ls ! k" and "\<forall>l\<in>set ls. 0 \<le> l"
  shows "find_month m (sum_list (take k ls) + d) ls = (m + int k, d)"
  using assms
proof (induction ls arbitrary: m k)
  case (Cons l ls)
  show ?case
  proof (cases k)
    case (Suc i)
    have "0 \<le> sum_list (take i ls)"
      using Cons.prems by (intro sum_list_nonneg) (auto dest: in_set_takeD)
    then show ?thesis using Cons.IH [of i "m + 1"] Cons.prems Suc by simp
  qed (use Cons.prems in simp)
qed simp

lemma days_before_9999: "days_before_year 10000 = max_ordinal"
  by (simp add: days_before_year_def max_ordinal_def Let_def)

lemma year_of_ordinal_range:
  assumes "1 \<le> n" and "n \<le> max_ordinal"
  shows "1 \<le> year_of_ordinal n \<and> year_of_ordinal n \<le> 9999"
proof -
  note b = year_of_ordinal_between [of n]
  have "\<not> year_of_ordinal n \<le> 0"
    using b assms days_before_year_mono [of "year_of_ordinal n + 1" 1]
    by (auto simp: days_before_year_def [of 1])
  moreover have "\<not> 10000 \<le> year_of_ordinal n"
    using b assms days_before_year_mono [of 10000 "year_of_ordinal n"] days_before_9999 by auto
  ultimately show ?thesis by simp
qed

lemma from_ordinal_ok:
  assumes "1 \<le> n" and "n \<le> max_ordinal"
  shows "\<exists>x. from_ordinal n = Inr x \<and> valid_date x \<and> to_ordinal x = n \<and> year x = year_of_ordinal n"
proof -
  define y where "y = year_of_ordinal n"
  obtain m d where md: "find_month 1 (n - days_before_year y) (month_lengths y) = (m, d)"
    by fastforce
  have "1 \<le> n - days_before_year y" "n - days_before_year y \<le> sum_list (month_lengths y)"
    using year_of_ordinal_between [of n] days_before_year_Suc [of y]
    by (simp_all add: y_def sum_month_lengths)
  from find_month_spec [OF this md]
  have "1 \<le> m \<and> m \<le> 12 \<and> n - days_before_year y = days_before_month y m + d \<and> 1 \<le> d \<and>
      d \<le> days_in_month y m"
    by (simp add: days_before_month_def days_in_month_def)
  then show ?thesis
    using md assms year_of_ordinal_range [OF assms]
    by (simp add: from_ordinal_def valid_date_def to_ordinal_def y_def [symmetric] Let_def)
qed

lemma days_before_month_bound:
  assumes "1 \<le> m" and "m \<le> 12" and "1 \<le> d" and "d \<le> days_in_month y m"
  shows "1 \<le> days_before_month y m + d \<and> days_before_month y m + d \<le> days_in_year y"
proof -
  let ?k = "nat (m - 1)"
  have k: "?k < length (month_lengths y)" using assms by simp
  have "0 \<le> sum_list (take ?k (month_lengths y))"
    using month_lengths_pos by (intro sum_list_nonneg) (fastforce dest: in_set_takeD)
  moreover have "0 \<le> sum_list (drop (Suc ?k) (month_lengths y))"
    using month_lengths_pos by (intro sum_list_nonneg) (fastforce dest: in_set_dropD)
  moreover have "sum_list (month_lengths y) = sum_list (take ?k (month_lengths y)) +
      month_lengths y ! ?k + sum_list (drop (Suc ?k) (month_lengths y))"
    by (subst id_take_nth_drop [OF k]) simp
  ultimately show ?thesis
    using assms by (simp add: days_before_month_def days_in_month_def sum_month_lengths)
qed

lemma valid_to_ordinal:
  assumes "valid_date x"
  shows "days_before_year (year x) < to_ordinal x" "to_ordinal x \<le> days_before_year (year x + 1)"
    "1 \<le> to_ordinal x" "to_ordinal x \<le> max_ordinal"
proof -
  have b: "1 \<le> days_before_month (year x) (month x) + day x"
      "days_before_month (year x) (month x) + day x \<le> days_in_year (year x)"
    using assms days_before_month_bound [of "month x" "day x" "year x"] by (auto simp: valid_date_def)
  show lo: "days_before_year (year x) < to_ordinal x"
    and hi: "to_ordinal x \<le> days_before_year (year x + 1)"
    using b days_before_year_Suc [of "year x"] by (simp_all add: to_ordinal_def)
  have "0 \<le> days_before_year (year x)"
    using assms days_before_year_mono [of 1 "year x"]
    by (simp add: valid_date_def days_before_year_def [of 1])
  then show "1 \<le> to_ordinal x" using lo by simp
  show "to_ordinal x \<le> max_ordinal"
    using hi assms days_before_year_mono [of "year x + 1" 10000] days_before_9999
    by (simp add: valid_date_def)
qed

lemma from_to_ordinal:
  assumes "valid_date x"
  shows "from_ordinal (to_ordinal x) = Inr x"
proof -
  have y: "year_of_ordinal (to_ordinal x) = year x"
    using valid_to_ordinal [OF assms] by (intro year_of_ordinal_unique)
  have "find_month 1 (days_before_month (year x) (month x) + day x) (month_lengths (year x)) =
      (month x, day x)"
    using assms month_lengths_pos find_month_unique [of "nat (month x - 1)" "month_lengths (year x)" "day x" 1]
    by (fastforce simp: valid_date_def days_before_month_def days_in_month_def)
  then show ?thesis
    using valid_to_ordinal [OF assms] y
    by (simp add: from_ordinal_def Let_def to_ordinal_def)
qed

lemma to_ordinal_inj: "valid_date x \<Longrightarrow> valid_date y \<Longrightarrow> to_ordinal x = to_ordinal y \<Longrightarrow> x = y"
  by (metis from_to_ordinal sum.inject(2))

section \<open>ISO weeks\<close>

lemma iso_week1_monday_bounds:
  "days_before_year y - 2 \<le> iso_week1_monday y" "iso_week1_monday y \<le> days_before_year y + 4"
  "iso_week1_monday y mod 7 = 1"
  by (auto simp: iso_week1_monday_def weekday_of_def Let_def) presburger+

lemma weeks_length: "iso_week1_monday (y + 1) = iso_week1_monday y + 7 * weeks_in_iso_year y"
  using iso_week1_monday_bounds(3) [of y] iso_week1_monday_bounds(3) [of "y + 1"]
  unfolding weeks_in_iso_year_def by presburger

lemma iso_week1_monday_eq:
  "iso_week1_monday y = days_before_year y + 1 - days_before_year y mod 7 +
     (if days_before_year y mod 7 > 3 then 7 else 0)"
proof -
  have "(days_before_year y + 1 + 6) mod 7 = days_before_year y mod 7" by presburger
  then show ?thesis by (simp add: iso_week1_monday_def weekday_of_def Let_def)
qed

lemma weeks_from_residue:
  fixes f l :: int
  assumes "l = 365 \<or> l = 366"
  shows "(f + l + 1 - (f + l) mod 7 + (if (f + l) mod 7 > 3 then 7 else 0)) -
      (f + 1 - f mod 7 + (if f mod 7 > 3 then 7 else 0)) =
    (if (f + 1) mod 7 = 4 \<or> ((f + 1) mod 7 = 3 \<and> l = 366) then 371 else 364)"
proof -
  obtain q r where f: "f = 7 * q + r" and r: "0 \<le> r" "r < 7"
    using mult_div_mod_eq [of 7 f] pos_mod_bound [of 7 f] pos_mod_sign [of 7 f]
    by (metis zero_less_numeral)
  have m: "(7 * q + c) mod 7 = c mod 7" for c by simp
  have "r = 0 \<or> r = 1 \<or> r = 2 \<or> r = 3 \<or> r = 4 \<or> r = 5 \<or> r = 6" using r by presburger
  then show ?thesis using assms unfolding f add.assoc m by auto
qed

lemma weeks_in_iso_year_cases:
  "weeks_in_iso_year y =
     (if (let first = (days_before_year y + 1) mod 7 in first = 4 \<or> (first = 3 \<and> is_leap y))
      then 53 else 52)"
proof -
  have "days_in_year y = 365 \<or> days_in_year y = 366" by (simp add: days_in_year_def)
  from weeks_from_residue [OF this, of "days_before_year y"]
  have "iso_week1_monday (y + 1) - iso_week1_monday y =
    (if (days_before_year y + 1) mod 7 = 4 \<or>
        ((days_before_year y + 1) mod 7 = 3 \<and> is_leap y) then 371 else 364)"
    unfolding iso_week1_monday_eq days_before_year_Suc
    by (simp add: days_in_year_def split: if_splits)
  then show ?thesis by (simp add: weeks_in_iso_year_def Let_def)
qed

text \<open>
  The heart of the calendar: a day that lies in the ISO year \<open>y\<close>, counted from its week 1
  Monday, has that year, week and weekday as its ISO calendar date.
\<close>

lemma isocalendar_eq:
  assumes v: "valid_date x"
    and lo: "iso_week1_monday y \<le> to_ordinal x" and hi: "to_ordinal x < iso_week1_monday (y + 1)"
  shows "isocalendar x = (y, (to_ordinal x - iso_week1_monday y) div 7 + 1,
    (to_ordinal x - iso_week1_monday y) mod 7 + 1)"
proof -
  let ?n = "to_ordinal x" and ?z = "year x"
  have n: "days_before_year ?z < ?n" "?n \<le> days_before_year (?z + 1)"
    using valid_to_ordinal [OF v] by auto
  have "y = ?z - 1 \<or> y = ?z \<or> y = ?z + 1"
  proof (rule ccontr)
    assume "\<not> ?thesis"
    then consider "y \<le> ?z - 2" | "?z + 2 \<le> y" by linarith
    then show False
    proof cases
      case 1
      then have "iso_week1_monday (y + 1) \<le> days_before_year ?z"
        using iso_week1_monday_bounds(2) [of "y + 1"] days_before_year_mono [of "y + 1" ?z] by simp
      with hi n show False by linarith
    next
      case 2
      then have "days_before_year (?z + 1) < iso_week1_monday y"
        using iso_week1_monday_bounds(1) [of y] days_before_year_mono [of "?z + 1" y] by simp
      with lo n show False by linarith
    qed
  qed
  moreover have w52: "52 \<le> (?n - iso_week1_monday ?z) div 7" if "y = ?z + 1"
    using that lo weeks_length [of ?z] weeks_in_iso_year_cases [of ?z] by (simp split: if_splits)
  moreover have "(?n - iso_week1_monday ?z) div 7 < 0 \<longleftrightarrow> ?n < iso_week1_monday ?z" by linarith
  moreover have "(?n - iso_week1_monday (?z + 1)) div 7 = 0" if "y = ?z + 1"
    using that lo n(2) iso_week1_monday_bounds(1) [of "?z + 1"] by simp
  moreover have "(?n - iso_week1_monday ?z) mod 7 = (?n - iso_week1_monday (?z + 1)) mod 7"
  proof -
    have "?n - iso_week1_monday (?z + 1) =
        ?n - iso_week1_monday ?z + 7 * (- weeks_in_iso_year ?z)"
      using weeks_length [of ?z] by simp
    then show ?thesis by (simp only: mod_mult_self2)
  qed
  ultimately show ?thesis
    using lo hi by (auto simp: isocalendar_def Let_def)
qed

lemma isocalendar_fromisocalendar:
  assumes "fromisocalendar y w d = Inr x"
  shows "valid_date x \<and> isocalendar x = (y, w, d)"
proof -
  have w: "1 \<le> w" "w \<le> weeks_in_iso_year y" and d: "1 \<le> d" "d \<le> 7"
    using assms weeks_in_iso_year_cases [of y]
    by (auto simp: fromisocalendar_def Let_def split: if_splits sum.splits)
  have f: "from_ordinal (iso_week1_monday y + (w - 1) * 7 + (d - 1)) = Inr x"
    using assms by (auto simp: fromisocalendar_def split: if_splits sum.splits)
  then have "1 \<le> iso_week1_monday y + (w - 1) * 7 + (d - 1)"
      "iso_week1_monday y + (w - 1) * 7 + (d - 1) \<le> max_ordinal"
    by (auto simp: from_ordinal_def split: if_splits)
  from from_ordinal_ok [OF this] f
  have v: "valid_date x" and o: "to_ordinal x = iso_week1_monday y + (w - 1) * 7 + (d - 1)" by auto
  have "isocalendar x = (y, (to_ordinal x - iso_week1_monday y) div 7 + 1,
      (to_ordinal x - iso_week1_monday y) mod 7 + 1)"
    using w d o weeks_length [of y] by (intro isocalendar_eq [OF v]) auto
  moreover have "((w - 1) * 7 + (d - 1)) div 7 = w - 1" "((w - 1) * 7 + (d - 1)) mod 7 = d - 1"
    using d by presburger+
  ultimately show ?thesis using v o by (simp add: algebra_simps)
qed

lemma iso_week1_mono: "x < y \<Longrightarrow> iso_week1_monday (x + 1) \<le> iso_week1_monday y"
proof (induction y rule: int_gr_induct)
  case (step y)
  have "0 \<le> weeks_in_iso_year y" by (simp add: weeks_in_iso_year_cases)
  with step show ?case using weeks_length [of y] by simp
qed simp

text \<open>Facts that evaluate the calendar on concrete arguments.\<close>

lemmas calendar_eval =
  mk_date_def days_in_month_def days_before_month_def to_ordinal_def add_days_def
  fromisocalendar_def isocalendar_def days_before_year_def iso_week1_monday_def weekday_of_def
  from_ordinal_def year_of_ordinal_def month_lengths_def is_leap_def max_ordinal_def Let_def

end
