(* ===== verification/Partition_Codec.thy ===== *)
theory Partition_Codec
  imports Calendar
begin

text \<open>
  \<open>src/onetruth/domain/partition_codec.py\<close> and \<open>logistics_calendar.py\<close>: the typed
  partition keys (planning weeks, service dates, pay periods), their validation, the
  transforms between them, and the calendar policy that sends a service date's reporting
  actuals to the next ISO planning week. Definitions first; then the weeks and days of a
  planning week, the round trip between them, and the laws of the next-week policy.
\<close>

section \<open>Keys and transform contracts\<close>

definition lit :: "string \<Rightarrow> atom list" where
  "lit s = map Lit s"

definition partition_pattern :: "string \<Rightarrow> atom list option" where
  "partition_pattern = map_of
     [(''AvailabilityRequestID'', lit ''AR-'' @ replicate 8 Dig @ lit ''-'' @ replicate 4 Dig),
      (''PlanningWeekID'', lit ''PW-'' @ replicate 4 Dig @ lit ''-W'' @ replicate 2 Dig),
      (''ServiceDateID'',
         lit ''SD-'' @ replicate 4 Dig @ lit ''-'' @ replicate 2 Dig @ lit ''-'' @ replicate 2 Dig),
      (''PayPeriodID'', lit ''PP-'' @ replicate 4 Dig @ lit ''-W'' @ replicate 2 Dig),
      (''ScheduleDateID'',
         lit ''SD-'' @ replicate 4 Dig @ lit ''-'' @ replicate 2 Dig @ lit ''-'' @ replicate 2 Dig)]"

definition validate_partition_key :: "string \<Rightarrow> string \<Rightarrow> unit result" where
  "validate_partition_key kind key =
     (case partition_pattern kind of
        None \<Rightarrow> Inl PartitionCodecError
      | Some p \<Rightarrow> require (match_dollar (fullmatch p) key) PartitionCodecError)"

record transform_contract =
  implementation_ref :: string
  source_kind :: string
  target_kind :: string
  shape :: string

definition known_transform_contracts :: "string \<Rightarrow> transform_contract option" where
  "known_transform_contracts = map_of (map (\<lambda>(r, s, t, h).
       (r, \<lparr>implementation_ref = r, source_kind = s, target_kind = t, shape = h\<rparr>))
     [(''partition_codec.planning_week_to_service_days.v1'',
         ''PlanningWeekID'', ''ServiceDateID'', ''one_to_many''),
      (''partition_codec.availability_dates_to_planning_weeks.v1'',
         ''AvailabilityRequestID'', ''PlanningWeekID'', ''one_to_many''),
      (''partition_codec.service_day_to_future_planning_week.v1'',
         ''ServiceDateID'', ''PlanningWeekID'', ''one_to_one''),
      (''partition_codec.service_day_to_pay_period.v1'',
         ''ServiceDateID'', ''PayPeriodID'', ''many_to_one'')])"

definition validate_transform_contract ::
  "string \<Rightarrow> string \<Rightarrow> string \<Rightarrow> string \<Rightarrow> unit result" where
  "validate_transform_contract ref src tgt shp =
     (case known_transform_contracts ref of
        None \<Rightarrow> Inl PartitionCodecError
      | Some known \<Rightarrow>
          if source_kind known \<noteq> src \<or> target_kind known \<noteq> tgt \<or> shape known \<noteq> shp
          then Inl PartitionCodecError else Inr ())"

section \<open>Transforms\<close>

text \<open>The groups of a matched key: years at offset 3, then the two-digit fields.\<close>

definition group_val :: "nat \<Rightarrow> nat \<Rightarrow> string \<Rightarrow> int" where
  "group_val start len s = int (digits_val (take len (drop start s)))"

definition to_service_date_id :: "date \<Rightarrow> string" where
  "to_service_date_id x =
     ''SD-'' @ pad 4 (nat (year x)) @ ''-'' @ pad 2 (nat (month x)) @ ''-'' @ pad 2 (nat (day x))"

definition planning_week_to_service_days :: "string \<Rightarrow> string list result" where
  "planning_week_to_service_days k =
     rbind (validate_partition_key ''PlanningWeekID'' k) (\<lambda>_.
       let y = group_val 3 4 k; w = group_val 9 2 k
       in map_result (\<lambda>d. rbind (fromisocalendar y w d) (\<lambda>x. Inr (to_service_date_id x)))
            [1, 2, 3, 4, 5, 6, 7])"

definition week_id :: "string \<Rightarrow> int \<Rightarrow> int \<Rightarrow> string" where
  "week_id p y w = p @ pad 4 (nat y) @ ''-W'' @ pad 2 (nat w)"

definition planning_week_id_for_date :: "date \<Rightarrow> string" where
  "planning_week_id_for_date x = (let (y, w, _) = isocalendar x in week_id ''PW-'' y w)"

definition parse_service_date_id :: "string \<Rightarrow> date result" where
  "parse_service_date_id k =
     rbind (validate_partition_key ''ServiceDateID'' k)
       (\<lambda>_. mk_date (group_val 3 4 k) (group_val 8 2 k) (group_val 11 2 k))"

definition service_day_to_planning_week :: "string \<Rightarrow> string result" where
  "service_day_to_planning_week k =
     rbind (parse_service_date_id k) (\<lambda>x. Inr (planning_week_id_for_date x))"

definition service_day_to_pay_period :: "string \<Rightarrow> string result" where
  "service_day_to_pay_period k =
     rbind (parse_service_date_id k) (\<lambda>x. let (y, w, _) = isocalendar x in Inr (week_id ''PP-'' y w))"

definition service_day_to_next_planning_week :: "string \<Rightarrow> string result" where
  "service_day_to_next_planning_week k =
     rbind (parse_service_date_id k) (\<lambda>x.
       rbind (add_days x 7) (\<lambda>y. Inr (planning_week_id_for_date y)))"

definition service_day_to_future_planning_week :: "string \<Rightarrow> string result" where
  "service_day_to_future_planning_week k = service_day_to_next_planning_week k"

section \<open>The calendar policy\<close>

record planning_cycle_resolution =
  pc_service_date_id :: string
  pc_service_date :: string
  pc_same_week :: string
  pc_future_week :: string
  pc_target_week :: string
  pc_target_relation :: string
  pc_policy_id :: string
  pc_calendar_policy_id :: string

definition planning_cycle_for_service_date :: "string \<Rightarrow> planning_cycle_resolution result" where
  "planning_cycle_for_service_date k =
     rbind (parse_service_date_id k) (\<lambda>x.
       let same = planning_week_id_for_date x
       in rbind (add_days x 7) (\<lambda>x7.
         let future = planning_week_id_for_date x7
         in Inr \<lparr>pc_service_date_id = k, pc_service_date = isoformat x, pc_same_week = same,
                 pc_future_week = future, pc_target_week = future,
                 pc_target_relation = ''next_iso_planning_week'',
                 pc_policy_id = ''reporting_actuals_to_next_planning_week.v1'',
                 pc_calendar_policy_id = ''logistics_calendar_policy.v1''\<rparr>))"

definition reporting_actuals_target_planning_week :: "string \<Rightarrow> string result" where
  "reporting_actuals_target_planning_week k =
     rbind (planning_cycle_for_service_date k) (\<lambda>r. Inr (pc_target_week r))"

definition planning_week_service_dates :: "string \<Rightarrow> string list result" where
  "planning_week_service_dates k =
     rbind (validate_partition_key ''PlanningWeekID'' k) (\<lambda>_. planning_week_to_service_days k)"

record late_reporting_policy =
  lr_boundary_profile :: string
  lr_replace_on_conflict_allowed :: bool
  lr_policy_id :: string
  lr_conflict_code :: string

definition late_reporting_policy_for_boundary :: "string \<Rightarrow> late_reporting_policy" where
  "late_reporting_policy_for_boundary profile =
     (let p = (if py_strip profile = [] then ''shared_env'' else py_strip profile)
      in \<lparr>lr_boundary_profile = p,
          lr_replace_on_conflict_allowed = (p \<in> {''ci_test'', ''local_dev''}),
          lr_policy_id = ''late_reporting_to_planning_input.v1'',
          lr_conflict_code = ''late_reporting_handoff_conflict''\<rparr>)"

section \<open>Lemmas\<close>

lemma length_lit [simp]: "length (lit s) = length s"
  by (simp add: lit_def)

lemma fullmatch_lit [simp]: "fullmatch (lit s) t \<longleftrightarrow> t = s"
  by (induction s arbitrary: t) (auto simp: fullmatch_def lit_def list_all2_Cons1)

lemma validate_service_date [simp]:
  "validate_partition_key ''ServiceDateID'' k = Inr u \<longleftrightarrow>
     match_dollar (fullmatch (lit ''SD-'' @ replicate 4 Dig @ lit ''-'' @ replicate 2 Dig @
       lit ''-'' @ replicate 2 Dig)) k"
  by (simp add: validate_partition_key_def partition_pattern_def)

lemma validate_planning_week [simp]:
  "validate_partition_key ''PlanningWeekID'' k = Inr u \<longleftrightarrow>
     match_dollar (fullmatch (lit ''PW-'' @ replicate 4 Dig @ lit ''-W'' @ replicate 2 Dig)) k"
  by (simp add: validate_partition_key_def partition_pattern_def)

lemma fullmatch_pad: "n < 10 ^ w \<Longrightarrow> 0 < w \<Longrightarrow> fullmatch (replicate w Dig) (pad w n)"
  by (intro fullmatch_digits) (auto simp: length_pad dest: pad_digits)

lemma valid_date_ranges:
  assumes "valid_date x"
  shows "nat (year x) < 10 ^ 4" "nat (month x) < 10 ^ 2" "nat (day x) < 10 ^ 2"
proof -
  have "nat (month x - 1) < length (month_lengths (year x))"
    using assms unfolding valid_date_def by (simp, linarith)
  then have "days_in_month (year x) (month x) \<le> 31"
    using month_lengths_pos [OF nth_mem] by (simp add: days_in_month_def)
  then show "nat (year x) < 10 ^ 4" "nat (month x) < 10 ^ 2" "nat (day x) < 10 ^ 2"
    using assms by (auto simp: valid_date_def)
qed

lemma mk_date_valid: "mk_date y m d = Inr x \<longleftrightarrow> valid_date x \<and> year x = y \<and> month x = m \<and> day x = d"
  by (cases x) (auto simp: mk_date_def valid_date_def)

text \<open>Rendering a date and parsing it back.\<close>

lemma parse_to_service_date_id:
  assumes "valid_date x"
  shows "parse_service_date_id (to_service_date_id x) = Inr x"
proof -
  note r = valid_date_ranges [OF assms]
  have p: "fullmatch (replicate 4 Dig) (pad 4 (nat (year x)))"
      "fullmatch (replicate 2 Dig) (pad 2 (nat (month x)))"
      "fullmatch (replicate 2 Dig) (pad 2 (nat (day x)))"
    using r by (auto intro: fullmatch_pad)
  have l: "length (pad 4 (nat (year x))) = 4" "length (pad 2 (nat (month x))) = 2"
      "length (pad 2 (nat (day x))) = 2"
    using r by (auto intro: length_pad)
  have "fullmatch (lit ''SD-'' @ replicate 4 Dig @ lit ''-'' @ replicate 2 Dig @ lit ''-'' @ replicate 2 Dig)
      (to_service_date_id x)"
    unfolding to_service_date_id_def using p l
    by (simp add: fullmatch_append del: append_Cons)
  then have m: "match_dollar (fullmatch (lit ''SD-'' @ replicate 4 Dig @ lit ''-'' @ replicate 2 Dig @
      lit ''-'' @ replicate 2 Dig)) (to_service_date_id x)"
    by (simp add: match_dollar_def)
  then have v: "validate_partition_key ''ServiceDateID'' (to_service_date_id x) = Inr ()"
    by simp
  have "group_val 3 4 (to_service_date_id x) = year x" "group_val 8 2 (to_service_date_id x) = month x"
      "group_val 11 2 (to_service_date_id x) = day x"
    using l assms by (simp_all add: group_val_def to_service_date_id_def valid_date_def)
  moreover have "mk_date (year x) (month x) (day x) = Inr x"
    using mk_date_valid assms by blast
  ultimately show ?thesis unfolding parse_service_date_id_def v by simp
qed

lemma parse_valid: "parse_service_date_id k = Inr x \<Longrightarrow> valid_date x"
  by (auto simp: parse_service_date_id_def rbind_eq_Inr mk_date_valid)

text \<open>
  The ISO calendar date of a valid date determines its ordinal, so the days of one ISO week
  are seven consecutive ordinals and a week later is the next ISO week.
\<close>

lemma isocalendar_ordinal:
  assumes v: "valid_date x" and iso: "isocalendar x = (y, w, d)"
  shows "to_ordinal x = iso_week1_monday y + (w - 1) * 7 + (d - 1)" "1 \<le> d" "d \<le> 7" "1 \<le> w" "1 \<le> y"
    "iso_week1_monday y \<le> to_ordinal x" "to_ordinal x < iso_week1_monday (y + 1)"
    "w \<le> weeks_in_iso_year y"
proof -
  let ?n = "to_ordinal x" and ?z = "year x"
  have n: "days_before_year ?z < ?n" "?n \<le> days_before_year (?z + 1)"
    using valid_to_ordinal [OF v] by auto
  have b: "iso_week1_monday (?z - 1) \<le> ?n" "?n < iso_week1_monday (?z + 2)"
    using n iso_week1_monday_bounds(2) [of "?z - 1"] days_before_year_mono [of "?z - 1" ?z]
      iso_week1_monday_bounds(1) [of "?z + 2"] days_before_year_mono [of "?z + 1" "?z + 2"] by auto
  have "\<exists>u. iso_week1_monday u \<le> ?n \<and> ?n < iso_week1_monday (u + 1)"
  proof (cases "?n < iso_week1_monday ?z")
    case True
    then show ?thesis using b by (intro exI [of _ "?z - 1"]) simp
  next
    case F: False
    show ?thesis
    proof (cases "?n < iso_week1_monday (?z + 1)")
      case True
      then show ?thesis using F by (intro exI [of _ ?z]) simp
    next
      case False
      then show ?thesis using b by (intro exI [of _ "?z + 1"]) (simp add: add.assoc)
    qed
  qed
  then obtain u where u: "iso_week1_monday u \<le> ?n" "?n < iso_week1_monday (u + 1)" by blast
  have yu: "y = u" and w: "w = (?n - iso_week1_monday u) div 7 + 1"
    and d: "d = (?n - iso_week1_monday u) mod 7 + 1"
    using isocalendar_eq [OF v u] iso by auto
  show "?n = iso_week1_monday y + (w - 1) * 7 + (d - 1)" "1 \<le> d" "d \<le> 7" "1 \<le> w"
    using u unfolding yu w d by (simp_all add: minus_mod_eq_div_mult [symmetric] pos_imp_zdiv_nonneg_iff)
  show "iso_week1_monday y \<le> ?n" "?n < iso_week1_monday (y + 1)" using u yu by auto
  show "w \<le> weeks_in_iso_year y" using u weeks_length [of u] unfolding yu w by simp
  have "\<not> u \<le> 0"
  proof
    assume "u \<le> 0"
    then have "iso_week1_monday (u + 1) \<le> 1"
      using iso_week1_monday_bounds(2) [of "u + 1"] days_before_year_mono [of "u + 1" 1]
      by (cases "u = 0") (auto simp: iso_week1_monday_def weekday_of_def days_before_year_def [of 1])
    then show False using u(2) valid_to_ordinal(3) [OF v] by simp
  qed
  then show "1 \<le> y" using yu by simp
qed

lemma week_id_inj:
  assumes "0 \<le> y" "y < 10000" "0 \<le> y'" "y' < 10000" "0 \<le> w" "0 \<le> w'" "week_id p y w = week_id p y' w'"
  shows "y = y' \<and> w = w'"
proof -
  have l: "length (pad 4 (nat y)) = 4" "length (pad 4 (nat y')) = 4"
    using assms by (auto intro!: length_pad)
  then have "pad 4 (nat y) = pad 4 (nat y')" "pad 2 (nat w) = pad 2 (nat w')"
    using assms(7) by (auto simp: week_id_def)
  then show ?thesis using assms pad_inj by (metis nat_eq_iff2)
qed

lemma iso_year_le: "valid_date x \<Longrightarrow> isocalendar x = (y, w, d) \<Longrightarrow> y \<le> 9999 \<and> w \<le> 53"
proof -
  assume v: "valid_date x" and iso: "isocalendar x = (y, w, d)"
  note o = isocalendar_ordinal [OF v iso]
  have "iso_week1_monday 10000 = max_ordinal + 3"
    by (simp add: iso_week1_monday_def weekday_of_def days_before_9999 max_ordinal_def Let_def)
  then have "\<not> 10000 \<le> y"
    using o(6) valid_to_ordinal(4) [OF v] iso_week1_monday_bounds(1) [of y]
      days_before_year_mono [of 10001 y] days_before_year_mono [of 10000 10001] days_before_9999
    by (cases "y = 10000") auto
  moreover have "w \<le> 53"
    using o weeks_length [of y] weeks_in_iso_year_cases [of y] by (simp split: if_splits)
  ultimately show ?thesis by simp
qed

lemma digits_val_inj:
  "length s = length t \<Longrightarrow> \<forall>c\<in>set s. is_digit c \<Longrightarrow> \<forall>c\<in>set t. is_digit c \<Longrightarrow>
     digits_val s = digits_val t \<Longrightarrow> s = t"
proof (induction s arbitrary: t rule: rev_induct)
  case (snoc c s)
  then obtain t' d where t: "t = t' @ [d]" by (cases t rule: rev_cases) auto
  have b: "digit_val c < 10" "digit_val d < 10" "c = char_of (digit_val c + 48)" "d = char_of (digit_val d + 48)"
    using snoc.prems t by (auto simp: is_digit_def digit_val_def)
  have e: "10 * digits_val s + digit_val c = 10 * digits_val t' + digit_val d"
    using snoc.prems(4) t by simp
  then have "digit_val c = digit_val d" "digits_val s = digits_val t'" using b by presburger+
  with snoc t b show ?case by (metis append1_eq_conv butlast_snoc in_set_butlastD length_append_singleton nat.inject)
qed simp

lemma digits_val_bound: "\<forall>c\<in>set s. is_digit c \<Longrightarrow> digits_val s < 10 ^ length s"
proof (induction s rule: rev_induct)
  case (snoc c s)
  then have "digit_val c < 10" by (auto simp: is_digit_def digit_val_def)
  with snoc show ?case by auto
qed simp

lemma pad_digits_val:
  assumes "s \<noteq> []" and "\<forall>c\<in>set s. is_digit c"
  shows "pad (length s) (digits_val s) = s"
proof (rule digits_val_inj)
  show "length (pad (length s) (digits_val s)) = length s"
    using assms digits_val_bound by (intro length_pad) auto
qed (use assms in \<open>auto dest: pad_digits\<close>)

lemma fullmatch_replicate_digits: "fullmatch (replicate n Dig) s \<longleftrightarrow> length s = n \<and> (\<forall>c\<in>set s. is_digit c)"
  by (metis fullmatch_digits fullmatch_length length_replicate atom_ok.simps(2) fullmatch_def
      in_set_conv_nth list_all2_nthD2 nth_replicate)

lemma fullmatch_append_iff:
  "fullmatch (ps @ qs) s \<longleftrightarrow> fullmatch ps (take (length ps) s) \<and> fullmatch qs (drop (length ps) s)"
proof (cases "length ps \<le> length s")
  case True
  then show ?thesis
    using fullmatch_append [of "take (length ps) s" ps qs "drop (length ps) s"] by simp
next
  case False
  then show ?thesis by (auto dest: fullmatch_length)
qed

lemma match_dollar_take:
  assumes "match_dollar (fullmatch p) s"
  shows "fullmatch p (take (length p) s)"
proof (cases "fullmatch p s")
  case True
  then show ?thesis using fullmatch_length by fastforce
next
  case False
  then have "s \<noteq> []" "fullmatch p (butlast s)" using assms by (auto simp: match_dollar_def)
  then show ?thesis
    by (metis append_butlast_last_id fullmatch_length append_eq_conv_conj)
qed

lemma split_key: "t = take 3 t @ take 4 (drop 3 t) @ take 2 (drop 7 t) @ drop 9 t"
proof -
  have "drop 7 t = take 2 (drop 7 t) @ drop 9 t"
    using append_take_drop_id [of 2 "drop 7 t", symmetric] by simp
  moreover have "drop 3 t = take 4 (drop 3 t) @ drop 7 t"
    using append_take_drop_id [of 4 "drop 3 t", symmetric] by simp
  ultimately show ?thesis using append_take_drop_id [of 3 t, symmetric] by simp
qed

lemma week_pattern_parts:
  assumes "fullmatch (lit ''PW-'' @ replicate 4 Dig @ lit ''-W'' @ replicate 2 Dig) t"
  shows "take 3 t = ''PW-''" "take 2 (drop 7 t) = ''-W''"
    "length (take 4 (drop 3 t)) = 4" "\<forall>c\<in>set (take 4 (drop 3 t)). is_digit c"
    "length (drop 9 t) = 2" "\<forall>c\<in>set (drop 9 t). is_digit c"
proof -
  have "fullmatch (lit ''PW-'') (take 3 t)" "fullmatch (replicate 4 Dig) (take 4 (drop 3 t))"
      "fullmatch (lit ''-W'') (take 2 (drop 7 t))" "fullmatch (replicate 2 Dig) (drop 9 t)"
    using assms unfolding fullmatch_append_iff by (simp_all add: numeral_eq_Suc)
  then show "take 3 t = ''PW-''" "take 2 (drop 7 t) = ''-W''"
    "length (take 4 (drop 3 t)) = 4" "\<forall>c\<in>set (take 4 (drop 3 t)). is_digit c"
    "length (drop 9 t) = 2" "\<forall>c\<in>set (drop 9 t). is_digit c"
    unfolding fullmatch_replicate_digits fullmatch_lit by blast+
qed

lemma planning_week_groups:
  assumes "match_dollar (fullmatch (lit ''PW-'' @ replicate 4 Dig @ lit ''-W'' @ replicate 2 Dig)) k"
  shows "week_id ''PW-'' (group_val 3 4 k) (group_val 9 2 k) = take 11 k"
proof -
  define t where "t = take 11 k"
  have m: "fullmatch (lit ''PW-'' @ replicate 4 Dig @ lit ''-W'' @ replicate 2 Dig) t"
    using match_dollar_take [OF assms] by (simp add: t_def)
  note p = week_pattern_parts [OF m]
  have g: "take 4 (drop 3 k) = take 4 (drop 3 t)" "take 2 (drop 9 k) = drop 9 t"
    by (simp_all add: t_def drop_take)
  have "pad 4 (digits_val (take 4 (drop 3 t))) = take 4 (drop 3 t)"
    using pad_digits_val [of "take 4 (drop 3 t)"] p(3,4) by force
  moreover have "pad 2 (digits_val (drop 9 t)) = drop 9 t"
    using pad_digits_val [of "drop 9 t"] p(5,6) by force
  ultimately show ?thesis
    unfolding week_id_def group_val_def g nat_int t_def [symmetric]
    using split_key [of t] p(1,2) by simp
qed

lemma service_days_nth:
  assumes "planning_week_to_service_days k = Inr days"
  shows "length days = 7"
    and "i < 7 \<Longrightarrow> \<exists>x. valid_date x \<and> days ! i = to_service_date_id x \<and>
      isocalendar x = (group_val 3 4 k, group_val 9 2 k, int i + 1)"
proof -
  let ?f = "\<lambda>d. rbind (fromisocalendar (group_val 3 4 k) (group_val 9 2 k) d)
    (\<lambda>x. Inr (to_service_date_id x))"
  have a: "list_all2 (\<lambda>d s. ?f d = Inr s) [1, 2, 3, 4, 5, 6, 7] days"
    using assms by (simp only: planning_week_to_service_days_def rbind_eq_Inr Let_def map_result_Inr) auto
  then show l: "length days = 7" using list_all2_lengthD by fastforce
  assume i: "i < 7"
  then have "[1, 2, 3, 4, 5, 6, 7] ! i = int i + 1"
    by (simp add: less_Suc_eq numeral_eq_Suc) (elim disjE, simp_all)
  then have "?f (int i + 1) = Inr (days ! i)"
    using list_all2_nthD2 [OF a, of i] i l by simp
  then show "\<exists>x. valid_date x \<and> days ! i = to_service_date_id x \<and>
      isocalendar x = (group_val 3 4 k, group_val 9 2 k, int i + 1)"
    by (auto simp: rbind_eq_Inr dest!: isocalendar_fromisocalendar)
qed

lemma service_day_of_date:
  assumes "valid_date x"
  shows "service_day_to_planning_week (to_service_date_id x) = Inr (planning_week_id_for_date x)"
  using parse_to_service_date_id [OF assms] by (simp add: service_day_to_planning_week_def)

text \<open>Facts that evaluate the key checks and field groups on concrete keys.\<close>

lemmas key_eval = validate_partition_key_def partition_pattern_def match_dollar_def fullmatch_def lit_def is_digit_def group_val_def
  digits_val_def digit_val_def numeral_eq_Suc

text \<open>Concrete dates of the ISO week 12 of 2026, for the witnesses.\<close>

lemma pads:
  "pad 4 2026 = ''2026''" "pad 2 3 = ''03''" "pad 2 12 = ''12''" "pad 2 13 = ''13''"
  "pad 2 16 = ''16''" "pad 2 17 = ''17''" "pad 2 18 = ''18''" "pad 2 19 = ''19''"
  "pad 2 20 = ''20''" "pad 2 21 = ''21''" "pad 2 22 = ''22''"
  by code_simp+

lemma year_2026:
  "days_before_year 2026 = 739616" "iso_week1_monday 2026 = 739614" "is_leap 2026 = False"
proof -
  show a: "days_before_year 2026 = 739616" by (simp add: days_before_year_def)
  show "iso_week1_monday 2026 = 739614" by (simp add: iso_week1_monday_eq a)
  show "is_leap 2026 = False" by (simp add: is_leap_def)
qed

lemma week_12_dates:
  assumes "d \<in> {1, 2, 3, 4, 5, 6, 7}"
  shows "fromisocalendar 2026 12 d = Inr \<lparr>year = 2026, month = 3, day = 15 + d\<rparr>"
proof -
  have "year_of_ordinal (739690 + d) = 2026" 
    using assms by (intro year_of_ordinal_unique) (auto simp: year_2026 days_before_year_def [of 2027])
  then have "from_ordinal (739690 + d) = Inr \<lparr>year = 2026, month = 3, day = 15 + d\<rparr>"
    using assms by (auto simp: from_ordinal_def year_2026 max_ordinal_def month_lengths_def Let_def)
  then show ?thesis
    using assms by (auto simp: fromisocalendar_def year_2026)
qed

lemma week_12_days:
  "planning_week_to_service_days ''PW-2026-W12'' =
    Inr [''SD-2026-03-16'', ''SD-2026-03-17'', ''SD-2026-03-18'', ''SD-2026-03-19'',
      ''SD-2026-03-20'', ''SD-2026-03-21'', ''SD-2026-03-22'']"
proof -
  have v: "validate_partition_key ''PlanningWeekID'' ''PW-2026-W12'' = Inr ()"
    by (simp add: key_eval)
  have g: "group_val 3 4 ''PW-2026-W12'' = 2026" "group_val 9 2 ''PW-2026-W12'' = 12"
    by (simp_all add: group_val_def digits_val_def digit_val_def)
  show ?thesis
    by (simp add: planning_week_to_service_days_def v g week_12_dates to_service_date_id_def pads)
qed

lemma march_16_17:
  "parse_service_date_id ''SD-2026-03-16'' = Inr \<lparr>year = 2026, month = 3, day = 16\<rparr>"
  "parse_service_date_id ''SD-2026-03-17'' = Inr \<lparr>year = 2026, month = 3, day = 17\<rparr>"
  by (simp_all add: parse_service_date_id_def key_eval mk_date_def days_in_month_def month_lengths_def)

lemma march_weeks:
  assumes "d \<in> {16, 17}"
  shows "planning_week_id_for_date \<lparr>year = 2026, month = 3, day = d\<rparr> = ''PW-2026-W12''"
    "add_days \<lparr>year = 2026, month = 3, day = d\<rparr> 7 = Inr \<lparr>year = 2026, month = 3, day = d + 7\<rparr>"
    "planning_week_id_for_date \<lparr>year = 2026, month = 3, day = d + 7\<rparr> = ''PW-2026-W13''"
proof -
  have o: "to_ordinal \<lparr>year = 2026, month = 3, day = e\<rparr> = 739675 + e" for e
    by (simp add: to_ordinal_def year_2026 days_before_month_def month_lengths_def)
  have y: "year_of_ordinal (739682 + d) = 2026"
    using assms by (intro year_of_ordinal_unique) (auto simp: year_2026 days_before_year_def [of 2027])
  show "planning_week_id_for_date \<lparr>year = 2026, month = 3, day = d\<rparr> = ''PW-2026-W12''"
    "planning_week_id_for_date \<lparr>year = 2026, month = 3, day = d + 7\<rparr> = ''PW-2026-W13''"
    using assms by (auto simp: planning_week_id_for_date_def isocalendar_def o year_2026 week_id_def pads)
  show "add_days \<lparr>year = 2026, month = 3, day = d\<rparr> 7 = Inr \<lparr>year = 2026, month = 3, day = d + 7\<rparr>"
    using assms y
    by (auto simp: add_days_def o from_ordinal_def year_2026 max_ordinal_def month_lengths_def Let_def)
qed

text \<open>
  C38: expanding a planning week gives seven different service dates, and each of them belongs
  to exactly that planning week (the id without a trailing line feed, which the key check
  tolerates).
\<close>

theorem planning_week_days_roundtrip:
  assumes "planning_week_to_service_days k = Inr days"
  shows "length days = 7 \<and> distinct days \<and>
    (\<forall>d\<in>set days. service_day_to_planning_week d = Inr (take 11 k))"
proof (intro conjI)
  note days = service_days_nth [OF assms]
  show "length days = 7" by (rule days(1))
  have "match_dollar (fullmatch (lit ''PW-'' @ replicate 4 Dig @ lit ''-W'' @ replicate 2 Dig)) k"
    using assms by (auto simp: planning_week_to_service_days_def rbind_eq_Inr)
  note key = planning_week_groups [OF this]
  show "\<forall>d\<in>set days. service_day_to_planning_week d = Inr (take 11 k)"
  proof
    fix d assume "d \<in> set days"
    then obtain i where "i < 7" "d = days ! i" using days(1) by (auto simp: in_set_conv_nth)
    then obtain x where "valid_date x" "d = to_service_date_id x"
        "isocalendar x = (group_val 3 4 k, group_val 9 2 k, int i + 1)"
      using days(2) by blast
    then show "service_day_to_planning_week d = Inr (take 11 k)"
      using service_day_of_date key by (simp add: planning_week_id_for_date_def)
  qed
  show "distinct days"
    unfolding distinct_conv_nth days(1)
  proof (intro allI impI)
    fix i j :: nat assume ij: "i < 7" "j < 7" "i \<noteq> j"
    obtain x y where "valid_date x" "days ! i = to_service_date_id x"
        "isocalendar x = (group_val 3 4 k, group_val 9 2 k, int i + 1)"
        "valid_date y" "days ! j = to_service_date_id y"
        "isocalendar y = (group_val 3 4 k, group_val 9 2 k, int j + 1)"
      using days(2) ij by metis
    then show "days ! i \<noteq> days ! j"
      using ij parse_to_service_date_id by (metis Pair_inject add_right_cancel of_nat_eq_iff sum.inject(2))
  qed
qed


theorem planning_week_days_roundtrip_witness:
  "service_day_to_planning_week ''SD-2026-03-22'' = Inr ''PW-2026-W12''"
  using planning_week_days_roundtrip [OF week_12_days] by simp

text \<open>
  The Monday of a date's ISO week. Two valid dates have the same planning week exactly when
  their weeks start on the same Monday, and seven days later the week starts seven days later.
\<close>

definition week_start :: "date \<Rightarrow> int" where
  "week_start x = (let (y, w, _) = isocalendar x in iso_week1_monday y + (w - 1) * 7)"

lemma week_start_eq: "valid_date x \<Longrightarrow> week_start x = to_ordinal x - (to_ordinal x - 1) mod 7"
proof -
  assume v: "valid_date x"
  obtain y w d where iso: "isocalendar x = (y, w, d)" by (cases "isocalendar x") auto
  note o = isocalendar_ordinal [OF v iso]
  have "(iso_week1_monday y + (w - 1) * 7 + (d - 1) - 1) mod 7 = d - 1"
    using o(2,3) iso_week1_monday_bounds(3) [of y] by presburger
  then show ?thesis using o(1) iso by (simp add: week_start_def)
qed

lemma same_week:
  assumes "valid_date x" "valid_date y"
  shows "planning_week_id_for_date x = planning_week_id_for_date y \<longleftrightarrow> week_start x = week_start y"
proof -
  obtain a b c where x: "isocalendar x = (a, b, c)" by (cases "isocalendar x") auto
  obtain a' b' c' where y: "isocalendar y = (a', b', c')" by (cases "isocalendar y") auto
  note ox = isocalendar_ordinal [OF assms(1) x] iso_year_le [OF assms(1) x]
  note oy = isocalendar_ordinal [OF assms(2) y] iso_year_le [OF assms(2) y]
  have eq: "a = a'" if "week_start x = week_start y"
  proof (rule ccontr)
    assume "a \<noteq> a'"
    then have "iso_week1_monday (a + 1) \<le> iso_week1_monday a' \<or> iso_week1_monday (a' + 1) \<le> iso_week1_monday a"
      using iso_week1_mono by (metis int_one_le_iff_zero_less linorder_neqE zless_imp_add1_zle)
    then show False
      using that ox(4,8) oy(4,8) x y weeks_length [of a] weeks_length [of a']
      by (auto simp: week_start_def)
  qed
  show ?thesis
  proof
    assume "planning_week_id_for_date x = planning_week_id_for_date y"
    then have "a = a' \<and> b = b'"
      using ox oy x y week_id_inj [of a a' b b' "''PW-''"] by (simp add: planning_week_id_for_date_def)
    then show "week_start x = week_start y" using x y by (simp add: week_start_def)
  next
    assume s: "week_start x = week_start y"
    with eq have "a = a'" by blast
    moreover from this s have "b = b'" using x y by (simp add: week_start_def)
    ultimately show "planning_week_id_for_date x = planning_week_id_for_date y"
      using x y by (simp add: planning_week_id_for_date_def)
  qed
qed

lemma week_later:
  assumes "valid_date x" "add_days x 7 = Inr y"
  shows "valid_date y \<and> week_start y = week_start x + 7"
proof -
  have "1 \<le> to_ordinal x + 7" "to_ordinal x + 7 \<le> max_ordinal"
    using assms by (auto simp: add_days_def from_ordinal_def split: if_splits)
  from from_ordinal_ok [OF this] assms(2)
  have "valid_date y" "to_ordinal y = to_ordinal x + 7" by (auto simp: add_days_def)
  moreover have "(to_ordinal x + 7 - 1) mod 7 = (to_ordinal x - 1) mod 7" by presburger
  ultimately show ?thesis using week_start_eq assms(1) by simp
qed

text \<open>
  the reporting actuals of all service dates of one planning week go to one and the same
  planning week, the following one: it is another week, and the policy's target is the
  transform \<open>service_day_to_next_planning_week\<close>.
\<close>

lemma next_planning_week_policy:
  assumes "service_day_to_planning_week d = Inr w" and "service_day_to_planning_week d' = Inr w"
    and "reporting_actuals_target_planning_week d = Inr t"
    and "reporting_actuals_target_planning_week d' = Inr t'"
  shows "t = t' \<and> t \<noteq> w \<and> service_day_to_next_planning_week d = Inr t"
proof -
  have target: "\<exists>x y. parse_service_date_id k = Inr x \<and> valid_date x \<and> planning_week_id_for_date x = w \<and>
      add_days x 7 = Inr y \<and> u = planning_week_id_for_date y"
    if "service_day_to_planning_week k = Inr w" "reporting_actuals_target_planning_week k = Inr u" for k u
    using that parse_valid
    by (auto simp: reporting_actuals_target_planning_week_def planning_cycle_for_service_date_def
        service_day_to_planning_week_def rbind_eq_Inr Let_def)
  obtain x y where x: "parse_service_date_id d = Inr x" "valid_date x" "planning_week_id_for_date x = w"
      "add_days x 7 = Inr y" "t = planning_week_id_for_date y"
    using target [OF assms(1,3)] by blast
  obtain x' y' where x': "valid_date x'" "planning_week_id_for_date x' = w"
      "add_days x' 7 = Inr y'" "t' = planning_week_id_for_date y'"
    using target [OF assms(2,4)] by blast
  note step = week_later [OF x(2,4)] week_later [OF x'(1,3)]
  have "week_start x = week_start x'"
    using same_week [OF x(2) x'(1)] x(3) x'(2) by simp
  then have "t = t'"
    using step same_week [of y y'] x(5) x'(4) by simp
  moreover have "t \<noteq> w"
    using step(1) same_week [of y x] x(2,3,5) by auto
  moreover have "service_day_to_next_planning_week d = Inr t"
    using x by (simp add: service_day_to_next_planning_week_def)
  ultimately show ?thesis by simp
qed

text \<open>
  The keys the check accepts for a kind are those of its pattern, and each of them once more with
  a line feed at its end, for \<open>$\<close> in a pattern run by \<open>match\<close> also stands before a final line feed.
  A kind without pattern accepts nothing.
\<close>

lemma validate_partition_key_accepts:
  "validate_partition_key kind key = Inr () \<longleftrightarrow>
    (\<exists>p k. partition_pattern kind = Some p \<and> fullmatch p k \<and> key \<in> {k, k @ [newline]})"
proof -
  have "s \<noteq> [] \<and> last s = newline \<and> P (butlast s) \<longleftrightarrow> (\<exists>k. s = k @ [newline] \<and> P k)" for s P
    by (metis append_butlast_last_id butlast_snoc last_snoc snoc_eq_iff_butlast)
  then show ?thesis
    by (auto simp: validate_partition_key_def match_dollar_def split: option.splits)
qed

end
