(* ===== verification/Pointer_Address.thy ===== *)
theory Pointer_Address
  imports Py_Text
begin

text \<open>
  Canonical pointer addresses, \<open>src/onetruth/domain/pointer_address.py\<close>: normalised tokens, partition
  references, the pointer id that an address is written as (percent-encoded segments joined by
  slashes) and read from, and the resolution of legacy pointers. The dataset registry, a YAML file, is
  an argument. Text is ASCII: an escape of a byte above 127, which would leave ASCII, is kept as written.
\<close>

section \<open>Percent encoding\<close>

text \<open>\<open>urllib.parse.quote(value, safe='')\<close> and \<open>unquote\<close>.\<close>

definition unreserved :: "char \<Rightarrow> bool" where
  "unreserved c \<longleftrightarrow> is_alnum c \<or> c \<in> set ''_.-~''"

definition hex_upper :: "nat \<Rightarrow> char" where
  "hex_upper d = (if d < 10 then digit_char d else char_of (55 + d))"

definition quote_char :: "char \<Rightarrow> string" where
  "quote_char c = (if unreserved c then [c]
     else [CHR ''%'', hex_upper (code_of c div 16), hex_upper (code_of c mod 16)])"

definition encode_segment :: "string \<Rightarrow> string" where
  "encode_segment s = concat (map quote_char s)"

definition hex_digit_value :: "char \<Rightarrow> nat option" where
  "hex_digit_value c =
     (if is_digit c then Some (digit_val c)
      else if 97 \<le> code_of c \<and> code_of c \<le> 102 then Some (code_of c - 87)
      else if 65 \<le> code_of c \<and> code_of c \<le> 70 then Some (code_of c - 55)
      else None)"

fun unquote :: "string \<Rightarrow> string" where
  "unquote (c # a # b # s) =
     (if c = CHR ''%'' then
        (case (hex_digit_value a, hex_digit_value b) of
           (Some x, Some y) \<Rightarrow> if 16 * x + y < 128 then char_of (16 * x + y) # unquote s
                              else c # unquote (a # b # s)
         | _ \<Rightarrow> c # unquote (a # b # s))
      else c # unquote (a # b # s))"
| "unquote s = s"

definition decode_segment :: "string \<Rightarrow> string result" where
  "decode_segment value = (if unquote value = [] then Inl PointerIdParseError else Inr (unquote value))"

section \<open>Normalisation\<close>

definition normalize_required_token :: "string \<Rightarrow> string result" where
  "normalize_required_token value =
     (if py_strip value = [] then Inl PointerAddressError else Inr (py_strip value))"

definition normalize_optional_token :: "string option \<Rightarrow> string option" where
  "normalize_optional_token value = (case value of None \<Rightarrow> None
     | Some s \<Rightarrow> if py_strip s = [] then None else Some (py_strip s))"

definition normalize_scope_kind :: "string \<Rightarrow> string result" where
  "normalize_scope_kind scope_kind = rbind (normalize_required_token scope_kind) (\<lambda>s. Inr (py_lower s))"

definition normalize_dataset_key :: "string \<Rightarrow> string result" where
  "normalize_dataset_key dataset_key = rbind (normalize_required_token dataset_key) (\<lambda>s. Inr (py_lower s))"

definition partition_key_canonical :: "string \<Rightarrow> string option" where
  "partition_key_canonical = map_of [(''scheduledateid'', ''ScheduleDateID''), (''payperiodid'', ''PayPeriodID'')]"

definition normalize_partition_key :: "string \<Rightarrow> string result" where
  "normalize_partition_key raw_key = rbind (normalize_required_token raw_key) (\<lambda>text.
     let folded = filter (\<lambda>c. is_lower c \<or> is_digit c) (py_lower text)
     in Inr (case partition_key_canonical folded of None \<Rightarrow> text | Some key \<Rightarrow> key))"

definition iso_date_atoms :: "atom list" where
  "iso_date_atoms = replicate 4 Dig @ [Lit (CHR ''-'')] @ replicate 2 Dig @ [Lit (CHR ''-'')] @ replicate 2 Dig"

definition schedule_date_atoms :: "atom list" where
  "schedule_date_atoms = map Lit ''SD-'' @ iso_date_atoms"

definition normalize_partition_value :: "string \<Rightarrow> string \<Rightarrow> string result" where
  "normalize_partition_value partition_key raw_value = rbind (normalize_required_token raw_value) (\<lambda>text.
     if partition_key = ''ScheduleDateID'' then
       if fullmatch iso_date_atoms text then Inr (''SD-'' @ text)
       else let upper = py_upper text in
         if fullmatch schedule_date_atoms upper then Inr (''SD-'' @ drop 3 upper)
         else Inl PartitionRefValidationError
     else Inr text)"

section \<open>Addresses\<close>

datatype registry_kind = Singleton | Membership_Set | Ordered_Stream | Interval

text \<open>\<open>RegistryKind.parse\<close> of a text or \<open>None\<close>, with the default of the class.\<close>

definition registry_kind_parse :: "string option \<Rightarrow> registry_kind result" where
  "registry_kind_parse raw = (case raw of
     None \<Rightarrow> Inr Singleton
   | Some s \<Rightarrow>
       let text = py_strip s in
       if text = [] then Inr Singleton
       else case map_of [(''singleton'', Singleton), (''membership_set'', Membership_Set),
                (''ordered_stream'', Ordered_Stream), (''interval'', Interval)]
              (replace_char (CHR ''-'') (CHR ''_'') (py_lower text)) of
            None \<Rightarrow> Inl InvalidRegistryKindError | Some k \<Rightarrow> Inr k)"

record partition_ref =
  pr_key :: string
  pr_value :: string

record pointer_address =
  pa_tenant :: string
  pa_domain :: string
  pa_dataset :: string
  pa_partition :: partition_ref
  pa_stream :: "string option"

text \<open>The constructors, with the normalisation of \<open>__post_init__\<close>.\<close>

definition make_partition_ref :: "string \<Rightarrow> string \<Rightarrow> partition_ref result" where
  "make_partition_ref key value =
     rbind (normalize_partition_key key) (\<lambda>k.
     rbind (normalize_partition_value k value) (\<lambda>v. Inr \<lparr>pr_key = k, pr_value = v\<rparr>))"

definition make_pointer_address ::
    "string \<Rightarrow> string \<Rightarrow> string \<Rightarrow> partition_ref \<Rightarrow> string option \<Rightarrow> pointer_address result" where
  "make_pointer_address tenant_id domain_id dataset_key partition_ref stream_key =
     rbind (normalize_required_token tenant_id) (\<lambda>t.
     rbind (normalize_required_token domain_id) (\<lambda>d.
     rbind (normalize_dataset_key dataset_key) (\<lambda>k.
     Inr \<lparr>pa_tenant = t, pa_domain = d, pa_dataset = k, pa_partition = partition_ref,
       pa_stream = normalize_optional_token stream_key\<rparr>)))"

section \<open>Pointer ids\<close>

definition serialize_pointer_id :: "pointer_address \<Rightarrow> string" where
  "serialize_pointer_id address = py_join ''/''
     ([''ptr'', ''v1'', encode_segment (pa_tenant address), encode_segment (pa_domain address),
       encode_segment (pa_dataset address), encode_segment (pr_key (pa_partition address)),
       encode_segment (pr_value (pa_partition address))] @
      (case pa_stream address of None \<Rightarrow> [] | Some s \<Rightarrow> [''stream'', encode_segment s]))"

definition parse_pointer_id :: "string \<Rightarrow> pointer_address result" where
  "parse_pointer_id pointer_id =
     rbind (normalize_required_token pointer_id) (\<lambda>raw.
     let parts = py_split (CHR ''/'') raw in
     rbind (require (length parts = 7 \<or> length parts = 9) PointerIdParseError) (\<lambda>_.
     rbind (require (parts ! 0 = ''ptr'' \<and> parts ! 1 = ''v1'') PointerIdParseError) (\<lambda>_.
     rbind (require (\<not> (length parts = 9 \<and> parts ! 7 \<noteq> ''stream'')) PointerIdParseError) (\<lambda>_.
     rbind (if length parts = 9 then rbind (decode_segment (parts ! 8)) (\<lambda>s. Inr (Some s)) else Inr None)
       (\<lambda>stream_key.
     rbind (decode_segment (parts ! 2)) (\<lambda>tenant_id.
     rbind (decode_segment (parts ! 3)) (\<lambda>domain_id.
     rbind (decode_segment (parts ! 4)) (\<lambda>dataset_key.
     rbind (decode_segment (parts ! 5)) (\<lambda>key.
     rbind (decode_segment (parts ! 6)) (\<lambda>value.
     rbind (make_partition_ref key value) (\<lambda>partition_ref.
     make_pointer_address tenant_id domain_id dataset_key partition_ref stream_key)))))))))))"

text \<open>\<open>PointerId(value)\<close>: the normal form of the id. \<open>from_address\<close> and \<open>to_address\<close>.\<close>

definition pointer_id :: "string \<Rightarrow> string result" where
  "pointer_id raw = rbind (parse_pointer_id raw) (\<lambda>address. Inr (serialize_pointer_id address))"

definition pointer_id_from_address :: "pointer_address \<Rightarrow> string result" where
  "pointer_id_from_address address = pointer_id (serialize_pointer_id address)"

definition pointer_id_to_address :: "string \<Rightarrow> pointer_address result" where
  "pointer_id_to_address value = parse_pointer_id value"

section \<open>Legacy pointers\<close>

record legacy_hints =
  lh_dataset :: "string option"
  lh_partition_value :: "string option"

definition parse_legacy_pointer_key :: "string \<Rightarrow> legacy_hints result" where
  "parse_legacy_pointer_key pointer_key =
     (let parts = py_split (CHR '':'') pointer_key;
          official_positions = filter (\<lambda>i. py_lower (parts ! i) = ''official'') [0..<length parts]
      in case official_positions of
           [] \<Rightarrow> Inr \<lparr>lh_dataset = None, lh_partition_value = None\<rparr>
         | [official_pos] \<Rightarrow>
             if official_pos = 0 \<and> length parts = 2
             then Inr \<lparr>lh_dataset = Some (parts ! 1), lh_partition_value = None\<rparr>
             else if official_pos = 1 \<and> length parts = 3
             then Inr \<lparr>lh_dataset = Some (parts ! 0), lh_partition_value = Some (parts ! 2)\<rparr>
             else Inl LegacyPointerAmbiguityError
         | _ \<Rightarrow> Inl LegacyPointerAmbiguityError)"

text \<open>A dict built from the items in order: the last value of a key stays, at the key's first place.\<close>

definition dataset_partition_index :: "(string \<times> string) list \<Rightarrow> (string \<rightharpoonup> string) result" where
  "dataset_partition_index items =
     rbind (map_result (\<lambda>(dataset_key, partition_key).
         rbind (normalize_dataset_key dataset_key) (\<lambda>d.
         rbind (normalize_partition_key partition_key) (\<lambda>p. Inr (d, p)))) items)
       (\<lambda>normalized. Inr (map_of (rev normalized)))"

record legacy_resolution =
  lr_workflow_run_id :: string
  lr_pointer_key :: string
  lr_registry_kind :: registry_kind
  lr_address :: pointer_address

text \<open>The partition candidates: the workflow's partition, the scope, and the hint of the pointer key.\<close>

definition partition_candidates ::
    "string option \<Rightarrow> string \<Rightarrow> string option \<Rightarrow> legacy_hints \<Rightarrow> string list result" where
  "partition_candidates workflow_partition scope_kind scope_ref hints =
     rbind (if scope_kind = ''workflow_partition''
            then (case scope_ref of None \<Rightarrow> Inl LegacyPointerResolutionError | Some s \<Rightarrow> Inr [s])
            else if scope_kind = ''stage'' \<or> scope_kind = ''workflow_run'' then Inr []
            else Inl LegacyPointerResolutionError) (\<lambda>from_scope.
     let candidates = (case workflow_partition of None \<Rightarrow> [] | Some w \<Rightarrow> [w]) @ from_scope @
           (case lh_partition_value hints of None \<Rightarrow> [] | Some v \<Rightarrow> [v])
     in if candidates = [] then Inl LegacyPointerResolutionError else Inr candidates)"

definition resolve_legacy_pointer_address ::
    "(string \<times> string) list \<Rightarrow> string \<Rightarrow> string \<Rightarrow> string \<Rightarrow> string option \<Rightarrow> string \<Rightarrow> string \<Rightarrow> string \<Rightarrow>
     string option \<Rightarrow> string option \<Rightarrow> string option \<Rightarrow> legacy_resolution result" where
  "resolve_legacy_pointer_address index_items workflow_run_id pointer_key scope_kind scope_ref artifact_kind
       tenant_id domain_id workflow_partition_key stream_key registry_kind =
     rbind (normalize_required_token workflow_run_id) (\<lambda>run.
     rbind (normalize_required_token pointer_key) (\<lambda>key.
     rbind (normalize_scope_kind scope_kind) (\<lambda>kind.
     rbind (normalize_required_token tenant_id) (\<lambda>tenant.
     rbind (normalize_required_token domain_id) (\<lambda>domain.
     rbind (parse_legacy_pointer_key key) (\<lambda>hints.
     rbind (normalize_dataset_key artifact_kind) (\<lambda>dataset.
     rbind (case lh_dataset hints of None \<Rightarrow> Inr dataset | Some h \<Rightarrow> normalize_dataset_key h) (\<lambda>hinted.
     rbind (require (hinted = dataset) LegacyPointerAmbiguityError) (\<lambda>_.
     rbind (dataset_partition_index index_items) (\<lambda>index.
     case index dataset of
       None \<Rightarrow> Inl LegacyPointerResolutionError
     | Some partition_key \<Rightarrow>
         rbind (partition_candidates (normalize_optional_token workflow_partition_key) kind
                  (normalize_optional_token scope_ref) hints) (\<lambda>candidates.
         rbind (map_result (\<lambda>c. rbind (make_partition_ref partition_key c) (\<lambda>p. Inr (pr_value p))) candidates) (\<lambda>values.
         rbind (require (list_all (\<lambda>v. v = hd values) values) LegacyPointerAmbiguityError) (\<lambda>_.
         rbind (make_partition_ref partition_key (hd values)) (\<lambda>ref.
         rbind (make_pointer_address tenant domain dataset ref stream_key) (\<lambda>address.
         rbind (registry_kind_parse registry_kind) (\<lambda>rk.
         Inr \<lparr>lr_workflow_run_id = run, lr_pointer_key = key, lr_registry_kind = rk, lr_address = address\<rparr>))))))))))))))))"

section \<open>Decoding what was encoded\<close>

abbreviation ascii :: "string \<Rightarrow> bool" where
  "ascii s \<equiv> list_all (\<lambda>c. code_of c < 128) s"

lemma unquote_plain: "c \<noteq> CHR ''%'' \<Longrightarrow> unquote (c # s) = c # unquote s"
  by (cases s; cases "tl s") auto

lemma hex_upper_value: "d < 16 \<Longrightarrow> hex_digit_value (hex_upper d) = Some d"
  by (auto simp: hex_digit_value_def hex_upper_def is_digit_def)

lemma unquote_quoted: "code_of c < 128 \<Longrightarrow> unquote (quote_char c @ s) = c # unquote s"
proof (cases "unreserved c")
  case True
  then have "c \<noteq> CHR ''%''" by (auto simp: unreserved_def is_alnum_def is_digit_def is_lower_def is_upper_def)
  with True show ?thesis by (simp add: quote_char_def unquote_plain)
next
  case False
  assume c: "code_of c < 128"
  then have "code_of c div 16 < 16" "code_of c mod 16 < 16" "16 * (code_of c div 16) + code_of c mod 16 = code_of c"
    by auto
  with False c show ?thesis by (simp add: quote_char_def hex_upper_value)
qed

lemma unquote_encode: "ascii s \<Longrightarrow> unquote (encode_segment s) = s"
proof -
  have "ascii s \<Longrightarrow> unquote (encode_segment s @ r) = s @ unquote r" for r
    by (induction s) (simp_all add: encode_segment_def unquote_quoted)
  from this [of "[]"] show "ascii s \<Longrightarrow> unquote (encode_segment s) = s" by simp
qed

lemma decode_encode: "ascii s \<Longrightarrow> s \<noteq> [] \<Longrightarrow> decode_segment (encode_segment s) = Inr s"
  by (simp add: decode_segment_def unquote_encode)

lemma hex_upper_code: "d < 16 \<Longrightarrow> code_of (hex_upper d) = (if d < 10 then 48 + d else 55 + d)"
  by (simp add: hex_upper_def)

lemma encoded_chars:
  assumes "c \<in> set (encode_segment s)" "ascii s"
  shows "c \<noteq> CHR ''/'' \<and> \<not> is_space c"
proof -
  obtain x where x: "c \<in> set (quote_char x)" "code_of x < 128"
    using assms by (auto simp: encode_segment_def list_all_iff)
  show ?thesis
  proof (cases "unreserved x")
    case True
    with x(1) show ?thesis
      by (auto simp: quote_char_def unreserved_def is_alnum_def is_digit_def is_lower_def is_upper_def is_space_def)
  next
    case False
    have "code_of x div 16 < 16" "code_of x mod 16 < 16" using x(2) by auto
    then show ?thesis
      using False x(1) by (auto simp: quote_char_def is_space_def hex_upper_code dest: arg_cong [of _ _ code_of] split: if_splits)
  qed
qed

lemma encode_not_Nil: "s \<noteq> [] \<Longrightarrow> encode_segment s \<noteq> []"
  by (cases s) (auto simp: encode_segment_def quote_char_def)

section \<open>Normal forms\<close>

lemma required_normal:
  assumes "normalize_required_token s = Inr t"
  shows "t \<noteq> []" "normalize_required_token t = Inr t" "set t \<subseteq> set s"
proof -
  have "set (dropWhile P xs) \<subseteq> set xs" for P :: "char \<Rightarrow> bool" and xs by (auto dest: set_dropWhileD)
  then have "set (py_strip s) \<subseteq> set s"
    unfolding py_strip_def py_lstrip_def set_rev by (metis order_trans set_rev)
  then show "t \<noteq> []" "normalize_required_token t = Inr t" "set t \<subseteq> set s"
    using assms by (auto simp: normalize_required_token_def split: if_splits)
qed

lemma is_space_cases [simp]: "is_space (lower_char c) = is_space c" "is_space (upper_char c) = is_space c"
  by (auto simp: is_space_def lower_char_def upper_char_def is_upper_def is_lower_def)

lemma strip_lower: "py_strip s = s \<Longrightarrow> py_strip (py_lower s) = py_lower s"
proof (cases "s = []")
  case False
  assume "py_strip s = s"
  with False py_strip_ends [of s] show ?thesis
    by (intro py_strip_id) (simp add: py_lower_def hd_map last_map)
qed (simp add: py_lower_def)

lemma lower_lower [simp]: "py_lower (py_lower s) = py_lower s"
  by (auto simp: py_lower_def lower_char_def is_upper_def)

lemma ascii_lower: "ascii s \<Longrightarrow> ascii (py_lower s)"
  by (auto simp: py_lower_def lower_char_def is_upper_def list_all_iff)

lemma ascii_upper: "ascii s \<Longrightarrow> ascii (py_upper s)"
  by (auto simp: py_upper_def upper_char_def is_lower_def list_all_iff)

lemma dataset_normal:
  assumes "normalize_dataset_key s = Inr t"
  shows "t \<noteq> []" "normalize_dataset_key t = Inr t" "ascii s \<Longrightarrow> ascii t"
proof -
  obtain u where u: "normalize_required_token s = Inr u" "t = py_lower u"
    using assms by (auto simp: normalize_dataset_key_def rbind_eq_Inr)
  note n = required_normal [OF u(1)]
  have "ascii s \<Longrightarrow> ascii u" using n(3) by (auto simp: list_all_iff)
  then show "ascii s \<Longrightarrow> ascii t" by (simp add: u(2) ascii_lower)
  have "u \<noteq> []" "py_strip u = u" using n(1,2) by (auto simp: normalize_required_token_def split: if_splits)
  then have "py_strip t = t" "t \<noteq> []" using strip_lower [of u] by (auto simp: u(2) py_lower_def)
  then show "t \<noteq> []" "normalize_dataset_key t = Inr t"
    by (simp_all add: normalize_dataset_key_def normalize_required_token_def u(2))
qed

lemma partition_key_normal:
  assumes "normalize_partition_key s = Inr t" "ascii s"
  shows "t \<noteq> []" "normalize_partition_key t = Inr t" "ascii t"
proof -
  obtain u where u: "normalize_required_token s = Inr u"
    and t: "t = (case partition_key_canonical (filter (\<lambda>c. is_lower c \<or> is_digit c) (py_lower u)) of
      None \<Rightarrow> u | Some key \<Rightarrow> key)"
    using assms(1) by (auto simp: normalize_partition_key_def rbind_eq_Inr Let_def)
  note n = required_normal [OF u]
  have fixed: "normalize_partition_key ''ScheduleDateID'' = Inr ''ScheduleDateID''"
    "normalize_partition_key ''PayPeriodID'' = Inr ''PayPeriodID''" "ascii ''ScheduleDateID''" "ascii ''PayPeriodID''"
    by code_simp+
  have "t = u \<and> normalize_partition_key u = Inr u \<or> t = ''ScheduleDateID'' \<or> t = ''PayPeriodID''"
    using n(2) by (auto simp: t normalize_partition_key_def partition_key_canonical_def Let_def split: if_splits)
  then show "t \<noteq> []" "normalize_partition_key t = Inr t" "ascii t"
    using n(1,3) assms(2) fixed by (auto simp: list_all_iff)
qed

lemma date_text: "fullmatch iso_date_atoms s \<Longrightarrow> c \<in> set s \<Longrightarrow> is_digit c \<or> c = CHR ''-''"
  by (auto simp: fullmatch_def iso_date_atoms_def list_all2_append1 list_all2_Cons1 numeral_eq_Suc)

lemma date_char: "is_digit c \<or> c = CHR ''-'' \<Longrightarrow> \<not> is_space c \<and> upper_char c = c \<and> code_of c < 128"
  by (auto simp: is_space_def upper_char_def is_lower_def is_digit_def)

lemma partition_value_normal:
  assumes "normalize_partition_value k s = Inr t"
  shows "t \<noteq> []" "normalize_partition_value k t = Inr t" "ascii s \<Longrightarrow> ascii t"
proof -
  obtain u where u: "normalize_required_token s = Inr u"
    using assms by (auto simp: normalize_partition_value_def rbind_eq_Inr)
  note n = required_normal [OF u]
  have ascii_u: "ascii s \<Longrightarrow> ascii u" using n(3) by (auto simp: list_all_iff)
  consider "k \<noteq> ''ScheduleDateID''" "t = u" | d where "k = ''ScheduleDateID''" "fullmatch iso_date_atoms d" "t = ''SD-'' @ d"
  proof (cases "k = ''ScheduleDateID''")
    case False
    with that(1) assms u show thesis by (simp add: normalize_partition_value_def)
  next
    case True
    consider "fullmatch iso_date_atoms u" "t = ''SD-'' @ u"
      | "fullmatch schedule_date_atoms (py_upper u)" "t = ''SD-'' @ drop 3 (py_upper u)"
      using assms u True by (auto simp: normalize_partition_value_def Let_def split: if_splits)
    then show thesis
    proof cases
      case 2
      have "fullmatch iso_date_atoms (drop 3 (py_upper u))"
        using 2(1) by (auto simp: schedule_date_atoms_def fullmatch_def list_all2_append1 list_all2_Cons1)
      with that(2) True 2 show thesis by blast
    qed (use that(2) True in blast)
  qed
  then have "t \<noteq> [] \<and> normalize_partition_value k t = Inr t \<and> (ascii s \<longrightarrow> ascii t)"
  proof cases
    case 1
    with n ascii_u show ?thesis
      by (simp_all add: normalize_partition_value_def)
  next
    case 2
    let ?t = "''SD-'' @ d"
    have chars: "\<not> is_space c \<and> upper_char c = c \<and> code_of c < 128" if "c \<in> set ?t" for c
    proof (cases "c \<in> set d")
      case True
      then show ?thesis using date_char [OF date_text [OF 2(2)]] by blast
    next
      case False
      with that have "c \<in> {CHR ''S'', CHR ''D'', CHR ''-''}" by simp
      then show ?thesis by (auto simp: is_space_def upper_char_def is_lower_def)
    qed
    have "?t \<noteq> []" by simp
    then have "\<not> is_space (hd ?t)" "\<not> is_space (last ?t)"
      using chars [OF hd_in_set] chars [OF last_in_set] by blast+
    then have strip: "py_strip ?t = ?t" by (intro py_strip_id) blast
    have upper: "py_upper ?t = ?t" unfolding py_upper_def by (rule map_idI) (use chars in blast)
    have not_iso: "\<not> fullmatch iso_date_atoms ?t"
      by (auto simp: fullmatch_def iso_date_atoms_def numeral_eq_Suc is_digit_def)
    have "fullmatch schedule_date_atoms ?t"
      using 2(2) by (simp add: schedule_date_atoms_def fullmatch_def list_all2_appendI)
    with strip upper not_iso have "normalize_partition_value k ?t = Inr ?t"
      by (simp add: 2(1) normalize_partition_value_def normalize_required_token_def Let_def)
    moreover have "ascii ?t" using chars by (auto simp: list_all_iff)
    ultimately show ?thesis by (simp add: 2(3))
  qed
  then show "t \<noteq> []" "normalize_partition_value k t = Inr t" "ascii s \<Longrightarrow> ascii t" by blast+
qed

section \<open>Round trips\<close>

text \<open>What the constructors leave unchanged.\<close>

definition address_normal :: "pointer_address \<Rightarrow> bool" where
  "address_normal a \<longleftrightarrow>
     make_partition_ref (pr_key (pa_partition a)) (pr_value (pa_partition a)) = Inr (pa_partition a)
     \<and> make_pointer_address (pa_tenant a) (pa_domain a) (pa_dataset a) (pa_partition a) (pa_stream a) = Inr a
     \<and> (\<forall>s\<in>{pa_tenant a, pa_domain a, pa_dataset a, pr_key (pa_partition a), pr_value (pa_partition a)}
          \<union> set_option (pa_stream a). s \<noteq> [] \<and> ascii s)"

lemma partition_ref_normal:
  assumes "make_partition_ref k v = Inr p" "ascii k" "ascii v"
  shows "make_partition_ref (pr_key p) (pr_value p) = Inr p" "pr_key p \<noteq> []" "pr_value p \<noteq> []"
    "ascii (pr_key p)" "ascii (pr_value p)"
  using assms partition_key_normal [of k] partition_value_normal [of _ v]
  by (auto simp: make_partition_ref_def rbind_eq_Inr)

lemma optional_normal:
  assumes "normalize_optional_token s = t"
  shows "normalize_optional_token t = t" "t \<noteq> Some []" "x \<in> set_option t \<Longrightarrow> pred_option ascii s \<Longrightarrow> ascii x"
proof -
  have "x \<in> set_option t \<Longrightarrow> \<exists>y. s = Some y \<and> normalize_required_token y = Inr x"
    using assms by (auto simp: normalize_optional_token_def normalize_required_token_def split: option.splits if_splits)
  then show "x \<in> set_option t \<Longrightarrow> pred_option ascii s \<Longrightarrow> ascii x"
    using required_normal(3) by (fastforce simp: list_all_iff)
  show "normalize_optional_token t = t" "t \<noteq> Some []"
    using assms by (auto simp: normalize_optional_token_def split: option.splits if_splits)
qed

lemma made_address_normal:
  assumes made: "make_partition_ref k v = Inr p" "make_pointer_address t d ds p st = Inr a"
    and ascii: "\<forall>s\<in>{k, v, t, d, ds} \<union> set_option st. ascii s"
  shows "address_normal a"
proof -
  obtain t' d' ds' where parts: "normalize_required_token t = Inr t'" "normalize_required_token d = Inr d'"
    "normalize_dataset_key ds = Inr ds'"
    and a: "a = \<lparr>pa_tenant = t', pa_domain = d', pa_dataset = ds', pa_partition = p,
      pa_stream = normalize_optional_token st\<rparr>"
    using made(2) by (auto simp: make_pointer_address_def rbind_eq_Inr)
  have small: "ascii k" "ascii v" "ascii t" "ascii d" "ascii ds" "pred_option ascii st"
    using ascii by (auto simp: option.pred_set)
  note p = partition_ref_normal [OF made(1) small(1,2)]
  note t = required_normal [OF parts(1)] and d = required_normal [OF parts(2)]
    and ds = dataset_normal [OF parts(3)] and st = optional_normal [OF refl, where s = st]
  have "ascii t'" "ascii d'" using t(3) d(3) small(3,4) by (auto simp: list_all_iff)
  moreover have "make_pointer_address t' d' ds' p (normalize_optional_token st) = Inr a"
    using t(2) d(2) ds(2) st(1) by (simp add: make_pointer_address_def a)
  ultimately show ?thesis
    using p t(1) d(1) ds(1) ds(3) [OF small(5)] st(2,3) small(6) unfolding address_normal_def a by auto
qed

lemma slash_free: "ascii s \<Longrightarrow> CHR ''/'' \<notin> set (encode_segment s)"
  using encoded_chars by blast

lemma join_chars: "c \<in> set (py_join [x] ws) \<Longrightarrow> c = x \<or> (\<exists>w\<in>set ws. c \<in> set w)"
  by (induction "[x]" ws rule: py_join.induct) auto

lemma parse_serialize:
  assumes "address_normal a"
  shows "parse_pointer_id (serialize_pointer_id a) = Inr a"
proof -
  let ?p = "pa_partition a"
  let ?ws = "[''ptr'', ''v1'', encode_segment (pa_tenant a), encode_segment (pa_domain a),
       encode_segment (pa_dataset a), encode_segment (pr_key ?p), encode_segment (pr_value ?p)] @
      (case pa_stream a of None \<Rightarrow> [] | Some s \<Rightarrow> [''stream'', encode_segment s])"
  have ok: "s \<noteq> [] \<and> ascii s" if "s \<in> {pa_tenant a, pa_domain a, pa_dataset a, pr_key ?p, pr_value ?p} \<union> set_option (pa_stream a)" for s
    using assms that unfolding address_normal_def by blast
  have words: "c \<noteq> CHR ''/'' \<and> \<not> is_space c" if "w \<in> set ?ws" "c \<in> set w" for w c
  proof -
    have "w \<in> {''ptr'', ''v1'', ''stream''} \<or> (\<exists>s. w = encode_segment s \<and> ascii s)"
      using that(1) ok by (auto split: option.splits)
    then show ?thesis
    proof
      assume "w \<in> {''ptr'', ''v1'', ''stream''}"
      with that(2) show ?thesis by (auto simp: is_space_def)
    qed (use encoded_chars that(2) in blast)
  qed
  have serialized: "serialize_pointer_id a = py_join [CHR ''/''] ?ws"
    by (simp add: serialize_pointer_id_def)
  have no_space: "\<not> is_space c" if "c \<in> set (serialize_pointer_id a)" for c
    using that words join_chars [of c "CHR ''/''" ?ws] unfolding serialized by (auto simp: is_space_def)
  have not_Nil: "serialize_pointer_id a \<noteq> []" by (simp add: serialize_pointer_id_def)
  have "py_strip (serialize_pointer_id a) = serialize_pointer_id a"
    using no_space [OF hd_in_set [OF not_Nil]] no_space [OF last_in_set [OF not_Nil]] by (intro py_strip_id) blast
  then have raw: "normalize_required_token (serialize_pointer_id a) = Inr (serialize_pointer_id a)"
    using not_Nil by (simp add: normalize_required_token_def)
  have split: "py_split (CHR ''/'') (serialize_pointer_id a) = ?ws"
    unfolding serialized by (rule split_join) (use words in auto)
  have decode: "decode_segment (encode_segment s) = Inr s"
    if "s \<in> {pa_tenant a, pa_domain a, pa_dataset a, pr_key ?p, pr_value ?p} \<union> set_option (pa_stream a)" for s
    using ok [OF that] by (simp add: decode_encode)
  have normal: "make_partition_ref (pr_key ?p) (pr_value ?p) = Inr ?p"
    "make_pointer_address (pa_tenant a) (pa_domain a) (pa_dataset a) ?p (pa_stream a) = Inr a"
    using assms unfolding address_normal_def by blast+
  show ?thesis
  proof (cases "pa_stream a")
    case None
    with normal(2) show ?thesis
      by (simp add: parse_pointer_id_def raw split Let_def decode normal(1))
  next
    case (Some s)
    with normal(2) show ?thesis
      by (simp add: parse_pointer_id_def raw split Let_def decode normal(1))
  qed
qed

text \<open>C39: An address made from ASCII texts is written as a pointer id that is its own normal form, and
  reading the id gives the address back; so two addresses with one id are the same address.\<close>
theorem pointer_id_round_trip:
  assumes "make_partition_ref key value = Inr p" "make_pointer_address tenant domain dataset p stream = Inr a"
    and "\<forall>s\<in>{key, value, tenant, domain, dataset} \<union> set_option stream. ascii s"
  shows "pointer_id_from_address a = Inr (serialize_pointer_id a)
    \<and> pointer_id_to_address (serialize_pointer_id a) = Inr a"
  using parse_serialize [OF made_address_normal [OF assms]]
  by (simp add: pointer_id_from_address_def pointer_id_def pointer_id_to_address_def)

theorem pointer_id_round_trip_witness:
  "\<exists>p a. make_partition_ref '' schedule-date_id '' ''2026-02-11'' = Inr p
     \<and> make_pointer_address '' acme '' ''ops/night'' ''Crew Plan'' p (Some ''50% / b'') = Inr a
     \<and> serialize_pointer_id a = ''ptr/v1/acme/ops%2Fnight/crew%20plan/ScheduleDateID/SD-2026-02-11/stream/50%25%20%2F%20b''
     \<and> pointer_id_to_address (serialize_pointer_id a) = Inr a"
proof -
  let ?p = "\<lparr>pr_key = ''ScheduleDateID'', pr_value = ''SD-2026-02-11''\<rparr>"
  let ?a = "\<lparr>pa_tenant = ''acme'', pa_domain = ''ops/night'', pa_dataset = ''crew plan'',
    pa_partition = ?p, pa_stream = Some ''50% / b''\<rparr>"
  have made: "make_partition_ref '' schedule-date_id '' ''2026-02-11'' = Inr ?p"
    "make_pointer_address '' acme '' ''ops/night'' ''Crew Plan'' ?p (Some ''50% / b'') = Inr ?a"
    "\<forall>s\<in>{'' schedule-date_id '', ''2026-02-11'', '' acme '', ''ops/night'', ''Crew Plan''} \<union> set_option (Some ''50% / b''). ascii s"
    by code_simp+
  have "serialize_pointer_id ?a = ''ptr/v1/acme/ops%2Fnight/crew%20plan/ScheduleDateID/SD-2026-02-11/stream/50%25%20%2F%20b''"
    by code_simp
  with made pointer_id_round_trip [OF made] show ?thesis by blast
qed

section \<open>Legacy pointers are resolved only without doubt\<close>

lemma partition_ref_same_key:
  assumes "make_partition_ref k c = Inr q" "make_partition_ref k (pr_value q) = Inr p"
  shows "p = q"
  using assms partition_value_normal(2) by (fastforce simp: make_partition_ref_def rbind_eq_Inr)

lemma resolve_cases:
  assumes "resolve_legacy_pointer_address items run key kind scope_ref artifact tenant domain part stream rk = Inr r"
  obtains kind' hints index pkey cands where
    "normalize_scope_kind kind = Inr kind'" "parse_legacy_pointer_key (py_strip key) = Inr hints"
    "normalize_dataset_key artifact = Inr (pa_dataset (lr_address r))"
    "\<forall>h\<in>set_option (lh_dataset hints). normalize_dataset_key h = Inr (pa_dataset (lr_address r))"
    "dataset_partition_index items = Inr index" "index (pa_dataset (lr_address r)) = Some pkey"
    "partition_candidates (normalize_optional_token part) kind' (normalize_optional_token scope_ref) hints = Inr cands"
    "cands \<noteq> []" "\<forall>c\<in>set cands. make_partition_ref pkey c = Inr (pa_partition (lr_address r))"
proof -
  obtain key' kind' hints dataset index pkey cands vals ref t d
    where ok: "normalize_required_token key = Inr key'" "normalize_scope_kind kind = Inr kind'"
      "parse_legacy_pointer_key key' = Inr hints" "normalize_dataset_key artifact = Inr dataset"
      "(case lh_dataset hints of None \<Rightarrow> Inr dataset | Some h \<Rightarrow> normalize_dataset_key h) = Inr dataset"
      "dataset_partition_index items = Inr index" "index dataset = Some pkey"
      "partition_candidates (normalize_optional_token part) kind' (normalize_optional_token scope_ref) hints = Inr cands"
      "map_result (\<lambda>c. rbind (make_partition_ref pkey c) (\<lambda>p. Inr (pr_value p))) cands = Inr vals"
      "list_all (\<lambda>v. v = hd vals) vals" "make_partition_ref pkey (hd vals) = Inr ref"
      "make_pointer_address t d dataset ref stream = Inr (lr_address r)"
    using assms
    by (auto simp: resolve_legacy_pointer_address_def rbind_eq_Inr require_def split: option.splits if_splits)
  have key': "key' = py_strip key" using ok(1) by (simp add: normalize_required_token_def split: if_splits)
  obtain x y where "lr_address r = \<lparr>pa_tenant = x, pa_domain = y, pa_dataset = dataset, pa_partition = ref,
      pa_stream = normalize_optional_token stream\<rparr>"
    using ok(12) dataset_normal(2) [OF ok(4)] by (auto simp: make_pointer_address_def rbind_eq_Inr intro: sym)
  then have a: "pa_dataset (lr_address r) = dataset" "pa_partition (lr_address r) = ref" by simp_all
  have "make_partition_ref pkey c = Inr ref" if c: "c \<in> set cands" for c
  proof -
    obtain q where q: "make_partition_ref pkey c = Inr q" "pr_value q \<in> set vals"
      using ok(9) c by (fastforce simp: map_result_Inr rbind_eq_Inr list_all2_conv_all_nth in_set_conv_nth)
    then have "pr_value q = hd vals" using ok(10) by (simp add: list_all_iff)
    with q(1) ok(11) partition_ref_same_key show ?thesis by metis
  qed
  moreover have "cands \<noteq> []"
    using ok(8) by (auto simp: partition_candidates_def rbind_eq_Inr Let_def split: if_splits)
  moreover have "\<forall>h\<in>set_option (lh_dataset hints). normalize_dataset_key h = Inr dataset"
    using ok(5) by auto
  ultimately show thesis using that ok(2,3,4,6,7,8) key' a by metis
qed

text \<open>A legacy pointer is resolved only without doubt: the dataset of the resolved address is the one
  the artifact kind names, the partition key is the one the registry gives it, and the partition of the
  workflow run, a partition scope and the partition in the pointer key, each where it is given, are
  spellings of the one partition of the address; at least one of them is given.\<close>
lemma legacy_resolution_unambiguous:
  assumes "resolve_legacy_pointer_address items run key kind scope_ref artifact tenant domain part stream rk = Inr r"
  shows "\<exists>hints index pkey. parse_legacy_pointer_key (py_strip key) = Inr hints
    \<and> normalize_dataset_key artifact = Inr (pa_dataset (lr_address r))
    \<and> (\<forall>h\<in>set_option (lh_dataset hints). normalize_dataset_key h = Inr (pa_dataset (lr_address r)))
    \<and> dataset_partition_index items = Inr index \<and> index (pa_dataset (lr_address r)) = Some pkey
    \<and> (let given = set_option (normalize_optional_token part) \<union> set_option (lh_partition_value hints)
           \<union> (if normalize_scope_kind kind = Inr ''workflow_partition''
              then set_option (normalize_optional_token scope_ref) else {})
       in given \<noteq> {} \<and> (\<forall>c\<in>given. make_partition_ref pkey c = Inr (pa_partition (lr_address r))))"
  using assms
proof (rule resolve_cases)
  fix kind' hints index pkey cands
  assume ok: "normalize_scope_kind kind = Inr kind'" "parse_legacy_pointer_key (py_strip key) = Inr hints"
    "normalize_dataset_key artifact = Inr (pa_dataset (lr_address r))"
    "\<forall>h\<in>set_option (lh_dataset hints). normalize_dataset_key h = Inr (pa_dataset (lr_address r))"
    "dataset_partition_index items = Inr index" "index (pa_dataset (lr_address r)) = Some pkey"
    and cands: "partition_candidates (normalize_optional_token part) kind' (normalize_optional_token scope_ref) hints = Inr cands"
    "cands \<noteq> []" "\<forall>c\<in>set cands. make_partition_ref pkey c = Inr (pa_partition (lr_address r))"
  have given: "set_option (normalize_optional_token part) \<union> set_option (lh_partition_value hints)
    \<union> (if normalize_scope_kind kind = Inr ''workflow_partition''
       then set_option (normalize_optional_token scope_ref) else {}) = set cands"
    using cands(1) ok(1) by (auto simp: partition_candidates_def rbind_eq_Inr Let_def split: if_splits option.splits)
  show ?thesis using ok(2-6) cands(2,3)
    by (intro exI [of _ hints] exI [of _ index] exI [of _ pkey]) (simp only: Let_def given set_empty, simp)
qed

end
