(* ===== verification/Json.thy ===== *)
theory Json
  imports Py_Text "HOL-Library.Multiset"
begin

text \<open>
  JSON values as the handlers see them (numbers are integers; the fractional numbers JSON also
  allows do not occur in what is modelled), with Python's \<open>dict.get\<close>, truth value and
  \<open>str\<close> on them, and \<open>json.dumps\<close> with compact separators. An object is a list of
  key/value pairs in insertion order. The canonical text sorts the keys of every object;
  it is what the program hashes.
\<close>

datatype json = JNull | JBool bool | JInt int | JStr string | JArr "json list"
  | JObj "(string \<times> json) list"

type_synonym dict = "(string \<times> json) list"

definition jget :: "dict \<Rightarrow> string \<Rightarrow> json" where
  "jget p k = (case map_of p k of None \<Rightarrow> JNull | Some v \<Rightarrow> v)"

definition jget_default :: "dict \<Rightarrow> string \<Rightarrow> json \<Rightarrow> json" where
  "jget_default p k d = (case map_of p k of None \<Rightarrow> d | Some v \<Rightarrow> v)"

text \<open>\<open>payload[k]\<close>.\<close>

definition getitem :: "dict \<Rightarrow> string \<Rightarrow> json result" where
  "getitem p k = (case map_of p k of None \<Rightarrow> Inl (OtherException ''KeyError'') | Some v \<Rightarrow> Inr v)"

lemma getitem_Inr: "getitem p k = Inr v \<Longrightarrow> jget p k = v"
  by (auto simp: getitem_def jget_def split: option.splits)

fun truthy :: "json \<Rightarrow> bool" where
  "truthy JNull = False"
| "truthy (JBool b) = b"
| "truthy (JInt n) = (n \<noteq> 0)"
| "truthy (JStr s) = (s \<noteq> [])"
| "truthy (JArr xs) = (xs \<noteq> [])"
| "truthy (JObj kvs) = (kvs \<noteq> [])"

text \<open>\<open>a or b\<close>.\<close>

definition py_or :: "json \<Rightarrow> json \<Rightarrow> json" where
  "py_or a b = (if truthy a then a else b)"

text \<open>\<open>for x in value\<close>: the items of a list, the keys of an object, the characters of a text.\<close>

definition py_iter :: "json \<Rightarrow> json list result" where
  "py_iter value = (case value of
     JArr xs \<Rightarrow> Inr xs
   | JObj kvs \<Rightarrow> Inr (map (\<lambda>p. JStr (fst p)) kvs)
   | JStr s \<Rightarrow> Inr (map (\<lambda>c. JStr [c]) s)
   | _ \<Rightarrow> Inl (OtherException ''TypeError''))"

section \<open>Python's repr and str\<close>

definition hex_digit :: "nat \<Rightarrow> char" where
  "hex_digit d = (if d < 10 then digit_char d else char_of (87 + d))"

definition repr_char :: "char \<Rightarrow> char \<Rightarrow> string" where
  "repr_char q c =
     (if c = q \<or> c = CHR 0x5C then [CHR 0x5C, c]
      else if c = CHR 0x0A then [CHR 0x5C, CHR ''n'']
      else if c = CHR 0x0D then [CHR 0x5C, CHR ''r'']
      else if c = CHR 0x09 then [CHR 0x5C, CHR ''t'']
      else if code_of c < 32 \<or> code_of c = 127
        then [CHR 0x5C, CHR ''x'', hex_digit (code_of c div 16), hex_digit (code_of c mod 16)]
      else [c])"

definition repr_string :: "string \<Rightarrow> string" where
  "repr_string s =
     (let q = (if CHR 0x27 \<in> set s \<and> CHR 0x22 \<notin> set s then CHR 0x22 else CHR 0x27)
      in q # concat (map (repr_char q) s) @ [q])"

fun py_repr :: "json \<Rightarrow> string" where
  "py_repr JNull = ''None''"
| "py_repr (JBool b) = (if b then ''True'' else ''False'')"
| "py_repr (JInt n) = py_int_str n"
| "py_repr (JStr s) = repr_string s"
| "py_repr (JArr xs) = ''['' @ py_join '', '' (map py_repr xs) @ '']''"
| "py_repr (JObj kvs) =
     ''{'' @ py_join '', '' (map (\<lambda>p. repr_string (fst p) @ '': '' @ py_repr (snd p)) kvs) @ ''}''"

definition py_str :: "json \<Rightarrow> string" where
  "py_str v = (case v of JStr s \<Rightarrow> s | _ \<Rightarrow> py_repr v)"

lemma py_str_JStr [simp]: "py_str (JStr s) = s"
  by (simp add: py_str_def)

text \<open>
  \<open>int\<close> of a JSON value: numbers and truth values, and texts of decimal digits, between which single
  underscores may stand, with an optional sign and blanks around.
\<close>

fun digit_groups :: "string \<Rightarrow> bool" where
  "digit_groups [] = False"
| "digit_groups [c] = is_digit c"
| "digit_groups (c # e # s) =
     (is_digit c \<and> (if e = CHR ''_'' then digit_groups s else digit_groups (e # s)))"

definition int_of_text :: "string \<Rightarrow> int result" where
  "int_of_text text =
     (let t = py_strip text;
          neg = (t \<noteq> [] \<and> hd t = CHR ''-'');
          body = (if t \<noteq> [] \<and> hd t \<in> {CHR ''-'', CHR ''+''} then tl t else t);
          digits = filter is_digit body;
          n = int (digits_val digits)
      in if digit_groups body \<and> length digits \<le> 4300 then Inr (if neg then - n else n) else Inl ValueError)"

definition py_int :: "json \<Rightarrow> int result" where
  "py_int v = (case v of
     JInt n \<Rightarrow> Inr n
   | JBool b \<Rightarrow> Inr (if b then 1 else 0)
   | JStr s \<Rightarrow> int_of_text s
   | _ \<Rightarrow> Inl (OtherException ''TypeError''))"

lemma py_int_JInt [simp]: "py_int (JInt n) = Inr n"
  by (simp add: py_int_def)

definition opt_str :: "json \<Rightarrow> string option" where
  "opt_str v = (case v of JNull \<Rightarrow> None | _ \<Rightarrow> Some (py_str v))"

lemma opt_str_simps [simp]:
  "opt_str JNull = None"
  "opt_str (JStr s) = Some s"
  by (simp_all add: opt_str_def)

definition of_opt :: "string option \<Rightarrow> json" where
  "of_opt x = (case x of None \<Rightarrow> JNull | Some s \<Rightarrow> JStr s)"

lemma of_opt_simps [simp]: "of_opt None = JNull" "of_opt (Some s) = JStr s"
  by (simp_all add: of_opt_def)

section \<open>json.dumps\<close>

definition escape_char :: "char \<Rightarrow> string" where
  "escape_char c =
     (if c = CHR 0x22 \<or> c = CHR 0x5C then [CHR 0x5C, c]
      else if c = CHR 0x0A then [CHR 0x5C, CHR ''n'']
      else if c = CHR 0x0D then [CHR 0x5C, CHR ''r'']
      else if c = CHR 0x09 then [CHR 0x5C, CHR ''t'']
      else if c = CHR 0x08 then [CHR 0x5C, CHR ''b'']
      else if c = CHR 0x0C then [CHR 0x5C, CHR ''f'']
      else if code_of c < 32 \<or> 126 < code_of c
        then [CHR 0x5C, CHR ''u'', CHR ''0'', CHR ''0'',
              hex_digit (code_of c div 16), hex_digit (code_of c mod 16)]
      else [c])"

definition dumps_string :: "string \<Rightarrow> string" where
  "dumps_string s = [CHR 0x22] @ concat (map escape_char s) @ [CHR 0x22]"

fun json_dumps :: "json \<Rightarrow> string" where
  "json_dumps JNull = ''null''"
| "json_dumps (JBool b) = (if b then ''true'' else ''false'')"
| "json_dumps (JInt n) = py_int_str n"
| "json_dumps (JStr s) = dumps_string s"
| "json_dumps (JArr xs) = ''['' @ py_join '','' (map json_dumps xs) @ '']''"
| "json_dumps (JObj kvs) =
     ''{'' @ py_join '','' (map (\<lambda>p. dumps_string (fst p) @ '':'' @ json_dumps (snd p)) kvs) @ ''}''"

text \<open>The value that comes back from \<open>json.loads(json.dumps(v, sort_keys=True))\<close>.\<close>

fun sort_json :: "json \<Rightarrow> json" where
  "sort_json (JArr xs) = JArr (map sort_json xs)"
| "sort_json (JObj kvs) = JObj (sort_key fst (map (\<lambda>p. (fst p, sort_json (snd p))) kvs))"
| "sort_json v = v"

definition sort_dict :: "dict \<Rightarrow> dict" where
  "sort_dict kvs = sort_key fst (map (\<lambda>p. (fst p, sort_json (snd p))) kvs)"

lemma sort_json_dict: "sort_json (JObj kvs) = JObj (sort_dict kvs)"
  by (simp add: sort_dict_def)

definition canonical_json :: "json \<Rightarrow> string" where
  "canonical_json v = json_dumps (sort_json v)"

lemma sort_key_sorted: "sorted (map f xs) \<Longrightarrow> sort_key f xs = xs"
  by (simp add: sorted_sort_id sort_key_id_if_sorted)

lemma sort_json_idem [simp]: "sort_json (sort_json v) = sort_json v"
proof (induction v)
  case (JArr xs)
  then show ?case by simp
next
  case (JObj kvs)
  let ?l = "map (\<lambda>p. (fst p, sort_json (snd p))) kvs"
  let ?g = "\<lambda>p. (fst p, sort_json (snd p))"
  have "map ?g (sort_key fst ?l) = sort_key fst ?l"
  proof (rule map_idI)
    fix p assume "p \<in> set (sort_key fst ?l)"
    then show "?g p = p" using JObj by (fastforce simp: snds.simps)
  qed
  then show ?case by (simp add: sort_key_sorted)
qed simp_all

lemma canonical_sort [simp]: "canonical_json (sort_json v) = canonical_json v"
  by (simp add: canonical_json_def)

lemma sort_dict_idem [simp]: "sort_dict (sort_dict kvs) = sort_dict kvs"
  using sort_json_idem [of "JObj kvs"] by (simp only: sort_json_dict json.inject)

text \<open>The canonical text does not depend on the order in which a dictionary was filled.\<close>

lemma sort_dict_perm:
  assumes "distinct (map fst kvs)" "mset kvs' = mset kvs"
  shows "sort_dict kvs' = sort_dict kvs"
proof -
  let ?f = "\<lambda>p. (fst p, sort_json (snd p))"
  have "inj_on fst (set kvs')"
    using assms by (metis distinct_map set_mset_mset)
  then have "inj_on fst (set (map ?f kvs'))"
    by (auto simp: inj_on_def)
  moreover have "mset (map ?f kvs') = mset (sort_key fst (map ?f kvs))"
    using assms(2) by simp
  ultimately show ?thesis
    unfolding sort_dict_def by (intro sort_key_inj_key_eq) simp_all
qed

section \<open>The content of a value\<close>

text \<open>
  What a JSON value says, without the order in which its objects were filled: an object is the finite
  function from its keys to what they hold. A Python dictionary has every key once; \<open>keyed\<close> says it of
  the objects at all depths.
\<close>

datatype content = CNull | CBool bool | CInt int | CStr string | CArr "content list"
  | CObj "string \<Rightarrow> content option"

fun content_of :: "json \<Rightarrow> content" where
  "content_of JNull = CNull"
| "content_of (JBool b) = CBool b"
| "content_of (JInt n) = CInt n"
| "content_of (JStr s) = CStr s"
| "content_of (JArr xs) = CArr (map content_of xs)"
| "content_of (JObj kvs) = CObj (map_of (map (\<lambda>p. (fst p, content_of (snd p))) kvs))"

fun keyed :: "json \<Rightarrow> bool" where
  "keyed (JArr xs) = list_all keyed xs"
| "keyed (JObj kvs) = (distinct (map fst kvs) \<and> list_all (\<lambda>p. keyed (snd p)) kvs)"
| "keyed _ = True"

lemma content_of_sort: "keyed v \<Longrightarrow> content_of (sort_json v) = content_of v"
proof (induction v)
  case (JObj kvs)
  let ?sorted = "map (\<lambda>p. (fst p, sort_json (snd p))) kvs"
  let ?g = "\<lambda>p. (fst p, content_of (snd p))"
  have "content_of (sort_json (snd p)) = content_of (snd p)" if "p \<in> set kvs" for p
    using JObj.IH [of p "snd p"] JObj.prems that by (auto simp: list_all_iff snds.simps)
  then have same: "set (map ?g (sort_key fst ?sorted)) = set (map ?g kvs)" by force
  have once: "distinct (map fst (map ?g (sort_key fst ?sorted)))"
  proof -
    have "mset (map fst (sort_key fst ?sorted)) = mset (map fst kvs)" by (simp add: multiset.map_comp comp_def)
    then have "distinct (map fst (sort_key fst ?sorted))"
      using JObj.prems by (metis keyed.simps(2) mset_eq_imp_distinct_iff)
    then show ?thesis by (simp add: comp_def)
  qed
  have "distinct (map fst (map ?g kvs))" using JObj.prems by (simp add: comp_def)
  from map_of_inject_set [OF once this] same
  have "map_of (map ?g (sort_key fst ?sorted)) = map_of (map ?g kvs)" by blast
  then show ?case by simp
qed (simp_all add: list_all_iff)

lemma sort_key_same_set:
  assumes "distinct (map fst xs)" "distinct (map fst ys)" "set xs = set ys"
  shows "sort_key fst xs = sort_key fst (ys :: (string \<times> 'b) list)"
proof (rule sort_key_inj_key_eq)
  have "distinct xs" "distinct ys" using assms(1,2) by (simp_all add: distinct_map)
  with assms(3) show "mset xs = mset (sort_key fst ys)" by (simp add: set_eq_iff_mset_eq_distinct)
  show "inj_on fst (set xs)" using assms(1) by (simp add: distinct_map)
qed simp

lemma images_agree:
  fixes f :: "'a \<Rightarrow> 'b" and g :: "'a \<Rightarrow> 'c"
  assumes "f ` A = f ` B" "\<And>a b. a \<in> A \<Longrightarrow> b \<in> B \<Longrightarrow> f a = f b \<Longrightarrow> g a = g b"
  shows "g ` A = g ` B"
proof -
  have "g a \<in> g ` B" if "a \<in> A" for a
  proof -
    have "f a \<in> f ` B" using assms(1) that by blast
    then obtain b where "b \<in> B" "f a = f b" by blast
    with assms(2) that show ?thesis by simp
  qed
  moreover have "g b \<in> g ` A" if "b \<in> B" for b
  proof -
    have "f b \<in> f ` A" using assms(1) that by blast
    then obtain a where a: "a \<in> A" "f b = f a" by blast
    have "g b = g a" using assms(2) [OF a(1) that] a(2) by simp
    with a(1) show ?thesis by simp
  qed
  ultimately show ?thesis by blast
qed

lemma sort_json_content: "keyed v \<Longrightarrow> keyed w \<Longrightarrow> content_of v = content_of w \<Longrightarrow> sort_json v = sort_json w"
proof (induction v arbitrary: w)
  case (JArr xs)
  then obtain ys where w: "w = JArr ys" "map content_of xs = map content_of ys" by (cases w) auto
  have "map sort_json xs = map sort_json ys"
  proof (rule nth_equalityI)
    show "length (map sort_json xs) = length (map sort_json ys)" using w(2) by (metis length_map)
    fix i assume i: "i < length (map sort_json xs)"
    then have "i < length ys" using w(2) by (metis length_map)
    moreover from this i have "content_of (xs ! i) = content_of (ys ! i)" using w(2) by (metis length_map nth_map)
    ultimately show "map sort_json xs ! i = map sort_json ys ! i"
      using JArr.IH [of "xs ! i" "ys ! i"] JArr.prems(1,2) w(1) i by (simp add: list_all_length)
  qed
  with w(1) show ?case by simp
next
  case (JObj kvs)
  let ?c = "\<lambda>p. (fst p, content_of (snd p))" and ?s = "\<lambda>p. (fst p, sort_json (snd p))"
  from JObj.prems(3) obtain kws where w: "w = JObj kws" "map_of (map ?c kvs) = map_of (map ?c kws)"
    by (cases w) auto
  have keys: "distinct (map fst kvs)" "distinct (map fst kws)" using JObj.prems(1,2) w(1) by simp_all
  then have "distinct (map fst (map ?c kvs))" "distinct (map fst (map ?c kws))" by (simp_all add: comp_def)
  from map_of_inject_set [OF this] w(2) have same: "set (map ?c kvs) = set (map ?c kws)" by blast
  have sorted: "sort_json (snd p) = sort_json (snd q)"
    if "p \<in> set kvs" "q \<in> set kws" "?c p = ?c q" for p q
    using JObj.IH [of p "snd p" "snd q"] JObj.prems(1,2) that w(1) by (auto simp: list_all_iff snds.simps)
  have "?s ` set kvs = ?s ` set kws"
    by (rule images_agree [OF same [unfolded list.set_map]]) (use sorted in simp)
  with keys have "sort_key fst (map ?s kvs) = sort_key fst (map ?s kws)"
    by (intro sort_key_same_set) (simp_all add: comp_def)
  with w(1) show ?case by simp
qed (case_tac w; simp)+

text \<open>Sorting the keys at all depths forgets their order and nothing else.\<close>

lemma sort_json_eq_iff:
  assumes "keyed v" "keyed w"
  shows "sort_json v = sort_json w \<longleftrightarrow> content_of v = content_of w"
  using sort_json_content [OF assms] content_of_sort [OF assms(1)] content_of_sort [OF assms(2)] by metis

end
