(* ===== verification/Store.thy ===== *)
theory Store
  imports Json
begin

text \<open>
  The runtime database, one record per table row as \<open>create_sqlite_substrate\<close> in
  \<open>src/onetruth/infrastructure/events/event_store.py\<close> declares it, and the database as the
  record of its tables. A table is the list of its rows in insertion order; an \<open>INTEGER
  PRIMARY KEY AUTOINCREMENT\<close> keeps its next value beside the table. Columns that hold JSON
  text hold the value that reading them back gives. Columns that only SQLite's own
  \<open>datetime('now')\<close> fills are left out, except where a query returns them.
\<close>

section \<open>Rows\<close>

record event_row =
  ev_seq :: nat
  ev_id :: string
  ev_type :: string
  ev_schema_version :: string
  ev_occurred_at :: string
  ev_recorded_at :: string
  ev_tenant :: string
  ev_domain :: string
  ev_run :: "string option"
  ev_project :: "string option"
  ev_actor :: json
  ev_links :: json
  ev_payload :: json
  ev_correlation :: "string option"
  ev_causation :: "string option"
  ev_idem :: "string option"
  ev_integrity :: "json option"

record cursor_row =
  cu_consumer :: string
  cu_tenant :: string
  cu_domain :: string
  cu_last :: nat
  cu_updated_at :: string

record receipt_row =
  rc_id :: nat
  rc_command :: string
  rc_scope :: string
  rc_idem :: string
  rc_fingerprint :: string
  rc_profile :: string
  rc_result :: dict
  rc_tenant :: "string option"
  rc_domain :: "string option"
  rc_run :: "string option"

record effect_row =
  ef_id :: string
  ef_tenant :: string
  ef_domain :: string
  ef_run :: "string option"
  ef_command :: string
  ef_scope :: string
  ef_idem :: string
  ef_fingerprint :: string
  ef_profile :: string
  ef_key :: string
  ef_kind :: string
  ef_target_kind :: string
  ef_target_ref :: string
  ef_payload_hash :: string
  ef_payload :: dict
  ef_status :: string
  ef_result :: "dict option"
  ef_metadata :: dict
  ef_created_at :: string
  ef_applied_at :: "string option"

record project_row =
  pj_id :: string
  pj_tenant :: string
  pj_domain :: string
  pj_key :: string
  pj_name :: string
  pj_state :: string
  pj_metadata :: dict
  pj_creator_id :: string
  pj_creator_type :: string
  pj_created_at :: string
  pj_updated_at :: string

record membership_row =
  mb_id :: string
  mb_project :: string
  mb_tenant :: string
  mb_domain :: string
  mb_actor_type :: string
  mb_actor_id :: string
  mb_role :: string
  mb_state :: string
  mb_granter_id :: string
  mb_granter_type :: string
  mb_created_at :: string
  mb_updated_at :: string

record authorization_row =
  pa_id :: string
  pa_project :: string
  pa_tenant :: string
  pa_domain :: string
  pa_actor_type :: string
  pa_actor_id :: string
  pa_direct_role :: string
  pa_effective_role :: string
  pa_membership :: string
  pa_state :: string
  pa_created_at :: string
  pa_updated_at :: string

record feature_row =
  pf_id :: string
  pf_project :: string
  pf_tenant :: string
  pf_domain :: string
  pf_key :: string
  pf_state :: string
  pf_blocked_reason :: "string option"
  pf_metadata :: dict
  pf_created_at :: string
  pf_updated_at :: string

record project_view_row =
  pv_id :: string
  pv_tenant :: string
  pv_domain :: string
  pv_actor_type :: string
  pv_actor_id :: string
  pv_project :: string
  pv_key :: string
  pv_name :: string
  pv_state :: string
  pv_metadata :: dict
  pv_creator_id :: string
  pv_creator_type :: string
  pv_project_created_at :: string
  pv_project_updated_at :: string
  pv_role :: string
  pv_authorization_state :: string
  pv_authorization :: string
  pv_created_at :: string
  pv_updated_at :: string

record slot_policy_row =
  sp_id :: string
  sp_tenant :: string
  sp_domain :: string
  sp_project :: string
  sp_family :: string
  sp_max_slots :: int
  sp_state :: string
  sp_version :: string
  sp_metadata :: dict
  sp_created_at :: string
  sp_updated_at :: string

record slot_row =
  sl_id :: string
  sl_tenant :: string
  sl_domain :: string
  sl_project :: string
  sl_family :: string
  sl_key :: string
  sl_holder :: string
  sl_lease :: string
  sl_state :: string
  sl_active :: "string option"
  sl_acquired_at :: string
  sl_expires_at :: "string option"
  sl_released_at :: "string option"
  sl_metadata :: dict
  sl_created_at :: string
  sl_updated_at :: string

record batch_row =
  ib_id :: string
  ib_tenant :: string
  ib_domain :: string
  ib_project :: string
  ib_intake_ref :: string
  ib_idem :: string
  ib_fingerprint :: string
  ib_status :: string
  ib_descriptor_count :: int
  ib_metadata :: json
  ib_actor_id :: string
  ib_actor_type :: string
  ib_created_at :: string
  ib_updated_at :: string

record job_row =
  ij_id :: string
  ij_batch :: string
  ij_tenant :: string
  ij_domain :: string
  ij_project :: string
  ij_kind :: string
  ij_status :: string
  ij_priority :: int
  ij_idem :: string
  ij_fingerprint :: string
  ij_receipt :: "nat option"
  ij_task_refs :: "string list"
  ij_artifact_refs :: "string list"
  ij_metadata :: json
  ij_created_at :: string
  ij_updated_at :: string
  ij_terminal_at :: "string option"

record attempt_row =
  ia_id :: string
  ia_job :: string
  ia_tenant :: string
  ia_domain :: string
  ia_project :: string
  ia_no :: int
  ia_status :: string
  ia_session :: "string option"
  ia_receipt :: "nat option"
  ia_lease :: "string option"
  ia_metadata :: json
  ia_started_at :: "string option"
  ia_completed_at :: "string option"
  ia_error :: "string option"
  ia_created_at :: string
  ia_updated_at :: string

record job_log_row =
  il_id :: string
  il_job :: string
  il_attempt :: "string option"
  il_tenant :: string
  il_domain :: string
  il_project :: string
  il_kind :: string
  il_severity :: string
  il_code :: string
  il_summary :: "string option"
  il_metadata :: json
  il_created_at :: string

record run_row =
  wr_id :: string
  wr_project :: "string option"
  wr_workflow :: string
  wr_version :: string
  wr_tenant :: string
  wr_domain :: string
  wr_partition :: string
  wr_logical_date :: "string option"
  wr_activation :: string
  wr_state :: string
  wr_created_at :: string
  wr_updated_at :: string

record flag_row =
  fl_id :: string
  fl_run :: string
  fl_tenant :: string
  fl_domain :: string
  fl_workflow :: string
  fl_partition :: string
  fl_kind :: string
  fl_severity :: string
  fl_state :: string
  fl_summary :: string
  fl_details :: json
  fl_group :: "string option"
  fl_created_at :: string
  fl_closed_at :: "string option"
  fl_actor_id :: string
  fl_actor_type :: string
  fl_source_event :: "string option"
  fl_dedupe :: "string option"
  fl_updated_at :: string

record task_run_row =
  tr_id :: string
  tr_run :: string
  tr_stage :: string
  tr_kind :: string
  tr_state :: string
  tr_generation :: int
  tr_activation :: string
  tr_blocked_kind :: "string option"
  tr_blocked_ref :: "string option"
  tr_from_flag :: "string option"
  tr_from_task_run :: "string option"
  tr_spawn_rule :: "string option"
  tr_cause_kind :: "string option"
  tr_cause_event :: "string option"
  tr_spawn_depth :: int
  tr_budget_key :: "string option"
  tr_created_at :: string
  tr_updated_at :: string

record human_task_row =
  ht_id :: string
  ht_run :: string
  ht_task_run :: string
  ht_kind :: string
  ht_state :: string
  ht_roles :: "string list"
  ht_owner_role :: "string option"
  ht_assignee_id :: "string option"
  ht_assignee_type :: "string option"
  ht_due_at :: "string option"
  ht_escalation_at :: "string option"
  ht_lease_version :: nat
  ht_claimed_at :: "string option"
  ht_claimed_until :: "string option"
  ht_approval :: "string option"
  ht_reopen_count :: nat
  ht_generation :: int
  ht_created_at :: string
  ht_updated_at :: string

record approval_row =
  ap_id :: string
  ap_run :: string
  ap_task_run :: "string option"
  ap_kind :: string
  ap_scope_kind :: string
  ap_scope_ref :: string
  ap_state :: string
  ap_requested_by :: "string option"
  ap_roles :: "string list"
  ap_required_role :: "string option"
  ap_requested_at :: string
  ap_responded_at :: "string option"
  ap_response_kind :: "string option"
  ap_response_reason :: "string option"
  ap_actor_id :: "string option"
  ap_actor_type :: "string option"
  ap_generation :: int
  ap_created_at :: string
  ap_updated_at :: string

record session_row =
  es_id :: string
  es_run :: string
  es_task_run :: string
  es_spec :: string
  es_state :: string
  es_owner_mode :: string
  es_principal :: "json option"
  es_budget :: "json option"
  es_tool_calls :: int
  es_created_at :: string
  es_updated_at :: string
  es_closed_at :: "string option"

record tool_execution_row =
  te_id :: string
  te_session :: string
  te_class :: string
  te_name :: "string option"
  te_state :: string
  te_idem :: string
  te_attempt_no :: int
  te_policy :: "string option"
  te_outputs :: "string list option"
  te_requested_at :: string
  te_completed_at :: "string option"
  te_error :: "string option"

record tool_attempt_row =
  ta_id :: string
  ta_tool :: string
  ta_session :: string
  ta_no :: nat
  ta_lease :: string
  ta_state :: string
  ta_active :: "string option"
  ta_outputs :: "string list option"
  ta_started_at :: string
  ta_completed_at :: "string option"
  ta_error :: "string option"
  ta_created_at :: string
  ta_updated_at :: string

record policy_decision_row =
  pd_id :: string
  pd_principal :: dict
  pd_decision :: string
  pd_reason :: "string option"
  pd_approval_action :: "string option"
  pd_tool :: "string option"
  pd_decided_at :: string

record artifact_row =
  av_id :: string
  av_run :: string
  av_tenant :: "string option"
  av_domain :: "string option"
  av_project :: "string option"
  av_dataset :: "string option"
  av_partition_kind :: "string option"
  av_partition :: "string option"
  av_task_run :: "string option"
  av_kind :: string
  av_role :: "string option"
  av_media_type :: string
  av_storage_uri :: string
  av_digest :: string
  av_byte_size :: "int option"
  av_metadata :: dict
  av_parent :: "string option"
  av_supersedes :: "string option"
  av_lineage_note :: "string option"
  av_identity_profile :: "string option"
  av_identity_digest :: "string option"
  av_created_at :: string

record artifact_link_row =
  al_artifact :: string
  al_run :: string
  al_subject_kind :: string
  al_subject :: string
  al_relation :: string
  al_created_at :: string
  al_actor_id :: string
  al_actor_type :: string

record provenance_row =
  pe_id :: string
  pe_run :: "string option"
  pe_project :: "string option"
  pe_output :: string
  pe_input :: string
  pe_type :: string
  pe_order :: "int option"
  pe_metadata :: "dict option"
  pe_created_at :: string

record pointer_row =
  pt_id :: string
  pt_run :: string
  pt_key :: string
  pt_tenant :: "string option"
  pt_domain :: "string option"
  pt_dataset :: "string option"
  pt_partition_kind :: "string option"
  pt_partition :: "string option"
  pt_stream :: "string option"
  pt_registry :: "string option"
  pt_scope_kind :: string
  pt_scope_ref :: string
  pt_artifact_kind :: string
  pt_artifact :: string
  pt_reason :: "string option"
  pt_task_run :: "string option"
  pt_approval :: "string option"
  pt_generation :: int
  pt_updated_at :: string

record content_identity_row =
  ci_id :: string
  ci_tenant :: string
  ci_domain :: string
  ci_algorithm :: string
  ci_digest :: string
  ci_byte_size :: "int option"
  ci_media_type :: "string option"
  ci_profile :: "string option"
  ci_metadata :: dict
  ci_created_at :: string

record source_occurrence_row =
  so_id :: string
  so_tenant :: string
  so_domain :: string
  so_project :: "string option"
  so_content :: string
  so_kind :: string
  so_status :: string
  so_ref :: string
  so_locator :: dict
  so_metadata :: dict
  so_actor_id :: string
  so_actor_type :: string
  so_created_at :: string
  so_updated_at :: string

record waiver_row =
  wv_id :: string
  wv_tenant :: string
  wv_domain :: string
  wv_project :: "string option"
  wv_scope_kind :: string
  wv_scope_ref :: string
  wv_state :: string
  wv_reason :: string
  wv_version :: string
  wv_metadata :: dict
  wv_actor_id :: string
  wv_actor_type :: string
  wv_expires_at :: "string option"
  wv_revoked_at :: "string option"
  wv_created_at :: string
  wv_updated_at :: string

record evaluation_row =
  ge_id :: string
  ge_tenant :: string
  ge_domain :: string
  ge_project :: "string option"
  ge_target_kind :: string
  ge_target :: string
  ge_version :: string
  ge_required :: "dict list"
  ge_satisfied :: "dict list"
  ge_missing :: "dict list"
  ge_waivers :: "dict list"
  ge_basis :: dict
  ge_result :: string
  ge_metadata :: dict
  ge_actor_id :: string
  ge_actor_type :: string
  ge_created_at :: string

record snapshot_row =
  sn_id :: string
  sn_evaluation :: string
  sn_tenant :: string
  sn_domain :: string
  sn_project :: "string option"
  sn_target_kind :: string
  sn_target :: string
  sn_version :: string
  sn_state :: string
  sn_result :: string
  sn_basis :: dict
  sn_metadata :: dict
  sn_actor_id :: string
  sn_actor_type :: string
  sn_stale_reason :: "string option"
  sn_stale_at :: "string option"
  sn_reopened_at :: "string option"
  sn_created_at :: string
  sn_updated_at :: string

record run_input_row =
  wi_id :: string
  wi_run :: string
  wi_key :: string
  wi_source_kind :: string
  wi_source :: string
  wi_artifact :: "string option"
  wi_pointer_key :: "string option"
  wi_generation :: "int option"
  wi_pointer_artifact :: "string option"
  wi_captured_by :: "string option"
  wi_captured_at :: string
  wi_metadata :: "dict option"

record task_input_row =
  ti_id :: string
  ti_task_run :: string
  ti_run :: string
  ti_key :: string
  ti_source_kind :: string
  ti_source :: string
  ti_artifact :: "string option"
  ti_pointer_key :: "string option"
  ti_generation :: "int option"
  ti_pointer_artifact :: "string option"
  ti_captured_at :: string
  ti_metadata :: "dict option"
  ti_created_at :: string

record edge_row =
  ee_id :: string
  ee_edge :: string
  ee_source_run :: string
  ee_source_stage :: string
  ee_source_artifact :: string
  ee_source_activation :: string
  ee_target_workflow :: string
  ee_target_run :: "string option"
  ee_target_stage :: string
  ee_target_kind :: string
  ee_target_partition :: string
  ee_target_activation :: string
  ee_correlation :: string
  ee_materialize_key :: string
  ee_activation_key :: "string option"
  ee_status :: string
  ee_cursor :: "dict option"
  ee_compensation :: "dict option"
  ee_inputs :: "dict option"
  ee_trigger :: "string option"
  ee_seed :: "string option"
  ee_created_at :: string
  ee_updated_at :: string
  ee_activated_at :: "string option"

section \<open>The database\<close>

text \<open>The tables the modelled code reads and writes.\<close>

record db =
  events :: "event_row list"
  next_seq :: nat
  cursors :: "cursor_row list"
  receipts :: "receipt_row list"
  next_receipt :: nat
  effects :: "effect_row list"
  projects :: "project_row list"
  batches :: "batch_row list"
  jobs :: "job_row list"
  attempts :: "attempt_row list"
  job_logs :: "job_log_row list"
  runs :: "run_row list"
  flags :: "flag_row list"
  task_runs :: "task_run_row list"
  human_tasks :: "human_task_row list"
  approvals :: "approval_row list"
  sessions :: "session_row list"
  tool_executions :: "tool_execution_row list"
  tool_attempts :: "tool_attempt_row list"
  pointers :: "pointer_row list"
  policy_decisions :: "policy_decision_row list"
  artifact_versions :: "artifact_row list"
  artifact_links :: "artifact_link_row list"
  provenance_edges :: "provenance_row list"
  memberships :: "membership_row list"
  project_authorizations :: "authorization_row list"
  project_features :: "feature_row list"
  project_views :: "project_view_row list"
  slot_policies :: "slot_policy_row list"
  slots :: "slot_row list"
  content_identities :: "content_identity_row list"
  source_occurrences :: "source_occurrence_row list"
  waivers :: "waiver_row list"
  gate_evaluations :: "evaluation_row list"
  closure_snapshots :: "snapshot_row list"
  run_inputs :: "run_input_row list"
  task_inputs :: "task_input_row list"
  edge_executions :: "edge_row list"

definition empty_db :: db where
  "empty_db = \<lparr>events = [], next_seq = 1, cursors = [], receipts = [], next_receipt = 1,
     effects = [], projects = [], batches = [], jobs = [], attempts = [], job_logs = [],
     runs = [], flags = [], task_runs = [], human_tasks = [], approvals = [], sessions = [],
     tool_executions = [], tool_attempts = [], pointers = [], policy_decisions = [],
     artifact_versions = [], artifact_links = [], provenance_edges = [], memberships = [],
     project_authorizations = [], project_features = [], project_views = [], slot_policies = [],
     slots = [], content_identities = [], source_occurrences = [], waivers = [], gate_evaluations = [],
     closure_snapshots = [], run_inputs = [], task_inputs = [], edge_executions = []\<rparr>"

abbreviation artifact_ids :: "db \<Rightarrow> string list" where
  "artifact_ids d \<equiv> map av_id (artifact_versions d)"

section \<open>SQL idioms\<close>

text \<open>\<open>SELECT ... WHERE p\<close> with \<open>fetchone\<close>, and \<open>UPDATE ... SET f WHERE p\<close>.\<close>

abbreviation select_one :: "('r \<Rightarrow> bool) \<Rightarrow> 'r list \<Rightarrow> 'r option" where
  "select_one \<equiv> List.find"

definition update_where :: "('r \<Rightarrow> bool) \<Rightarrow> ('r \<Rightarrow> 'r) \<Rightarrow> 'r list \<Rightarrow> 'r list" where
  "update_where p f rows = map (\<lambda>r. if p r then f r else r) rows"

definition row_count :: "('r \<Rightarrow> bool) \<Rightarrow> 'r list \<Rightarrow> nat" where
  "row_count p rows = length (filter p rows)"

definition exists_row :: "('r \<Rightarrow> bool) \<Rightarrow> 'r list \<Rightarrow> bool" where
  "exists_row p rows = list_ex p rows"

text \<open>
  \<open>sqlite3\<close> binds integers of 64 bits; a larger one fails before the statement runs. \<open>m\<close> is the
  statement.
\<close>

definition bind_integer :: "int \<Rightarrow> unit result" where
  "bind_integer n = require (- (2 ^ 63) \<le> n \<and> n < 2 ^ 63) OverflowError"

definition with_integers :: "int list \<Rightarrow> ('a, 's) comp \<Rightarrow> ('a, 's) comp" where
  "with_integers ns m = seq (of_result (check_all bind_integer ns)) (\<lambda>_. m)"

lemma with_integers_cases:
  obtains "with_integers ns m s = m s" "\<forall>n\<in>set ns. bind_integer n = Inr ()"
  | e where "with_integers ns m s = (Inl e, s)"
  by (cases "check_all bind_integer ns") (auto simp: with_integers_def comp_simps)

lemma with_integers_Inr:
  "with_integers ns m s = (Inr x, s') \<longleftrightarrow> (\<forall>n\<in>set ns. bind_integer n = Inr ()) \<and> m s = (Inr x, s')"
  by (simp add: with_integers_def seq_of_result_Inr)

text \<open>A nullable foreign key.\<close>

definition fk_ok :: "string option \<Rightarrow> string list \<Rightarrow> bool" where
  "fk_ok k keys = (case k of None \<Rightarrow> True | Some x \<Rightarrow> x \<in> set keys)"

abbreviation fk_failed :: exc where
  "fk_failed \<equiv> IntegrityError ''FOREIGN KEY constraint failed''"

lemma exists_row_iff [simp]: "exists_row p rows \<longleftrightarrow> (\<exists>r\<in>set rows. p r)"
  by (simp add: exists_row_def list_ex_iff)

lemma select_one_None [table_simps]: "select_one p rows = None \<longleftrightarrow> (\<forall>r\<in>set rows. \<not> p r)"
  by (auto simp: find_None_iff)

lemma select_one_Some: "select_one p rows = Some r \<Longrightarrow> r \<in> set rows \<and> p r"
  by (auto simp: find_Some_iff)

lemma select_one_append [table_simps]:
  "select_one p (xs @ ys) = (case select_one p xs of None \<Rightarrow> select_one p ys | Some r \<Rightarrow> Some r)"
  by (induction xs) auto

lemma select_one_singleton [simp]: "select_one p [r] = (if p r then Some r else None)"
  by simp

lemma set_update_where: "set (update_where p f rows) = (\<lambda>r. if p r then f r else r) ` set rows"
  by (simp add: update_where_def)

lemma length_update_where [simp]: "length (update_where p f rows) = length rows"
  by (simp add: update_where_def)

lemma map_update_where:
  "(\<And>r. p r \<Longrightarrow> g (f r) = g r) \<Longrightarrow> map g (update_where p f rows) = map g rows"
  by (simp add: update_where_def)

lemma update_where_none: "(\<And>r. r \<in> set rows \<Longrightarrow> \<not> p r) \<Longrightarrow> update_where p f rows = rows"
  by (simp add: update_where_def map_idI)

text \<open>
  Under a unique key, a query by that key finds the row that was put in, and an update by that
  key changes that row only.
\<close>

lemma select_key_update:
  assumes "\<And>r. k (f r) = k r"
  shows "select_one (\<lambda>r. k r = a) (update_where (\<lambda>r. k r = a \<and> q r) f rows) =
    map_option (\<lambda>r. if q r then f r else r) (select_one (\<lambda>r. k r = a) rows)"
  using assms by (induction rows) (auto simp: update_where_def)

lemma select_other_update:
  assumes "\<And>r. k (f r) = k r" "b \<noteq> a"
  shows "select_one (\<lambda>r. k r = b) (update_where (\<lambda>r. k r = a \<and> q r) f rows) =
    select_one (\<lambda>r. k r = b) rows"
  using assms by (induction rows) (auto simp: update_where_def)

text \<open>Columns that an update does not touch are read as before.\<close>

lemma select_column_updated:
  assumes "\<And>r. k (f r) = k r" "\<And>r. col (f r) = col r"
  shows "map_option col (select_one (\<lambda>r. k r = i) (update_where p f rows)) =
    map_option col (select_one (\<lambda>r. k r = i) rows)"
  using assms by (induction rows) (auto simp: update_where_def)

lemma select_row_updated:
  assumes "\<And>r. k (f r) = k r"
  shows "select_one (\<lambda>r. k r = j) (update_where (\<lambda>r. k r = i) f rows) =
    map_option (\<lambda>r. if j = i then f r else r) (select_one (\<lambda>r. k r = j) rows)"
  using assms by (induction rows) (auto simp: update_where_def)

lemma row_count_key:
  assumes "distinct (map k rows)"
  shows "row_count (\<lambda>r. k r = a \<and> q r) rows =
    (case select_one (\<lambda>r. k r = a) rows of None \<Rightarrow> 0 | Some r \<Rightarrow> if q r then 1 else 0)"
  using assms
proof (induction rows)
  case (Cons r rows)
  have "filter (\<lambda>r'. k r' = k r \<and> q r') rows = []"
    using Cons.prems by (auto simp: filter_empty_conv) (metis imageI)
  with Cons show ?case by (auto simp: row_count_def)
qed (simp add: row_count_def)

lemma select_of_key:
  assumes "distinct (map k rows)" "r \<in> set rows"
  shows "select_one (\<lambda>x. k x = k r) rows = Some r"
  using assms by (induction rows) (auto simp: rev_image_eqI)

section \<open>Tables with a unique column\<close>

text \<open>
  What the components rely on when they put a row into a table with a unique, possibly null,
  column (or tuple of columns): the row is added at the end and its key was free, or nothing
  happens. \<open>key r = None\<close> stands for null, which SQLite lets occur any number of times.
\<close>

definition unique_keys :: "('r \<Rightarrow> 'k option) \<Rightarrow> 'r list \<Rightarrow> bool" where
  "unique_keys key rows = distinct (List.map_filter key rows)"

lemma unique_keys_Nil [simp]: "unique_keys key []"
  by (simp add: unique_keys_def List.map_filter_def)

lemma unique_keys_snoc:
  "unique_keys key (rows @ [r]) \<longleftrightarrow>
     unique_keys key rows \<and> (key r = None \<or> (\<forall>x\<in>set rows. key x \<noteq> key r))"
  by (auto simp: unique_keys_def List.map_filter_def)
     (metis (mono_tags, lifting) imageI mem_Collect_eq option.sel)+

lemma unique_keys_total: "unique_keys (\<lambda>r. Some (k r)) rows \<longleftrightarrow> distinct (map k rows)"
  by (simp add: unique_keys_def List.map_filter_def comp_def)

lemma unique_keys_update:
  assumes "\<And>r. p r \<Longrightarrow> key (f r) = key r"
  shows "unique_keys key (update_where p f rows) = unique_keys key rows"
proof -
  have "List.map_filter key (update_where p f rows) = List.map_filter key rows"
    using assms by (induction rows)
      (auto simp: update_where_def List.map_filter_simps split: option.split)
  then show ?thesis by (simp add: unique_keys_def)
qed

lemma in_map_filter: "k \<in> set (List.map_filter key rows) \<longleftrightarrow> (\<exists>r\<in>set rows. key r = Some k)"
  by (force simp: List.map_filter_def)

lemma unique_keys_Cons:
  "unique_keys key (r # rows) \<longleftrightarrow> unique_keys key rows \<and> (key r = None \<or> (\<forall>x\<in>set rows. key x \<noteq> key r))"
  by (cases "key r") (auto simp: unique_keys_def List.map_filter_simps in_map_filter)

text \<open>An update may give keys up.\<close>

lemma unique_keys_released:
  assumes "\<And>r. p r \<Longrightarrow> key (f r) = None \<or> key (f r) = key r" "unique_keys key rows"
  shows "unique_keys key (update_where p f rows)"
  using assms(2)
proof (induction rows)
  case (Cons r rows)
  let ?g = "\<lambda>r. if p r then f r else r"
  have mine: "key (?g r) = None \<or> key (?g r) = key r" using assms(1) by simp
  have "key x \<noteq> key r" if "key r \<noteq> None" "x \<in> set (update_where p f rows)" for x
  proof
    assume same: "key x = key r"
    from that(2) obtain y where y: "y \<in> set rows" "x = ?g y" by (auto simp: set_update_where)
    with assms(1) [of y] same that(1) have "key y = key r" by (auto split: if_splits)
    with Cons.prems y(1) that(1) show False by (auto simp: unique_keys_Cons)
  qed
  moreover have "unique_keys key (update_where p f rows)"
    using Cons by (simp add: unique_keys_Cons)
  ultimately have "unique_keys key (?g r # update_where p f rows)"
    using mine by (cases "key r") (auto simp: unique_keys_Cons)
  then show ?case by (simp add: update_where_def)
qed (simp add: update_where_def)

text \<open>Two rows with the same key are one.\<close>

lemma unique_keys_once:
  assumes "unique_keys key rows" "\<And>r. r \<in> set rows \<Longrightarrow> q r \<Longrightarrow> key r = Some k" "r \<in> set rows" "q r"
  shows "filter q rows = [r]"
  using assms
proof (induction rows)
  case (Cons x rows)
  have keys: "unique_keys key rows" "key x = None \<or> (\<forall>y\<in>set rows. key y \<noteq> key x)"
    using Cons.prems(1) by (simp_all add: unique_keys_Cons)
  show ?case
  proof (cases "q x")
    case True
    then have x: "key x = Some k" using Cons.prems(2) by simp
    with keys(2) have "\<And>y. y \<in> set rows \<Longrightarrow> \<not> q y" using Cons.prems(2) by fastforce
    moreover from this have "r = x" using Cons.prems(3,4) by auto
    ultimately show ?thesis using True by (simp add: filter_empty_conv)
  next
    case False
    then have "r \<in> set rows" using Cons.prems(3,4) by auto
    with Cons.IH [OF keys(1)] Cons.prems(2,4) False show ?thesis by simp
  qed
qed simp

text \<open>A row read back after it was written, or the internal error.\<close>

definition read_back :: "('s \<Rightarrow> 'r option) \<Rightarrow> ('r, 's) comp" where
  "read_back get = seq (asks get) (\<lambda>row. case row of None \<Rightarrow> raise RuntimeError | Some r \<Rightarrow> ret r)"

locale unique_table =
  fixes rows :: "'s \<Rightarrow> 'r list"
    and key :: "'r \<Rightarrow> 'k option"
    and insert_row :: "'r \<Rightarrow> (unit, 's) comp"
  assumes insert_ok: "insert_row r s = (Inr u, s') \<Longrightarrow>
      rows s' = rows s @ [r] \<and> (key r = None \<or> (\<forall>x\<in>set (rows s). key x \<noteq> key r))"
    and insert_failed: "insert_row r s = (Inl e, s') \<Longrightarrow> s' = s"
begin

lemma lookup_inserted:
  assumes "insert_row r s = (Inr u, s')" "key r = Some k"
  shows "select_one (\<lambda>x. key x = Some k) (rows s) = None"
    and "select_one (\<lambda>x. key x = Some k) (rows s') = Some r"
proof -
  from insert_ok [OF assms(1)] assms(2)
  have rows: "rows s' = rows s @ [r]" and free: "\<And>x. x \<in> set (rows s) \<Longrightarrow> key x \<noteq> Some k"
    by auto
  from free show none: "select_one (\<lambda>x. key x = Some k) (rows s) = None"
    by (simp add: select_one_None)
  from none assms(2) show "select_one (\<lambda>x. key x = Some k) (rows s') = Some r"
    by (simp add: rows select_one_append)
qed

lemma lookup_other:
  assumes "insert_row r s = (Inr u, s')" "key r \<noteq> Some k"
  shows "select_one (\<lambda>x. key x = Some k) (rows s') = select_one (\<lambda>x. key x = Some k) (rows s)"
proof -
  from insert_ok [OF assms(1)] have "rows s' = rows s @ [r]" by simp
  with assms(2) show ?thesis by (simp add: select_one_append split: option.split)
qed

lemma lookup_stored:
  assumes "unique_keys key (rows s)" "r \<in> set (rows s)" "key r = Some k"
  shows "select_one (\<lambda>x. key x = Some k) (rows s) = Some r"
proof -
  have "unique_keys key xs \<Longrightarrow> r \<in> set xs \<Longrightarrow> select_one (\<lambda>x. key x = Some k) xs = Some r" for xs
    using assms(3)
    by (induction xs) (force simp: unique_keys_def List.map_filter_def split: if_splits)+
  then show ?thesis using assms by blast
qed

lemma keeps_unique: "keeps (\<lambda>s. unique_keys key (rows s)) (insert_row r)"
proof (rule keepsI)
  fix s assume "unique_keys key (rows s)"
  then show "unique_keys key (rows (snd (insert_row r s)))"
    using insert_ok [of r s] insert_failed [of r s]
    by (cases "insert_row r s"; cases "fst (insert_row r s)") (auto simp: unique_keys_snoc)
qed

lemma insert_twice:
  assumes "insert_row r s = (Inr u, s')" "key q = key r" "key r \<noteq> None"
  obtains e where "insert_row q s' = (Inl e, s')"
proof (cases "fst (insert_row q s')")
  case (Inl e)
  with that insert_failed show ?thesis by (metis prod.collapse)
next
  case (Inr v)
  then have "insert_row q s' = (Inr v, snd (insert_row q s'))" by (metis prod.collapse)
  from insert_ok [OF this] insert_ok [OF assms(1)] assms(2,3) have False by auto
  then show ?thesis ..
qed

text \<open>A checked insert that reads its row back changes nothing or adds the row and returns it.\<close>

lemma checked_insert:
  assumes run: "seq (of_result c) (\<lambda>x. seq (insert_row (row x)) (\<lambda>_.
      read_back (\<lambda>s. select_one (\<lambda>r. key r = Some k) (rows s)))) s = (res, s')"
    and key: "\<And>x. key (row x) = Some k"
  shows "(\<exists>e. res = Inl e \<and> s' = s)
    \<or> (\<exists>x. c = Inr x \<and> res = Inr (row x) \<and> insert_row (row x) s = (Inr (), s'))"
proof (cases c)
  case (Inr x)
  show ?thesis
  proof (cases "insert_row (row x) s")
    case (Pair r s1)
    show ?thesis
    proof (cases r)
      case (Inl e)
      with run Pair Inr insert_failed show ?thesis by (auto simp: comp_simps)
    next
      case r: (Inr u)
      have "select_one (\<lambda>r. key r = Some k) (rows s1) = Some (row x)"
        using lookup_inserted(2) [OF Pair [unfolded r] key] .
      with run Pair Inr r show ?thesis by (auto simp: comp_simps read_back_def)
    qed
  qed
qed (use run in \<open>auto simp: comp_simps\<close>)

lemma grows: "\<exists>xs. rows (snd (insert_row r s)) = rows s @ xs"
  using insert_ok [of r s] insert_failed [of r s]
  by (cases "insert_row r s"; cases "fst (insert_row r s)") auto

end

end
