(* ===== verification/Event_Store.thy ===== *)
theory Event_Store
  imports Store
begin

text \<open>
  The event store: \<open>append_event\<close>, \<open>list_events\<close>, \<open>get_event_by_idempotency_key\<close> and the
  command receipt table of \<open>src/onetruth/infrastructure/events/event_store.py\<close>. Envelopes are
  JSON objects. The registry of link types an event must carry is the file
  \<open>schemas/events/event_type_registry.yaml\<close>, which the code loads; here it is data.
\<close>

section \<open>Envelope checks\<close>

definition required_link_types_by_event :: "string \<Rightarrow> string list option" where
  "required_link_types_by_event = map_of
    [(''capex.project.created'', [''capex_project'']),
     (''capex.project_membership.granted'', [''capex_project'', ''project_membership'']),
     (''capex.project_membership.revoked'', [''capex_project'', ''project_membership'']),
     (''workflow.run.created'', [''workflow_run'', ''workflow_contract_version'',
        ''decision_catalog_version'', ''execution_profile_version'']),
     (''workflow.run.state_changed'', [''workflow_run'']),
     (''task.run.created'', [''workflow_run'', ''task_run'']),
     (''task.run.state_changed'', [''workflow_run'', ''task_run'']),
     (''task.created'', [''workflow_run'', ''task_run'', ''human_task'']),
     (''task.claimed'', [''task_run'', ''human_task'']),
     (''task.lease_expired'', [''task_run'', ''human_task'']),
     (''task.completed'', [''task_run'', ''human_task'']),
     (''approval.requested'', [''approval'']),
     (''approval.responded'', [''approval'']),
     (''flag.created'', [''flag'', ''workflow_run'']),
     (''flag.state_changed'', [''flag'', ''workflow_run'']),
     (''artifact.version.created'', [''artifact_version'']),
     (''artifact.pointer.promoted'', [''pointer'', ''artifact_version'']),
     (''artifact.pointer.drift_detected'', [''pointer'', ''artifact_version'']),
     (''execution.session.created'', [''task_run'', ''execution_session'', ''execution_spec'']),
     (''execution.session.state_changed'', [''execution_session'']),
     (''tool.execution.requested'', [''execution_session'', ''tool_execution'']),
     (''tool.execution.approved'', [''execution_session'', ''tool_execution'', ''policy_decision'']),
     (''tool.execution.denied'', [''execution_session'', ''tool_execution'', ''policy_decision'']),
     (''tool.execution.completed'', [''execution_session'', ''tool_execution'']),
     (''projection.rendered'', [''projection'']),
     (''projection.coherence_failed'', [''projection'']),
     (''audit.degraded_mode.changed'', [])]"

definition required_envelope_fields :: "string list" where
  "required_envelope_fields = [''event_id'', ''event_type'', ''schema_version'', ''occurred_at'',
     ''recorded_at'', ''tenant_id'', ''domain_id'', ''actor'', ''links'', ''payload'']"

definition require_required_fields :: "dict \<Rightarrow> unit result" where
  "require_required_fields envelope =
     require (\<forall>name\<in>set required_envelope_fields. name \<in> fst ` set envelope) ValueError"

text \<open>The stripped, non-blank link types of the links that are objects.\<close>

fun link_types :: "json list \<Rightarrow> string list" where
  "link_types [] = []"
| "link_types (JObj link # links) = (case jget link ''type'' of
     JStr t \<Rightarrow> if py_strip t \<noteq> [] then py_strip t # link_types links else link_types links
   | _ \<Rightarrow> link_types links)"
| "link_types (_ # links) = link_types links"

definition require_required_links_for_event :: "dict \<Rightarrow> unit result" where
  "require_required_links_for_event envelope =
     (case required_link_types_by_event (py_str (jget envelope ''event_type'')) of
        None \<Rightarrow> Inr ()
      | Some [] \<Rightarrow> Inr ()
      | Some required_links \<Rightarrow> (case jget envelope ''links'' of
          JArr links \<Rightarrow> require (set required_links \<subseteq> set (link_types links)) ValueError
        | _ \<Rightarrow> Inl ValueError))"

fun first_workflow_run_id :: "json list \<Rightarrow> string option" where
  "first_workflow_run_id [] = None"
| "first_workflow_run_id (JObj link # links) =
     (case (jget link ''type'', jget link ''id'') of
        (JStr t, JStr i) \<Rightarrow> if t = ''workflow_run'' then Some i else first_workflow_run_id links
      | _ \<Rightarrow> first_workflow_run_id links)"
| "first_workflow_run_id (_ # links) = first_workflow_run_id links"

definition extract_workflow_run_id :: "json \<Rightarrow> string option" where
  "extract_workflow_run_id links =
     (case links of JArr ls \<Rightarrow> first_workflow_run_id ls | _ \<Rightarrow> None)"

text \<open>
  The loop of \<open>_extract_project_id\<close>: a project link ends it, the last workflow run link is
  remembered.
\<close>

fun scan_project_links :: "json list \<Rightarrow> string option \<Rightarrow> string option \<times> string option" where
  "scan_project_links [] run = (None, run)"
| "scan_project_links (JObj link # links) run =
     (case (jget link ''type'', jget link ''id'') of
        (JStr t, JStr i) \<Rightarrow>
          if t = ''capex_project'' then (Some i, run)
          else if t = ''workflow_run'' then scan_project_links links (Some i)
          else scan_project_links links run
      | _ \<Rightarrow> scan_project_links links run)"
| "scan_project_links (_ # links) run = scan_project_links links run"

definition extract_project_id :: "db \<Rightarrow> json \<Rightarrow> string option" where
  "extract_project_id d links = (case links of
     JArr ls \<Rightarrow> (case scan_project_links ls None of
         (Some p, _) \<Rightarrow> Some p
       | (None, None) \<Rightarrow> None
       | (None, Some run) \<Rightarrow> (case select_one (\<lambda>r. wr_id r = run) (runs d) of
           None \<Rightarrow> None | Some r \<Rightarrow> wr_project r))
   | _ \<Rightarrow> None)"

section \<open>Appending\<close>

text \<open>
  Binding a Python value to a column of \<open>TEXT\<close> affinity: integers become their decimal text,
  containers cannot be bound. A \<open>NOT NULL\<close> column refuses null.
\<close>

definition bind_text :: "json \<Rightarrow> string option result" where
  "bind_text v = (case v of
     JNull \<Rightarrow> Inr None
   | JStr s \<Rightarrow> Inr (Some s)
   | JBool b \<Rightarrow> Inr (Some (if b then ''1'' else ''0''))
   | JInt n \<Rightarrow> if - (2 ^ 63) \<le> n \<and> n < 2 ^ 63 then Inr (Some (py_int_str n)) else Inl OverflowError
   | _ \<Rightarrow> Inl (OtherException ''ProgrammingError''))"

definition not_null :: "string \<Rightarrow> string option \<Rightarrow> string result" where
  "not_null column v = (case v of
     None \<Rightarrow> Inl (IntegrityError (''NOT NULL constraint failed: '' @ column)) | Some s \<Rightarrow> Inr s)"

definition bind_event :: "db \<Rightarrow> dict \<Rightarrow> event_row result" where
  "bind_event d envelope =
    rbind (map_result (\<lambda>k. bind_text (jget envelope k))
      [''event_type'', ''schema_version'', ''occurred_at'', ''recorded_at'', ''tenant_id'',
       ''domain_id'', ''correlation_id'', ''causation_id'', ''idempotency_key'']) (\<lambda>vs.
    rbind (not_null ''timeline_events.event_type'' (vs ! 0)) (\<lambda>event_type.
    rbind (not_null ''timeline_events.schema_version'' (vs ! 1)) (\<lambda>schema_version.
    rbind (not_null ''timeline_events.occurred_at'' (vs ! 2)) (\<lambda>occurred_at.
    rbind (not_null ''timeline_events.recorded_at'' (vs ! 3)) (\<lambda>recorded_at.
    rbind (not_null ''timeline_events.tenant_id'' (vs ! 4)) (\<lambda>tenant_id.
    rbind (not_null ''timeline_events.domain_id'' (vs ! 5)) (\<lambda>domain_id.
    Inr \<lparr>ev_seq = next_seq d, ev_id = py_str (jget envelope ''event_id''),
      ev_type = event_type, ev_schema_version = schema_version, ev_occurred_at = occurred_at,
      ev_recorded_at = recorded_at, ev_tenant = tenant_id, ev_domain = domain_id,
      ev_run = extract_workflow_run_id (jget envelope ''links''),
      ev_project = extract_project_id d (jget envelope ''links''),
      ev_actor = jget envelope ''actor'', ev_links = jget envelope ''links'',
      ev_payload = jget envelope ''payload'', ev_correlation = vs ! 6, ev_causation = vs ! 7,
      ev_idem = vs ! 8,
      ev_integrity = (case jget envelope ''integrity'' of JNull \<Rightarrow> None | v \<Rightarrow> Some v)\<rparr>)))))))"

definition insert_event :: "event_row \<Rightarrow> (unit, db) comp" where
  "insert_event r d =
     (if exists_row (\<lambda>x. ev_id x = ev_id r) (events d)
      then raise (IntegrityError ''UNIQUE constraint failed: timeline_events.event_id'') d
      else if ev_idem r \<noteq> None \<and> exists_row (\<lambda>x. ev_idem x = ev_idem r) (events d)
      then raise (IntegrityError ''UNIQUE constraint failed: timeline_events.idempotency_key'') d
      else (Inr (), d\<lparr>events := events d @ [r], next_seq := Suc (ev_seq r)\<rparr>))"

definition append_event :: "dict \<Rightarrow> (string, db) comp" where
  "append_event envelope =
     seq (of_result (require_required_fields envelope)) (\<lambda>_.
     seq (of_result (require_required_links_for_event envelope)) (\<lambda>_ d.
       let event_id = py_str (jget envelope ''event_id'') in
       if exists_row (\<lambda>x. ev_id x = event_id) (events d) then raise (DuplicateEventIdError event_id) d
       else
         case (case jget envelope ''idempotency_key'' of
             JStr k \<Rightarrow> map_option (\<lambda>x. (k, ev_id x)) (select_one (\<lambda>x. ev_idem x = Some k) (events d))
           | _ \<Rightarrow> None) of
           Some (k, prior) \<Rightarrow> raise (DuplicateIdempotencyKeyError k prior) d
         | None \<Rightarrow> seq (of_result (bind_event d envelope)) (\<lambda>r.
             seq (insert_event r) (\<lambda>_. ret event_id)) d))"

section \<open>Reading\<close>

definition coerce_limit :: "int \<Rightarrow> int" where
  "coerce_limit limit = max 1 (min limit 1000)"

definition row_to_envelope :: "event_row \<Rightarrow> dict" where
  "row_to_envelope r =
     [(''sequence_no'', JInt (int (ev_seq r))), (''event_id'', JStr (ev_id r)),
      (''event_type'', JStr (ev_type r)), (''schema_version'', JStr (ev_schema_version r)),
      (''occurred_at'', JStr (ev_occurred_at r)), (''recorded_at'', JStr (ev_recorded_at r)),
      (''tenant_id'', JStr (ev_tenant r)), (''domain_id'', JStr (ev_domain r)),
      (''actor'', ev_actor r), (''links'', ev_links r), (''payload'', ev_payload r)] @
     (case ev_correlation r of None \<Rightarrow> [] | Some v \<Rightarrow> [(''correlation_id'', JStr v)]) @
     (case ev_causation r of None \<Rightarrow> [] | Some v \<Rightarrow> [(''causation_id'', JStr v)]) @
     (case ev_idem r of None \<Rightarrow> [] | Some v \<Rightarrow> [(''idempotency_key'', JStr v)]) @
     (case ev_project r of None \<Rightarrow> [] | Some v \<Rightarrow> [(''project_id'', JStr v)]) @
     (case ev_integrity r of None \<Rightarrow> [] | Some v \<Rightarrow> [(''integrity'', v)])"

text \<open>The rows \<open>list_events\<close> selects, then the envelopes it returns.\<close>

definition select_events :: "db \<Rightarrow> string option \<Rightarrow> string option \<Rightarrow> int \<Rightarrow> event_row list" where
  "select_events d run_id since_event_id limit =
     (let in_run = (\<lambda>r. run_id = None \<or> ev_run r = run_id);
          page = (\<lambda>p. take (nat (coerce_limit limit)) (sort_key ev_seq (filter p (events d))))
      in case since_event_id of
           None \<Rightarrow> page in_run
         | Some e \<Rightarrow> (case select_one (\<lambda>r. ev_id r = e) (events d) of
             None \<Rightarrow> []
           | Some s \<Rightarrow> page (\<lambda>r. in_run r \<and> ev_seq s < ev_seq r)))"

definition list_events :: "db \<Rightarrow> string option \<Rightarrow> string option \<Rightarrow> int \<Rightarrow> dict list" where
  "list_events d run_id since_event_id limit =
     map row_to_envelope (select_events d run_id since_event_id limit)"

definition get_event_by_idempotency_key :: "db \<Rightarrow> string \<Rightarrow> dict option" where
  "get_event_by_idempotency_key d k =
     map_option (\<lambda>r. [(''event_id'', JStr (ev_id r)), (''event_type'', JStr (ev_type r)),
         (''idempotency_key'', of_opt (ev_idem r))])
       (select_one (\<lambda>r. ev_idem r = Some k) (events d))"

definition event_id_for_type :: "string \<Rightarrow> string \<Rightarrow> string" where
  "event_id_for_type event_type uuid4 = replace_char (CHR ''.'') (CHR ''-'') event_type @ ''-'' @ uuid4"

section \<open>Command receipts\<close>

definition get_command_receipt ::
    "db \<Rightarrow> string \<Rightarrow> string \<Rightarrow> string \<Rightarrow> receipt_row option" where
  "get_command_receipt d command_name scope_key idempotency_key =
     select_one (\<lambda>r. (rc_command r, rc_scope r, rc_idem r) =
       (command_name, scope_key, idempotency_key)) (receipts d)"

text \<open>\<open>create_command_receipt\<close>; the id of the row is chosen by the table.\<close>

definition insert_receipt :: "receipt_row \<Rightarrow> (unit, db) comp" where
  "insert_receipt r d =
     (if get_command_receipt d (rc_command r) (rc_scope r) (rc_idem r) \<noteq> None
      then raise (IntegrityError (''UNIQUE constraint failed: command_receipts.command_name, '' @
        ''command_receipts.scope_key, command_receipts.idempotency_key'')) d
      else if \<not> fk_ok (rc_run r) (map wr_id (runs d)) then raise fk_failed d
      else (Inr (), d\<lparr>receipts := receipts d @ [r], next_receipt := Suc (rc_id r)\<rparr>))"

definition create_command_receipt ::
    "string \<Rightarrow> string \<Rightarrow> string \<Rightarrow> string \<Rightarrow> string \<Rightarrow> dict \<Rightarrow> string option \<Rightarrow> string option \<Rightarrow>
     string option \<Rightarrow> (unit, db) comp" where
  "create_command_receipt command_name scope_key idempotency_key request_fingerprint
       request_fingerprint_profile result_json tenant_id domain_id workflow_run_id d =
     insert_receipt \<lparr>rc_id = next_receipt d, rc_command = command_name, rc_scope = scope_key,
       rc_idem = idempotency_key, rc_fingerprint = request_fingerprint,
       rc_profile = request_fingerprint_profile, rc_result = sort_dict result_json,
       rc_tenant = tenant_id, rc_domain = domain_id, rc_run = workflow_run_id\<rparr> d"

section \<open>The log\<close>

interpretation event_ids: unique_table events "\<lambda>r. Some (ev_id r)" insert_event
  by unfold_locales (auto simp: insert_event_def comp_simps split: if_splits)

interpretation event_keys: unique_table events ev_idem insert_event
  by unfold_locales (auto simp: insert_event_def comp_simps split: if_splits)

interpretation receipt_keys:
  unique_table receipts "\<lambda>r. Some (rc_command r, rc_scope r, rc_idem r)" insert_receipt
  by unfold_locales (auto simp: insert_receipt_def get_command_receipt_def find_None_iff comp_simps
    split: if_splits)

text \<open>Sequence numbers rise along the log, and event ids and idempotency keys occur once.\<close>

definition events_ok :: "db \<Rightarrow> bool" where
  "events_ok d \<longleftrightarrow>
     sorted_wrt (<) (map ev_seq (events d)) \<and> (\<forall>r\<in>set (events d). ev_seq r < next_seq d)
     \<and> unique_keys (\<lambda>r. Some (ev_id r)) (events d) \<and> unique_keys ev_idem (events d)"

lemma events_ok_empty: "events_ok empty_db"
  by (simp add: events_ok_def empty_db_def)

lemma bind_event_fields:
  assumes "bind_event d envelope = Inr r"
  shows "ev_seq r = next_seq d" "ev_id r = py_str (jget envelope ''event_id'')"
    "ev_actor r = jget envelope ''actor''" "ev_links r = jget envelope ''links''"
    "ev_payload r = jget envelope ''payload''"
    "bind_text (jget envelope ''event_type'') = Inr (Some (ev_type r))"
    "bind_text (jget envelope ''tenant_id'') = Inr (Some (ev_tenant r))"
    "bind_text (jget envelope ''domain_id'') = Inr (Some (ev_domain r))"
    "bind_text (jget envelope ''idempotency_key'') = Inr (ev_idem r)"
    "ev_run r = extract_workflow_run_id (jget envelope ''links'')"
    "ev_project r = extract_project_id d (jget envelope ''links'')"
  using assms
  by (auto simp: bind_event_def rbind_eq_Inr not_null_def list_all2_Cons1 split: option.splits)

lemma append_event_cases:
  obtains (failed) e where "append_event envelope d = (Inl e, d)"
  | (appended) r where "append_event envelope d = (Inr (ev_id r), d\<lparr>events := events d @ [r],
        next_seq := Suc (ev_seq r)\<rparr>)" "bind_event d envelope = Inr r"
      "insert_event r d = (Inr (), d\<lparr>events := events d @ [r], next_seq := Suc (ev_seq r)\<rparr>)"
      "require_required_links_for_event envelope = Inr ()"
proof (cases "\<exists>e. append_event envelope d = (Inl e, d)")
  case True
  then show thesis using failed by blast
next
  case ok: False
  obtain u where fields: "require_required_fields envelope = Inr u"
    using ok by (cases "require_required_fields envelope") (auto simp: append_event_def comp_simps)
  obtain v where links: "require_required_links_for_event envelope = Inr v"
    using ok fields
    by (cases "require_required_links_for_event envelope") (auto simp: append_event_def comp_simps)
  let ?id = "py_str (jget envelope ''event_id'')"
  have run: "append_event envelope d =
      seq (of_result (bind_event d envelope)) (\<lambda>r. seq (insert_event r) (\<lambda>_. ret ?id)) d"
    using ok fields links
    by (auto simp: append_event_def comp_simps Let_def split: option.splits json.splits if_splits)
  obtain r where r: "bind_event d envelope = Inr r"
    using ok run by (cases "bind_event d envelope") (auto simp: comp_simps)
  have "insert_event r d = (Inr (), d\<lparr>events := events d @ [r], next_seq := Suc (ev_seq r)\<rparr>)"
    using ok run r by (auto simp: insert_event_def comp_simps seq_def split: if_splits)
  then show thesis
    using appended [OF _ r] run r links bind_event_fields(2) [OF r] by (simp add: comp_simps)
qed

lemma insert_event_ok:
  assumes "events_ok d" "ev_seq r = next_seq d" "insert_event r d = (Inr u, d')"
  shows "events_ok d'"
proof -
  have d': "d' = d\<lparr>events := events d @ [r], next_seq := Suc (ev_seq r)\<rparr>"
    using assms(3) by (simp add: insert_event_def comp_simps split: if_splits)
  have "unique_keys (\<lambda>r. Some (ev_id r)) (events d')" "unique_keys ev_idem (events d')"
    using keepsD' [OF event_ids.keeps_unique _ assms(3)] keepsD' [OF event_keys.keeps_unique _ assms(3)]
      assms(1) by (simp_all add: events_ok_def)
  then show ?thesis
    using assms(1,2) by (auto simp: events_ok_def d' sorted_wrt_append)
qed

lemma append_event_ok: "keeps events_ok (append_event envelope)"
proof (rule keepsI)
  fix d assume ok: "events_ok d"
  show "events_ok (snd (append_event envelope d))"
  proof (cases rule: append_event_cases [of envelope d])
    case (appended r)
    then show ?thesis
      using insert_event_ok [OF ok bind_event_fields(1)] by fastforce
  qed (use ok in simp)
qed

section \<open>Properties of the log\<close>

text \<open>
  C3: Appending is all or nothing and keeps the log: a refused envelope changes nothing; an
  accepted one adds exactly one row at the end, with the next sequence number and a new event id,
  holding the envelope's actor, links and payload; no other table changes, and the invariant of
  the log (sequence numbers rise, event ids and idempotency keys occur once) is kept.
\<close>

theorem append_event_appends:
  assumes ok: "events_ok d" and run: "append_event envelope d = (result, d')"
  shows "events_ok d' \<and> (case result of
      Inl e \<Rightarrow> d' = d
    | Inr event_id \<Rightarrow> \<exists>r. d' = d\<lparr>events := events d @ [r], next_seq := Suc (next_seq d)\<rparr>
        \<and> ev_seq r = next_seq d \<and> ev_id r = event_id \<and> event_id \<notin> ev_id ` set (events d)
        \<and> event_id = py_str (jget envelope ''event_id'')
        \<and> ev_actor r = jget envelope ''actor'' \<and> ev_links r = jget envelope ''links''
        \<and> ev_payload r = jget envelope ''payload''
        \<and> bind_text (jget envelope ''idempotency_key'') = Inr (ev_idem r)
        \<and> require_required_links_for_event envelope = Inr ())" (is "_ \<and> ?effect")
proof
  show "events_ok d'"
    using keepsD' [OF append_event_ok ok run] .
  show ?effect
  proof (cases rule: append_event_cases [of envelope d])
    case (appended r)
    have "ev_id r \<notin> ev_id ` set (events d)"
      using event_ids.insert_ok [OF appended(3)] by auto
    with appended run bind_event_fields [OF appended(2)] show ?thesis
      by (auto intro!: exI [of _ r])
  qed (use run in simp)
qed

definition sample_envelope :: dict where
  "sample_envelope = [(''event_id'', JStr ''flag-created-1''), (''event_type'', JStr ''flag.created''),
     (''schema_version'', JStr ''1.0''), (''occurred_at'', JStr ''2026-03-01T00:00:00Z''),
     (''recorded_at'', JStr ''2026-03-01T00:00:00Z''), (''tenant_id'', JStr ''t''),
     (''domain_id'', JStr ''d''), (''actor'', JObj [(''type'', JStr ''human''), (''id'', JStr ''a'')]),
     (''links'', JArr [JObj [(''type'', JStr ''flag''), (''id'', JStr ''f'')],
        JObj [(''type'', JStr ''workflow_run''), (''id'', JStr ''r'')]]),
     (''payload'', JObj []), (''idempotency_key'', JStr ''k'')]"

theorem append_event_appends_witness:
  "events_ok (snd (append_event sample_envelope empty_db))
     \<and> fst (append_event sample_envelope empty_db) = Inr ''flag-created-1''
     \<and> (\<exists>r. events (snd (append_event sample_envelope empty_db)) = [r] \<and> ev_idem r = Some ''k'')"
proof -
  obtain r d' where run: "append_event sample_envelope empty_db = (r, d')" by fastforce
  have "fst (append_event sample_envelope empty_db) = Inr ''flag-created-1''" by code_simp
  with run have r: "r = Inr ''flag-created-1''" by simp
  have key: "bind_text (jget sample_envelope ''idempotency_key'') = Inr (Some ''k'')" by code_simp
  from append_event_appends [OF events_ok_empty run] r run show ?thesis
    by (auto simp: key empty_db_def)
qed

text \<open>
  C36: An idempotency key is used at most once: an envelope with the key of a stored event is
  refused with the id of that event and changes nothing, whatever the rest of it says, as long
  as it passes the envelope checks and its own event id is new.
\<close>

theorem append_event_idempotency_key_once:
  assumes ok: "events_ok d" and stored: "r \<in> set (events d)" "ev_idem r = Some k"
    and key: "jget envelope ''idempotency_key'' = JStr k"
    and checks: "require_required_fields envelope = Inr ()"
      "require_required_links_for_event envelope = Inr ()"
    and new: "py_str (jget envelope ''event_id'') \<notin> ev_id ` set (events d)"
  shows "append_event envelope d = (Inl (DuplicateIdempotencyKeyError k (ev_id r)), d)"
proof -
  have "select_one (\<lambda>x. ev_idem x = Some k) (events d) = Some r"
    using event_keys.lookup_stored ok stored by (simp add: events_ok_def)
  then show ?thesis
    using key checks new by (auto simp: append_event_def comp_simps Let_def) (metis imageI)
qed

theorem append_event_idempotency_key_once_witness:
  "fst (append_event (map (\<lambda>(k, v). (k, if k = ''event_id'' then JStr ''other'' else v)) sample_envelope)
     (snd (append_event sample_envelope empty_db))) =
   Inl (DuplicateIdempotencyKeyError ''k'' ''flag-created-1'')"
proof -
  let ?e = "map (\<lambda>(k, v). (k, if k = ''event_id'' then JStr ''other'' else v)) sample_envelope"
  let ?d = "snd (append_event sample_envelope empty_db)"
  have ok: "events_ok ?d"
    using keepsD [OF append_event_ok events_ok_empty] .
  obtain r where events: "events ?d = [r]" "ev_idem r = Some ''k''"
    by (rule that [of "hd (events ?d)"]) code_simp+
  have id: "ev_id r = ''flag-created-1''"
  proof -
    have "map ev_id (events ?d) = [''flag-created-1'']" by code_simp
    then show ?thesis by (simp add: events)
  qed
  have "jget ?e ''idempotency_key'' = JStr ''k''" "require_required_fields ?e = Inr ()"
    "require_required_links_for_event ?e = Inr ()" "py_str (jget ?e ''event_id'') = ''other''"
    by code_simp+
  with append_event_idempotency_key_once [OF ok _ events(2), of ?e] events id
  show ?thesis by simp
qed

section \<open>Paging\<close>

text \<open>
  A client that reads a run (or everything) page by page, each page since the last event id of
  the page before, until a page is empty; \<open>None\<close> when the fuel did not suffice.
\<close>

fun read_pages :: "nat \<Rightarrow> db \<Rightarrow> string option \<Rightarrow> string option \<Rightarrow> int \<Rightarrow> event_row list option" where
  "read_pages 0 d run_id since limit = None"
| "read_pages (Suc n) d run_id since limit =
     (let page = select_events d run_id since limit
      in if page = [] then Some []
         else map_option ((@) page) (read_pages n d run_id (Some (ev_id (last page))) limit))"

lemma coerce_limit_pos: "0 < nat (coerce_limit limit)" "nat (coerce_limit limit) \<le> 1000"
  by (auto simp: coerce_limit_def)

definition run_events :: "db \<Rightarrow> string option \<Rightarrow> event_row list" where
  "run_events d run_id = filter (\<lambda>r. run_id = None \<or> ev_run r = run_id) (events d)"

lemma sorted_filter_events:
  assumes "events_ok d"
  shows "sort_key ev_seq (filter p (events d)) = filter p (events d)"
proof (rule sort_key_sorted)
  have "sorted (map ev_seq (events d))"
    using assms strict_sorted_imp_sorted by (auto simp: events_ok_def)
  then show "sorted (map ev_seq (filter p (events d)))"
    by (rule sorted_filter)
qed

lemma select_events_first:
  "events_ok d \<Longrightarrow> select_events d run_id None limit =
     take (nat (coerce_limit limit)) (run_events d run_id)"
  by (simp add: select_events_def Let_def sorted_filter_events run_events_def)

lemma filter_after:
  "sorted_wrt (<) (map f (ys @ zs)) \<Longrightarrow> ys \<noteq> [] \<Longrightarrow>
     filter (\<lambda>r. f (last ys) < (f r :: nat)) (ys @ zs) = zs"
proof (induction ys rule: rev_induct)
  case (snoc y ys)
  then show ?case
    by (auto simp: sorted_wrt_append filter_empty_conv dest: less_asym intro!: filter_True)
qed simp

lemma select_events_next:
  assumes ok: "events_ok d" and split: "run_events d run_id = ys @ zs" and "ys \<noteq> []"
  shows "select_events d run_id (Some (ev_id (last ys))) limit = take (nat (coerce_limit limit)) zs"
proof -
  let ?s = "last ys"
  have "?s \<in> set (run_events d run_id)" using assms by simp
  then have "select_one (\<lambda>r. ev_id r = ev_id ?s) (events d) = Some ?s"
    using select_of_key [of ev_id "events d" ?s] ok
    by (simp add: events_ok_def unique_keys_total run_events_def)
  moreover have "filter (\<lambda>r. (run_id = None \<or> ev_run r = run_id) \<and> ev_seq ?s < ev_seq r) (events d) =
      filter (\<lambda>r. ev_seq ?s < ev_seq r) (run_events d run_id)"
    by (simp add: run_events_def conj_commute)
  moreover have "sorted_wrt (<) (map ev_seq (run_events d run_id))"
    using ok by (simp add: events_ok_def run_events_def sorted_wrt_map sorted_wrt_filter)
  ultimately show ?thesis
    using filter_after [of ev_seq ys zs] split \<open>ys \<noteq> []\<close>
    by (simp add: select_events_def Let_def sorted_filter_events [OF ok])
qed

lemma read_pages_after:
  assumes "events_ok d" "run_events d run_id = ys @ zs" "ys \<noteq> []" "length zs < n"
  shows "read_pages n d run_id (Some (ev_id (last ys))) limit = Some zs"
  using assms(2-)
proof (induction n arbitrary: ys zs)
  case (Suc n)
  let ?k = "nat (coerce_limit limit)"
  have page: "select_events d run_id (Some (ev_id (last ys))) limit = take ?k zs"
    using select_events_next [OF assms(1) Suc.prems(1,2)] .
  show ?case
  proof (cases "take ?k zs = []")
    case True
    then show ?thesis using page coerce_limit_pos(1) [of limit] by simp
  next
    case False
    then have "length (drop ?k zs) < n"
      using Suc.prems(3) coerce_limit_pos(1) [of limit] by (cases zs) auto
    with Suc.IH [of "ys @ take ?k zs" "drop ?k zs"] Suc.prems(1) False
    have "read_pages n d run_id (Some (ev_id (last (take ?k zs)))) limit = Some (drop ?k zs)"
      by simp
    with False page show ?thesis by (simp only: read_pages.simps) (simp add: Let_def)
  qed
qed simp

text \<open>
  C34: Reading the log page by page, for one run or for all, with any limit the caller asks for
  (the code brings it into 1..1000), ends and delivers every event of the run exactly once in the
  order in which they were appended.
\<close>

theorem list_events_pages_partition_the_log:
  assumes "events_ok d" "length (run_events d run_id) < n"
  shows "read_pages n d run_id None limit = Some (run_events d run_id)"
proof (cases n)
  case (Suc m)
  let ?k = "nat (coerce_limit limit)" and ?xs = "run_events d run_id"
  have k: "0 < ?k" by (rule coerce_limit_pos)
  show ?thesis
  proof (cases "take ?k ?xs = []")
    case False
    then have "read_pages m d run_id (Some (ev_id (last (take ?k ?xs)))) limit = Some (drop ?k ?xs)"
      using assms(2) Suc k by (intro read_pages_after [OF assms(1)]) (auto simp: neq_Nil_conv)
    with False Suc show ?thesis
      by (simp only: read_pages.simps) (simp add: Let_def select_events_first [OF assms(1)])
  qed (use k Suc in \<open>simp add: select_events_first [OF assms(1)]\<close>)
qed (use assms in simp)

theorem list_events_pages_partition_the_log_witness:
  "\<exists>r. read_pages 2 (snd (append_event sample_envelope empty_db)) (Some ''r'') None 0 = Some [r]
     \<and> ev_id r = ''flag-created-1''"
proof -
  let ?d = "snd (append_event sample_envelope empty_db)"
  have ok: "events_ok ?d"
    using keepsD [OF append_event_ok events_ok_empty] .
  have "length (run_events ?d (Some ''r'')) = 1"
    "map ev_id (run_events ?d (Some ''r'')) = [''flag-created-1'']" by code_simp+
  with list_events_pages_partition_the_log [OF ok, of "Some ''r''" 2 0] show ?thesis
    by (auto simp: map_eq_Cons_conv)
qed

end
