(* ===== verification/Runs.thy ===== *)
theory Runs
  imports Event_Store
begin

text \<open>
  Workflow runs and task runs: \<open>src/onetruth/infrastructure/repositories/workflow_runs.py\<close> and
  \<open>task_runs.py\<close> in the same directory. An insert checks the unique constraints of its table in
  the order they are declared, then the foreign keys.
\<close>

section \<open>Workflow runs\<close>

definition insert_workflow_run :: "run_row \<Rightarrow> (unit, db) comp" where
  "insert_workflow_run r d =
     (if exists_row (\<lambda>x. wr_id x = wr_id r) (runs d)
      then raise (IntegrityError ''UNIQUE constraint failed: workflow_runs.workflow_run_id'') d
      else if exists_row (\<lambda>x. wr_tenant x = wr_tenant r \<and> wr_domain x = wr_domain r
          \<and> wr_workflow x = wr_workflow r \<and> wr_partition x = wr_partition r
          \<and> wr_activation x = wr_activation r) (runs d)
      then raise (IntegrityError (''UNIQUE constraint failed: workflow_runs.tenant_id, '' @
        ''workflow_runs.domain_id, workflow_runs.workflow_id, workflow_runs.partition_key, '' @
        ''workflow_runs.activation_key'')) d
      else if \<not> fk_ok (wr_project r) (map pj_id (projects d)) then raise fk_failed d
      else (Inr (), d\<lparr>runs := runs d @ [r]\<rparr>))"

definition create_workflow_run ::
    "string \<Rightarrow> string \<Rightarrow> string \<Rightarrow> string \<Rightarrow> string \<Rightarrow> string \<Rightarrow> string option \<Rightarrow> string \<Rightarrow> string \<Rightarrow>
     string \<Rightarrow> string option \<Rightarrow> (unit, db) comp" where
  "create_workflow_run workflow_run_id workflow_id workflow_version tenant_id domain_id
       partition_key logical_date activation_key state created_at project_id =
     insert_workflow_run \<lparr>wr_id = workflow_run_id, wr_project = project_id, wr_workflow = workflow_id,
       wr_version = workflow_version, wr_tenant = tenant_id, wr_domain = domain_id,
       wr_partition = partition_key, wr_logical_date = logical_date,
       wr_activation = activation_key, wr_state = state, wr_created_at = created_at,
       wr_updated_at = created_at\<rparr>"

definition active_flag_states :: "string list" where
  "active_flag_states = [''open'', ''triage'', ''blocked'']"

text \<open>The row of a run, joined with the number of its active flags.\<close>

definition active_issue_count :: "db \<Rightarrow> string \<Rightarrow> nat" where
  "active_issue_count d run =
     row_count (\<lambda>f. fl_run f = run \<and> fl_state f \<in> set active_flag_states) (flags d)"

definition get_workflow_run :: "db \<Rightarrow> string \<Rightarrow> (run_row \<times> nat) option" where
  "get_workflow_run d workflow_run_id =
     map_option (\<lambda>r. (r, active_issue_count d (wr_id r)))
       (select_one (\<lambda>r. wr_id r = workflow_run_id) (runs d))"

definition list_workflow_runs ::
    "db \<Rightarrow> string option \<Rightarrow> string option \<Rightarrow> string option \<Rightarrow> string option \<Rightarrow>
     (run_row \<times> nat) list" where
  "list_workflow_runs d workflow_id tenant_id domain_id state =
     map (\<lambda>r. (r, active_issue_count d (wr_id r)))
       (sort_key wr_created_at (sort_key wr_id (filter (\<lambda>r.
          (workflow_id = None \<or> workflow_id = Some (wr_workflow r))
          \<and> (tenant_id = None \<or> tenant_id = Some (wr_tenant r))
          \<and> (domain_id = None \<or> domain_id = Some (wr_domain r))
          \<and> (state = None \<or> state = Some (wr_state r))) (runs d))))"

section \<open>Task runs\<close>

definition insert_task_run :: "task_run_row \<Rightarrow> (unit, db) comp" where
  "insert_task_run r d =
     (if exists_row (\<lambda>x. tr_id x = tr_id r) (task_runs d)
      then raise (IntegrityError ''UNIQUE constraint failed: task_runs.task_run_id'') d
      else if exists_row (\<lambda>x. tr_run x = tr_run r \<and> tr_activation x = tr_activation r) (task_runs d)
      then raise (IntegrityError (''UNIQUE constraint failed: task_runs.workflow_run_id, '' @
        ''task_runs.activation_key'')) d
      else if \<not> (tr_run r \<in> wr_id ` set (runs d) \<and> fk_ok (tr_from_flag r) (map fl_id (flags d))
          \<and> fk_ok (tr_from_task_run r) (tr_id r # map tr_id (task_runs d)))
      then raise fk_failed d
      else (Inr (), d\<lparr>task_runs := task_runs d @ [r]\<rparr>))"

definition create_task_run ::
    "string \<Rightarrow> string \<Rightarrow> string \<Rightarrow> string \<Rightarrow> string \<Rightarrow> int \<Rightarrow> string \<Rightarrow> string option \<Rightarrow> string option \<Rightarrow>
     string option \<Rightarrow> string option \<Rightarrow> string option \<Rightarrow> string option \<Rightarrow> string option \<Rightarrow> int \<Rightarrow>
     string option \<Rightarrow> string \<Rightarrow> (unit, db) comp" where
  "create_task_run task_run_id workflow_run_id stage_id task_kind state generation activation_key
       blocked_on_kind blocked_on_ref spawned_from_flag_id spawned_from_task_run_id spawn_rule_id
       spawn_cause_kind spawn_cause_event_id spawn_depth spawn_budget_key created_at =
     with_integers [generation, spawn_depth] (insert_task_run \<lparr>tr_id = task_run_id, tr_run = workflow_run_id, tr_stage = stage_id,
       tr_kind = task_kind, tr_state = state, tr_generation = generation,
       tr_activation = activation_key, tr_blocked_kind = blocked_on_kind,
       tr_blocked_ref = blocked_on_ref, tr_from_flag = spawned_from_flag_id,
       tr_from_task_run = spawned_from_task_run_id, tr_spawn_rule = spawn_rule_id,
       tr_cause_kind = spawn_cause_kind, tr_cause_event = spawn_cause_event_id,
       tr_spawn_depth = spawn_depth, tr_budget_key = spawn_budget_key,
       tr_created_at = created_at, tr_updated_at = created_at\<rparr>)"

definition get_task_run :: "db \<Rightarrow> string \<Rightarrow> task_run_row option" where
  "get_task_run d task_run_id = select_one (\<lambda>r. tr_id r = task_run_id) (task_runs d)"

definition get_task_run_by_activation_key :: "db \<Rightarrow> string \<Rightarrow> string \<Rightarrow> task_run_row option" where
  "get_task_run_by_activation_key d workflow_run_id activation_key =
     select_one (\<lambda>r. tr_run r = workflow_run_id \<and> tr_activation r = activation_key) (task_runs d)"

definition get_task_run_for_human_task :: "db \<Rightarrow> string \<Rightarrow> task_run_row option" where
  "get_task_run_for_human_task d human_task_id =
     select_one (\<lambda>r. exists_row (\<lambda>h. ht_task_run h = tr_id r \<and> ht_id h = human_task_id)
       (human_tasks d)) (task_runs d)"

definition transition_task_run_state ::
    "string \<Rightarrow> string \<Rightarrow> string \<Rightarrow> string \<Rightarrow> (string option, db) comp" where
  "transition_task_run_state task_run_id expected_from_state to_state updated_at d =
     (case get_task_run d task_run_id of
        None \<Rightarrow> (Inr None, d)
      | Some current \<Rightarrow>
          let from_state = tr_state current in
          if from_state \<noteq> expected_from_state then (Inr (Some from_state), d)
          else (Inr (Some from_state), d\<lparr>task_runs :=
            update_where (\<lambda>r. tr_id r = task_run_id \<and> tr_state r = expected_from_state)
              (\<lambda>r. r\<lparr>tr_state := to_state, tr_updated_at := updated_at\<rparr>) (task_runs d)\<rparr>))"

section \<open>Facts\<close>

interpretation run_ids: unique_table runs "\<lambda>r. Some (wr_id r)" insert_workflow_run
  by unfold_locales (auto simp: insert_workflow_run_def comp_simps split: if_splits)

interpretation run_scopes: unique_table runs
  "\<lambda>r. Some (wr_tenant r, wr_domain r, wr_workflow r, wr_partition r, wr_activation r)"
  insert_workflow_run
  by unfold_locales (auto simp: insert_workflow_run_def comp_simps split: if_splits)

interpretation task_run_ids: unique_table task_runs "\<lambda>r. Some (tr_id r)" insert_task_run
  by unfold_locales (auto simp: insert_task_run_def comp_simps split: if_splits)

interpretation task_run_keys: unique_table task_runs "\<lambda>r. Some (tr_run r, tr_activation r)"
  insert_task_run
  by unfold_locales (auto simp: insert_task_run_def comp_simps split: if_splits)

text \<open>Task run ids and activation keys occur once, and every task run belongs to a stored run.\<close>

definition task_runs_ok :: "db \<Rightarrow> bool" where
  "task_runs_ok d \<longleftrightarrow>
     unique_keys (\<lambda>r. Some (tr_id r)) (task_runs d)
     \<and> unique_keys (\<lambda>r. Some (tr_run r, tr_activation r)) (task_runs d)
     \<and> (\<forall>r\<in>set (task_runs d). tr_run r \<in> wr_id ` set (runs d))"

lemma insert_task_run_ok: "keeps task_runs_ok (insert_task_run r)"
proof (rule keepsI)
  fix d assume ok: "task_runs_ok d"
  have "unique_keys (\<lambda>r. Some (tr_id r)) (task_runs (snd (insert_task_run r d)))"
    "unique_keys (\<lambda>r. Some (tr_run r, tr_activation r)) (task_runs (snd (insert_task_run r d)))"
    using keepsD [OF task_run_ids.keeps_unique] keepsD [OF task_run_keys.keeps_unique] ok
    by (simp_all add: task_runs_ok_def)
  moreover have "\<forall>x\<in>set (task_runs (snd (insert_task_run r d))).
      tr_run x \<in> wr_id ` set (runs (snd (insert_task_run r d)))"
    using ok by (auto simp: insert_task_run_def task_runs_ok_def comp_simps)
  ultimately show "task_runs_ok (snd (insert_task_run r d))"
    by (simp add: task_runs_ok_def)
qed

lemma transition_task_run_state_ok:
  "keeps task_runs_ok (transition_task_run_state task_run_id expected_from_state to_state updated_at)"
  by (rule keepsI) (auto simp: transition_task_run_state_def task_runs_ok_def Let_def
    unique_keys_update set_update_where split: option.split)

text \<open>
  A task run changes state by compare and set: \<open>transition_task_run_state\<close> reports the state
  it found; only when that is the expected one does the run with that id, and nothing else, get
  the new state and time; ids and activation keys stay unique.
\<close>

lemma transition_task_run_state_compare_and_set:
  assumes ok: "task_runs_ok d"
    and run: "transition_task_run_state i expected to_state now d = (result, d')"
  shows "result = Inr (map_option tr_state (get_task_run d i)) \<and> task_runs_ok d'
    \<and> d' = d\<lparr>task_runs := task_runs d'\<rparr>
    \<and> get_task_run d' i = map_option
        (\<lambda>r. if tr_state r = expected then r\<lparr>tr_state := to_state, tr_updated_at := now\<rparr> else r)
        (get_task_run d i)
    \<and> (\<forall>j. j \<noteq> i \<longrightarrow> get_task_run d' j = get_task_run d j)"
proof -
  have "task_runs_ok d'"
    using keepsD' [OF transition_task_run_state_ok ok run] .
  moreover have "result = Inr (map_option tr_state (get_task_run d i))" "d' = d\<lparr>task_runs := task_runs d'\<rparr>"
    using run by (auto simp: transition_task_run_state_def Let_def split: option.splits if_splits)
  moreover have "get_task_run d' i = map_option
        (\<lambda>r. if tr_state r = expected then r\<lparr>tr_state := to_state, tr_updated_at := now\<rparr> else r)
        (get_task_run d i)"
    using run by (auto simp: transition_task_run_state_def Let_def get_task_run_def select_key_update
      split: option.splits if_splits)
  moreover have "get_task_run d' j = get_task_run d j" if "j \<noteq> i" for j
    using run that by (auto simp: transition_task_run_state_def Let_def get_task_run_def
      select_other_update split: option.splits if_splits)
  ultimately show ?thesis by blast
qed

definition sample_run :: run_row where
  "sample_run = \<lparr>wr_id = ''r'', wr_project = None, wr_workflow = ''w'', wr_version = ''1'', wr_tenant = ''t'',
     wr_domain = ''d'', wr_partition = ''2026-W10'', wr_logical_date = None, wr_activation = ''a'',
     wr_state = ''running'', wr_created_at = ''2026-03-01T00:00:00Z'',
     wr_updated_at = ''2026-03-01T00:00:00Z''\<rparr>"

definition sample_task_run :: task_run_row where
  "sample_task_run = \<lparr>tr_id = ''tr'', tr_run = ''r'', tr_stage = ''s'', tr_kind = ''human'',
     tr_state = ''ready'', tr_generation = 0, tr_activation = ''a'', tr_blocked_kind = None,
     tr_blocked_ref = None, tr_from_flag = None, tr_from_task_run = None, tr_spawn_rule = None,
     tr_cause_kind = None, tr_cause_event = None, tr_spawn_depth = 0, tr_budget_key = None,
     tr_created_at = ''2026-03-01T00:00:00Z'', tr_updated_at = ''2026-03-01T00:00:00Z''\<rparr>"

definition sample_artifact :: "string \<Rightarrow> artifact_row" where
  "sample_artifact i = \<lparr>av_id = i, av_run = ''r'', av_tenant = Some ''t'', av_domain = Some ''d'', av_project = None,
     av_dataset = None, av_partition_kind = None, av_partition = None, av_task_run = None, av_kind = ''plan'',
     av_role = None, av_media_type = ''application/json'', av_storage_uri = ''blob:'' @ i, av_digest = ''x'',
     av_byte_size = None, av_metadata = [], av_parent = None, av_supersedes = None, av_lineage_note = None,
     av_identity_profile = None, av_identity_digest = None, av_created_at = ''2026-03-01T00:00:00Z''\<rparr>"

definition sample_db :: db where
  "sample_db = empty_db\<lparr>runs := [sample_run], task_runs := [sample_task_run]\<rparr>"

lemma sample_task_runs_ok: "task_runs_ok sample_db"
  by (simp add: task_runs_ok_def unique_keys_total sample_db_def sample_task_run_def sample_run_def)

end
