(* ===== verification/Transactions.thy ===== *)
theory Transactions
  imports Prelude
begin

text \<open>
  The transaction discipline of \<open>src/onetruth/application/handlers/_shared/command_boundary.py\<close>
  over a Python \<open>sqlite3\<close> connection in its default mode: \<open>_begin_transaction\<close>,
  \<open>_commit_transaction\<close>, \<open>_rollback_transaction\<close> and the context manager
  \<open>command_transaction\<close>. The connection is the committed database, the working copy, the
  \<open>in_transaction\<close> attribute and the stack of savepoints, innermost first; the database type
  is a parameter. The last section gives the abstract meaning of a command transaction, all or
  nothing, and shows that the detailed one implements it, nested or not. The components above
  are written against the abstract meaning.
\<close>

section \<open>A connection\<close>

record 'd conn =
  committed :: 'd
  working :: 'd
  in_transaction :: bool
  savepoints :: "(string \<times> 'd) list"

definition fresh_connection :: "'d \<Rightarrow> 'd conn" where
  "fresh_connection d = \<lparr>committed = d, working = d, in_transaction = False, savepoints = []\<rparr>"

definition sqlite_error :: "('a, 'd conn) comp" where
  "sqlite_error = raise (OtherException ''OperationalError'')"

definition execute_begin_immediate :: "(unit, 'd conn) comp" where
  "execute_begin_immediate c =
     (if in_transaction c then sqlite_error c else (Inr (), c\<lparr>in_transaction := True\<rparr>))"

definition execute_savepoint :: "string \<Rightarrow> (unit, 'd conn) comp" where
  "execute_savepoint nm c =
     (Inr (), c\<lparr>in_transaction := True, savepoints := (nm, working c) # savepoints c\<rparr>)"

text \<open>
  \<open>RELEASE\<close> forgets the innermost savepoint of that name and those inside it;
  \<open>ROLLBACK TO\<close> restores it and keeps it on the stack.
\<close>

definition execute_release :: "string \<Rightarrow> (unit, 'd conn) comp" where
  "execute_release nm c = (case dropWhile (\<lambda>p. fst p \<noteq> nm) (savepoints c) of
     [] \<Rightarrow> sqlite_error c
   | _ # outer \<Rightarrow> (Inr (), c\<lparr>savepoints := outer\<rparr>))"

definition execute_rollback_to :: "string \<Rightarrow> (unit, 'd conn) comp" where
  "execute_rollback_to nm c = (case dropWhile (\<lambda>p. fst p \<noteq> nm) (savepoints c) of
     [] \<Rightarrow> sqlite_error c
   | (nm', d) # outer \<Rightarrow> (Inr (), c\<lparr>working := d, savepoints := (nm', d) # outer\<rparr>))"

definition connection_commit :: "(unit, 'd conn) comp" where
  "connection_commit = modify (\<lambda>c.
     c\<lparr>committed := working c, in_transaction := False, savepoints := []\<rparr>)"

definition connection_rollback :: "(unit, 'd conn) comp" where
  "connection_rollback = modify (\<lambda>c.
     c\<lparr>working := committed c, in_transaction := False, savepoints := []\<rparr>)"

text \<open>
  A query reads the working copy. Statements that change data run on it with a transaction
  open; outside one the module opens it first.
\<close>

definition query :: "('d \<Rightarrow> 'a) \<Rightarrow> ('a, 'd conn) comp" where
  "query f = asks (\<lambda>c. f (working c))"

definition statements :: "('a, 'd) comp \<Rightarrow> ('a, 'd conn) comp" where
  "statements m c =
     (case m (working c) of (r, d) \<Rightarrow> (r, c\<lparr>working := d, in_transaction := True\<rparr>))"

section \<open>Command transactions\<close>

record transaction_frame =
  savepoint_name :: "string option"

text \<open>The fresh savepoint name \<open>sp_<uuid4>\<close> is an argument.\<close>

definition begin_transaction :: "string \<Rightarrow> (transaction_frame, 'd conn) comp" where
  "begin_transaction fresh c =
     (if in_transaction c
      then seq (execute_savepoint fresh) (\<lambda>_. ret \<lparr>savepoint_name = Some fresh\<rparr>) c
      else seq execute_begin_immediate (\<lambda>_. ret \<lparr>savepoint_name = None\<rparr>) c)"

definition commit_transaction :: "transaction_frame \<Rightarrow> (unit, 'd conn) comp" where
  "commit_transaction frame = (case savepoint_name frame of
     None \<Rightarrow> connection_commit
   | Some nm \<Rightarrow> execute_release nm)"

definition rollback_transaction :: "transaction_frame \<Rightarrow> (unit, 'd conn) comp" where
  "rollback_transaction frame = (case savepoint_name frame of
     None \<Rightarrow> connection_rollback
   | Some nm \<Rightarrow> seq (execute_rollback_to nm) (\<lambda>_. execute_release nm))"

definition command_transaction ::
    "string \<Rightarrow> ('a, 'd conn) comp \<Rightarrow> ('a, 'd conn) comp" where
  "command_transaction fresh body = seq (begin_transaction fresh) (\<lambda>frame.
     seq (handle body (\<lambda>e. seq (rollback_transaction frame) (\<lambda>_. raise e)))
       (\<lambda>x. seq (commit_transaction frame) (\<lambda>_. ret x)))"

section \<open>The abstract meaning: all or nothing\<close>

definition atomically :: "('a, 'd) comp \<Rightarrow> ('a, 'd) comp" where
  "atomically m d = (case m d of (Inl e, _) \<Rightarrow> (Inl e, d) | (Inr x, d') \<Rightarrow> (Inr x, d'))"

lemma atomically_Inr [simp]: "atomically m d = (Inr x, d') \<longleftrightarrow> m d = (Inr x, d')"
  by (auto simp: atomically_def split: prod.splits sum.splits)

lemma atomically_Inl: "atomically m d = (Inl e, d') \<longleftrightarrow> d' = d \<and> fst (m d) = Inl e"
  by (auto simp: atomically_def split: prod.splits sum.splits)

lemma fst_atomically [simp]: "fst (atomically m d) = fst (m d)"
  by (auto simp: atomically_def split: prod.splits sum.splits)

lemma snd_atomically: "snd (atomically m d) = (case fst (m d) of Inl _ \<Rightarrow> d | Inr _ \<Rightarrow> snd (m d))"
  by (auto simp: atomically_def split: prod.splits sum.splits)

lemma keeps_atomically [intro]: "keeps P m \<Longrightarrow> keeps P (atomically m)"
  by (auto simp: keeps_def snd_atomically split: sum.split)

text \<open>
  A computation on the connection implements one on the database when, inside a transaction,
  it has the same result, changes the working copy as that one does, and nothing else.
\<close>

definition implements :: "('a, 'd conn) comp \<Rightarrow> ('a, 'd) comp \<Rightarrow> bool" where
  "implements b m \<longleftrightarrow> (\<forall>c. in_transaction c \<longrightarrow>
     b c = (fst (m (working c)), c\<lparr>working := snd (m (working c))\<rparr>))"

lemma implementsD:
  "implements b m \<Longrightarrow> in_transaction c \<Longrightarrow> m (working c) = (r, d) \<Longrightarrow> b c = (r, c\<lparr>working := d\<rparr>)"
  by (simp add: implements_def)

lemma implementsI:
  "(\<And>c r d. in_transaction c \<Longrightarrow> m (working c) = (r, d) \<Longrightarrow> b c = (r, c\<lparr>working := d\<rparr>)) \<Longrightarrow>
   implements b m"
  by (simp add: implements_def)

lemma implements_basic [intro, simp]:
  "implements (ret x) (ret x)"
  "implements (raise e) (raise e)"
  "implements (of_result r) (of_result r)"
  "implements (query f) (asks f)"
  "implements (statements m) m"
  by (auto intro!: implementsI simp: comp_simps query_def statements_def)

lemma implements_seq [intro]:
  assumes "implements b m" "\<And>x. implements (f x) (g x)"
  shows "implements (seq b f) (seq m g)"
proof (rule implementsI)
  fix c :: "'a conn" and r d
  assume c: "in_transaction c" and run: "seq m g (working c) = (r, d)"
  obtain r0 d0 where m: "m (working c) = (r0, d0)" by fastforce
  note b = implementsD [OF assms(1) c m]
  show "seq b f c = (r, c\<lparr>working := d\<rparr>)"
  proof (cases r0)
    case (Inr x)
    with run m have "g x d0 = (r, d)" by (simp add: seq_def)
    then have "f x (c\<lparr>working := d0\<rparr>) = (r, c\<lparr>working := d\<rparr>)"
      using implementsD [OF assms(2), of "c\<lparr>working := d0\<rparr>"] c by simp
    with b Inr show ?thesis by (simp add: seq_def)
  qed (use run m b in \<open>auto simp: seq_def\<close>)
qed

lemma implements_handle [intro]:
  assumes "implements b m" "\<And>e. implements (f e) (g e)"
  shows "implements (handle b f) (handle m g)"
proof (rule implementsI)
  fix c :: "'a conn" and r d
  assume c: "in_transaction c" and run: "handle m g (working c) = (r, d)"
  obtain r0 d0 where m: "m (working c) = (r0, d0)" by fastforce
  note b = implementsD [OF assms(1) c m]
  show "handle b f c = (r, c\<lparr>working := d\<rparr>)"
  proof (cases r0)
    case (Inl e)
    with run m have "g e d0 = (r, d)" by (simp add: handle_def)
    then have "f e (c\<lparr>working := d0\<rparr>) = (r, c\<lparr>working := d\<rparr>)"
      using implementsD [OF assms(2), of "c\<lparr>working := d0\<rparr>"] c by simp
    with b Inl show ?thesis by (simp add: handle_def)
  qed (use run m b in \<open>auto simp: handle_def\<close>)
qed

lemma implements_for_each [intro]:
  assumes "\<And>x. implements (f x) (g x)"
  shows "implements (for_each f xs) (for_each g xs)"
  using assms by (induction xs) auto

lemma implements_if [intro]:
  "implements a m \<Longrightarrow> implements b n \<Longrightarrow> implements (if p then a else b) (if p then m else n)"
  by simp

text \<open>A nested command transaction is the abstract one.\<close>

lemma implements_command_transaction [intro]:
  assumes "implements b m"
  shows "implements (command_transaction fresh b) (atomically m)"
proof (rule implementsI)
  fix c :: "'a conn" and r d
  assume c: "in_transaction c" and run: "atomically m (working c) = (r, d)"
  obtain r0 d0 where m: "m (working c) = (r0, d0)" by fastforce
  let ?c = "c\<lparr>in_transaction := True, savepoints := (fresh, working c) # savepoints c\<rparr>"
  have "b ?c = (r0, ?c\<lparr>working := d0\<rparr>)"
    using implementsD [OF assms, of ?c] m by simp
  with run m c show "command_transaction fresh b c = (r, c\<lparr>working := d\<rparr>)"
    by (cases r0) (auto simp: command_transaction_def begin_transaction_def execute_savepoint_def
      rollback_transaction_def commit_transaction_def execute_rollback_to_def execute_release_def
      seq_def handle_def comp_apply atomically_def)
qed

lemma outermost_command_transaction:
  assumes "implements b m"
  shows "command_transaction fresh b (fresh_connection d) =
    (fst (atomically m d), fresh_connection (snd (atomically m d)))"
proof -
  let ?c = "(fresh_connection d)\<lparr>in_transaction := True\<rparr>"
  obtain r0 d0 where m: "m d = (r0, d0)" by fastforce
  then have "b ?c = (r0, ?c\<lparr>working := d0\<rparr>)"
    using implementsD [OF assms, of ?c] by (simp add: fresh_connection_def)
  with m show ?thesis
    by (cases r0) (auto simp: command_transaction_def begin_transaction_def fresh_connection_def
      execute_begin_immediate_def rollback_transaction_def commit_transaction_def seq_def
      handle_def comp_apply atomically_def connection_commit_def connection_rollback_def)
qed

text \<open>
  C24: A command transaction is all or nothing, on the outermost level and inside another one:
  whatever its body does on the connection, the database is left as the body's computation
  leaves it when that returns, and exactly as it was when that raises; the exception or value
  is passed on, the savepoint stack and the enclosing transaction are as before, and on the
  outermost level nothing is left uncommitted.
\<close>

theorem command_transaction_all_or_nothing:
  assumes "implements body m"
  shows "command_transaction fresh body (fresh_connection d) =
      (fst (m d), fresh_connection (case fst (m d) of Inl _ \<Rightarrow> d | Inr _ \<Rightarrow> snd (m d)))
    \<and> (in_transaction c \<longrightarrow> command_transaction fresh body c =
        (fst (m (working c)), c\<lparr>working :=
           (case fst (m (working c)) of Inl _ \<Rightarrow> working c | Inr _ \<Rightarrow> snd (m (working c)))\<rparr>))"
  using outermost_command_transaction [OF assms, of fresh d]
    implements_command_transaction [OF assms, of fresh]
  by (simp add: snd_atomically implements_def)

text \<open>A body that changes the database, runs a nested transaction and then raises.\<close>

theorem command_transaction_all_or_nothing_witness:
  "command_transaction ''sp_0''
     (seq (statements (modify (\<lambda>n. n + 1)))
        (\<lambda>_. seq (command_transaction ''sp_1'' (statements (modify (\<lambda>n. n * 2))))
        (\<lambda>_. raise ValueError))) (fresh_connection (4::nat)) =
   ((Inl ValueError :: unit result), fresh_connection 4)"
proof -
  let ?m = "seq (modify (\<lambda>n. n + 1)) (\<lambda>_. seq (atomically (modify (\<lambda>n. n * 2)))
     (\<lambda>_. raise ValueError)) :: (unit, nat) comp"
  have "implements (seq (statements (modify (\<lambda>n::nat. n + 1)))
     (\<lambda>_. seq (command_transaction ''sp_1'' (statements (modify (\<lambda>n. n * 2))))
     (\<lambda>_. raise ValueError))) ?m"
    by (intro implements_seq implements_command_transaction implements_basic)
  from command_transaction_all_or_nothing [OF this, of "''sp_0''" 4 "fresh_connection 0"]
  show ?thesis by (simp add: seq_def comp_apply atomically_def)
qed

end
