(* ===== verification/Sha256.thy ===== *)
theory Sha256
  imports Py_Text "HOL-Library.Word"
begin

text \<open>
  \<open>hashlib.sha256(...).hexdigest()\<close> on ASCII text, written out: padding, message schedule,
  the 64 rounds on eight 32-bit words, and the lower-case hexadecimal digest. The program
  relies on the digest's shape (64 hexadecimal digits) and on it being a function of the text.
\<close>

unbundle bit_operations_syntax

type_synonym u32 = "32 word"

text \<open>
  The constants are, by the standard, the first 32 bits of the fractional parts of the cube roots of
  the first 64 primes and of the square roots of the first eight. \<open>int_root\<close> finds the largest root
  below a power of two, one bit after the other from the top.
\<close>

fun int_root :: "nat \<Rightarrow> nat \<Rightarrow> int \<Rightarrow> int \<Rightarrow> int" where
  "int_root 0 k n r = r"
| "int_root (Suc b) k n r = int_root b k n (if (r + 2 ^ b) ^ k \<le> n then r + 2 ^ b else r)"

definition root_bits :: "nat \<Rightarrow> int \<Rightarrow> u32" where
  "root_bits k p = of_int (int_root 36 k (p * 2 ^ (32 * k)) 0)"

definition primes_below :: "int \<Rightarrow> int list" where
  "primes_below n = filter (\<lambda>p. list_all (\<lambda>q. p mod q \<noteq> 0) [2..p - 1]) [2..n - 1]"

definition sha_k :: "u32 list" where
  "sha_k = map (root_bits 3) (primes_below 312)"

lemma int_root_bound:
  assumes "r ^ k \<le> n" "n < (r + 2 ^ b) ^ k"
  shows "(int_root b k n r) ^ k \<le> n \<and> n < (int_root b k n r + 1) ^ k"
  using assms
proof (induction b arbitrary: r)
  case (Suc b)
  have "r + 2 ^ b + 2 ^ b = r + 2 ^ Suc b" by simp
  with Suc.prems Suc.IH [of r] Suc.IH [of "r + 2 ^ b"] show ?case by (simp add: not_le)
qed simp

record sha_state =
  ra :: u32
  rb :: u32
  rc :: u32
  rd :: u32
  re :: u32
  rf :: u32
  rg :: u32
  rh :: u32

definition sha_init :: sha_state where
  "sha_init = (let h = map (root_bits 2) (primes_below 20)
     in \<lparr>ra = h ! 0, rb = h ! 1, rc = h ! 2, rd = h ! 3,
         re = h ! 4, rf = h ! 5, rg = h ! 6, rh = h ! 7\<rparr>)"

definition small_sigma0 :: "u32 \<Rightarrow> u32" where
  "small_sigma0 x = word_rotr 7 x XOR word_rotr 18 x XOR drop_bit 3 x"

definition small_sigma1 :: "u32 \<Rightarrow> u32" where
  "small_sigma1 x = word_rotr 17 x XOR word_rotr 19 x XOR drop_bit 10 x"

definition sha_round :: "sha_state \<Rightarrow> u32 \<times> u32 \<Rightarrow> sha_state" where
  "sha_round s kw =
     (let s1 = word_rotr 6 (re s) XOR word_rotr 11 (re s) XOR word_rotr 25 (re s);
          ch = (re s AND rf s) XOR (NOT (re s) AND rg s);
          t1 = rh s + s1 + ch + fst kw + snd kw;
          s0 = word_rotr 2 (ra s) XOR word_rotr 13 (ra s) XOR word_rotr 22 (ra s);
          maj = (ra s AND rb s) XOR (ra s AND rc s) XOR (rb s AND rc s);
          t2 = s0 + maj
      in \<lparr>ra = t1 + t2, rb = ra s, rc = rb s, rd = rc s,
          re = rd s + t1, rf = re s, rg = rf s, rh = rg s\<rparr>)"

text \<open>The schedule extends the sixteen words of a block to sixty-four.\<close>

fun extend_schedule :: "nat \<Rightarrow> u32 list \<Rightarrow> u32 list" where
  "extend_schedule 0 ws = ws"
| "extend_schedule (Suc n) ws =
     (let l = length ws
      in extend_schedule n (ws @ [ws ! (l - 16) + small_sigma0 (ws ! (l - 15)) +
           ws ! (l - 7) + small_sigma1 (ws ! (l - 2))]))"

definition sha_block :: "sha_state \<Rightarrow> u32 list \<Rightarrow> sha_state" where
  "sha_block s ws =
     (let t = foldl sha_round s (zip sha_k (extend_schedule 48 ws))
      in \<lparr>ra = ra s + ra t, rb = rb s + rb t, rc = rc s + rc t, rd = rd s + rd t,
          re = re s + re t, rf = rf s + rf t, rg = rg s + rg t, rh = rh s + rh t\<rparr>)"

definition bytes_of_len :: "nat \<Rightarrow> nat list" where
  "bytes_of_len n = map (\<lambda>i. (n div 256 ^ i) mod 256) [7, 6, 5, 4, 3, 2, 1, 0]"

definition sha_pad :: "nat list \<Rightarrow> nat list" where
  "sha_pad bs =
     bs @ [128] @ replicate ((119 - length bs mod 64) mod 64) 0 @ bytes_of_len (8 * length bs)"

fun words_of :: "nat list \<Rightarrow> u32 list" where
  "words_of (a # b # c # d # bs) = of_nat (a * 2 ^ 24 + b * 2 ^ 16 + c * 2 ^ 8 + d) # words_of bs"
| "words_of _ = []"

fun blocks :: "u32 list \<Rightarrow> u32 list list" where
  "blocks [] = []"
| "blocks ws = take 16 ws # blocks (drop 16 ws)"

definition hex_char :: "nat \<Rightarrow> char" where
  "hex_char d = (if d < 10 then digit_char d else char_of (87 + d))"

definition hex_word :: "u32 \<Rightarrow> string" where
  "hex_word w = map (\<lambda>i. hex_char (unat (drop_bit (4 * i) w) mod 16)) [7, 6, 5, 4, 3, 2, 1, 0]"

definition sha256_hex :: "string \<Rightarrow> string" where
  "sha256_hex s =
     (let t = foldl sha_block sha_init (blocks (words_of (sha_pad (map of_char s))))
      in concat (map hex_word [ra t, rb t, rc t, rd t, re t, rf t, rg t, rh t]))"

lemma is_hex_char: "d < 16 \<Longrightarrow> is_hex_lower (hex_char d)"
  by (auto simp: hex_char_def is_hex_lower_def)

lemma length_hex_word [simp]: "length (hex_word w) = 8"
  by (simp add: hex_word_def)

lemma hex_word_chars: "c \<in> set (hex_word w) \<Longrightarrow> is_hex_lower c"
  by (auto simp: hex_word_def intro!: is_hex_char)

lemma length_sha256_hex [simp]: "length (sha256_hex s) = 64"
  by (simp add: sha256_hex_def Let_def)

lemma sha256_hex_chars: "c \<in> set (sha256_hex s) \<Longrightarrow> is_hex_lower c"
  by (auto simp: sha256_hex_def Let_def dest: hex_word_chars)

text \<open>The digests the program stores: \<open>sha256:\<close> and 64 hexadecimal digits.\<close>

definition sha256_digest_pattern :: "atom list" where
  "sha256_digest_pattern = map Lit ''sha256:'' @ replicate 64 HexL"

definition sha256_text :: "string \<Rightarrow> string" where
  "sha256_text s = ''sha256:'' @ sha256_hex s"

lemma sha256_text_matches: "fullmatch sha256_digest_pattern (sha256_text s)"
proof -
  have "list_all2 atom_ok (replicate 64 HexL) (sha256_hex s)"
    using sha256_hex_chars by (intro hex_chars_match) auto
  then show ?thesis
    by (simp add: fullmatch_def sha256_digest_pattern_def sha256_text_def)
qed

end
