(* ===== verification/Json_Text.thy ===== *)
theory Json_Text
  imports Json
begin

text \<open>
  The compact JSON text determines the value: \<open>json_dumps\<close> is injective, so that texts used as
  keys (scope keys) or hashed (fingerprints) stand for the values they were made from.
\<close>

section \<open>Reading a string literal back\<close>

definition hex_value :: "char \<Rightarrow> nat" where
  "hex_value c = (if is_digit c then digit_val c else code_of c - 87)"

text \<open>One character of a literal with the rest of the text; \<open>None\<close> at the closing quote.\<close>

definition unescape :: "string \<Rightarrow> (char \<times> string) option" where
  "unescape s = (case s of
     [] \<Rightarrow> None
   | c # r \<Rightarrow>
      if c = CHR 0x22 then None
      else if c \<noteq> CHR 0x5C then Some (c, r)
      else (case r of
          CHR ''n'' # r' \<Rightarrow> Some (CHR 0x0A, r')
        | CHR ''r'' # r' \<Rightarrow> Some (CHR 0x0D, r')
        | CHR ''t'' # r' \<Rightarrow> Some (CHR 0x09, r')
        | CHR ''b'' # r' \<Rightarrow> Some (CHR 0x08, r')
        | CHR ''f'' # r' \<Rightarrow> Some (CHR 0x0C, r')
        | CHR ''u'' # _ # _ # h # l # r' \<Rightarrow> Some (char_of (16 * hex_value h + hex_value l), r')
        | e # r' \<Rightarrow> Some (e, r')
        | [] \<Rightarrow> None))"

lemma hex_value_digit: "d < 16 \<Longrightarrow> hex_value (hex_digit d) = d"
  by (auto simp: hex_value_def hex_digit_def is_digit_def)

lemma unescape_escape: "unescape (escape_char c @ r) = Some (c, r)"
proof -
  have hex: "char_of (16 * hex_value (hex_digit (code_of c div 16)) + hex_value (hex_digit (code_of c mod 16))) = c"
  proof -
    have "code_of c < 256" by simp
    then have "code_of c div 16 < 16" by (intro less_mult_imp_div_less) simp
    then show ?thesis by (simp add: hex_value_digit)
  qed
  show ?thesis
    by (simp add: escape_char_def unescape_def hex)
qed

lemma dumps_string_prefix_free:
  "dumps_string s @ r = dumps_string t @ r' \<Longrightarrow> s = t \<and> r = r'"
proof -
  have "concat (map escape_char s) @ CHR 0x22 # r = concat (map escape_char t) @ CHR 0x22 # r' \<Longrightarrow>
      s = t \<and> r = r'"
  proof (induction s arbitrary: t)
    case Nil
    have "unescape (CHR 0x22 # r) = None" by (simp add: unescape_def)
    with Nil unescape_escape show ?case by (cases t) force+
  next
    case (Cons c s)
    have lhs: "unescape (concat (map escape_char (c # s)) @ CHR 0x22 # r) =
        Some (c, concat (map escape_char s) @ CHR 0x22 # r)"
      by (simp add: unescape_escape)
    show ?case
    proof (cases t)
      case Nil
      then show ?thesis using lhs Cons.prems by (simp add: unescape_def)
    next
      case (Cons c' t')
      then have "unescape (concat (map escape_char t) @ CHR 0x22 # r') =
          Some (c', concat (map escape_char t') @ CHR 0x22 # r')"
        by (simp add: unescape_escape)
      with lhs Cons.prems have "c = c'"
        "concat (map escape_char s) @ CHR 0x22 # r = concat (map escape_char t') @ CHR 0x22 # r'"
        by simp_all
      with Cons.IH Cons show ?thesis by simp
    qed
  qed
  then show "dumps_string s @ r = dumps_string t @ r' \<Longrightarrow> s = t \<and> r = r'"
    by (simp add: dumps_string_def)
qed

section \<open>Numbers and delimiters\<close>

definition int_char :: "char \<Rightarrow> bool" where
  "int_char c \<longleftrightarrow> is_digit c \<or> c = CHR ''-''"

text \<open>What may follow a complete value.\<close>

definition delim :: "string \<Rightarrow> bool" where
  "delim r \<longleftrightarrow> r = [] \<or> hd r = CHR '','' \<or> hd r = CHR '']'' \<or> hd r = CHR ''}''"

lemma delim_simps [simp]:
  "delim []" "delim (CHR '','' # r)" "delim (CHR '']'' # r)" "delim (CHR ''}'' # r)"
  by (simp_all add: delim_def)

lemma py_int_str_chars: "\<forall>c\<in>set (py_int_str n). int_char c"
  by (auto simp: py_int_str_def int_char_def dest: dec_digits)

lemma py_int_str_not_Nil [simp]: "py_int_str n \<noteq> []"
  by (simp add: py_int_str_def)

lemma py_int_str_inj: "py_int_str m = py_int_str n \<Longrightarrow> m = n"
proof -
  have minus: "dec k \<noteq> CHR ''-'' # s" for k s
    using dec_digits [of "CHR ''-''" k] by (auto simp: is_digit_def)
  assume "py_int_str m = py_int_str n"
  then show "m = n"
    using minus minus [symmetric] by (auto simp: py_int_str_def split: if_splits dest!: dec_inj)
qed

lemma py_int_str_prefix_free:
  assumes "py_int_str m @ r = py_int_str n @ s" "delim r" "delim s"
  shows "m = n \<and> r = s"
proof -
  have stop: "takeWhile int_char (py_int_str k @ t) = py_int_str k" if "delim t" for k t
  proof -
    have "takeWhile int_char t = []"
      using that by (cases t) (auto simp: delim_def int_char_def is_digit_def)
    then show ?thesis by (simp add: takeWhile_append2 py_int_str_chars)
  qed
  have "py_int_str m = py_int_str n"
    using stop [OF assms(2), of m] stop [OF assms(3), of n] assms(1) by simp
  with assms(1) py_int_str_inj show ?thesis by auto
qed

section \<open>Values\<close>

fun json_kind :: "json \<Rightarrow> nat" where
  "json_kind JNull = 0"
| "json_kind (JBool True) = 1"
| "json_kind (JBool False) = 2"
| "json_kind (JInt _) = 3"
| "json_kind (JStr _) = 4"
| "json_kind (JArr _) = 5"
| "json_kind (JObj _) = 6"

definition kind_of_char :: "char \<Rightarrow> nat" where
  "kind_of_char c =
     (if c = CHR ''n'' then 0 else if c = CHR ''t'' then 1 else if c = CHR ''f'' then 2
      else if int_char c then 3 else if c = CHR 0x22 then 4 else if c = CHR ''['' then 5
      else if c = CHR ''{'' then 6 else 7)"

lemma json_dumps_starts: "\<exists>c t. json_dumps v = c # t \<and> kind_of_char c = json_kind v"
proof (cases v)
  case (JInt n)
  obtain c t where c: "py_int_str n = c # t" by (cases "py_int_str n") auto
  then have "int_char c" using py_int_str_chars [of n] by simp
  then have "kind_of_char c = 3"
    by (auto simp: kind_of_char_def int_char_def is_digit_def)
  with JInt c show ?thesis by simp
qed (auto simp: kind_of_char_def dumps_string_def int_char_def is_digit_def)

lemma json_dumps_kind: "json_dumps v @ r = json_dumps w @ s \<Longrightarrow> json_kind v = json_kind w"
  using json_dumps_starts [of v] json_dumps_starts [of w] by auto

text \<open>Comma separated items up to a closing bracket.\<close>

lemma items_prefix_free:
  assumes item: "\<And>x y r s. x \<in> set xs \<Longrightarrow> D x @ r = D y @ s \<Longrightarrow> delim r \<Longrightarrow> delim s \<Longrightarrow> x = y \<and> r = s"
    and close: "delim [c]" "c \<noteq> CHR '',''"
    and eq: "concat (map (\<lambda>x. CHR '','' # D x) xs) @ c # r = concat (map (\<lambda>x. CHR '','' # D x) ys) @ c # s"
  shows "xs = ys \<and> r = s"
  using item eq
proof (induction xs arbitrary: ys)
  case Nil
  then show ?case using close by (cases ys) auto
next
  case (Cons x xs)
  have rest: "delim (concat (map (\<lambda>x. CHR '','' # D x) zs) @ c # t)" for zs t
    using close(1) by (cases zs) (auto simp: delim_def)
  obtain y ys' where ys: "ys = y # ys'"
    using Cons.prems(2) close by (cases ys) auto
  have "x = y \<and> concat (map (\<lambda>x. CHR '','' # D x) xs) @ c # r = concat (map (\<lambda>x. CHR '','' # D x) ys') @ c # s"
    using Cons.prems(2) by (intro Cons.prems(1) [OF _ _ rest rest]) (simp_all add: ys)
  then show ?case using Cons.IH [of ys'] Cons.prems(1) ys by auto
qed

lemma join_comma: "py_join '','' (D x # map D xs) = D x @ concat (map (\<lambda>y. CHR '','' # D y) xs)"
  by (induction xs arbitrary: x) auto

lemma joined_prefix_free:
  assumes item: "\<And>x y r s. x \<in> set xs \<Longrightarrow> D x @ r = D y @ s \<Longrightarrow> delim r \<Longrightarrow> delim s \<Longrightarrow> x = y \<and> r = s"
    and close: "delim [c]" "c \<noteq> CHR '',''" and start: "\<And>x t. D x @ t \<noteq> c # s" "\<And>x t. c # r \<noteq> D x @ t"
    and eq: "py_join '','' (map D xs) @ c # r = py_join '','' (map D ys) @ c # s"
  shows "xs = ys \<and> r = s"
proof (cases xs; cases ys)
  fix x xs' y ys' assume xs: "xs = x # xs'" and ys: "ys = y # ys'"
  have rest: "delim (concat (map (\<lambda>x. CHR '','' # D x) zs) @ c # t)" for zs t
    using close(1) by (cases zs) (auto simp: delim_def)
  have "x = y \<and> concat (map (\<lambda>x. CHR '','' # D x) xs') @ c # r = concat (map (\<lambda>x. CHR '','' # D x) ys') @ c # s"
    using eq by (intro item [OF _ _ rest rest]) (simp_all add: xs ys join_comma)
  moreover from this have "xs' = ys' \<and> r = s"
    using xs by (intro items_prefix_free [OF item close]) auto
  ultimately show ?thesis by (simp add: xs ys)
qed (use eq start in \<open>auto simp: join_comma\<close>)

lemma json_dumps_prefix_free:
  "json_dumps v @ r = json_dumps w @ s \<Longrightarrow> delim r \<Longrightarrow> delim s \<Longrightarrow> v = w \<and> r = s"
proof (induction v arbitrary: w r s)
  case JNull
  then show ?case using json_dumps_kind [OF JNull(1)] by (cases w rule: json_kind.cases) auto
next
  case (JBool b)
  then show ?case using json_dumps_kind [OF JBool(1)]
    by (cases w rule: json_kind.cases; cases b) auto
next
  case (JInt n)
  then obtain m where "w = JInt m" using json_dumps_kind [OF JInt(1)] by (cases w rule: json_kind.cases) auto
  with JInt py_int_str_prefix_free [of n r m s] show ?case by simp
next
  case (JStr x)
  then obtain y where "w = JStr y" using json_dumps_kind [OF JStr(1)] by (cases w rule: json_kind.cases) auto
  with JStr(1) dumps_string_prefix_free [of x r y s] show ?case by simp
next
  case (JArr xs)
  then obtain ys where w: "w = JArr ys"
    using json_dumps_kind [OF JArr(2)] by (cases w rule: json_kind.cases) auto
  have no: "json_dumps x @ t \<noteq> CHR '']'' # u" for x t u
    using json_dumps_starts [of x] by (cases x rule: json_kind.cases) (auto simp: kind_of_char_def int_char_def is_digit_def)
  have "xs = ys \<and> r = s"
    using JArr w no no [symmetric]
    by (intro joined_prefix_free [where D = json_dumps and c = "CHR '']''"]) auto
  with w show ?case by simp
next
  case (JObj kvs)
  then obtain kws where w: "w = JObj kws"
    using json_dumps_kind [OF JObj(2)] by (cases w rule: json_kind.cases) auto
  let ?D = "\<lambda>p. dumps_string (fst p) @ '':'' @ json_dumps (snd p)"
  have item: "p = q \<and> a = b"
    if "p \<in> set kvs" "?D p @ a = ?D q @ b" "delim a" "delim b" for p q a b
  proof -
    from that(2) have "dumps_string (fst p) @ '':'' @ json_dumps (snd p) @ a =
        dumps_string (fst q) @ '':'' @ json_dumps (snd q) @ b" by simp
    from dumps_string_prefix_free [OF this]
    have "fst p = fst q" "json_dumps (snd p) @ a = json_dumps (snd q) @ b" by simp_all
    moreover have "snd p = snd q \<and> a = b"
      by (rule JObj(1) [OF that(1) _ calculation(2) that(3,4)]) (simp add: snds.simps)
    ultimately show ?thesis by (simp add: prod_eq_iff)
  qed
  have no: "?D x @ t \<noteq> CHR ''}'' # u" for x t u
    by (simp add: dumps_string_def)
  have "kvs = kws \<and> r = s"
    by (rule joined_prefix_free [where D = ?D and c = "CHR ''}''", OF item])
       (use JObj(2) w no no [symmetric] in \<open>simp_all add: delim_def\<close>)
  with w show ?case by simp
qed

lemma json_dumps_inj: "json_dumps v = json_dumps w \<longleftrightarrow> v = w"
  using json_dumps_prefix_free [of v "[]" w "[]"] by auto

lemma canonical_json_eq: "canonical_json v = canonical_json w \<longleftrightarrow> sort_json v = sort_json w"
  by (simp add: canonical_json_def json_dumps_inj)

end
