(* ===== verification/Command_Boundary.thy ===== *)
theory Command_Boundary
  imports Runs Transactions Sha256 Json_Text
begin

text \<open>
  The command boundary of \<open>src/onetruth/application/handlers/_shared/command_boundary.py\<close>: payload
  checks, scope keys and request fingerprints, command receipts, and
  \<open>_execute_with_command_receipt\<close>, which runs a command at most once per idempotency key. The
  detailed version works on a connection with explicit transaction frames; the version the
  handlers are written with is its abstract meaning, and the detailed one implements it.
\<close>

section \<open>Payload checks\<close>

definition valid_actor_types :: "string list" where
  "valid_actor_types = [''human'', ''agent'', ''service'', ''system'']"

definition assert_actor_type :: "string \<Rightarrow> unit result" where
  "assert_actor_type actor_type =
     require (actor_type \<in> set valid_actor_types) (CommandError ''invalid_actor_type'')"

definition require_fields :: "dict \<Rightarrow> string list \<Rightarrow> unit result" where
  "require_fields payload required_names =
     require (filter (\<lambda>f. jget payload f = JNull) required_names = []) (CommandError ''invalid_payload'')"

definition normalize_actor_roles :: "json \<Rightarrow> bool \<Rightarrow> string list result" where
  "normalize_actor_roles raw_roles required = (case raw_roles of
     JNull \<Rightarrow> if required then Inl (CommandError ''invalid_actor_roles'') else Inr []
   | JArr roles \<Rightarrow>
       let actor_roles = filter (\<lambda>r. r \<noteq> []) (map (\<lambda>r. py_strip (py_str r)) roles)
       in if required \<and> actor_roles = [] then Inl (CommandError ''invalid_actor_roles'')
          else Inr actor_roles
   | _ \<Rightarrow> Inl (CommandError ''invalid_actor_roles''))"

record principal =
  pr_actor_id :: string
  pr_actor_type :: string
  pr_actor_roles :: "string list"

definition principal_from_payload :: "dict \<Rightarrow> bool \<Rightarrow> principal result" where
  "principal_from_payload payload require_roles =
     rbind (getitem payload ''actor_id'') (\<lambda>a.
     rbind (getitem payload ''actor_type'') (\<lambda>t.
     rbind (normalize_actor_roles (jget payload ''actor_roles'') require_roles) (\<lambda>roles.
     Inr \<lparr>pr_actor_id = py_str a, pr_actor_type = py_str t, pr_actor_roles = roles\<rparr>)))"

definition normalize_command_idempotency_key :: "json \<Rightarrow> bool \<Rightarrow> string option result" where
  "normalize_command_idempotency_key idempotency_key required = (case idempotency_key of
     JNull \<Rightarrow> if required then Inl (CommandError ''invalid_idempotency_key'') else Inr None
   | v \<Rightarrow> let key = py_strip (py_str v) in
       if key \<noteq> [] then Inr (Some key)
       else if required then Inl (CommandError ''invalid_idempotency_key'') else Inr None)"

section \<open>Scope keys and fingerprints\<close>

definition scope_part :: "json \<Rightarrow> json" where
  "scope_part v = (case v of JNull \<Rightarrow> JNull | _ \<Rightarrow> JStr (py_str v))"

definition command_scope_key :: "json list \<Rightarrow> string" where
  "command_scope_key parts = json_dumps (JArr (map scope_part parts))"

text \<open>The commands whose scope is a plain list of payload fields.\<close>

definition scope_fields :: "string \<Rightarrow> string list option" where
  "scope_fields = map_of
    [(''runs.create'', [''tenant_id'', ''domain_id'', ''workflow_id'', ''partition_key'', ''activation_key'']),
     (''capex.projects.create'', [''tenant_id'', ''domain_id'', ''project_key'']),
     (''capex.project_memberships.grant'', [''project_id'', ''target_actor_type'', ''target_actor_id'']),
     (''capex.project_memberships.revoke'', [''project_id'', ''project_membership_id'']),
     (''capex.workpages.command'',
        [''project_id'', ''workpage_kind'', ''command_type'', ''projection_snapshot_id'']),
     (''capex.workpages.command-envelope.execute'',
        [''project_id'', ''workpage_kind'', ''command_type'', ''projection_snapshot_id'']),
     (''tasks.create'', [''workflow_run_id'', ''activation_key'']),
     (''tasks.claim'', [''human_task_id'']),
     (''tasks.complete'', [''human_task_id'']),
     (''tasks.confirm-review'', [''human_task_id'']),
     (''flags.transition'', [''flag_id'']),
     (''approvals.respond'', [''approval_id'']),
     (''artifacts.create-version'', [''workflow_run_id'', ''task_run_id'', ''artifact_kind'']),
     (''artifacts.ingest'', [''workflow_run_id'', ''task_run_id'', ''artifact_kind'']),
     (''workpages.eod-drafts.create'',
        [''tenant_id'', ''domain_id'', ''workflow_id'', ''partition_key'', ''workpage_id'']),
     (''workpages.eod-intake.ensure'', [''workflow_run_id'', ''workflow_id'', ''workpage_id'']),
     (''workpages.driver-preferences.snapshots.create'',
        [''workflow_run_id'', ''workflow_id'', ''workpage_id'']),
     (''workpages.route-demand.next-week.create'',
        [''workflow_run_id'', ''workflow_id'', ''workpage_id'']),
     (''workpages.driver-preferences.availability-exceptions.add'',
        [''workflow_run_id'', ''workflow_id'', ''workpage_id'']),
     (''workpages.route-demand.save-and-run'', [''artifact_version_id'']),
     (''workpages.artifact.submit'', [''artifact_version_id'']),
     (''workpages.schedule.sick_no_show'', [''artifact_version_id'']),
     (''workpages.schedule.route_demand_coverage.apply'', [''artifact_version_id'']),
     (''schedule-control.build-weekly'', [''workflow_run_id'']),
     (''pointers.promote'', [''workflow_run_id'', ''pointer_key'']),
     (''execution-sessions.create'',
        [''workflow_run_id'', ''task_run_id'', ''execution_spec_id'', ''owner_mode'']),
     (''execution-sessions.transition'', [''execution_session_id'']),
     (''tool-executions.request'', [''execution_session_id'', ''tool_class'', ''tool_name'']),
     (''tool-executions.complete'', [''tool_execution_id''])]"

definition public_command_scope_key :: "string \<Rightarrow> dict \<Rightarrow> string result" where
  "public_command_scope_key command_name payload =
     (let get = jget payload;
          action_or_default =
            (if get ''scope_kind'' \<noteq> JNull \<and> get ''scope_ref'' \<noteq> JNull
             then JStr (py_str (py_or (get ''action'')
                    (JStr (py_str (get ''scope_kind'') @ '':'' @ py_str (get ''scope_ref'')))))
             else JNull)
      in if command_name = ''flags.create''
         then Inr (command_scope_key [get ''workflow_run_id'',
           if get ''dedupe_key'' = JNull then get ''idempotency_key'' else get ''dedupe_key''])
         else if command_name = ''approvals.request''
         then Inr (command_scope_key [get ''workflow_run_id'', get ''approval_kind'', get ''scope_kind'',
           get ''scope_ref'', get ''task_run_id'', action_or_default])
         else if command_name = ''artifacts.seed-corpus''
         then Inr (command_scope_key [get ''workflow_run_id'', get ''seed_set_id'',
           py_or (get ''manifest_path'') (JStr ''default_manifest'')])
         else case scope_fields command_name of
             Some parts \<Rightarrow> Inr (command_scope_key (map get parts))
           | None \<Rightarrow> Inl ValueError)"

definition receipt_hash_profile :: string where
  "receipt_hash_profile = ''onetruth.command_receipt_input.canonical_json.sha256.v1''"

definition command_request_fingerprint :: "dict \<Rightarrow> string" where
  "command_request_fingerprint payload = sha256_text (canonical_json (JObj payload))"

section \<open>Receipts\<close>

record receipt_context =
  rx_command :: string
  rx_scope :: string
  rx_idem :: string
  rx_fingerprint :: string
  rx_profile :: string
  rx_event_base :: string
  rx_tenant :: "string option"
  rx_domain :: "string option"
  rx_run :: "string option"

definition assert_stored_command_receipt_valid :: "receipt_row \<Rightarrow> unit result" where
  "assert_stored_command_receipt_valid existing =
     require (rc_profile existing = receipt_hash_profile
         \<and> fullmatch sha256_digest_pattern (rc_fingerprint existing))
       (CommandError ''command_receipt_corrupt'')"

definition assert_command_receipt_matches :: "receipt_row \<Rightarrow> receipt_context \<Rightarrow> unit result" where
  "assert_command_receipt_matches existing receipt =
     rbind (assert_stored_command_receipt_valid existing) (\<lambda>_.
       require (rc_fingerprint existing = rx_fingerprint receipt)
         (CommandError ''command_receipt_mismatch''))"

definition scoped_event_idempotency_base :: "string \<Rightarrow> string \<Rightarrow> string \<Rightarrow> string" where
  "scoped_event_idempotency_base command_name scope_key idempotency_key =
     ''command-receipt:'' @ sha256_hex (canonical_json (JObj
       [(''command_name'', JStr command_name), (''scope_key'', JStr scope_key),
        (''idempotency_key'', JStr idempotency_key)]))"

definition prepare_command_receipt ::
    "string \<Rightarrow> dict \<Rightarrow> dict \<Rightarrow> string option \<Rightarrow> string option \<Rightarrow> string option \<Rightarrow> bool \<Rightarrow>
     receipt_context option result" where
  "prepare_command_receipt command_name payload fingerprint_payload tenant_id domain_id
       workflow_run_id idempotency_required =
     rbind (normalize_command_idempotency_key (jget payload ''idempotency_key'') idempotency_required)
       (\<lambda>normalized. case normalized of
          None \<Rightarrow> Inr None
        | Some key \<Rightarrow> rbind (public_command_scope_key command_name payload) (\<lambda>scope_key.
            Inr (Some \<lparr>rx_command = command_name, rx_scope = scope_key, rx_idem = key,
              rx_fingerprint = command_request_fingerprint fingerprint_payload,
              rx_profile = receipt_hash_profile,
              rx_event_base = scoped_event_idempotency_base command_name scope_key key,
              rx_tenant = tenant_id, rx_domain = domain_id, rx_run = workflow_run_id\<rparr>)))"

definition receipt_event_idempotency_key :: "receipt_context option \<Rightarrow> string \<Rightarrow> string option" where
  "receipt_event_idempotency_key receipt label =
     map_option (\<lambda>rx. rx_event_base rx @ '':'' @ label) receipt"

definition event_idempotency_key :: "json \<Rightarrow> string \<Rightarrow> string option" where
  "event_idempotency_key idempotency_key label = (case idempotency_key of
     JNull \<Rightarrow> None
   | v \<Rightarrow> let key = py_strip (py_str v) in if key = [] then None else Some (key @ '':'' @ label))"

definition required_event_idempotency_key :: "json \<Rightarrow> string \<Rightarrow> string result" where
  "required_event_idempotency_key idempotency_key label =
     (case event_idempotency_key idempotency_key label of
        None \<Rightarrow> Inl (CommandError ''invalid_idempotency_key'') | Some k \<Rightarrow> Inr k)"

definition assert_idempotency_available :: "string option \<Rightarrow> (unit, db) comp" where
  "assert_idempotency_available key d = (case key of
     None \<Rightarrow> ret () d
   | Some k \<Rightarrow> (case select_one (\<lambda>r. ev_idem r = Some k) (events d) of
         None \<Rightarrow> ret () d
       | Some r \<Rightarrow> raise (DuplicateIdempotencyKeyError k (ev_id r)) d))"

text \<open>Looking up and storing the receipt of a context, if there is one.\<close>

definition find_receipt :: "receipt_context option \<Rightarrow> db \<Rightarrow> (receipt_context \<times> receipt_row) option" where
  "find_receipt receipt d = (case receipt of
     None \<Rightarrow> None
   | Some rx \<Rightarrow> map_option (Pair rx) (get_command_receipt d (rx_command rx) (rx_scope rx) (rx_idem rx)))"

definition store_receipt :: "receipt_context option \<Rightarrow> dict \<Rightarrow> (unit, db) comp" where
  "store_receipt receipt outcome = (case receipt of
     None \<Rightarrow> ret ()
   | Some rx \<Rightarrow> create_command_receipt (rx_command rx) (rx_scope rx) (rx_idem rx) (rx_fingerprint rx)
       (rx_profile rx) outcome (rx_tenant rx) (rx_domain rx) (rx_run rx))"

section \<open>Executing a command with a receipt\<close>

text \<open>\<open>_execute_with_command_receipt\<close> on a connection, frame by frame.\<close>

definition execute_on_connection ::
    "string \<Rightarrow> receipt_context option \<Rightarrow> (dict, db conn) comp \<Rightarrow> (dict \<times> bool, db conn) comp" where
  "execute_on_connection fresh receipt operation =
     seq (begin_transaction fresh) (\<lambda>frame.
       handle
         (seq (query (find_receipt receipt)) (\<lambda>existing. case existing of
            Some (rx, row) \<Rightarrow> seq (of_result (assert_command_receipt_matches row rx)) (\<lambda>_.
              seq (rollback_transaction frame) (\<lambda>_. ret (rc_result row, True)))
          | None \<Rightarrow> seq operation (\<lambda>outcome.
              seq (statements (store_receipt receipt outcome)) (\<lambda>_.
              seq (commit_transaction frame) (\<lambda>_. ret (outcome, False))))))
         (\<lambda>e. seq (rollback_transaction frame) (\<lambda>_. case e of
            IntegrityError _ \<Rightarrow> seq (query (find_receipt receipt)) (\<lambda>existing. case existing of
                Some (rx, row) \<Rightarrow> seq (of_result (assert_command_receipt_matches row rx)) (\<lambda>_.
                  ret (rc_result row, True))
              | None \<Rightarrow> raise e)
          | _ \<Rightarrow> raise e)))"

text \<open>Its meaning on the database.\<close>

definition execute_with_command_receipt ::
    "receipt_context option \<Rightarrow> (dict, db) comp \<Rightarrow> (dict \<times> bool, db) comp" where
  "execute_with_command_receipt receipt operation = atomically (\<lambda>d.
     case find_receipt receipt d of
       Some (rx, row) \<Rightarrow> seq (of_result (assert_command_receipt_matches row rx)) (\<lambda>_.
         ret (rc_result row, True)) d
     | None \<Rightarrow> seq operation (\<lambda>outcome. seq (store_receipt receipt outcome) (\<lambda>_.
         ret (outcome, False))) d)"

definition command_receipt_payload :: "dict \<Rightarrow> receipt_context option \<Rightarrow> bool \<Rightarrow> bool \<Rightarrow> dict" where
  "command_receipt_payload raw_result receipt replay include_receipt =
     (if \<not> include_receipt then raw_result
      else [(''result'', JObj raw_result), (''idempotent_replay'', JBool replay),
        (''receipt'', case receipt of None \<Rightarrow> JNull | Some rx \<Rightarrow> JObj
          [(''command_name'', JStr (rx_command rx)), (''scope_key'', JStr (rx_scope rx)),
           (''idempotency_key'', JStr (rx_idem rx)),
           (''request_fingerprint'', JStr (rx_fingerprint rx)),
           (''request_fingerprint_profile'', JStr (rx_profile rx))])])"

section \<open>Events and scopes\<close>

text \<open>What a command takes from outside: two readings of the clock and two uuids.\<close>

record command_env =
  ce_now :: string
  ce_event_now :: string
  ce_row_uuid :: string
  ce_event_uuid :: string

text \<open>\<open>str(payload[k]) if payload.get(k) is not None else None\<close>.\<close>

definition opt_field :: "dict \<Rightarrow> string \<Rightarrow> string option" where
  "opt_field payload k = opt_str (jget payload k)"

definition link :: "string \<Rightarrow> string \<Rightarrow> json" where
  "link link_type link_id = JObj [(''rel'', JStr ''subject''), (''type'', JStr link_type), (''id'', JStr link_id)]"

text \<open>The clock and the uuid of the event id are arguments.\<close>

definition event_envelope ::
    "string \<Rightarrow> string \<Rightarrow> string \<Rightarrow> string \<Rightarrow> string \<Rightarrow> string \<Rightarrow> string \<Rightarrow> json list \<Rightarrow> dict \<Rightarrow>
     string option \<Rightarrow> dict result" where
  "event_envelope now uuid4 event_type tenant_id domain_id actor_type actor_id links payload
       idempotency_key =
     rbind (assert_actor_type actor_type) (\<lambda>_. Inr
       [(''event_id'', JStr (event_id_for_type event_type uuid4)), (''event_type'', JStr event_type),
        (''schema_version'', JStr ''1.0''), (''occurred_at'', JStr now), (''recorded_at'', JStr now),
        (''tenant_id'', JStr tenant_id), (''domain_id'', JStr domain_id),
        (''actor'', JObj [(''type'', JStr actor_type), (''id'', JStr actor_id)]),
        (''links'', JArr links),
        (''payload'', JObj (filter (\<lambda>p. snd p \<noteq> JNull) payload)),
        (''idempotency_key'', of_opt idempotency_key)])"

definition validate_task_run_belongs_to_workflow ::
    "db \<Rightarrow> string \<Rightarrow> string \<Rightarrow> task_run_row result" where
  "validate_task_run_belongs_to_workflow d task_run_id workflow_run_id =
     (case get_task_run d task_run_id of
        None \<Rightarrow> Inl (CommandError ''task_run_not_found'')
      | Some task_run \<Rightarrow> if tr_run task_run \<noteq> workflow_run_id
          then Inl (CommandError ''cross_workflow_task_reference'') else Inr task_run)"

record run_scope =
  ws_tenant :: string
  ws_domain :: string
  ws_partition :: string

definition workflow_scope :: "db \<Rightarrow> string \<Rightarrow> run_scope result" where
  "workflow_scope d workflow_run_id = (case get_workflow_run d workflow_run_id of
     None \<Rightarrow> Inl (CommandError ''workflow_run_not_found'')
   | Some (r, _) \<Rightarrow> Inr \<lparr>ws_tenant = wr_tenant r, ws_domain = wr_domain r, ws_partition = wr_partition r\<rparr>)"

section \<open>The detailed execution implements the abstract one\<close>

lemma assert_command_receipt_matches_cases:
  obtains "assert_command_receipt_matches row rx = Inr ()"
    "rc_profile row = receipt_hash_profile" "fullmatch sha256_digest_pattern (rc_fingerprint row)"
    "rc_fingerprint row = rx_fingerprint rx"
  | code where "assert_command_receipt_matches row rx = Inl (CommandError code)"
proof (cases "assert_command_receipt_matches row rx")
  case (Inl e)
  then have "\<exists>code. e = CommandError code"
    by (auto simp: assert_command_receipt_matches_def assert_stored_command_receipt_valid_def
      require_def split: if_splits)
  with Inl that(2) show thesis by blast
next
  case (Inr u)
  then show thesis
    by (intro that(1)) (auto simp: assert_command_receipt_matches_def rbind_eq_Inr
      assert_stored_command_receipt_valid_def)
qed

text \<open>
  The part after \<open>_begin_transaction\<close>, for any frame whose rollback and commit lead to the
  connections \<open>after d\<close>.
\<close>

lemma execute_body:
  fixes operation :: "(dict, db conn) comp"
  assumes op: "implements operation m" and c: "in_transaction c" "working c = d"
    and rollback: "\<And>x. rollback_transaction frame (c\<lparr>working := x\<rparr>) = (Inr (), after d)"
    and commit: "\<And>x. commit_transaction frame (c\<lparr>working := x\<rparr>) = (Inr (), after x)"
    and after: "working (after d) = d"
  shows "handle
         (seq (query (find_receipt receipt)) (\<lambda>existing. case existing of
            Some (rx, row) \<Rightarrow> seq (of_result (assert_command_receipt_matches row rx)) (\<lambda>_.
              seq (rollback_transaction frame) (\<lambda>_. ret (rc_result row, True)))
          | None \<Rightarrow> seq operation (\<lambda>outcome.
              seq (statements (store_receipt receipt outcome)) (\<lambda>_.
              seq (commit_transaction frame) (\<lambda>_. ret (outcome, False))))))
         (\<lambda>e. seq (rollback_transaction frame) (\<lambda>_. case e of
            IntegrityError _ \<Rightarrow> seq (query (find_receipt receipt)) (\<lambda>existing. case existing of
                Some (rx, row) \<Rightarrow> seq (of_result (assert_command_receipt_matches row rx)) (\<lambda>_.
                  ret (rc_result row, True))
              | None \<Rightarrow> raise e)
          | _ \<Rightarrow> raise e)) c
     = (fst (execute_with_command_receipt receipt m d),
        after (snd (execute_with_command_receipt receipt m d)))" (is "handle ?try ?except c = _")
proof (cases "find_receipt receipt d")
  case (Some p)
  then obtain rx row where p: "find_receipt receipt d = Some (rx, row)" by (cases p) auto
  have "rollback_transaction frame c = (Inr (), after d)"
    using rollback [of d] c by (cases c) simp
  with p show ?thesis
    by (cases rule: assert_command_receipt_matches_cases [of row rx])
       (simp_all add: handle_def query_def comp_simps seq_def c execute_with_command_receipt_def
          atomically_def)
next
  case None
  obtain r0 d0 where m: "m d = (r0, d0)" by fastforce
  have op_run: "operation c = (r0, c\<lparr>working := d0\<rparr>)"
    using implementsD [OF op c(1)] m c(2) by simp
  have failed: "?except e (c\<lparr>working := x\<rparr>) = (Inl e, after d)" for e x
    using None rollback after by (cases e) (simp_all add: seq_def query_def comp_apply)
  show ?thesis
  proof (cases r0)
    case (Inl e)
    then have "?try c = (Inl e, c\<lparr>working := d0\<rparr>)"
      using None op_run by (simp add: seq_def query_def comp_apply c)
    with failed [of e d0] Inl None m show ?thesis
      by (simp add: handle_def execute_with_command_receipt_def atomically_def seq_def)
  next
    case (Inr outcome)
    obtain r1 d1 where store: "store_receipt receipt outcome d0 = (r1, d1)" by fastforce
    show ?thesis
    proof (cases r1)
      case (Inl e)
      then have "?try c = (Inl e, c\<lparr>working := d1\<rparr>)"
        using None op_run Inr store c
        by (simp add: seq_def query_def comp_apply statements_def)
      with failed [of e d1] Inl Inr None m store show ?thesis
        by (simp add: handle_def execute_with_command_receipt_def atomically_def seq_def)
    next
      case (Inr u)
      have "statements (store_receipt receipt outcome) (c\<lparr>working := d0\<rparr>) = (r1, c\<lparr>working := d1\<rparr>)"
        using implementsD [OF implements_basic(5) [of "store_receipt receipt outcome"],
          of "c\<lparr>working := d0\<rparr>"] store c by simp
      with Inr have "?try c = (Inr (outcome, False), after d1)"
        using None op_run \<open>r0 = Inr outcome\<close> store c commit [of d1]
        by (simp add: seq_def query_def comp_apply)
      with Inr \<open>r0 = Inr outcome\<close> None m store show ?thesis
        by (simp add: handle_def execute_with_command_receipt_def atomically_def seq_def comp_apply)
    qed
  qed
qed

text \<open>
  C1: \<open>_execute_with_command_receipt\<close>, frame by frame on the connection, implements the abstract
  execution: on a connection outside a transaction it leaves the database committed exactly as
  the abstract execution leaves it, with no transaction or savepoint open; inside a transaction it
  changes the working copy that way and leaves the enclosing transaction and its savepoints alone.
\<close>

theorem execute_with_command_receipt_refines:
  assumes "implements operation m"
  shows "execute_on_connection fresh receipt operation (fresh_connection d) =
      (fst (execute_with_command_receipt receipt m d),
       fresh_connection (snd (execute_with_command_receipt receipt m d)))
    \<and> implements (execute_on_connection fresh receipt operation)
        (execute_with_command_receipt receipt m)"
proof
  let ?c = "(fresh_connection d)\<lparr>in_transaction := True\<rparr>"
  have "begin_transaction fresh (fresh_connection d) = (Inr \<lparr>savepoint_name = None\<rparr>, ?c)"
    by (simp add: begin_transaction_def execute_begin_immediate_def fresh_connection_def seq_def
      comp_apply)
  then show "execute_on_connection fresh receipt operation (fresh_connection d) =
      (fst (execute_with_command_receipt receipt m d),
       fresh_connection (snd (execute_with_command_receipt receipt m d)))"
    unfolding execute_on_connection_def
    by (subst seq_apply(2), assumption, intro execute_body [OF assms])
       (simp_all add: fresh_connection_def rollback_transaction_def commit_transaction_def
         connection_rollback_def connection_commit_def comp_apply)
next
  show "implements (execute_on_connection fresh receipt operation)
        (execute_with_command_receipt receipt m)"
  proof (rule implementsI)
    fix c :: "db conn" and r d'
    assume c: "in_transaction c"
      and run: "execute_with_command_receipt receipt m (working c) = (r, d')"
    let ?c = "c\<lparr>in_transaction := True, savepoints := (fresh, working c) # savepoints c\<rparr>"
    have opened: "begin_transaction fresh c = (Inr \<lparr>savepoint_name = Some fresh\<rparr>, ?c)"
      using c by (simp add: begin_transaction_def execute_savepoint_def seq_def comp_apply)
    have "execute_on_connection fresh receipt operation c =
        (fst (execute_with_command_receipt receipt m (working c)),
         c\<lparr>working := snd (execute_with_command_receipt receipt m (working c))\<rparr>)"
      unfolding execute_on_connection_def
      by (subst seq_apply(2), rule opened, intro execute_body [OF assms])
         (use c in \<open>simp_all add: rollback_transaction_def commit_transaction_def
           execute_rollback_to_def execute_release_def seq_def\<close>)
    with run show "execute_on_connection fresh receipt operation c = (r, c\<lparr>working := d'\<rparr>)"
      by simp
  qed
qed

text \<open>A command that writes and then violates a constraint, run with a new key.\<close>

theorem execute_with_command_receipt_refines_witness:
  "execute_on_connection ''sp_0'' None
     (seq (statements (modify (\<lambda>d. d\<lparr>next_receipt := 7\<rparr>))) (\<lambda>_. raise fk_failed))
     (fresh_connection empty_db) = (Inl fk_failed, fresh_connection empty_db)"
proof -
  have "implements (seq (statements (modify (\<lambda>d. d\<lparr>next_receipt := 7\<rparr>))) (\<lambda>_. raise fk_failed))
     (seq (modify (\<lambda>d. d\<lparr>next_receipt := 7\<rparr>)) (\<lambda>_. raise fk_failed))"
    by (intro implements_seq implements_basic)
  from execute_with_command_receipt_refines [OF this, of "''sp_0''" None empty_db]
  show ?thesis
    by (simp add: execute_with_command_receipt_def find_receipt_def atomically_def seq_def comp_apply)
qed

section \<open>At most once\<close>

lemma execute_replay:
  assumes "find_receipt (Some rx) d = Some (rx, row)"
    "rc_profile row = receipt_hash_profile" "fullmatch sha256_digest_pattern (rc_fingerprint row)"
  shows "execute_with_command_receipt (Some rx) operation d =
    (if rc_fingerprint row = rx_fingerprint rx then (Inr (rc_result row, True), d)
     else (Inl (CommandError ''command_receipt_mismatch''), d))"
  using assms by (simp add: execute_with_command_receipt_def atomically_def comp_simps
    assert_command_receipt_matches_def assert_stored_command_receipt_valid_def require_def)

lemma create_command_receipt_Inr:
  assumes "create_command_receipt cmd scope key fingerprint profile outcome tenant domain run d = (Inr u, d')"
  shows "get_command_receipt d cmd scope key = None"
    and "d' = d\<lparr>receipts := receipts d', next_receipt := next_receipt d'\<rparr>"
    and "\<exists>row. receipts d' = receipts d @ [row] \<and> get_command_receipt d' cmd scope key = Some row
      \<and> rc_fingerprint row = fingerprint \<and> rc_profile row = profile \<and> rc_result row = sort_dict outcome"
  using assms
  by (auto simp: create_command_receipt_def insert_receipt_def get_command_receipt_def comp_simps
    select_one_append split: if_splits)

lemma store_receipt_frame:
  "store_receipt receipt outcome d = (r, d') \<Longrightarrow>
     d' = d\<lparr>receipts := receipts d', next_receipt := next_receipt d'\<rparr>"
  by (auto simp: store_receipt_def create_command_receipt_def insert_receipt_def comp_apply
    split: option.splits if_splits)

text \<open>What running a command can do to the database: nothing, or its operation and a receipt.\<close>

lemma execute_cases:
  assumes "execute_with_command_receipt receipt operation d = (r, d')"
  obtains "d' = d" "\<And>outcome. r \<noteq> Inr (outcome, False)"
  | outcome d1 where "r = Inr (outcome, False)" "operation d = (Inr outcome, d1)"
      "store_receipt receipt outcome d1 = (Inr (), d')" "find_receipt receipt d = None"
      "d' = d1\<lparr>receipts := receipts d', next_receipt := next_receipt d'\<rparr>"
proof (cases r)
  case (Inl e)
  with assms that(1) show thesis by (simp add: execute_with_command_receipt_def atomically_Inl)
next
  case (Inr x)
  show thesis
  proof (cases "find_receipt receipt d")
    case None
    then obtain outcome d1 where "x = (outcome, False)" "operation d = (Inr outcome, d1)"
      "store_receipt receipt outcome d1 = (Inr (), d')"
      using assms Inr by (auto simp: execute_with_command_receipt_def seq_eq_Inr comp_apply)
    with that(2) Inr None store_receipt_frame show thesis by blast
  next
    case (Some p)
    then show thesis
      using assms Inr that(1)
      by (auto simp: execute_with_command_receipt_def seq_eq_Inr comp_apply split: prod.splits)
  qed
qed

lemma atomic_execute [intro]: "atomic (execute_with_command_receipt receipt operation)"
  by (simp add: atomic_def execute_with_command_receipt_def atomically_Inl)

lemma executed_receipt:
  assumes "execute_with_command_receipt (Some rx) operation d = (Inr (outcome, replay), d')"
    and "rx_profile rx = receipt_hash_profile" "fullmatch sha256_digest_pattern (rx_fingerprint rx)"
  obtains row where "get_command_receipt d' (rx_command rx) (rx_scope rx) (rx_idem rx) = Some row"
    "rc_profile row = receipt_hash_profile" "rc_fingerprint row = rx_fingerprint rx"
    "rc_result row = (if replay then outcome else sort_dict outcome)"
proof (cases "find_receipt (Some rx) d")
  case None
  then obtain d0 where "operation d = (Inr outcome, d0)"
    and store: "store_receipt (Some rx) outcome d0 = (Inr (), d')" and "\<not> replay"
    using assms(1) by (auto simp: execute_with_command_receipt_def seq_eq_Inr comp_apply)
  with create_command_receipt_Inr(3) [OF store [unfolded store_receipt_def, simplified]] assms(2)
  show thesis using that by auto
next
  case (Some p)
  then obtain row where row: "find_receipt (Some rx) d = Some (rx, row)"
    by (auto simp: find_receipt_def)
  show thesis
  proof (cases rule: assert_command_receipt_matches_cases [of row rx])
    case 1
    then show thesis
      using that [of row] row assms(1)
      by (auto simp: execute_with_command_receipt_def comp_simps find_receipt_def)
  next
    case (2 code)
    then show thesis
      using row assms(1) by (simp add: execute_with_command_receipt_def comp_simps)
  qed
qed

lemma prepare_command_receipt_context:
  assumes "prepare_command_receipt cmd payload input tenant domain run required = Inr (Some rx)"
  shows "rx_command rx = cmd" "rx_profile rx = receipt_hash_profile"
    "rx_fingerprint rx = command_request_fingerprint input"
    "fullmatch sha256_digest_pattern (rx_fingerprint rx)"
    "public_command_scope_key cmd payload = Inr (rx_scope rx)"
    "normalize_command_idempotency_key (jget payload ''idempotency_key'') required = Inr (Some (rx_idem rx))"
proof -
  obtain key where key: "normalize_command_idempotency_key (jget payload ''idempotency_key'') required =
      Inr (Some key)"
    using assms by (cases "normalize_command_idempotency_key (jget payload ''idempotency_key'') required")
      (auto simp: prepare_command_receipt_def split: option.splits)
  then obtain scope where scope: "public_command_scope_key cmd payload = Inr scope"
    using assms by (cases "public_command_scope_key cmd payload")
      (simp_all add: prepare_command_receipt_def)
  have rx: "rx = \<lparr>rx_command = cmd, rx_scope = scope, rx_idem = key,
      rx_fingerprint = command_request_fingerprint input, rx_profile = receipt_hash_profile,
      rx_event_base = scoped_event_idempotency_base cmd scope key,
      rx_tenant = tenant, rx_domain = domain, rx_run = run\<rparr>"
    using assms key scope by (simp add: prepare_command_receipt_def)
  show "rx_command rx = cmd" "rx_profile rx = receipt_hash_profile"
    "rx_fingerprint rx = command_request_fingerprint input"
    "fullmatch sha256_digest_pattern (rx_fingerprint rx)"
    "public_command_scope_key cmd payload = Inr (rx_scope rx)"
    "normalize_command_idempotency_key (jget payload ''idempotency_key'') required = Inr (Some (rx_idem rx))"
    by (simp_all add: rx key scope command_request_fingerprint_def sha256_text_matches)
qed

text \<open>
  C2: A command takes effect at most once per scope and idempotency key. After it was executed,
  every later attempt that prepares the same command, scope and key, whatever its operation and
  whatever else happened to the database meanwhile (receipts are only ever added), runs nothing
  and changes nothing: a request with the same fingerprint gets the stored outcome, flagged as a
  replay, any other is refused.
\<close>

theorem command_takes_effect_at_most_once:
  assumes prepared: "prepare_command_receipt cmd p input tenant domain run required = Inr (Some rx)"
    and executed: "execute_with_command_receipt (Some rx) operation d = (Inr (outcome, replay), d1)"
    and later: "receipts d2 = receipts d1 @ newer"
    and retried: "prepare_command_receipt cmd p' input' tenant' domain' run' required' = Inr (Some rx')"
      "rx_scope rx' = rx_scope rx" "rx_idem rx' = rx_idem rx"
  shows "execute_with_command_receipt (Some rx') operation' d2 =
    (if command_request_fingerprint input' = command_request_fingerprint input
     then (Inr (if replay then outcome else sort_dict outcome, True), d2)
     else (Inl (CommandError ''command_receipt_mismatch''), d2))"
proof -
  note rx = prepare_command_receipt_context [OF prepared]
  note rx' = prepare_command_receipt_context [OF retried(1)]
  obtain row where row: "get_command_receipt d1 cmd (rx_scope rx) (rx_idem rx) = Some row"
    "rc_profile row = receipt_hash_profile" "rc_fingerprint row = rx_fingerprint rx"
    "rc_result row = (if replay then outcome else sort_dict outcome)"
    using executed_receipt [OF executed rx(2,4)] rx(1) by auto
  have "find_receipt (Some rx') d2 = Some (rx', row)"
    using row(1) later retried(2,3) rx'(1)
    by (simp add: find_receipt_def get_command_receipt_def select_one_append)
  from execute_replay [OF this] row rx rx' show ?thesis by auto
qed

definition sample_request :: dict where
  "sample_request = [(''flag_id'', JStr ''f''), (''idempotency_key'', JStr '' k ''), (''to_state'', JStr ''triage'')]"

theorem command_takes_effect_at_most_once_witness:
  "\<exists>rx. prepare_command_receipt ''flags.transition'' sample_request sample_request (Some ''t'') (Some ''d'')
      None True = Inr (Some rx)
   \<and> execute_with_command_receipt (Some rx) (raise RuntimeError)
       (snd (execute_with_command_receipt (Some rx) (ret [(''n'', JInt 1)]) empty_db)) =
     (Inr ([(''n'', JInt 1)], True),
      snd (execute_with_command_receipt (Some rx) (ret [(''n'', JInt 1)]) empty_db))"
proof -
  have "normalize_command_idempotency_key (jget sample_request ''idempotency_key'') True = Inr (Some ''k'')"
    "\<exists>s. public_command_scope_key ''flags.transition'' sample_request = Inr s"
    by (code_simp, rule exI, code_simp)
  then obtain rx where rx: "prepare_command_receipt ''flags.transition'' sample_request sample_request
      (Some ''t'') (Some ''d'') None True = Inr (Some rx)" "rx_run rx = None"
    by (auto simp: prepare_command_receipt_def)
  have "\<exists>d1. execute_with_command_receipt (Some rx) (ret [(''n'', JInt 1)]) empty_db =
      (Inr ([(''n'', JInt 1)], False), d1)"
    using rx(2) by (simp add: execute_with_command_receipt_def find_receipt_def get_command_receipt_def
      store_receipt_def create_command_receipt_def insert_receipt_def fk_ok_def empty_db_def
      comp_simps seq_def atomically_def)
  then obtain d1 where d1: "execute_with_command_receipt (Some rx) (ret [(''n'', JInt 1)]) empty_db =
      (Inr ([(''n'', JInt 1)], False), d1)" ..
  have "receipts d1 = receipts d1 @ []" by simp
  from command_takes_effect_at_most_once [OF rx(1) d1 this rx(1) refl refl, of "raise RuntimeError"]
  show ?thesis using rx(1) d1 by (auto simp: sort_dict_def)
qed

text \<open>
  C37: The fingerprint of a request depends on its content only, and on all of it: requests that differ in the
  order of keys, in the request or in any object inside it, have the same fingerprint, and two requests with
  the same fingerprint have the same content, unless their canonical texts are a collision of SHA-256. A
  request is a Python dictionary, which has every key once, and so are the objects in it.
\<close>

theorem request_fingerprint_identifies_content:
  assumes "keyed (JObj p)" "keyed (JObj q)"
  shows "(content_of (JObj q) = content_of (JObj p) \<longrightarrow>
      command_request_fingerprint q = command_request_fingerprint p)
   \<and> (command_request_fingerprint q = command_request_fingerprint p \<longrightarrow>
      content_of (JObj q) = content_of (JObj p)
      \<or> (canonical_json (JObj q) \<noteq> canonical_json (JObj p)
         \<and> sha256_hex (canonical_json (JObj q)) = sha256_hex (canonical_json (JObj p))))"
proof -
  have "canonical_json (JObj q) = canonical_json (JObj p) \<longleftrightarrow> content_of (JObj q) = content_of (JObj p)"
    unfolding canonical_json_eq by (rule sort_json_eq_iff [OF assms(2,1)])
  moreover have "command_request_fingerprint q = command_request_fingerprint p \<longleftrightarrow>
      sha256_hex (canonical_json (JObj q)) = sha256_hex (canonical_json (JObj p))"
    by (simp add: command_request_fingerprint_def sha256_text_def)
  ultimately show ?thesis by metis
qed

text \<open>A request with objects inside, and the same with the keys of all its objects in another order.\<close>

definition nested_request :: dict where
  "nested_request = [(''run'', JStr ''r''), (''links'', JArr [JObj [(''type'', JStr ''task''), (''id'', JStr ''t'')]]),
     (''actor'', JObj [(''id'', JStr ''ann''), (''type'', JStr ''human'')])]"

definition reordered_request :: dict where
  "reordered_request = [(''actor'', JObj [(''type'', JStr ''human''), (''id'', JStr ''ann'')]), (''run'', JStr ''r''),
     (''links'', JArr [JObj [(''id'', JStr ''t''), (''type'', JStr ''task'')]])]"

theorem request_fingerprint_identifies_content_witness:
  "command_request_fingerprint reordered_request = command_request_fingerprint nested_request
   \<and> reordered_request \<noteq> nested_request"
proof -
  have keyed: "keyed (JObj nested_request)" "keyed (JObj reordered_request)"
    by (simp_all add: nested_request_def reordered_request_def)
  have "content_of (JObj reordered_request) = content_of (JObj nested_request)"
    by (simp add: nested_request_def reordered_request_def fun_eq_iff)
  moreover have "reordered_request \<noteq> nested_request" by (simp add: nested_request_def reordered_request_def)
  ultimately show ?thesis using request_fingerprint_identifies_content [OF keyed] by blast
qed

lemma command_scope_key_eq:
  "command_scope_key ps = command_scope_key qs \<longleftrightarrow> map scope_part ps = map scope_part qs"
  unfolding command_scope_key_def json_dumps_inj by simp

text \<open>
  The scope key of a command with plain scope fields determines those fields: two payloads
  have the same key exactly when each scope field is missing in both or has the same text in both,
  so requests on different targets never share a receipt.
\<close>

lemma scope_key_determines_fields:
  assumes "scope_fields cmd = Some names"
    "public_command_scope_key cmd p = Inr k" "public_command_scope_key cmd q = Inr k'"
  shows "k = k' \<longleftrightarrow> (\<forall>f\<in>set names. scope_part (jget p f) = scope_part (jget q f))"
proof -
  have "cmd \<noteq> ''flags.create''" "cmd \<noteq> ''approvals.request''" "cmd \<noteq> ''artifacts.seed-corpus''"
    using assms(1) by (auto simp: scope_fields_def)
  with assms have "k = command_scope_key (map (jget p) names)" "k' = command_scope_key (map (jget q) names)"
    by (simp_all add: public_command_scope_key_def Let_def)
  then show ?thesis by (simp add: command_scope_key_eq)
qed

section \<open>Commands that run to their end\<close>

text \<open>When a handler's envelope is appended and its receipt prepared and stored.\<close>

lemma append_event_Inr:
  assumes "append_event envelope d = (Inr i, d')"
  shows "d' = d\<lparr>events := events d', next_seq := next_seq d'\<rparr> \<and> length (events d') = Suc (length (events d))"
  using assms by (cases rule: append_event_cases [of envelope d]) auto

lemma atomic_here: "(\<And>x. atomic (f x)) \<Longrightarrow> atomic (\<lambda>d. f d d)"
  by (auto simp: atomic_def)

lemma append_envelope_ok:
  assumes envelope: "event_envelope now uuid event_type tenant domain actor_type actor_id links payload key =
      Inr envelope"
    and links: "require_required_links_for_event envelope = Inr ()"
    and new_id: "event_id_for_type event_type uuid \<notin> ev_id ` set (events d)"
    and new_key: "key = None \<or> key \<notin> ev_idem ` set (events d)"
  shows "\<exists>r. append_event envelope d = (Inr (event_id_for_type event_type uuid),
      d\<lparr>events := events d @ [r], next_seq := Suc (next_seq d)\<rparr>)
    \<and> ev_type r = event_type \<and> ev_idem r = key"
proof -
  have gets: "jget envelope ''event_id'' = JStr (event_id_for_type event_type uuid)"
    "jget envelope ''event_type'' = JStr event_type" "jget envelope ''schema_version'' = JStr ''1.0''"
    "jget envelope ''occurred_at'' = JStr now" "jget envelope ''recorded_at'' = JStr now"
    "jget envelope ''tenant_id'' = JStr tenant" "jget envelope ''domain_id'' = JStr domain"
    "jget envelope ''correlation_id'' = JNull" "jget envelope ''causation_id'' = JNull"
    "jget envelope ''idempotency_key'' = of_opt key"
    using envelope by (auto simp: event_envelope_def rbind_eq_Inr jget_def)
  have names: "require_required_fields envelope = Inr ()"
    using envelope by (auto simp: event_envelope_def rbind_eq_Inr require_required_fields_def
      required_envelope_fields_def)
  have key: "bind_text (of_opt key) = Inr key"
    by (cases key) (simp_all add: bind_text_def)
  have str: "bind_text (JStr s) = Inr (Some s)" "bind_text JNull = Inr None" for s
    by (simp_all add: bind_text_def)
  have vs: "map_result (\<lambda>k. bind_text (jget envelope k))
      [''event_type'', ''schema_version'', ''occurred_at'', ''recorded_at'', ''tenant_id'',
       ''domain_id'', ''correlation_id'', ''causation_id'', ''idempotency_key''] =
      Inr [Some event_type, Some ''1.0'', Some now, Some now, Some tenant, Some domain, None, None, key]"
    by (simp add: gets str key)
  have nn: "not_null c (Some s) = Inr s" for c s by (simp add: not_null_def)
  have "\<exists>r. bind_event d envelope = Inr r"
    unfolding bind_event_def vs rbind_simps
    by (simp only: nth_Cons_0 nth_Cons_numeral nth_Cons_Suc One_nat_def nn rbind_simps
      numeral_eq_Suc pred_numeral_simps BitM.simps) blast
  then obtain r where bound: "bind_event d envelope = Inr r" ..
  note fields = bind_event_fields [OF bound, unfolded gets str key py_str_JStr]
  then have r: "bind_event d envelope = Inr r" "ev_type r = event_type" "ev_idem r = key"
    "ev_seq r = next_seq d" "ev_id r = event_id_for_type event_type uuid"
    using bound by simp_all
  have ids: "\<not> (\<exists>x\<in>set (events d). ev_id x = event_id_for_type event_type uuid)"
    using new_id by (metis imageI)
  have keys: "key \<noteq> None \<Longrightarrow> \<not> (\<exists>x\<in>set (events d). ev_idem x = key)"
    using new_key by (metis imageI)
  have inserted: "insert_event r d = (Inr (), d\<lparr>events := events d @ [r], next_seq := Suc (next_seq d)\<rparr>)"
    using ids keys by (auto simp: insert_event_def r)
  have "append_event envelope d = (Inr (event_id_for_type event_type uuid),
      d\<lparr>events := events d @ [r], next_seq := Suc (next_seq d)\<rparr>)"
  proof (cases key)
    case None
    then show ?thesis
      using ids by (simp add: append_event_def comp_simps names links gets Let_def r(1) inserted)
  next
    case (Some k)
    have "select_one (\<lambda>x. ev_idem x = Some k) (events d) = None"
      using keys Some by (simp add: select_one_None)
    with Some show ?thesis
      using ids by (simp add: append_event_def comp_simps names links gets Let_def r(1) inserted)
  qed
  with r show ?thesis by blast
qed

lemma prepare_command_receipt_ok:
  assumes "normalize_command_idempotency_key (jget payload ''idempotency_key'') required = Inr (Some k)"
    "public_command_scope_key cmd payload = Inr s"
  shows "prepare_command_receipt cmd payload input tenant domain run required =
    Inr (Some \<lparr>rx_command = cmd, rx_scope = s, rx_idem = k,
      rx_fingerprint = command_request_fingerprint input, rx_profile = receipt_hash_profile,
      rx_event_base = scoped_event_idempotency_base cmd s k,
      rx_tenant = tenant, rx_domain = domain, rx_run = run\<rparr>)"
  using assms by (simp add: prepare_command_receipt_def)

lemma store_receipt_ok:
  assumes "get_command_receipt d (rx_command rx) (rx_scope rx) (rx_idem rx) = None"
    "fk_ok (rx_run rx) (map wr_id (runs d))"
  shows "\<exists>d'. store_receipt (Some rx) outcome d = (Inr (), d')
    \<and> d' = d\<lparr>receipts := receipts d', next_receipt := next_receipt d'\<rparr>"
  using assms by (simp add: store_receipt_def create_command_receipt_def insert_receipt_def)

lemma execute_new:
  assumes op: "operation d = (Inr outcome, d1)" and fresh: "find_receipt (Some rx) d = None"
    and frame: "receipts d1 = receipts d" "fk_ok (rx_run rx) (map wr_id (runs d1))"
  shows "\<exists>d'. execute_with_command_receipt (Some rx) operation d = (Inr (outcome, False), d')
    \<and> d' = d1\<lparr>receipts := receipts d', next_receipt := next_receipt d'\<rparr>"
proof -
  have "get_command_receipt d1 (rx_command rx) (rx_scope rx) (rx_idem rx) = None"
    using fresh frame(1) by (simp add: find_receipt_def get_command_receipt_def)
  from store_receipt_ok [OF this frame(2)] obtain d' where
    "store_receipt (Some rx) outcome d1 = (Inr (), d')" "d' = d1\<lparr>receipts := receipts d', next_receipt := next_receipt d'\<rparr>"
    by blast
  with op fresh show ?thesis
    by (intro exI [of _ d']) (simp add: execute_with_command_receipt_def seq_def comp_apply atomically_def)
qed

end
