(* ===== verification/Effect_Ledger.thy ===== *)
theory Effect_Ledger
  imports Command_Boundary
begin

text \<open>
  The effect ledger: \<open>src/onetruth/infrastructure/repositories/effect_ledger.py\<close> and
  \<open>guarded_effect_mutation\<close> of \<open>src/onetruth/application/handlers/_shared/effect_ledger.py\<close>.
  A command reserves one row per planned effect, runs its mutation, and marks the rows applied
  with the outcome, all in one transaction; a retry finds the applied rows and returns the outcome.
  The clock of the database is an argument.
\<close>

section \<open>Validation\<close>

definition raw_material_key_markers :: "string list" where
  "raw_material_key_markers =
    [''absolute_path'', ''base64'', ''blob'', ''blob_bytes'', ''bytes'', ''content_base64'', ''excerpt'',
     ''file_name'', ''filename'', ''local_path'', ''log'', ''ocr_text'', ''raw_content'', ''raw_filename'',
     ''raw_log'', ''raw_material'', ''raw_text'', ''source_path'']"

definition users_directory :: string where
  "users_directory = [CHR 0x5C] @ ''Users'' @ [CHR 0x5C]"

definition is_local_path :: "string \<Rightarrow> bool" where
  "is_local_path s \<longleftrightarrow> prefix ''/'' s \<or> prefix ''file://'' s \<or> contains users_directory s
     \<or> contains ('':'' @ users_directory) s"

text \<open>
  \<open>_assert_no_raw_material\<close>: every error it raises has the same class and code, so the walk is
  the question whether it raises.
\<close>

fun has_raw_material :: "json \<Rightarrow> bool" where
  "has_raw_material (JObj kvs) =
     list_ex (\<lambda>p. replace_char (CHR ''-'') (CHR ''_'') (py_lower (fst p)) \<in> set raw_material_key_markers
       \<or> has_raw_material (snd p)) kvs"
| "has_raw_material (JArr vs) = list_ex has_raw_material vs"
| "has_raw_material (JStr s) = is_local_path s"
| "has_raw_material _ = False"

definition assert_no_raw_material :: "dict \<Rightarrow> unit result" where
  "assert_no_raw_material payload =
     require (\<not> has_raw_material (JObj payload)) (EffectLedgerError ''effect_ledger_raw_material'')"

text \<open>\<open>EFFECT_NAME_RE\<close> and \<open>EFFECT_REF_RE\<close>.\<close>

definition effect_name_ok :: "string \<Rightarrow> bool" where
  "effect_name_ok s \<longleftrightarrow> (case s of
     [] \<Rightarrow> False
   | c # cs \<Rightarrow> is_lower c \<and> 1 \<le> length cs \<and> length cs \<le> 63
       \<and> list_all (\<lambda>c. is_lower c \<or> is_digit c \<or> c \<in> set ''_.-'') cs)"

definition effect_ref_ok :: "string \<Rightarrow> bool" where
  "effect_ref_ok s \<longleftrightarrow> (case s of
     [] \<Rightarrow> False
   | c # cs \<Rightarrow> is_alnum c \<and> length cs \<le> 254 \<and> list_all (\<lambda>c. is_alnum c \<or> c \<in> set ''_.:/#@-'') cs)"

definition effect_statuses :: "string list" where
  "effect_statuses = [''planned'', ''applied'']"

definition effect_digest :: "dict \<Rightarrow> string" where
  "effect_digest payload = sha256_text (canonical_json (JObj payload))"

definition effect_ledger_entry_id :: "string \<Rightarrow> string \<Rightarrow> string \<Rightarrow> string \<Rightarrow> string" where
  "effect_ledger_entry_id command_name scope_key idempotency_key effect_key =
     ''effect-ledger:'' @ drop 7 (effect_digest
       [(''command_name'', JStr command_name), (''scope_key'', JStr scope_key),
        (''idempotency_key'', JStr idempotency_key), (''effect_key'', JStr effect_key)])"

definition absent :: "string option \<Rightarrow> bool" where
  "absent v \<longleftrightarrow> v = None \<or> v = Some []"

definition validate_effect_entry_fields ::
    "string option \<Rightarrow> string option \<Rightarrow> effect_row \<Rightarrow> unit result" where
  "validate_effect_entry_fields tenant_id domain_id r =
     rbind (require (\<not> absent tenant_id \<and> \<not> absent domain_id)
       (EffectLedgerError ''effect_ledger_scope_required'')) (\<lambda>_.
     rbind (require (list_all (\<lambda>v. \<not> blank v) [ef_command r, ef_scope r, ef_idem r, ef_profile r,
         ef_key r, ef_kind r, ef_target_kind r, ef_target_ref r])
       (EffectLedgerError ''effect_ledger_invalid_field'')) (\<lambda>_.
     rbind (require (effect_name_ok (ef_kind r))
       (EffectLedgerError ''effect_ledger_invalid_effect_kind'')) (\<lambda>_.
     rbind (require (effect_name_ok (ef_target_kind r) \<and> effect_ref_ok (ef_target_ref r))
       (EffectLedgerError ''effect_ledger_invalid_target_ref'')) (\<lambda>_.
     rbind (require (fullmatch sha256_digest_pattern (ef_fingerprint r))
       (EffectLedgerError ''effect_ledger_bad_digest'')) (\<lambda>_.
     rbind (require (fullmatch sha256_digest_pattern (ef_payload_hash r))
       (EffectLedgerError ''effect_ledger_bad_digest'')) (\<lambda>_.
     rbind (require (ef_status r \<in> set effect_statuses)
       (EffectLedgerError ''effect_ledger_invalid_status'')) (\<lambda>_.
     rbind (assert_no_raw_material (ef_payload r)) (\<lambda>_.
     assert_no_raw_material (ef_metadata r)))))))))"

section \<open>The table\<close>

definition effect_id :: "effect_row \<Rightarrow> string \<times> string \<times> string \<times> string" where
  "effect_id r = (ef_command r, ef_scope r, ef_idem r, ef_key r)"

definition get_effect_ledger_entry ::
    "db \<Rightarrow> string \<Rightarrow> string \<Rightarrow> string \<Rightarrow> string \<Rightarrow> effect_row option" where
  "get_effect_ledger_entry d command_name scope_key idempotency_key effect_key =
     select_one (\<lambda>r. effect_id r = (command_name, scope_key, idempotency_key, effect_key)) (effects d)"

definition insert_effect :: "effect_row \<Rightarrow> (unit, db) comp" where
  "insert_effect r d =
     (if exists_row (\<lambda>x. ef_id x = ef_id r) (effects d)
      then raise (IntegrityError ''UNIQUE constraint failed: effect_ledger_entries.effect_ledger_entry_id'') d
      else if exists_row (\<lambda>x. effect_id x = effect_id r) (effects d)
      then raise (IntegrityError (''UNIQUE constraint failed: effect_ledger_entries.command_name, '' @
        ''effect_ledger_entries.scope_key, effect_ledger_entries.idempotency_key, '' @
        ''effect_ledger_entries.effect_key'')) d
      else if \<not> fk_ok (ef_run r) (map wr_id (runs d)) then raise fk_failed d
      else (Inr (), d\<lparr>effects := effects d @ [r]\<rparr>))"

text \<open>
  The row an entry starts as; it is what is validated. A missing tenant or domain is refused
  before the row is stored.
\<close>

record effect_plan =
  ep_key :: string
  ep_kind :: string
  ep_target_kind :: string
  ep_target_ref :: string
  ep_payload :: dict
  ep_metadata :: dict

definition text_of :: "string option \<Rightarrow> string" where
  "text_of v = (case v of None \<Rightarrow> [] | Some s \<Rightarrow> s)"

definition planned_row :: "string \<Rightarrow> receipt_context \<Rightarrow> effect_plan \<Rightarrow> effect_row" where
  "planned_row now receipt effect =
     \<lparr>ef_id = effect_ledger_entry_id (rx_command receipt) (rx_scope receipt) (rx_idem receipt) (ep_key effect),
      ef_tenant = text_of (rx_tenant receipt), ef_domain = text_of (rx_domain receipt),
      ef_run = rx_run receipt, ef_command = rx_command receipt, ef_scope = rx_scope receipt,
      ef_idem = rx_idem receipt, ef_fingerprint = rx_fingerprint receipt,
      ef_profile = rx_profile receipt, ef_key = ep_key effect, ef_kind = ep_kind effect,
      ef_target_kind = ep_target_kind effect, ef_target_ref = ep_target_ref effect,
      ef_payload_hash = effect_digest (ep_payload effect), ef_payload = sort_dict (ep_payload effect),
      ef_status = ''planned'', ef_result = None, ef_metadata = sort_dict (ep_metadata effect),
      ef_created_at = now, ef_applied_at = None\<rparr>"

definition find_effect :: "db \<Rightarrow> receipt_context \<Rightarrow> effect_plan \<Rightarrow> effect_row option" where
  "find_effect d receipt effect =
     get_effect_ledger_entry d (rx_command receipt) (rx_scope receipt) (rx_idem receipt) (ep_key effect)"

definition create_effect_ledger_entry ::
    "string \<Rightarrow> receipt_context \<Rightarrow> effect_plan \<Rightarrow> (effect_row option, db) comp" where
  "create_effect_ledger_entry now receipt effect =
     seq (of_result (validate_effect_entry_fields (rx_tenant receipt) (rx_domain receipt)
            (planned_row now receipt effect)))
       (\<lambda>_. seq (insert_effect (planned_row now receipt effect))
       (\<lambda>_. asks (\<lambda>d. find_effect d receipt effect)))"

definition applied_row :: "string \<Rightarrow> dict \<Rightarrow> effect_row \<Rightarrow> effect_row" where
  "applied_row now outcome r =
     r\<lparr>ef_status := ''applied'', ef_result := Some (sort_dict outcome), ef_applied_at := Some now\<rparr>"

definition mark_effect_ledger_entry_applied ::
    "string \<Rightarrow> receipt_context \<Rightarrow> dict \<Rightarrow> effect_plan \<Rightarrow> (unit, db) comp" where
  "mark_effect_ledger_entry_applied now receipt outcome effect =
     seq (of_result (assert_no_raw_material outcome)) (\<lambda>_. modify (\<lambda>d. d\<lparr>effects :=
       update_where (\<lambda>r. effect_id r =
           (rx_command receipt, rx_scope receipt, rx_idem receipt, ep_key effect))
         (applied_row now outcome) (effects d)\<rparr>))"

section \<open>The guarded mutation\<close>

definition assert_unique_effect_keys :: "effect_plan list \<Rightarrow> unit result" where
  "assert_unique_effect_keys plan =
     require (distinct (map ep_key plan)) (CommandError ''effect_ledger_duplicate_effect_key'')"

definition effect_matches :: "effect_row \<Rightarrow> receipt_context \<Rightarrow> effect_plan \<Rightarrow> bool" where
  "effect_matches existing receipt effect \<longleftrightarrow>
     Some (ef_tenant existing) = rx_tenant receipt \<and> Some (ef_domain existing) = rx_domain receipt
     \<and> ef_run existing = rx_run receipt \<and> ef_fingerprint existing = rx_fingerprint receipt
     \<and> ef_profile existing = rx_profile receipt \<and> ef_kind existing = ep_kind effect
     \<and> ef_target_kind existing = ep_target_kind effect \<and> ef_target_ref existing = ep_target_ref effect
     \<and> ef_payload_hash existing = effect_digest (ep_payload effect)"

definition assert_existing_effect_matches ::
    "db \<Rightarrow> receipt_context \<Rightarrow> effect_plan \<Rightarrow> unit result" where
  "assert_existing_effect_matches d receipt effect = (case find_effect d receipt effect of
     None \<Rightarrow> Inr ()
   | Some existing \<Rightarrow>
       require (effect_matches existing receipt effect) (CommandError ''effect_ledger_conflict''))"

definition replay_effects :: "effect_row list \<Rightarrow> dict result" where
  "replay_effects entries =
     rbind (require (list_all (\<lambda>e. ef_status e = ''applied'') entries)
       (CommandError ''effect_ledger_conflict'')) (\<lambda>_.
     case ef_result (hd entries) of
       None \<Rightarrow> Inl (CommandError ''effect_ledger_corrupt'') | Some outcome \<Rightarrow> Inr outcome)"

definition effect_body ::
    "string \<Rightarrow> receipt_context \<Rightarrow> effect_plan list \<Rightarrow> (dict, db) comp \<Rightarrow> (dict \<times> bool, db) comp" where
  "effect_body now receipt plan mutation d =
     seq (of_result (check_all (assert_existing_effect_matches d receipt) plan)) (\<lambda>_.
       let existing = map (find_effect d receipt) plan in
       if list_all (\<lambda>e. e \<noteq> None) existing
       then seq (of_result (replay_effects (map the existing))) (\<lambda>outcome. ret (outcome, True))
       else if list_ex (\<lambda>e. e \<noteq> None) existing then raise (CommandError ''effect_ledger_conflict'')
       else seq (for_each (create_effect_ledger_entry now receipt) plan) (\<lambda>_.
            seq mutation (\<lambda>outcome.
            seq (for_each (mark_effect_ledger_entry_applied now receipt outcome) plan) (\<lambda>_.
            ret (outcome, False))))) d"

definition as_command_error :: "exc \<Rightarrow> exc" where
  "as_command_error e = (case e of EffectLedgerError code \<Rightarrow> CommandError code | _ \<Rightarrow> e)"

definition guarded_effect_mutation ::
    "string \<Rightarrow> receipt_context \<Rightarrow> effect_plan list \<Rightarrow> (dict, db) comp \<Rightarrow> (dict \<times> bool, db) comp" where
  "guarded_effect_mutation now receipt plan mutation =
     (if rx_tenant receipt = None \<or> rx_domain receipt = None
      then raise (CommandError ''effect_ledger_scope_required'')
      else if plan = [] then raise (CommandError ''effect_ledger_effect_required'')
      else seq (of_result (assert_unique_effect_keys plan)) (\<lambda>_.
        handle (atomically (effect_body now receipt plan mutation)) (\<lambda>e. raise (as_command_error e))))"

section \<open>Facts\<close>

interpretation effect_ids: unique_table effects "\<lambda>r. Some (effect_id r)" insert_effect
  by unfold_locales (auto simp: insert_effect_def comp_simps split: if_splits)

lemma planned_row_id [simp]:
  "effect_id (planned_row now rx p) = (rx_command rx, rx_scope rx, rx_idem rx, ep_key p)"
  by (simp add: effect_id_def planned_row_def)

lemma applied_row_id [simp]: "effect_id (applied_row now outcome r) = effect_id r"
  by (simp add: effect_id_def applied_row_def)

lemma find_effect_def':
  "find_effect d rx p =
     select_one (\<lambda>r. effect_id r = (rx_command rx, rx_scope rx, rx_idem rx, ep_key p)) (effects d)"
  by (simp add: find_effect_def get_effect_ledger_entry_def)

lemma create_effect_Inr:
  assumes "create_effect_ledger_entry now rx p d = (Inr u, d')"
  shows "d' = d\<lparr>effects := effects d @ [planned_row now rx p]\<rparr>"
  using assms by (auto simp: create_effect_ledger_entry_def insert_effect_def seq_eq_Inr comp_apply
    split: if_splits)

lemma create_effects_Inr:
  "for_each (create_effect_ledger_entry now rx) plan d = (Inr u, d') \<Longrightarrow>
     d' = d\<lparr>effects := effects d @ map (planned_row now rx) plan\<rparr>"
proof (induction plan arbitrary: d)
  case (Cons p plan)
  then obtain v d1 where first: "create_effect_ledger_entry now rx p d = (Inr v, d1)"
    and rest: "for_each (create_effect_ledger_entry now rx) plan d1 = (Inr u, d')"
    by (auto simp: seq_eq_Inr)
  from create_effect_Inr [OF first] Cons.IH [OF rest] show ?case by simp
qed (simp add: comp_apply)

lemma find_planned:
  assumes "\<And>p. p \<in> set plan \<Longrightarrow> select_one (\<lambda>r. effect_id r = effect_id (planned_row now rx p)) rows = None"
    and "distinct (map ep_key plan)" "p \<in> set plan"
  shows "select_one (\<lambda>r. effect_id r = effect_id (planned_row now rx p))
    (rows @ map (planned_row now rx) plan) = Some (planned_row now rx p)"
proof -
  have "map effect_id (map (planned_row now rx) plan) =
      map (\<lambda>k. (rx_command rx, rx_scope rx, rx_idem rx, k)) (map ep_key plan)"
    by simp
  then have "distinct (map effect_id (map (planned_row now rx) plan))"
    using assms(2) by (simp only: distinct_map inj_on_def) auto
  from select_of_key [OF this, of "planned_row now rx p"] assms(1,3)
  show ?thesis by (simp add: select_one_append)
qed

lemma mark_effect_Inr:
  "mark_effect_ledger_entry_applied now rx outcome p d = (Inr u, d') \<longleftrightarrow>
     assert_no_raw_material outcome = Inr () \<and> d' = d\<lparr>effects :=
       update_where (\<lambda>r. effect_id r = (rx_command rx, rx_scope rx, rx_idem rx, ep_key p))
         (applied_row now outcome) (effects d)\<rparr>"
  by (auto simp: mark_effect_ledger_entry_applied_def seq_eq_Inr comp_apply)

lemma mark_effects_Inr:
  assumes "for_each (mark_effect_ledger_entry_applied now rx outcome) plan d = (Inr u, d')"
  shows "d' = d\<lparr>effects := effects d'\<rparr>"
    and "find_effect d' rx q =
      map_option (\<lambda>r. if ep_key q \<in> ep_key ` set plan then applied_row now outcome r else r)
        (find_effect d rx q)"
    and "map effect_id (effects d') = map effect_id (effects d)"
proof -
  have "d' = d\<lparr>effects := effects d'\<rparr>
    \<and> find_effect d' rx q =
      map_option (\<lambda>r. if ep_key q \<in> ep_key ` set plan then applied_row now outcome r else r)
        (find_effect d rx q)
    \<and> map effect_id (effects d') = map effect_id (effects d)"
    using assms
  proof (induction plan arbitrary: d)
    case Nil
    then show ?case by (simp add: comp_apply option.map_ident)
  next
    case (Cons p plan)
    let ?k = "\<lambda>p. (rx_command rx, rx_scope rx, rx_idem rx, ep_key p)"
    let ?d = "d\<lparr>effects := update_where (\<lambda>r. effect_id r = ?k p) (applied_row now outcome) (effects d)\<rparr>"
    from Cons.prems have rest: "for_each (mark_effect_ledger_entry_applied now rx outcome) plan ?d = (Inr u, d')"
      by (auto simp: seq_eq_Inr mark_effect_Inr)
    have idem: "applied_row now outcome (applied_row now outcome r) = applied_row now outcome r" for r
      by (simp add: applied_row_def)
    have "find_effect ?d rx q =
        map_option (\<lambda>r. if ep_key q = ep_key p then applied_row now outcome r else r) (find_effect d rx q)"
      using select_key_update [where k = effect_id and f = "applied_row now outcome" and a = "?k p"
          and q = "\<lambda>_. True" and rows = "effects d"]
        select_other_update [where k = effect_id and f = "applied_row now outcome" and a = "?k p"
          and q = "\<lambda>_. True" and rows = "effects d" and b = "?k q"]
      by (cases "ep_key q = ep_key p") (auto simp: find_effect_def' option.map_ident)
    with Cons.IH [OF rest] show ?case
      by (auto simp: option.map_comp comp_def idem map_update_where intro!: option.map_cong)
  qed
  then show "d' = d\<lparr>effects := effects d'\<rparr>"
    "find_effect d' rx q =
      map_option (\<lambda>r. if ep_key q \<in> ep_key ` set plan then applied_row now outcome r else r)
        (find_effect d rx q)"
    "map effect_id (effects d') = map effect_id (effects d)"
    by simp_all
qed

text \<open>A mutation that leaves the ledger alone.\<close>

definition leaves_ledger :: "('a, db) comp \<Rightarrow> bool" where
  "leaves_ledger m \<longleftrightarrow> (\<forall>d. effects (snd (m d)) = effects d)"

lemma guarded_Inr:
  "guarded_effect_mutation now rx plan mutation d = (Inr (outcome, replay), d') \<longleftrightarrow>
     rx_tenant rx \<noteq> None \<and> rx_domain rx \<noteq> None \<and> plan \<noteq> [] \<and> distinct (map ep_key plan)
     \<and> effect_body now rx plan mutation d = (Inr (outcome, replay), d')"
  by (auto simp: guarded_effect_mutation_def assert_unique_effect_keys_def require_def comp_simps
    handle_def seq_def atomically_def split: prod.splits sum.splits)

lemma effect_body_branches:
  assumes "check_all (assert_existing_effect_matches d rx) plan = Inr ()"
  shows "\<forall>p\<in>set plan. find_effect d rx p \<noteq> None \<Longrightarrow> effect_body now rx plan mutation d =
      seq (of_result (replay_effects (map (\<lambda>p. the (find_effect d rx p)) plan)))
        (\<lambda>outcome. ret (outcome, True)) d"
    and "\<exists>p\<in>set plan. find_effect d rx p = None \<Longrightarrow> \<exists>p\<in>set plan. find_effect d rx p \<noteq> None \<Longrightarrow>
      effect_body now rx plan mutation d = (Inl (CommandError ''effect_ledger_conflict''), d)"
    and "plan \<noteq> [] \<Longrightarrow> \<forall>p\<in>set plan. find_effect d rx p = None \<Longrightarrow> effect_body now rx plan mutation d =
      seq (for_each (create_effect_ledger_entry now rx) plan) (\<lambda>_. seq mutation (\<lambda>outcome.
        seq (for_each (mark_effect_ledger_entry_applied now rx outcome) plan) (\<lambda>_.
        ret (outcome, False)))) d"
proof -
  let ?es = "map (find_effect d rx) plan"
  have body: "effect_body now rx plan mutation d =
      (if \<forall>p\<in>set plan. find_effect d rx p \<noteq> None
       then seq (of_result (replay_effects (map (\<lambda>p. the (find_effect d rx p)) plan)))
         (\<lambda>outcome. ret (outcome, True))
       else if \<exists>p\<in>set plan. find_effect d rx p \<noteq> None
       then raise (CommandError ''effect_ledger_conflict'')
       else seq (for_each (create_effect_ledger_entry now rx) plan) (\<lambda>_. seq mutation (\<lambda>outcome.
        seq (for_each (mark_effect_ledger_entry_applied now rx outcome) plan) (\<lambda>_.
        ret (outcome, False))))) d"
    unfolding effect_body_def assms Let_def
    by (simp only: seq_unit list_all_iff list_ex_iff set_map ball_simps bex_simps map_map comp_def)
  show "\<forall>p\<in>set plan. find_effect d rx p \<noteq> None \<Longrightarrow> effect_body now rx plan mutation d =
      seq (of_result (replay_effects (map (\<lambda>p. the (find_effect d rx p)) plan)))
        (\<lambda>outcome. ret (outcome, True)) d"
    unfolding body by (rule if_P [THEN fun_cong])
  show "\<exists>p\<in>set plan. find_effect d rx p = None \<Longrightarrow> \<exists>p\<in>set plan. find_effect d rx p \<noteq> None \<Longrightarrow>
      effect_body now rx plan mutation d = (Inl (CommandError ''effect_ledger_conflict''), d)"
    unfolding body by (subst if_not_P, blast, subst if_P, blast, rule comp_apply)
  show "effect_body now rx plan mutation d =
      seq (for_each (create_effect_ledger_entry now rx) plan) (\<lambda>_. seq mutation (\<lambda>outcome.
        seq (for_each (mark_effect_ledger_entry_applied now rx outcome) plan) (\<lambda>_.
        ret (outcome, False)))) d"
    if "plan \<noteq> []" "\<forall>p\<in>set plan. find_effect d rx p = None"
  proof -
    have "\<not> (\<forall>p\<in>set plan. find_effect d rx p \<noteq> None)" "\<not> (\<exists>p\<in>set plan. find_effect d rx p \<noteq> None)"
      using that by (cases plan; simp)+
    then show ?thesis unfolding body by (simp only: if_False)
  qed
qed

lemma effect_body_Inr:
  assumes run: "effect_body now rx plan mutation d = (Inr (outcome, replay), d')" and "plan \<noteq> []"
  shows "\<forall>p\<in>set plan. assert_existing_effect_matches d rx p = Inr ()"
    and "replay \<Longrightarrow> d' = d \<and> (\<forall>p\<in>set plan. find_effect d rx p \<noteq> None)
      \<and> replay_effects (map (\<lambda>p. the (find_effect d rx p)) plan) = Inr outcome"
    and "\<not> replay \<Longrightarrow> (\<forall>p\<in>set plan. find_effect d rx p = None)
      \<and> (\<exists>d1 d2. for_each (create_effect_ledger_entry now rx) plan d = (Inr (), d1)
          \<and> mutation d1 = (Inr outcome, d2)
          \<and> for_each (mark_effect_ledger_entry_applied now rx outcome) plan d2 = (Inr (), d'))"
proof -
  have checks: "check_all (assert_existing_effect_matches d rx) plan = Inr ()"
    using run by (cases "check_all (assert_existing_effect_matches d rx) plan")
      (auto simp: effect_body_def comp_simps)
  then show "\<forall>p\<in>set plan. assert_existing_effect_matches d rx p = Inr ()" by simp
  have "(replay \<longrightarrow> d' = d \<and> (\<forall>p\<in>set plan. find_effect d rx p \<noteq> None)
      \<and> replay_effects (map (\<lambda>p. the (find_effect d rx p)) plan) = Inr outcome)
    \<and> (\<not> replay \<longrightarrow> (\<forall>p\<in>set plan. find_effect d rx p = None)
      \<and> (\<exists>d1 d2. for_each (create_effect_ledger_entry now rx) plan d = (Inr (), d1)
          \<and> mutation d1 = (Inr outcome, d2)
          \<and> for_each (mark_effect_ledger_entry_applied now rx outcome) plan d2 = (Inr (), d')))"
  proof -
    consider (all) "\<forall>p\<in>set plan. find_effect d rx p \<noteq> None"
      | (mixed) "\<exists>p\<in>set plan. find_effect d rx p = None" "\<exists>p\<in>set plan. find_effect d rx p \<noteq> None"
      | (none) "\<forall>p\<in>set plan. find_effect d rx p = None" by metis
    then show ?thesis
    proof cases
      case all
      from run [unfolded effect_body_branches(1) [OF checks all]] all show ?thesis
        by (auto simp: seq_eq_Inr comp_apply)
    next
      case mixed
      from run [unfolded effect_body_branches(2) [OF checks mixed]] show ?thesis by simp
    next
      case none
      from run [unfolded effect_body_branches(3) [OF checks \<open>plan \<noteq> []\<close> none]] none show ?thesis
        by (auto simp: seq_eq_Inr comp_apply)
    qed
  qed
  then show "replay \<Longrightarrow> d' = d \<and> (\<forall>p\<in>set plan. find_effect d rx p \<noteq> None)
      \<and> replay_effects (map (\<lambda>p. the (find_effect d rx p)) plan) = Inr outcome"
    and "\<not> replay \<Longrightarrow> (\<forall>p\<in>set plan. find_effect d rx p = None)
      \<and> (\<exists>d1 d2. for_each (create_effect_ledger_entry now rx) plan d = (Inr (), d1)
          \<and> mutation d1 = (Inr outcome, d2)
          \<and> for_each (mark_effect_ledger_entry_applied now rx outcome) plan d2 = (Inr (), d'))"
    by blast+
qed

lemma effect_body_replay:
  assumes "plan \<noteq> []" "\<And>p. p \<in> set plan \<Longrightarrow> \<exists>r. find_effect d rx p = Some r \<and> effect_matches r rx p"
  shows "effect_body now rx plan mutation d =
    (map_sum id (\<lambda>outcome. (outcome, True)) (replay_effects (map (\<lambda>p. the (find_effect d rx p)) plan)), d)"
proof -
  have "check_all (assert_existing_effect_matches d rx) plan = Inr ()"
    using assms(2) by (force simp: assert_existing_effect_matches_def)
  moreover have "list_all (\<lambda>e. e \<noteq> None) (map (find_effect d rx) plan)"
    using assms(2) by (force simp: list_all_iff)
  ultimately show ?thesis
    by (cases "replay_effects (map (\<lambda>p. the (find_effect d rx p)) plan)")
      (simp_all add: effect_body_def comp_simps Let_def comp_def)
qed

text \<open>What a successful guarded mutation leaves in the ledger.\<close>

lemma guarded_success:
  assumes run: "guarded_effect_mutation now rx plan mutation d = (Inr (outcome, replay), d')"
    and leaves: "leaves_ledger mutation" and p: "p \<in> set plan"
  shows "\<exists>r. find_effect d' rx p = Some r \<and> effect_matches r rx p \<and> ef_status r = ''applied''"
    and "\<not> replay \<Longrightarrow> find_effect d' rx p = Some (applied_row now outcome (planned_row now rx p))"
proof -
  note guard = run [unfolded guarded_Inr]
  from guard have body: "effect_body now rx plan mutation d = (Inr (outcome, replay), d')"
    and nonempty: "plan \<noteq> []" by blast+
  show fresh: "find_effect d' rx p = Some (applied_row now outcome (planned_row now rx p))" if "\<not> replay"
  proof -
    from effect_body_Inr(3) [OF body nonempty that] obtain d1 d2 where
      none: "\<And>q. q \<in> set plan \<Longrightarrow> find_effect d rx q = None"
      and create: "for_each (create_effect_ledger_entry now rx) plan d = (Inr (), d1)"
      and mut: "mutation d1 = (Inr outcome, d2)"
      and mark: "for_each (mark_effect_ledger_entry_applied now rx outcome) plan d2 = (Inr (), d')"
      by blast
    have "effects d2 = effects d @ map (planned_row now rx) plan"
    proof -
      have "effects d2 = effects d1" using leaves mut by (metis leaves_ledger_def snd_conv)
      then show ?thesis by (simp add: create_effects_Inr [OF create])
    qed
    then have "find_effect d2 rx p = Some (planned_row now rx p)"
      using find_planned [where plan = plan and rx = rx and now = now and rows = "effects d" and p = p] none guard p by (simp add: find_effect_def')
    with mark_effects_Inr(2) [OF mark, of p] p show ?thesis by simp
  qed
  show "\<exists>r. find_effect d' rx p = Some r \<and> effect_matches r rx p \<and> ef_status r = ''applied''"
  proof (cases replay)
    case True
    from effect_body_Inr(1) [OF body nonempty] effect_body_Inr(2) [OF body nonempty True] p
    obtain r where "find_effect d' rx p = Some r" "effect_matches r rx p"
      by (fastforce simp: assert_existing_effect_matches_def)
    moreover have "ef_status r = ''applied''"
      using effect_body_Inr(2) [OF body nonempty True] calculation(1) p
      by (force simp: replay_effects_def rbind_eq_Inr list_all_iff)
    ultimately show ?thesis by blast
  next
    case False
    have "effect_matches (applied_row now outcome (planned_row now rx p)) rx p"
      using guard by (auto simp: effect_matches_def applied_row_def planned_row_def text_of_def)
    with fresh [OF False] show ?thesis by (simp add: applied_row_def)
  qed
qed

section \<open>A sample\<close>

definition sample_receipt :: receipt_context where
  "sample_receipt = \<lparr>rx_command = ''pointers.promote'', rx_scope = ''[]'', rx_idem = ''k'',
     rx_fingerprint = command_request_fingerprint sample_request, rx_profile = receipt_hash_profile,
     rx_event_base = ''b'', rx_tenant = Some ''t'', rx_domain = Some ''d'', rx_run = None\<rparr>"

definition sample_effect :: effect_plan where
  "sample_effect = \<lparr>ep_key = ''promote'', ep_kind = ''pointer.promote'', ep_target_kind = ''pointer'',
     ep_target_ref = ''pointer:p1'', ep_payload = [(''version'', JStr ''v1'')], ep_metadata = []\<rparr>"

lemma sample_entry_valid:
  "validate_effect_entry_fields (rx_tenant sample_receipt) (rx_domain sample_receipt)
     (planned_row now sample_receipt sample_effect) = Inr ()"
proof -
  have "effect_name_ok ''pointer.promote''" "effect_name_ok ''pointer''" "effect_ref_ok ''pointer:p1''"
    "\<not> blank receipt_hash_profile" "\<not> blank ''pointers.promote''" "\<not> blank ''[]''" "\<not> blank ''k''"
    "\<not> blank ''promote''" "\<not> blank ''pointer.promote''" "\<not> blank ''pointer''" "\<not> blank ''pointer:p1''"
    "assert_no_raw_material (sort_dict [(''version'', JStr ''v1'')]) = Inr ()"
    "assert_no_raw_material (sort_dict []) = Inr ()"
    by code_simp+
  then show ?thesis
    by (simp add: validate_effect_entry_fields_def planned_row_def sample_receipt_def sample_effect_def
      absent_def text_of_def effect_statuses_def command_request_fingerprint_def effect_digest_def
      sha256_text_matches)
qed

lemma sample_mutation:
  "\<exists>d1. guarded_effect_mutation now sample_receipt [sample_effect] (ret [(''n'', JInt 1)]) empty_db =
     (Inr ([(''n'', JInt 1)], False), d1)"
proof -
  have none: "find_effect d sample_receipt sample_effect = None" if "effects d = []" for d
    using that by (simp add: find_effect_def')
  have outcome: "assert_no_raw_material [(''n'', JInt 1)] = Inr ()" by code_simp
  have "effect_body now sample_receipt [sample_effect] (ret [(''n'', JInt 1)]) empty_db =
      seq (for_each (create_effect_ledger_entry now sample_receipt) [sample_effect])
        (\<lambda>_. seq (ret [(''n'', JInt 1)]) (\<lambda>outcome.
          seq (for_each (mark_effect_ledger_entry_applied now sample_receipt outcome) [sample_effect])
            (\<lambda>_. ret (outcome, False)))) empty_db"
    by (rule effect_body_branches(3))
      (simp_all add: assert_existing_effect_matches_def none empty_db_def)
  moreover have "\<exists>x d0. create_effect_ledger_entry now sample_receipt sample_effect empty_db = (Inr x, d0)"
  proof -
    have "insert_effect r empty_db = (Inr (), empty_db\<lparr>effects := [r]\<rparr>)" if "ef_run r = None" for r
      using that by (simp add: insert_effect_def empty_db_def fk_ok_def)
    moreover have "ef_run (planned_row now sample_receipt sample_effect) = None"
      by (simp add: planned_row_def sample_receipt_def)
    ultimately show ?thesis
      by (simp add: create_effect_ledger_entry_def sample_entry_valid seq_def comp_apply)
  qed
  moreover have "\<exists>d1. mark_effect_ledger_entry_applied now sample_receipt [(''n'', JInt 1)] sample_effect d0
      = (Inr (), d1)" for d0
    by (simp add: mark_effect_Inr outcome)
  ultimately have "\<exists>d1. effect_body now sample_receipt [sample_effect] (ret [(''n'', JInt 1)]) empty_db =
      (Inr ([(''n'', JInt 1)], False), d1)"
    by (auto simp: seq_eq_Inr comp_apply)
  then show ?thesis by (simp add: guarded_Inr sample_receipt_def)
qed

lemma leaves_ledger_ret: "leaves_ledger (ret x)"
  by (simp add: leaves_ledger_def comp_apply)

section \<open>Properties\<close>

lemma atomically_handled:
  "handle (atomically m) (\<lambda>e. raise (f e)) d = (Inl e, d') \<Longrightarrow> d' = d"
  by (auto simp: handle_def atomically_def comp_apply split: prod.splits sum.splits)

lemma guarded_Inl: "guarded_effect_mutation now rx plan mutation d = (Inl e, d') \<Longrightarrow> d' = d"
  unfolding guarded_effect_mutation_def assert_unique_effect_keys_def require_def
  by (cases "distinct (map ep_key plan)")
    (auto simp only: seq_unit comp_apply split: if_splits dest: atomically_handled)

text \<open>
  C25: A guarded mutation is all or nothing: when it fails, whether in validation, in the mutation
  or while marking, the database is as before, reservations included; when it replays, nothing
  changes; when it runs the mutation, every planned effect ends with one applied row that carries
  the scope, fingerprint, target and payload hash of the plan and the outcome, provided the
  mutation itself does not write to the ledger.
\<close>

theorem guarded_mutation_all_or_nothing:
  assumes run: "guarded_effect_mutation now rx plan mutation d = (result, d')"
    and leaves: "leaves_ledger mutation"
  shows "case result of
      Inl e \<Rightarrow> d' = d
    | Inr (outcome, replay) \<Rightarrow>
        if replay then d' = d
        else \<forall>p\<in>set plan. find_effect d rx p = None
          \<and> find_effect d' rx p = Some (applied_row now outcome (planned_row now rx p))"
proof (cases result)
  case (Inl e)
  with run guarded_Inl show ?thesis by auto
next
  case (Inr x)
  obtain outcome replay where x: "x = (outcome, replay)" by fastforce
  note run' = run [unfolded Inr x]
  from run' have body: "effect_body now rx plan mutation d = (Inr (outcome, replay), d')"
    and nonempty: "plan \<noteq> []" by (simp_all add: guarded_Inr)
  show ?thesis
    using effect_body_Inr(2,3) [OF body nonempty] guarded_success(2) [OF run' leaves] by (simp add: Inr x)
qed

theorem guarded_mutation_all_or_nothing_witness:
  "\<exists>r. find_effect (snd (guarded_effect_mutation ''now'' sample_receipt [sample_effect]
     (ret [(''n'', JInt 1)]) empty_db)) sample_receipt sample_effect = Some r \<and> ef_status r = ''applied''"
proof -
  obtain d1 where d1: "guarded_effect_mutation ''now'' sample_receipt [sample_effect]
     (ret [(''n'', JInt 1)]) empty_db = (Inr ([(''n'', JInt 1)], False), d1)"
    using sample_mutation by blast
  from guarded_mutation_all_or_nothing [OF d1 leaves_ledger_ret] d1 show ?thesis
    by (simp add: applied_row_def)
qed

text \<open>
  C5: A planned effect takes effect exactly once: after a guarded mutation succeeded, running it
  again with the same receipt and plan, whatever the mutation does and whatever else happened
  meanwhile, as long as its ledger rows are still there, runs nothing, changes nothing, and returns
  the stored outcome flagged as a replay.
\<close>

theorem guarded_mutation_exactly_once:
  assumes run: "guarded_effect_mutation now rx plan mutation d = (Inr (outcome, replay), d1)"
    and leaves: "leaves_ledger mutation"
    and later: "\<forall>p\<in>set plan. find_effect d2 rx p = find_effect d1 rx p"
  shows "guarded_effect_mutation now' rx plan mutation' d2 =
    (Inr (if replay then outcome else sort_dict outcome, True), d2)"
proof -
  note guard = run [unfolded guarded_Inr]
  let ?rows = "\<lambda>d. map (\<lambda>p. the (find_effect d rx p)) plan"
  have rows: "?rows d2 = ?rows d1" using later by simp
  have found: "\<exists>r. find_effect d2 rx p = Some r \<and> effect_matches r rx p" if "p \<in> set plan" for p
    using guarded_success(1) [OF run leaves that] later that by auto
  have "replay_effects (?rows d1) = Inr (if replay then outcome else sort_dict outcome)"
  proof (cases replay)
    case True
    with guard effect_body_Inr(2) [of now rx plan mutation d outcome replay d1] show ?thesis by simp
  next
    case False
    have "list_all (\<lambda>e. ef_status e = ''applied'') (?rows d1)"
      using guarded_success(2) [OF run leaves _ False] by (simp add: list_all_iff applied_row_def)
    moreover have "ef_result (hd (?rows d1)) = Some (sort_dict outcome)"
      using guarded_success(2) [OF run leaves _ False] guard
      by (simp add: hd_map applied_row_def)
    ultimately show ?thesis using False by (simp add: replay_effects_def)
  qed
  then have "effect_body now' rx plan mutation' d2 =
      (Inr (if replay then outcome else sort_dict outcome, True), d2)"
    using effect_body_replay [OF _ found] guard rows by (simp del: map_eq_conv)
  with guard show ?thesis by (simp add: guarded_Inr)
qed

theorem guarded_mutation_exactly_once_witness:
  "\<exists>d1. guarded_effect_mutation ''now'' sample_receipt [sample_effect] (ret [(''n'', JInt 1)]) empty_db =
       (Inr ([(''n'', JInt 1)], False), d1)
   \<and> guarded_effect_mutation ''later'' sample_receipt [sample_effect] (raise RuntimeError) d1 =
       (Inr ([(''n'', JInt 1)], True), d1)"
proof -
  obtain d1 where d1: "guarded_effect_mutation ''now'' sample_receipt [sample_effect]
     (ret [(''n'', JInt 1)]) empty_db = (Inr ([(''n'', JInt 1)], False), d1)"
    using sample_mutation by blast
  from guarded_mutation_exactly_once [OF d1 leaves_ledger_ret, of d1 "''later''" "raise RuntimeError"] d1
  show ?thesis by (simp add: sort_dict_def)
qed

lemma check_all_Inl:
  "(\<exists>x\<in>set xs. f x \<noteq> Inr ()) \<Longrightarrow> (\<And>x e. f x = Inl e \<Longrightarrow> e = err) \<Longrightarrow> check_all f xs = Inl err"
proof (induction xs)
  case (Cons x xs)
  then show ?case by (cases "f x") auto
qed simp

text \<open>
  A retry that plans something else under the same keys is refused: once an effect was applied,
  a guarded mutation for the same command, scope and key that plans this effect with another
  kind, target or payload hash, or for a request with another fingerprint, fails with a conflict
  and changes nothing.
\<close>

lemma guarded_mutation_conflict:
  assumes run: "guarded_effect_mutation now rx plan mutation d = (Inr (outcome, replay), d1)"
    and leaves: "leaves_ledger mutation"
    and p: "p \<in> set plan" and later: "find_effect d2 rx p = find_effect d1 rx p"
    and same: "rx_command rx' = rx_command rx" "rx_scope rx' = rx_scope rx" "rx_idem rx' = rx_idem rx"
    and scope: "rx_tenant rx' \<noteq> None" "rx_domain rx' \<noteq> None"
    and plan': "distinct (map ep_key plan')" "q \<in> set plan'" "ep_key q = ep_key p"
    and other: "rx_fingerprint rx' \<noteq> rx_fingerprint rx \<or> ep_kind q \<noteq> ep_kind p
      \<or> ep_target_kind q \<noteq> ep_target_kind p \<or> ep_target_ref q \<noteq> ep_target_ref p
      \<or> effect_digest (ep_payload q) \<noteq> effect_digest (ep_payload p)"
  shows "guarded_effect_mutation now' rx' plan' mutation' d2 =
    (Inl (CommandError ''effect_ledger_conflict''), d2)"
proof -
  obtain r where r: "find_effect d2 rx p = Some r" "effect_matches r rx p"
    using guarded_success(1) [OF run leaves p] later by auto
  then have "find_effect d2 rx' q = Some r" "\<not> effect_matches r rx' q"
    using same plan'(3) other by (auto simp: find_effect_def effect_matches_def)
  then have "assert_existing_effect_matches d2 rx' q = Inl (CommandError ''effect_ledger_conflict'')"
    by (simp add: assert_existing_effect_matches_def)
  then have "check_all (assert_existing_effect_matches d2 rx') plan' =
      Inl (CommandError ''effect_ledger_conflict'')"
    using plan'(2) by (intro check_all_Inl)
      (force simp: assert_existing_effect_matches_def split: option.splits)+
  then have "effect_body now' rx' plan' mutation' d2 =
      (Inl (CommandError ''effect_ledger_conflict''), d2)"
    by (simp add: effect_body_def comp_simps)
  then show ?thesis
    using scope plan' by (cases plan') (simp_all add: guarded_effect_mutation_def
      assert_unique_effect_keys_def comp_simps handle_def atomically_def as_command_error_def)
qed

end
