(* ===== verification/Runtime_Outbox.thy ===== *)
theory Runtime_Outbox
  imports Event_Store
begin

text \<open>
  The outbox over the event log, \<open>src/onetruth/infrastructure/repositories/runtime_outbox.py\<close>:
  every consumer keeps a cursor per tenant and domain, and \<open>dispatch_runtime_outbox_batch\<close> hands
  the events after it to a callback, in order, and moves the cursor over those that went through.
  The state is the database together with whatever the callback changes outside of it.
\<close>

section \<open>Cursors and events\<close>

definition max_runtime_outbox_batch_size :: int where
  "max_runtime_outbox_batch_size = 500"

text \<open>\<open>_CONSUMER_NAME_RE\<close>, matched in full.\<close>

definition consumer_name_ok :: "string \<Rightarrow> bool" where
  "consumer_name_ok s \<longleftrightarrow> (case s of
     [] \<Rightarrow> False
   | c # cs \<Rightarrow> is_alnum c \<and> length cs \<le> 127 \<and> list_all (\<lambda>c. is_alnum c \<or> c \<in> set ''_.:-'') cs)"

definition validate_scope :: "string \<Rightarrow> string \<Rightarrow> string \<Rightarrow> unit result" where
  "validate_scope consumer_name tenant_id domain_id =
     rbind (require (consumer_name_ok consumer_name) (RuntimeOutboxError ''runtime_outbox_consumer_invalid''))
       (\<lambda>_. require (\<not> blank tenant_id \<and> \<not> blank domain_id)
         (RuntimeOutboxError ''runtime_outbox_scope_invalid''))"

definition validate_limit :: "int \<Rightarrow> nat result" where
  "validate_limit limit =
     (if limit < 1 \<or> max_runtime_outbox_batch_size < limit
      then Inl (RuntimeOutboxError ''runtime_outbox_limit_invalid'') else Inr (nat limit))"

definition normalize_event_types :: "string list option \<Rightarrow> string list option result" where
  "normalize_event_types event_types = (case event_types of
     None \<Rightarrow> Inr None
   | Some types \<Rightarrow>
       let normalized = filter (\<lambda>t. t \<noteq> []) (map py_strip types)
       in if normalized = [] then Inl (RuntimeOutboxError ''runtime_outbox_event_types_invalid'')
          else Inr (Some normalized))"

text \<open>The stored row, or the cursor of a consumer that has none yet, whose time is null.\<close>

definition find_cursor :: "db \<Rightarrow> string \<Rightarrow> string \<Rightarrow> string \<Rightarrow> cursor_row option" where
  "find_cursor d consumer_name tenant_id domain_id =
     select_one (\<lambda>r. (cu_consumer r, cu_tenant r, cu_domain r) = (consumer_name, tenant_id, domain_id))
       (cursors d)"

definition cursor_position :: "db \<Rightarrow> string \<Rightarrow> string \<Rightarrow> string \<Rightarrow> nat" where
  "cursor_position d consumer_name tenant_id domain_id =
     (case find_cursor d consumer_name tenant_id domain_id of None \<Rightarrow> 0 | Some r \<Rightarrow> cu_last r)"

definition get_runtime_outbox_cursor ::
    "db \<Rightarrow> string \<Rightarrow> string \<Rightarrow> string \<Rightarrow> (nat \<times> string option) result" where
  "get_runtime_outbox_cursor d consumer_name tenant_id domain_id =
     rbind (validate_scope consumer_name tenant_id domain_id) (\<lambda>_.
       Inr (cursor_position d consumer_name tenant_id domain_id,
            map_option cu_updated_at (find_cursor d consumer_name tenant_id domain_id)))"

definition list_events_after_sequence ::
    "db \<Rightarrow> string \<Rightarrow> string \<Rightarrow> nat \<Rightarrow> nat \<Rightarrow> event_row list" where
  "list_events_after_sequence d tenant_id domain_id after_sequence_no limit =
     take limit (sort_key ev_seq (filter
       (\<lambda>r. ev_tenant r = tenant_id \<and> ev_domain r = domain_id \<and> after_sequence_no < ev_seq r) (events d)))"

definition list_runtime_outbox_events ::
    "db \<Rightarrow> string \<Rightarrow> string \<Rightarrow> string \<Rightarrow> int \<Rightarrow> event_row list result" where
  "list_runtime_outbox_events d consumer_name tenant_id domain_id limit =
     rbind (get_runtime_outbox_cursor d consumer_name tenant_id domain_id) (\<lambda>cursor.
     rbind (validate_limit limit) (\<lambda>n.
       Inr (list_events_after_sequence d tenant_id domain_id (fst cursor) n)))"

text \<open>\<open>INSERT ... ON CONFLICT DO UPDATE\<close>.\<close>

definition upsert_cursor :: "cursor_row \<Rightarrow> db \<Rightarrow> db" where
  "upsert_cursor r d = d\<lparr>cursors :=
     (if find_cursor d (cu_consumer r) (cu_tenant r) (cu_domain r) = None then cursors d @ [r]
      else update_where (\<lambda>x. (cu_consumer x, cu_tenant x, cu_domain x) =
             (cu_consumer r, cu_tenant r, cu_domain r))
           (\<lambda>x. x\<lparr>cu_last := cu_last r, cu_updated_at := cu_updated_at r\<rparr>) (cursors d))\<rparr>"

definition advance_runtime_outbox_cursor ::
    "string \<Rightarrow> string \<Rightarrow> string \<Rightarrow> nat \<Rightarrow> string \<Rightarrow> (unit, db) comp" where
  "advance_runtime_outbox_cursor consumer_name tenant_id domain_id last_sequence_no updated_at d =
     seq (of_result (get_runtime_outbox_cursor d consumer_name tenant_id domain_id)) (\<lambda>current.
       if last_sequence_no < fst current then raise (RuntimeOutboxError ''runtime_outbox_cursor_rewind'')
       else modify (upsert_cursor \<lparr>cu_consumer = consumer_name, cu_tenant = tenant_id,
              cu_domain = domain_id, cu_last = last_sequence_no, cu_updated_at = updated_at\<rparr>)) d"

section \<open>Dispatching a batch\<close>

definition on_db :: "('a, db) comp \<Rightarrow> ('a, db \<times> 'w) comp" where
  "on_db m s = (case m (fst s) of (r, d) \<Rightarrow> (r, (d, snd s)))"

record batch_report =
  br_starting :: nat
  br_last :: nat
  br_dispatched :: "event_row list"
  br_skipped :: "nat list"

definition type_allowed :: "string list option \<Rightarrow> event_row \<Rightarrow> bool" where
  "type_allowed allowed r \<longleftrightarrow> (case allowed of None \<Rightarrow> True | Some types \<Rightarrow> ev_type r \<in> set types)"

text \<open>The loop; \<open>advance\<close> moves the cursor when the callback raises.\<close>

fun dispatch_events ::
    "(nat \<Rightarrow> (unit, db \<times> 'w) comp) \<Rightarrow> (event_row \<Rightarrow> (unit, db \<times> 'w) comp) \<Rightarrow> string list option \<Rightarrow>
     event_row list \<Rightarrow> batch_report \<Rightarrow> (batch_report, db \<times> 'w) comp" where
  "dispatch_events advance dispatch allowed [] report = ret report"
| "dispatch_events advance dispatch allowed (event # rest) report =
     (if \<not> type_allowed allowed event
      then dispatch_events advance dispatch allowed rest
        (report\<lparr>br_skipped := br_skipped report @ [ev_seq event], br_last := ev_seq event\<rparr>)
      else seq (handle (dispatch event) (\<lambda>_. seq (advance (br_last report)) (\<lambda>_.
          raise (RuntimeOutboxError ''runtime_outbox_dispatch_failed'')))) (\<lambda>_.
        dispatch_events advance dispatch allowed rest
          (report\<lparr>br_dispatched := br_dispatched report @ [event], br_last := ev_seq event\<rparr>)))"

definition dispatch_runtime_outbox_batch ::
    "string \<Rightarrow> string \<Rightarrow> string \<Rightarrow> (event_row \<Rightarrow> (unit, db \<times> 'w) comp) \<Rightarrow> int \<Rightarrow> string list option \<Rightarrow>
     string \<Rightarrow> (batch_report, db \<times> 'w) comp" where
  "dispatch_runtime_outbox_batch consumer_name tenant_id domain_id dispatch limit event_types
       dispatched_at s =
     (let advance = (\<lambda>n. on_db (advance_runtime_outbox_cursor consumer_name tenant_id domain_id n dispatched_at))
      in seq (of_result (normalize_event_types event_types)) (\<lambda>allowed.
         seq (of_result (get_runtime_outbox_cursor (fst s) consumer_name tenant_id domain_id)) (\<lambda>cursor.
         seq (of_result (validate_limit limit)) (\<lambda>n.
         seq (dispatch_events advance dispatch allowed
                (list_events_after_sequence (fst s) tenant_id domain_id (fst cursor) n)
                \<lparr>br_starting = fst cursor, br_last = fst cursor, br_dispatched = [], br_skipped = []\<rparr>)
           (\<lambda>report. seq (advance (br_last report)) (\<lambda>_. ret report))))) s)"

section \<open>Facts\<close>

lemma find_cursor_upsert:
  "find_cursor (upsert_cursor r d) (cu_consumer r) (cu_tenant r) (cu_domain r) \<noteq> None"
  "cursor_position (upsert_cursor r d) (cu_consumer r) (cu_tenant r) (cu_domain r) = cu_last r"
proof -
  let ?k = "\<lambda>x. (cu_consumer x, cu_tenant x, cu_domain x)"
  have "\<exists>x. find_cursor (upsert_cursor r d) (cu_consumer r) (cu_tenant r) (cu_domain r) = Some x \<and> cu_last x = cu_last r"
  proof (cases "find_cursor d (cu_consumer r) (cu_tenant r) (cu_domain r)")
    case None
    then show ?thesis by (simp add: find_cursor_def upsert_cursor_def select_one_append)
  next
    case (Some x)
    then show ?thesis
      using select_key_update [where k = ?k and a = "?k r" and q = "\<lambda>_. True" and rows = "cursors d"
          and f = "\<lambda>x. x\<lparr>cu_last := cu_last r, cu_updated_at := cu_updated_at r\<rparr>"]
      by (auto simp: find_cursor_def upsert_cursor_def)
  qed
  then show "find_cursor (upsert_cursor r d) (cu_consumer r) (cu_tenant r) (cu_domain r) \<noteq> None"
    "cursor_position (upsert_cursor r d) (cu_consumer r) (cu_tenant r) (cu_domain r) = cu_last r"
    by (auto simp: cursor_position_def)
qed

lemma upsert_cursor_frame [simp]: "events (upsert_cursor r d) = events d"
  "next_seq (upsert_cursor r d) = next_seq d"
  by (simp_all add: upsert_cursor_def)

lemma events_ok_upsert [simp]: "events_ok (upsert_cursor r d) = events_ok d"
  by (simp add: events_ok_def)

lemma advance_ok:
  assumes "validate_scope c t m = Inr ()" "cursor_position d c t m \<le> n"
  shows "advance_runtime_outbox_cursor c t m n now d =
    (Inr (), upsert_cursor \<lparr>cu_consumer = c, cu_tenant = t, cu_domain = m, cu_last = n,
      cu_updated_at = now\<rparr> d)"
  using assms by (simp add: advance_runtime_outbox_cursor_def get_runtime_outbox_cursor_def comp_simps)

section \<open>A batch with a callback that delivers or fails\<close>

text \<open>
  The callback of a consumer whose world is the list of the events it has taken: it takes an event
  or raises and takes nothing.
\<close>

definition deliver :: "(event_row \<Rightarrow> bool) \<Rightarrow> event_row \<Rightarrow> (unit, db \<times> event_row list) comp" where
  "deliver up e s = (if up e then (Inr (), (fst s, snd s @ [e])) else (Inl (OtherException ''dispatch''), s))"

text \<open>The part of a batch that goes through, and where it leaves the cursor.\<close>

definition through :: "(event_row \<Rightarrow> bool) \<Rightarrow> string list option \<Rightarrow> event_row list \<Rightarrow> event_row list" where
  "through up allowed batch = takeWhile (\<lambda>e. type_allowed allowed e \<longrightarrow> up e) batch"

definition end_seq :: "nat \<Rightarrow> event_row list \<Rightarrow> nat" where
  "end_seq start es = (if es = [] then start else ev_seq (last es))"

lemma through_simps [simp]:
  "through up allowed [] = []"
  "through up allowed (e # b) =
     (if type_allowed allowed e \<longrightarrow> up e then e # through up allowed b else [])"
  by (simp_all add: through_def)

lemma dispatch_events_deliver:
  "\<exists>report. br_last report = end_seq (br_last rep) (through up allowed b)
    \<and> dispatch_events advance (deliver up) allowed b rep (d, took) =
      (if through up allowed b = b
       then (Inr report, (d, took @ filter (type_allowed allowed) b))
       else seq (advance (br_last report)) (\<lambda>_. raise (RuntimeOutboxError ''runtime_outbox_dispatch_failed''))
         (d, took @ filter (type_allowed allowed) (through up allowed b)))"
proof (induction b arbitrary: rep took)
  case Nil
  show ?case by (rule exI [of _ rep]) (simp add: end_seq_def comp_apply)
next
  case (Cons e b)
  have last: "end_seq (ev_seq e) (through up allowed b) = end_seq n (e # through up allowed b)" for n
    by (simp add: end_seq_def)
  consider (skip) "\<not> type_allowed allowed e" | (take) "type_allowed allowed e" "up e"
    | (fail) "type_allowed allowed e" "\<not> up e" by blast
  then show ?case
  proof cases
    case skip
    from Cons.IH [of "rep\<lparr>br_skipped := br_skipped rep @ [ev_seq e], br_last := ev_seq e\<rparr>" took]
    obtain report where "br_last report = end_seq (ev_seq e) (through up allowed b)"
      "dispatch_events advance (deliver up) allowed b
         (rep\<lparr>br_skipped := br_skipped rep @ [ev_seq e], br_last := ev_seq e\<rparr>) (d, took) =
      (if through up allowed b = b
       then (Inr report, (d, took @ filter (type_allowed allowed) b))
       else seq (advance (br_last report)) (\<lambda>_. raise (RuntimeOutboxError ''runtime_outbox_dispatch_failed''))
         (d, took @ filter (type_allowed allowed) (through up allowed b)))" by auto
    with skip show ?thesis by (intro exI [of _ report]) (simp add: last [of "br_last rep"])
  next
    case take
    have "deliver up e (d, took) = (Inr (), (d, took @ [e]))"
      using take by (simp add: deliver_def)
    moreover from Cons.IH [of "rep\<lparr>br_dispatched := br_dispatched rep @ [e], br_last := ev_seq e\<rparr>" "took @ [e]"]
    obtain report where "br_last report = end_seq (ev_seq e) (through up allowed b)"
      "dispatch_events advance (deliver up) allowed b
         (rep\<lparr>br_dispatched := br_dispatched rep @ [e], br_last := ev_seq e\<rparr>) (d, took @ [e]) =
      (if through up allowed b = b
       then (Inr report, (d, (took @ [e]) @ filter (type_allowed allowed) b))
       else seq (advance (br_last report)) (\<lambda>_. raise (RuntimeOutboxError ''runtime_outbox_dispatch_failed''))
         (d, (took @ [e]) @ filter (type_allowed allowed) (through up allowed b)))" by auto
    ultimately show ?thesis
      using take by (intro exI [of _ report]) (simp add: last [of "br_last rep"] seq_def handle_def)
  next
    case fail
    have "deliver up e (d, took) = (Inl (OtherException ''dispatch''), (d, took))"
      using fail by (simp add: deliver_def)
    with fail show ?thesis
      by (intro exI [of _ rep]) (simp add: end_seq_def seq_def handle_def comp_apply
        split: prod.split sum.split)
  qed
qed

lemma through_prefix: "\<exists>rest. b = through up allowed b @ rest"
  unfolding through_def by (metis takeWhile_dropWhile_id)

lemma end_seq_ge:
  assumes "\<And>e. e \<in> set b \<Longrightarrow> start < ev_seq e"
  shows "start \<le> end_seq start (through up allowed b)"
proof (cases "through up allowed b = []")
  case False
  then have "last (through up allowed b) \<in> set b"
    using through_prefix [of b up allowed] by (metis Un_iff last_in_set set_append)
  with assms False show ?thesis by (simp add: end_seq_def less_imp_le)
qed (simp add: end_seq_def)

lemma batch_members:
  "e \<in> set (list_events_after_sequence d t m p n) \<Longrightarrow>
     e \<in> set (events d) \<and> ev_tenant e = t \<and> ev_domain e = m \<and> p < ev_seq e"
  unfolding list_events_after_sequence_def by (drule in_set_takeD) simp

lemma dispatch_batch_deliver:
  fixes d :: db and c t m :: string and n :: nat
  assumes scope: "validate_scope c t m = Inr ()" and limit: "validate_limit limit = Inr n"
    and types: "normalize_event_types types = Inr allowed"
  defines "p \<equiv> cursor_position d c t m"
  defines "b \<equiv> list_events_after_sequence d t m p n"
  shows "\<exists>result. (isl result \<longleftrightarrow> through up allowed b \<noteq> b)
    \<and> dispatch_runtime_outbox_batch c t m (deliver up) limit types now (d, took) =
      (result, (upsert_cursor \<lparr>cu_consumer = c, cu_tenant = t, cu_domain = m,
          cu_last = end_seq p (through up allowed b), cu_updated_at = now\<rparr> d,
        took @ filter (type_allowed allowed) (through up allowed b)))"
proof -
  let ?adv = "\<lambda>n. on_db (advance_runtime_outbox_cursor c t m n now) :: (unit, db \<times> event_row list) comp"
  let ?rep = "\<lparr>br_starting = p, br_last = p, br_dispatched = [], br_skipped = []\<rparr>"
  let ?q = "end_seq p (through up allowed b)"
  let ?up = "upsert_cursor \<lparr>cu_consumer = c, cu_tenant = t, cu_domain = m, cu_last = ?q, cu_updated_at = now\<rparr> d"
  have "p \<le> ?q"
    using batch_members by (intro end_seq_ge) (simp add: b_def)
  then have adv: "?adv ?q (d, log') = (Inr (), (?up, log'))" for log'
    using advance_ok [OF scope, of d ?q now] by (simp add: on_db_def p_def)
  obtain report where report: "br_last report = ?q"
    and run: "dispatch_events ?adv (deliver up) allowed b ?rep (d, took) =
      (if through up allowed b = b then (Inr report, (d, took @ filter (type_allowed allowed) b))
       else seq (?adv ?q) (\<lambda>_. raise (RuntimeOutboxError ''runtime_outbox_dispatch_failed''))
         (d, took @ filter (type_allowed allowed) (through up allowed b)))"
    using dispatch_events_deliver [of ?rep up allowed b ?adv d took] by auto
  have whole: "dispatch_runtime_outbox_batch c t m (deliver up) limit types now (d, took) =
      seq (dispatch_events ?adv (deliver up) allowed b ?rep)
        (\<lambda>report. seq (?adv (br_last report)) (\<lambda>_. ret report)) (d, took)"
    by (simp add: dispatch_runtime_outbox_batch_def Let_def types limit scope comp_simps
      get_runtime_outbox_cursor_def b_def p_def)
  show ?thesis
  proof (cases "through up allowed b = b")
    case True
    then have "dispatch_runtime_outbox_batch c t m (deliver up) limit types now (d, took) =
        (Inr report, (?up, took @ filter (type_allowed allowed) (through up allowed b)))"
      using run report adv unfolding whole by (simp add: seq_def comp_apply)
    with True show ?thesis by (intro exI [of _ "Inr report"]) simp
  next
    case False
    then have "dispatch_runtime_outbox_batch c t m (deliver up) limit types now (d, took) =
        (Inl (RuntimeOutboxError ''runtime_outbox_dispatch_failed''),
         (?up, took @ filter (type_allowed allowed) (through up allowed b)))"
      using run adv unfolding whole by (simp add: seq_def comp_apply)
    with False show ?thesis
      by (intro exI [of _ "Inl (RuntimeOutboxError ''runtime_outbox_dispatch_failed'')"]) simp
  qed
qed

section \<open>Appending and dispatching, in any order\<close>

text \<open>
  A run of the system as one consumer sees it: events are appended and batches are dispatched, with
  any limit, and with a callback that may fail on any event at any time.
\<close>

inductive outbox_step ::
    "string \<Rightarrow> string \<Rightarrow> string \<Rightarrow> string list option \<Rightarrow> db \<times> event_row list \<Rightarrow> db \<times> event_row list \<Rightarrow> bool"
    for c t m types where
  appended: "append_event envelope d = (r, d') \<Longrightarrow> outbox_step c t m types (d, took) (d', took)"
| dispatched: "dispatch_runtime_outbox_batch c t m (deliver up) limit types now s = (r, s') \<Longrightarrow>
    outbox_step c t m types s s'"

inductive_cases outbox_stepE: "outbox_step c t m types s s'"

definition in_scope :: "string \<Rightarrow> string \<Rightarrow> string list option \<Rightarrow> event_row \<Rightarrow> bool" where
  "in_scope t m allowed e \<longleftrightarrow> ev_tenant e = t \<and> ev_domain e = m \<and> type_allowed allowed e"

definition outbox_ok :: "string \<Rightarrow> string \<Rightarrow> string \<Rightarrow> string list option \<Rightarrow> db \<times> event_row list \<Rightarrow> bool" where
  "outbox_ok c t m allowed s \<longleftrightarrow>
     events_ok (fst s) \<and> cursor_position (fst s) c t m < next_seq (fst s)
     \<and> snd s = filter (\<lambda>e. in_scope t m allowed e \<and> ev_seq e \<le> cursor_position (fst s) c t m)
         (events (fst s))"

lemma split_at_last:
  assumes "sorted_wrt (<) (map f xs)" "filter (\<lambda>x. p < f x) xs = pre @ rest" "pre \<noteq> []"
  shows "filter (\<lambda>x. f x \<le> (f (last pre) :: nat)) xs = filter (\<lambda>x. f x \<le> p) xs @ pre"
  using assms
proof (induction xs)
  case (Cons x xs)
  have later: "\<And>y. y \<in> set xs \<Longrightarrow> f x < f y" using Cons.prems(1) by auto
  have mem: "last pre \<in> set (filter (\<lambda>x. p < f x) (x # xs))" using Cons.prems(2,3) by simp
  show ?case
  proof (cases "p < f x")
    case False
    then have "f x \<le> f (last pre)" using mem by auto
    with False Cons show ?thesis by auto
  next
    case True
    have xs: "filter (\<lambda>x. p < f x) xs = xs" "filter (\<lambda>x. f x \<le> p) xs = []"
      using later True by (auto simp: filter_empty_conv not_le intro!: filter_True dest: less_trans)
    with True Cons.prems(2,3) obtain pre' where pre: "pre = x # pre'" "xs = pre' @ rest"
      by (cases pre) auto
    have sorted: "sorted_wrt (<) (map f (pre' @ rest))" using Cons.prems(1) pre(2) by simp
    have "filter (\<lambda>y. f y \<le> f (last pre)) (pre' @ rest) = pre'"
    proof -
      have "f y \<le> f (last pre)" if "y \<in> set pre'" for y
        using that sorted pre(1) by (induction pre' rule: rev_induct) (auto simp: sorted_wrt_append less_imp_le)
      moreover have "\<not> f y \<le> f (last pre)" if "y \<in> set rest" for y
        using that later pre sorted by (cases pre' rule: rev_cases) (auto simp: sorted_wrt_append not_le)
      ultimately show ?thesis by (simp add: filter_empty_conv)
    qed
    moreover have "f x \<le> f (last pre)"
      using later pre by (cases pre') (auto simp: less_imp_le)
    ultimately show ?thesis using True xs pre by simp
  qed
qed simp

lemma outbox_ok_appended:
  assumes ok: "outbox_ok c t m allowed (d, took)" and run: "append_event envelope d = (r, d')"
  shows "outbox_ok c t m allowed (d', took)"
proof (cases rule: append_event_cases [of envelope d])
  case (appended row)
  then have d': "d' = d\<lparr>events := events d @ [row], next_seq := Suc (ev_seq row)\<rparr>"
    using run by simp
  moreover have "ev_seq row = next_seq d" using bind_event_fields(1) [OF appended(2)] .
  moreover have "events_ok d'"
    using ok keepsD' [OF append_event_ok _ run] by (simp add: outbox_ok_def)
  moreover have "cursor_position d' c t m = cursor_position d c t m"
    by (simp add: d' cursor_position_def find_cursor_def)
  ultimately show ?thesis using ok by (simp add: outbox_ok_def)
qed (use assms in simp)

lemma dispatch_invalid:
  assumes "normalize_event_types types = Inl e1 \<or> validate_scope c t m = Inl e2 \<or> validate_limit limit = Inl e3"
  shows "snd (dispatch_runtime_outbox_batch c t m dispatch limit types now s) = s"
proof (cases "normalize_event_types types")
  case (Inr allowed)
  show ?thesis
  proof (cases "validate_scope c t m")
    case (Inr u)
    with assms \<open>normalize_event_types types = Inr allowed\<close> have "validate_limit limit = Inl e3" by simp
    with Inr \<open>normalize_event_types types = Inr allowed\<close> show ?thesis
      by (simp add: dispatch_runtime_outbox_batch_def Let_def get_runtime_outbox_cursor_def comp_simps)
  qed (use Inr in \<open>simp add: dispatch_runtime_outbox_batch_def Let_def get_runtime_outbox_cursor_def comp_simps\<close>)
qed (simp add: dispatch_runtime_outbox_batch_def Let_def comp_simps)

lemma outbox_ok_dispatched:
  assumes types: "normalize_event_types types = Inr allowed" and ok: "outbox_ok c t m allowed s"
    and run: "dispatch_runtime_outbox_batch c t m (deliver up) limit types now s = (r, s')"
  shows "outbox_ok c t m allowed s'"
proof (cases "\<exists>u n. validate_scope c t m = Inr u \<and> validate_limit limit = Inr n")
  case False
  then have "\<exists>e2 e3. validate_scope c t m = Inl e2 \<or> validate_limit limit = Inl e3"
    by (cases "validate_scope c t m"; cases "validate_limit limit") auto
  then have "s' = s"
    using dispatch_invalid [of types _ c t m _ limit _ "deliver up" now s] run by (metis snd_conv)
  with ok show ?thesis by simp
next
  case True
  then obtain n where valid: "validate_scope c t m = Inr ()" "validate_limit limit = Inr n" by auto
  obtain d took where s: "s = (d, took)" by fastforce
  let ?p = "cursor_position d c t m" and ?scope = "\<lambda>e. ev_tenant e = t \<and> ev_domain e = m"
  let ?b = "list_events_after_sequence d t m ?p n"
  let ?pre = "through up allowed ?b"
  let ?q = "end_seq ?p ?pre"
  let ?row = "\<lparr>cu_consumer = c, cu_tenant = t, cu_domain = m, cu_last = ?q, cu_updated_at = now\<rparr>"
  have s': "s' = (upsert_cursor ?row d, took @ filter (type_allowed allowed) ?pre)"
    using dispatch_batch_deliver [OF valid types, where up = up and now = now and d = d and took = took] run s by auto
  have q: "cursor_position (upsert_cursor ?row d) c t m = ?q"
    using find_cursor_upsert(2) [of ?row d] by simp
  have ev: "events_ok d" and p: "?p < next_seq d"
    and took: "took = filter (\<lambda>e. in_scope t m allowed e \<and> ev_seq e \<le> ?p) (events d)"
    using ok by (simp_all add: outbox_ok_def s)
  let ?E = "filter ?scope (events d)"
  have sorted: "sorted_wrt (<) (map ev_seq ?E)"
    using ev by (simp add: events_ok_def sorted_wrt_map sorted_wrt_filter)
  have after: "filter (\<lambda>e. ?p < ev_seq e) ?E =
      filter (\<lambda>e. ev_tenant e = t \<and> ev_domain e = m \<and> ?p < ev_seq e) (events d)"
    by (simp add: conj_ac)
  then have b: "?b = take n (filter (\<lambda>e. ?p < ev_seq e) ?E)"
    by (simp add: list_events_after_sequence_def sorted_filter_events [OF ev])
  obtain rest where rest: "?b = ?pre @ rest" using through_prefix by blast
  let ?F = "filter (\<lambda>e. ?p < ev_seq e) ?E"
  have "?F = ?b @ drop n ?F"
    unfolding b by (rule append_take_drop_id [symmetric])
  also have "\<dots> = (?pre @ rest) @ drop n ?F"
    by (rule arg_cong [OF rest, of "\<lambda>x. x @ drop n ?F"])
  finally have split: "?F = ?pre @ (rest @ drop n ?F)"
    unfolding append_assoc .
  have upto: "filter (\<lambda>e. ev_seq e \<le> ?q) ?E = filter (\<lambda>e. ev_seq e \<le> ?p) ?E @ ?pre"
    using split_at_last [OF sorted split] by (cases "?pre = []") (simp_all add: end_seq_def)
  have "?q < next_seq d"
  proof (cases "?pre = []")
    case False
    then have "last ?pre \<in> set ?b" using rest by (metis Un_iff last_in_set set_append)
    with ev False batch_members [of "last ?pre" d t m ?p n] show ?thesis
      by (simp add: events_ok_def end_seq_def)
  qed (use p in \<open>simp add: end_seq_def\<close>)
  moreover have "took @ filter (type_allowed allowed) ?pre =
      filter (\<lambda>e. in_scope t m allowed e \<and> ev_seq e \<le> ?q) (events d)"
  proof -
    have scoped: "filter (\<lambda>e. in_scope t m allowed e \<and> ev_seq e \<le> k) (events d) =
        filter (type_allowed allowed) (filter (\<lambda>e. ev_seq e \<le> k) ?E)" for k
      by (simp add: in_scope_def) (rule filter_cong, auto)
    show ?thesis unfolding took scoped upto by simp
  qed
  ultimately show ?thesis using ev q by (simp add: outbox_ok_def s')
qed

lemma outbox_run_ok:
  assumes "normalize_event_types types = Inr allowed"
    "(outbox_step c t m types)\<^sup>*\<^sup>* (empty_db, []) s"
  shows "outbox_ok c t m allowed s"
  using assms(2)
proof (induction rule: rtranclp_induct)
  case base
  have "events empty_db = []" "cursors empty_db = []" "next_seq empty_db = 1"
    by (simp_all add: empty_db_def)
  then show ?case by (simp add: outbox_ok_def events_ok_empty cursor_position_def find_cursor_def)
next
  case (step s s')
  from step(2) show ?case
  proof cases
    case (appended envelope d r d' took)
    with step(3) outbox_ok_appended show ?thesis by blast
  next
    case (dispatched up limit now r)
    with step(3) outbox_ok_dispatched [OF assms(1)] show ?thesis by blast
  qed
qed

section \<open>Properties\<close>

text \<open>
  C4: A consumer takes every event exactly once and in order: in every state reached from the empty
  database by appending events and dispatching batches, with any limits and a callback that fails
  on any events at any time, what the consumer has taken is exactly the events of its tenant,
  domain and event types up to its cursor, in the order of the log; nothing was lost, repeated or
  reordered, and the cursor has not passed the end of the log.
\<close>

theorem outbox_takes_each_event_once_in_order:
  assumes "normalize_event_types types = Inr allowed"
    "(outbox_step c t m types)\<^sup>*\<^sup>* (empty_db, []) (d, took)"
  shows "took = filter (\<lambda>e. in_scope t m allowed e \<and> ev_seq e \<le> cursor_position d c t m) (events d)
    \<and> cursor_position d c t m < next_seq d"
  using outbox_run_ok [OF assms] by (simp add: outbox_ok_def)

text \<open>Batches one after the other with a callback that no longer fails.\<close>

fun drain :: "nat \<Rightarrow> string \<Rightarrow> string \<Rightarrow> string \<Rightarrow> int \<Rightarrow> string list option \<Rightarrow> string \<Rightarrow>
    db \<times> event_row list \<Rightarrow> db \<times> event_row list" where
  "drain 0 c t m limit types now s = s"
| "drain (Suc k) c t m limit types now s = drain k c t m limit types now
     (snd (dispatch_runtime_outbox_batch c t m (deliver (\<lambda>_. True)) limit types now s))"

definition pending :: "db \<Rightarrow> string \<Rightarrow> string \<Rightarrow> string \<Rightarrow> event_row list" where
  "pending d c t m = filter (\<lambda>e. ev_tenant e = t \<and> ev_domain e = m \<and> cursor_position d c t m < ev_seq e) (events d)"

lemma through_all: "through (\<lambda>_. True) allowed b = b"
  by (simp add: through_def)

lemma filter_further:
  "(p :: nat) < k \<Longrightarrow> filter (\<lambda>e. P e \<and> Q e \<and> k < f e) xs =
     filter (\<lambda>e. k < f e) (filter (\<lambda>e. P e \<and> Q e \<and> p < f e) xs)"
  by (induction xs) auto

lemma drain_all:
  assumes "validate_scope c t m = Inr ()" "validate_limit limit = Inr n"
    "normalize_event_types types = Inr allowed"
    "outbox_ok c t m allowed (d, took)" "length (pending d c t m) \<le> k * n"
  shows "\<exists>d'. drain k c t m limit types now (d, took) =
    (d', filter (in_scope t m allowed) (events d)) \<and> events d' = events d"
  using assms(4,5)
proof (induction k arbitrary: d took)
  case 0
  let ?p = "cursor_position d c t m"
  have "filter (\<lambda>e. in_scope t m allowed e \<and> ev_seq e \<le> ?p) (events d) =
      filter (in_scope t m allowed) (events d)"
    using 0(2) by (intro filter_cong) (auto simp: pending_def filter_empty_conv in_scope_def not_less)
  with 0(1) show ?case by (simp add: outbox_ok_def)
next
  case (Suc k)
  let ?p = "cursor_position d c t m"
  let ?b = "list_events_after_sequence d t m ?p n"
  let ?row = "\<lparr>cu_consumer = c, cu_tenant = t, cu_domain = m, cu_last = end_seq ?p ?b, cu_updated_at = now\<rparr>"
  let ?d = "upsert_cursor ?row d"
  obtain r where run: "dispatch_runtime_outbox_batch c t m (deliver (\<lambda>_. True)) limit types now (d, took) =
      (r, (?d, took @ filter (type_allowed allowed) ?b))"
    using dispatch_batch_deliver [OF assms(1-3), where up = "\<lambda>_. True" and now = now and d = d and took = took] by (auto simp: through_all)
  have ok: "outbox_ok c t m allowed (?d, took @ filter (type_allowed allowed) ?b)"
    using outbox_ok_dispatched [OF assms(3) Suc.prems(1) run] .
  have ev: "events_ok d" using Suc.prems(1) by (simp add: outbox_ok_def)
  have b: "?b = take n (pending d c t m)"
    by (simp add: list_events_after_sequence_def pending_def sorted_filter_events [OF ev])
  have q: "cursor_position ?d c t m = end_seq ?p ?b"
    using find_cursor_upsert(2) [of ?row d] by simp
  have "pending ?d c t m = drop n (pending d c t m)"
  proof (cases "?b = []")
    case True
    then have "pending d c t m = [] \<or> n = 0" using b by auto
    moreover have "n \<noteq> 0" using assms(2) by (auto simp: validate_limit_def split: if_splits)
    ultimately show ?thesis using q True by (simp add: pending_def end_seq_def)
  next
    case False
    have sorted: "sorted_wrt (<) (map ev_seq (pending d c t m))"
      using ev by (simp add: events_ok_def pending_def sorted_wrt_map sorted_wrt_filter)
    have "?p < ev_seq (last ?b)" using batch_members False by (metis last_in_set)
    then have "filter (\<lambda>e. ev_tenant e = t \<and> ev_domain e = m \<and> ev_seq (last ?b) < ev_seq e) (events d) =
        filter (\<lambda>e. ev_seq (last ?b) < ev_seq e) (pending d c t m)"
      unfolding pending_def by (rule filter_further)
    then have "pending ?d c t m = filter (\<lambda>e. ev_seq (last ?b) < ev_seq e) (pending d c t m)"
      unfolding pending_def [of ?d] q upsert_cursor_frame using False by (simp only: end_seq_def if_False)
    then show ?thesis
      using filter_after [of ev_seq "take n (pending d c t m)" "drop n (pending d c t m)"] sorted False b
      by simp
  qed
  then have "length (pending ?d c t m) \<le> k * n" using Suc.prems(2) by simp
  from Suc.IH [OF ok this] run show ?case by simp
qed

text \<open>
  C35: Nothing is stuck: from every reachable state, once the callback stops failing, enough batches
  (their sizes adding up to the number of pending events) hand over everything: the consumer has
  then taken all events of its scope and types that are in the log.
\<close>

theorem outbox_drains:
  assumes "normalize_event_types types = Inr allowed"
    "(outbox_step c t m types)\<^sup>*\<^sup>* (empty_db, []) (d, took)"
    "validate_scope c t m = Inr ()" "validate_limit limit = Inr n"
    "length (pending d c t m) \<le> k * n"
  shows "snd (drain k c t m limit types now (d, took)) = filter (in_scope t m allowed) (events d)"
  using drain_all [OF assms(3,4,1) outbox_run_ok [OF assms(1,2)] assms(5), of now] by auto

lemma sample_outbox_run:
  "(outbox_step ''c'' ''t'' ''d'' None)\<^sup>*\<^sup>* (empty_db, []) (snd (append_event sample_envelope empty_db), [])"
  using outbox_step.appended [of sample_envelope empty_db "fst (append_event sample_envelope empty_db)"
      "snd (append_event sample_envelope empty_db)" "''c''" "''t''" "''d''" None "[]"]
  by auto

theorem outbox_takes_each_event_once_in_order_witness:
  "\<exists>d took. (outbox_step ''c'' ''t'' ''d'' None)\<^sup>*\<^sup>* (empty_db, []) (d, took) \<and> length (events d) = 1
     \<and> cursor_position d ''c'' ''t'' ''d'' < next_seq d"
proof -
  let ?d = "snd (append_event sample_envelope empty_db)"
  have "length (events ?d) = 1" by code_simp
  with outbox_takes_each_event_once_in_order [OF _ sample_outbox_run, of None] sample_outbox_run
  show ?thesis by (fastforce simp: normalize_event_types_def)
qed

theorem outbox_drains_witness:
  "map ev_id (snd (drain 1 ''c'' ''t'' ''d'' 10 None ''now'' (snd (append_event sample_envelope empty_db), []))) =
     [''flag-created-1'']"
proof -
  let ?d = "snd (append_event sample_envelope empty_db)"
  have "validate_scope ''c'' ''t'' ''d'' = Inr ()" "validate_limit 10 = Inr 10"
    "length (pending ?d ''c'' ''t'' ''d'') \<le> 1 * 10"
    "map ev_id (filter (in_scope ''t'' ''d'' None) (events ?d)) = [''flag-created-1'']" by code_simp+
  with outbox_drains [OF _ sample_outbox_run, of None 10 10 1 "''now''"] show ?thesis
    by (simp add: normalize_event_types_def)
qed

end
