(* ===== verification/Capabilities.thy ===== *)
theory Capabilities
  imports Command_Boundary
begin

text \<open>
  Capability decisions, \<open>src/onetruth/application/services/capabilities/\<close>: pure functions that say
  whether a principal may act on a task, an approval, a flag or an artifact, with the reasons when
  not. The policy evaluators that \<open>_execute_decision\<close> calls are an argument: what they return, or
  that they raise a command error.
\<close>

record decision_reason =
  dr_code :: string
  dr_details :: dict

record capability_decision =
  cd_capability :: string
  cd_allowed :: bool
  cd_reasons :: "decision_reason list"

definition reason :: "string \<Rightarrow> dict \<Rightarrow> decision_reason" where
  "reason code details = \<lparr>dr_code = code, dr_details = details\<rparr>"

definition allow :: "string \<Rightarrow> capability_decision" where
  "allow capability_id = \<lparr>cd_capability = capability_id, cd_allowed = True, cd_reasons = []\<rparr>"

definition deny :: "string \<Rightarrow> decision_reason list \<Rightarrow> capability_decision" where
  "deny capability_id reasons =
     \<lparr>cd_capability = capability_id, cd_allowed = False, cd_reasons = reasons\<rparr>"

definition str_list :: "string list \<Rightarrow> json" where
  "str_list xs = JArr (map JStr xs)"

text \<open>\<open>value or None\<close> for a string.\<close>

definition or_none :: "string \<Rightarrow> json" where
  "or_none s = (if s = [] then JNull else JStr s)"

definition text_or_empty :: "string option \<Rightarrow> string" where
  "text_or_empty v = (case v of None \<Rightarrow> [] | Some s \<Rightarrow> s)"

definition roles_intersect :: "string list \<Rightarrow> string list \<Rightarrow> bool" where
  "roles_intersect left right \<longleftrightarrow> list_ex (\<lambda>r. r \<in> set right) left"

section \<open>Projections of decisions\<close>

definition project_available_actions :: "(string \<times> capability_decision) list \<Rightarrow> string list" where
  "project_available_actions actions = map fst (filter (\<lambda>p. cd_allowed (snd p)) actions)"

definition legacy_reason_code :: "decision_reason \<Rightarrow> string" where
  "legacy_reason_code r =
     (let item = (\<lambda>k. py_strip (py_str (py_or (jget (dr_details r) k) (JStr []))))
      in if dr_code r = ''required_upload_missing'' \<and> item ''dataset_key'' \<noteq> []
         then dr_code r @ '':'' @ item ''dataset_key''
         else if dr_code r = ''required_review_confirmation_missing'' \<and> item ''artifact_kind'' \<noteq> []
         then dr_code r @ '':'' @ item ''artifact_kind''
         else dr_code r)"

fun first_occurrences :: "'a list \<Rightarrow> 'a list \<Rightarrow> 'a list" where
  "first_occurrences seen [] = []"
| "first_occurrences seen (x # xs) =
     (if x \<in> set seen then first_occurrences seen xs else x # first_occurrences (x # seen) xs)"

definition legacy_reason_codes :: "decision_reason list \<Rightarrow> string list" where
  "legacy_reason_codes reasons = first_occurrences [] (map legacy_reason_code reasons)"

definition decision_reason_payloads :: "decision_reason list \<Rightarrow> json list" where
  "decision_reason_payloads reasons =
     map (\<lambda>r. JObj [(''code'', JStr (dr_code r)), (''details'', JObj (dr_details r))]) reasons"

definition decision_denial_details :: "capability_decision \<Rightarrow> dict \<Rightarrow> dict" where
  "decision_denial_details decision details =
     details @ [(''capability_id'', JStr (cd_capability decision)),
       (''reason_codes'', str_list (legacy_reason_codes (cd_reasons decision))),
       (''reasons'', JArr (decision_reason_payloads (cd_reasons decision)))]"

definition decision_has_reason :: "capability_decision \<Rightarrow> string \<Rightarrow> bool" where
  "decision_has_reason decision code \<longleftrightarrow> list_ex (\<lambda>r. dr_code r = code) (cd_reasons decision)"

section \<open>Approvals, artifacts and flags\<close>

definition respond_decision :: "approval_row \<Rightarrow> principal \<Rightarrow> capability_decision" where
  "respond_decision approval actor =
     (let required_role = text_or_empty (ap_required_role approval);
          role_match = (if required_role \<noteq> [] then required_role \<in> set (pr_actor_roles actor)
            else roles_intersect (ap_roles approval) (pr_actor_roles actor));
          pending = (ap_state approval = ''PENDING'')
      in if pending \<and> role_match then allow ''approval.respond''
         else deny ''approval.respond''
           ((if \<not> pending then [reason ''approval_not_pending'' [(''state'', JStr (ap_state approval))]] else []) @
            (if pending \<and> \<not> role_match then [reason ''approval_role_mismatch''
               [(''required_role'', or_none required_role),
                (''candidate_roles'', str_list (ap_roles approval)),
                (''actor_roles'', str_list (pr_actor_roles actor))]] else [])))"

definition upload_decision :: capability_decision where
  "upload_decision = allow ''artifact.upload''"

definition download_decision :: "int \<Rightarrow> capability_decision" where
  "download_decision linked_artifact_count =
     (if 0 < linked_artifact_count then allow ''artifact.download''
      else deny ''artifact.download'' [reason ''no_linked_artifacts''
        [(''linked_artifact_count'', JInt linked_artifact_count)]])"

definition flag_transition_roles :: "string list" where
  "flag_transition_roles =
     [''dispatch_supervisor'', ''operations_manager'', ''fleet_coordinator'', ''schedule_planner'']"

definition transition_decision :: "flag_row \<Rightarrow> principal \<Rightarrow> capability_decision" where
  "transition_decision flag actor =
     (let active = (fl_state flag \<in> set active_flag_states);
          role_match = roles_intersect flag_transition_roles (pr_actor_roles actor)
      in if active \<and> role_match then allow ''flag.transition''
         else deny ''flag.transition''
           ((if \<not> active then [reason ''flag_not_active'' [(''state'', JStr (fl_state flag))]] else []) @
            (if active \<and> \<not> role_match then [reason ''flag_transition_role_mismatch''
               [(''actor_roles'', str_list (pr_actor_roles actor)),
                (''allowed_roles'', str_list (sort flag_transition_roles))]] else [])))"

section \<open>Tasks\<close>

definition is_assignee :: "human_task_row \<Rightarrow> principal \<Rightarrow> bool" where
  "is_assignee task actor \<longleftrightarrow>
     ht_state task = ''CLAIMED''
     \<and> text_or_empty (ht_assignee_id task) = pr_actor_id actor
     \<and> text_or_empty (ht_assignee_type task) = pr_actor_type actor"

definition task_assignee_reason :: "human_task_row \<Rightarrow> principal \<Rightarrow> decision_reason" where
  "task_assignee_reason task actor =
     (if text_or_empty (ht_assignee_id task) \<noteq> []
      then reason ''claimed_by_other_actor''
        [(''assignee_actor_id'', or_none (text_or_empty (ht_assignee_id task))),
         (''assignee_actor_type'', or_none (text_or_empty (ht_assignee_type task))),
         (''actor_id'', JStr (pr_actor_id actor)), (''actor_type'', JStr (pr_actor_type actor))]
      else reason ''task_not_assigned_to_actor''
        [(''actor_id'', JStr (pr_actor_id actor)), (''actor_type'', JStr (pr_actor_type actor))])"

definition claim_decision :: "human_task_row \<Rightarrow> principal \<Rightarrow> capability_decision" where
  "claim_decision task actor =
     (let assignee = text_or_empty (ht_assignee_id task);
          role_match = (if ht_roles task \<noteq> [] then roles_intersect (ht_roles task) (pr_actor_roles actor)
            else True);
          is_open = (ht_state task = ''OPEN'')
      in if is_open \<and> assignee = [] \<and> role_match then allow ''task.claim''
         else deny ''task.claim''
           ((if \<not> is_open then [reason ''task_not_open'' [(''state'', JStr (ht_state task))]] else []) @
            (if assignee \<noteq> [] then [reason ''task_already_assigned''
               [(''assignee_actor_id'', or_none assignee),
                (''assignee_actor_type'', or_none (text_or_empty (ht_assignee_type task)))]] else []) @
            (if is_open \<and> \<not> role_match then [reason ''candidate_role_mismatch''
               [(''candidate_roles'', str_list (ht_roles task)),
                (''actor_roles'', str_list (pr_actor_roles actor))]] else [])))"

definition complete_decision ::
    "human_task_row \<Rightarrow> principal \<Rightarrow> decision_reason list \<Rightarrow> capability_decision" where
  "complete_decision task actor requirement_reasons =
     (let own = (if ht_state task \<noteq> ''CLAIMED''
            then [reason ''task_not_claimed'' [(''state'', JStr (ht_state task))]]
            else if \<not> is_assignee task actor then [task_assignee_reason task actor] else [])
      in if ht_state task = ''CLAIMED'' \<and> is_assignee task actor \<and> requirement_reasons = []
         then allow ''task.complete''
         else deny ''task.complete'' (if own = [] then requirement_reasons else own))"

definition confirm_review_decision ::
    "human_task_row \<Rightarrow> principal \<Rightarrow> bool \<Rightarrow> capability_decision" where
  "confirm_review_decision task actor has_pending_review_confirmation =
     (if is_assignee task actor \<and> has_pending_review_confirmation then allow ''task.confirm_review''
      else deny ''task.confirm_review''
        ((if \<not> is_assignee task actor then [task_assignee_reason task actor] else []) @
         (if \<not> has_pending_review_confirmation then [reason ''review_confirmation_not_pending'' []] else [])))"

definition execute_decision ::
    "string \<Rightarrow> human_task_row \<Rightarrow> string \<Rightarrow> principal \<Rightarrow> string \<Rightarrow> string \<Rightarrow>
     (string \<Rightarrow> string list \<Rightarrow> string option) \<Rightarrow> capability_decision" where
  "execute_decision capability_id task stage_id actor expected_stage_id expected_task_kind evaluator =
     (let reasons =
        (if \<not> is_assignee task actor then [task_assignee_reason task actor] else []) @
        (if stage_id \<noteq> expected_stage_id \<or> ht_kind task \<noteq> expected_task_kind
         then [reason ''task_execute_target_mismatch''
           [(''stage_id'', JStr stage_id), (''task_kind'', JStr (ht_kind task)),
            (''expected_stage_id'', JStr expected_stage_id),
            (''expected_task_kind'', JStr expected_task_kind)]] else [])
      in if reasons \<noteq> [] then deny capability_id reasons
         else case evaluator (pr_actor_type actor) (pr_actor_roles actor) of
             None \<Rightarrow> deny capability_id [reason ''task_policy_check_failed'' []]
           | Some decision \<Rightarrow> if decision \<noteq> ''allow''
               then deny capability_id [reason ''task_policy_denied'' [(''policy_decision'', JStr decision)]]
               else allow capability_id)"

definition execute_stage06_agent_review_decision ::
    "(string \<Rightarrow> string list \<Rightarrow> string option) \<Rightarrow> human_task_row \<Rightarrow> string \<Rightarrow> principal \<Rightarrow>
     capability_decision" where
  "execute_stage06_agent_review_decision evaluator task stage_id actor =
     execute_decision ''task.execute.stage06_agent_review'' task stage_id actor ''Stage06''
       ''review_packet'' evaluator"

definition execute_weekly_stage04_openai_agent_decision ::
    "(string \<Rightarrow> string list \<Rightarrow> string option) \<Rightarrow> human_task_row \<Rightarrow> string \<Rightarrow> principal \<Rightarrow>
     capability_decision" where
  "execute_weekly_stage04_openai_agent_decision evaluator task stage_id actor =
     execute_decision ''task.execute.weekly_stage04_openai_agent'' task stage_id actor ''Stage04''
       ''work_item'' evaluator"

section \<open>Facts\<close>

lemma decision_simps [simp]:
  "cd_allowed (allow c)" "\<not> cd_allowed (deny c rs)" "cd_reasons (allow c) = []" "cd_reasons (deny c rs) = rs"
  by (simp_all add: allow_def deny_def)

lemma roles_intersect_iff: "roles_intersect xs ys \<longleftrightarrow> set xs \<inter> set ys \<noteq> {}"
  by (auto simp: roles_intersect_def list_ex_iff)

lemma set_first_occurrences: "set (first_occurrences seen xs) = set xs - set seen"
  by (induction xs arbitrary: seen) auto

lemma distinct_first_occurrences: "distinct (first_occurrences seen xs)"
  by (induction xs arbitrary: seen) (auto simp: set_first_occurrences)

text \<open>
  Every decision explains itself: it denies exactly when it gives a reason, so a denial is never
  silent and an allowed action carries no reason.
\<close>

lemma decisions_deny_with_reasons:
  "(cd_allowed (claim_decision task p) \<longleftrightarrow> cd_reasons (claim_decision task p) = [])
   \<and> (cd_allowed (complete_decision task p rs) \<longleftrightarrow> cd_reasons (complete_decision task p rs) = [])
   \<and> (cd_allowed (confirm_review_decision task p pending) \<longleftrightarrow>
        cd_reasons (confirm_review_decision task p pending) = [])
   \<and> (cd_allowed (execute_decision c task stage p stage' expected evaluator) \<longleftrightarrow>
        cd_reasons (execute_decision c task stage p stage' expected evaluator) = [])
   \<and> (cd_allowed (respond_decision approval p) \<longleftrightarrow> cd_reasons (respond_decision approval p) = [])
   \<and> (cd_allowed (transition_decision flag p) \<longleftrightarrow> cd_reasons (transition_decision flag p) = [])
   \<and> (cd_allowed (download_decision n) \<longleftrightarrow> cd_reasons (download_decision n) = [])"
  by (intro conjI)
    (simp_all add: claim_decision_def complete_decision_def confirm_review_decision_def is_assignee_def
      execute_decision_def respond_decision_def transition_decision_def download_decision_def Let_def
      split: option.split)

text \<open>
  Who may act on a human task: claiming needs an open, unassigned task and one of its candidate
  roles when it lists any; completing needs the actor who claimed it and no open requirement.
\<close>

lemma task_decisions_authorize:
  "(cd_allowed (claim_decision task p) \<longleftrightarrow>
      ht_state task = ''OPEN'' \<and> ht_assignee_id task \<in> {None, Some []}
      \<and> (ht_roles task = [] \<or> (\<exists>r\<in>set (ht_roles task). r \<in> set (pr_actor_roles p))))
   \<and> (cd_allowed (complete_decision task p requirement_reasons) \<longleftrightarrow>
      ht_state task = ''CLAIMED'' \<and> requirement_reasons = []
      \<and> text_or_empty (ht_assignee_id task) = pr_actor_id p
      \<and> text_or_empty (ht_assignee_type task) = pr_actor_type p)"
  by (auto simp: claim_decision_def complete_decision_def Let_def is_assignee_def roles_intersect_iff
    text_or_empty_def split: option.splits)

end
