(* ===== verification/Lifecycle.thy ===== *)
theory Lifecycle
  imports Store
begin

text \<open>
  The interface shared by every table whose rows carry a status (a text, an abstract state or the row
  itself): each operation of the component leaves it alone or moves it along an allowed edge. What the rest relies on is
  proved here once: along any sequence of operations a row follows a path of allowed edges, and
  a row in a status without outgoing edges keeps it for good.
\<close>

locale lifecycle =
  fixes status :: "'s \<Rightarrow> 'i \<Rightarrow> 'x option"
    and step :: "'op \<Rightarrow> 's \<Rightarrow> 's"
    and moves :: "'x \<Rightarrow> 'x \<Rightarrow> bool"
  assumes step_moves:
    "status s i = Some x \<Longrightarrow> \<exists>y. status (step op s) i = Some y \<and> (y = x \<or> moves x y)"
begin

lemma run_path:
  "status s i = Some x \<Longrightarrow> \<exists>y. status (fold step ops s) i = Some y \<and> moves\<^sup>*\<^sup>* x y"
proof (induction ops arbitrary: s x)
  case (Cons op ops)
  obtain y where y: "status (step op s) i = Some y" "y = x \<or> moves x y"
    using step_moves [OF Cons.prems] by blast
  obtain z where "status (fold step ops (step op s)) i = Some z" "moves\<^sup>*\<^sup>* y z"
    using Cons.IH [OF y(1)] by blast
  with y(2) show ?case by (auto intro: converse_rtranclp_into_rtranclp)
qed auto

lemma final_stays:
  assumes "\<And>y. \<not> moves x y" "status s i = Some x"
  shows "status (fold step ops s) i = Some x"
proof -
  obtain y where "status (fold step ops s) i = Some y" "moves\<^sup>*\<^sup>* x y"
    using run_path [OF assms(2)] by blast
  with assms(1) show ?thesis by (metis converse_rtranclpE)
qed

text \<open>A set of statuses that no edge leaves is never left.\<close>

lemma closed_set_stays:
  assumes "\<And>x y. x \<in> A \<Longrightarrow> moves x y \<Longrightarrow> y \<in> A" "status s i = Some x" "x \<in> A"
  shows "\<exists>y\<in>A. status (fold step ops s) i = Some y"
proof -
  obtain y where y: "status (fold step ops s) i = Some y" "moves\<^sup>*\<^sup>* x y"
    using run_path [OF assms(2)] by blast
  from y(2) assms(3) have "y \<in> A"
    by (induction rule: rtranclp_induct) (auto intro: assms(1))
  with y(1) show ?thesis by blast
qed

end

section \<open>Guarded updates\<close>

text \<open>
  \<open>UPDATE ... SET f WHERE key = i AND q\<close> followed by the check that it changed one row, and by
  reading the row back. Under a unique key it changes the row with that key, if its guard holds.
\<close>

lemma guarded_update_row:
  assumes "distinct (map k rows)" "\<And>r. k (f r) = k r"
  shows "row_count (\<lambda>r. k r = i \<and> q r) rows = 1 \<longleftrightarrow>
      (\<exists>r. select_one (\<lambda>r. k r = i) rows = Some r \<and> q r)"
    and "select_one (\<lambda>r. k r = i) rows = Some r \<Longrightarrow> q r \<Longrightarrow>
      select_one (\<lambda>r. k r = i) (update_where (\<lambda>r. k r = i \<and> q r) f rows) = Some (f r)"
    and "distinct (map k (update_where (\<lambda>r. k r = i \<and> q r) f rows))"
  using assms
  by (auto simp: row_count_key select_key_update map_update_where split: option.split)

text \<open>An update of the status column moves statuses along the edges its guard allows.\<close>

lemma status_update:
  assumes "\<And>r. k (f r) = k r" "map_option st (select_one (\<lambda>r. k r = i) rows) = Some x"
    and "\<And>r. p r \<Longrightarrow> st r = x \<Longrightarrow> st (f r) = x \<or> moves x (st (f r))"
  shows "\<exists>y. map_option st (select_one (\<lambda>r. k r = i) (update_where p f rows)) = Some y
    \<and> (y = x \<or> moves x y)"
proof -
  obtain r where r: "select_one (\<lambda>r. k r = i) rows = Some r" "st r = x"
    using assms(2) by (auto split: option.splits)
  have "select_one (\<lambda>r. k r = i) (update_where p f rows) = Some (if p r then f r else r)"
    using r(1) assms(1) by (induction rows) (auto simp: update_where_def split: if_splits)
  then show ?thesis using assms(3) [of r] r(2) by auto
qed

text \<open>Setting the status of the row that was read and found movable.\<close>

lemma status_set:
  assumes "\<And>r. k (f r) = k r" "\<And>r. st (f r) = y" "select_one (\<lambda>r. k r = j) rows = Some current"
    "y = st current \<or> moves (st current) y" "map_option st (select_one (\<lambda>r. k r = i) rows) = Some x"
  shows "\<exists>z. map_option st (select_one (\<lambda>r. k r = i) (update_where (\<lambda>r. k r = j) f rows)) = Some z
    \<and> (z = x \<or> moves x z)"
  using assms select_row_updated [of k f i j rows] by (cases "i = j") (auto simp: option.map_comp)

lemma status_append:
  assumes "map_option st (select_one p rows) = Some x"
  shows "map_option st (select_one p (rows @ ys)) = Some x"
  using assms by (auto simp: select_one_append split: option.splits)

end
