(* ===== verification/Flags.thy ===== *)
theory Flags
  imports Capabilities Lifecycle
begin

text \<open>
  Flags: \<open>src/onetruth/infrastructure/repositories/flags.py\<close> and the two public commands of
  \<open>src/onetruth/application/handlers/flags.py\<close>, \<open>create_flag_command\<close> and
  \<open>transition_flag_state_command\<close>. The activation of Stage07 tasks from flags
  is not modelled.
\<close>

section \<open>The table\<close>

definition insert_flag :: "flag_row \<Rightarrow> (unit, db) comp" where
  "insert_flag r d =
     (if exists_row (\<lambda>x. fl_id x = fl_id r) (flags d)
      then raise (IntegrityError ''UNIQUE constraint failed: flags.flag_id'') d
      else if fl_dedupe r \<noteq> None \<and> exists_row (\<lambda>x. fl_run x = fl_run r \<and> fl_dedupe x = fl_dedupe r) (flags d)
      then raise (IntegrityError ''UNIQUE constraint failed: flags.workflow_run_id, flags.dedupe_key'') d
      else if fl_run r \<notin> wr_id ` set (runs d) then raise fk_failed d
      else (Inr (), d\<lparr>flags := flags d @ [r]\<rparr>))"

definition create_flag ::
    "string \<Rightarrow> run_row \<Rightarrow> string \<Rightarrow> string \<Rightarrow> string \<Rightarrow> string \<Rightarrow> dict \<Rightarrow> string option \<Rightarrow> string \<Rightarrow>
     string option \<Rightarrow> string \<Rightarrow> string \<Rightarrow> string option \<Rightarrow> string option \<Rightarrow> (unit, db) comp" where
  "create_flag flag_id workflow_run flag_kind severity state summary details_json assigned_group created_at
       closed_at created_by_actor_id created_by_actor_type source_event_id dedupe_key =
     insert_flag \<lparr>fl_id = flag_id, fl_run = wr_id workflow_run, fl_tenant = wr_tenant workflow_run,
       fl_domain = wr_domain workflow_run, fl_workflow = wr_workflow workflow_run,
       fl_partition = wr_partition workflow_run, fl_kind = flag_kind, fl_severity = severity,
       fl_state = state, fl_summary = summary, fl_details = JObj details_json,
       fl_group = assigned_group, fl_created_at = created_at, fl_closed_at = closed_at,
       fl_actor_id = created_by_actor_id, fl_actor_type = created_by_actor_type,
       fl_source_event = source_event_id, fl_dedupe = dedupe_key, fl_updated_at = created_at\<rparr>"

definition get_flag :: "db \<Rightarrow> string \<Rightarrow> flag_row option" where
  "get_flag d flag_id = select_one (\<lambda>r. fl_id r = flag_id) (flags d)"

definition list_flags_for_workflow_run :: "db \<Rightarrow> string \<Rightarrow> flag_row list" where
  "list_flags_for_workflow_run d workflow_run_id =
     sort_key fl_created_at (sort_key fl_id (filter (\<lambda>r. fl_run r = workflow_run_id) (flags d)))"

definition list_open_flags_for_workflow_run :: "db \<Rightarrow> string \<Rightarrow> flag_row list" where
  "list_open_flags_for_workflow_run d workflow_run_id =
     sort_key fl_created_at (sort_key fl_id (filter
       (\<lambda>r. fl_run r = workflow_run_id \<and> fl_state r \<in> set active_flag_states) (flags d)))"

definition closing_states :: "string list" where
  "closing_states = [''closed'', ''waived'']"

definition transition_flag_state ::
    "string \<Rightarrow> string \<Rightarrow> string \<Rightarrow> string \<Rightarrow> (flag_row option, db) comp" where
  "transition_flag_state flag_id expected_from_state to_state updated_at d =
     (let closed_at = (if to_state \<in> set closing_states then Some updated_at else None);
          hit = (\<lambda>r. fl_id r = flag_id \<and> fl_state r = expected_from_state);
          d' = d\<lparr>flags := update_where hit
            (\<lambda>r. r\<lparr>fl_state := to_state, fl_closed_at := closed_at, fl_updated_at := updated_at\<rparr>)
            (flags d)\<rparr>
      in if row_count hit (flags d) \<noteq> 1 then (Inr None, d') else (Inr (get_flag d' flag_id), d'))"

definition flag_dict :: "flag_row \<Rightarrow> dict" where
  "flag_dict r =
     [(''flag_id'', JStr (fl_id r)), (''workflow_run_id'', JStr (fl_run r)),
      (''tenant_id'', JStr (fl_tenant r)), (''domain_id'', JStr (fl_domain r)),
      (''workflow_id'', JStr (fl_workflow r)), (''partition_key'', JStr (fl_partition r)),
      (''kind'', JStr (fl_kind r)), (''severity'', JStr (fl_severity r)), (''state'', JStr (fl_state r)),
      (''summary'', JStr (fl_summary r)), (''details_json'', fl_details r),
      (''assigned_group'', of_opt (fl_group r)), (''created_at'', JStr (fl_created_at r)),
      (''closed_at'', of_opt (fl_closed_at r)), (''created_by_actor_id'', JStr (fl_actor_id r)),
      (''created_by_actor_type'', JStr (fl_actor_type r)),
      (''source_event_id'', of_opt (fl_source_event r)), (''dedupe_key'', of_opt (fl_dedupe r)),
      (''updated_at'', JStr (fl_updated_at r))]"

section \<open>The commands\<close>

definition flag_states :: "string list" where
  "flag_states = [''open'', ''triage'', ''blocked'', ''resolved'', ''closed'', ''waived'']"

definition flag_severities :: "string list" where
  "flag_severities = [''info'', ''low'', ''medium'', ''high'', ''critical'']"

definition flag_allowed_transitions :: "string \<Rightarrow> string list" where
  "flag_allowed_transitions from_state = (case map_of
     [(''open'', [''triage'', ''blocked'', ''resolved'', ''closed'', ''waived'']),
      (''triage'', [''blocked'', ''resolved'', ''closed'', ''waived'']),
      (''blocked'', [''triage'', ''resolved'', ''closed'', ''waived'']),
      (''resolved'', [''closed'']),
      (''closed'', []),
      (''waived'', [])] from_state of None \<Rightarrow> [] | Some tos \<Rightarrow> tos)"

definition flag_dedupe_key :: "dict \<Rightarrow> string" where
  "flag_dedupe_key payload = (if jget payload ''dedupe_key'' \<noteq> JNull
     then py_str (jget payload ''dedupe_key'') else py_str (jget payload ''idempotency_key''))"

text \<open>Who created the flag: \<open>created_by\<close> if given (it must be an object), then the actor fields.\<close>

definition flag_creator :: "dict \<Rightarrow> (string \<times> string) result" where
  "flag_creator payload =
     rbind (case py_or (jget payload ''created_by'') (JObj []) of
              JObj kvs \<Rightarrow> Inr kvs | _ \<Rightarrow> Inl (OtherException ''AttributeError''))
       (\<lambda>created_by.
          let first = (\<lambda>a b c d. py_str (py_or (py_or (py_or (jget created_by a) (jget payload b))
                 (jget payload c)) (JStr d)))
          in Inr (first ''id'' ''actor_id'' ''created_by_actor_id'' ''system:runtime'',
                  first ''type'' ''actor_type'' ''created_by_actor_type'' ''system''))"

definition create_flag_operation ::
    "command_env \<Rightarrow> dict \<Rightarrow> string \<Rightarrow> string \<Rightarrow> string \<Rightarrow> dict \<Rightarrow> string option \<Rightarrow> (dict, db) comp" where
  "create_flag_operation env payload flag_id severity state details_json event_idempotency =
     seq (asks (\<lambda>d. get_workflow_run d (py_str (jget payload ''workflow_run_id'')))) (\<lambda>found.
     case found of
       None \<Rightarrow> raise (CommandError ''workflow_run_not_found'')
     | Some (workflow_run, _) \<Rightarrow>
         seq (of_result (flag_creator payload)) (\<lambda>creator.
         seq (of_result (assert_actor_type (snd creator))) (\<lambda>_.
         seq (create_flag flag_id workflow_run (py_str (jget payload ''kind'')) severity state
               (py_str (jget payload ''summary'')) details_json (opt_field payload ''assigned_group'')
               (ce_now env) (if state \<in> set closing_states then Some (ce_now env) else None)
               (fst creator) (snd creator) (opt_field payload ''source_event_id'')
               (Some (flag_dedupe_key payload))) (\<lambda>_.
         seq (of_result (event_envelope (ce_event_now env) (ce_event_uuid env) ''flag.created''
               (wr_tenant workflow_run) (wr_domain workflow_run) (snd creator) (fst creator)
               [link ''flag'' flag_id, link ''workflow_run'' (py_str (jget payload ''workflow_run_id''))]
               [(''flag_id'', JStr flag_id), (''flag_type'', JStr (py_str (jget payload ''kind''))),
                (''state'', JStr state), (''summary'', JStr (py_str (jget payload ''summary'')))]
               event_idempotency)) (\<lambda>envelope.
         seq (append_event envelope) (\<lambda>_.
         seq (asks (\<lambda>d. get_flag d flag_id)) (\<lambda>created.
         case created of
           None \<Rightarrow> raise (CommandError ''flag_not_found'')
         | Some flag \<Rightarrow> ret (flag_dict flag))))))))"

definition create_flag_error :: "exc \<Rightarrow> exc" where
  "create_flag_error e = (case e of
     IntegrityError message \<Rightarrow>
       if contains ''flags.flag_id'' message then CommandError ''duplicate_flag_id''
       else if contains ''uq_flags_workflow_dedupe_key'' message
          \<or> contains ''flags.workflow_run_id, flags.dedupe_key'' message
       then CommandError ''duplicate_flag_dedupe''
       else e
   | _ \<Rightarrow> e)"

definition create_flag_command :: "command_env \<Rightarrow> dict \<Rightarrow> bool \<Rightarrow> (dict, db) comp" where
  "create_flag_command env payload include_receipt =
     seq (of_result (require_fields payload
       [''workflow_run_id'', ''kind'', ''severity'', ''summary'', ''idempotency_key''])) (\<lambda>_.
     let severity = py_str (jget payload ''severity'');
         state = py_str (jget_default payload ''state'' (JStr ''open''));
         requested = jget payload ''flag_id'';
         flag_id = py_str (py_or requested (JStr (''fl-'' @ ce_row_uuid env))) in
     seq (of_result (require (severity \<in> set flag_severities) (CommandError ''invalid_flag_severity''))) (\<lambda>_.
     seq (of_result (require (state \<in> set flag_states) (CommandError ''invalid_flag_state''))) (\<lambda>_.
     case py_or (jget payload ''details_json'') (JObj []) of
       JObj details_json \<Rightarrow>
         seq (of_result (prepare_command_receipt ''flags.create'' payload
           [(''flag_id'', of_opt (opt_str requested)),
            (''workflow_run_id'', JStr (py_str (jget payload ''workflow_run_id''))),
            (''kind'', JStr (py_str (jget payload ''kind''))), (''severity'', JStr severity),
            (''state'', JStr state), (''summary'', JStr (py_str (jget payload ''summary''))),
            (''details_json'', JObj details_json),
            (''assigned_group'', of_opt (opt_field payload ''assigned_group'')),
            (''source_event_id'', of_opt (opt_field payload ''source_event_id'')),
            (''dedupe_key'', JStr (flag_dedupe_key payload)),
            (''created_by'', jget payload ''created_by''),
            (''actor_id'', jget_default payload ''actor_id'' (JStr ''system:runtime'')),
            (''actor_type'', jget_default payload ''actor_type'' (JStr ''system''))]
           None None (Some (py_str (jget payload ''workflow_run_id''))) True)) (\<lambda>receipt.
         seq (handle (execute_with_command_receipt receipt
               (create_flag_operation env payload flag_id severity state details_json
                 (receipt_event_idempotency_key receipt ''flags.create.flag.created'')))
             (\<lambda>e. raise (create_flag_error e))) (\<lambda>outcome.
         ret (command_receipt_payload (fst outcome) receipt (snd outcome) include_receipt)))
     | _ \<Rightarrow> raise (CommandError ''invalid_flag_details''))))"

definition transition_flag_operation ::
    "command_env \<Rightarrow> dict \<Rightarrow> flag_row \<Rightarrow> string \<Rightarrow> string \<Rightarrow> string option \<Rightarrow> (dict, db) comp" where
  "transition_flag_operation env payload current to_state actor_type event_idempotency =
     (let flag_id = py_str (jget payload ''flag_id''); from_state = fl_state current in
      if from_state = to_state then raise (CommandError ''illegal_flag_transition'')
      else if to_state \<notin> set (flag_allowed_transitions from_state)
      then raise (CommandError ''illegal_flag_transition'')
      else
        seq (transition_flag_state flag_id from_state to_state (ce_now env)) (\<lambda>updated.
        case updated of
          None \<Rightarrow> raise (CommandError ''flag_transition_conflict'')
        | Some flag \<Rightarrow>
            seq (\<lambda>d. (workflow_scope d (fl_run flag), d)) (\<lambda>scope.
            seq (of_result (event_envelope (ce_event_now env) (ce_event_uuid env) ''flag.state_changed''
                  (ws_tenant scope) (ws_domain scope) actor_type (py_str (jget payload ''actor_id''))
                  [link ''flag'' flag_id, link ''workflow_run'' (fl_run flag)]
                  [(''flag_id'', JStr flag_id), (''from_state'', JStr from_state),
                   (''to_state'', JStr to_state), (''reason'', of_opt (opt_field payload ''reason''))]
                  event_idempotency)) (\<lambda>envelope.
            seq (append_event envelope) (\<lambda>_.
            seq (asks (\<lambda>d. get_flag d flag_id)) (\<lambda>transitioned.
            case transitioned of
              None \<Rightarrow> raise (CommandError ''flag_not_found'')
            | Some flag' \<Rightarrow> ret (flag_dict flag')))))))"

definition transition_flag_state_command :: "command_env \<Rightarrow> dict \<Rightarrow> bool \<Rightarrow> (dict, db) comp" where
  "transition_flag_state_command env payload include_receipt d =
     seq (of_result (require_fields payload
       [''flag_id'', ''to_state'', ''actor_id'', ''actor_type'', ''idempotency_key''])) (\<lambda>_.
     let flag_id = py_str (jget payload ''flag_id'');
         to_state = py_str (jget payload ''to_state'');
         actor_type = py_str (jget payload ''actor_type'') in
     seq (of_result (require (to_state \<in> set flag_states) (CommandError ''invalid_flag_state''))) (\<lambda>_.
     seq (of_result (assert_actor_type actor_type)) (\<lambda>_.
     case get_flag d flag_id of
       None \<Rightarrow> raise (CommandError ''flag_not_found'')
     | Some current \<Rightarrow>
         seq (of_result (principal_from_payload payload True)) (\<lambda>actor.
         if decision_has_reason (transition_decision current actor) ''flag_transition_role_mismatch''
         then raise (CommandError ''flag_transition_forbidden'')
         else
           seq (of_result (prepare_command_receipt ''flags.transition'' payload
             [(''flag_id'', JStr flag_id), (''to_state'', JStr to_state),
              (''reason'', of_opt (opt_field payload ''reason'')),
              (''actor_id'', JStr (py_str (jget payload ''actor_id''))),
              (''actor_type'', JStr actor_type),
              (''actor_roles'', str_list (sorted_list_of_set (set (pr_actor_roles actor))))]
             (Some (fl_tenant current)) (Some (fl_domain current)) (Some (fl_run current)) True)) (\<lambda>receipt.
           seq (execute_with_command_receipt receipt
                 (transition_flag_operation env payload current to_state actor_type
                   (receipt_event_idempotency_key receipt ''flags.transition.flag.state_changed'')))
             (\<lambda>outcome.
           ret (command_receipt_payload (fst outcome) receipt (snd outcome) include_receipt))))))) d"

section \<open>The interface of the table\<close>

interpretation flag_ids: unique_table flags "\<lambda>r. Some (fl_id r)" insert_flag
  by unfold_locales (auto simp: insert_flag_def comp_simps split: if_splits)

interpretation flag_dedupe_keys: unique_table flags "\<lambda>r. map_option (Pair (fl_run r)) (fl_dedupe r)" insert_flag
  by unfold_locales (auto simp: insert_flag_def comp_simps split: if_splits)

definition flag_row_ok :: "flag_row \<Rightarrow> bool" where
  "flag_row_ok r \<longleftrightarrow> fl_state r \<in> set flag_states \<and> (fl_closed_at r \<noteq> None \<longleftrightarrow> fl_state r \<in> set closing_states)"

text \<open>Unique ids and keys, legal states, and a closing time exactly in the closing states.\<close>

definition flags_ok :: "db \<Rightarrow> bool" where
  "flags_ok d \<longleftrightarrow> unique_keys (\<lambda>r. Some (fl_id r)) (flags d)
     \<and> unique_keys (\<lambda>r. map_option (Pair (fl_run r)) (fl_dedupe r)) (flags d)
     \<and> (\<forall>r\<in>set (flags d). flag_row_ok r)"

lemma insert_flag_Inr: "insert_flag r d = (Inr u, d') \<Longrightarrow> d' = d\<lparr>flags := flags d @ [r]\<rparr>"
  by (simp add: insert_flag_def comp_apply split: if_splits)

definition moved_flag :: "string \<Rightarrow> string \<Rightarrow> flag_row \<Rightarrow> flag_row" where
  "moved_flag now to_state r = r\<lparr>fl_state := to_state,
     fl_closed_at := (if to_state \<in> set closing_states then Some now else None), fl_updated_at := now\<rparr>"

lemma moved_flag_key [simp]: "fl_id (moved_flag now s r) = fl_id r"
  "fl_run (moved_flag now s r) = fl_run r" "fl_dedupe (moved_flag now s r) = fl_dedupe r"
  "fl_state (moved_flag now s r) = s"
  by (simp_all add: moved_flag_def)

lemma transition_flag_state_eq:
  "transition_flag_state i s s' now d =
    (let d' = d\<lparr>flags := update_where (\<lambda>r. fl_id r = i \<and> fl_state r = s) (moved_flag now s') (flags d)\<rparr>
     in (Inr (if row_count (\<lambda>r. fl_id r = i \<and> fl_state r = s) (flags d) \<noteq> 1 then None else get_flag d' i), d'))"
  by (simp add: transition_flag_state_def Let_def moved_flag_def [abs_def])

section \<open>What the commands do\<close>

lemma create_flag_operation_Inr:
  assumes "create_flag_operation env payload flag_id severity state details key d = (Inr outcome, d')"
  shows "\<exists>r u. insert_flag r d = (Inr u, d\<lparr>flags := flags d @ [r]\<rparr>) \<and> fl_id r = flag_id
    \<and> fl_run r = py_str (jget payload ''workflow_run_id'') \<and> fl_state r = state
    \<and> fl_closed_at r = (if state \<in> set closing_states then Some (ce_now env) else None)
    \<and> d' = d\<lparr>flags := flags d @ [r], events := events d', next_seq := next_seq d'\<rparr>
    \<and> length (events d') = Suc (length (events d))"
proof -
  from assms obtain w n creator u d1 envelope i where
    w: "get_workflow_run d (py_str (jget payload ''workflow_run_id'')) = Some (w, n)"
    and create: "create_flag flag_id w (py_str (jget payload ''kind'')) severity state
        (py_str (jget payload ''summary'')) details (opt_field payload ''assigned_group'') (ce_now env)
        (if state \<in> set closing_states then Some (ce_now env) else None) (fst creator) (snd creator)
        (opt_field payload ''source_event_id'') (Some (flag_dedupe_key payload)) d = (Inr u, d1)"
    and append: "append_event envelope d1 = (Inr i, d')"
    unfolding create_flag_operation_def seq_eq_Inr seq_of_result_Inr comp_apply
    by (auto simp: seq_eq_Inr seq_of_result_Inr comp_apply split: option.splits prod.splits)
  from create obtain r where r: "insert_flag r d = (Inr u, d1)" "fl_id r = flag_id" "fl_state r = state"
    "fl_run r = wr_id w" "fl_closed_at r = (if state \<in> set closing_states then Some (ce_now env) else None)"
    unfolding create_flag_def by (rule that) simp_all
  from w have "wr_id w = py_str (jget payload ''workflow_run_id'')"
    by (auto simp: get_workflow_run_def dest: select_one_Some)
  with r append_event_Inr [OF append] insert_flag_Inr [OF r(1)] show ?thesis
    by (intro exI [of _ r]) auto
qed

lemma transition_flag_operation_Inr:
  assumes "transition_flag_operation env payload current to_state actor_type key d = (Inr outcome, d')"
  defines "i \<equiv> py_str (jget payload ''flag_id'')"
  shows "to_state \<in> set (flag_allowed_transitions (fl_state current))
    \<and> d' = d\<lparr>flags := update_where (\<lambda>r. fl_id r = i \<and> fl_state r = fl_state current)
          (moved_flag (ce_now env) to_state) (flags d), events := events d', next_seq := next_seq d'\<rparr>
    \<and> row_count (\<lambda>r. fl_id r = i \<and> fl_state r = fl_state current) (flags d) = 1
    \<and> length (events d') = Suc (length (events d))"
proof -
  have allowed: "to_state \<in> set (flag_allowed_transitions (fl_state current))" "fl_state current \<noteq> to_state"
    using assms(1) by (auto simp: transition_flag_operation_def Let_def comp_apply split: if_splits)
  with assms(1) obtain flag d1 envelope j where
    move: "transition_flag_state i (fl_state current) to_state (ce_now env) d = (Inr (Some flag), d1)"
    and append: "append_event envelope d1 = (Inr j, d')"
    unfolding transition_flag_operation_def Let_def i_def
    by (auto simp: seq_eq_Inr seq_of_result_Inr comp_apply split: option.splits)
  from move allowed append_event_Inr [OF append] show ?thesis
    by (auto simp: transition_flag_state_eq Let_def split: if_splits)
qed

lemma atomic_create_flag_command: "atomic (create_flag_command env payload include_receipt)"
  unfolding create_flag_command_def Let_def
  by (intro atomic_check atomic_basic atomic_finish [OF _ refl] atomic_reraise atomic_execute
    | split json.split | intro conjI allI impI)+

lemma atomic_transition_flag_command: "atomic (transition_flag_state_command env payload include_receipt)"
  unfolding transition_flag_state_command_def Let_def
  by (rule atomic_here)
    (intro atomic_check atomic_basic atomic_finish [OF _ refl] atomic_execute
      | split option.split if_split | intro conjI allI impI)+

lemma create_flag_command_cases:
  assumes "create_flag_command env payload include_receipt d = (r, d')"
  obtains "d' = d"
  | row u where "insert_flag row d = (Inr u, d\<lparr>flags := flags d @ [row]\<rparr>)" "flags d' = flags d @ [row]"
      "flag_row_ok row" "runs d' = runs d"
proof (cases r)
  case (Inl e)
  with atomicD [OF atomic_create_flag_command] assms that(1) show thesis by blast
next
  case (Inr outcome)
  from assms obtain details flag_id severity state key receipt x where
    state: "state \<in> set flag_states"
    and run: "execute_with_command_receipt receipt
      (create_flag_operation env payload flag_id severity state details key) d = (Inr x, d')"
    unfolding create_flag_command_def Let_def Inr
    by (auto simp: seq_eq_Inr seq_of_result_Inr handle_raise_Inr comp_apply split: json.splits)
  show thesis
  proof (cases rule: execute_cases [OF run])
    case (2 res d1)
    from create_flag_operation_Inr [OF 2(2)] obtain row u where
      row: "insert_flag row d = (Inr u, d\<lparr>flags := flags d @ [row]\<rparr>)" "fl_state row = state"
        "fl_closed_at row = (if state \<in> set closing_states then Some (ce_now env) else None)"
      and d1: "d1 = d\<lparr>flags := flags d @ [row], events := events d1, next_seq := next_seq d1\<rparr>"
      by blast
    have "flags d' = flags d1" "runs d' = runs d1"
      using arg_cong [OF 2(5), of flags] arg_cong [OF 2(5), of runs] by simp_all
    moreover have "flags d1 = flags d @ [row]" "runs d1 = runs d"
      using arg_cong [OF d1, of flags] arg_cong [OF d1, of runs] by simp_all
    ultimately show thesis
      using that(2) [OF row(1)] row(2,3) state by (simp add: flag_row_ok_def)
  qed (use that(1) in simp)
qed

lemma transition_flag_command_cases:
  assumes "transition_flag_state_command env payload include_receipt d = (r, d')"
  defines "i \<equiv> py_str (jget payload ''flag_id'')" and "to_state \<equiv> py_str (jget payload ''to_state'')"
  obtains "d' = d"
  | current actor where "get_flag d i = Some current" "principal_from_payload payload True = Inr actor"
      "\<not> decision_has_reason (transition_decision current actor) ''flag_transition_role_mismatch''"
      "to_state \<in> set flag_states" "to_state \<in> set (flag_allowed_transitions (fl_state current))"
      "flags d' = update_where (\<lambda>r. fl_id r = i \<and> fl_state r = fl_state current)
          (moved_flag (ce_now env) to_state) (flags d)"
      "length (events d') = Suc (length (events d))" "runs d' = runs d"
proof (cases r)
  case (Inl e)
  with atomicD [OF atomic_transition_flag_command] assms that(1) show thesis by blast
next
  case (Inr outcome)
  from assms(1) obtain current actor receipt key x where
    found: "get_flag d i = Some current" "principal_from_payload payload True = Inr actor"
      "\<not> decision_has_reason (transition_decision current actor) ''flag_transition_role_mismatch''"
      "to_state \<in> set flag_states"
    and run: "execute_with_command_receipt receipt
      (transition_flag_operation env payload current to_state (py_str (jget payload ''actor_type'')) key) d =
      (Inr x, d')"
    unfolding transition_flag_state_command_def Let_def Inr i_def to_state_def
    by (auto simp: seq_eq_Inr seq_of_result_Inr comp_apply split: option.splits if_splits)
  show thesis
  proof (cases rule: execute_cases [OF run])
    case (2 res d1)
    note op = transition_flag_operation_Inr [OF 2(2), folded i_def]
    from op have d1: "d1 = d\<lparr>flags := update_where (\<lambda>r. fl_id r = i \<and> fl_state r = fl_state current)
          (moved_flag (ce_now env) to_state) (flags d), events := events d1, next_seq := next_seq d1\<rparr>"
      by blast
    have "flags d' = flags d1" "events d' = events d1" "runs d' = runs d1"
      using arg_cong [OF 2(5), of flags] arg_cong [OF 2(5), of events] arg_cong [OF 2(5), of runs]
      by simp_all
    moreover have "flags d1 = update_where (\<lambda>r. fl_id r = i \<and> fl_state r = fl_state current)
        (moved_flag (ce_now env) to_state) (flags d)" "runs d1 = runs d"
      using arg_cong [OF d1, of flags] arg_cong [OF d1, of runs] by simp_all
    ultimately show thesis
      using that(2) [OF found] op by simp
  qed (use that(1) in simp)
qed

section \<open>Flags as a state machine\<close>

datatype flag_op = Create_Flag command_env dict bool | Transition_Flag command_env dict bool

fun run_flag_op :: "flag_op \<Rightarrow> db \<Rightarrow> db" where
  "run_flag_op (Create_Flag env payload include_receipt) d = snd (create_flag_command env payload include_receipt d)"
| "run_flag_op (Transition_Flag env payload include_receipt) d =
     snd (transition_flag_state_command env payload include_receipt d)"

definition flag_status :: "db \<Rightarrow> string \<Rightarrow> string option" where
  "flag_status d i = map_option fl_state (get_flag d i)"

definition flag_moves :: "string \<Rightarrow> string \<Rightarrow> bool" where
  "flag_moves x y \<longleftrightarrow> y \<in> set (flag_allowed_transitions x)"

lemma get_flag_moved:
  assumes "flags d' = update_where (\<lambda>r. fl_id r = i \<and> fl_state r = s) (moved_flag now s') (flags d)"
  shows "get_flag d' j = map_option (\<lambda>r. if j = i \<and> fl_state r = s then moved_flag now s' r else r) (get_flag d j)"
proof (cases "j = i")
  case True
  then show ?thesis
    unfolding get_flag_def assms
    by (simp add: select_key_update [where k = fl_id])
next
  case False
  then show ?thesis
    unfolding get_flag_def assms
    by (simp add: select_other_update [where k = fl_id] option.map_ident)
qed

lemma run_flag_op_status:
  assumes "flag_status d i = Some x"
  shows "\<exists>y. flag_status (run_flag_op op d) i = Some y \<and> (y = x \<or> flag_moves x y)"
proof (cases op)
  case (Create_Flag env payload include_receipt)
  obtain r d' where run: "create_flag_command env payload include_receipt d = (r, d')" by fastforce
  then show ?thesis
    using assms Create_Flag
    by (cases rule: create_flag_command_cases [OF run])
      (auto simp: flag_status_def get_flag_def select_one_append split: option.split)
next
  case (Transition_Flag env payload include_receipt)
  obtain r d' where run: "transition_flag_state_command env payload include_receipt d = (r, d')" by fastforce
  show ?thesis
  proof (cases rule: transition_flag_command_cases [OF run])
    case (2 current actor)
    obtain z where z: "get_flag d i = Some z" "x = fl_state z"
      using assms by (auto simp: flag_status_def)
    let ?moved = "i = py_str (jget payload ''flag_id'') \<and> fl_state z = fl_state current"
    have "flag_status d' i = Some (if ?moved then py_str (jget payload ''to_state'') else x)"
      using get_flag_moved [OF 2(6), of i] z by (simp add: flag_status_def)
    moreover have "?moved \<Longrightarrow> flag_moves x (py_str (jget payload ''to_state''))"
      using 2(5) z by (simp add: flag_moves_def)
    ultimately show ?thesis using Transition_Flag run by auto
  qed (use assms Transition_Flag run in simp)
qed

interpretation flag_lifecycle: lifecycle flag_status run_flag_op flag_moves
  by unfold_locales (rule run_flag_op_status)

lemma run_flag_op_ok:
  assumes ok: "flags_ok d"
  shows "flags_ok (run_flag_op op d)"
proof (cases op)
  case (Create_Flag env payload include_receipt)
  obtain r d' where run: "create_flag_command env payload include_receipt d = (r, d')" by fastforce
  show ?thesis
  proof (cases rule: create_flag_command_cases [OF run])
    case (2 row u)
    have "unique_keys (\<lambda>r. Some (fl_id r)) (flags d @ [row])"
      "unique_keys (\<lambda>r. map_option (Pair (fl_run r)) (fl_dedupe r)) (flags d @ [row])"
      using keepsD' [OF flag_ids.keeps_unique _ 2(1)] keepsD' [OF flag_dedupe_keys.keeps_unique _ 2(1)] ok
      by (simp_all add: flags_ok_def)
    then show ?thesis
      using ok 2(2,3) Create_Flag run by (simp add: flags_ok_def)
  qed (use ok Create_Flag run in simp)
next
  case (Transition_Flag env payload include_receipt)
  obtain r d' where run: "transition_flag_state_command env payload include_receipt d = (r, d')" by fastforce
  show ?thesis
  proof (cases rule: transition_flag_command_cases [OF run])
    case (2 current actor)
    have "flag_row_ok (moved_flag now s row)" if "s \<in> set flag_states" for now s row
      using that by (simp add: flag_row_ok_def) (simp add: moved_flag_def)
    then show ?thesis
      using ok 2(4,6) Transition_Flag run
      by (auto simp: flags_ok_def unique_keys_update set_update_where)
  qed (use ok Transition_Flag run in simp)
qed

definition flag_sample_db :: db where
  "flag_sample_db = empty_db\<lparr>runs := [sample_run], flags := [\<lparr>fl_id = ''f'', fl_run = ''r'', fl_tenant = ''t'',
     fl_domain = ''d'', fl_workflow = ''w'', fl_partition = ''2026-W10'', fl_kind = ''late'',
     fl_severity = ''low'', fl_state = ''resolved'', fl_summary = ''s'', fl_details = JObj [],
     fl_group = None, fl_created_at = ''2026-03-01T00:00:00Z'', fl_closed_at = None,
     fl_actor_id = ''a'', fl_actor_type = ''human'', fl_source_event = None, fl_dedupe = Some ''k'',
     fl_updated_at = ''2026-03-01T00:00:00Z''\<rparr>]\<rparr>"

definition sample_env :: command_env where
  "sample_env = \<lparr>ce_now = ''2026-03-02T00:00:00Z'', ce_event_now = ''2026-03-02T00:00:00Z'',
     ce_row_uuid = ''1'', ce_event_uuid = ''2''\<rparr>"

definition close_request :: dict where
  "close_request = [(''flag_id'', JStr ''f''), (''to_state'', JStr ''closed''), (''actor_id'', JStr ''x''),
     (''actor_type'', JStr ''human''), (''actor_roles'', JArr [JStr ''driver'']), (''idempotency_key'', JStr ''k1'')]"

section \<open>Properties\<close>

text \<open>
  The flag table stays well-formed under any sequence of flag commands, whatever their payloads:
  flag ids and dedupe keys occur once, every flag is in one of the six states, and it has a closing
  time exactly when it is closed or waived.
\<close>

lemma flag_commands_keep_table:
  assumes "flags_ok d"
  shows "flags_ok (fold run_flag_op ops d)"
  using assms by (induction ops arbitrary: d) (simp_all add: run_flag_op_ok)

lemma flag_sample_ok: "flags_ok flag_sample_db"
  by (simp add: flags_ok_def flag_sample_db_def unique_keys_total flag_row_ok_def flag_states_def
    closing_states_def unique_keys_def List.map_filter_def)

text \<open>
  C26: Flags move only along the transition table: over any sequence of flag commands an existing flag
  stays in the table and its state follows a path of allowed transitions; once closed or waived it
  never changes state again.
\<close>

theorem flags_follow_transition_table:
  assumes "flag_status d i = Some x"
  shows "\<exists>y. flag_status (fold run_flag_op ops d) i = Some y \<and> flag_moves\<^sup>*\<^sup>* x y
    \<and> (x \<in> {''closed'', ''waived''} \<longrightarrow> y = x)"
proof -
  obtain y where y: "flag_status (fold run_flag_op ops d) i = Some y" "flag_moves\<^sup>*\<^sup>* x y"
    using flag_lifecycle.run_path [OF assms] by blast
  have "y = x" if "x \<in> {''closed'', ''waived''}"
  proof -
    have "\<not> flag_moves x z" for z
    proof -
      have "flag_allowed_transitions ''closed'' = []" "flag_allowed_transitions ''waived'' = []"
        by code_simp+
      with that show ?thesis unfolding flag_moves_def by fastforce
    qed
    from flag_lifecycle.final_stays [OF this assms] y(1) show ?thesis by simp
  qed
  with y show ?thesis by blast
qed

theorem flags_follow_transition_table_witness:
  "\<exists>y. flag_status (fold run_flag_op [Transition_Flag sample_env close_request True] flag_sample_db) ''f'' = Some y
     \<and> flag_moves\<^sup>*\<^sup>* ''resolved'' y"
proof -
  have "flag_status flag_sample_db ''f'' = Some ''resolved''" by code_simp
  from flags_follow_transition_table [OF this] show ?thesis by blast
qed

section \<open>Who may close a resolved flag\<close>

lemma transition_flag_operation_ok:
  assumes ok: "flags_ok d" and current: "get_flag d (py_str (jget payload ''flag_id'')) = Some current"
    and moves: "flag_moves (fl_state current) to_state" "fl_state current \<noteq> to_state"
    and run: "fl_run current \<in> wr_id ` set (runs d)" and actor: "assert_actor_type actor_type = Inr ()"
    and new_id: "event_id_for_type ''flag.state_changed'' (ce_event_uuid env) \<notin> ev_id ` set (events d)"
    and new_key: "key = None \<or> key \<notin> ev_idem ` set (events d)"
  shows "\<exists>d'. transition_flag_operation env payload current to_state actor_type key d =
      (Inr (flag_dict (moved_flag (ce_now env) to_state current)), d')
    \<and> get_flag d' (py_str (jget payload ''flag_id'')) = Some (moved_flag (ce_now env) to_state current)
    \<and> receipts d' = receipts d \<and> runs d' = runs d"
proof -
  let ?i = "py_str (jget payload ''flag_id'')" and ?moved = "moved_flag (ce_now env) to_state current"
  let ?d1 = "d\<lparr>flags := update_where (\<lambda>r. fl_id r = ?i \<and> fl_state r = fl_state current)
      (moved_flag (ce_now env) to_state) (flags d)\<rparr>"
  have "distinct (map fl_id (flags d))" using ok by (simp add: flags_ok_def unique_keys_total)
  then have one: "row_count (\<lambda>r. fl_id r = ?i \<and> fl_state r = fl_state current) (flags d) = 1"
    using current unfolding get_flag_def by (simp add: row_count_key)
  have got: "get_flag ?d1 ?i = Some ?moved"
    using get_flag_moved [of ?d1 ?i "fl_state current" "ce_now env" to_state d ?i] current by simp
  have moved: "transition_flag_state ?i (fl_state current) to_state (ce_now env) d = (Inr (Some ?moved), ?d1)"
    unfolding transition_flag_state_eq Let_def using one got by simp
  obtain w where "select_one (\<lambda>r. wr_id r = fl_run current) (runs d) = Some w"
    using run by (cases "select_one (\<lambda>r. wr_id r = fl_run current) (runs d)") (auto simp: select_one_None)
  then obtain scope where scope: "workflow_scope ?d1 (fl_run ?moved) = Inr scope"
    by (simp add: workflow_scope_def get_workflow_run_def)
  let ?payload = "[(''flag_id'', JStr ?i), (''from_state'', JStr (fl_state current)),
      (''to_state'', JStr to_state), (''reason'', of_opt (opt_field payload ''reason''))]"
  let ?links = "[link ''flag'' ?i, link ''workflow_run'' (fl_run ?moved)]"
  obtain envelope where envelope: "event_envelope (ce_event_now env) (ce_event_uuid env) ''flag.state_changed''
      (ws_tenant scope) (ws_domain scope) actor_type (py_str (jget payload ''actor_id'')) ?links ?payload key =
      Inr envelope"
    using actor by (simp add: event_envelope_def)
  have links: "require_required_links_for_event envelope = Inr ()"
  proof -
    have "jget envelope ''event_type'' = JStr ''flag.state_changed''" "jget envelope ''links'' = JArr ?links"
      using envelope by (auto simp: event_envelope_def rbind_eq_Inr jget_def)
    moreover have "required_link_types_by_event ''flag.state_changed'' = Some [''flag'', ''workflow_run'']"
      "py_strip ''flag'' = ''flag''" "py_strip ''workflow_run'' = ''workflow_run''" by code_simp+
    ultimately show ?thesis
      by (simp add: require_required_links_for_event_def link_def jget_def)
  qed
  obtain r where "append_event envelope ?d1 = (Inr (event_id_for_type ''flag.state_changed'' (ce_event_uuid env)),
      ?d1\<lparr>events := events ?d1 @ [r], next_seq := Suc (next_seq ?d1)\<rparr>)"
    using append_envelope_ok [OF envelope links, of ?d1] new_id new_key by auto
  moreover have "get_flag (?d1\<lparr>events := es, next_seq := n\<rparr>) ?i = Some ?moved" for es n
    using got by (simp add: get_flag_def)
  ultimately show ?thesis
    using moves scope envelope moved
    by (simp add: transition_flag_operation_def flag_moves_def Let_def seq_def comp_apply)
qed

lemma legal_transition:
  defines "i payload \<equiv> py_str (jget payload ''flag_id'')"
    and "to_state payload \<equiv> py_str (jget payload ''to_state'')"
  assumes ok: "flags_ok d" and current: "get_flag d (i payload) = Some current"
    and request: "require_fields payload [''flag_id'', ''to_state'', ''actor_id'', ''actor_type'', ''idempotency_key''] = Inr ()"
      "to_state payload \<in> set flag_states" "assert_actor_type (py_str (jget payload ''actor_type'')) = Inr ()"
      "principal_from_payload payload True = Inr actor"
      "normalize_command_idempotency_key (jget payload ''idempotency_key'') True = Inr (Some k)"
      "public_command_scope_key ''flags.transition'' payload = Inr s"
    and role: "fl_state current \<in> set active_flag_states \<Longrightarrow>
      set flag_transition_roles \<inter> set (pr_actor_roles actor) \<noteq> {}"
    and moves: "flag_moves (fl_state current) (to_state payload)" "fl_state current \<noteq> to_state payload"
    and run: "fl_run current \<in> wr_id ` set (runs d)"
    and fresh: "get_command_receipt d ''flags.transition'' s k = None"
      "event_id_for_type ''flag.state_changed'' (ce_event_uuid env) \<notin> ev_id ` set (events d)"
      "Some (scoped_event_idempotency_base ''flags.transition'' s k @ '':flags.transition.flag.state_changed'')
         \<notin> ev_idem ` set (events d)"
  shows "\<exists>out d'. transition_flag_state_command env payload include_receipt d = (Inr out, d')
    \<and> get_flag d' (i payload) = Some (moved_flag (ce_now env) (to_state payload) current)"
proof -
  have pass: "\<not> decision_has_reason (transition_decision current actor) ''flag_transition_role_mismatch''"
    using role by (auto simp: transition_decision_def Let_def decision_has_reason_def reason_def
      roles_intersect_iff allow_def deny_def)
  let ?key = "Some (scoped_event_idempotency_base ''flags.transition'' s k @ '':flags.transition.flag.state_changed'')"
  have op: "\<exists>d1. transition_flag_operation env payload current (to_state payload)
        (py_str (jget payload ''actor_type'')) ?key d =
      (Inr (flag_dict (moved_flag (ce_now env) (to_state payload) current)), d1)
    \<and> get_flag d1 (i payload) = Some (moved_flag (ce_now env) (to_state payload) current)
    \<and> receipts d1 = receipts d \<and> runs d1 = runs d"
    using transition_flag_operation_ok [OF ok current [unfolded i_def] moves run request(3) fresh(2), of ?key] fresh(3)
    by (simp add: i_def)
  then obtain d1 where d1: "transition_flag_operation env payload current (to_state payload)
        (py_str (jget payload ''actor_type'')) ?key d =
      (Inr (flag_dict (moved_flag (ce_now env) (to_state payload) current)), d1)"
    "get_flag d1 (i payload) = Some (moved_flag (ce_now env) (to_state payload) current)"
    "receipts d1 = receipts d" "runs d1 = runs d" by blast
  let ?rx = "\<lambda>input. \<lparr>rx_command = ''flags.transition'', rx_scope = s, rx_idem = k,
      rx_fingerprint = command_request_fingerprint input, rx_profile = receipt_hash_profile,
      rx_event_base = scoped_event_idempotency_base ''flags.transition'' s k,
      rx_tenant = Some (fl_tenant current), rx_domain = Some (fl_domain current), rx_run = Some (fl_run current)\<rparr>"
  have exec: "\<exists>d'. execute_with_command_receipt (Some (?rx input))
        (transition_flag_operation env payload current (to_state payload)
          (py_str (jget payload ''actor_type'')) ?key) d =
      (Inr (flag_dict (moved_flag (ce_now env) (to_state payload) current), False), d')
    \<and> get_flag d' (i payload) = Some (moved_flag (ce_now env) (to_state payload) current)" for input
  proof -
    obtain d' where store: "store_receipt (Some (?rx input))
        (flag_dict (moved_flag (ce_now env) (to_state payload) current)) d1 = (Inr (), d')"
      and d': "d' = d1\<lparr>receipts := receipts d', next_receipt := next_receipt d'\<rparr>"
      using store_receipt_ok [of d1 "?rx input"] fresh(1) run d1(3,4)
      by (auto simp: get_command_receipt_def fk_ok_def)
    have "get_flag d' (i payload) = get_flag d1 (i payload)"
      using arg_cong [OF d', of flags] by (simp add: get_flag_def)
    with store d1(1,2) fresh(1) show ?thesis
      by (simp add: execute_with_command_receipt_def find_receipt_def seq_def comp_apply atomically_def)
  qed
  have prepared: "prepare_command_receipt ''flags.transition'' payload input (Some (fl_tenant current))
      (Some (fl_domain current)) (Some (fl_run current)) True = Inr (Some (?rx input))" for input
    using prepare_command_receipt_ok [OF request(5,6)] .
  have key: "receipt_event_idempotency_key (Some (?rx input)) ''flags.transition.flag.state_changed'' = ?key" for input
    by (simp add: receipt_event_idempotency_key_def)
  show ?thesis
    using exec [of "[(''flag_id'', JStr (i payload)), (''to_state'', JStr (to_state payload)),
              (''reason'', of_opt (opt_field payload ''reason'')),
              (''actor_id'', JStr (py_str (jget payload ''actor_id''))),
              (''actor_type'', JStr (py_str (jget payload ''actor_type''))),
              (''actor_roles'', str_list (sorted_list_of_set (set (pr_actor_roles actor))))]"]
      request(1,2,3,4) current pass
    by (auto simp: transition_flag_state_command_def Let_def i_def to_state_def seq_of_result_Inr prepared key
        seq_eq_Inr comp_apply)
qed

lemma close_request_facts:
  obtains actor current s where "principal_from_payload close_request True = Inr actor"
    "pr_actor_roles actor = [''driver'']"
    "get_flag flag_sample_db ''f'' = Some current" "fl_state current = ''resolved''" "fl_run current = ''r''"
    "public_command_scope_key ''flags.transition'' close_request = Inr s"
proof -
  obtain actor where actor: "principal_from_payload close_request True = Inr actor"
    "pr_actor_roles actor = [''driver'']"
    by (rule that) code_simp+
  obtain current where current: "get_flag flag_sample_db ''f'' = Some current" "fl_state current = ''resolved''"
    "fl_run current = ''r''"
    by (rule that) code_simp+
  obtain s where s: "public_command_scope_key ''flags.transition'' close_request = Inr s"
    using that by (cases "public_command_scope_key ''flags.transition'' close_request")
      (simp_all add: public_command_scope_key_def scope_fields_def Let_def)
  from that actor current s show thesis by blast
qed

lemma close_request_simps:
  "py_str (jget close_request ''flag_id'') = ''f''" "py_str (jget close_request ''to_state'') = ''closed''"
  "require_fields close_request [''flag_id'', ''to_state'', ''actor_id'', ''actor_type'', ''idempotency_key''] = Inr ()"
  "''closed'' \<in> set flag_states" "assert_actor_type (py_str (jget close_request ''actor_type'')) = Inr ()"
  "flag_moves ''resolved'' ''closed''" "''resolved'' \<notin> set active_flag_states"
  "normalize_command_idempotency_key (jget close_request ''idempotency_key'') True = Inr (Some ''k1'')"
  "''r'' \<in> wr_id ` set (runs flag_sample_db)" "events flag_sample_db = []" "receipts flag_sample_db = []"
  "set flag_transition_roles \<inter> set [''driver''] = {}"
  by code_simp+

lemma close_request_runs:
  "\<exists>out d' current. transition_flag_state_command sample_env close_request False flag_sample_db = (Inr out, d')
    \<and> get_flag flag_sample_db ''f'' = Some current \<and> fl_state current = ''resolved''
    \<and> get_flag d' ''f'' = Some (moved_flag (ce_now sample_env) ''closed'' current)"
proof -
  obtain actor current s where actor: "principal_from_payload close_request True = Inr actor"
      "pr_actor_roles actor = [''driver'']"
    and current: "get_flag flag_sample_db ''f'' = Some current" "fl_state current = ''resolved''"
      "fl_run current = ''r''"
    and s: "public_command_scope_key ''flags.transition'' close_request = Inr s"
    by (rule close_request_facts)
  have "\<exists>out d'. transition_flag_state_command sample_env close_request False flag_sample_db = (Inr out, d')
      \<and> get_flag d' (py_str (jget close_request ''flag_id'')) =
        Some (moved_flag (ce_now sample_env) (py_str (jget close_request ''to_state'')) current)"
    by (rule legal_transition [OF flag_sample_ok, where k = "''k1''" and s = s and actor = actor])
      (simp_all only: close_request_simps current actor s, simp_all add: close_request_simps get_command_receipt_def)
  with current show ?thesis by (auto simp: close_request_simps)
qed

text \<open>
  A transition command changes at most one flag: when it changes the table at all, it was asked by
  an actor who holds a transition role or the flag was not active, the move is in the transition
  table, the flag gets the new state and its closing time exactly for closed and waived, every other
  flag is untouched, and one event more is on the log.
\<close>

lemma flag_transition_effect:
  assumes run: "transition_flag_state_command env payload include_receipt d = (r, d')"
    and changed: "flags d' \<noteq> flags d"
  shows "\<exists>current actor.
      get_flag d (py_str (jget payload ''flag_id'')) = Some current
      \<and> principal_from_payload payload True = Inr actor
      \<and> (fl_state current \<in> set active_flag_states \<longrightarrow>
           set flag_transition_roles \<inter> set (pr_actor_roles actor) \<noteq> {})
      \<and> flag_moves (fl_state current) (py_str (jget payload ''to_state''))
      \<and> get_flag d' (fl_id current) = Some (moved_flag (ce_now env) (py_str (jget payload ''to_state'')) current)
      \<and> (\<forall>j. j \<noteq> fl_id current \<longrightarrow> get_flag d' j = get_flag d j)
      \<and> length (events d') = Suc (length (events d))"
proof (cases rule: transition_flag_command_cases [OF run])
  case (2 current actor)
  have id: "fl_id current = py_str (jget payload ''flag_id'')"
    using 2(1) by (auto simp: get_flag_def dest: select_one_Some)
  have "set flag_transition_roles \<inter> set (pr_actor_roles actor) \<noteq> {}"
    if "fl_state current \<in> set active_flag_states"
    using 2(3) that by (auto simp: transition_decision_def Let_def decision_has_reason_def
      roles_intersect_iff reason_def)
  moreover have "get_flag d' (fl_id current) =
      Some (moved_flag (ce_now env) (py_str (jget payload ''to_state'')) current)"
    using get_flag_moved [OF 2(6), of "fl_id current"] 2(1) by (simp add: id)
  moreover have "get_flag d' j = get_flag d j" if "j \<noteq> fl_id current" for j
    using get_flag_moved [OF 2(6), of j] that by (simp add: id option.map_ident)
  ultimately show ?thesis
    using 2 id by (auto simp: flag_moves_def)
qed (use changed in simp)

text \<open>
  A legal transition succeeds: for a well-formed table, a request that passes the payload checks,
  whose flag exists and may move to the requested state, from an actor the role check does not refuse,
  with a key not used before and a new event id, the command returns and the flag has moved. The role
  check refuses actors only while the flag is active, so nothing is asked of who closes a resolved flag.
\<close>

lemma legal_flag_transition_succeeds:
  assumes ok: "flags_ok d" and current: "get_flag d (py_str (jget payload ''flag_id'')) = Some current"
    and request: "require_fields payload [''flag_id'', ''to_state'', ''actor_id'', ''actor_type'', ''idempotency_key''] = Inr ()"
      "py_str (jget payload ''to_state'') \<in> set flag_states" "assert_actor_type (py_str (jget payload ''actor_type'')) = Inr ()"
      "principal_from_payload payload True = Inr actor"
      "normalize_command_idempotency_key (jget payload ''idempotency_key'') True = Inr (Some k)"
      "public_command_scope_key ''flags.transition'' payload = Inr s"
    and role: "fl_state current \<in> set active_flag_states \<Longrightarrow>
      set flag_transition_roles \<inter> set (pr_actor_roles actor) \<noteq> {}"
    and moves: "flag_moves (fl_state current) (py_str (jget payload ''to_state''))" "fl_state current \<noteq> py_str (jget payload ''to_state'')"
    and run: "fl_run current \<in> wr_id ` set (runs d)"
    and fresh: "get_command_receipt d ''flags.transition'' s k = None"
      "event_id_for_type ''flag.state_changed'' (ce_event_uuid env) \<notin> ev_id ` set (events d)"
      "Some (scoped_event_idempotency_base ''flags.transition'' s k @ '':flags.transition.flag.state_changed'')
         \<notin> ev_idem ` set (events d)"
  shows "\<exists>out d'. transition_flag_state_command env payload include_receipt d = (Inr out, d')
    \<and> get_flag d' (py_str (jget payload ''flag_id'')) = Some (moved_flag (ce_now env) (py_str (jget payload ''to_state'')) current)"
  by (rule legal_transition [OF assms])

text \<open>
  A driver, who holds none of the transition roles and whom the capability decision denies, closes a
  resolved flag.
\<close>

end
