(* ===== verification/Ingest_Jobs.thy ===== *)
theory Ingest_Jobs
  imports Lifecycle Sha256 Event_Store
begin

text \<open>
  The ingest job store, \<open>src/onetruth/infrastructure/repositories/capex_ingest_jobs.py\<close>: batches of
  a project, their jobs, numbered attempts at a job, and a log. The keyword arguments of a
  \<open>create_...\<close> function that become columns are passed as the row they make; the columns the function
  fills in itself are overwritten. The arguments the code checks to be lists of strings are JSON values.
\<close>

section \<open>Statuses and validation\<close>

definition ingest_batch_statuses :: "string list" where
  "ingest_batch_statuses =
    [''planned'', ''accepted'', ''processing'', ''succeeded'', ''failed'', ''canceled'']"

definition ingest_job_kinds :: "string list" where
  "ingest_job_kinds = [''source_inventory'', ''source_occurrence_binding'', ''document_manifest_build'',
     ''text_extraction'', ''page_manifest'', ''chunk_index'', ''evidence_binding'', ''corpus_processing'']"

definition ingest_job_statuses :: "string list" where
  "ingest_job_statuses = [''queued'', ''running'', ''retry_pending'', ''resume_pending'', ''succeeded'',
     ''failed'', ''canceled'']"

definition ingest_attempt_statuses :: "string list" where
  "ingest_attempt_statuses = [''queued'', ''running'', ''succeeded'', ''failed'', ''canceled'']"

text \<open>The terminal statuses of batches, jobs and attempts are the same three.\<close>

definition terminal_ingest_statuses :: "string list" where
  "terminal_ingest_statuses = [''succeeded'', ''failed'', ''canceled'']"

definition ingest_job_log_kinds :: "string list" where
  "ingest_job_log_kinds =
    [''state_transition'', ''validation'', ''retry'', ''failure'', ''operator_note'', ''worker'']"

definition ingest_job_log_severities :: "string list" where
  "ingest_job_log_severities = [''debug'', ''info'', ''warning'', ''error'']"

definition forbidden_raw_keys :: "string list" where
  "forbidden_raw_keys = [''absolute_path'', ''base64'', ''base64_content'', ''blob_bytes'', ''content'',
     ''content_base64'', ''document_text'', ''file_name'', ''filename'', ''local_path'', ''ocr_text'',
     ''raw_bytes'', ''raw_content'', ''raw_file'', ''raw_filename'', ''source_file_path'',
     ''source_filename'', ''source_path'', ''stack_trace'', ''stderr'', ''stdout'']"

definition raw_file_extensions :: "string list" where
  "raw_file_extensions = [''csv'', ''doc'', ''docx'', ''eml'', ''jpeg'', ''jpg'', ''msg'', ''pdf'', ''png'',
     ''txt'', ''xls'', ''xlsx'', ''zip'']"

abbreviation backslash :: char where
  "backslash \<equiv> CHR 0x5C"

text \<open>\<open>_ABSOLUTE_PATH_RE\<close>: a slash, a drive letter with its colon and a separator, or two backslashes.\<close>

definition absolute_path :: "string \<Rightarrow> bool" where
  "absolute_path s \<longleftrightarrow> prefix ''/'' s
     \<or> (case s of c # d # e # _ \<Rightarrow> (is_lower c \<or> is_upper c) \<and> d = CHR '':'' \<and> (e = backslash \<or> e = CHR ''/'')
        | _ \<Rightarrow> False)
     \<or> prefix [backslash, backslash] s"

definition raw_path_markers :: "string list" where
  "raw_path_markers = [''/Users/'', [backslash] @ ''Users'' @ [backslash]]"

text \<open>
  \<open>_RAW_FILENAME_RE\<close> without its anchors: a stem without slash and white space, a dot and one of the
  extensions, in any case.
\<close>

definition file_name_with :: "string \<Rightarrow> string \<Rightarrow> bool" where
  "file_name_with s ext =
     (let stem = take (length s - Suc (length ext)) s in
      suffix (CHR ''.'' # ext) (py_lower s) \<and> stem \<noteq> [] \<and>
      list_all (\<lambda>c. c \<noteq> CHR ''/'' \<and> \<not> is_space c) stem)"

definition raw_filename :: "string \<Rightarrow> bool" where
  "raw_filename s = match_dollar (\<lambda>s. list_ex (file_name_with s) raw_file_extensions) s"

abbreviation ingest_require :: "bool \<Rightarrow> string \<Rightarrow> unit result" where
  "ingest_require b code \<equiv> require b (IngestJobStateError code)"

definition reject_raw_text :: "string \<Rightarrow> unit result" where
  "reject_raw_text s =
     (let lowered = py_lower s in
      rbind (ingest_require (\<not> (contains ''base64,'' lowered \<or> prefix ''data:'' lowered))
              ''ingest_state_inline_base64_forbidden'') (\<lambda>_.
      rbind (ingest_require (\<not> (absolute_path s \<or> list_ex (\<lambda>marker. contains marker s) raw_path_markers))
              ''ingest_state_raw_absolute_path_forbidden'') (\<lambda>_.
      ingest_require (\<not> raw_filename s) ''ingest_state_raw_filename_forbidden'')))"

definition raw_key :: "string \<Rightarrow> bool" where
  "raw_key key =
     (let normalized_key = replace_char (CHR ''-'') (CHR ''_'') (py_lower key)
      in normalized_key \<in> set forbidden_raw_keys \<or> prefix ''raw_'' normalized_key)"

fun reject_raw_material :: "json \<Rightarrow> unit result" where
  "reject_raw_material (JObj kvs) =
     check_all (\<lambda>p. rbind (ingest_require (\<not> raw_key (fst p)) ''ingest_state_raw_material_field_forbidden'')
       (\<lambda>_. reject_raw_material (snd p))) kvs"
| "reject_raw_material (JArr vs) = check_all reject_raw_material vs"
| "reject_raw_material (JStr s) = reject_raw_text s"
| "reject_raw_material _ = Inr ()"

definition reject_raw_option :: "string option \<Rightarrow> unit result" where
  "reject_raw_option v = (case v of None \<Rightarrow> Inr () | Some s \<Rightarrow> reject_raw_text s)"

definition require_nonempty :: "string \<Rightarrow> unit result" where
  "require_nonempty value = ingest_require (py_strip value \<noteq> []) ''ingest_state_required_field_missing''"

definition validate_batch_status :: "string \<Rightarrow> unit result" where
  "validate_batch_status status =
     ingest_require (status \<in> set ingest_batch_statuses) ''ingest_batch_status_invalid''"

definition validate_job_kind :: "string \<Rightarrow> unit result" where
  "validate_job_kind job_kind = ingest_require (job_kind \<in> set ingest_job_kinds) ''ingest_job_kind_invalid''"

definition validate_job_status :: "string \<Rightarrow> unit result" where
  "validate_job_status status =
     ingest_require (status \<in> set ingest_job_statuses) ''ingest_job_status_invalid''"

definition validate_attempt_status :: "string \<Rightarrow> unit result" where
  "validate_attempt_status status =
     ingest_require (status \<in> set ingest_attempt_statuses) ''ingest_attempt_status_invalid''"

definition validate_log_kind :: "string \<Rightarrow> unit result" where
  "validate_log_kind log_kind =
     ingest_require (log_kind \<in> set ingest_job_log_kinds) ''ingest_job_log_kind_invalid''"

definition validate_log_severity :: "string \<Rightarrow> unit result" where
  "validate_log_severity severity =
     ingest_require (severity \<in> set ingest_job_log_severities) ''ingest_job_log_severity_invalid''"

definition validate_sha256 :: "string \<Rightarrow> unit result" where
  "validate_sha256 value =
     ingest_require (match_dollar (fullmatch sha256_digest_pattern) value) ''ingest_state_digest_invalid''"

definition validate_nonnegative :: "int \<Rightarrow> unit result" where
  "validate_nonnegative value = ingest_require (0 \<le> value) ''ingest_state_nonnegative_integer_required''"

text \<open>\<open>_validate_ref_list\<close>: the loop carries the references seen so far, in order.\<close>

fun ref_items :: "json list \<Rightarrow> string list \<Rightarrow> string list result" where
  "ref_items [] refs = Inr refs"
| "ref_items (item # items) refs =
     (case item of
        JStr s \<Rightarrow>
          if py_strip s = [] then Inl (IngestJobStateError ''ingest_state_ref_invalid'')
          else rbind (reject_raw_text (py_strip s)) (\<lambda>_.
            if py_strip s \<in> set refs then Inl (IngestJobStateError ''ingest_state_duplicate_ref'')
            else ref_items items (refs @ [py_strip s]))
      | _ \<Rightarrow> Inl (IngestJobStateError ''ingest_state_ref_invalid''))"

definition validate_ref_list :: "json \<Rightarrow> string list result" where
  "validate_ref_list value = (case value of
     JArr items \<Rightarrow> ref_items items []
   | _ \<Rightarrow> Inl (IngestJobStateError ''ingest_state_ref_list_required''))"

definition reject_terminal_transition :: "string \<Rightarrow> string \<Rightarrow> string \<Rightarrow> unit result" where
  "reject_terminal_transition current_status requested_status code =
     ingest_require (\<not> (current_status \<in> set terminal_ingest_statuses \<and> current_status \<noteq> requested_status)) code"

section \<open>Lookups and scope checks\<close>

definition get_ingest_batch :: "db \<Rightarrow> string \<Rightarrow> batch_row option" where
  "get_ingest_batch d ingest_batch_id = select_one (\<lambda>r. ib_id r = ingest_batch_id) (batches d)"

definition get_ingest_job :: "db \<Rightarrow> string \<Rightarrow> job_row option" where
  "get_ingest_job d ingest_job_id = select_one (\<lambda>r. ij_id r = ingest_job_id) (jobs d)"

definition get_ingest_attempt :: "db \<Rightarrow> string \<Rightarrow> attempt_row option" where
  "get_ingest_attempt d ingest_attempt_id = select_one (\<lambda>r. ia_id r = ingest_attempt_id) (attempts d)"

definition get_ingest_job_log :: "db \<Rightarrow> string \<Rightarrow> job_log_row option" where
  "get_ingest_job_log d ingest_job_log_id = select_one (\<lambda>r. il_id r = ingest_job_log_id) (job_logs d)"

definition list_ingest_job_logs :: "db \<Rightarrow> string \<Rightarrow> job_log_row list" where
  "list_ingest_job_logs d ingest_job_id =
     sort_key il_created_at (sort_key il_id (filter (\<lambda>r. il_job r = ingest_job_id) (job_logs d)))"

definition require_project_scope :: "db \<Rightarrow> string \<Rightarrow> string \<Rightarrow> string \<Rightarrow> unit result" where
  "require_project_scope d tenant_id domain_id project_id =
     ingest_require (exists_row (\<lambda>p. pj_id p = project_id \<and> pj_tenant p = tenant_id \<and> pj_domain p = domain_id)
       (projects d)) ''ingest_state_project_scope_mismatch''"

definition require_batch :: "db \<Rightarrow> string \<Rightarrow> batch_row result" where
  "require_batch d ingest_batch_id = (case get_ingest_batch d ingest_batch_id of
     None \<Rightarrow> Inl (IngestJobStateError ''ingest_batch_not_found'') | Some batch \<Rightarrow> Inr batch)"

definition require_job :: "db \<Rightarrow> string \<Rightarrow> job_row result" where
  "require_job d ingest_job_id = (case get_ingest_job d ingest_job_id of
     None \<Rightarrow> Inl (IngestJobStateError ''ingest_job_not_found'') | Some job \<Rightarrow> Inr job)"

definition require_attempt :: "db \<Rightarrow> string \<Rightarrow> attempt_row result" where
  "require_attempt d ingest_attempt_id = (case get_ingest_attempt d ingest_attempt_id of
     None \<Rightarrow> Inl (IngestJobStateError ''ingest_attempt_not_found'') | Some attempt \<Rightarrow> Inr attempt)"

definition require_batch_scope :: "db \<Rightarrow> string \<Rightarrow> string \<Rightarrow> string \<Rightarrow> string \<Rightarrow> batch_row result" where
  "require_batch_scope d ingest_batch_id tenant_id domain_id project_id =
     rbind (require_batch d ingest_batch_id) (\<lambda>batch.
     rbind (ingest_require (ib_tenant batch = tenant_id \<and> ib_domain batch = domain_id
         \<and> ib_project batch = project_id) ''ingest_state_batch_scope_mismatch'') (\<lambda>_. Inr batch))"

definition require_job_scope :: "db \<Rightarrow> string \<Rightarrow> string \<Rightarrow> string \<Rightarrow> string \<Rightarrow> job_row result" where
  "require_job_scope d ingest_job_id tenant_id domain_id project_id =
     rbind (require_job d ingest_job_id) (\<lambda>job.
     rbind (ingest_require (ij_tenant job = tenant_id \<and> ij_domain job = domain_id
         \<and> ij_project job = project_id) ''ingest_state_job_scope_mismatch'') (\<lambda>_. Inr job))"

definition require_attempt_scope ::
    "db \<Rightarrow> string \<Rightarrow> string \<Rightarrow> string \<Rightarrow> string \<Rightarrow> string \<Rightarrow> attempt_row result" where
  "require_attempt_scope d ingest_attempt_id ingest_job_id tenant_id domain_id project_id =
     rbind (require_attempt d ingest_attempt_id) (\<lambda>attempt.
     rbind (ingest_require (ia_job attempt = ingest_job_id \<and> ia_tenant attempt = tenant_id
         \<and> ia_domain attempt = domain_id \<and> ia_project attempt = project_id)
       ''ingest_state_attempt_scope_mismatch'') (\<lambda>_. Inr attempt))"

definition require_command_receipt :: "db \<Rightarrow> nat option \<Rightarrow> unit result" where
  "require_command_receipt d command_receipt_id = (case command_receipt_id of
     None \<Rightarrow> Inr ()
   | Some i \<Rightarrow> rbind (bind_integer (int i)) (\<lambda>_. ingest_require (exists_row (\<lambda>r. rc_id r = i) (receipts d))
       ''ingest_state_command_receipt_not_found''))"

definition require_execution_session :: "db \<Rightarrow> string option \<Rightarrow> unit result" where
  "require_execution_session d execution_session_id = (case execution_session_id of
     None \<Rightarrow> Inr ()
   | Some i \<Rightarrow> ingest_require (exists_row (\<lambda>r. es_id r = i) (sessions d))
       ''ingest_state_execution_session_not_found'')"

text \<open>The number after the largest \<open>attempt_no\<close> of the job, 1 when it has none.\<close>

definition expected_attempt_no :: "db \<Rightarrow> string \<Rightarrow> int" where
  "expected_attempt_no d ingest_job_id =
     (case map ia_no (filter (\<lambda>r. ia_job r = ingest_job_id) (attempts d)) of
        [] \<Rightarrow> 1 | n # ns \<Rightarrow> fold max ns n + 1)"

definition validate_attempt_number :: "db \<Rightarrow> string \<Rightarrow> int \<Rightarrow> unit result" where
  "validate_attempt_number d ingest_job_id attempt_no =
     rbind (ingest_require (1 \<le> attempt_no) ''ingest_attempt_number_invalid'') (\<lambda>_.
     ingest_require (attempt_no = expected_attempt_no d ingest_job_id) ''ingest_attempt_number_not_monotonic'')"

section \<open>Inserting rows\<close>

definition insert_batch :: "batch_row \<Rightarrow> (unit, db) comp" where
  "insert_batch r d =
     (if exists_row (\<lambda>x. ib_id x = ib_id r) (batches d)
      then raise (IntegrityError ''UNIQUE constraint failed: capex_ingest_batches.ingest_batch_id'') d
      else if exists_row (\<lambda>x. ib_tenant x = ib_tenant r \<and> ib_domain x = ib_domain r
          \<and> ib_project x = ib_project r \<and> ib_idem x = ib_idem r) (batches d)
      then raise (IntegrityError (''UNIQUE constraint failed: capex_ingest_batches.tenant_id, '' @
        ''capex_ingest_batches.domain_id, capex_ingest_batches.project_id, '' @
        ''capex_ingest_batches.idempotency_key'')) d
      else if ib_project r \<notin> pj_id ` set (projects d) then raise fk_failed d
      else (Inr (), d\<lparr>batches := batches d @ [r]\<rparr>))"

definition insert_job :: "job_row \<Rightarrow> (unit, db) comp" where
  "insert_job r d =
     (if exists_row (\<lambda>x. ij_id x = ij_id r) (jobs d)
      then raise (IntegrityError ''UNIQUE constraint failed: capex_ingest_jobs.ingest_job_id'') d
      else if exists_row (\<lambda>x. ij_batch x = ij_batch r \<and> ij_kind x = ij_kind r \<and> ij_idem x = ij_idem r) (jobs d)
      then raise (IntegrityError (''UNIQUE constraint failed: capex_ingest_jobs.ingest_batch_id, '' @
        ''capex_ingest_jobs.job_kind, capex_ingest_jobs.idempotency_key'')) d
      else if ij_batch r \<notin> ib_id ` set (batches d) \<or> ij_project r \<notin> pj_id ` set (projects d)
          \<or> (case ij_receipt r of None \<Rightarrow> False | Some i \<Rightarrow> i \<notin> rc_id ` set (receipts d))
      then raise fk_failed d
      else (Inr (), d\<lparr>jobs := jobs d @ [r]\<rparr>))"

definition insert_attempt :: "attempt_row \<Rightarrow> (unit, db) comp" where
  "insert_attempt r d =
     (if exists_row (\<lambda>x. ia_id x = ia_id r) (attempts d)
      then raise (IntegrityError ''UNIQUE constraint failed: capex_ingest_attempts.ingest_attempt_id'') d
      else if exists_row (\<lambda>x. ia_job x = ia_job r \<and> ia_no x = ia_no r) (attempts d)
      then raise (IntegrityError (''UNIQUE constraint failed: capex_ingest_attempts.ingest_job_id, '' @
        ''capex_ingest_attempts.attempt_no'')) d
      else if ia_job r \<notin> ij_id ` set (jobs d) \<or> ia_project r \<notin> pj_id ` set (projects d)
          \<or> \<not> fk_ok (ia_session r) (map es_id (sessions d))
          \<or> (case ia_receipt r of None \<Rightarrow> False | Some i \<Rightarrow> i \<notin> rc_id ` set (receipts d))
      then raise fk_failed d
      else (Inr (), d\<lparr>attempts := attempts d @ [r]\<rparr>))"

definition insert_job_log :: "job_log_row \<Rightarrow> (unit, db) comp" where
  "insert_job_log r d =
     (if exists_row (\<lambda>x. il_id x = il_id r) (job_logs d)
      then raise (IntegrityError ''UNIQUE constraint failed: capex_ingest_job_logs.ingest_job_log_id'') d
      else if il_job r \<notin> ij_id ` set (jobs d) \<or> \<not> fk_ok (il_attempt r) (map ia_id (attempts d))
          \<or> il_project r \<notin> pj_id ` set (projects d)
      then raise fk_failed d
      else (Inr (), d\<lparr>job_logs := job_logs d @ [r]\<rparr>))"

section \<open>The operations\<close>

definition create_ingest_batch :: "batch_row \<Rightarrow> (batch_row, db) comp" where
  "create_ingest_batch r d =
     seq (of_result (rbind (require_nonempty (ib_id r)) (\<lambda>_.
        rbind (require_project_scope d (ib_tenant r) (ib_domain r) (ib_project r)) (\<lambda>_.
        rbind (validate_batch_status (ib_status r)) (\<lambda>_.
        rbind (validate_sha256 (ib_fingerprint r)) (\<lambda>_.
        rbind (validate_nonnegative (ib_descriptor_count r)) (\<lambda>_.
        rbind (reject_raw_text (ib_intake_ref r)) (\<lambda>_.
        reject_raw_material (ib_metadata r))))))))) (\<lambda>_.
     seq (with_integers [ib_descriptor_count r]
       (insert_batch (r\<lparr>ib_metadata := sort_json (ib_metadata r), ib_updated_at := ib_created_at r\<rparr>))) (\<lambda>_.
     read_back (\<lambda>d. get_ingest_batch d (ib_id r)))) d"

definition transition_ingest_batch_status :: "string \<Rightarrow> string \<Rightarrow> string \<Rightarrow> (batch_row, db) comp" where
  "transition_ingest_batch_status ingest_batch_id status updated_at d =
     seq (of_result (rbind (validate_batch_status status) (\<lambda>_.
        rbind (require_batch d ingest_batch_id) (\<lambda>current.
        reject_terminal_transition (ib_status current) status ''ingest_batch_terminal_status'')))) (\<lambda>_.
     seq (modify (\<lambda>d. d\<lparr>batches := update_where (\<lambda>r. ib_id r = ingest_batch_id)
            (\<lambda>r. r\<lparr>ib_status := status, ib_updated_at := updated_at\<rparr>) (batches d)\<rparr>)) (\<lambda>_.
     (\<lambda>d. of_result (require_batch d ingest_batch_id) d))) d"

definition create_ingest_job :: "json \<Rightarrow> json \<Rightarrow> job_row \<Rightarrow> (job_row, db) comp" where
  "create_ingest_job planned_task_refs_json planned_artifact_refs_json r d =
     seq (of_result (rbind (require_nonempty (ij_id r)) (\<lambda>_.
        rbind (require_batch_scope d (ij_batch r) (ij_tenant r) (ij_domain r) (ij_project r)) (\<lambda>_.
        rbind (validate_job_kind (ij_kind r)) (\<lambda>_.
        rbind (validate_job_status (ij_status r)) (\<lambda>_.
        rbind (validate_nonnegative (ij_priority r)) (\<lambda>_.
        rbind (validate_sha256 (ij_fingerprint r)) (\<lambda>_.
        rbind (require_command_receipt d (ij_receipt r)) (\<lambda>_.
        rbind (validate_ref_list planned_task_refs_json) (\<lambda>planned_task_refs.
        rbind (validate_ref_list planned_artifact_refs_json) (\<lambda>planned_artifact_refs.
        rbind (reject_raw_material (ij_metadata r)) (\<lambda>_.
        Inr (planned_task_refs, planned_artifact_refs))))))))))))) (\<lambda>refs.
     seq (with_integers [ij_priority r]
       (insert_job (r\<lparr>ij_task_refs := fst refs, ij_artifact_refs := snd refs,
            ij_metadata := sort_json (ij_metadata r), ij_updated_at := ij_created_at r,
            ij_terminal_at := (if ij_status r \<in> set terminal_ingest_statuses then Some (ij_created_at r) else None)\<rparr>)))
       (\<lambda>_.
     read_back (\<lambda>d. get_ingest_job d (ij_id r)))) d"

definition transition_ingest_job_status :: "string \<Rightarrow> string \<Rightarrow> string \<Rightarrow> (job_row, db) comp" where
  "transition_ingest_job_status ingest_job_id status updated_at d =
     seq (of_result (rbind (validate_job_status status) (\<lambda>_.
        rbind (require_job d ingest_job_id) (\<lambda>current.
        reject_terminal_transition (ij_status current) status ''ingest_job_terminal_status'')))) (\<lambda>_.
     let terminal_at = (if status \<in> set terminal_ingest_statuses then Some updated_at else None) in
     seq (modify (\<lambda>d. d\<lparr>jobs := update_where (\<lambda>r. ij_id r = ingest_job_id)
            (\<lambda>r. r\<lparr>ij_status := status, ij_updated_at := updated_at, ij_terminal_at := terminal_at\<rparr>)
            (jobs d)\<rparr>)) (\<lambda>_.
     (\<lambda>d. of_result (require_job d ingest_job_id) d))) d"

definition create_ingest_attempt :: "attempt_row \<Rightarrow> (attempt_row, db) comp" where
  "create_ingest_attempt r d =
     seq (of_result (rbind (require_nonempty (ia_id r)) (\<lambda>_.
        rbind (require_job_scope d (ia_job r) (ia_tenant r) (ia_domain r) (ia_project r)) (\<lambda>job.
        rbind (ingest_require (ij_status job \<notin> set terminal_ingest_statuses) ''ingest_attempt_job_terminal'') (\<lambda>_.
        rbind (validate_attempt_status (ia_status r)) (\<lambda>_.
        rbind (validate_attempt_number d (ia_job r) (ia_no r)) (\<lambda>_.
        rbind (require_execution_session d (ia_session r)) (\<lambda>_.
        rbind (require_command_receipt d (ia_receipt r)) (\<lambda>_.
        rbind (reject_raw_material (ia_metadata r)) (\<lambda>_.
        rbind (reject_raw_option (ia_lease r)) (\<lambda>_.
        reject_raw_option (ia_error r)))))))))))) (\<lambda>_.
     seq (with_integers [ia_no r]
       (insert_attempt (r\<lparr>ia_metadata := sort_json (ia_metadata r), ia_updated_at := ia_created_at r\<rparr>))) (\<lambda>_.
     read_back (\<lambda>d. get_ingest_attempt d (ia_id r)))) d"

definition transition_ingest_attempt_status ::
    "string \<Rightarrow> string \<Rightarrow> string \<Rightarrow> string option \<Rightarrow> string option \<Rightarrow> (attempt_row, db) comp" where
  "transition_ingest_attempt_status ingest_attempt_id status updated_at completed_at error_code d =
     seq (of_result (rbind (validate_attempt_status status) (\<lambda>_.
        rbind (require_attempt d ingest_attempt_id) (\<lambda>current.
        rbind (reject_terminal_transition (ia_status current) status ''ingest_attempt_terminal_status'') (\<lambda>_.
        reject_raw_option error_code))))) (\<lambda>_.
     seq (modify (\<lambda>d. d\<lparr>attempts := update_where (\<lambda>r. ia_id r = ingest_attempt_id)
            (\<lambda>r. r\<lparr>ia_status := status, ia_updated_at := updated_at,
               ia_completed_at := (if status \<in> set terminal_ingest_statuses then completed_at else None),
               ia_error := error_code\<rparr>) (attempts d)\<rparr>)) (\<lambda>_.
     (\<lambda>d. of_result (require_attempt d ingest_attempt_id) d))) d"

definition append_ingest_job_log :: "job_log_row \<Rightarrow> (job_log_row, db) comp" where
  "append_ingest_job_log r d =
     seq (of_result (rbind (require_nonempty (il_id r)) (\<lambda>_.
        rbind (require_job_scope d (il_job r) (il_tenant r) (il_domain r) (il_project r)) (\<lambda>_.
        rbind (case il_attempt r of None \<Rightarrow> Inr () | Some attempt \<Rightarrow>
            rbind (require_attempt_scope d attempt (il_job r) (il_tenant r) (il_domain r) (il_project r))
              (\<lambda>_. Inr ())) (\<lambda>_.
        rbind (validate_log_kind (il_kind r)) (\<lambda>_.
        rbind (validate_log_severity (il_severity r)) (\<lambda>_.
        rbind (require_nonempty (il_code r)) (\<lambda>_.
        rbind (reject_raw_text (il_code r)) (\<lambda>_.
        rbind (reject_raw_material (il_metadata r)) (\<lambda>_.
        reject_raw_option (il_summary r))))))))))) (\<lambda>_.
     seq (insert_job_log (r\<lparr>il_metadata := sort_json (il_metadata r)\<rparr>)) (\<lambda>_.
     read_back (\<lambda>d. get_ingest_job_log d (il_id r)))) d"

section \<open>What the operations do\<close>

interpretation batch_ids: unique_table batches "\<lambda>r. Some (ib_id r)" insert_batch
  by unfold_locales (auto simp: insert_batch_def comp_simps split: if_splits)

interpretation batch_keys: unique_table batches
  "\<lambda>r. Some (ib_tenant r, ib_domain r, ib_project r, ib_idem r)" insert_batch
  by unfold_locales (auto simp: insert_batch_def comp_simps split: if_splits)

interpretation job_ids: unique_table jobs "\<lambda>r. Some (ij_id r)" insert_job
  by unfold_locales (auto simp: insert_job_def comp_simps split: if_splits)

interpretation job_keys: unique_table jobs "\<lambda>r. Some (ij_batch r, ij_kind r, ij_idem r)" insert_job
  by unfold_locales (auto simp: insert_job_def comp_simps split: if_splits)

interpretation attempt_ids: unique_table attempts "\<lambda>r. Some (ia_id r)" insert_attempt
  by unfold_locales (auto simp: insert_attempt_def comp_simps split: if_splits)

interpretation attempt_keys: unique_table attempts "\<lambda>r. Some (ia_job r, ia_no r)" insert_attempt
  by unfold_locales (auto simp: insert_attempt_def comp_simps split: if_splits)

interpretation job_log_ids: unique_table job_logs "\<lambda>r. Some (il_id r)" insert_job_log
  by unfold_locales (auto simp: insert_job_log_def comp_simps split: if_splits)

lemma insert_frames:
  "insert_batch b d = (Inr u, d') \<Longrightarrow> d' = d\<lparr>batches := batches d @ [b]\<rparr>"
  "insert_job j d = (Inr u, d') \<Longrightarrow> d' = d\<lparr>jobs := jobs d @ [j]\<rparr>"
  "insert_attempt a d = (Inr u, d') \<Longrightarrow> d' = d\<lparr>attempts := attempts d @ [a]\<rparr>"
  "insert_job_log l d = (Inr u, d') \<Longrightarrow> d' = d\<lparr>job_logs := job_logs d @ [l]\<rparr>"
  by (simp_all add: insert_batch_def insert_job_def insert_attempt_def insert_job_log_def comp_apply
    split: if_splits)

text \<open>A checked insert that binds integers is a checked insert with one check more.\<close>

lemma seq_with_integers:
  "seq (of_result c) (\<lambda>x. seq (with_integers ns (m x)) (f x)) =
   seq (of_result (rbind c (\<lambda>x. rbind (check_all bind_integer ns) (\<lambda>_. Inr x)))) (\<lambda>x. seq (m x) (f x))"
proof -
  have "seq (of_result c) (\<lambda>x. seq (seq (of_result c') (\<lambda>_. m x)) (f x)) =
      seq (of_result (rbind c (\<lambda>x. rbind c' (\<lambda>_. Inr x)))) (\<lambda>x. seq (m x) (f x))" for c' :: "unit result"
    by (rule ext, cases c; cases c') (simp_all add: comp_simps)
  then show ?thesis by (simp add: with_integers_def)
qed

lemma create_ingest_batch_cases:
  assumes "create_ingest_batch r d = (res, d')"
  obtains e where "res = Inl e" "d' = d"
  | stored where "res = Inr stored" "insert_batch stored d = (Inr (), d')"
      "stored = r\<lparr>ib_metadata := sort_json (ib_metadata r), ib_updated_at := ib_created_at r\<rparr>"
      "require_project_scope d (ib_tenant r) (ib_domain r) (ib_project r) = Inr ()"
      "ib_status r \<in> set ingest_batch_statuses" "0 \<le> ib_descriptor_count r"
      "validate_sha256 (ib_fingerprint r) = Inr ()" "reject_raw_material (ib_metadata r) = Inr ()"
      "bind_integer (ib_descriptor_count r) = Inr ()" "reject_raw_text (ib_intake_ref r) = Inr ()"
proof -
  let ?row = "r\<lparr>ib_metadata := sort_json (ib_metadata r), ib_updated_at := ib_created_at r\<rparr>"
  note run = assms [unfolded create_ingest_batch_def get_ingest_batch_def seq_with_integers]
  show thesis
    using batch_ids.checked_insert [where row = "\<lambda>_. ?row" and k = "ib_id r", simplified, OF run]
    by (elim disjE exE conjE) (rule that(1), assumption, assumption, rule that(2) [of ?row],
      auto simp: rbind_eq_Inr validate_batch_status_def validate_nonnegative_def)
qed

lemma create_ingest_job_cases:
  assumes "create_ingest_job tasks artifacts r d = (res, d')"
  obtains e where "res = Inl e" "d' = d"
  | stored task_refs artifact_refs where "res = Inr stored" "insert_job stored d = (Inr (), d')"
      "stored = r\<lparr>ij_task_refs := task_refs, ij_artifact_refs := artifact_refs,
         ij_metadata := sort_json (ij_metadata r), ij_updated_at := ij_created_at r,
         ij_terminal_at := (if ij_status r \<in> set terminal_ingest_statuses then Some (ij_created_at r) else None)\<rparr>"
      "validate_ref_list tasks = Inr task_refs" "validate_ref_list artifacts = Inr artifact_refs"
      "isl (require_batch_scope d (ij_batch r) (ij_tenant r) (ij_domain r) (ij_project r)) = False"
      "ij_kind r \<in> set ingest_job_kinds" "ij_status r \<in> set ingest_job_statuses" "0 \<le> ij_priority r"
      "reject_raw_material (ij_metadata r) = Inr ()" "bind_integer (ij_priority r) = Inr ()"
proof -
  let ?row = "\<lambda>refs. r\<lparr>ij_task_refs := fst refs, ij_artifact_refs := snd refs,
         ij_metadata := sort_json (ij_metadata r), ij_updated_at := ij_created_at r,
         ij_terminal_at := (if ij_status r \<in> set terminal_ingest_statuses then Some (ij_created_at r) else None)\<rparr>"
  note run = assms [unfolded create_ingest_job_def get_ingest_job_def seq_with_integers]
  show thesis
    using job_ids.checked_insert [where row = ?row and k = "ij_id r", simplified, OF run]
    by (elim disjE exE conjE) (rule that(1), assumption, assumption, erule that(2), assumption, rule refl,
      auto simp: rbind_eq_Inr validate_job_status_def validate_job_kind_def validate_nonnegative_def)
qed

lemma create_ingest_attempt_cases:
  assumes "create_ingest_attempt r d = (res, d')"
  obtains e where "res = Inl e" "d' = d"
  | stored job where "res = Inr stored" "insert_attempt stored d = (Inr (), d')"
      "stored = r\<lparr>ia_metadata := sort_json (ia_metadata r), ia_updated_at := ia_created_at r\<rparr>"
      "require_job_scope d (ia_job r) (ia_tenant r) (ia_domain r) (ia_project r) = Inr job"
      "ij_status job \<notin> set terminal_ingest_statuses" "ia_status r \<in> set ingest_attempt_statuses"
      "ia_no r = expected_attempt_no d (ia_job r)" "reject_raw_material (ia_metadata r) = Inr ()"
      "reject_raw_option (ia_error r) = Inr ()" "reject_raw_option (ia_lease r) = Inr ()"
proof -
  let ?row = "r\<lparr>ia_metadata := sort_json (ia_metadata r), ia_updated_at := ia_created_at r\<rparr>"
  note run = assms [unfolded create_ingest_attempt_def get_ingest_attempt_def seq_with_integers]
  show thesis
    using attempt_ids.checked_insert [where row = "\<lambda>_. ?row" and k = "ia_id r", simplified, OF run] that
    by (auto simp: rbind_eq_Inr validate_attempt_status_def validate_attempt_number_def)
qed

lemma append_ingest_job_log_cases:
  assumes "append_ingest_job_log r d = (res, d')"
  obtains e where "res = Inl e" "d' = d"
  | stored job where "res = Inr stored" "insert_job_log stored d = (Inr (), d')"
      "stored = r\<lparr>il_metadata := sort_json (il_metadata r)\<rparr>"
      "require_job_scope d (il_job r) (il_tenant r) (il_domain r) (il_project r) = Inr job"
      "\<And>a. il_attempt r = Some a \<Longrightarrow> \<exists>attempt. require_attempt d a = Inr attempt \<and> ia_job attempt = il_job r"
      "il_kind r \<in> set ingest_job_log_kinds" "il_severity r \<in> set ingest_job_log_severities"
      "reject_raw_material (il_metadata r) = Inr ()" "reject_raw_text (il_code r) = Inr ()"
      "reject_raw_option (il_summary r) = Inr ()"
proof -
  let ?row = "r\<lparr>il_metadata := sort_json (il_metadata r)\<rparr>"
  note run = assms [unfolded append_ingest_job_log_def get_ingest_job_log_def]
  show thesis
    using job_log_ids.checked_insert [where row = "\<lambda>_. ?row" and k = "il_id r", simplified, OF run] that
    by (auto simp: rbind_eq_Inr validate_log_kind_def validate_log_severity_def require_attempt_scope_def
      split: option.splits)
qed

text \<open>A terminal status may only be set to itself.\<close>

definition ingest_moves :: "string \<Rightarrow> string \<Rightarrow> bool" where
  "ingest_moves x y \<longleftrightarrow> x \<notin> set terminal_ingest_statuses"

lemma transition_ingest_batch_status_cases:
  assumes "transition_ingest_batch_status i status now d = (res, d')"
  obtains e where "res = Inl e" "d' = d"
  | current stored where "res = Inr stored" "get_ingest_batch d i = Some current"
      "status \<in> set ingest_batch_statuses" "status = ib_status current \<or> ingest_moves (ib_status current) status"
      "d' = d\<lparr>batches := update_where (\<lambda>r. ib_id r = i)
         (\<lambda>r. r\<lparr>ib_status := status, ib_updated_at := now\<rparr>) (batches d)\<rparr>"
proof -
  have "get_ingest_batch (d\<lparr>batches := update_where (\<lambda>r. ib_id r = i)
         (\<lambda>r. r\<lparr>ib_status := status, ib_updated_at := now\<rparr>) (batches d)\<rparr>) i =
      map_option (\<lambda>r. r\<lparr>ib_status := status, ib_updated_at := now\<rparr>) (get_ingest_batch d i)"
    using select_key_update [where k = ib_id and q = "\<lambda>_. True" and a = i and rows = "batches d"
      and f = "\<lambda>r. r\<lparr>ib_status := status, ib_updated_at := now\<rparr>"]
    by (simp add: get_ingest_batch_def)
  then show thesis
    using assms that
    by (auto simp: transition_ingest_batch_status_def comp_simps validate_batch_status_def require_batch_def
      reject_terminal_transition_def require_def ingest_moves_def split: option.splits if_splits)
qed

lemma transition_ingest_job_status_cases:
  assumes "transition_ingest_job_status i status now d = (res, d')"
  obtains e where "res = Inl e" "d' = d"
  | current stored where "res = Inr stored" "get_ingest_job d i = Some current"
      "status \<in> set ingest_job_statuses" "status = ij_status current \<or> ingest_moves (ij_status current) status"
      "d' = d\<lparr>jobs := update_where (\<lambda>r. ij_id r = i) (\<lambda>r. r\<lparr>ij_status := status, ij_updated_at := now,
         ij_terminal_at := (if status \<in> set terminal_ingest_statuses then Some now else None)\<rparr>) (jobs d)\<rparr>"
proof -
  let ?f = "\<lambda>r. r\<lparr>ij_status := status, ij_updated_at := now,
         ij_terminal_at := (if status \<in> set terminal_ingest_statuses then Some now else None)\<rparr>"
  have "get_ingest_job (d\<lparr>jobs := update_where (\<lambda>r. ij_id r = i) ?f (jobs d)\<rparr>) i =
      map_option ?f (get_ingest_job d i)"
    using select_key_update [where k = ij_id and q = "\<lambda>_. True" and a = i and rows = "jobs d" and f = ?f]
    by (simp add: get_ingest_job_def)
  then show thesis
    using assms that
    by (auto simp: transition_ingest_job_status_def comp_simps validate_job_status_def require_job_def Let_def
      reject_terminal_transition_def require_def ingest_moves_def split: option.splits if_splits)
qed

lemma transition_ingest_attempt_status_cases:
  assumes "transition_ingest_attempt_status i status now completed error d = (res, d')"
  obtains e where "res = Inl e" "d' = d"
  | current stored where "res = Inr stored" "get_ingest_attempt d i = Some current"
      "status \<in> set ingest_attempt_statuses" "status = ia_status current \<or> ingest_moves (ia_status current) status"
      "reject_raw_option error = Inr ()"
      "d' = d\<lparr>attempts := update_where (\<lambda>r. ia_id r = i) (\<lambda>r. r\<lparr>ia_status := status, ia_updated_at := now,
         ia_completed_at := (if status \<in> set terminal_ingest_statuses then completed else None),
         ia_error := error\<rparr>) (attempts d)\<rparr>"
proof -
  let ?f = "\<lambda>r. r\<lparr>ia_status := status, ia_updated_at := now,
         ia_completed_at := (if status \<in> set terminal_ingest_statuses then completed else None),
         ia_error := error\<rparr>"
  have "get_ingest_attempt (d\<lparr>attempts := update_where (\<lambda>r. ia_id r = i) ?f (attempts d)\<rparr>) i =
      map_option ?f (get_ingest_attempt d i)"
    using select_key_update [where k = ia_id and q = "\<lambda>_. True" and a = i and rows = "attempts d" and f = ?f]
    by (simp add: get_ingest_attempt_def)
  then show thesis
    using assms that
    by (cases "reject_raw_option error")
      (auto simp: transition_ingest_attempt_status_def comp_simps validate_attempt_status_def require_attempt_def
        reject_terminal_transition_def require_def ingest_moves_def split: option.splits if_splits)
qed

section \<open>The invariant of the four tables\<close>

lemma ref_items_Inr:
  assumes "ref_items items refs = Inr rs" "distinct refs"
  shows "distinct rs \<and> (\<exists>texts. items = map JStr texts \<and> rs = refs @ map py_strip texts
    \<and> (\<forall>s\<in>set texts. py_strip s \<noteq> [] \<and> reject_raw_text (py_strip s) = Inr ()))"
  using assms
proof (induction items arbitrary: refs)
  case (Cons item items)
  then obtain s where s: "item = JStr s" "py_strip s \<noteq> []" "reject_raw_text (py_strip s) = Inr ()"
    "py_strip s \<notin> set refs" "ref_items items (refs @ [py_strip s]) = Inr rs"
    by (auto split: json.splits if_splits simp: rbind_eq_Inr)
  with Cons.IH [OF s(5)] Cons.prems(2) obtain texts where texts: "distinct rs" "items = map JStr texts"
    "rs = (refs @ [py_strip s]) @ map py_strip texts"
    "\<forall>s\<in>set texts. py_strip s \<noteq> [] \<and> reject_raw_text (py_strip s) = Inr ()"
    by auto
  with s show ?case by (intro conjI exI [where x = "s # texts"]) auto
qed simp

text \<open>
  What raw material is, said without the checks of the code: a text that carries inline data, a text
  that names a place on somebody's machine, a text that is the name of a file, and a key that
  announces such content; a JSON value is clean when no key and no text at any depth is one of these.
\<close>

definition inline_data :: "string \<Rightarrow> bool" where
  "inline_data s \<longleftrightarrow> (\<exists>u v. py_lower s = u @ ''base64,'' @ v) \<or> (\<exists>v. py_lower s = ''data:'' @ v)"

definition machine_path :: "string \<Rightarrow> bool" where
  "machine_path s \<longleftrightarrow> (\<exists>v. s = ''/'' @ v) \<or> (\<exists>v. s = [backslash, backslash] @ v)
     \<or> (\<exists>drive sep v. s = [drive, CHR '':'', sep] @ v \<and> (is_lower drive \<or> is_upper drive)
          \<and> (sep = CHR ''/'' \<or> sep = backslash))
     \<or> (\<exists>u v. s = u @ ''/Users/'' @ v) \<or> (\<exists>u v. s = u @ [backslash] @ ''Users'' @ [backslash] @ v)"

definition names_a_file :: "string \<Rightarrow> bool" where
  "names_a_file s \<longleftrightarrow> (\<exists>stem ext rest. s = stem @ ''.'' @ ext @ rest \<and> stem \<noteq> [] \<and> rest \<in> {[], [newline]}
     \<and> (\<forall>c\<in>set stem. c \<noteq> CHR ''/'' \<and> \<not> is_space c)
     \<and> py_lower ext \<in> {''csv'', ''doc'', ''docx'', ''eml'', ''jpeg'', ''jpg'', ''msg'', ''pdf'', ''png'', ''txt'',
          ''xls'', ''xlsx'', ''zip''})"

definition harmless_text :: "string \<Rightarrow> bool" where
  "harmless_text s \<longleftrightarrow> \<not> inline_data s \<and> \<not> machine_path s \<and> \<not> names_a_file s"

definition material_key :: "string \<Rightarrow> bool" where
  "material_key k \<longleftrightarrow> (let name = map (\<lambda>c. if c = CHR ''-'' then CHR ''_'' else c) (py_lower k) in
     (\<exists>v. name = ''raw_'' @ v)
     \<or> name \<in> {''content'', ''content_base64'', ''base64'', ''base64_content'', ''blob_bytes'', ''document_text'',
          ''ocr_text'', ''stack_trace'', ''stderr'', ''stdout'', ''file_name'', ''filename'', ''source_filename'',
          ''absolute_path'', ''local_path'', ''source_path'', ''source_file_path''})"

fun json_keys :: "json \<Rightarrow> string list" where
  "json_keys (JObj kvs) = map fst kvs @ concat (map (\<lambda>p. json_keys (snd p)) kvs)"
| "json_keys (JArr vs) = concat (map json_keys vs)"
| "json_keys _ = []"

fun json_texts :: "json \<Rightarrow> string list" where
  "json_texts (JObj kvs) = concat (map (\<lambda>p. json_texts (snd p)) kvs)"
| "json_texts (JArr vs) = concat (map json_texts vs)"
| "json_texts (JStr s) = [s]"
| "json_texts _ = []"

definition clean :: "json \<Rightarrow> bool" where
  "clean v \<longleftrightarrow> (\<forall>k\<in>set (json_keys v). \<not> material_key k) \<and> (\<forall>s\<in>set (json_texts v). harmless_text s)"

text \<open>The checks of the code decide exactly that.\<close>

lemma contains_iff: "contains p s \<longleftrightarrow> (\<exists>u v. s = u @ p @ v)"
proof (induction s)
  case (Cons c s)
  have "(\<exists>u v. c # s = u @ p @ v) \<longleftrightarrow> (\<exists>v. c # s = p @ v) \<or> (\<exists>u v. s = u @ p @ v)"
    by (metis append_Cons append_Nil list.exhaust list.inject)
  with Cons show ?case by (simp add: prefix_def)
qed simp

lemma absolute_path_iff:
  "absolute_path s \<or> list_ex (\<lambda>marker. contains marker s) raw_path_markers \<longleftrightarrow> machine_path s"
proof -
  have "(case s of c # d # e # v \<Rightarrow> (is_lower c \<or> is_upper c) \<and> d = CHR '':'' \<and> (e = backslash \<or> e = CHR ''/'')
        | _ \<Rightarrow> False) \<longleftrightarrow>
      (\<exists>drive sep v. s = [drive, CHR '':'', sep] @ v \<and> (is_lower drive \<or> is_upper drive)
          \<and> (sep = CHR ''/'' \<or> sep = backslash))"
    by (cases s rule: remdups_adj.cases; cases "tl (tl s)") (auto split: list.splits)
  then show ?thesis
    unfolding absolute_path_def machine_path_def raw_path_markers_def by (simp add: contains_iff prefix_def) blast
qed

lemma lower_char_dot: "lower_char c = CHR ''.'' \<longleftrightarrow> c = CHR ''.''"
proof
  assume "lower_char c = CHR ''.''"
  then have "code_of (lower_char c) = code_of (CHR ''.'')" by simp
  then have "\<not> is_upper c" by (auto simp: lower_char_def is_upper_def)
  with \<open>lower_char c = CHR ''.''\<close> show "c = CHR ''.''" by (simp add: lower_char_def)
qed (simp add: lower_char_def is_upper_def)

lemma file_name_with_iff:
  "file_name_with s ext \<longleftrightarrow> (\<exists>stem e. s = stem @ ''.'' @ e \<and> stem \<noteq> []
    \<and> (\<forall>c\<in>set stem. c \<noteq> CHR ''/'' \<and> \<not> is_space c) \<and> py_lower e = ext)"
proof
  let ?n = "length s - Suc (length ext)"
  assume named: "file_name_with s ext"
  then have "suffix (CHR ''.'' # ext) (py_lower s)" and stem: "take ?n s \<noteq> []"
    "\<forall>c\<in>set (take ?n s). c \<noteq> CHR ''/'' \<and> \<not> is_space c"
    by (auto simp: file_name_with_def Let_def list_all_iff)
  then obtain u where "map lower_char s = u @ CHR ''.'' # ext" by (auto simp: suffix_def py_lower_def)
  then obtain a b where ab: "s = a @ b" "map lower_char b = CHR ''.'' # ext"
    using map_eq_append_conv [of lower_char s u] by metis
  from ab(2) obtain c e where b: "b = c # e" and s: "lower_char c = CHR ''.''" "map lower_char e = ext"
    by (auto simp: map_eq_Cons_conv)
  have "length s = length a + Suc (length ext)" unfolding ab(1) b s(2) [symmetric] by simp
  then have stem_is: "take ?n s = a" unfolding ab(1) by simp
  have "s = take ?n s @ ''.'' @ e" "py_lower e = ext"
    unfolding stem_is py_lower_def using ab(1) b s by (simp_all add: lower_char_dot)
  with stem show "\<exists>stem e. s = stem @ ''.'' @ e \<and> stem \<noteq> []
    \<and> (\<forall>c\<in>set stem. c \<noteq> CHR ''/'' \<and> \<not> is_space c) \<and> py_lower e = ext"
    by blast
next
  assume "\<exists>stem e. s = stem @ ''.'' @ e \<and> stem \<noteq> []
    \<and> (\<forall>c\<in>set stem. c \<noteq> CHR ''/'' \<and> \<not> is_space c) \<and> py_lower e = ext"
  then obtain stem e where s: "s = stem @ ''.'' @ e" "stem \<noteq> []"
    "\<forall>c\<in>set stem. c \<noteq> CHR ''/'' \<and> \<not> is_space c" "py_lower e = ext" by blast
  from s(4) have "length ext = length e" by (auto simp: py_lower_def)
  then have stem_is: "take (length s - Suc (length ext)) s = stem" unfolding s(1) by simp
  have "py_lower s = map lower_char stem @ CHR ''.'' # ext"
    unfolding s(1) s(4) [symmetric] py_lower_def by (simp add: lower_char_dot)
  then have "suffix (CHR ''.'' # ext) (py_lower s)" by (simp add: suffix_def)
  then show "file_name_with s ext"
    unfolding file_name_with_def Let_def stem_is list_all_iff using s(2,3) by blast
qed

lemma raw_filename_iff: "raw_filename s \<longleftrightarrow> names_a_file s"
proof -
  let ?named = "\<lambda>s. list_ex (file_name_with s) raw_file_extensions"
  have named: "?named s \<longleftrightarrow> (\<exists>stem ext. s = stem @ ''.'' @ ext \<and> stem \<noteq> []
      \<and> (\<forall>c\<in>set stem. c \<noteq> CHR ''/'' \<and> \<not> is_space c) \<and> py_lower ext \<in> set raw_file_extensions)" for s
    by (auto simp: list_ex_iff file_name_with_iff)
  have "s \<noteq> [] \<and> last s = newline \<and> ?named (butlast s) \<longleftrightarrow> (\<exists>t. s = t @ [newline] \<and> ?named t)"
    by (metis append_butlast_last_id butlast_snoc last_snoc snoc_eq_iff_butlast)
  then have "raw_filename s \<longleftrightarrow> (\<exists>t rest. s = t @ rest \<and> rest \<in> {[], [newline]} \<and> ?named t)"
    by (auto simp: raw_filename_def match_dollar_def)
  also have "\<dots> \<longleftrightarrow> (\<exists>stem ext rest. s = stem @ ''.'' @ ext @ rest \<and> stem \<noteq> [] \<and> rest \<in> {[], [newline]}
     \<and> (\<forall>c\<in>set stem. c \<noteq> CHR ''/'' \<and> \<not> is_space c) \<and> py_lower ext \<in> set raw_file_extensions)"
  proof -
    have "(\<exists>t rest. s = t @ rest \<and> R rest \<and> (\<exists>stem ext. t = stem @ dot @ ext \<and> stem \<noteq> [] \<and> P stem \<and> Q ext))
        \<longleftrightarrow> (\<exists>stem ext rest. s = stem @ dot @ ext @ rest \<and> stem \<noteq> [] \<and> R rest \<and> P stem \<and> Q ext)"
      for dot :: string and P Q R by (metis append_assoc)
    then show ?thesis unfolding named .
  qed
  also have "set raw_file_extensions = {''csv'', ''doc'', ''docx'', ''eml'', ''jpeg'', ''jpg'', ''msg'', ''pdf'',
      ''png'', ''txt'', ''xls'', ''xlsx'', ''zip''}"
    unfolding raw_file_extensions_def by (simp only: list.set)
  finally show ?thesis unfolding names_a_file_def .
qed

lemma reject_raw_text_iff: "reject_raw_text s = Inr () \<longleftrightarrow> harmless_text s"
  using absolute_path_iff [of s] raw_filename_iff [of s]
  by (auto simp: reject_raw_text_def harmless_text_def inline_data_def Let_def rbind_eq_Inr contains_iff prefix_def)

lemma raw_key_iff: "raw_key k \<longleftrightarrow> material_key k"
  by (auto simp: raw_key_def material_key_def Let_def replace_char_def forbidden_raw_keys_def prefix_def)

lemma reject_raw_option_iff: "reject_raw_option v = Inr () \<longleftrightarrow> pred_option harmless_text v"
  by (auto simp: reject_raw_option_def reject_raw_text_iff split: option.split)

lemma clean_iff: "reject_raw_material v = Inr () \<longleftrightarrow> clean v"
proof (induction v)
  case (JArr vs)
  then show ?case by (auto simp: clean_def)
next
  case (JObj kvs)
  have "reject_raw_material (snd p) = Inr () \<longleftrightarrow> clean (snd p)" if "p \<in> set kvs" for p
    using JObj [of p "snd p"] that by (cases p) simp
  then show ?case by (auto simp: clean_def rbind_eq_Inr raw_key_iff)
qed (simp_all add: clean_def reject_raw_text_iff)

lemma validate_ref_list_ok: "validate_ref_list v = Inr rs \<Longrightarrow> distinct rs \<and> list_all harmless_text rs"
  by (auto simp: validate_ref_list_def list_all_iff reject_raw_text_iff dest!: ref_items_Inr split: json.splits)

lemma clean_sort_json [simp]: "clean (sort_json v) = clean v"
proof (induction v)
  case (JArr vs)
  then show ?case by (simp add: clean_iff [symmetric])
next
  case (JObj kvs)
  have "clean (sort_json (snd p)) = clean (snd p)" if "p \<in> set kvs" for p
    using JObj [of p "snd p"] that by (cases p) simp
  then show ?case by (auto simp: clean_iff [symmetric] rbind_eq_Inr)
qed (simp_all add: clean_iff [symmetric])

definition batch_scope :: "db \<Rightarrow> string \<Rightarrow> (string \<times> string \<times> string) option" where
  "batch_scope d i = map_option (\<lambda>r. (ib_tenant r, ib_domain r, ib_project r)) (get_ingest_batch d i)"

definition job_scope :: "db \<Rightarrow> string \<Rightarrow> (string \<times> string \<times> string) option" where
  "job_scope d i = map_option (\<lambda>r. (ij_tenant r, ij_domain r, ij_project r)) (get_ingest_job d i)"

definition attempt_job :: "db \<Rightarrow> string \<Rightarrow> string option" where
  "attempt_job d i = map_option ia_job (get_ingest_attempt d i)"

definition batch_row_ok :: "batch_row \<Rightarrow> bool" where
  "batch_row_ok r \<longleftrightarrow> ib_status r \<in> set ingest_batch_statuses \<and> 0 \<le> ib_descriptor_count r
     \<and> ib_descriptor_count r < 2 ^ 63 \<and> harmless_text (ib_intake_ref r) \<and> clean (ib_metadata r)"

definition job_row_ok :: "db \<Rightarrow> job_row \<Rightarrow> bool" where
  "job_row_ok d r \<longleftrightarrow> ij_status r \<in> set ingest_job_statuses \<and> ij_kind r \<in> set ingest_job_kinds
     \<and> 0 \<le> ij_priority r \<and> ij_priority r < 2 ^ 63
     \<and> (ij_terminal_at r \<noteq> None \<longleftrightarrow> ij_status r \<in> set terminal_ingest_statuses)
     \<and> distinct (ij_task_refs r) \<and> distinct (ij_artifact_refs r)
     \<and> list_all harmless_text (ij_task_refs r @ ij_artifact_refs r) \<and> clean (ij_metadata r)
     \<and> batch_scope d (ij_batch r) = Some (ij_tenant r, ij_domain r, ij_project r)"

definition attempt_row_ok :: "db \<Rightarrow> attempt_row \<Rightarrow> bool" where
  "attempt_row_ok d r \<longleftrightarrow> ia_status r \<in> set ingest_attempt_statuses \<and> clean (ia_metadata r)
     \<and> pred_option harmless_text (ia_lease r) \<and> pred_option harmless_text (ia_error r)
     \<and> job_scope d (ia_job r) = Some (ia_tenant r, ia_domain r, ia_project r)"

definition job_log_row_ok :: "db \<Rightarrow> job_log_row \<Rightarrow> bool" where
  "job_log_row_ok d r \<longleftrightarrow> il_kind r \<in> set ingest_job_log_kinds \<and> il_severity r \<in> set ingest_job_log_severities
     \<and> harmless_text (il_code r) \<and> pred_option harmless_text (il_summary r) \<and> clean (il_metadata r)
     \<and> job_scope d (il_job r) = Some (il_tenant r, il_domain r, il_project r)
     \<and> (\<forall>a. il_attempt r = Some a \<longrightarrow> attempt_job d a = Some (il_job r))"

definition ingest_keys_ok :: "db \<Rightarrow> bool" where
  "ingest_keys_ok d \<longleftrightarrow>
     unique_keys (\<lambda>r. Some (ib_id r)) (batches d)
     \<and> unique_keys (\<lambda>r. Some (ib_tenant r, ib_domain r, ib_project r, ib_idem r)) (batches d)
     \<and> unique_keys (\<lambda>r. Some (ij_id r)) (jobs d)
     \<and> unique_keys (\<lambda>r. Some (ij_batch r, ij_kind r, ij_idem r)) (jobs d)
     \<and> unique_keys (\<lambda>r. Some (ia_id r)) (attempts d)
     \<and> unique_keys (\<lambda>r. Some (il_id r)) (job_logs d)"

definition attempt_numbers :: "db \<Rightarrow> string \<Rightarrow> int list" where
  "attempt_numbers d j = map ia_no (filter (\<lambda>r. ia_job r = j) (attempts d))"

definition ingest_ok :: "db \<Rightarrow> bool" where
  "ingest_ok d \<longleftrightarrow> ingest_keys_ok d
     \<and> (\<forall>r\<in>set (batches d). batch_row_ok r) \<and> (\<forall>r\<in>set (jobs d). job_row_ok d r)
     \<and> (\<forall>r\<in>set (attempts d). attempt_row_ok d r) \<and> (\<forall>r\<in>set (job_logs d). job_log_row_ok d r)
     \<and> (\<forall>j. attempt_numbers d j = map int [1..<Suc (length (attempt_numbers d j))])"

datatype ingest_op =
    Create_Batch batch_row
  | Move_Batch string string string
  | Create_Job json json job_row
  | Move_Job string string string
  | Create_Attempt attempt_row
  | Move_Attempt string string string "string option" "string option"
  | Append_Log job_log_row

fun run_ingest_op :: "ingest_op \<Rightarrow> db \<Rightarrow> db" where
  "run_ingest_op (Create_Batch r) d = snd (create_ingest_batch r d)"
| "run_ingest_op (Move_Batch i s now) d = snd (transition_ingest_batch_status i s now d)"
| "run_ingest_op (Create_Job ts as r) d = snd (create_ingest_job ts as r d)"
| "run_ingest_op (Move_Job i s now) d = snd (transition_ingest_job_status i s now d)"
| "run_ingest_op (Create_Attempt r) d = snd (create_ingest_attempt r d)"
| "run_ingest_op (Move_Attempt i s now completed error) d =
     snd (transition_ingest_attempt_status i s now completed error d)"
| "run_ingest_op (Append_Log r) d = snd (append_ingest_job_log r d)"

text \<open>
  One rule for all operations: nothing changes, or one row is added after its checks, or one status
  is set.
\<close>

lemma run_ingest_op_cases:
  obtains "run_ingest_op op d = d"
  | b where "run_ingest_op op d = d\<lparr>batches := batches d @ [b]\<rparr>" "insert_batch b d = (Inr (), run_ingest_op op d)"
      "batch_row_ok b" "require_project_scope d (ib_tenant b) (ib_domain b) (ib_project b) = Inr ()"
  | j where "run_ingest_op op d = d\<lparr>jobs := jobs d @ [j]\<rparr>" "insert_job j d = (Inr (), run_ingest_op op d)"
      "job_row_ok d j"
  | a job where "run_ingest_op op d = d\<lparr>attempts := attempts d @ [a]\<rparr>"
      "insert_attempt a d = (Inr (), run_ingest_op op d)" "attempt_row_ok d a"
      "ia_no a = expected_attempt_no d (ia_job a)" "get_ingest_job d (ia_job a) = Some job"
      "ij_status job \<notin> set terminal_ingest_statuses"
  | l where "run_ingest_op op d = d\<lparr>job_logs := job_logs d @ [l]\<rparr>"
      "insert_job_log l d = (Inr (), run_ingest_op op d)" "job_log_row_ok d l"
  | i s now current where "run_ingest_op op d = d\<lparr>batches := update_where (\<lambda>r. ib_id r = i)
         (\<lambda>r. r\<lparr>ib_status := s, ib_updated_at := now\<rparr>) (batches d)\<rparr>" "s \<in> set ingest_batch_statuses"
      "get_ingest_batch d i = Some current" "s = ib_status current \<or> ingest_moves (ib_status current) s"
  | i s now current where "run_ingest_op op d = d\<lparr>jobs := update_where (\<lambda>r. ij_id r = i)
         (\<lambda>r. r\<lparr>ij_status := s, ij_updated_at := now,
           ij_terminal_at := (if s \<in> set terminal_ingest_statuses then Some now else None)\<rparr>) (jobs d)\<rparr>"
      "s \<in> set ingest_job_statuses"
      "get_ingest_job d i = Some current" "s = ij_status current \<or> ingest_moves (ij_status current) s"
  | i s now completed error current where "run_ingest_op op d = d\<lparr>attempts := update_where (\<lambda>r. ia_id r = i)
         (\<lambda>r. r\<lparr>ia_status := s, ia_updated_at := now,
           ia_completed_at := (if s \<in> set terminal_ingest_statuses then completed else None),
           ia_error := error\<rparr>) (attempts d)\<rparr>"
      "s \<in> set ingest_attempt_statuses" "pred_option harmless_text error"
      "get_ingest_attempt d i = Some current" "s = ia_status current \<or> ingest_moves (ia_status current) s"
proof (cases op)
  case (Create_Batch r)
  obtain res d' where run: "create_ingest_batch r d = (res, d')" by fastforce
  show ?thesis
  proof (cases rule: create_ingest_batch_cases [OF run])
    case (2 b)
    with that(2) [of b] insert_frames(1) [OF 2(2)] Create_Batch run show ?thesis
      by (simp add: batch_row_ok_def clean_iff reject_raw_text_iff bind_integer_def)
  qed (use that(1) Create_Batch run in simp)
next
  case (Create_Job ts as r)
  obtain res d' where run: "create_ingest_job ts as r d = (res, d')" by fastforce
  show ?thesis
  proof (cases rule: create_ingest_job_cases [OF run])
    case (2 j tr ar)
    have "job_row_ok d j"
      using 2 validate_ref_list_ok [OF 2(4)] validate_ref_list_ok [OF 2(5)]
      by (auto simp: job_row_ok_def batch_scope_def require_batch_scope_def require_batch_def require_def
        clean_iff bind_integer_def split: option.splits if_splits)
    with that(3) [of j] insert_frames(2) [OF 2(2)] 2(2) Create_Job run show ?thesis by simp
  qed (use that(1) Create_Job run in simp)
next
  case (Create_Attempt r)
  obtain res d' where run: "create_ingest_attempt r d = (res, d')" by fastforce
  show ?thesis
  proof (cases rule: create_ingest_attempt_cases [OF run])
    case (2 a job)
    have "attempt_row_ok d a" "get_ingest_job d (ia_job a) = Some job"
      using 2 by (auto simp: attempt_row_ok_def job_scope_def require_job_scope_def require_job_def require_def
        clean_iff reject_raw_option_iff split: option.splits if_splits)
    with that(4) [of a job] insert_frames(3) [OF 2(2)] 2 Create_Attempt run show ?thesis by simp
  qed (use that(1) Create_Attempt run in simp)
next
  case (Append_Log r)
  obtain res d' where run: "append_ingest_job_log r d = (res, d')" by fastforce
  show ?thesis
  proof (cases rule: append_ingest_job_log_cases [OF run])
    case (2 l job)
    have "job_log_row_ok d l"
      using 2 by (auto simp: job_log_row_ok_def job_scope_def attempt_job_def require_job_scope_def
        require_job_def require_attempt_def require_def clean_iff reject_raw_text_iff
        reject_raw_option_iff        split: option.splits if_splits)
    with that(5) [of l] insert_frames(4) [OF 2(2)] 2(2) Append_Log run show ?thesis by simp
  qed (use that(1) Append_Log run in simp)
next
  case (Move_Batch i s now)
  obtain res d' where run: "transition_ingest_batch_status i s now d = (res, d')" by fastforce
  show ?thesis
    by (cases rule: transition_ingest_batch_status_cases [OF run])
      (use that(1,6) Move_Batch run in simp_all)
next
  case (Move_Job i s now)
  obtain res d' where run: "transition_ingest_job_status i s now d = (res, d')" by fastforce
  show ?thesis
    by (cases rule: transition_ingest_job_status_cases [OF run])
      (use that(1,7) Move_Job run in simp_all)
next
  case (Move_Attempt i s now completed error)
  obtain res d' where run: "transition_ingest_attempt_status i s now completed error d = (res, d')" by fastforce
  show ?thesis
    by (cases rule: transition_ingest_attempt_status_cases [OF run])
      (use that(1,8) Move_Attempt run in \<open>simp_all add: reject_raw_option_iff\<close>)
qed

section \<open>Scopes are kept\<close>

definition scopes_kept :: "db \<Rightarrow> db \<Rightarrow> bool" where
  "scopes_kept d d' \<longleftrightarrow> (\<forall>i s. batch_scope d i = Some s \<longrightarrow> batch_scope d' i = Some s)
     \<and> (\<forall>i s. job_scope d i = Some s \<longrightarrow> job_scope d' i = Some s)
     \<and> (\<forall>i s. attempt_job d i = Some s \<longrightarrow> attempt_job d' i = Some s)"

lemma scopes_updated:
  "(\<And>r. ib_id (f r) = ib_id r) \<Longrightarrow> (\<And>r. (ib_tenant (f r), ib_domain (f r), ib_project (f r)) = (ib_tenant r, ib_domain r, ib_project r))
    \<Longrightarrow> batch_scope (d\<lparr>batches := update_where p f (batches d)\<rparr>) i = batch_scope d i"
  "(\<And>r. ij_id (g r) = ij_id r) \<Longrightarrow> (\<And>r. (ij_tenant (g r), ij_domain (g r), ij_project (g r)) = (ij_tenant r, ij_domain r, ij_project r))
    \<Longrightarrow> job_scope (d\<lparr>jobs := update_where q g (jobs d)\<rparr>) i = job_scope d i"
  "(\<And>r. ia_id (h r) = ia_id r) \<Longrightarrow> (\<And>r. ia_job (h r) = ia_job r)
    \<Longrightarrow> attempt_job (d\<lparr>attempts := update_where s h (attempts d)\<rparr>) i = attempt_job d i"
  by (simp_all add: batch_scope_def job_scope_def attempt_job_def get_ingest_batch_def get_ingest_job_def
    get_ingest_attempt_def select_column_updated)

lemma scopes_other:
  "batch_scope (d\<lparr>jobs := js\<rparr>) i = batch_scope d i" "batch_scope (d\<lparr>attempts := as\<rparr>) i = batch_scope d i"
  "batch_scope (d\<lparr>job_logs := ls\<rparr>) i = batch_scope d i"
  "job_scope (d\<lparr>batches := bs\<rparr>) i = job_scope d i" "job_scope (d\<lparr>attempts := as\<rparr>) i = job_scope d i"
  "job_scope (d\<lparr>job_logs := ls\<rparr>) i = job_scope d i"
  "attempt_job (d\<lparr>batches := bs\<rparr>) i = attempt_job d i" "attempt_job (d\<lparr>jobs := js\<rparr>) i = attempt_job d i"
  "attempt_job (d\<lparr>job_logs := ls\<rparr>) i = attempt_job d i"
  by (simp_all add: batch_scope_def job_scope_def attempt_job_def get_ingest_batch_def get_ingest_job_def
    get_ingest_attempt_def)

lemma scopes_appended:
  "batch_scope d i = Some s \<Longrightarrow> batch_scope (d\<lparr>batches := batches d @ bs\<rparr>) i = Some s"
  "job_scope d i = Some s \<Longrightarrow> job_scope (d\<lparr>jobs := jobs d @ js\<rparr>) i = Some s"
  "attempt_job d i = Some j \<Longrightarrow> attempt_job (d\<lparr>attempts := attempts d @ as\<rparr>) i = Some j"
  by (auto simp: batch_scope_def job_scope_def attempt_job_def get_ingest_batch_def get_ingest_job_def
    get_ingest_attempt_def select_one_append)

lemma run_ingest_op_scopes: "scopes_kept d (run_ingest_op op d)"
  by (rule run_ingest_op_cases [of op d])
    (simp_all add: scopes_kept_def scopes_updated scopes_other scopes_appended)

lemma rows_ok_kept:
  assumes "scopes_kept d d'"
  shows "job_row_ok d j \<Longrightarrow> job_row_ok d' j" "attempt_row_ok d a \<Longrightarrow> attempt_row_ok d' a"
    "job_log_row_ok d l \<Longrightarrow> job_log_row_ok d' l"
  using assms by (auto simp: scopes_kept_def job_row_ok_def attempt_row_ok_def job_log_row_ok_def)

lemma expected_after:
  assumes "attempt_numbers d j = map int [1..<Suc n]"
  shows "expected_attempt_no d j = int (Suc n)"
proof (cases n)
  case (Suc m)
  then have "attempt_numbers d j = 1 # map int [2..<Suc n]"
    using assms by (simp add: upt_conv_Cons numeral_2_eq_2)
  moreover have "fold max (map int [2..<Suc n]) 1 = int n"
  proof -
    have "fold max (map int [2..<Suc n]) 1 = Max (set (1 # map int [2..<Suc n]))"
      by (rule Max.set_eq_fold [symmetric])
    also have "\<dots> = int n"
      using Suc by (intro Max_eqI) (auto intro!: image_eqI [where x = n])
    finally show ?thesis .
  qed
  ultimately show ?thesis by (simp add: expected_attempt_no_def attempt_numbers_def)
qed (use assms in \<open>simp add: expected_attempt_no_def attempt_numbers_def\<close>)

lemma attempt_numbers_update:
  assumes "\<And>r. ia_no (f r) = ia_no r" "\<And>r. ia_job (f r) = ia_job r"
  shows "attempt_numbers (d\<lparr>attempts := update_where p f (attempts d)\<rparr>) j = attempt_numbers d j"
proof -
  have "map ia_no (filter (\<lambda>r. ia_job r = j) (update_where p f rows)) =
      map ia_no (filter (\<lambda>r. ia_job r = j) rows)" for rows
    using assms by (induction rows) (auto simp: update_where_def)
  then show ?thesis by (simp add: attempt_numbers_def)
qed

lemma insert_batch_keeps_keys:
  assumes run: "insert_batch b d = (Inr u, d')" and ok: "ingest_keys_ok d"
  shows "ingest_keys_ok d'"
  using ok keepsD' [OF batch_ids.keeps_unique _ run] keepsD' [OF batch_keys.keeps_unique _ run]
  unfolding ingest_keys_ok_def insert_frames(1) [OF run] by simp

lemma insert_job_keeps_keys:
  assumes run: "insert_job j d = (Inr u, d')" and ok: "ingest_keys_ok d"
  shows "ingest_keys_ok d'"
  using ok keepsD' [OF job_ids.keeps_unique _ run] keepsD' [OF job_keys.keeps_unique _ run]
  unfolding ingest_keys_ok_def insert_frames(2) [OF run] by simp

lemma insert_attempt_keeps_keys:
  assumes run: "insert_attempt a d = (Inr u, d')" and ok: "ingest_keys_ok d"
  shows "ingest_keys_ok d'"
  using ok keepsD' [OF attempt_ids.keeps_unique _ run]
  unfolding ingest_keys_ok_def insert_frames(3) [OF run] by simp

lemma insert_job_log_keeps_keys:
  assumes run: "insert_job_log l d = (Inr u, d')" and ok: "ingest_keys_ok d"
  shows "ingest_keys_ok d'"
  using ok keepsD' [OF job_log_ids.keeps_unique _ run]
  unfolding ingest_keys_ok_def insert_frames(4) [OF run] by simp

lemma run_ingest_op_keys:
  assumes "ingest_keys_ok d"
  shows "ingest_keys_ok (run_ingest_op op d)"
proof (rule run_ingest_op_cases [of op d])
  show ?thesis if "insert_batch b d = (Inr (), run_ingest_op op d)" for b
    using insert_batch_keeps_keys [OF that assms] .
  show ?thesis if "insert_job j d = (Inr (), run_ingest_op op d)" for j
    using insert_job_keeps_keys [OF that assms] .
  show ?thesis if "insert_attempt a d = (Inr (), run_ingest_op op d)" for a
    using insert_attempt_keeps_keys [OF that assms] .
  show ?thesis if "insert_job_log l d = (Inr (), run_ingest_op op d)" for l
    using insert_job_log_keeps_keys [OF that assms] .
qed (use assms in \<open>simp_all add: ingest_keys_ok_def unique_keys_update\<close>)

lemma run_ingest_op_numbers_step:
  "attempt_numbers (run_ingest_op op d) j = attempt_numbers d j
   \<or> attempt_numbers (run_ingest_op op d) j = attempt_numbers d j @ [expected_attempt_no d j]"
  by (rule run_ingest_op_cases [of op d])
    (simp_all add: attempt_numbers_update, auto simp: attempt_numbers_def)

lemma run_ingest_op_numbers:
  assumes "attempt_numbers d j = map int [1..<Suc (length (attempt_numbers d j))]"
  shows "attempt_numbers (run_ingest_op op d) j =
    map int [1..<Suc (length (attempt_numbers (run_ingest_op op d) j))]"
  using run_ingest_op_numbers_step
proof
  let ?n = "length (attempt_numbers d j)"
  assume "attempt_numbers (run_ingest_op op d) j = attempt_numbers d j @ [expected_attempt_no d j]"
  then have "attempt_numbers (run_ingest_op op d) j = map int [1..<Suc ?n] @ [int (Suc ?n)]"
    using expected_after [OF assms] assms by metis
  moreover have "map int [1..<Suc (Suc ?n)] = map int [1..<Suc ?n] @ [int (Suc ?n)]" by simp
  moreover have "length (attempt_numbers (run_ingest_op op d) j) = Suc ?n"
    using \<open>_ = attempt_numbers d j @ _\<close> by simp
  ultimately show ?thesis by (simp only:)
qed (use assms in metis)

lemma run_ingest_op_ok:
  assumes ok: "ingest_ok d"
  shows "ingest_ok (run_ingest_op op d)"
proof -
  note kept = rows_ok_kept [OF run_ingest_op_scopes [of d op]]
  let ?d = "run_ingest_op op d"
  have "(\<forall>r\<in>set (batches ?d). batch_row_ok r) \<and> (\<forall>r\<in>set (jobs ?d). job_row_ok d r)
      \<and> (\<forall>r\<in>set (attempts ?d). attempt_row_ok d r) \<and> (\<forall>r\<in>set (job_logs ?d). job_log_row_ok d r)"
    using ok by (rule_tac run_ingest_op_cases [of op d])
      (auto simp: ingest_ok_def set_update_where batch_row_ok_def job_row_ok_def attempt_row_ok_def)
  then show ?thesis
    using ok kept run_ingest_op_keys [of d op] run_ingest_op_numbers [where d = d and op = op] by (simp add: ingest_ok_def)
qed

section \<open>Statuses\<close>

definition ingest_job_status :: "db \<Rightarrow> string \<Rightarrow> string option" where
  "ingest_job_status d i = map_option ij_status (get_ingest_job d i)"

definition ingest_batch_status :: "db \<Rightarrow> string \<Rightarrow> string option" where
  "ingest_batch_status d i = map_option ib_status (get_ingest_batch d i)"

definition ingest_attempt_status :: "db \<Rightarrow> string \<Rightarrow> string option" where
  "ingest_attempt_status d i = map_option ia_status (get_ingest_attempt d i)"

lemma ingest_status_step:
  "ingest_batch_status d i = Some x \<Longrightarrow>
    \<exists>y. ingest_batch_status (run_ingest_op op d) i = Some y \<and> (y = x \<or> ingest_moves x y)"
  "ingest_job_status d i = Some x \<Longrightarrow>
    \<exists>y. ingest_job_status (run_ingest_op op d) i = Some y \<and> (y = x \<or> ingest_moves x y)"
  "ingest_attempt_status d i = Some x \<Longrightarrow>
    \<exists>y. ingest_attempt_status (run_ingest_op op d) i = Some y \<and> (y = x \<or> ingest_moves x y)"
proof -
  note defs = ingest_batch_status_def ingest_job_status_def ingest_attempt_status_def get_ingest_batch_def
    get_ingest_job_def get_ingest_attempt_def
  show "ingest_batch_status d i = Some x \<Longrightarrow>
    \<exists>y. ingest_batch_status (run_ingest_op op d) i = Some y \<and> (y = x \<or> ingest_moves x y)"
    by (rule run_ingest_op_cases [of op d])
      (simp_all add: defs status_append status_set [where moves = ingest_moves] del: map_option_eq_Some)
  show "ingest_job_status d i = Some x \<Longrightarrow>
    \<exists>y. ingest_job_status (run_ingest_op op d) i = Some y \<and> (y = x \<or> ingest_moves x y)"
    by (rule run_ingest_op_cases [of op d])
      (simp_all add: defs status_append status_set [where moves = ingest_moves] del: map_option_eq_Some)
  show "ingest_attempt_status d i = Some x \<Longrightarrow>
    \<exists>y. ingest_attempt_status (run_ingest_op op d) i = Some y \<and> (y = x \<or> ingest_moves x y)"
    by (rule run_ingest_op_cases [of op d])
      (simp_all add: defs status_append status_set [where moves = ingest_moves] del: map_option_eq_Some)
qed

interpretation ingest_batch_lifecycle: lifecycle ingest_batch_status run_ingest_op ingest_moves
  by unfold_locales (rule ingest_status_step)

interpretation ingest_job_lifecycle: lifecycle ingest_job_status run_ingest_op ingest_moves
  by unfold_locales (rule ingest_status_step)

interpretation ingest_attempt_lifecycle: lifecycle ingest_attempt_status run_ingest_op ingest_moves
  by unfold_locales (rule ingest_status_step)

section \<open>Properties\<close>

text \<open>
  C33: The ingest tables stay well-formed under any sequence of operations with any arguments: ids and
  idempotency keys occur once, statuses and kinds are the declared ones, counts and priorities are
  non-negative integers of 64 bits, a job has a terminal time exactly when its status is terminal, every
  job lies in the scope of its batch, every attempt and log entry in the scope of its job, the attempts
  at a job are numbered 1, 2, 3, ... in the order they were made, and no raw material is stored: no key
  of the metadata announces it, and no text of the metadata, no planned reference, intake reference,
  lease token, error code, log code or log summary carries inline data, names a place on a machine or is
  the name of a file.
\<close>

theorem ingest_operations_keep_tables:
  assumes "ingest_ok d"
  shows "ingest_ok (fold run_ingest_op ops d)"
  using assms by (induction ops arbitrary: d) (simp_all add: run_ingest_op_ok)

definition ingest_sample_db :: db where
  "ingest_sample_db = empty_db\<lparr>projects := [\<lparr>pj_id = ''p'', pj_tenant = ''t'', pj_domain = ''d'',
     pj_key = ''k'', pj_name = ''n'', pj_state = ''active'', pj_metadata = [], pj_creator_id = ''ann'',
     pj_creator_type = ''human'', pj_created_at = ''t0'', pj_updated_at = ''t0''\<rparr>],
     batches := [\<lparr>ib_id = ''b'', ib_tenant = ''t'', ib_domain = ''d'', ib_project = ''p'', ib_intake_ref = ''intake-1'',
       ib_idem = ''k'', ib_fingerprint = ''sha256:'' @ replicate 64 (CHR ''0''), ib_status = ''accepted'',
       ib_descriptor_count = 2, ib_metadata = JObj [], ib_actor_id = ''a'', ib_actor_type = ''service'',
       ib_created_at = ''2026-03-01T00:00:00Z'', ib_updated_at = ''2026-03-01T00:00:00Z''\<rparr>],
     jobs := [\<lparr>ij_id = ''j'', ij_batch = ''b'', ij_tenant = ''t'', ij_domain = ''d'', ij_project = ''p'',
       ij_kind = ''chunk_index'', ij_status = ''queued'', ij_priority = 0, ij_idem = ''k'',
       ij_fingerprint = ''sha256:'' @ replicate 64 (CHR ''0''), ij_receipt = None, ij_task_refs = [],
       ij_artifact_refs = [], ij_metadata = JObj [], ij_created_at = ''2026-03-01T00:00:00Z'',
       ij_updated_at = ''2026-03-01T00:00:00Z'', ij_terminal_at = None\<rparr>]\<rparr>"

definition first_attempt :: attempt_row where
  "first_attempt = \<lparr>ia_id = ''a1'', ia_job = ''j'', ia_tenant = ''t'', ia_domain = ''d'', ia_project = ''p'',
     ia_no = 1, ia_status = ''running'', ia_session = None, ia_receipt = None, ia_lease = None,
     ia_metadata = JObj [(''worker'', JStr ''w1'')], ia_started_at = None, ia_completed_at = None,
     ia_error = None, ia_created_at = ''2026-03-01T00:00:00Z'', ia_updated_at = ''2026-03-01T00:00:00Z''\<rparr>"

lemma sample_intake_accepted: "reject_raw_text ''intake-1'' = Inr ()"
  by code_simp

lemma ingest_sample_ok: "ingest_ok ingest_sample_db"
  by (simp add: sample_intake_accepted ingest_ok_def ingest_keys_ok_def unique_keys_total ingest_sample_db_def empty_db_def
    batch_row_ok_def job_row_ok_def clean_iff [symmetric] reject_raw_text_iff [symmetric] batch_scope_def get_ingest_batch_def attempt_numbers_def
    ingest_batch_statuses_def ingest_job_statuses_def ingest_job_kinds_def terminal_ingest_statuses_def)

theorem ingest_operations_keep_tables_witness:
  "ingest_ok (fold run_ingest_op [Create_Attempt first_attempt, Move_Job ''j'' ''running'' ''2026-03-02T00:00:00Z'']
     ingest_sample_db)"
  by (rule ingest_operations_keep_tables) (rule ingest_sample_ok)

text \<open>
  A terminal status is final: once a batch, a job or an attempt has succeeded, failed or been
  canceled, no sequence of operations gives it another status or removes it.
\<close>

lemma terminal_ingest_status_final:
  assumes "x \<in> {''succeeded'', ''failed'', ''canceled''}"
  shows "(ingest_batch_status d i = Some x \<longrightarrow> ingest_batch_status (fold run_ingest_op ops d) i = Some x)
    \<and> (ingest_job_status d i = Some x \<longrightarrow> ingest_job_status (fold run_ingest_op ops d) i = Some x)
    \<and> (ingest_attempt_status d i = Some x \<longrightarrow> ingest_attempt_status (fold run_ingest_op ops d) i = Some x)"
proof -
  have stuck: "\<not> ingest_moves x y" for y
    using assms by (auto simp: ingest_moves_def terminal_ingest_statuses_def)
  show ?thesis
    using ingest_batch_lifecycle.final_stays [OF stuck] ingest_job_lifecycle.final_stays [OF stuck]
      ingest_attempt_lifecycle.final_stays [OF stuck] by blast
qed

text \<open>
  A finished job gets no further attempt: as long as operations follow, whatever they are, the
  attempts at a job with a terminal status are the ones it had.
\<close>

lemma finished_job_gets_no_attempt:
  assumes "ingest_job_status d j = Some x" "x \<in> {''succeeded'', ''failed'', ''canceled''}"
  shows "attempt_numbers (fold run_ingest_op ops d) j = attempt_numbers d j"
  using assms(1)
proof (induction ops arbitrary: d)
  case (Cons op ops)
  have "ingest_job_status (run_ingest_op op d) j = Some x"
    using ingest_status_step(2) [OF Cons.prems, of op] assms(2)
    by (auto simp: ingest_moves_def terminal_ingest_statuses_def)
  moreover have "attempt_numbers (run_ingest_op op d) j = attempt_numbers d j"
    by (rule run_ingest_op_cases [of op d])
      (use Cons.prems assms(2) in \<open>auto simp: attempt_numbers_update ingest_job_status_def
        terminal_ingest_statuses_def\<close>, auto simp: attempt_numbers_def)
  ultimately show ?case using Cons.IH by simp
qed simp

text \<open>
  A reference list is accepted exactly when it is a list of texts of which none is blank, none is
  raw material and no two are equal once stripped; what is stored are the stripped texts in order.
\<close>

lemma validate_ref_list_accepts:
  "validate_ref_list v = Inr refs \<longleftrightarrow>
    (\<exists>texts. v = JArr (map JStr texts) \<and> refs = map py_strip texts \<and> distinct refs
      \<and> list_all (\<lambda>s. py_strip s \<noteq> [] \<and> reject_raw_text (py_strip s) = Inr ()) texts)"
proof
  show "validate_ref_list v = Inr refs \<Longrightarrow> \<exists>texts. v = JArr (map JStr texts) \<and> refs = map py_strip texts
      \<and> distinct refs \<and> list_all (\<lambda>s. py_strip s \<noteq> [] \<and> reject_raw_text (py_strip s) = Inr ()) texts"
    by (auto simp: validate_ref_list_def list_all_iff dest!: ref_items_Inr split: json.splits)
next
  have "ref_items (map JStr texts) acc = Inr (acc @ map py_strip texts)"
    if "distinct (acc @ map py_strip texts)"
      "list_all (\<lambda>s. py_strip s \<noteq> [] \<and> reject_raw_text (py_strip s) = Inr ()) texts" for texts acc
    using that by (induction texts arbitrary: acc) auto
  from this [where acc = "[]"] show "\<exists>texts. v = JArr (map JStr texts) \<and> refs = map py_strip texts \<and> distinct refs
      \<and> list_all (\<lambda>s. py_strip s \<noteq> [] \<and> reject_raw_text (py_strip s) = Inr ()) texts \<Longrightarrow>
      validate_ref_list v = Inr refs"
    by (auto simp: validate_ref_list_def)
qed

text \<open>
  What the digest check accepts: \<open>sha256:\<close> and 64 lower-case hexadecimal digits, and the same followed
  by one line feed, which is then stored as the fingerprint.
\<close>

lemma validate_sha256_accepts:
  "validate_sha256 value = Inr () \<longleftrightarrow>
    (\<exists>digits rest. value = ''sha256:'' @ digits @ rest \<and> length digits = 64 \<and> list_all is_hex_lower digits
      \<and> rest \<in> {[], [newline]})"
proof -
  have full: "fullmatch sha256_digest_pattern s \<longleftrightarrow>
      (\<exists>digits. s = ''sha256:'' @ digits \<and> length digits = 64 \<and> list_all is_hex_lower digits)" for s
  proof -
    have "list_all2 atom_ok (replicate 64 HexL) ds \<longleftrightarrow> length ds = 64 \<and> list_all is_hex_lower ds" for ds
      by (auto simp: list_all2_conv_all_nth list_all_length)
    then show ?thesis
      by (auto simp: fullmatch_def sha256_digest_pattern_def list_all2_append1 list_all2_Cons1)
  qed
  show ?thesis
  proof
    assume "validate_sha256 value = Inr ()"
    then consider "fullmatch sha256_digest_pattern value"
      | "value \<noteq> []" "last value = newline" "fullmatch sha256_digest_pattern (butlast value)"
      by (auto simp: validate_sha256_def match_dollar_def)
    then show "\<exists>digits rest. value = ''sha256:'' @ digits @ rest \<and> length digits = 64
        \<and> list_all is_hex_lower digits \<and> rest \<in> {[], [newline]}"
    proof cases
      case 2
      then obtain digits where digits: "butlast value = ''sha256:'' @ digits" "length digits = 64"
        "list_all is_hex_lower digits"
        using full by blast
      have "value = ''sha256:'' @ digits @ [newline]"
        using append_butlast_last_id [OF 2(1)] unfolding digits(1) 2(2) by simp
      with digits show ?thesis by blast
    qed (use full in auto)
  next
    assume "\<exists>digits rest. value = ''sha256:'' @ digits @ rest \<and> length digits = 64
        \<and> list_all is_hex_lower digits \<and> rest \<in> {[], [newline]}"
    then obtain digits rest where digits: "value = (''sha256:'' @ digits) @ rest" "length digits = 64"
      "list_all is_hex_lower digits" "rest \<in> {[], [newline]}" by auto
    then have "fullmatch sha256_digest_pattern (''sha256:'' @ digits)" using full by blast
    with digits(1,4) show "validate_sha256 value = Inr ()"
      unfolding validate_sha256_def match_dollar_def require_simps
      by (metis append_Nil2 butlast_snoc empty_iff insertE last_snoc snoc_eq_iff_butlast)
  qed
qed

end
