(* ===== verification/Keyed_Table.thy ===== *)
theory Keyed_Table
  imports Lifecycle
begin

text \<open>
  Conditional updates: \<open>UPDATE ... WHERE key = ? AND guard\<close>, \<open>None\<close> unless exactly one row changed, and
  the row read back. The repositories of human tasks, approvals, execution sessions and tool executions
  all change state this way. The interface is a table in a component of the state, with its key; what
  the update does is proved once, under the uniqueness of the key.
\<close>

definition update_one ::
    "('s \<Rightarrow> 'r list) \<Rightarrow> ('r list \<Rightarrow> 's \<Rightarrow> 's) \<Rightarrow> ('r \<Rightarrow> bool) \<Rightarrow> ('r \<Rightarrow> 'r) \<Rightarrow> ('s \<Rightarrow> 'r option) \<Rightarrow> ('r option, 's) comp" where
  "update_one rows put hit f get s =
     (let s' = put (update_where hit f (rows s)) s
      in (Inr (if row_count hit (rows s) \<noteq> 1 then None else get s'), s'))"

locale keyed_table =
  fixes rows :: "'s \<Rightarrow> 'r list"
    and put :: "'r list \<Rightarrow> 's \<Rightarrow> 's"
    and key :: "'r \<Rightarrow> 'k"
  assumes rows_put: "rows (put xs s) = xs"
    and put_rows: "put (rows s) s = s"
begin

lemma missed:
  assumes "\<And>r. r \<in> set (rows s) \<Longrightarrow> key r = i \<Longrightarrow> \<not> q r"
  shows "update_one rows put (\<lambda>r. key r = i \<and> q r) f get s = (Inr None, s)"
proof -
  have none: "\<And>r. r \<in> set (rows s) \<Longrightarrow> \<not> (key r = i \<and> q r)" using assms by blast
  then have "row_count (\<lambda>r. key r = i \<and> q r) (rows s) = 0"
    by (simp add: row_count_def filter_empty_conv)
  then show ?thesis by (simp add: update_one_def update_where_none [OF none] put_rows)
qed

lemma hit:
  assumes unique: "distinct (map key (rows s))" and keeps_key: "\<And>r. key (f r) = key r"
    and found: "select_one (\<lambda>r. key r = i) (rows s) = Some r" "q r"
  shows "update_one rows put (\<lambda>r. key r = i \<and> q r) f (\<lambda>s. select_one (\<lambda>r. key r = i) (rows s)) s =
    (Inr (Some (f r)), put (update_where (\<lambda>r. key r = i \<and> q r) f (rows s)) s)"
proof -
  have "row_count (\<lambda>r. key r = i \<and> q r) (rows s) = 1"
    using found by (simp add: row_count_key [OF unique])
  moreover have "select_one (\<lambda>r. key r = i) (update_where (\<lambda>r. key r = i \<and> q r) f (rows s)) = Some (f r)"
    using found by (simp add: select_key_update keeps_key)
  ultimately show ?thesis by (simp add: update_one_def Let_def rows_put)
qed

text \<open>Either way, only the row with that key may have changed, and only by \<open>f\<close> under its guard.\<close>

lemma lookups:
  assumes "update_one rows put (\<lambda>r. key r = i \<and> q r) f get s = (res, s')" "\<And>r. key (f r) = key r"
  shows "select_one (\<lambda>r. key r = j) (rows s') =
      map_option (\<lambda>r. if j = i \<and> q r then f r else r) (select_one (\<lambda>r. key r = j) (rows s))"
    and "distinct (map key (rows s')) = distinct (map key (rows s))"
proof -
  have rows: "rows s' = update_where (\<lambda>r. key r = i \<and> q r) f (rows s)"
    using assms(1) by (auto simp: update_one_def Let_def rows_put)
  show "select_one (\<lambda>r. key r = j) (rows s') =
      map_option (\<lambda>r. if j = i \<and> q r then f r else r) (select_one (\<lambda>r. key r = j) (rows s))"
    using assms(2) by (cases "j = i") (simp_all add: rows select_key_update select_other_update option.map_ident)
  show "distinct (map key (rows s')) = distinct (map key (rows s))"
    using assms(2) by (simp add: rows map_update_where)
qed

lemma outcome:
  assumes run: "update_one rows put (\<lambda>r. key r = i \<and> q r) f (\<lambda>s. select_one (\<lambda>r. key r = i) (rows s)) s = (res, s')"
    and unique: "distinct (map key (rows s))" and keeps_key: "\<And>r. key (f r) = key r"
  obtains "res = Inr None" "s' = s" "\<And>r. select_one (\<lambda>r. key r = i) (rows s) = Some r \<Longrightarrow> \<not> q r"
  | r where "res = Inr (Some (f r))" "select_one (\<lambda>r. key r = i) (rows s) = Some r" "q r"
      "s' = put (update_where (\<lambda>r. key r = i \<and> q r) f (rows s)) s"
proof (cases "\<exists>r. select_one (\<lambda>r. key r = i) (rows s) = Some r \<and> q r")
  case True
  then obtain r where r: "select_one (\<lambda>r. key r = i) (rows s) = Some r" "q r" by blast
  from hit [where f = f and q = q, OF unique keeps_key r] run that(2) [OF _ r] show ?thesis by simp
next
  case False
  have "\<not> q r" if "r \<in> set (rows s)" "key r = i" for r
    using select_of_key [OF unique that(1)] that(2) False by simp
  from missed [of s i q, OF this] run that(1) False show ?thesis by simp
qed

end

end
