(* ===== verification/Human_Tasks.thy ===== *)
theory Human_Tasks
  imports Keyed_Table Runs
begin

text \<open>
  The repositories of human tasks and approvals, \<open>src/onetruth/infrastructure/repositories/human_tasks.py\<close>
  and \<open>approvals.py\<close> beside it. A task is claimed for a while, completed by who claimed it, or reopened
  when the claim has expired; the abstract machine of such a lease is given first, and the rows of the
  table implement it.
\<close>

section \<open>Human tasks\<close>

definition insert_human_task :: "human_task_row \<Rightarrow> (unit, db) comp" where
  "insert_human_task r d =
     (if exists_row (\<lambda>x. ht_id x = ht_id r) (human_tasks d)
      then raise (IntegrityError ''UNIQUE constraint failed: human_tasks.human_task_id'') d
      else if exists_row (\<lambda>x. ht_task_run x = ht_task_run r) (human_tasks d)
      then raise (IntegrityError ''UNIQUE constraint failed: human_tasks.task_run_id'') d
      else if ht_run r \<notin> wr_id ` set (runs d) \<or> ht_task_run r \<notin> tr_id ` set (task_runs d)
      then raise fk_failed d
      else (Inr (), d\<lparr>human_tasks := human_tasks d @ [r]\<rparr>))"

definition create_human_task ::
    "string \<Rightarrow> string \<Rightarrow> string \<Rightarrow> string \<Rightarrow> string \<Rightarrow> string list \<Rightarrow> string option \<Rightarrow> string option \<Rightarrow>
     string option \<Rightarrow> int \<Rightarrow> string \<Rightarrow> (unit, db) comp" where
  "create_human_task human_task_id workflow_run_id task_run_id task_kind state candidate_roles owner_role
       due_at escalation_at generation created_at =
     with_integers [generation] (insert_human_task \<lparr>ht_id = human_task_id, ht_run = workflow_run_id, ht_task_run = task_run_id,
       ht_kind = task_kind, ht_state = state, ht_roles = candidate_roles, ht_owner_role = owner_role,
       ht_assignee_id = None, ht_assignee_type = None, ht_due_at = due_at, ht_escalation_at = escalation_at,
       ht_lease_version = 0, ht_claimed_at = None, ht_claimed_until = None, ht_approval = None,
       ht_reopen_count = 0, ht_generation = generation, ht_created_at = created_at, ht_updated_at = created_at\<rparr>)"

definition get_human_task :: "db \<Rightarrow> string \<Rightarrow> human_task_row option" where
  "get_human_task d human_task_id = select_one (\<lambda>r. ht_id r = human_task_id) (human_tasks d)"

definition get_human_task_by_task_run_id :: "db \<Rightarrow> string \<Rightarrow> human_task_row option" where
  "get_human_task_by_task_run_id d task_run_id = select_one (\<lambda>r. ht_task_run r = task_run_id) (human_tasks d)"

definition list_human_tasks_for_workflow_run :: "db \<Rightarrow> string \<Rightarrow> human_task_row list" where
  "list_human_tasks_for_workflow_run d workflow_run_id =
     sort_key ht_created_at (sort_key ht_id (filter (\<lambda>r. ht_run r = workflow_run_id) (human_tasks d)))"

definition claimed_row :: "string \<Rightarrow> string \<Rightarrow> string \<Rightarrow> string \<Rightarrow> string \<Rightarrow> human_task_row \<Rightarrow> human_task_row" where
  "claimed_row actor_id actor_type claimed_at claimed_until updated_at r =
     r\<lparr>ht_state := ''CLAIMED'', ht_assignee_id := Some actor_id, ht_assignee_type := Some actor_type,
       ht_lease_version := ht_lease_version r + 1, ht_claimed_at := Some claimed_at,
       ht_claimed_until := Some claimed_until, ht_updated_at := updated_at\<rparr>"

definition claim_human_task ::
    "string \<Rightarrow> string \<Rightarrow> string \<Rightarrow> string \<Rightarrow> string \<Rightarrow> string \<Rightarrow> (human_task_row option, db) comp" where
  "claim_human_task human_task_id actor_id actor_type claimed_at claimed_until updated_at =
     update_one human_tasks (\<lambda>rs d. d\<lparr>human_tasks := rs\<rparr>)
       (\<lambda>r. ht_id r = human_task_id \<and> ht_state r = ''OPEN'')
       (claimed_row actor_id actor_type claimed_at claimed_until updated_at)
       (\<lambda>d. get_human_task d human_task_id)"

definition completed_row :: "string \<Rightarrow> human_task_row \<Rightarrow> human_task_row" where
  "completed_row updated_at r =
     r\<lparr>ht_state := ''COMPLETED'', ht_updated_at := updated_at, ht_claimed_until := None\<rparr>"

definition complete_human_task ::
    "string \<Rightarrow> string \<Rightarrow> string \<Rightarrow> string \<Rightarrow> (human_task_row option, db) comp" where
  "complete_human_task human_task_id actor_id actor_type updated_at =
     update_one human_tasks (\<lambda>rs d. d\<lparr>human_tasks := rs\<rparr>)
       (\<lambda>r. ht_id r = human_task_id \<and> ht_state r = ''CLAIMED'' \<and> ht_assignee_id r = Some actor_id
          \<and> ht_assignee_type r = Some actor_type)
       (completed_row updated_at) (\<lambda>d. get_human_task d human_task_id)"

text \<open>Times are compared as texts, as SQLite compares them.\<close>

definition list_expired_claimed_human_tasks :: "db \<Rightarrow> string \<Rightarrow> string option \<Rightarrow> human_task_row list" where
  "list_expired_claimed_human_tasks d now_iso workflow_run_id =
     sort_key (\<lambda>r. (case ht_claimed_until r of None \<Rightarrow> [] | Some until \<Rightarrow> until)) (sort_key ht_id (filter
       (\<lambda>r. ht_state r = ''CLAIMED''
          \<and> (case ht_claimed_until r of None \<Rightarrow> False | Some until \<Rightarrow> until \<le> now_iso)
          \<and> (workflow_run_id = None \<or> workflow_run_id = Some (ht_run r))) (human_tasks d)))"

definition reopened_row :: "string \<Rightarrow> human_task_row \<Rightarrow> human_task_row" where
  "reopened_row updated_at r =
     r\<lparr>ht_state := ''OPEN'', ht_assignee_id := None, ht_assignee_type := None, ht_claimed_at := None,
       ht_claimed_until := None, ht_lease_version := ht_lease_version r + 1,
       ht_reopen_count := ht_reopen_count r + 1, ht_updated_at := updated_at\<rparr>"

definition reopen_human_task_after_lease_expiry ::
    "string \<Rightarrow> nat \<Rightarrow> string \<Rightarrow> (human_task_row option, db) comp" where
  "reopen_human_task_after_lease_expiry human_task_id expected_lease_version updated_at =
     update_one human_tasks (\<lambda>rs d. d\<lparr>human_tasks := rs\<rparr>)
       (\<lambda>r. ht_id r = human_task_id \<and> ht_state r = ''CLAIMED'' \<and> ht_lease_version r = expected_lease_version)
       (reopened_row updated_at) (\<lambda>d. get_human_task d human_task_id)"

section \<open>Approvals\<close>

definition insert_approval :: "approval_row \<Rightarrow> (unit, db) comp" where
  "insert_approval r d =
     (if exists_row (\<lambda>x. ap_id x = ap_id r) (approvals d)
      then raise (IntegrityError ''UNIQUE constraint failed: approvals.approval_id'') d
      else if ap_run r \<notin> wr_id ` set (runs d) \<or> \<not> fk_ok (ap_task_run r) (map tr_id (task_runs d))
          \<or> \<not> fk_ok (ap_requested_by r) (map tr_id (task_runs d))
      then raise fk_failed d
      else (Inr (), d\<lparr>approvals := approvals d @ [r]\<rparr>))"

definition create_approval ::
    "string \<Rightarrow> string \<Rightarrow> string option \<Rightarrow> string \<Rightarrow> string \<Rightarrow> string \<Rightarrow> string \<Rightarrow> string option \<Rightarrow>
     string list \<Rightarrow> string option \<Rightarrow> string \<Rightarrow> int \<Rightarrow> string \<Rightarrow> (unit, db) comp" where
  "create_approval approval_id workflow_run_id task_run_id approval_kind scope_kind scope_ref state
       requested_by_task_run_id candidate_roles required_role requested_at generation created_at =
     with_integers [generation] (insert_approval \<lparr>ap_id = approval_id, ap_run = workflow_run_id, ap_task_run = task_run_id,
       ap_kind = approval_kind, ap_scope_kind = scope_kind, ap_scope_ref = scope_ref, ap_state = state,
       ap_requested_by = requested_by_task_run_id, ap_roles = candidate_roles,
       ap_required_role = required_role, ap_requested_at = requested_at, ap_responded_at = None,
       ap_response_kind = None, ap_response_reason = None, ap_actor_id = None, ap_actor_type = None,
       ap_generation = generation, ap_created_at = created_at, ap_updated_at = created_at\<rparr>)"

definition get_approval :: "db \<Rightarrow> string \<Rightarrow> approval_row option" where
  "get_approval d approval_id = select_one (\<lambda>r. ap_id r = approval_id) (approvals d)"

definition list_approvals_for_workflow_run :: "db \<Rightarrow> string \<Rightarrow> approval_row list" where
  "list_approvals_for_workflow_run d workflow_run_id =
     sort_key ap_created_at (sort_key ap_id (filter (\<lambda>r. ap_run r = workflow_run_id) (approvals d)))"

definition responded_row ::
    "string \<Rightarrow> string option \<Rightarrow> string \<Rightarrow> string \<Rightarrow> string \<Rightarrow> string \<Rightarrow> approval_row \<Rightarrow> approval_row" where
  "responded_row response_kind response_reason actor_id actor_type responded_at updated_at r =
     r\<lparr>ap_state := ''RESPONDED'', ap_response_kind := Some response_kind, ap_response_reason := response_reason,
       ap_actor_id := Some actor_id, ap_actor_type := Some actor_type, ap_responded_at := Some responded_at,
       ap_generation := ap_generation r + 1, ap_updated_at := updated_at\<rparr>"

definition respond_approval ::
    "string \<Rightarrow> string \<Rightarrow> string option \<Rightarrow> string \<Rightarrow> string \<Rightarrow> string \<Rightarrow> string \<Rightarrow> (approval_row option, db) comp" where
  "respond_approval approval_id response_kind response_reason decided_by_actor_id decided_by_actor_type
       responded_at updated_at =
     update_one approvals (\<lambda>rs d. d\<lparr>approvals := rs\<rparr>)
       (\<lambda>r. ap_id r = approval_id \<and> ap_state r = ''PENDING'')
       (responded_row response_kind response_reason decided_by_actor_id decided_by_actor_type responded_at updated_at)
       (\<lambda>d. get_approval d approval_id)"

section \<open>Facts about the tables\<close>

interpretation human_task_ids: unique_table human_tasks "\<lambda>r. Some (ht_id r)" insert_human_task
  by unfold_locales (auto simp: insert_human_task_def comp_simps split: if_splits)

interpretation human_task_runs: unique_table human_tasks "\<lambda>r. Some (ht_task_run r)" insert_human_task
  by unfold_locales (auto simp: insert_human_task_def comp_simps split: if_splits)

interpretation approval_ids: unique_table approvals "\<lambda>r. Some (ap_id r)" insert_approval
  by unfold_locales (auto simp: insert_approval_def comp_simps split: if_splits)

interpretation human_task_table: keyed_table human_tasks "\<lambda>rs d. d\<lparr>human_tasks := rs\<rparr>" ht_id
  by unfold_locales simp_all

interpretation approval_table: keyed_table approvals "\<lambda>rs d. d\<lparr>approvals := rs\<rparr>" ap_id
  by unfold_locales simp_all

section \<open>The lease of a task\<close>

text \<open>
  A lease is free, held by an actor (id and type, as far as recorded), or done by the actor who held it;
  the number counts how often it changed hands.
\<close>

type_synonym holder = "string option \<times> string option"

datatype lease = Free nat | Held holder nat | Done holder nat

inductive lease_step :: "lease \<Rightarrow> lease \<Rightarrow> bool" where
  claim: "lease_step (Free v) (Held a (Suc v))"
| complete: "lease_step (Held a v) (Done a v)"
| expire: "lease_step (Held a v) (Free (Suc v))"

inductive_cases lease_step_Free: "lease_step (Free v) l"
inductive_cases lease_step_Held: "lease_step (Held a v) l"
inductive_cases lease_step_Done: "lease_step (Done a v) l"

fun lease_version :: "lease \<Rightarrow> nat" where
  "lease_version (Free v) = v"
| "lease_version (Held a v) = v"
| "lease_version (Done a v) = v"

lemma lease_version_grows: "lease_step\<^sup>*\<^sup>* l l' \<Longrightarrow> lease_version l \<le> lease_version l'"
  by (induction rule: rtranclp_induct) (auto elim!: lease_step.cases)

text \<open>The same version later means the same holder, still holding or done.\<close>

lemma lease_same_version:
  assumes "lease_step\<^sup>*\<^sup>* (Held a v) l" "lease_version l = v"
  shows "l = Held a v \<or> l = Done a v"
  using assms
proof (induction rule: rtranclp_induct)
  case (step l l')
  from step(2) show ?case
  proof cases
    case (claim w b)
    with lease_version_grows [OF step(1)] step(4) show ?thesis by simp
  next
    case (complete b w)
    with step(3,4) show ?thesis by auto
  next
    case (expire b w)
    with lease_version_grows [OF step(1)] step(4) show ?thesis by simp
  qed
qed simp

definition actor_of :: "human_task_row \<Rightarrow> holder" where
  "actor_of r = (ht_assignee_id r, ht_assignee_type r)"

definition lease_of :: "human_task_row \<Rightarrow> lease" where
  "lease_of r = (if ht_state r = ''CLAIMED'' then Held (actor_of r) (ht_lease_version r)
     else if ht_state r = ''COMPLETED'' then Done (actor_of r) (ht_lease_version r)
     else Free (ht_lease_version r))"

definition lease_at :: "db \<Rightarrow> string \<Rightarrow> lease option" where
  "lease_at d i = map_option lease_of (get_human_task d i)"

section \<open>Sequences of operations\<close>

datatype human_task_op =
    Create_Task string string string string string "string list" "string option" "string option" "string option" int string
  | Claim_Task string string string string string string
  | Complete_Task string string string string
  | Reopen_Task string nat string

fun run_human_task_op :: "human_task_op \<Rightarrow> db \<Rightarrow> db" where
  "run_human_task_op (Create_Task i w tr k st roles owner due esc g now) d =
     snd (create_human_task i w tr k st roles owner due esc g now d)"
| "run_human_task_op (Claim_Task i a t since until now) d = snd (claim_human_task i a t since until now d)"
| "run_human_task_op (Complete_Task i a t now) d = snd (complete_human_task i a t now d)"
| "run_human_task_op (Reopen_Task i v now) d = snd (reopen_human_task_after_lease_expiry i v now d)"

text \<open>A creation may ask for any state; this is whether it asks for an open task.\<close>

fun creates_open :: "human_task_op \<Rightarrow> bool" where
  "creates_open (Create_Task i w tr k st roles owner due esc g now) \<longleftrightarrow> st = ''OPEN''"
| "creates_open _ \<longleftrightarrow> True"

text \<open>
  What a row says about its lease: an assignee and the time of the claim exactly while it is held or
  done, an expiry time exactly while it is held, and a version that counts claims and reopenings.
\<close>

definition human_task_row_ok :: "human_task_row \<Rightarrow> bool" where
  "human_task_row_ok r \<longleftrightarrow> ht_state r \<in> {''OPEN'', ''CLAIMED'', ''COMPLETED''}
     \<and> (ht_assignee_id r \<noteq> None \<longleftrightarrow> ht_state r \<noteq> ''OPEN'') \<and> (ht_assignee_type r \<noteq> None \<longleftrightarrow> ht_state r \<noteq> ''OPEN'')
     \<and> (ht_claimed_at r \<noteq> None \<longleftrightarrow> ht_state r \<noteq> ''OPEN'') \<and> (ht_claimed_until r \<noteq> None \<longleftrightarrow> ht_state r = ''CLAIMED'')
     \<and> ht_lease_version r = 2 * ht_reopen_count r + (if ht_state r = ''OPEN'' then 0 else 1)"

definition human_tasks_ok :: "db \<Rightarrow> bool" where
  "human_tasks_ok d \<longleftrightarrow> distinct (map ht_id (human_tasks d)) \<and> distinct (map ht_task_run (human_tasks d))
     \<and> (\<forall>r\<in>set (human_tasks d). human_task_row_ok r)"

lemma human_task_update_simps [simp]:
  "ht_id (claimed_row a t since until now r) = ht_id r" "ht_id (completed_row now r) = ht_id r"
  "ht_id (reopened_row now r) = ht_id r"
  "ht_task_run (claimed_row a t since until now r) = ht_task_run r" "ht_task_run (completed_row now r) = ht_task_run r"
  "ht_task_run (reopened_row now r) = ht_task_run r"
  by (simp_all add: claimed_row_def completed_row_def reopened_row_def)

text \<open>The three updates are the three steps of a lease.\<close>

lemma claim_row:
  assumes "ht_state r = ''OPEN''"
  shows "lease_step (lease_of r) (lease_of (claimed_row a t since until now r))"
    and "human_task_row_ok r \<Longrightarrow> human_task_row_ok (claimed_row a t since until now r)"
  using assms lease_step.claim [of "ht_lease_version r" "(Some a, Some t)"]
  by (simp_all add: lease_of_def actor_of_def claimed_row_def human_task_row_ok_def)

lemma complete_row:
  assumes "ht_state r = ''CLAIMED'' \<and> ht_assignee_id r = Some a \<and> ht_assignee_type r = Some t"
  shows "lease_step (lease_of r) (lease_of (completed_row now r))"
    and "human_task_row_ok r \<Longrightarrow> human_task_row_ok (completed_row now r)"
  using assms lease_step.complete [of "(Some a, Some t)" "ht_lease_version r"]
  by (simp_all add: lease_of_def actor_of_def completed_row_def human_task_row_ok_def)

lemma reopen_row:
  assumes "ht_state r = ''CLAIMED'' \<and> ht_lease_version r = v"
  shows "lease_step (lease_of r) (lease_of (reopened_row now r))"
    and "human_task_row_ok r \<Longrightarrow> human_task_row_ok (reopened_row now r)"
  using assms lease_step.expire [of "actor_of r" "ht_lease_version r"]
  by (simp_all add: lease_of_def actor_of_def reopened_row_def human_task_row_ok_def)

text \<open>One rule for all operations: a new open task, or one row changed by one of the three updates.\<close>

lemma run_human_task_op_cases:
  assumes "distinct (map ht_id (human_tasks d))"
  obtains "run_human_task_op op d = d"
  | r where "insert_human_task r d = (Inr (), run_human_task_op op d)" "creates_open op \<Longrightarrow> human_task_row_ok r"
      "run_human_task_op op d = d\<lparr>human_tasks := human_tasks d @ [r]\<rparr>"
  | i q f r where "get_human_task d i = Some r" "q r"
      "run_human_task_op op d = d\<lparr>human_tasks := update_where (\<lambda>r. ht_id r = i \<and> q r) f (human_tasks d)\<rparr>"
      "\<And>r. ht_id (f r) = ht_id r" "\<And>r. ht_task_run (f r) = ht_task_run r"
      "\<And>r. q r \<Longrightarrow> lease_step (lease_of r) (lease_of (f r))"
      "\<And>r. q r \<Longrightarrow> human_task_row_ok r \<Longrightarrow> human_task_row_ok (f r)"
proof (cases op)
  case (Create_Task i w tr k st roles owner due esc g now)
  let ?r = "\<lparr>ht_id = i, ht_run = w, ht_task_run = tr, ht_kind = k, ht_state = st, ht_roles = roles,
       ht_owner_role = owner, ht_assignee_id = None, ht_assignee_type = None, ht_due_at = due,
       ht_escalation_at = esc, ht_lease_version = 0, ht_claimed_at = None, ht_claimed_until = None,
       ht_approval = None, ht_reopen_count = 0, ht_generation = g, ht_created_at = now, ht_updated_at = now\<rparr>"
  consider "run_human_task_op op d = d" | "run_human_task_op op d = snd (insert_human_task ?r d)"
    by (cases rule: with_integers_cases [of "[g]" "insert_human_task ?r" d]) (simp_all add: Create_Task create_human_task_def)
  then show ?thesis
  proof cases
    case 1
    then show ?thesis by (rule that(1))
  next
    case op: 2
    obtain res d' where run: "insert_human_task ?r d = (res, d')" by fastforce
    show ?thesis
    proof (cases res)
      case (Inl e)
      with human_task_ids.insert_failed run that(1) op show ?thesis by simp
    next
      case (Inr u)
      have "d' = d\<lparr>human_tasks := human_tasks d @ [?r]\<rparr>"
        using run Inr by (auto simp: insert_human_task_def comp_simps split: if_splits)
      with that(2) [of ?r] run Inr op show ?thesis by (simp add: human_task_row_ok_def Create_Task)
    qed
  qed
next
  case (Claim_Task i a t since until now)
  obtain res d' where run: "claim_human_task i a t since until now d = (res, d')" by fastforce
  have op: "run_human_task_op op d = d'" by (simp add: Claim_Task run)
  show ?thesis
  proof (rule human_task_table.outcome [OF run [unfolded claim_human_task_def get_human_task_def] assms])
    fix r
    assume "select_one (\<lambda>r. ht_id r = i) (human_tasks d) = Some r" "(\<lambda>r. ht_state r = ''OPEN'') r"
      "d' = d\<lparr>human_tasks := update_where (\<lambda>r. ht_id r = i \<and> (\<lambda>r. ht_state r = ''OPEN'') r) (claimed_row a t since until now) (human_tasks d)\<rparr>"
    then show ?thesis
      by (intro that(3) [of i r "\<lambda>r. ht_state r = ''OPEN''" "claimed_row a t since until now"])
        (simp_all only: get_human_task_def op human_task_update_simps claim_row)
  qed (use that(1) op in simp_all)
next
  case (Complete_Task i a t now)
  obtain res d' where run: "complete_human_task i a t now d = (res, d')" by fastforce
  have op: "run_human_task_op op d = d'" by (simp add: Complete_Task run)
  show ?thesis
  proof (rule human_task_table.outcome [OF run [unfolded complete_human_task_def get_human_task_def] assms])
    fix r
    assume "select_one (\<lambda>r. ht_id r = i) (human_tasks d) = Some r" "(\<lambda>r. ht_state r = ''CLAIMED'' \<and> ht_assignee_id r = Some a \<and> ht_assignee_type r = Some t) r"
      "d' = d\<lparr>human_tasks := update_where (\<lambda>r. ht_id r = i \<and> (\<lambda>r. ht_state r = ''CLAIMED'' \<and> ht_assignee_id r = Some a \<and> ht_assignee_type r = Some t) r) (completed_row now) (human_tasks d)\<rparr>"
    then show ?thesis
      by (intro that(3) [of i r "\<lambda>r. ht_state r = ''CLAIMED'' \<and> ht_assignee_id r = Some a \<and> ht_assignee_type r = Some t" "completed_row now"])
        (simp_all only: get_human_task_def op human_task_update_simps complete_row)
  qed (use that(1) op in simp_all)
next
  case (Reopen_Task i v now)
  obtain res d' where run: "reopen_human_task_after_lease_expiry i v now d = (res, d')" by fastforce
  have op: "run_human_task_op op d = d'" by (simp add: Reopen_Task run)
  show ?thesis
  proof (rule human_task_table.outcome [OF run [unfolded reopen_human_task_after_lease_expiry_def get_human_task_def] assms])
    fix r
    assume "select_one (\<lambda>r. ht_id r = i) (human_tasks d) = Some r" "(\<lambda>r. ht_state r = ''CLAIMED'' \<and> ht_lease_version r = v) r"
      "d' = d\<lparr>human_tasks := update_where (\<lambda>r. ht_id r = i \<and> (\<lambda>r. ht_state r = ''CLAIMED'' \<and> ht_lease_version r = v) r) (reopened_row now) (human_tasks d)\<rparr>"
    then show ?thesis
      by (intro that(3) [of i r "\<lambda>r. ht_state r = ''CLAIMED'' \<and> ht_lease_version r = v" "reopened_row now"])
        (simp_all only: get_human_task_def op human_task_update_simps reopen_row)
  qed (use that(1) op in simp_all)
qed

lemma run_human_task_op_ok:
  assumes ok: "human_tasks_ok d" and op: "creates_open op"
  shows "human_tasks_ok (run_human_task_op op d)"
proof -
  have "distinct (map ht_id (human_tasks d))" using ok by (simp add: human_tasks_ok_def)
  then show ?thesis
  proof (cases rule: run_human_task_op_cases [of d op])
    case (2 r)
    have "unique_keys (\<lambda>r. Some (ht_id r)) (human_tasks (run_human_task_op op d))"
      "unique_keys (\<lambda>r. Some (ht_task_run r)) (human_tasks (run_human_task_op op d))"
      using keepsD' [OF human_task_ids.keeps_unique _ 2(1)] keepsD' [OF human_task_runs.keeps_unique _ 2(1)] ok
      by (simp_all add: human_tasks_ok_def unique_keys_total)
    then show ?thesis using 2(2) [OF op] 2(3) ok by (simp add: human_tasks_ok_def unique_keys_total)
  next
    case (3 i q f r)
    then show ?thesis using ok by (auto simp: human_tasks_ok_def map_update_where set_update_where)
  qed (use ok in simp)
qed

lemma lease_at_updated:
  assumes run: "update_one human_tasks (\<lambda>rs d. d\<lparr>human_tasks := rs\<rparr>) (\<lambda>r. ht_id r = j \<and> q r) f get d = (res, d')"
    and step: "\<And>r. q r \<Longrightarrow> lease_step (lease_of r) (lease_of (f r))" "\<And>r. ht_id (f r) = ht_id r"
    and l: "lease_at d i = Some l"
  shows "\<exists>l'. lease_at d' i = Some l' \<and> (l' = l \<or> lease_step l l')"
proof -
  obtain r where r: "get_human_task d i = Some r" "l = lease_of r"
    using l by (auto simp: lease_at_def)
  have "get_human_task d' i = Some (if i = j \<and> q r then f r else r)"
    using human_task_table.lookups(1) [OF run step(2), of i] r(1) by (simp add: get_human_task_def)
  with r(2) step(1) [of r] show ?thesis by (simp add: lease_at_def)
qed

lemma lease_at_step:
  assumes l: "lease_at d i = Some l"
  shows "\<exists>l'. lease_at (run_human_task_op op d) i = Some l' \<and> (l' = l \<or> lease_step l l')"
proof (cases op)
  case (Create_Task j w tr k st roles owner due esc g now)
  have "\<exists>rows. human_tasks (snd (with_integers [g] (insert_human_task r) d)) = human_tasks d @ rows" for r
    using human_task_ids.grows [of r d] by (cases rule: with_integers_cases [of "[g]" "insert_human_task r" d]) auto
  then obtain rows where "human_tasks (run_human_task_op op d) = human_tasks d @ rows"
    unfolding Create_Task create_human_task_def run_human_task_op.simps by blast
  then have "lease_at (run_human_task_op op d) i = Some l"
    using l status_append [of lease_of "\<lambda>r. ht_id r = i" "human_tasks d" l rows]
    by (simp add: lease_at_def get_human_task_def)
  then show ?thesis by blast
next
  case (Claim_Task j a t since until now)
  obtain res d' where run: "claim_human_task j a t since until now d = (res, d')" by fastforce
  show ?thesis
    using lease_at_updated [OF run [unfolded claim_human_task_def] claim_row(1) human_task_update_simps(1) l]
      Claim_Task run by simp
next
  case (Complete_Task j a t now)
  obtain res d' where run: "complete_human_task j a t now d = (res, d')" by fastforce
  show ?thesis
    using lease_at_updated [OF run [unfolded complete_human_task_def] complete_row(1) human_task_update_simps(2) l]
      Complete_Task run by simp
next
  case (Reopen_Task j v now)
  obtain res d' where run: "reopen_human_task_after_lease_expiry j v now d = (res, d')" by fastforce
  show ?thesis
    using lease_at_updated [OF run [unfolded reopen_human_task_after_lease_expiry_def] reopen_row(1)
      human_task_update_simps(3) l] Reopen_Task run by simp
qed

interpretation human_task_lifecycle: lifecycle lease_at run_human_task_op lease_step
  by unfold_locales (rule lease_at_step)

section \<open>Approvals are decided once\<close>

datatype approval_op =
    Create_Approval approval_row
  | Respond string string "string option" string string string string

fun run_approval_op :: "approval_op \<Rightarrow> db \<Rightarrow> db" where
  "run_approval_op (Create_Approval r) d =
     snd (create_approval (ap_id r) (ap_run r) (ap_task_run r) (ap_kind r) (ap_scope_kind r) (ap_scope_ref r)
       (ap_state r) (ap_requested_by r) (ap_roles r) (ap_required_role r) (ap_requested_at r) (ap_generation r)
       (ap_created_at r) d)"
| "run_approval_op (Respond i k reason a t at now) d = snd (respond_approval i k reason a t at now d)"

text \<open>An approval as a whole: only one that is pending changes, to the response given.\<close>

definition approval_decided :: "approval_row \<Rightarrow> approval_row \<Rightarrow> bool" where
  "approval_decided r r' \<longleftrightarrow> ap_state r = ''PENDING'' \<and> (\<exists>k reason a t at now. r' = responded_row k reason a t at now r)"

lemma approval_step:
  assumes r: "get_approval d i = Some r"
  shows "\<exists>r'. get_approval (run_approval_op op d) i = Some r' \<and> (r' = r \<or> approval_decided r r')"
proof (cases op)
  case (Create_Approval a)
  have "\<exists>rows. approvals (snd (with_integers [g] (insert_approval r) d)) = approvals d @ rows" for g r
    using approval_ids.grows [of r d] by (cases rule: with_integers_cases [of "[g]" "insert_approval r" d]) auto
  then obtain rows where "approvals (run_approval_op op d) = approvals d @ rows"
    unfolding Create_Approval create_approval_def run_approval_op.simps by blast
  then show ?thesis using r by (simp add: get_approval_def select_one_append)
next
  case (Respond j k reason a t at now)
  obtain res d' where run: "respond_approval j k reason a t at now d = (res, d')" by fastforce
  have "get_approval d' i = Some (if i = j \<and> ap_state r = ''PENDING'' then responded_row k reason a t at now r else r)"
    using approval_table.lookups(1) [OF run [unfolded respond_approval_def], of i] r
    by (simp add: get_approval_def responded_row_def)
  moreover have "approval_decided r (responded_row k reason a t at now r)" if "ap_state r = ''PENDING''"
    using that unfolding approval_decided_def by blast
  ultimately show ?thesis using Respond run by auto
qed

interpretation approval_lifecycle: lifecycle get_approval run_approval_op approval_decided
  by unfold_locales (rule approval_step)

section \<open>Properties\<close>

text \<open>
  C27: The rows of human tasks implement the lease machine: whatever operations follow, a stored task
  stays stored and its lease moves along the steps of the machine, and its version never falls.
\<close>

theorem human_tasks_refine_lease_machine:
  assumes "lease_at d i = Some l"
  shows "\<exists>l'. lease_at (fold run_human_task_op ops d) i = Some l' \<and> lease_step\<^sup>*\<^sup>* l l'
    \<and> lease_version l \<le> lease_version l'"
  using human_task_lifecycle.run_path [OF assms] lease_version_grows by blast

definition task_sample_db :: db where
  "task_sample_db = sample_db\<lparr>human_tasks := [\<lparr>ht_id = ''h'', ht_run = ''r'', ht_task_run = ''tr'',
     ht_kind = ''review'', ht_state = ''OPEN'', ht_roles = [''planner''], ht_owner_role = None, ht_assignee_id = None,
     ht_assignee_type = None, ht_due_at = None, ht_escalation_at = None, ht_lease_version = 0, ht_claimed_at = None,
     ht_claimed_until = None, ht_approval = None, ht_reopen_count = 0, ht_generation = 0,
     ht_created_at = ''2026-03-01T00:00:00Z'', ht_updated_at = ''2026-03-01T00:00:00Z''\<rparr>]\<rparr>"

definition task_sample_claim :: human_task_op where
  "task_sample_claim = Claim_Task ''h'' ''ann'' ''human'' ''2026-03-01T08:00:00Z'' ''2026-03-01T09:00:00Z''
     ''2026-03-01T08:00:00Z''"

theorem human_tasks_refine_lease_machine_witness:
  "\<exists>l'. lease_at (fold run_human_task_op [task_sample_claim] task_sample_db) ''h'' = Some l' \<and> lease_step\<^sup>*\<^sup>* (Free 0) l'"
proof -
  have "lease_at task_sample_db ''h'' = Some (Free 0)" by code_simp
  from human_tasks_refine_lease_machine [OF this] show ?thesis by blast
qed

text \<open>
  The table stays well-formed under any sequence of operations that create tasks open: task ids and task runs occur once,
  a task has an assignee and a claim time exactly while claimed or completed, an expiry time exactly
  while claimed, and its lease version is twice its reopenings, plus one while claimed or completed.
\<close>

lemma human_task_operations_keep_table:
  assumes "human_tasks_ok d" "list_all creates_open ops"
  shows "human_tasks_ok (fold run_human_task_op ops d)"
  using assms by (induction ops arbitrary: d) (simp_all add: run_human_task_op_ok)

lemma task_sample_ok: "human_tasks_ok task_sample_db"
  by (simp add: human_tasks_ok_def task_sample_db_def human_task_row_ok_def)

text \<open>Completing ends the lease of the actor it names and of nobody else.\<close>

lemma complete_lease:
  assumes "lease_at d i = Some l"
  shows "lease_at (snd (complete_human_task i who kind now d)) i = Some l
    \<or> l = Held (Some who, Some kind) (lease_version l)
      \<and> lease_at (snd (complete_human_task i who kind now d)) i = Some (Done (Some who, Some kind) (lease_version l))"
proof -
  obtain r where r: "get_human_task d i = Some r" "l = lease_of r" using assms by (auto simp: lease_at_def)
  have "get_human_task (snd (complete_human_task i who kind now d)) i =
      Some (if ht_state r = ''CLAIMED'' \<and> ht_assignee_id r = Some who \<and> ht_assignee_type r = Some kind
        then completed_row now r else r)"
    using r(1) by (simp add: complete_human_task_def update_one_def Let_def get_human_task_def select_key_update)
  then show ?thesis
    by (auto simp: lease_at_def r(2) lease_of_def actor_of_def completed_row_def)
qed

text \<open>
  C28: A claim is exclusive: while the lease version of a claimed task stays the same, whatever else
  happens, nobody but the actor who claimed it holds or has completed it; a request to complete a task leaves
  its lease as it is unless the actor of the request holds the task, and then the task is completed by this
  actor; and a completed task keeps its actor for good.
\<close>

theorem claim_is_exclusive:
  assumes "lease_at d i = Some (Held a v)" "lease_at (fold run_human_task_op ops d) i = Some l"
  shows "(lease_version l = v \<longrightarrow> l = Held a v \<or> l = Done a v)
    \<and> (lease_at (snd (complete_human_task i who kind now (fold run_human_task_op ops d))) i = Some l
       \<or> l = Held (Some who, Some kind) (lease_version l)
         \<and> lease_at (snd (complete_human_task i who kind now (fold run_human_task_op ops d))) i =
             Some (Done (Some who, Some kind) (lease_version l)))
    \<and> (l = Done b w \<longrightarrow> lease_at (fold run_human_task_op later (fold run_human_task_op ops d)) i = Some l)"
proof (intro conjI)
  from human_task_lifecycle.run_path [OF assms(1), of ops] assms(2) have "lease_step\<^sup>*\<^sup>* (Held a v) l" by auto
  then show "lease_version l = v \<longrightarrow> l = Held a v \<or> l = Done a v" using lease_same_version by blast
next
  have "\<not> lease_step (Done b w) y" for y by (auto elim: lease_step_Done)
  then show "l = Done b w \<longrightarrow> lease_at (fold run_human_task_op later (fold run_human_task_op ops d)) i = Some l"
    using human_task_lifecycle.final_stays assms(2) by blast
qed (rule complete_lease [OF assms(2)])

theorem claim_is_exclusive_witness:
  "lease_at (fold run_human_task_op [Claim_Task ''h'' ''bob'' ''human'' ''x'' ''y'' ''x'']
     (run_human_task_op task_sample_claim task_sample_db)) ''h'' = Some (Held (Some ''ann'', Some ''human'') 1)
   \<and> lease_at (snd (complete_human_task ''h'' ''bob'' ''human'' ''x''
       (fold run_human_task_op [Claim_Task ''h'' ''bob'' ''human'' ''x'' ''y'' ''x'']
         (run_human_task_op task_sample_claim task_sample_db)))) ''h'' = Some (Held (Some ''ann'', Some ''human'') 1)"
proof -
  let ?d = "run_human_task_op task_sample_claim task_sample_db"
  let ?ops = "[Claim_Task ''h'' ''bob'' ''human'' ''x'' ''y'' ''x'']"
  have held: "lease_at ?d ''h'' = Some (Held (Some ''ann'', Some ''human'') 1)" by code_simp
  obtain l where l: "lease_at (fold run_human_task_op ?ops ?d) ''h'' = Some l" "lease_version l = 1"
    by (rule that) code_simp+
  have "l \<noteq> Done (Some ''ann'', Some ''human'') 1"
  proof -
    have "lease_at (fold run_human_task_op ?ops ?d) ''h'' \<noteq> Some (Done (Some ''ann'', Some ''human'') 1)" by code_simp
    with l(1) show ?thesis by auto
  qed
  with claim_is_exclusive [OF held l(1), of "''bob''" "''human''" "''x''"] l show ?thesis by auto
qed

text \<open>
  Reopening takes back only the lease it was decided for: a reconciler that read a claimed task and
  reopens it with the lease version it read succeeds only if the task is still held by the same actor
  under the same claim, whatever happened in between; otherwise nothing changes.
\<close>

lemma reopen_only_the_expired_lease:
  assumes unique: "distinct (map ht_id (human_tasks (fold run_human_task_op ops d)))"
    and read: "get_human_task d i = Some r" "ht_state r = ''CLAIMED''"
    and reopen: "reopen_human_task_after_lease_expiry i (ht_lease_version r) now (fold run_human_task_op ops d) =
      (result, d')"
  shows "(case result of
      Inr (Some row) \<Rightarrow> lease_at (fold run_human_task_op ops d) i = Some (lease_of r)
        \<and> get_human_task d' i = Some row \<and> lease_of row = Free (Suc (ht_lease_version r))
    | _ \<Rightarrow> result = Inr None \<and> d' = fold run_human_task_op ops d)"
proof (rule human_task_table.outcome [OF reopen [unfolded reopen_human_task_after_lease_expiry_def get_human_task_def]
    unique])
  fix row
  let ?d = "fold run_human_task_op ops d"
  assume row: "result = Inr (Some (reopened_row now row))" "select_one (\<lambda>r. ht_id r = i) (human_tasks ?d) = Some row"
    "ht_state row = ''CLAIMED'' \<and> ht_lease_version row = ht_lease_version r"
    "d' = ?d\<lparr>human_tasks := update_where (\<lambda>x. ht_id x = i \<and> ht_state x = ''CLAIMED'' \<and>
       ht_lease_version x = ht_lease_version r) (reopened_row now) (human_tasks ?d)\<rparr>"
  have "lease_at d i = Some (Held (actor_of r) (ht_lease_version r))"
    using read by (simp add: lease_at_def lease_of_def)
  moreover have now: "lease_at ?d i = Some (Held (actor_of row) (ht_lease_version r))"
    using row(2,3) by (simp add: lease_at_def get_human_task_def lease_of_def)
  ultimately have "Held (actor_of row) (ht_lease_version r) = Held (actor_of r) (ht_lease_version r)"
    using human_task_lifecycle.run_path [of d i _ ops] lease_same_version by fastforce
  with now read(2) have "lease_at ?d i = Some (lease_of r)" by (simp add: lease_of_def)
  moreover have "get_human_task d' i = Some (reopened_row now row)"
    using row(2,3) by (simp add: get_human_task_def row(4) select_key_update)
  ultimately show ?thesis
    using row(1,3) by (simp add: lease_of_def reopened_row_def)
qed simp_all

text \<open>
  An approval is decided once: whatever operations follow, it stays as requested until one response
  is recorded, and from then on it never changes, so the first response stands with its actor, time and
  reason.
\<close>

lemma approval_decided_once:
  assumes "get_approval d i = Some r"
  shows "\<exists>r'. get_approval (fold run_approval_op ops d) i = Some r'
    \<and> (r' = r \<or> ap_state r = ''PENDING'' \<and> ap_state r' = ''RESPONDED'' \<and> ap_generation r' = ap_generation r + 1
        \<and> ap_response_kind r' \<noteq> None \<and> ap_actor_id r' \<noteq> None
        \<and> get_approval (fold run_approval_op later (fold run_approval_op ops d)) i = Some r')"
proof -
  obtain r' where r': "get_approval (fold run_approval_op ops d) i = Some r'" "approval_decided\<^sup>*\<^sup>* r r'"
    using approval_lifecycle.run_path [OF assms] by blast
  have stuck: "\<not> approval_decided y z" if "approval_decided x y" for x y z
    using that by (auto simp: approval_decided_def responded_row_def)
  from r'(2) have "r' = r \<or> approval_decided r r'"
    by (induction rule: rtranclp_induct) (use stuck in blast)+
  then show ?thesis
  proof
    assume decided: "approval_decided r r'"
    then have "get_approval (fold run_approval_op later (fold run_approval_op ops d)) i = Some r'"
      using approval_lifecycle.final_stays [OF _ r'(1)] stuck by blast
    with decided r'(1) show ?thesis by (auto simp: approval_decided_def responded_row_def)
  qed (use r'(1) in blast)
qed

definition approval_sample_db :: db where
  "approval_sample_db = sample_db\<lparr>approvals := [\<lparr>ap_id = ''a'', ap_run = ''r'', ap_task_run = None, ap_kind = ''publish'',
     ap_scope_kind = ''artifact'', ap_scope_ref = ''v1'', ap_state = ''PENDING'', ap_requested_by = None, ap_roles = [''lead''],
     ap_required_role = Some ''lead'', ap_requested_at = ''t0'', ap_responded_at = None, ap_response_kind = None,
     ap_response_reason = None, ap_actor_id = None, ap_actor_type = None, ap_generation = 0, ap_created_at = ''t0'',
     ap_updated_at = ''t0''\<rparr>]\<rparr>"

end
