(* ===== verification/Executions.thy ===== *)
theory Executions
  imports Keyed_Table Runs
begin

text \<open>
  Execution sessions, tool executions and their attempts: \<open>execution_sessions.py\<close>,
  \<open>tool_executions.py\<close> and \<open>tool_execution_attempts.py\<close> of \<open>src/onetruth/infrastructure/repositories/\<close>.
  An attempt at a tool execution holds it exclusively until it is completed under its lease token.
\<close>

section \<open>Execution sessions\<close>

definition insert_session :: "session_row \<Rightarrow> (unit, db) comp" where
  "insert_session r d =
     (if exists_row (\<lambda>x. es_id x = es_id r) (sessions d)
      then raise (IntegrityError ''UNIQUE constraint failed: execution_sessions.execution_session_id'') d
      else if es_run r \<notin> wr_id ` set (runs d) \<or> es_task_run r \<notin> tr_id ` set (task_runs d)
      then raise fk_failed d
      else (Inr (), d\<lparr>sessions := sessions d @ [r]\<rparr>))"

definition create_execution_session ::
    "string \<Rightarrow> string \<Rightarrow> string \<Rightarrow> string \<Rightarrow> string \<Rightarrow> string \<Rightarrow> dict option \<Rightarrow> dict option \<Rightarrow> int \<Rightarrow> string \<Rightarrow>
     (unit, db) comp" where
  "create_execution_session execution_session_id workflow_run_id task_run_id execution_spec_id state owner_mode
       principal_actor budget tool_call_count created_at =
     with_integers [tool_call_count] (insert_session \<lparr>es_id = execution_session_id, es_run = workflow_run_id, es_task_run = task_run_id,
       es_spec = execution_spec_id, es_state = state, es_owner_mode = owner_mode,
       es_principal = map_option JObj principal_actor, es_budget = map_option JObj budget,
       es_tool_calls = tool_call_count, es_created_at = created_at, es_updated_at = created_at,
       es_closed_at = None\<rparr>)"

definition get_execution_session :: "db \<Rightarrow> string \<Rightarrow> session_row option" where
  "get_execution_session d execution_session_id = select_one (\<lambda>r. es_id r = execution_session_id) (sessions d)"

definition list_execution_sessions_for_workflow_run :: "db \<Rightarrow> string \<Rightarrow> session_row list" where
  "list_execution_sessions_for_workflow_run d workflow_run_id =
     sort_key es_created_at (sort_key es_id (filter (\<lambda>r. es_run r = workflow_run_id) (sessions d)))"

definition reconcilable_session_states :: "string list" where
  "reconcilable_session_states = [''CREATED'', ''RUNNING'', ''WAITING_POLICY'', ''WAITING_APPROVAL'']"

definition list_reconcilable_execution_sessions :: "db \<Rightarrow> string \<Rightarrow> session_row list" where
  "list_reconcilable_execution_sessions d stale_before_iso =
     sort_key es_updated_at (sort_key es_id (filter
       (\<lambda>r. es_state r \<in> set reconcilable_session_states \<and> es_updated_at r \<le> stale_before_iso) (sessions d)))"

definition transition_execution_session_state ::
    "string \<Rightarrow> string list \<Rightarrow> string \<Rightarrow> string \<Rightarrow> string option \<Rightarrow> (session_row option, db) comp" where
  "transition_execution_session_state execution_session_id from_states to_state updated_at closed_at =
     (if from_states = [] then raise ValueError
      else update_one sessions (\<lambda>rs d. d\<lparr>sessions := rs\<rparr>)
        (\<lambda>r. es_id r = execution_session_id \<and> es_state r \<in> set from_states)
        (\<lambda>r. r\<lparr>es_state := to_state, es_updated_at := updated_at, es_closed_at := closed_at\<rparr>)
        (\<lambda>d. get_execution_session d execution_session_id))"

definition increment_tool_call_count :: "string \<Rightarrow> string \<Rightarrow> (session_row option, db) comp" where
  "increment_tool_call_count execution_session_id updated_at =
     update_one sessions (\<lambda>rs d. d\<lparr>sessions := rs\<rparr>)
       (\<lambda>r. es_id r = execution_session_id \<and> True)
       (\<lambda>r. r\<lparr>es_tool_calls := es_tool_calls r + 1, es_updated_at := updated_at\<rparr>)
       (\<lambda>d. get_execution_session d execution_session_id)"

section \<open>Tool executions\<close>

definition insert_tool_execution :: "tool_execution_row \<Rightarrow> (unit, db) comp" where
  "insert_tool_execution r d =
     (if exists_row (\<lambda>x. te_id x = te_id r) (tool_executions d)
      then raise (IntegrityError ''UNIQUE constraint failed: tool_executions.tool_execution_id'') d
      else if exists_row (\<lambda>x. te_session x = te_session r \<and> te_idem x = te_idem r) (tool_executions d)
      then raise (IntegrityError (''UNIQUE constraint failed: tool_executions.execution_session_id, '' @
        ''tool_executions.idempotency_key'')) d
      else if te_session r \<notin> es_id ` set (sessions d) then raise fk_failed d
      else (Inr (), d\<lparr>tool_executions := tool_executions d @ [r]\<rparr>))"

definition create_tool_execution ::
    "string \<Rightarrow> string \<Rightarrow> string \<Rightarrow> string option \<Rightarrow> string \<Rightarrow> string \<Rightarrow> int \<Rightarrow> string option \<Rightarrow>
     string list option \<Rightarrow> string \<Rightarrow> string option \<Rightarrow> string option \<Rightarrow> (unit, db) comp" where
  "create_tool_execution tool_execution_id execution_session_id tool_class tool_name state idempotency_key
       attempt_no policy_decision_id output_artifact_version_ids requested_at completed_at error_code =
     with_integers [attempt_no] (insert_tool_execution \<lparr>te_id = tool_execution_id, te_session = execution_session_id, te_class = tool_class,
       te_name = tool_name, te_state = state, te_idem = idempotency_key, te_attempt_no = attempt_no,
       te_policy = policy_decision_id, te_outputs = output_artifact_version_ids,
       te_requested_at = requested_at, te_completed_at = completed_at, te_error = error_code\<rparr>)"

definition get_tool_execution :: "db \<Rightarrow> string \<Rightarrow> tool_execution_row option" where
  "get_tool_execution d tool_execution_id = select_one (\<lambda>r. te_id r = tool_execution_id) (tool_executions d)"

definition get_tool_execution_by_session_idempotency :: "db \<Rightarrow> string \<Rightarrow> string \<Rightarrow> tool_execution_row option" where
  "get_tool_execution_by_session_idempotency d execution_session_id idempotency_key =
     select_one (\<lambda>r. te_session r = execution_session_id \<and> te_idem r = idempotency_key) (tool_executions d)"

definition list_tool_executions_for_session :: "db \<Rightarrow> string \<Rightarrow> tool_execution_row list" where
  "list_tool_executions_for_session d execution_session_id =
     sort_key te_requested_at (sort_key te_id (filter (\<lambda>r. te_session r = execution_session_id) (tool_executions d)))"

definition transition_tool_execution_state ::
    "string \<Rightarrow> string list \<Rightarrow> string \<Rightarrow> string option \<Rightarrow> string list option \<Rightarrow> string option \<Rightarrow> string option \<Rightarrow>
     (tool_execution_row option, db) comp" where
  "transition_tool_execution_state tool_execution_id from_states to_state policy_decision_id
       output_artifact_version_ids completed_at error_code =
     (if from_states = [] then raise ValueError
      else update_one tool_executions (\<lambda>rs d. d\<lparr>tool_executions := rs\<rparr>)
        (\<lambda>r. te_id r = tool_execution_id \<and> te_state r \<in> set from_states)
        (\<lambda>r. r\<lparr>te_state := to_state, te_policy := policy_decision_id, te_outputs := output_artifact_version_ids,
           te_completed_at := completed_at, te_error := error_code\<rparr>)
        (\<lambda>d. get_tool_execution d tool_execution_id))"

section \<open>Attempts\<close>

definition terminal_attempt_states :: "string list" where
  "terminal_attempt_states = [''COMPLETED'', ''FAILED'', ''CANCELED'']"

definition attempt_require_nonempty :: "string \<Rightarrow> unit result" where
  "attempt_require_nonempty value =
     require (py_strip value \<noteq> []) (ToolExecutionAttemptError ''tool_execution_attempt_field_required'')"

definition insert_tool_attempt :: "tool_attempt_row \<Rightarrow> (unit, db) comp" where
  "insert_tool_attempt r d =
     (if exists_row (\<lambda>x. ta_id x = ta_id r) (tool_attempts d)
      then raise (IntegrityError ''UNIQUE constraint failed: tool_execution_attempts.tool_execution_attempt_id'') d
      else if ta_active r \<noteq> None \<and> exists_row (\<lambda>x. ta_active x = ta_active r) (tool_attempts d)
      then raise (IntegrityError ''UNIQUE constraint failed: tool_execution_attempts.active_tool_execution_id'') d
      else if exists_row (\<lambda>x. ta_tool x = ta_tool r \<and> ta_no x = ta_no r) (tool_attempts d)
      then raise (IntegrityError (''UNIQUE constraint failed: tool_execution_attempts.tool_execution_id, '' @
        ''tool_execution_attempts.attempt_no'')) d
      else if exists_row (\<lambda>x. ta_tool x = ta_tool r \<and> ta_lease x = ta_lease r) (tool_attempts d)
      then raise (IntegrityError (''UNIQUE constraint failed: tool_execution_attempts.tool_execution_id, '' @
        ''tool_execution_attempts.lease_token'')) d
      else if ta_tool r \<notin> te_id ` set (tool_executions d) \<or> ta_session r \<notin> es_id ` set (sessions d)
      then raise fk_failed d
      else (Inr (), d\<lparr>tool_attempts := tool_attempts d @ [r]\<rparr>))"

definition get_tool_execution_attempt :: "db \<Rightarrow> string \<Rightarrow> tool_attempt_row option" where
  "get_tool_execution_attempt d tool_execution_attempt_id =
     select_one (\<lambda>r. ta_id r = tool_execution_attempt_id) (tool_attempts d)"

definition list_tool_execution_attempts :: "db \<Rightarrow> string \<Rightarrow> tool_attempt_row list" where
  "list_tool_execution_attempts d tool_execution_id =
     sort_key ta_no (sort_key ta_id (filter (\<lambda>r. ta_tool r = tool_execution_id) (tool_attempts d)))"

text \<open>\<open>ORDER BY attempt_no DESC LIMIT 1\<close>.\<close>

definition get_active_tool_execution_attempt :: "db \<Rightarrow> string \<Rightarrow> tool_attempt_row option" where
  "get_active_tool_execution_attempt d tool_execution_id =
     (case rev (sort_key ta_no (filter (\<lambda>r. ta_tool r = tool_execution_id \<and> ta_state r = ''RUNNING''
        \<and> ta_active r = Some tool_execution_id) (tool_attempts d))) of [] \<Rightarrow> None | r # _ \<Rightarrow> Some r)"

definition next_tool_execution_attempt_no :: "db \<Rightarrow> string \<Rightarrow> nat" where
  "next_tool_execution_attempt_no d tool_execution_id =
     fold max (map ta_no (filter (\<lambda>r. ta_tool r = tool_execution_id) (tool_attempts d))) 0 + 1"

definition create_tool_execution_attempt ::
    "string \<Rightarrow> string \<Rightarrow> string \<Rightarrow> string \<Rightarrow> string \<Rightarrow> (tool_attempt_row, db) comp" where
  "create_tool_execution_attempt tool_execution_attempt_id tool_execution_id execution_session_id lease_token
       started_at d =
     seq (of_result (rbind (attempt_require_nonempty tool_execution_attempt_id) (\<lambda>_.
        rbind (attempt_require_nonempty tool_execution_id) (\<lambda>_.
        rbind (attempt_require_nonempty execution_session_id) (\<lambda>_.
        rbind (attempt_require_nonempty lease_token) (\<lambda>_.
        require (get_active_tool_execution_attempt d tool_execution_id = None)
          (ToolExecutionAttemptError ''tool_execution_attempt_active_conflict''))))))) (\<lambda>_.
     seq (insert_tool_attempt \<lparr>ta_id = tool_execution_attempt_id, ta_tool = tool_execution_id,
            ta_session = execution_session_id, ta_no = next_tool_execution_attempt_no d tool_execution_id,
            ta_lease = lease_token, ta_state = ''RUNNING'', ta_active = Some tool_execution_id,
            ta_outputs = None, ta_started_at = started_at, ta_completed_at = None, ta_error = None,
            ta_created_at = started_at, ta_updated_at = started_at\<rparr>) (\<lambda>_.
     read_back (\<lambda>d. get_tool_execution_attempt d tool_execution_attempt_id))) d"

definition completed_attempt ::
    "string \<Rightarrow> string list option \<Rightarrow> string \<Rightarrow> string option \<Rightarrow> tool_attempt_row \<Rightarrow> tool_attempt_row" where
  "completed_attempt state output_artifact_version_ids completed_at error_code r =
     r\<lparr>ta_state := state, ta_active := None, ta_outputs := output_artifact_version_ids,
       ta_completed_at := Some completed_at, ta_error := error_code, ta_updated_at := completed_at\<rparr>"

definition complete_tool_execution_attempt ::
    "string \<Rightarrow> string \<Rightarrow> string \<Rightarrow> string \<Rightarrow> string list option \<Rightarrow> string \<Rightarrow> string option \<Rightarrow>
     (tool_attempt_row, db) comp" where
  "complete_tool_execution_attempt tool_execution_attempt_id tool_execution_id lease_token state
       output_artifact_version_ids completed_at error_code d =
     (let stale = ToolExecutionAttemptError ''tool_execution_attempt_stale_completion'';
          held = (\<lambda>r. ta_tool r = tool_execution_id \<and> ta_lease r = lease_token \<and> ta_state r = ''RUNNING''
                   \<and> ta_active r = Some tool_execution_id) in
      if state \<notin> set terminal_attempt_states
      then raise (ToolExecutionAttemptError ''tool_execution_attempt_state_invalid'') d
      else case get_tool_execution_attempt d tool_execution_attempt_id of
          None \<Rightarrow> raise (ToolExecutionAttemptError ''tool_execution_attempt_not_found'') d
        | Some attempt \<Rightarrow>
            if \<not> held attempt then raise stale d
            else let hit = (\<lambda>r. ta_id r = tool_execution_attempt_id \<and> held r);
                     d' = d\<lparr>tool_attempts := update_where hit
                       (completed_attempt state output_artifact_version_ids completed_at error_code) (tool_attempts d)\<rparr>
                 in if row_count hit (tool_attempts d) \<noteq> 1 then raise stale d'
                    else read_back (\<lambda>d. get_tool_execution_attempt d tool_execution_attempt_id) d')"

section \<open>Facts about the tables\<close>

interpretation session_ids: unique_table sessions "\<lambda>r. Some (es_id r)" insert_session
  by unfold_locales (auto simp: insert_session_def comp_simps split: if_splits)

interpretation tool_execution_ids: unique_table tool_executions "\<lambda>r. Some (te_id r)" insert_tool_execution
  by unfold_locales (auto simp: insert_tool_execution_def comp_simps split: if_splits)

interpretation tool_execution_keys: unique_table tool_executions "\<lambda>r. Some (te_session r, te_idem r)"
  insert_tool_execution
  by unfold_locales (auto simp: insert_tool_execution_def comp_simps split: if_splits)

interpretation tool_attempt_ids: unique_table tool_attempts "\<lambda>r. Some (ta_id r)" insert_tool_attempt
  by unfold_locales (auto simp: insert_tool_attempt_def comp_simps split: if_splits)

interpretation tool_attempt_active: unique_table tool_attempts ta_active insert_tool_attempt
  by unfold_locales (auto simp: insert_tool_attempt_def comp_simps split: if_splits)

interpretation tool_attempt_leases: unique_table tool_attempts "\<lambda>r. Some (ta_tool r, ta_lease r)"
  insert_tool_attempt
  by unfold_locales (auto simp: insert_tool_attempt_def comp_simps split: if_splits)

interpretation session_table: keyed_table sessions "\<lambda>rs d. d\<lparr>sessions := rs\<rparr>" es_id
  by unfold_locales simp_all

interpretation tool_execution_table: keyed_table tool_executions "\<lambda>rs d. d\<lparr>tool_executions := rs\<rparr>" te_id
  by unfold_locales simp_all

section \<open>What the attempt operations do\<close>

lemma create_tool_execution_attempt_cases:
  assumes "create_tool_execution_attempt i t s lease now d = (res, d')"
  obtains e where "res = Inl e" "d' = d"
  | r where "res = Inr r" "insert_tool_attempt r d = (Inr (), d')" "d' = d\<lparr>tool_attempts := tool_attempts d @ [r]\<rparr>"
      "ta_id r = i" "ta_tool r = t" "ta_lease r = lease" "ta_no r = next_tool_execution_attempt_no d t"
      "ta_state r = ''RUNNING''" "ta_active r = Some t" "ta_completed_at r = None"
      "get_active_tool_execution_attempt d t = None"
proof -
  let ?row = "\<lparr>ta_id = i, ta_tool = t, ta_session = s, ta_no = next_tool_execution_attempt_no d t,
     ta_lease = lease, ta_state = ''RUNNING'', ta_active = Some t, ta_outputs = None, ta_started_at = now,
     ta_completed_at = None, ta_error = None, ta_created_at = now, ta_updated_at = now\<rparr>"
  have frame: "insert_tool_attempt ?row d = (Inr (), d') \<Longrightarrow> d' = d\<lparr>tool_attempts := tool_attempts d @ [?row]\<rparr>"
    by (simp add: insert_tool_attempt_def comp_apply split: if_splits)
  note run = assms [unfolded create_tool_execution_attempt_def get_tool_execution_attempt_def]
  from tool_attempt_ids.checked_insert [where row = "\<lambda>_. ?row" and k = i, simplified, OF run]
  consider e where "res = Inl e" "d' = d"
    | "res = Inr ?row" "insert_tool_attempt ?row d = (Inr (), d')" "get_active_tool_execution_attempt d t = None"
    by (auto simp: rbind_eq_Inr)
  then show thesis
  proof cases
    case 2
    show thesis by (rule that(2) [OF 2(1,2) frame [OF 2(2)]]) (simp_all add: 2(3))
  qed (rule that(1))
qed

text \<open>An attempt is finished by the completion that names it, while it runs under its lease.\<close>

definition attempt_finished :: "tool_attempt_row \<Rightarrow> tool_attempt_row \<Rightarrow> bool" where
  "attempt_finished r r' \<longleftrightarrow> ta_state r = ''RUNNING'' \<and> ta_active r = Some (ta_tool r)
     \<and> (\<exists>s outputs now e. s \<in> set terminal_attempt_states \<and> r' = completed_attempt s outputs now e r)"

lemma completed_attempt_simps [simp]:
  "ta_id (completed_attempt s os now e r) = ta_id r" "ta_tool (completed_attempt s os now e r) = ta_tool r"
  "ta_no (completed_attempt s os now e r) = ta_no r" "ta_lease (completed_attempt s os now e r) = ta_lease r"
  "ta_state (completed_attempt s os now e r) = s" "ta_active (completed_attempt s os now e r) = None"
  by (simp_all add: completed_attempt_def)

lemma complete_tool_execution_attempt_cases:
  assumes run: "complete_tool_execution_attempt i t lease s outputs now error d = (res, d')"
    and unique: "distinct (map ta_id (tool_attempts d))"
  obtains e where "res = Inl (ToolExecutionAttemptError e)" "d' = d"
      "\<not> (s \<in> set terminal_attempt_states \<and> (\<exists>r. get_tool_execution_attempt d i = Some r
          \<and> ta_tool r = t \<and> ta_lease r = lease \<and> ta_state r = ''RUNNING'' \<and> ta_active r = Some t))"
  | r where "res = Inr (completed_attempt s outputs now error r)" "get_tool_execution_attempt d i = Some r"
      "s \<in> set terminal_attempt_states" "ta_tool r = t" "ta_lease r = lease" "ta_state r = ''RUNNING''"
      "ta_active r = Some t"
      "d' = d\<lparr>tool_attempts := update_where (\<lambda>r. ta_id r = i \<and> ta_tool r = t \<and> ta_lease r = lease
         \<and> ta_state r = ''RUNNING'' \<and> ta_active r = Some t) (completed_attempt s outputs now error) (tool_attempts d)\<rparr>"
      "get_tool_execution_attempt d' i = Some (completed_attempt s outputs now error r)"
proof (cases "s \<in> set terminal_attempt_states \<and> (\<exists>r. get_tool_execution_attempt d i = Some r
          \<and> ta_tool r = t \<and> ta_lease r = lease \<and> ta_state r = ''RUNNING'' \<and> ta_active r = Some t)")
  case True
  let ?q = "\<lambda>r. ta_tool r = t \<and> ta_lease r = lease \<and> ta_state r = ''RUNNING'' \<and> ta_active r = Some t"
  let ?f = "completed_attempt s outputs now error"
  from True obtain r where r: "get_tool_execution_attempt d i = Some r" "?q r" by blast
  have one: "row_count (\<lambda>r. ta_id r = i \<and> ?q r) (tool_attempts d) = 1"
    using r unfolding row_count_key [OF unique] get_tool_execution_attempt_def by simp
  let ?d = "d\<lparr>tool_attempts := update_where (\<lambda>r. ta_id r = i \<and> ?q r) ?f (tool_attempts d)\<rparr>"
  have got: "get_tool_execution_attempt ?d i = Some (?f r)"
    using r by (simp add: get_tool_execution_attempt_def select_key_update)
  have "res = Inr (?f r)" "d' = ?d"
    using run True r one got by (simp_all add: complete_tool_execution_attempt_def Let_def read_back_def comp_simps)
  with that(2) [of r] True r got show ?thesis by simp
next
  case False
  then show ?thesis
    using run that(1) by (auto simp: complete_tool_execution_attempt_def Let_def comp_simps split: if_splits option.splits)
qed

text \<open>Without uniqueness of the ids, the row found under an id still changes by a completion or not at all.\<close>

lemma complete_lookup:
  assumes run: "complete_tool_execution_attempt j t lease s outputs now error d = (res, d')"
    and r: "get_tool_execution_attempt d i = Some r"
  shows "\<exists>r'. get_tool_execution_attempt d' i = Some r' \<and> (r' = r \<or> attempt_finished r r')"
proof -
  let ?q = "\<lambda>r. ta_tool r = t \<and> ta_lease r = lease \<and> ta_state r = ''RUNNING'' \<and> ta_active r = Some t"
  let ?f = "completed_attempt s outputs now error"
  let ?d = "d\<lparr>tool_attempts := update_where (\<lambda>r. ta_id r = j \<and> ?q r) ?f (tool_attempts d)\<rparr>"
  have "d' = d \<or> d' = ?d \<and> s \<in> set terminal_attempt_states"
    using run by (auto simp: complete_tool_execution_attempt_def Let_def read_back_def comp_simps
      split: if_splits option.splits)
  moreover have "get_tool_execution_attempt ?d i = Some (if i = j \<and> ?q r then ?f r else r)"
    using r by (cases "i = j") (simp_all add: get_tool_execution_attempt_def select_key_update select_other_update)
  moreover have "attempt_finished r (?f r)" if "?q r" "s \<in> set terminal_attempt_states"
    using that unfolding attempt_finished_def by blast
  ultimately show ?thesis using r by auto
qed

datatype tool_attempt_op =
    Create_Tool_Attempt string string string string string
  | Complete_Tool_Attempt string string string string "string list option" string "string option"

fun run_tool_attempt_op :: "tool_attempt_op \<Rightarrow> db \<Rightarrow> db" where
  "run_tool_attempt_op (Create_Tool_Attempt i t s lease now) d = snd (create_tool_execution_attempt i t s lease now d)"
| "run_tool_attempt_op (Complete_Tool_Attempt i t lease s os now e) d =
     snd (complete_tool_execution_attempt i t lease s os now e d)"

lemma tool_attempt_step:
  assumes r: "get_tool_execution_attempt d i = Some r"
  shows "\<exists>r'. get_tool_execution_attempt (run_tool_attempt_op op d) i = Some r' \<and> (r' = r \<or> attempt_finished r r')"
proof (cases op)
  case (Create_Tool_Attempt j t s lease now)
  obtain res d' where run: "create_tool_execution_attempt j t s lease now d = (res, d')" by fastforce
  show ?thesis
    by (cases rule: create_tool_execution_attempt_cases [OF run])
      (use r run Create_Tool_Attempt in \<open>auto simp: get_tool_execution_attempt_def select_one_append\<close>)
next
  case (Complete_Tool_Attempt j t lease s os now e)
  obtain res d' where run: "complete_tool_execution_attempt j t lease s os now e d = (res, d')" by fastforce
  show ?thesis using complete_lookup [OF run r] Complete_Tool_Attempt run by simp
qed

interpretation tool_attempt_lifecycle: lifecycle get_tool_execution_attempt run_tool_attempt_op attempt_finished
  by unfold_locales (rule tool_attempt_step)

section \<open>The invariant of the attempts\<close>

definition tool_attempt_row_ok :: "tool_attempt_row \<Rightarrow> bool" where
  "tool_attempt_row_ok r \<longleftrightarrow>
     (if ta_state r = ''RUNNING'' then ta_active r = Some (ta_tool r) \<and> ta_completed_at r = None
      else ta_state r \<in> set terminal_attempt_states \<and> ta_active r = None \<and> ta_completed_at r \<noteq> None)"

definition tool_attempt_numbers :: "db \<Rightarrow> string \<Rightarrow> nat list" where
  "tool_attempt_numbers d t = map ta_no (filter (\<lambda>r. ta_tool r = t) (tool_attempts d))"

definition tool_attempts_ok :: "db \<Rightarrow> bool" where
  "tool_attempts_ok d \<longleftrightarrow> distinct (map ta_id (tool_attempts d)) \<and> unique_keys ta_active (tool_attempts d)
     \<and> unique_keys (\<lambda>r. Some (ta_tool r, ta_lease r)) (tool_attempts d)
     \<and> (\<forall>r\<in>set (tool_attempts d). tool_attempt_row_ok r)
     \<and> (\<forall>t. \<exists>n. tool_attempt_numbers d t = [1..<Suc n])"

lemma next_after:
  assumes "tool_attempt_numbers d t = [1..<Suc n]"
  shows "next_tool_execution_attempt_no d t = Suc n"
proof -
  have "fold max [1..<Suc n] 0 = n" for n :: nat by (induction n) auto
  with assms show ?thesis by (simp add: next_tool_execution_attempt_no_def tool_attempt_numbers_def)
qed

text \<open>Ending attempts frees their tool execution: some active keys become null, none is new.\<close>

lemma unique_active_completed:
  assumes "unique_keys ta_active rows"
  shows "unique_keys ta_active (update_where p (completed_attempt s os now e) rows)"
  by (rule unique_keys_released) (use assms in \<open>simp_all add: completed_attempt_def\<close>)

lemma run_tool_attempt_op_ok:
  assumes ok: "tool_attempts_ok d"
  shows "tool_attempts_ok (run_tool_attempt_op op d)"
proof (cases op)
  case (Create_Tool_Attempt i t s lease now)
  obtain res d' where run: "create_tool_execution_attempt i t s lease now d = (res, d')" by fastforce
  show ?thesis
  proof (cases rule: create_tool_execution_attempt_cases [OF run])
    case (2 r)
    have "unique_keys (\<lambda>r. Some (ta_id r)) (tool_attempts d')" "unique_keys ta_active (tool_attempts d')"
      "unique_keys (\<lambda>r. Some (ta_tool r, ta_lease r)) (tool_attempts d')"
      using keepsD' [OF tool_attempt_ids.keeps_unique _ 2(2)] keepsD' [OF tool_attempt_active.keeps_unique _ 2(2)]
        keepsD' [OF tool_attempt_leases.keeps_unique _ 2(2)] ok
      by (simp_all add: tool_attempts_ok_def unique_keys_total)
    moreover have "\<exists>n. tool_attempt_numbers d' u = [1..<Suc n]" for u
    proof -
      obtain n where n: "tool_attempt_numbers d u = [1..<Suc n]" using ok by (auto simp: tool_attempts_ok_def)
      have "tool_attempt_numbers d' u = (if u = t then [1..<Suc (Suc n)] else [1..<Suc n])"
        using n next_after [OF n] 2 by (auto simp: tool_attempt_numbers_def)
      then show ?thesis by (metis (full_types))
    qed
    ultimately show ?thesis
      using ok 2 Create_Tool_Attempt run by (simp add: tool_attempts_ok_def unique_keys_total tool_attempt_row_ok_def)
  qed (use ok Create_Tool_Attempt run in simp)
next
  case (Complete_Tool_Attempt i t lease s os now e)
  obtain res d' where run: "complete_tool_execution_attempt i t lease s os now e d = (res, d')" by fastforce
  have unique: "distinct (map ta_id (tool_attempts d))" using ok by (simp add: tool_attempts_ok_def)
  show ?thesis
  proof (cases rule: complete_tool_execution_attempt_cases [OF run unique])
    case (2 r)
    let ?f = "completed_attempt s os now e"
    have "tool_attempt_numbers d' u = tool_attempt_numbers d u" for u
    proof -
      have "map ta_no (filter (\<lambda>r. ta_tool r = u) (update_where p ?f rows)) =
          map ta_no (filter (\<lambda>r. ta_tool r = u) rows)" for p rows
        by (induction rows) (auto simp: update_where_def)
      then show ?thesis by (simp add: tool_attempt_numbers_def 2(8))
    qed
    moreover have "tool_attempt_row_ok (?f r)" for r
      using 2(3) by (auto simp: tool_attempt_row_ok_def completed_attempt_def terminal_attempt_states_def)
    ultimately show ?thesis
      using ok Complete_Tool_Attempt run
      by (auto simp: tool_attempts_ok_def 2(8) map_update_where set_update_where unique_keys_update
        unique_active_completed)
  qed (use ok Complete_Tool_Attempt run in simp)
qed

section \<open>Properties\<close>

text \<open>
  The attempts stay well-formed under any sequence of creations and completions with any arguments:
  ids occur once, a lease token occurs once per tool execution, the attempts of a tool execution are
  numbered 1, 2, 3, ... in the order they were made, a running attempt holds its tool execution and has
  no end time, an ended one has both given up.
\<close>

lemma tool_attempt_operations_keep_table:
  assumes "tool_attempts_ok d"
  shows "tool_attempts_ok (fold run_tool_attempt_op ops d)"
  using assms by (induction ops arbitrary: d) (simp_all add: run_tool_attempt_op_ok)

definition execution_sample_db :: db where
  "execution_sample_db = sample_db\<lparr>
     sessions := [\<lparr>es_id = ''s'', es_run = ''r'', es_task_run = ''tr'', es_spec = ''spec'', es_state = ''RUNNING'',
       es_owner_mode = ''agent'', es_principal = None, es_budget = None, es_tool_calls = 1, es_created_at = ''t0'',
       es_updated_at = ''t0'', es_closed_at = None\<rparr>],
     tool_executions := [\<lparr>te_id = ''x'', te_session = ''s'', te_class = ''read'', te_name = None, te_state = ''REQUESTED'',
       te_idem = ''k'', te_attempt_no = 0, te_policy = None, te_outputs = None, te_requested_at = ''t0'',
       te_completed_at = None, te_error = None\<rparr>]\<rparr>"

definition attempt_sample_ops :: "tool_attempt_op list" where
  "attempt_sample_ops = [Create_Tool_Attempt ''a1'' ''x'' ''s'' ''lease-1'' ''t1'',
     Create_Tool_Attempt ''a2'' ''x'' ''s'' ''lease-2'' ''t2'']"

lemma execution_sample_ok: "tool_attempts_ok execution_sample_db"
  by (auto simp: tool_attempts_ok_def execution_sample_db_def sample_db_def empty_db_def tool_attempt_numbers_def
    intro: exI [where x = 0])

lemma unique_active_running:
  assumes "unique_keys ta_active rows" "\<forall>r\<in>set rows. tool_attempt_row_ok r"
  shows "row_count (\<lambda>r. ta_tool r = t \<and> ta_state r = ''RUNNING'') rows \<le> 1"
  using assms
proof (induction rows)
  case (Cons r rows)
  show ?case
  proof (cases "ta_tool r = t \<and> ta_state r = ''RUNNING''")
    case True
    then have "ta_active r = Some t" using Cons.prems(2) by (simp add: tool_attempt_row_ok_def)
    then have "\<And>x. x \<in> set rows \<Longrightarrow> ta_active x \<noteq> Some t"
      using Cons.prems(1) by (force simp: unique_keys_def List.map_filter_def)
    then have "row_count (\<lambda>r. ta_tool r = t \<and> ta_state r = ''RUNNING'') rows = 0"
      using Cons.prems(2) by (auto simp: row_count_def filter_empty_conv tool_attempt_row_ok_def)
    then show ?thesis by (simp add: row_count_def)
  next
    case False
    moreover have "unique_keys ta_active rows"
      using Cons.prems(1) by (auto simp: unique_keys_def List.map_filter_simps split: option.splits)
    ultimately show ?thesis using Cons by (auto simp: row_count_def)
  qed
qed (simp add: row_count_def)

lemma active_found:
  assumes "r \<in> set (tool_attempts d)" "ta_tool r = t" "ta_state r = ''RUNNING''" "ta_active r = Some t"
  shows "get_active_tool_execution_attempt d t \<noteq> None"
proof -
  have "r \<in> set (rev (sort_key ta_no (filter (\<lambda>r. ta_tool r = t \<and> ta_state r = ''RUNNING'' \<and> ta_active r = Some t)
      (tool_attempts d))))"
    using assms by simp
  then show ?thesis unfolding get_active_tool_execution_attempt_def
    by (cases "rev (sort_key ta_no (filter (\<lambda>r. ta_tool r = t \<and> ta_state r = ''RUNNING'' \<and> ta_active r = Some t)
      (tool_attempts d)))") (simp_all only: list.set(1) empty_iff list.case option.distinct not_False_eq_True)
qed

text \<open>
  C32: A tool execution runs at most once at a time: after any sequence of operations at most one of its
  attempts is running, and while one is, another cannot be created.
\<close>

theorem tool_execution_runs_once:
  assumes "tool_attempts_ok d"
  shows "row_count (\<lambda>r. ta_tool r = t \<and> ta_state r = ''RUNNING'')
      (tool_attempts (fold run_tool_attempt_op ops d)) \<le> 1
    \<and> (row_count (\<lambda>r. ta_tool r = t \<and> ta_state r = ''RUNNING'')
        (tool_attempts (fold run_tool_attempt_op ops d)) = 1 \<longrightarrow>
      isl (fst (create_tool_execution_attempt i t s lease now (fold run_tool_attempt_op ops d))))"
proof -
  let ?d = "fold run_tool_attempt_op ops d"
  have "tool_attempts_ok ?d"
    using assms by (induction ops arbitrary: d) (simp_all add: run_tool_attempt_op_ok)
  then have ok: "unique_keys ta_active (tool_attempts ?d)" "\<forall>r\<in>set (tool_attempts ?d). tool_attempt_row_ok r"
    by (simp_all add: tool_attempts_ok_def)
  have "isl (fst (create_tool_execution_attempt i t s lease now ?d))"
    if one: "row_count (\<lambda>r. ta_tool r = t \<and> ta_state r = ''RUNNING'') (tool_attempts ?d) = 1"
  proof -
    let ?xs = "filter (\<lambda>r. ta_tool r = t \<and> ta_state r = ''RUNNING'') (tool_attempts ?d)"
    have "?xs \<noteq> []" using one by (auto simp: row_count_def)
    then have "hd ?xs \<in> set ?xs" by (rule hd_in_set)
    then obtain r where "r \<in> set (tool_attempts ?d)" "ta_tool r = t" "ta_state r = ''RUNNING''" by auto
    with ok(2) have active: "get_active_tool_execution_attempt ?d t \<noteq> None"
      by (intro active_found) (auto simp: tool_attempt_row_ok_def split: if_splits)
    obtain res d' where run: "create_tool_execution_attempt i t s lease now ?d = (res, d')" by fastforce
    show ?thesis
      by (cases rule: create_tool_execution_attempt_cases [OF run]) (use active run in auto)
  qed
  with unique_active_running [OF ok] show ?thesis by blast
qed

theorem tool_execution_runs_once_witness:
  "row_count (\<lambda>r. ta_tool r = ''x'' \<and> ta_state r = ''RUNNING'')
     (tool_attempts (fold run_tool_attempt_op attempt_sample_ops execution_sample_db)) = 1
   \<and> isl (fst (create_tool_execution_attempt ''a3'' ''x'' ''s'' ''lease-3'' ''t3''
        (fold run_tool_attempt_op attempt_sample_ops execution_sample_db)))"
proof -
  have "row_count (\<lambda>r. ta_tool r = ''x'' \<and> ta_state r = ''RUNNING'')
     (tool_attempts (fold run_tool_attempt_op attempt_sample_ops execution_sample_db)) = 1" by code_simp
  with tool_execution_runs_once [OF execution_sample_ok, where ops = attempt_sample_ops and t = "''x''"] show ?thesis by blast
qed

text \<open>
  An attempt is completed at most once: after a completion succeeded, whatever operations follow,
  the attempt keeps its outcome, and every further completion of it, even under its lease token, is
  refused and changes nothing.
\<close>

lemma attempt_completed_once:
  assumes ok: "tool_attempts_ok d"
    and completed: "complete_tool_execution_attempt i t lease state outputs now error d = (Inr r, d1)"
  shows "get_tool_execution_attempt (fold run_tool_attempt_op ops d1) i = Some r
    \<and> ta_state r = state \<and> ta_outputs r = outputs \<and> ta_error r = error
    \<and> (\<exists>code. complete_tool_execution_attempt i t' lease' state' outputs' now' error' (fold run_tool_attempt_op ops d1) =
        (Inl (ToolExecutionAttemptError code), fold run_tool_attempt_op ops d1))"
proof -
  let ?d = "fold run_tool_attempt_op ops d1"
  have unique: "distinct (map ta_id (tool_attempts d))" using ok by (simp add: tool_attempts_ok_def)
  have "tool_attempts_ok d1"
    using run_tool_attempt_op_ok [OF ok, of "Complete_Tool_Attempt i t lease state outputs now error"] completed by simp
  then have "tool_attempts_ok ?d"
    by (induction ops arbitrary: d1) (simp_all add: run_tool_attempt_op_ok)
  then have unique': "distinct (map ta_id (tool_attempts ?d))" by (simp add: tool_attempts_ok_def)
  have ended: "get_tool_execution_attempt d1 i = Some r \<and> ta_state r = state \<and> state \<in> set terminal_attempt_states
      \<and> ta_outputs r = outputs \<and> ta_error r = error"
    by (cases rule: complete_tool_execution_attempt_cases [OF completed unique])
      (auto simp: completed_attempt_def)
  then have "\<not> attempt_finished r x" for x
    by (auto simp: attempt_finished_def terminal_attempt_states_def)
  then have kept: "get_tool_execution_attempt ?d i = Some r"
    using tool_attempt_lifecycle.final_stays ended by blast
  obtain res d' where again: "complete_tool_execution_attempt i t' lease' state' outputs' now' error' ?d = (res, d')"
    by fastforce
  have "\<exists>code. res = Inl (ToolExecutionAttemptError code) \<and> d' = ?d"
    by (cases rule: complete_tool_execution_attempt_cases [OF again unique'])
      (use kept ended in \<open>auto simp: terminal_attempt_states_def\<close>)
  with kept ended again show ?thesis by blast
qed

text \<open>
  Sessions and tool executions change state by compare and set: the row with the id is changed, and
  returned as changed, exactly when its state is one of those expected; otherwise nothing changes; no
  other row ever does.
\<close>

lemma session_transition_compare_and_set:
  assumes unique: "distinct (map es_id (sessions d))" and states: "from_states \<noteq> []"
    and run: "transition_execution_session_state i from_states to_state now closed d = (res, d')"
  shows "(case get_execution_session d i of
      Some r \<Rightarrow> if es_state r \<in> set from_states
        then res = Inr (Some (r\<lparr>es_state := to_state, es_updated_at := now, es_closed_at := closed\<rparr>))
          \<and> get_execution_session d' i = Some (r\<lparr>es_state := to_state, es_updated_at := now, es_closed_at := closed\<rparr>)
        else res = Inr None \<and> d' = d
    | None \<Rightarrow> res = Inr None \<and> d' = d)
    \<and> (\<forall>j\<in>- {i}. get_execution_session d' j = get_execution_session d j) \<and> d' = d\<lparr>sessions := sessions d'\<rparr>"
proof -
  let ?f = "\<lambda>r. r\<lparr>es_state := to_state, es_updated_at := now, es_closed_at := closed\<rparr>"
  note run' = run [unfolded transition_execution_session_state_def get_execution_session_def if_not_P [OF states]]
  have others: "get_execution_session d' j = get_execution_session d j" if "j \<noteq> i" for j
    using session_table.lookups(1) [OF run', of j] that by (simp add: get_execution_session_def option.map_ident)
  show ?thesis
  proof (rule session_table.outcome [OF run' unique])
    assume "res = Inr None" "d' = d" "\<And>r. select_one (\<lambda>r. es_id r = i) (sessions d) = Some r \<Longrightarrow> \<not> es_state r \<in> set from_states"
    then show ?thesis by (auto simp: get_execution_session_def split: option.splits)
  next
    fix r
    assume r: "res = Inr (Some (?f r))" "select_one (\<lambda>r. es_id r = i) (sessions d) = Some r" "es_state r \<in> set from_states"
      "d' = d\<lparr>sessions := update_where (\<lambda>r. es_id r = i \<and> es_state r \<in> set from_states) ?f (sessions d)\<rparr>"
    have "get_execution_session d' i = Some (?f r)"
      using session_table.lookups(1) [OF run', of i] r(2,3) by (simp add: get_execution_session_def)
    moreover have "d' = d\<lparr>sessions := sessions d'\<rparr>" by (simp add: r(4))
    ultimately show ?thesis using r(1-3) others by (simp add: get_execution_session_def)
  qed simp_all
qed

end
