(* ===== verification/Pointers.thy ===== *)
theory Pointers
  imports Keyed_Table Runs
begin

text \<open>
  Artifact pointers, \<open>src/onetruth/infrastructure/repositories/artifact_pointers.py\<close>. A pointer names the
  current version of an artifact; promoting it to another version needs the generation that was read, and
  advances it.
\<close>

section \<open>Operations\<close>

text \<open>\<open>ORDER BY updated_at DESC, pointer_id ASC\<close>.\<close>

definition newest_first :: "pointer_row list \<Rightarrow> pointer_row list" where
  "newest_first rows = rev (sort_key pt_updated_at (rev (sort_key pt_id rows)))"

definition first_row :: "'r list \<Rightarrow> 'r option" where
  "first_row rows = (case rows of [] \<Rightarrow> None | r # _ \<Rightarrow> Some r)"

definition workflow_run_scope :: "db \<Rightarrow> string \<Rightarrow> (string \<times> string \<times> string) option" where
  "workflow_run_scope d workflow_run_id =
     map_option (\<lambda>r. (wr_tenant r, wr_domain r, wr_partition r))
       (select_one (\<lambda>r. wr_id r = workflow_run_id) (runs d))"

definition get_pointer_by_id :: "db \<Rightarrow> string \<Rightarrow> pointer_row option" where
  "get_pointer_by_id d pointer_id = select_one (\<lambda>r. pt_id r = pointer_id) (pointers d)"

text \<open>\<open>stream_key IS NULL AND ? IS NULL OR stream_key = ?\<close> compares the optional texts.\<close>

definition get_pointer_by_address ::
    "db \<Rightarrow> string \<Rightarrow> string \<Rightarrow> string \<Rightarrow> string \<Rightarrow> string \<Rightarrow> string option \<Rightarrow> string option \<Rightarrow> pointer_row option" where
  "get_pointer_by_address d tenant_id domain_id dataset_key partition_kind partition_key stream_key registry_kind =
     (let kind = (case registry_kind of None \<Rightarrow> ''singleton'' | Some k \<Rightarrow> if k = [] then ''singleton'' else k)
      in first_row (newest_first (filter (\<lambda>r. pt_tenant r = Some tenant_id \<and> pt_domain r = Some domain_id
           \<and> pt_dataset r = Some dataset_key \<and> pt_partition_kind r = Some partition_kind
           \<and> pt_partition r = Some partition_key \<and> pt_registry r = Some kind \<and> pt_stream r = stream_key)
         (pointers d))))"

text \<open>A filter that is not given matches every row; for the last two, \<open>Some None\<close> asks for \<open>NULL\<close>.\<close>

definition given :: "'a option \<Rightarrow> 'a \<Rightarrow> bool" where
  "given wanted x = (case wanted of None \<Rightarrow> True | Some y \<Rightarrow> x = y)"

record pointer_filter =
  pf_dataset :: "string option"
  pf_partition_kind :: "string option"
  pf_partition :: "string option"
  pf_stream :: "string option option"
  pf_registry :: "string option option"
  pf_key :: "string option"
  pf_scope_kind :: "string option"
  pf_scope_ref :: "string option"
  pf_artifact_kind :: "string option"

definition list_pointers_by_canonical_scope :: "db \<Rightarrow> string \<Rightarrow> string \<Rightarrow> pointer_filter \<Rightarrow> pointer_row list" where
  "list_pointers_by_canonical_scope d tenant_id domain_id f =
     newest_first (filter (\<lambda>r. pt_tenant r = Some tenant_id \<and> pt_domain r = Some domain_id
       \<and> given (map_option Some (pf_dataset f)) (pt_dataset r)
       \<and> given (map_option Some (pf_partition_kind f)) (pt_partition_kind r)
       \<and> given (map_option Some (pf_partition f)) (pt_partition r)
       \<and> given (pf_key f) (pt_key r) \<and> given (pf_scope_kind f) (pt_scope_kind r)
       \<and> given (pf_scope_ref f) (pt_scope_ref r) \<and> given (pf_artifact_kind f) (pt_artifact_kind r)
       \<and> given (pf_stream f) (pt_stream r) \<and> given (pf_registry f) (pt_registry r)) (pointers d))"

definition get_pointer :: "db \<Rightarrow> string \<Rightarrow> string \<Rightarrow> pointer_row option" where
  "get_pointer d workflow_run_id pointer_key =
     (case first_row (newest_first (filter (\<lambda>r. pt_run r = workflow_run_id \<and> pt_key r = pointer_key) (pointers d))) of
        Some r \<Rightarrow> Some r
      | None \<Rightarrow> (case workflow_run_scope d workflow_run_id of
          None \<Rightarrow> None
        | Some (tenant, domain, part) \<Rightarrow> first_row (newest_first (filter (\<lambda>r. pt_tenant r = Some tenant
              \<and> pt_domain r = Some domain \<and> pt_partition r = Some part \<and> pt_key r = pointer_key) (pointers d)))))"

definition list_pointers_for_workflow_run :: "db \<Rightarrow> string \<Rightarrow> pointer_row list" where
  "list_pointers_for_workflow_run d workflow_run_id =
     (case workflow_run_scope d workflow_run_id of
        None \<Rightarrow> []
      | Some (tenant, domain, part) \<Rightarrow> sort_key pt_key (newest_first (filter (\<lambda>r. pt_tenant r = Some tenant
          \<and> pt_domain r = Some domain \<and> pt_partition r = Some part) (pointers d))))"

text \<open>The constraints of the table for a row \<open>r\<close> next to the rows \<open>others\<close>.\<close>

definition pointer_conflict :: "db \<Rightarrow> pointer_row list \<Rightarrow> pointer_row \<Rightarrow> exc option" where
  "pointer_conflict d others r =
     (if exists_row (\<lambda>x. pt_run x = pt_run r \<and> pt_key x = pt_key r) others
      then Some (IntegrityError ''UNIQUE constraint failed: artifact_pointers.workflow_run_id, artifact_pointers.pointer_key'')
      else if exists_row (\<lambda>x. pt_run x = pt_run r \<and> pt_scope_kind x = pt_scope_kind r
          \<and> pt_scope_ref x = pt_scope_ref r \<and> pt_artifact_kind x = pt_artifact_kind r) others
      then Some (IntegrityError (''UNIQUE constraint failed: artifact_pointers.workflow_run_id, '' @
        ''artifact_pointers.scope_kind, artifact_pointers.scope_ref, artifact_pointers.artifact_kind''))
      else if pt_run r \<notin> wr_id ` set (runs d) \<or> pt_artifact r \<notin> set (artifact_ids d)
        \<or> \<not> fk_ok (pt_task_run r) (map tr_id (task_runs d)) \<or> \<not> fk_ok (pt_approval r) (map ap_id (approvals d))
      then Some fk_failed else None)"

definition insert_pointer :: "pointer_row \<Rightarrow> (unit, db) comp" where
  "insert_pointer r d =
     (if exists_row (\<lambda>x. pt_id x = pt_id r) (pointers d)
      then raise (IntegrityError ''UNIQUE constraint failed: artifact_pointers.pointer_id'') d
      else case pointer_conflict d (pointers d) r of
        Some e \<Rightarrow> raise e d
      | None \<Rightarrow> (Inr (), d\<lparr>pointers := pointers d @ [r]\<rparr>))"

text \<open>The arguments of a promotion, and the row an update makes of the row \<open>r\<close>.\<close>

record promotion =
  pm_run :: string
  pm_key :: string
  pm_scope_kind :: string
  pm_scope_ref :: string
  pm_artifact_kind :: string
  pm_artifact :: string
  pm_reason :: "string option"
  pm_task_run :: "string option"
  pm_approval :: "string option"
  pm_updated_at :: string
  pm_expected :: "int option"
  pm_pointer_id :: "string option"
  pm_tenant :: "string option"
  pm_domain :: "string option"
  pm_dataset :: "string option"
  pm_partition_kind :: "string option"
  pm_partition :: "string option"
  pm_stream :: "string option"
  pm_registry :: "string option"

definition coalesce :: "'a option \<Rightarrow> 'a option \<Rightarrow> 'a option" where
  "coalesce x y = (case x of None \<Rightarrow> y | Some _ \<Rightarrow> x)"

definition first_pointer :: "promotion \<Rightarrow> string \<Rightarrow> pointer_row" where
  "first_pointer p i = \<lparr>pt_id = i, pt_run = pm_run p, pt_key = pm_key p, pt_tenant = pm_tenant p,
     pt_domain = pm_domain p, pt_dataset = pm_dataset p, pt_partition_kind = pm_partition_kind p,
     pt_partition = pm_partition p, pt_stream = pm_stream p, pt_registry = pm_registry p,
     pt_scope_kind = pm_scope_kind p, pt_scope_ref = pm_scope_ref p, pt_artifact_kind = pm_artifact_kind p,
     pt_artifact = pm_artifact p, pt_reason = pm_reason p, pt_task_run = pm_task_run p,
     pt_approval = pm_approval p, pt_generation = 0, pt_updated_at = pm_updated_at p\<rparr>"

definition promoted_pointer :: "promotion \<Rightarrow> pointer_row \<Rightarrow> pointer_row" where
  "promoted_pointer p r = r\<lparr>pt_run := pm_run p, pt_key := pm_key p, pt_tenant := coalesce (pm_tenant p) (pt_tenant r),
     pt_domain := coalesce (pm_domain p) (pt_domain r), pt_dataset := coalesce (pm_dataset p) (pt_dataset r),
     pt_partition_kind := coalesce (pm_partition_kind p) (pt_partition_kind r),
     pt_partition := coalesce (pm_partition p) (pt_partition r), pt_stream := coalesce (pm_stream p) (pt_stream r),
     pt_registry := coalesce (pm_registry p) (pt_registry r), pt_artifact := pm_artifact p,
     pt_reason := pm_reason p, pt_task_run := pm_task_run p, pt_approval := pm_approval p,
     pt_generation := pt_generation r + 1, pt_updated_at := pm_updated_at p\<rparr>"

definition update_pointer :: "promotion \<Rightarrow> string \<Rightarrow> int \<Rightarrow> (unit, db) comp" where
  "update_pointer p i generation d =
     (case select_one (\<lambda>r. pt_id r = i \<and> pt_generation r = generation) (pointers d) of
        None \<Rightarrow> (Inr (), d)
      | Some r \<Rightarrow> (case pointer_conflict d (filter (\<lambda>x. pt_id x \<noteq> i) (pointers d)) (promoted_pointer p r) of
          Some e \<Rightarrow> raise e d
        | None \<Rightarrow> (Inr (), d\<lparr>pointers := update_where (\<lambda>r. pt_id r = i \<and> pt_generation r = generation)
                     (promoted_pointer p) (pointers d)\<rparr>)))"

definition pointer_back :: "string \<Rightarrow> (pointer_row \<times> bool, db) comp" where
  "pointer_back i = seq (asks (\<lambda>d. get_pointer_by_id d i)) (\<lambda>r. case r of
     None \<Rightarrow> raise RuntimeError | Some r \<Rightarrow> ret (r, True))"

definition promote_pointer :: "promotion \<Rightarrow> (pointer_row \<times> bool, db) comp" where
  "promote_pointer p =
     (let i = py_strip (case pm_pointer_id p of None \<Rightarrow> [] | Some s \<Rightarrow> s)
      in if i = [] then raise ValueError
      else seq (asks (\<lambda>d. get_pointer_by_id d i)) (\<lambda>found. case found of
        None \<Rightarrow> seq (insert_pointer (first_pointer p i)) (\<lambda>_. pointer_back i)
      | Some existing \<Rightarrow>
          if pt_scope_kind existing \<noteq> pm_scope_kind p \<or> pt_scope_ref existing \<noteq> pm_scope_ref p
            \<or> pt_artifact_kind existing \<noteq> pm_artifact_kind p
          then raise (PointerDefinitionMismatchError (pm_key p))
          else if pt_artifact existing = pm_artifact p then ret (existing, False)
          else (case pm_expected p of
              None \<Rightarrow> raise (PointerConflictError (pm_key p) (pt_artifact existing) (pt_generation existing))
            | Some g \<Rightarrow>
                if g \<noteq> pt_generation existing
                then raise (PointerGenerationMismatchError (pm_key p) g (pt_generation existing))
                else seq (update_pointer p i g) (\<lambda>_. pointer_back i))))"

section \<open>Effect of a promotion\<close>

interpretation pointer_ids: unique_table pointers "\<lambda>r. Some (pt_id r)" insert_pointer
  by unfold_locales (auto simp: insert_pointer_def comp_simps split: if_splits option.splits)

interpretation pointer_run_keys: unique_table pointers "\<lambda>r. Some (pt_run r, pt_key r)" insert_pointer
  by unfold_locales (auto simp: insert_pointer_def pointer_conflict_def comp_simps split: if_splits option.splits)

interpretation pointer_definitions: unique_table pointers
    "\<lambda>r. Some (pt_run r, pt_scope_kind r, pt_scope_ref r, pt_artifact_kind r)" insert_pointer
  by unfold_locales (auto simp: insert_pointer_def pointer_conflict_def comp_simps split: if_splits option.splits)

definition promotion_id :: "promotion \<Rightarrow> string" where
  "promotion_id p = py_strip (case pm_pointer_id p of None \<Rightarrow> [] | Some s \<Rightarrow> s)"

definition same_definition :: "promotion \<Rightarrow> pointer_row \<Rightarrow> bool" where
  "same_definition p r \<longleftrightarrow> pt_scope_kind r = pm_scope_kind p \<and> pt_scope_ref r = pm_scope_ref p
     \<and> pt_artifact_kind r = pm_artifact_kind p"

lemma find_refined: "select_one q rows = Some r \<Longrightarrow> h r \<Longrightarrow> select_one (\<lambda>x. q x \<and> h x) rows = Some r"
  by (induction rows) (auto split: if_splits)

text \<open>A promotion raises and changes nothing, finds its artifact in place, makes the pointer, or moves it.\<close>

lemma promote_pointer_cases:
  assumes run: "promote_pointer p d = (res, d')"
  obtains (raised) e where "res = Inl e" "d' = d"
  | (same) r where "res = Inr (r, False)" "d' = d" "get_pointer_by_id d (promotion_id p) = Some r"
      "same_definition p r" "pt_artifact r = pm_artifact p"
  | (made) "res = Inr (first_pointer p (promotion_id p), True)" "get_pointer_by_id d (promotion_id p) = None"
      "insert_pointer (first_pointer p (promotion_id p)) d = (Inr (), d')"
  | (moved) r where "res = Inr (promoted_pointer p r, True)" "get_pointer_by_id d (promotion_id p) = Some r"
      "same_definition p r" "pt_artifact r \<noteq> pm_artifact p" "pm_expected p = Some (pt_generation r)"
      "pointer_conflict d (filter (\<lambda>x. pt_id x \<noteq> promotion_id p) (pointers d)) (promoted_pointer p r) = None"
      "d' = d\<lparr>pointers := update_where (\<lambda>x. pt_id x = promotion_id p \<and> pt_generation x = pt_generation r)
         (promoted_pointer p) (pointers d)\<rparr>"
proof -
  let ?i = "promotion_id p"
  note run' = run [unfolded promote_pointer_def Let_def, folded promotion_id_def]
  show thesis
  proof (cases "get_pointer_by_id d ?i")
    case None
    obtain r1 d1 where ins: "insert_pointer (first_pointer p ?i) d = (r1, d1)" by fastforce
    show thesis
    proof (cases r1)
      case (Inl e)
      with ins pointer_ids.insert_failed have "d1 = d" by blast
      with run' None ins Inl raised show thesis by (auto simp: comp_simps split: if_splits)
    next
      case (Inr u)
      have "get_pointer_by_id d1 ?i = Some (first_pointer p ?i)"
        using pointer_ids.lookup_inserted(2) [OF ins [unfolded Inr]]
        by (simp add: get_pointer_by_id_def first_pointer_def)
      with run' None ins Inr raised made show thesis
        by (auto simp: comp_simps pointer_back_def split: if_splits)
    qed
  next
    case (Some r)
    consider "\<not> same_definition p r" | "same_definition p r" "pt_artifact r = pm_artifact p"
      | "same_definition p r" "pt_artifact r \<noteq> pm_artifact p" "pm_expected p \<noteq> Some (pt_generation r)"
      | "same_definition p r" "pt_artifact r \<noteq> pm_artifact p" "pm_expected p = Some (pt_generation r)" by blast
    then show thesis
    proof cases
      case 1
      with run' Some raised show thesis by (auto simp: comp_simps same_definition_def split: if_splits)
    next
      case 2
      with run' Some raised same show thesis by (auto simp: comp_simps same_definition_def split: if_splits)
    next
      case 3
      with run' Some raised show thesis
        by (auto simp: comp_simps same_definition_def split: if_splits option.splits)
    next
      case 4
      have found: "select_one (\<lambda>x. pt_id x = ?i \<and> pt_generation x = pt_generation r) (pointers d) = Some r"
        using Some by (simp add: get_pointer_by_id_def find_refined)
      let ?rows = "update_where (\<lambda>x. pt_id x = ?i \<and> pt_generation x = pt_generation r) (promoted_pointer p) (pointers d)"
      have "select_one (\<lambda>x. pt_id x = ?i) ?rows = Some (promoted_pointer p r)"
        using Some by (simp add: get_pointer_by_id_def select_key_update promoted_pointer_def)
      then have read: "pointer_back ?i (d\<lparr>pointers := ?rows\<rparr>) = (Inr (promoted_pointer p r, True), d\<lparr>pointers := ?rows\<rparr>)"
        by (simp add: pointer_back_def get_pointer_by_id_def comp_simps)
      show thesis
      proof (cases "pointer_conflict d (filter (\<lambda>x. pt_id x \<noteq> ?i) (pointers d)) (promoted_pointer p r)")
        case None
        then have "update_pointer p ?i (pt_generation r) d = (Inr (), d\<lparr>pointers := ?rows\<rparr>)"
          by (simp add: update_pointer_def found)
        with run' Some 4 read have "if ?i = [] then res = Inl ValueError \<and> d' = d
            else res = Inr (promoted_pointer p r, True) \<and> d' = d\<lparr>pointers := ?rows\<rparr>"
          by (cases "?i = []") (simp_all add: comp_simps same_definition_def)
        then show thesis using raised moved [OF _ Some 4 None] by (cases "?i = []") simp_all
      next
        case (Some e)
        then have "update_pointer p ?i (pt_generation r) d = (Inl e, d)"
          by (simp add: update_pointer_def found comp_simps)
        with run' \<open>get_pointer_by_id d ?i = Some r\<close> 4 have "if ?i = [] then res = Inl ValueError \<and> d' = d
            else res = Inl e \<and> d' = d"
          by (cases "?i = []") (simp_all add: comp_simps same_definition_def)
        then show thesis using raised by (cases "?i = []") simp_all
      qed
    qed
  qed
qed

section \<open>Invariants\<close>

definition pointers_ok :: "db \<Rightarrow> bool" where
  "pointers_ok d \<longleftrightarrow> distinct (map pt_id (pointers d)) \<and> distinct (map (\<lambda>r. (pt_run r, pt_key r)) (pointers d))
     \<and> distinct (map (\<lambda>r. (pt_run r, pt_scope_kind r, pt_scope_ref r, pt_artifact_kind r)) (pointers d))
     \<and> (\<forall>r\<in>set (pointers d). 0 \<le> pt_generation r \<and> pt_run r \<in> wr_id ` set (runs d)
          \<and> pt_artifact r \<in> set (artifact_ids d))"

lemma insert_pointer_Inr:
  assumes "insert_pointer r d = (Inr u, d')"
  shows "d' = d\<lparr>pointers := pointers d @ [r]\<rparr>" "pt_run r \<in> wr_id ` set (runs d)" "pt_artifact r \<in> set (artifact_ids d)"
  using assms by (auto simp: insert_pointer_def pointer_conflict_def comp_simps split: if_splits option.splits)

lemma distinct_update_one:
  assumes "distinct (map k rows)" "distinct (map h rows)" "\<And>r. k (f r) = k r"
    and "\<And>r x. r \<in> set rows \<Longrightarrow> k r = i \<Longrightarrow> x \<in> set rows \<Longrightarrow> k x \<noteq> i \<Longrightarrow> h x \<noteq> h (f r)"
  shows "distinct (map h (update_where (\<lambda>r. k r = i \<and> q r) f rows))"
  using assms
proof (induction rows)
  case (Cons a rows)
  define g where "g = (\<lambda>r. if k r = i \<and> q r then f r else r)"
  have update: "update_where (\<lambda>r. k r = i \<and> q r) f ys = map g ys" for ys
    by (simp add: update_where_def g_def)
  have "h (g a) \<noteq> h (g x)" if x: "x \<in> set rows" for x
  proof -
    have "k x \<noteq> k a" "h x \<noteq> h a" using Cons.prems(1,2) x
      by (metis distinct.simps(2) image_eqI list.set_map list.simps(9))+
    then show ?thesis using Cons.prems(4) [of a x] Cons.prems(4) [of x a] x by (auto simp: g_def)
  qed
  then have "h (g a) \<notin> set (map h (map g rows))" by auto
  then show ?case using Cons unfolding update by simp
qed (simp add: update_where_def)

lemma promote_pointer_ok:
  assumes ok: "pointers_ok d"
  shows "pointers_ok (snd (promote_pointer p d))"
proof -
  obtain res d' where run: "promote_pointer p d = (res, d')" by fastforce
  have unique: "distinct (map pt_id (pointers d))" using ok by (simp add: pointers_ok_def)
  have "pointers_ok d'"
  proof (cases rule: promote_pointer_cases [OF run])
    case 3
    note made = 3
    have "distinct (map pt_id (pointers d'))" "distinct (map (\<lambda>r. (pt_run r, pt_key r)) (pointers d'))"
      "distinct (map (\<lambda>r. (pt_run r, pt_scope_kind r, pt_scope_ref r, pt_artifact_kind r)) (pointers d'))"
      using keepsD' [OF pointer_ids.keeps_unique _ made(3)] keepsD' [OF pointer_run_keys.keeps_unique _ made(3)]
        keepsD' [OF pointer_definitions.keeps_unique _ made(3)] ok
      by (simp_all add: pointers_ok_def unique_keys_total)
    then show ?thesis
      using insert_pointer_Inr [OF made(3)] ok by (auto simp: pointers_ok_def first_pointer_def)
  next
    case (4 r)
    note moved = 4
    have r: "r \<in> set (pointers d)" "pt_id r = promotion_id p"
      using moved(2) by (auto simp: get_pointer_by_id_def dest: select_one_Some)
    have only: "x = r" if "x \<in> set (pointers d)" "pt_id x = promotion_id p" for x
      using that r unique by (metis select_of_key option.inject)
    have fits: "pt_run (promoted_pointer p r) \<in> wr_id ` set (runs d)" "pt_artifact (promoted_pointer p r) \<in> set (artifact_ids d)"
      "\<And>x. x \<in> set (pointers d) \<Longrightarrow> pt_id x \<noteq> promotion_id p \<Longrightarrow>
        (pt_run x, pt_key x) \<noteq> (pt_run (promoted_pointer p r), pt_key (promoted_pointer p r))
        \<and> (pt_run x, pt_scope_kind x, pt_scope_ref x, pt_artifact_kind x) \<noteq>
          (pt_run (promoted_pointer p r), pt_scope_kind (promoted_pointer p r), pt_scope_ref (promoted_pointer p r),
           pt_artifact_kind (promoted_pointer p r))"
      using moved(6) by (auto simp: pointer_conflict_def split: if_splits)
    have rows: "pointers d' = update_where (\<lambda>x. pt_id x = promotion_id p \<and> pt_generation x = pt_generation r)
        (promoted_pointer p) (pointers d)" "runs d' = runs d" "artifact_versions d' = artifact_versions d"
      by (simp_all add: moved(7))
    have "distinct (map (\<lambda>r. (pt_run r, pt_key r)) (pointers d'))"
      unfolding rows(1) by (rule distinct_update_one [OF unique])
        (use ok only fits(3) in \<open>auto simp: pointers_ok_def promoted_pointer_def\<close>)
    moreover have "distinct (map (\<lambda>r. (pt_run r, pt_scope_kind r, pt_scope_ref r, pt_artifact_kind r)) (pointers d'))"
      unfolding rows(1) by (rule distinct_update_one [OF unique])
        (use ok only fits(3) in \<open>auto simp: pointers_ok_def promoted_pointer_def\<close>)
    moreover have "distinct (map pt_id (pointers d'))"
      using unique by (simp add: rows(1) map_update_where promoted_pointer_def)
    moreover have "0 \<le> pt_generation x \<and> pt_run x \<in> wr_id ` set (runs d') \<and> pt_artifact x \<in> set (artifact_ids d')"
      if "x \<in> set (pointers d')" for x
      using that ok fits(1,2) by (auto simp: rows set_update_where pointers_ok_def promoted_pointer_def)
    ultimately show ?thesis by (simp add: pointers_ok_def)
  qed (use ok in simp_all)
  with run show ?thesis by simp
qed

section \<open>The generation identifies the artifact\<close>

text \<open>
  Abstractly a pointer has a fixed definition, and a generation with the artifact it names. The only step
  goes to the next generation and another artifact.
\<close>

type_synonym pointer_state = "(string \<times> string \<times> string) \<times> int \<times> string"

inductive pointer_step :: "pointer_state \<Rightarrow> pointer_state \<Rightarrow> bool" where
  move: "a \<noteq> b \<Longrightarrow> pointer_step (df, g, a) (df, g + 1, b)"

inductive_simps pointer_step_simps: "pointer_step (df, g, a) s"

definition pointer_state_of :: "pointer_row \<Rightarrow> pointer_state" where
  "pointer_state_of r = ((pt_scope_kind r, pt_scope_ref r, pt_artifact_kind r), pt_generation r, pt_artifact r)"

definition pointer_state :: "db \<Rightarrow> string \<Rightarrow> pointer_state option" where
  "pointer_state d i = map_option pointer_state_of (get_pointer_by_id d i)"

lemma promote_pointer_state:
  assumes state: "pointer_state d i = Some x"
  shows "\<exists>y. pointer_state (snd (promote_pointer p d)) i = Some y \<and> (y = x \<or> pointer_step x y)"
proof -
  obtain res d' where run: "promote_pointer p d = (res, d')" by fastforce
  have "\<exists>y. pointer_state d' i = Some y \<and> (y = x \<or> pointer_step x y)"
  proof (cases rule: promote_pointer_cases [OF run])
    case 3
    have "pointer_state d' i = Some x"
      using state insert_pointer_Inr(1) [OF 3(3)]
      by (auto simp: pointer_state_def get_pointer_by_id_def select_one_append split: option.splits)
    then show ?thesis by blast
  next
    case (4 r)
    let ?f = "promoted_pointer p"
    have rows: "pointers d' = update_where (\<lambda>x. pt_id x = promotion_id p \<and> pt_generation x = pt_generation r) ?f (pointers d)"
      by (simp add: 4(7))
    show ?thesis
    proof (cases "i = promotion_id p")
      case True
      have "get_pointer_by_id d' i = Some (?f r)"
        using 4(2) by (simp add: True get_pointer_by_id_def rows select_key_update promoted_pointer_def)
      moreover have "pointer_step (pointer_state_of r) (pointer_state_of (?f r))"
        using 4(4) by (simp add: pointer_state_of_def pointer_step_simps promoted_pointer_def)
      ultimately show ?thesis using state 4(2) by (auto simp: pointer_state_def True)
    next
      case False
      have "get_pointer_by_id d' i = get_pointer_by_id d i"
        using False by (simp add: get_pointer_by_id_def rows select_other_update promoted_pointer_def)
      with state have "pointer_state d' i = Some x" by (simp only: pointer_state_def)
      then show ?thesis by blast
    qed
  qed (use state in simp_all)
  with run show ?thesis by simp
qed

abbreviation run_promotion :: "promotion \<Rightarrow> db \<Rightarrow> db" where
  "run_promotion p d \<equiv> snd (promote_pointer p d)"

interpretation pointer_lifecycle: lifecycle pointer_state run_promotion pointer_step
  by unfold_locales (rule promote_pointer_state)

lemma pointer_path:
  assumes "pointer_step\<^sup>*\<^sup>* x y"
  shows "fst y = fst x" "fst (snd x) \<le> fst (snd y)" "fst (snd y) = fst (snd x) \<Longrightarrow> y = x"
  using assms by (induction rule: rtranclp_induct) (auto elim!: pointer_step.cases)

text \<open>C30: The generation of a pointer identifies its artifact: over any sequence of promotions the scope and
  artifact kind of a pointer stay, its generation never falls, and the same generation later means the
  same artifact version.\<close>
theorem pointer_generation_identifies_artifact:
  assumes "get_pointer_by_id d i = Some r"
  shows "\<exists>r'. get_pointer_by_id (fold run_promotion ps d) i = Some r'
    \<and> pt_scope_kind r' = pt_scope_kind r \<and> pt_scope_ref r' = pt_scope_ref r
    \<and> pt_artifact_kind r' = pt_artifact_kind r \<and> pt_generation r \<le> pt_generation r'
    \<and> (pt_generation r' = pt_generation r \<longrightarrow> pt_artifact r' = pt_artifact r)"
proof -
  have "pointer_state d i = Some (pointer_state_of r)" using assms by (simp add: pointer_state_def)
  then obtain y where "pointer_state (fold run_promotion ps d) i = Some y" "pointer_step\<^sup>*\<^sup>* (pointer_state_of r) y"
    using pointer_lifecycle.run_path by blast
  then show ?thesis
    using pointer_path [of "pointer_state_of r" y] by (auto simp: pointer_state_def pointer_state_of_def)
qed

text \<open>C29: No update is lost: once a promotion has changed a pointer, another promotion of it that expects the
  generation read before never changes anything, whatever happened in between.\<close>
theorem promotions_lose_no_update:
  assumes read: "get_pointer_by_id d (promotion_id p) = Some r" "pm_expected q = Some (pt_generation r)"
    and ids: "promotion_id q = promotion_id p"
    and first: "promote_pointer p d = (Inr (r1, True), d1)"
    and second: "promote_pointer q (fold run_promotion ps d1) = (res, d2)"
  shows "d2 = fold run_promotion ps d1 \<and> (\<forall>x. res \<noteq> Inr (x, True))"
proof -
  obtain r2 where r2: "get_pointer_by_id d1 (promotion_id p) = Some r2" "pt_generation r2 = pt_generation r + 1"
  proof (cases rule: promote_pointer_cases [OF first])
    case (4 s)
    then have "get_pointer_by_id d1 (promotion_id p) = Some (promoted_pointer p r)"
      using read(1) by (simp add: get_pointer_by_id_def select_key_update promoted_pointer_def)
    then show thesis using that by (simp add: promoted_pointer_def)
  qed (use read(1) in auto)
  obtain r3 where r3: "get_pointer_by_id (fold run_promotion ps d1) (promotion_id p) = Some r3"
    "pt_generation r2 \<le> pt_generation r3"
  proof -
    have "pointer_state d1 (promotion_id p) = Some (pointer_state_of r2)" using r2(1) by (simp add: pointer_state_def)
    then obtain y where "pointer_state (fold run_promotion ps d1) (promotion_id p) = Some y"
      "pointer_step\<^sup>*\<^sup>* (pointer_state_of r2) y"
      using pointer_lifecycle.run_path by blast
    then show thesis
      using that pointer_path(2) [of "pointer_state_of r2" y] by (auto simp: pointer_state_def pointer_state_of_def)
  qed
  show ?thesis
    by (cases rule: promote_pointer_cases [OF second]) (use r2(2) r3 read(2) ids in auto)
qed

definition pointer_sample_db :: db where
  "pointer_sample_db = sample_db\<lparr>artifact_versions := map sample_artifact [''v1'', ''v2'', ''v3'']\<rparr>"

definition sample_promotion :: "string \<Rightarrow> int option \<Rightarrow> promotion" where
  "sample_promotion v g = \<lparr>pm_run = ''r'', pm_key = ''plan:official'', pm_scope_kind = ''workflow_run'',
     pm_scope_ref = ''r'', pm_artifact_kind = ''plan'', pm_artifact = v, pm_reason = None, pm_task_run = None,
     pm_approval = None, pm_updated_at = ''t'', pm_expected = g, pm_pointer_id = Some ''p'', pm_tenant = Some ''t'',
     pm_domain = Some ''d'', pm_dataset = None, pm_partition_kind = None, pm_partition = None, pm_stream = None,
     pm_registry = None\<rparr>"

definition pointer_made_db :: db where
  "pointer_made_db = run_promotion (sample_promotion ''v1'' None) pointer_sample_db"

theorem pointer_generation_identifies_artifact_witness:
  "\<exists>r r'. get_pointer_by_id pointer_made_db ''p'' = Some r \<and> pt_artifact r = ''v1''
     \<and> get_pointer_by_id (fold run_promotion [sample_promotion ''v2'' (Some 7)] pointer_made_db) ''p'' = Some r'
     \<and> pt_generation r \<le> pt_generation r'"
proof -
  obtain r where "get_pointer_by_id pointer_made_db ''p'' = Some r" "pt_artifact r = ''v1''"
    by (rule that) code_simp+
  with pointer_generation_identifies_artifact [OF this(1), of "[sample_promotion ''v2'' (Some 7)]"] show ?thesis by blast
qed

theorem promotions_lose_no_update_witness:
  "\<exists>r d2. get_pointer_by_id pointer_made_db ''p'' = Some r \<and> pt_generation r = 0
     \<and> promote_pointer (sample_promotion ''v3'' (Some 0)) (run_promotion (sample_promotion ''v2'' (Some 0)) pointer_made_db)
       = (Inl (PointerGenerationMismatchError ''plan:official'' 0 1), d2)
     \<and> d2 = run_promotion (sample_promotion ''v2'' (Some 0)) pointer_made_db"
proof -
  let ?p = "sample_promotion ''v2'' (Some 0)" and ?q = "sample_promotion ''v3'' (Some 0)"
  obtain r where r: "get_pointer_by_id pointer_made_db ''p'' = Some r" "pt_generation r = 0"
    by (rule that) code_simp+
  have ids: "promotion_id ?p = ''p''" "promotion_id ?q = ''p''" "pm_expected ?q = Some 0" by code_simp+
  obtain r1 d1 where first: "promote_pointer ?p pointer_made_db = (Inr (r1, True), d1)"
    by (rule that) code_simp
  obtain res d2 where second: "promote_pointer ?q (fold run_promotion [] d1) = (res, d2)" by fastforce
  have "fst (promote_pointer ?q (run_promotion ?p pointer_made_db)) = Inl (PointerGenerationMismatchError ''plan:official'' 0 1)"
    by code_simp
  with promotions_lose_no_update [OF _ _ _ first second] r ids first second show ?thesis by simp
qed

end
