(* ===== verification/Approval_Commands.thy ===== *)
theory Approval_Commands
  imports Capabilities Human_Tasks
begin

text \<open>
  The approval commands, \<open>src/onetruth/application/handlers/approvals.py\<close>: requesting an approval,
  responding to it, and reading. The hooks that run on a response are an argument: what a hook does with
  the connection is a computation of its context.
\<close>

section \<open>Requesting\<close>

definition approval_states :: "string list" where
  "approval_states = [''PENDING'', ''RESPONDED'']"

definition approval_response_to_outcome :: "(string \<times> string) list" where
  "approval_response_to_outcome = [(''approve'', ''approved''), (''reject'', ''rejected''),
     (''request_changes'', ''changes_requested''), (''cancel'', ''canceled''), (''expire'', ''expired'')]"

definition approval_dict :: "approval_row \<Rightarrow> dict" where
  "approval_dict r =
     [(''approval_id'', JStr (ap_id r)), (''workflow_run_id'', JStr (ap_run r)),
      (''task_run_id'', of_opt (ap_task_run r)), (''approval_kind'', JStr (ap_kind r)),
      (''scope_kind'', JStr (ap_scope_kind r)), (''scope_ref'', JStr (ap_scope_ref r)),
      (''state'', JStr (ap_state r)), (''requested_by_task_run_id'', of_opt (ap_requested_by r)),
      (''candidate_roles'', str_list (ap_roles r)), (''required_role'', of_opt (ap_required_role r)),
      (''requested_at'', JStr (ap_requested_at r)), (''responded_at'', of_opt (ap_responded_at r)),
      (''response_kind'', of_opt (ap_response_kind r)), (''response_reason'', of_opt (ap_response_reason r)),
      (''decided_by_actor_id'', of_opt (ap_actor_id r)), (''decided_by_actor_type'', of_opt (ap_actor_type r)),
      (''generation'', JInt (ap_generation r)), (''created_at'', JStr (ap_created_at r)),
      (''updated_at'', JStr (ap_updated_at r))]"

text \<open>The action of a request: the one given, or the scope.\<close>

definition request_action :: "dict \<Rightarrow> string" where
  "request_action payload = py_str (py_or (jget payload ''action'')
     (JStr (py_str (jget payload ''scope_kind'') @ '':'' @ py_str (jget payload ''scope_ref''))))"

definition belongs_if_given :: "string option \<Rightarrow> string \<Rightarrow> (unit, db) comp" where
  "belongs_if_given task_run_id workflow_run_id d = (case task_run_id of
     None \<Rightarrow> (Inr (), d)
   | Some t \<Rightarrow> (rbind (validate_task_run_belongs_to_workflow d t workflow_run_id) (\<lambda>_. Inr ()), d))"

definition request_approval_effects ::
    "command_env \<Rightarrow> dict \<Rightarrow> string \<Rightarrow> string option \<Rightarrow> string option \<Rightarrow> string list \<Rightarrow> string list \<Rightarrow>
     string option \<Rightarrow> (dict, db) comp" where
  "request_approval_effects env payload approval_id task_run_id requested_by_task_run_id candidate_roles
       allowed_responses event_idempotency =
     (let workflow_run_id = py_str (jget payload ''workflow_run_id'') in
      seq (\<lambda>d. (workflow_scope d workflow_run_id, d)) (\<lambda>scope.
      seq (belongs_if_given task_run_id workflow_run_id) (\<lambda>_.
      seq (belongs_if_given requested_by_task_run_id workflow_run_id) (\<lambda>_.
      seq (create_approval approval_id workflow_run_id task_run_id (py_str (jget payload ''approval_kind''))
            (py_str (jget payload ''scope_kind'')) (py_str (jget payload ''scope_ref'')) ''PENDING''
            requested_by_task_run_id candidate_roles (opt_field payload ''required_role'') (ce_now env) 0
            (ce_now env)) (\<lambda>_.
      seq (of_result (event_envelope (ce_event_now env) (ce_event_uuid env) ''approval.requested''
            (ws_tenant scope) (ws_domain scope)
            (py_str (jget_default payload ''actor_type'' (JStr ''system'')))
            (py_str (jget_default payload ''actor_id'' (JStr ''system:runtime'')))
            ([link ''approval'' approval_id, link ''workflow_run'' workflow_run_id] @
             (case task_run_id of None \<Rightarrow> [] | Some t \<Rightarrow> [link ''task_run'' t]))
            [(''approval_id'', JStr approval_id), (''approval_kind'', JStr (py_str (jget payload ''approval_kind''))),
             (''action'', JStr (request_action payload)), (''allowed_responses'', str_list allowed_responses),
             (''requested_from_role'', JStr (case opt_field payload ''required_role'' of
                 None \<Rightarrow> hd candidate_roles | Some r \<Rightarrow> r))]
            event_idempotency)) (\<lambda>envelope.
      seq (append_event envelope) (\<lambda>_.
      seq (asks (\<lambda>d. get_approval d approval_id)) (\<lambda>approval.
      case approval of
        None \<Rightarrow> raise (CommandError ''approval_not_found'')
      | Some r \<Rightarrow> ret (approval_dict r)))))))))"

text \<open>\<open>payload.get(k)\<close> as a nonempty list, its items as texts.\<close>

definition nonempty_list :: "json \<Rightarrow> string \<Rightarrow> string list result" where
  "nonempty_list v code = (case v of
     JArr items \<Rightarrow> if items = [] then Inl (CommandError code) else Inr (map py_str items)
   | _ \<Rightarrow> Inl (CommandError code))"

definition request_approval_error :: "exc \<Rightarrow> exc" where
  "request_approval_error e = (case e of
     IntegrityError message \<Rightarrow> if contains ''approvals.approval_id'' message
       then CommandError ''duplicate_approval_id'' else e
   | _ \<Rightarrow> e)"

definition request_approval_command :: "command_env \<Rightarrow> dict \<Rightarrow> bool \<Rightarrow> (dict, db) comp" where
  "request_approval_command env payload include_receipt =
     seq (of_result (require_fields payload
       [''workflow_run_id'', ''approval_kind'', ''scope_kind'', ''scope_ref'', ''candidate_roles'', ''idempotency_key'']))
     (\<lambda>_.
     seq (of_result (nonempty_list (jget payload ''candidate_roles'') ''invalid_candidate_roles'')) (\<lambda>candidate_roles.
     seq (of_result (nonempty_list (py_or (jget payload ''allowed_responses'')
           (str_list (map fst approval_response_to_outcome))) ''invalid_allowed_responses'')) (\<lambda>allowed_responses.
     seq (of_result (require (set allowed_responses \<subseteq> fst ` set approval_response_to_outcome)
           (CommandError ''invalid_allowed_responses''))) (\<lambda>_.
     let requested_approval_id = jget payload ''approval_id'';
         approval_id = py_str (py_or requested_approval_id (JStr (''ap-'' @ ce_row_uuid env)));
         task_run_id = opt_field payload ''task_run_id'';
         requested_by_task_run_id = (case opt_field payload ''requested_by_task_run_id'' of
           None \<Rightarrow> task_run_id | Some t \<Rightarrow> Some t) in
     seq (of_result (prepare_command_receipt ''approvals.request'' payload
       [(''approval_id'', of_opt (opt_str requested_approval_id)),
        (''workflow_run_id'', JStr (py_str (jget payload ''workflow_run_id''))),
        (''task_run_id'', of_opt task_run_id),
        (''approval_kind'', JStr (py_str (jget payload ''approval_kind''))),
        (''scope_kind'', JStr (py_str (jget payload ''scope_kind''))),
        (''scope_ref'', JStr (py_str (jget payload ''scope_ref''))),
        (''requested_by_task_run_id'', of_opt requested_by_task_run_id),
        (''candidate_roles'', str_list candidate_roles),
        (''required_role'', of_opt (opt_field payload ''required_role'')),
        (''allowed_responses'', str_list allowed_responses),
        (''action'', JStr (request_action payload)),
        (''actor_id'', JStr (py_str (jget_default payload ''actor_id'' (JStr ''system:runtime'')))),
        (''actor_type'', JStr (py_str (jget_default payload ''actor_type'' (JStr ''system''))))]
       None None (Some (py_str (jget payload ''workflow_run_id''))) True)) (\<lambda>receipt.
     seq (handle (execute_with_command_receipt receipt
           (request_approval_effects env payload approval_id task_run_id requested_by_task_run_id
             candidate_roles allowed_responses
             (receipt_event_idempotency_key receipt ''approvals.request.approval.requested'')))
         (\<lambda>e. raise (request_approval_error e))) (\<lambda>outcome.
     ret (command_receipt_payload (fst outcome) receipt (snd outcome) include_receipt)))))))"

section \<open>Responding\<close>

record approval_hook_context =
  hc_approval :: approval_row
  hc_requested_action :: string
  hc_response_kind :: string
  hc_actor_id :: string
  hc_actor_type :: string
  hc_event_base :: "string option"

type_synonym approval_hook = "approval_hook_context \<Rightarrow> (unit, db) comp"

definition run_registered_approval_response_hooks ::
    "approval_hook list option \<Rightarrow> approval_hook_context \<Rightarrow> (unit, db) comp" where
  "run_registered_approval_response_hooks hooks context =
     for_each (\<lambda>hook. hook context) (case hooks of None \<Rightarrow> [] | Some hs \<Rightarrow> hs)"

text \<open>The newest request on the log that names the approval decides the action.\<close>

fun action_of_requests :: "string \<Rightarrow> json list \<Rightarrow> string option result" where
  "action_of_requests approval_id [] = Inr None"
| "action_of_requests approval_id (JObj payload # rest) =
     (if py_str (py_or (jget payload ''approval_id'') (JStr '''')) \<noteq> approval_id
      then action_of_requests approval_id rest
      else let action = py_strip (py_str (py_or (jget payload ''action'') (JStr ''''))) in
        Inr (if action = [] then None else Some action))"
| "action_of_requests approval_id (_ # rest) = Inl (OtherException ''AttributeError'')"

definition approval_requested_action :: "db \<Rightarrow> string \<Rightarrow> string option result" where
  "approval_requested_action d approval_id =
     action_of_requests approval_id (map ev_payload (rev (sort_key ev_seq
       (filter (\<lambda>r. ev_type r = ''approval.requested'') (events d)))))"

definition respond_approval_effects ::
    "command_env \<Rightarrow> approval_hook list option \<Rightarrow> dict \<Rightarrow> approval_row \<Rightarrow> string \<Rightarrow> string \<Rightarrow>
     receipt_context option \<Rightarrow> (dict, db) comp" where
  "respond_approval_effects env hooks payload r response_kind outcome receipt =
     (let approval_id = py_str (jget payload ''approval_id'');
          actor_id = py_str (jget payload ''actor_id'');
          actor_type = py_str (jget payload ''actor_type'');
          response_reason = opt_field payload ''response_reason'' in
      seq (\<lambda>d. (workflow_scope d (ap_run r), d)) (\<lambda>scope.
      seq (\<lambda>d. (approval_requested_action d (ap_id r), d)) (\<lambda>action.
      let requested_action = (case action of
          None \<Rightarrow> ap_scope_kind r @ '':'' @ ap_scope_ref r | Some a \<Rightarrow> a) in
      seq (of_result (event_envelope (ce_event_now env) (ce_event_uuid env) ''approval.responded''
            (ws_tenant scope) (ws_domain scope) actor_type actor_id
            ([link ''approval'' (ap_id r), link ''workflow_run'' (ap_run r)] @
             (case ap_task_run r of None \<Rightarrow> [] | Some t \<Rightarrow> [link ''task_run'' t]))
            [(''approval_id'', JStr (ap_id r)), (''action'', JStr requested_action),
             (''response'', JStr response_kind), (''outcome'', JStr outcome),
             (''rationale'', of_opt response_reason)]
            (receipt_event_idempotency_key receipt ''approvals.respond.approval.responded''))) (\<lambda>envelope.
      seq (append_event envelope) (\<lambda>_.
      seq (run_registered_approval_response_hooks hooks
            \<lparr>hc_approval = r, hc_requested_action = requested_action, hc_response_kind = response_kind,
             hc_actor_id = actor_id, hc_actor_type = actor_type,
             hc_event_base = map_option rx_event_base receipt\<rparr>) (\<lambda>_.
      seq (asks (\<lambda>d. get_approval d approval_id)) (\<lambda>approval.
      case approval of
        None \<Rightarrow> raise (CommandError ''approval_not_found'')
      | Some r' \<Rightarrow> ret (approval_dict r'))))))))"

definition respond_approval_operation ::
    "command_env \<Rightarrow> approval_hook list option \<Rightarrow> dict \<Rightarrow> approval_row \<Rightarrow> string \<Rightarrow> string \<Rightarrow>
     receipt_context option \<Rightarrow> (dict, db) comp" where
  "respond_approval_operation env hooks payload before response_kind outcome receipt =
     (if ap_state before \<noteq> ''PENDING'' then raise (CommandError ''approval_not_respondable'')
      else
        seq (respond_approval (py_str (jget payload ''approval_id'')) response_kind
              (opt_field payload ''response_reason'') (py_str (jget payload ''actor_id''))
              (py_str (jget payload ''actor_type'')) (ce_now env) (ce_now env)) (\<lambda>responded.
        case responded of
          None \<Rightarrow> raise (CommandError ''approval_not_respondable'')
        | Some r \<Rightarrow> respond_approval_effects env hooks payload r response_kind outcome receipt))"

definition respond_approval_command ::
    "command_env \<Rightarrow> approval_hook list option \<Rightarrow> dict \<Rightarrow> bool \<Rightarrow> (dict, db) comp" where
  "respond_approval_command env hooks payload include_receipt d =
     seq (of_result (require_fields payload
       [''approval_id'', ''actor_id'', ''actor_type'', ''response_kind'', ''idempotency_key''])) (\<lambda>_.
     let actor_type = py_str (jget payload ''actor_type'') in
     seq (of_result (assert_actor_type actor_type)) (\<lambda>_.
     case get_approval d (py_str (jget payload ''approval_id'')) of
       None \<Rightarrow> raise (CommandError ''approval_not_found'')
     | Some before \<Rightarrow>
         seq (of_result (principal_from_payload payload True)) (\<lambda>actor.
         if decision_has_reason (respond_decision before actor) ''approval_role_mismatch''
         then raise (CommandError ''approval_respond_forbidden'')
         else
           let response_kind = py_str (jget payload ''response_kind'') in
           (case map_of approval_response_to_outcome response_kind of
              None \<Rightarrow> raise (CommandError ''invalid_approval_response'')
            | Some responded_outcome \<Rightarrow>
           seq (of_result (prepare_command_receipt ''approvals.respond'' payload
             [(''approval_id'', JStr (py_str (jget payload ''approval_id''))),
              (''actor_id'', JStr (py_str (jget payload ''actor_id''))),
              (''actor_type'', JStr actor_type),
              (''actor_roles'', str_list (sorted_list_of_set (set (pr_actor_roles actor)))),
              (''response_kind'', JStr response_kind),
              (''response_reason'', of_opt (opt_field payload ''response_reason''))]
             None None (Some (ap_run before)) True)) (\<lambda>receipt.
           seq (execute_with_command_receipt receipt
                 (respond_approval_operation env hooks payload before response_kind responded_outcome receipt))
             (\<lambda>outcome.
           ret (command_receipt_payload (fst outcome) receipt (snd outcome) include_receipt))))))) d"

section \<open>Reading\<close>

definition show_approval_command :: "db \<Rightarrow> string \<Rightarrow> dict result" where
  "show_approval_command d approval_id = (case get_approval d approval_id of
     None \<Rightarrow> Inl (CommandError ''approval_not_found'') | Some r \<Rightarrow> Inr (approval_dict r))"

definition list_approvals_for_workflow_run_command :: "db \<Rightarrow> string \<Rightarrow> dict list result" where
  "list_approvals_for_workflow_run_command d workflow_run_id =
     rbind (workflow_scope d workflow_run_id)
       (\<lambda>_. Inr (map approval_dict (list_approvals_for_workflow_run d workflow_run_id)))"

section \<open>What the commands do\<close>

lemma atomic_request_approval_command: "atomic (request_approval_command env payload include_receipt)"
  unfolding request_approval_command_def Let_def
  by (intro atomic_check atomic_basic atomic_finish [OF _ refl] atomic_reraise atomic_execute
    | split json.split | intro conjI allI impI)+

lemma atomic_respond_approval_command: "atomic (respond_approval_command env hooks payload include_receipt)"
  unfolding respond_approval_command_def Let_def
  by (rule atomic_here)
    (intro atomic_check atomic_basic atomic_finish [OF _ refl] atomic_execute
      | split option.split if_split | intro conjI allI impI)+

definition spares_approvals :: "approval_hook list option \<Rightarrow> bool" where
  "spares_approvals hooks \<longleftrightarrow> (case hooks of None \<Rightarrow> True
     | Some hs \<Rightarrow> \<forall>h\<in>set hs. \<forall>c d. approvals (snd (h c d)) = approvals d)"

lemma hooks_spare:
  assumes "spares_approvals hooks"
  shows "approvals (snd (run_registered_approval_response_hooks hooks c d)) = approvals d"
proof -
  have "keeps (\<lambda>s. approvals s = approvals d) (run_registered_approval_response_hooks hooks c)"
    using assms unfolding run_registered_approval_response_hooks_def spares_approvals_def
    by (intro keeps_for_each) (auto simp: keeps_def split: option.splits)
  then show ?thesis by (auto simp: keeps_def)
qed

abbreviation answer :: "command_env \<Rightarrow> dict \<Rightarrow> approval_row \<Rightarrow> approval_row" where
  "answer env payload \<equiv> responded_row (py_str (jget payload ''response_kind'')) (opt_field payload ''response_reason'')
     (py_str (jget payload ''actor_id'')) (py_str (jget payload ''actor_type'')) (ce_now env) (ce_now env)"

lemma respond_approval_operation_Inr:
  assumes run: "respond_approval_operation env hooks payload before (py_str (jget payload ''response_kind'')) out receipt d =
      (Inr res, d')" and spare: "spares_approvals hooks"
  shows "ap_state before = ''PENDING''"
    "approvals d' = update_where (\<lambda>r. ap_id r = py_str (jget payload ''approval_id'') \<and> ap_state r = ''PENDING'')
       (answer env payload) (approvals d)"
proof -
  show pending: "ap_state before = ''PENDING''"
    using run by (auto simp: respond_approval_operation_def Let_def comp_apply split: if_splits)
  let ?i = "py_str (jget payload ''approval_id'')"
  from run pending obtain r d1 where
    first: "respond_approval ?i (py_str (jget payload ''response_kind'')) (opt_field payload ''response_reason'')
        (py_str (jget payload ''actor_id'')) (py_str (jget payload ''actor_type'')) (ce_now env) (ce_now env) d = (Inr (Some r), d1)"
    and rest: "respond_approval_effects env hooks payload r (py_str (jget payload ''response_kind'')) out receipt d1 = (Inr res, d')"
    unfolding respond_approval_operation_def by (auto simp: seq_eq_Inr comp_apply split: option.splits)
  obtain envelope j d2 c where
    second: "append_event envelope d1 = (Inr j, d2)"
    and third: "run_registered_approval_response_hooks hooks c d2 = (Inr (), d')"
  proof -
    from rest have "\<exists>envelope j d2 c. append_event envelope d1 = (Inr j, d2)
      \<and> (\<exists>u. run_registered_approval_response_hooks hooks c d2 = (Inr u, d'))"
      unfolding respond_approval_effects_def Let_def
      by (auto simp only: seq_eq_Inr seq_of_result_Inr comp_apply prod.inject sum.inject found_or_raise) blast
    then show thesis using that by auto
  qed
  have "approvals d' = approvals d2" using third hooks_spare [OF spare, of c d2] by simp
  also have "\<dots> = approvals d1" using arg_cong [OF append_event_Inr [OF second, THEN conjunct1], of approvals] by simp
  also have "\<dots> = update_where (\<lambda>r. ap_id r = ?i \<and> ap_state r = ''PENDING'') (answer env payload) (approvals d)"
    using first by (auto simp: respond_approval_def update_one_def Let_def)
  finally show "approvals d' = update_where (\<lambda>r. ap_id r = ?i \<and> ap_state r = ''PENDING'') (answer env payload) (approvals d)" .
qed

text \<open>
  C31: An answer to an approval is authorized, given once and touches no other approval: when the command
  changes the table at all, the approval was pending, the actor holds the required role or, where none is
  required, one of the candidate roles, and the response kind is a known one; that approval gets the
  answer and all others stay. The hooks may do anything but write approvals.
\<close>

theorem approval_answer_effect:
  assumes run: "respond_approval_command env hooks payload include_receipt d = (res, d')"
    and changed: "approvals d' \<noteq> approvals d" and spare: "spares_approvals hooks"
  shows "\<exists>before actor. get_approval d (py_str (jget payload ''approval_id'')) = Some before
    \<and> ap_state before = ''PENDING'' \<and> principal_from_payload payload True = Inr actor
    \<and> (if text_or_empty (ap_required_role before) = [] then set (ap_roles before) \<inter> set (pr_actor_roles actor) \<noteq> {}
       else text_or_empty (ap_required_role before) \<in> set (pr_actor_roles actor))
    \<and> py_str (jget payload ''response_kind'') \<in> fst ` set approval_response_to_outcome
    \<and> get_approval d' (ap_id before) = Some (answer env payload before)
    \<and> (\<forall>j\<in>- {ap_id before}. get_approval d' j = get_approval d j)"
proof (cases res)
  case (Inl e)
  with atomicD [OF atomic_respond_approval_command] run changed show ?thesis by blast
next
  case (Inr outcome)
  from run obtain before actor receipt out x where
    before: "get_approval d (py_str (jget payload ''approval_id'')) = Some before"
    and actor: "principal_from_payload payload True = Inr actor"
      "\<not> decision_has_reason (respond_decision before actor) ''approval_role_mismatch''"
    and kind: "map_of approval_response_to_outcome (py_str (jget payload ''response_kind'')) = Some out"
    and exec: "execute_with_command_receipt receipt
      (respond_approval_operation env hooks payload before (py_str (jget payload ''response_kind'')) out receipt) d = (Inr x, d')"
    unfolding respond_approval_command_def Let_def Inr
    by (auto simp: seq_eq_Inr seq_of_result_Inr comp_apply split: option.splits if_splits)
  have id: "ap_id before = py_str (jget payload ''approval_id'')"
    using before by (auto simp: get_approval_def dest: select_one_Some)
  show ?thesis
  proof (cases rule: execute_cases [OF exec])
    case (2 res d1)
    note op = respond_approval_operation_Inr [OF 2(2) spare, folded id]
    have rows: "approvals d' = update_where (\<lambda>r. ap_id r = ap_id before \<and> ap_state r = ''PENDING'')
        (answer env payload) (approvals d)"
      using op(2) arg_cong [OF 2(5), of approvals] by simp
    have "get_approval d' (ap_id before) = Some (answer env payload before)"
      using before op(1) by (simp add: get_approval_def rows id select_key_update responded_row_def)
    moreover have "get_approval d' j = get_approval d j" if "j \<noteq> ap_id before" for j
      using that by (simp add: get_approval_def rows select_other_update responded_row_def)
    ultimately show ?thesis
      using before actor kind op(1) id
      by (auto simp: respond_decision_def Let_def decision_has_reason_def reason_def roles_intersect_iff
        dest!: map_of_SomeD split: if_splits intro: rev_image_eqI)
  qed (use changed in simp)
qed

section \<open>Every known response is accepted\<close>

lemma respond_effects_ok:
  assumes stored: "get_approval d (py_str (jget payload ''approval_id'')) = Some r"
    and id: "ap_id r = py_str (jget payload ''approval_id'')"
    and run: "ap_run r \<in> wr_id ` set (runs d)" and actor: "assert_actor_type (py_str (jget payload ''actor_type'')) = Inr ()"
    and action: "approval_requested_action d (ap_id r) = Inr action"
    and new_id: "event_id_for_type ''approval.responded'' (ce_event_uuid env) \<notin> ev_id ` set (events d)"
    and new_key: "receipt_event_idempotency_key receipt ''approvals.respond.approval.responded'' \<notin> ev_idem ` set (events d)"
  shows "\<exists>d'. respond_approval_effects env None payload r kind out receipt d = (Inr (approval_dict r), d')
    \<and> d' = d\<lparr>events := events d', next_seq := next_seq d'\<rparr>"
proof -
  obtain w where "select_one (\<lambda>x. wr_id x = ap_run r) (runs d) = Some w"
    using run by (cases "select_one (\<lambda>x. wr_id x = ap_run r) (runs d)") (auto simp: select_one_None)
  then obtain scope where scope: "workflow_scope d (ap_run r) = Inr scope"
    by (simp add: workflow_scope_def get_workflow_run_def)
  let ?key = "receipt_event_idempotency_key receipt ''approvals.respond.approval.responded''"
  let ?action = "case action of None \<Rightarrow> ap_scope_kind r @ '':'' @ ap_scope_ref r | Some a \<Rightarrow> a"
  let ?payload = "[(''approval_id'', JStr (ap_id r)), (''action'', JStr ?action),
             (''response'', JStr kind), (''outcome'', JStr out),
             (''rationale'', of_opt (opt_field payload ''response_reason''))]"
  let ?links = "[link ''approval'' (ap_id r), link ''workflow_run'' (ap_run r)] @
             (case ap_task_run r of None \<Rightarrow> [] | Some t \<Rightarrow> [link ''task_run'' t])"
  obtain envelope where envelope: "event_envelope (ce_event_now env) (ce_event_uuid env) ''approval.responded''
      (ws_tenant scope) (ws_domain scope) (py_str (jget payload ''actor_type'')) (py_str (jget payload ''actor_id''))
      ?links ?payload ?key = Inr envelope"
    using actor by (simp add: event_envelope_def)
  have links: "require_required_links_for_event envelope = Inr ()"
  proof -
    have "jget envelope ''event_type'' = JStr ''approval.responded''" "jget envelope ''links'' = JArr ?links"
      using envelope by (auto simp: event_envelope_def rbind_eq_Inr jget_def)
    moreover have "required_link_types_by_event ''approval.responded'' = Some [''approval'']"
      "py_strip ''approval'' = ''approval''" "py_strip ''workflow_run'' = ''workflow_run''"
      "py_strip ''task_run'' = ''task_run''" by code_simp+
    ultimately show ?thesis
      by (simp add: require_required_links_for_event_def link_def jget_def split: option.split)
  qed
  obtain e where "append_event envelope d = (Inr (event_id_for_type ''approval.responded'' (ce_event_uuid env)),
      d\<lparr>events := events d @ [e], next_seq := Suc (next_seq d)\<rparr>)"
    using append_envelope_ok [OF envelope links, of d] new_id new_key by auto
  moreover have "get_approval (d\<lparr>events := es, next_seq := n\<rparr>) (py_str (jget payload ''approval_id'')) = Some r" for es n
    using stored by (simp add: get_approval_def)
  ultimately show ?thesis
    using scope envelope action
    by (simp add: respond_approval_effects_def Let_def seq_def comp_apply run_registered_approval_response_hooks_def)
qed

lemma any_response_accepted:
  assumes unique: "distinct (map ap_id (approvals d))"
    and before: "get_approval d (py_str (jget payload ''approval_id'')) = Some before" "ap_state before = ''PENDING''"
    and request: "require_fields payload [''approval_id'', ''actor_id'', ''actor_type'', ''response_kind'', ''idempotency_key''] = Inr ()"
      "assert_actor_type (py_str (jget payload ''actor_type'')) = Inr ()"
      "principal_from_payload payload True = Inr actor" "cd_allowed (respond_decision before actor)"
      "normalize_command_idempotency_key (jget payload ''idempotency_key'') True = Inr (Some k)"
      "public_command_scope_key ''approvals.respond'' payload = Inr s"
    and kind: "py_str (jget payload ''response_kind'') \<in> fst ` set approval_response_to_outcome"
    and run: "ap_run before \<in> wr_id ` set (runs d)"
    and action: "approval_requested_action d (ap_id before) = Inr action"
    and fresh: "get_command_receipt d ''approvals.respond'' s k = None"
      "event_id_for_type ''approval.responded'' (ce_event_uuid env) \<notin> ev_id ` set (events d)"
      "Some (scoped_event_idempotency_base ''approvals.respond'' s k @ '':approvals.respond.approval.responded'')
         \<notin> ev_idem ` set (events d)"
  shows "\<exists>out d'. respond_approval_command env None payload include_receipt d = (Inr out, d')
    \<and> get_approval d' (py_str (jget payload ''approval_id'')) = Some (answer env payload before)"
proof -
  let ?i = "py_str (jget payload ''approval_id'')"
  have id: "ap_id before = ?i" using before(1) by (auto simp: get_approval_def dest: select_one_Some)
  obtain out where out: "map_of approval_response_to_outcome (py_str (jget payload ''response_kind'')) = Some out"
    using kind by (metis map_of_eq_None_iff option.exhaust)
  have pass: "\<not> decision_has_reason (respond_decision before actor) ''approval_role_mismatch''"
    using request(4) by (auto simp: respond_decision_def Let_def decision_has_reason_def allow_def deny_def split: if_splits)
  define input where "input = [(''approval_id'', JStr ?i), (''actor_id'', JStr (py_str (jget payload ''actor_id''))),
      (''actor_type'', JStr (py_str (jget payload ''actor_type''))),
      (''actor_roles'', str_list (sorted_list_of_set (set (pr_actor_roles actor)))),
      (''response_kind'', JStr (py_str (jget payload ''response_kind''))),
      (''response_reason'', of_opt (opt_field payload ''response_reason''))]"
  define rx where "rx = \<lparr>rx_command = ''approvals.respond'', rx_scope = s, rx_idem = k,
      rx_fingerprint = command_request_fingerprint input, rx_profile = receipt_hash_profile,
      rx_event_base = scoped_event_idempotency_base ''approvals.respond'' s k,
      rx_tenant = None, rx_domain = None, rx_run = Some (ap_run before)\<rparr>"
  have prepared: "prepare_command_receipt ''approvals.respond'' payload input None None (Some (ap_run before)) True = Inr (Some rx)"
    unfolding rx_def by (rule prepare_command_receipt_ok [OF request(5,6)])
  let ?op = "respond_approval_operation env None payload before (py_str (jget payload ''response_kind'')) out (Some rx)"
  define d1 where "d1 = d\<lparr>approvals := update_where (\<lambda>r. ap_id r = ?i \<and> ap_state r = ''PENDING'')
      (answer env payload) (approvals d)\<rparr>"
  have responded: "respond_approval ?i (py_str (jget payload ''response_kind'')) (opt_field payload ''response_reason'')
      (py_str (jget payload ''actor_id'')) (py_str (jget payload ''actor_type'')) (ce_now env) (ce_now env) d =
      (Inr (Some (answer env payload before)), d1)"
    unfolding respond_approval_def d1_def get_approval_def
    using approval_table.hit [where q = "\<lambda>r. ap_state r = ''PENDING''" and f = "answer env payload",
      OF unique _ before(1) [unfolded get_approval_def] before(2)] by (simp add: responded_row_def)
  have stored: "get_approval d1 ?i = Some (answer env payload before)"
    using before by (simp add: d1_def get_approval_def select_key_update responded_row_def)
  have "\<exists>d2. respond_approval_effects env None payload (answer env payload before)
        (py_str (jget payload ''response_kind'')) out (Some rx) d1 =
      (Inr (approval_dict (answer env payload before)), d2) \<and> d2 = d1\<lparr>events := events d2, next_seq := next_seq d2\<rparr>"
    by (rule respond_effects_ok [OF stored, where action = action])
      (use id run request(2) action fresh in \<open>simp_all add: responded_row_def d1_def approval_requested_action_def
        receipt_event_idempotency_key_def rx_def\<close>)
  then obtain d2 where op: "?op d = (Inr (approval_dict (answer env payload before)), d2)"
    and d2: "d2 = d1\<lparr>events := events d2, next_seq := next_seq d2\<rparr>"
    using responded before(2) by (auto simp: respond_approval_operation_def seq_def)
  have frame: "receipts d2 = receipts d" "runs d2 = runs d" "approvals d2 = approvals d1"
    using arg_cong [OF d2, of receipts] arg_cong [OF d2, of runs] arg_cong [OF d2, of approvals] by (simp_all add: d1_def)
  have "find_receipt (Some rx) d = None" "fk_ok (rx_run rx) (map wr_id (runs d2))"
    using fresh(1) run by (simp_all add: find_receipt_def fk_ok_def frame rx_def)
  from execute_new [where operation = ?op and d = d, OF op this(1) frame(1) this(2)] obtain d' where
    exec: "execute_with_command_receipt (Some rx) ?op d = (Inr (approval_dict (answer env payload before), False), d')"
    and d': "d' = d2\<lparr>receipts := receipts d', next_receipt := next_receipt d'\<rparr>" by blast
  have "get_approval d' ?i = get_approval d1 ?i"
    using arg_cong [OF d', of approvals] by (simp add: get_approval_def frame)
  with stored exec show ?thesis
    using before(1) request(1,2,3) pass out prepared
    unfolding respond_approval_command_def Let_def input_def
    by (simp add: seq_of_result_Inr seq_eq_Inr comp_apply seq_unit)
qed

definition approval_sample_db :: db where
  "approval_sample_db = sample_db\<lparr>approvals := [\<lparr>ap_id = ''a'', ap_run = ''r'', ap_task_run = None,
     ap_kind = ''business_decision'', ap_scope_kind = ''workflow_run'', ap_scope_ref = ''r'', ap_state = ''PENDING'',
     ap_requested_by = None, ap_roles = [''planner''], ap_required_role = None, ap_requested_at = ''t0'',
     ap_responded_at = None, ap_response_kind = None, ap_response_reason = None, ap_actor_id = None,
     ap_actor_type = None, ap_generation = 0, ap_created_at = ''t0'', ap_updated_at = ''t0''\<rparr>]\<rparr>"

definition answer_request :: dict where
  "answer_request = [(''approval_id'', JStr ''a''), (''actor_id'', JStr ''ann''), (''actor_type'', JStr ''human''),
     (''actor_roles'', JArr [JStr ''planner'']), (''response_kind'', JStr ''cancel''), (''idempotency_key'', JStr ''k1'')]"

definition answer_env :: command_env where
  "answer_env = \<lparr>ce_now = ''t1'', ce_event_now = ''t1'', ce_row_uuid = ''u1'', ce_event_uuid = ''u2''\<rparr>"

lemma answer_request_simps:
  "distinct (map ap_id (approvals approval_sample_db))"
  "require_fields answer_request [''approval_id'', ''actor_id'', ''actor_type'', ''response_kind'', ''idempotency_key''] = Inr ()"
  "assert_actor_type (py_str (jget answer_request ''actor_type'')) = Inr ()"
  "normalize_command_idempotency_key (jget answer_request ''idempotency_key'') True = Inr (Some ''k1'')"
  "py_str (jget answer_request ''response_kind'') \<in> fst ` set approval_response_to_outcome"
  "approval_requested_action approval_sample_db ''a'' = Inr None"
  "''r'' \<in> wr_id ` set (runs approval_sample_db)" "events approval_sample_db = []" "receipts approval_sample_db = []"
  "py_str (jget answer_request ''approval_id'') = ''a''"
  by code_simp+

lemma answer_request_facts:
  obtains before actor s where "get_approval approval_sample_db ''a'' = Some before" "ap_state before = ''PENDING''"
    "ap_run before = ''r''" "ap_id before = ''a''" "principal_from_payload answer_request True = Inr actor"
    "cd_allowed (respond_decision before actor)" "public_command_scope_key ''approvals.respond'' answer_request = Inr s"
proof -
  obtain before actor where "get_approval approval_sample_db ''a'' = Some before" "ap_state before = ''PENDING''"
    "ap_run before = ''r''" "ap_id before = ''a''" "principal_from_payload answer_request True = Inr actor"
    "cd_allowed (respond_decision before actor)"
    by (rule that) code_simp+
  moreover obtain s where "public_command_scope_key ''approvals.respond'' answer_request = Inr s"
    by (rule that) (simp add: public_command_scope_key_def scope_fields_def Let_def)
  ultimately show thesis by (rule that)
qed

theorem approval_answer_effect_witness:
  "\<exists>d' before. get_approval approval_sample_db ''a'' = Some before
     \<and> get_approval d' ''a'' = Some (answer answer_env answer_request before)
     \<and> d' = snd (respond_approval_command answer_env None answer_request False approval_sample_db)"
proof -
  obtain before actor s where facts: "get_approval approval_sample_db ''a'' = Some before" "ap_state before = ''PENDING''"
    "ap_run before = ''r''" "ap_id before = ''a''" "principal_from_payload answer_request True = Inr actor"
    "cd_allowed (respond_decision before actor)" "public_command_scope_key ''approvals.respond'' answer_request = Inr s"
    by (rule answer_request_facts)
  obtain out d' where run: "respond_approval_command answer_env None answer_request False approval_sample_db = (Inr out, d')"
    and got: "get_approval d' ''a'' = Some (answer answer_env answer_request before)"
    using any_response_accepted [where d = approval_sample_db and payload = answer_request and before = before
      and actor = actor and k = "''k1''" and s = s and action = None and env = answer_env and include_receipt = False]
      facts answer_request_simps by (auto simp: get_command_receipt_def)
  have "answer answer_env answer_request before \<noteq> before"
    using facts(2) by (auto simp: responded_row_def dest: arg_cong [of _ _ ap_state])
  with got facts(1) have "approvals d' \<noteq> approvals approval_sample_db" by (auto simp: get_approval_def)
  from approval_answer_effect [OF run this] facts run show ?thesis
    by (auto simp: spares_approvals_def answer_request_simps)
qed

text \<open>
  Every known response is accepted: for a pending approval, an actor with the required role or one of
  the candidate roles, and a key and event id not used before, the command returns and stores the answer,
  whichever of the five response kinds it is. The responses the request allowed are not consulted.
\<close>

lemma pending_approval_accepts_any_response:
  assumes unique: "distinct (map ap_id (approvals d))"
    and before: "get_approval d (py_str (jget payload ''approval_id'')) = Some before" "ap_state before = ''PENDING''"
    and request: "require_fields payload [''approval_id'', ''actor_id'', ''actor_type'', ''response_kind'', ''idempotency_key''] = Inr ()"
      "assert_actor_type (py_str (jget payload ''actor_type'')) = Inr ()"
      "principal_from_payload payload True = Inr actor" "cd_allowed (respond_decision before actor)"
      "normalize_command_idempotency_key (jget payload ''idempotency_key'') True = Inr (Some k)"
      "public_command_scope_key ''approvals.respond'' payload = Inr s"
    and kind: "py_str (jget payload ''response_kind'') \<in> fst ` set approval_response_to_outcome"
    and run: "ap_run before \<in> wr_id ` set (runs d)"
    and action: "approval_requested_action d (ap_id before) = Inr action"
    and fresh: "get_command_receipt d ''approvals.respond'' s k = None"
      "event_id_for_type ''approval.responded'' (ce_event_uuid env) \<notin> ev_id ` set (events d)"
      "Some (scoped_event_idempotency_base ''approvals.respond'' s k @ '':approvals.respond.approval.responded'')
         \<notin> ev_idem ` set (events d)"
  shows "\<exists>out d'. respond_approval_command env None payload include_receipt d = (Inr out, d')
    \<and> get_approval d' (py_str (jget payload ''approval_id'')) = Some (answer env payload before)"
  by (rule any_response_accepted [OF assms])

end
