(* ===== verification/Artifact_Versions.thy ===== *)
theory Artifact_Versions
  imports Runs Sha256
begin

text \<open>
  Artifact versions and their links to subjects: \<open>artifact_versions.py\<close> and \<open>artifact_links.py\<close> of
  \<open>src/onetruth/infrastructure/repositories/\<close>. A version is written once and never updated; it belongs
  to the project of its run, and it may name the version it supersedes. The chain of versions that
  supersede each other is followed by a loop, which ends because it never visits a version twice.
\<close>

section \<open>Versions\<close>

definition insert_artifact_version :: "artifact_row \<Rightarrow> (unit, db) comp" where
  "insert_artifact_version r d =
     (if exists_row (\<lambda>x. av_id x = av_id r) (artifact_versions d)
      then raise (IntegrityError ''UNIQUE constraint failed: artifact_versions.artifact_version_id'') d
      else if av_run r \<notin> wr_id ` set (runs d) \<or> \<not> fk_ok (av_project r) (map pj_id (projects d))
          \<or> \<not> fk_ok (av_task_run r) (map tr_id (task_runs d))
          \<or> \<not> fk_ok (av_parent r) (av_id r # artifact_ids d)
          \<or> \<not> fk_ok (av_supersedes r) (av_id r # artifact_ids d)
      then raise fk_failed d
      else (Inr (), d\<lparr>artifact_versions := artifact_versions d @ [r]\<rparr>))"

definition artifact_identity_profile :: string where
  "artifact_identity_profile = ''onetruth.artifact_version_identity.canonical_json.sha256.v1''"

definition of_opt_int :: "int option \<Rightarrow> json" where
  "of_opt_int x = (case x of None \<Rightarrow> JNull | Some n \<Rightarrow> JInt n)"

definition artifact_version_identity_payload :: "artifact_row \<Rightarrow> string option \<Rightarrow> dict" where
  "artifact_version_identity_payload a project_id =
     [(''tenant_id'', of_opt (av_tenant a)), (''domain_id'', of_opt (av_domain a)),
      (''project_id'', of_opt project_id), (''workflow_run_id'', JStr (av_run a)),
      (''dataset_key'', of_opt (av_dataset a)), (''partition_kind'', of_opt (av_partition_kind a)),
      (''partition_key'', of_opt (av_partition a)), (''artifact_kind'', JStr (av_kind a)),
      (''media_type'', JStr (av_media_type a)), (''content_digest'', JStr (av_digest a)),
      (''byte_size'', of_opt_int (av_byte_size a))]"

definition build_artifact_version_identity_digest :: "artifact_row \<Rightarrow> string option \<Rightarrow> string" where
  "build_artifact_version_identity_digest a project_id =
     sha256_text (canonical_json (JObj (artifact_version_identity_payload a project_id)))"

definition resolve_project_id_for_workflow ::
    "db \<Rightarrow> string \<Rightarrow> string option \<Rightarrow> string option \<Rightarrow> string option \<Rightarrow> string option result" where
  "resolve_project_id_for_workflow d workflow_run_id tenant_id domain_id project_id =
     (case select_one (\<lambda>r. wr_id r = workflow_run_id) (runs d) of
        None \<Rightarrow> Inr project_id
      | Some r \<Rightarrow>
          if tenant_id \<noteq> None \<and> tenant_id \<noteq> Some (wr_tenant r) then Inl ValueError
          else if domain_id \<noteq> None \<and> domain_id \<noteq> Some (wr_domain r) then Inl ValueError
          else if project_id \<noteq> None \<and> wr_project r \<noteq> project_id then Inl ValueError
          else Inr (if project_id \<noteq> None then project_id else wr_project r))"

text \<open>
  The keyword arguments of \<open>create_artifact_version\<close> are the columns of \<open>a\<close>, except the two of the
  identity, which it fills in.
\<close>

definition create_artifact_version :: "artifact_row \<Rightarrow> (unit, db) comp" where
  "create_artifact_version a d =
     seq (of_result (resolve_project_id_for_workflow d (av_run a) (av_tenant a) (av_domain a) (av_project a)))
     (\<lambda>project_id.
     with_integers (case av_byte_size a of None \<Rightarrow> [] | Some n \<Rightarrow> [n])
       (insert_artifact_version (a\<lparr>av_project := project_id,
          av_identity_profile := Some artifact_identity_profile,
          av_identity_digest := Some (build_artifact_version_identity_digest a project_id)\<rparr>))) d"

definition get_artifact_version :: "db \<Rightarrow> string \<Rightarrow> artifact_row option" where
  "get_artifact_version d artifact_version_id = select_one (\<lambda>r. av_id r = artifact_version_id) (artifact_versions d)"

text \<open>\<open>ORDER BY created_at DESC, artifact_version_id DESC LIMIT 1\<close>.\<close>

definition get_superseding_artifact_version :: "db \<Rightarrow> string \<Rightarrow> artifact_row option" where
  "get_superseding_artifact_version d artifact_version_id =
     (case rev (sort_key av_created_at (sort_key av_id
        (filter (\<lambda>r. av_supersedes r = Some artifact_version_id) (artifact_versions d)))) of
        [] \<Rightarrow> None | r # _ \<Rightarrow> Some r)"

lemma get_superseding_Some:
  assumes "get_superseding_artifact_version d i = Some r"
  shows "r \<in> set (artifact_versions d)" "av_supersedes r = Some i"
proof -
  let ?rows = "filter (\<lambda>r. av_supersedes r = Some i) (artifact_versions d)"
  obtain rest where "rev (sort_key av_created_at (sort_key av_id ?rows)) = r # rest"
    using assms by (auto simp: get_superseding_artifact_version_def split: list.splits)
  then have "r \<in> set (rev (sort_key av_created_at (sort_key av_id ?rows)))" by simp
  then show "r \<in> set (artifact_versions d)" "av_supersedes r = Some i" by auto
qed

lemma get_superseding_None:
  "get_superseding_artifact_version d i = None \<longleftrightarrow> (\<forall>r\<in>set (artifact_versions d). av_supersedes r \<noteq> Some i)"
proof -
  let ?rows = "filter (\<lambda>r. av_supersedes r = Some i) (artifact_versions d)"
  have "get_superseding_artifact_version d i = None \<longleftrightarrow> rev (sort_key av_created_at (sort_key av_id ?rows)) = []"
    by (simp add: get_superseding_artifact_version_def split: list.split)
  also have "\<dots> \<longleftrightarrow> ?rows = []" by (metis rev_is_Nil_conv set_empty set_sort)
  finally show ?thesis by (simp add: filter_empty_conv)
qed

text \<open>The loop of \<open>get_latest_artifact_version_in_chain\<close>, with the ids it has seen.\<close>

function latest_in_chain :: "db \<Rightarrow> string list \<Rightarrow> artifact_row \<Rightarrow> artifact_row result" where
  "latest_in_chain d seen current =
     (case get_superseding_artifact_version d (av_id current) of
        None \<Rightarrow> Inr current
      | Some superseding \<Rightarrow>
          if av_id superseding \<in> set seen then Inl ValueError
          else latest_in_chain d (av_id superseding # seen) superseding)"
  by pat_completeness auto

termination
proof (relation "measure (\<lambda>(d, seen, current). card (set (artifact_ids d) - set seen))", goal_cases)
  case (2 d seen current superseding)
  then have "av_id superseding \<in> set (artifact_ids d) - set seen"
    using get_superseding_Some by fastforce
  then have "set (artifact_ids d) - set (av_id superseding # seen) \<subset> set (artifact_ids d) - set seen" by auto
  then show ?case by (simp add: psubset_card_mono)
qed simp

declare latest_in_chain.simps [simp del]

definition get_latest_artifact_version_in_chain :: "db \<Rightarrow> string \<Rightarrow> artifact_row option result" where
  "get_latest_artifact_version_in_chain d artifact_version_id =
     (case get_artifact_version d artifact_version_id of
        None \<Rightarrow> Inr None
      | Some current \<Rightarrow> rbind (latest_in_chain d [artifact_version_id] current) (\<lambda>r. Inr (Some r)))"

definition list_artifact_versions_for_workflow_run :: "db \<Rightarrow> string \<Rightarrow> artifact_row list" where
  "list_artifact_versions_for_workflow_run d workflow_run_id =
     sort_key av_created_at (sort_key av_id (filter (\<lambda>r. av_run r = workflow_run_id) (artifact_versions d)))"

text \<open>Joined with the run; a run without a logical date comes first.\<close>

definition list_artifact_versions_for_scope_and_kind ::
    "db \<Rightarrow> string \<Rightarrow> string \<Rightarrow> string \<Rightarrow> string option \<Rightarrow> (artifact_row \<times> run_row) list" where
  "list_artifact_versions_for_scope_and_kind d tenant_id domain_id artifact_kind workflow_id =
     sort_key (\<lambda>p. wr_logical_date (snd p) \<noteq> None)
       (sort_key (\<lambda>p. case wr_logical_date (snd p) of None \<Rightarrow> [] | Some s \<Rightarrow> s)
       (sort_key (\<lambda>p. av_created_at (fst p)) (sort_key (\<lambda>p. av_id (fst p))
         (filter (\<lambda>(a, w). av_tenant a = Some tenant_id \<and> av_domain a = Some domain_id \<and> av_kind a = artifact_kind
             \<and> (workflow_id = None \<or> workflow_id = Some (wr_workflow w)))
           [(a, w). a \<leftarrow> artifact_versions d, w \<leftarrow> runs d, wr_id w = av_run a]))))"

definition require_artifact_project_identity ::
    "db \<Rightarrow> string \<Rightarrow> string \<Rightarrow> string \<Rightarrow> string \<Rightarrow> artifact_row result" where
  "require_artifact_project_identity d artifact_version_id tenant_id domain_id project_id =
     (case get_artifact_version d artifact_version_id of
        None \<Rightarrow> Inl (OtherException ''ArtifactProjectIdentityError'')
      | Some a \<Rightarrow>
          if av_tenant a \<noteq> Some tenant_id \<or> av_domain a \<noteq> Some domain_id \<or> av_project a \<noteq> Some project_id
          then Inl (OtherException ''ArtifactProjectIdentityError'') else Inr a)"

section \<open>Links\<close>

definition insert_artifact_link :: "artifact_link_row \<Rightarrow> (unit, db) comp" where
  "insert_artifact_link r d =
     (if exists_row (\<lambda>x. al_artifact x = al_artifact r \<and> al_subject_kind x = al_subject_kind r
          \<and> al_subject x = al_subject r) (artifact_links d)
      then raise (IntegrityError (''UNIQUE constraint failed: artifact_links.artifact_version_id, '' @
        ''artifact_links.subject_kind, artifact_links.subject_id'')) d
      else if al_artifact r \<notin> set (artifact_ids d) \<or> al_run r \<notin> wr_id ` set (runs d)
      then raise fk_failed d
      else (Inr (), d\<lparr>artifact_links := artifact_links d @ [r]\<rparr>))"

definition create_artifact_link ::
    "string \<Rightarrow> string \<Rightarrow> string \<Rightarrow> string \<Rightarrow> string \<Rightarrow> string \<Rightarrow> string \<Rightarrow> string \<Rightarrow> (unit, db) comp" where
  "create_artifact_link artifact_version_id workflow_run_id subject_kind subject_id relation_kind created_at
       created_by_actor_id created_by_actor_type =
     insert_artifact_link \<lparr>al_artifact = artifact_version_id, al_run = workflow_run_id,
       al_subject_kind = subject_kind, al_subject = subject_id, al_relation = relation_kind,
       al_created_at = created_at, al_actor_id = created_by_actor_id, al_actor_type = created_by_actor_type\<rparr>"

definition list_artifact_links_for_subject :: "db \<Rightarrow> string \<Rightarrow> string \<Rightarrow> string \<Rightarrow> artifact_link_row list" where
  "list_artifact_links_for_subject d workflow_run_id subject_kind subject_id =
     sort_key al_created_at (sort_key al_artifact (filter (\<lambda>r. al_run r = workflow_run_id
       \<and> al_subject_kind r = subject_kind \<and> al_subject r = subject_id) (artifact_links d)))"

definition list_artifact_links_for_artifact :: "db \<Rightarrow> string \<Rightarrow> artifact_link_row list" where
  "list_artifact_links_for_artifact d artifact_version_id =
     sort_key al_created_at (sort_key al_subject_kind (sort_key al_subject
       (filter (\<lambda>r. al_artifact r = artifact_version_id) (artifact_links d))))"

definition list_artifacts_for_subject :: "db \<Rightarrow> string \<Rightarrow> string \<Rightarrow> string \<Rightarrow> artifact_row list" where
  "list_artifacts_for_subject d workflow_run_id subject_kind subject_id =
     sort_key av_created_at (sort_key av_id
       [a. a \<leftarrow> artifact_versions d, l \<leftarrow> artifact_links d, al_artifact l = av_id a, al_run l = workflow_run_id,
         al_subject_kind l = subject_kind, al_subject l = subject_id])"

section \<open>Well-formed versions\<close>

interpretation artifact_table: unique_table artifact_versions "\<lambda>r. Some (av_id r)" insert_artifact_version
  by unfold_locales (auto simp: insert_artifact_version_def comp_simps split: if_splits)

interpretation link_table: unique_table artifact_links
  "\<lambda>r. Some (al_artifact r, al_subject_kind r, al_subject r)" insert_artifact_link
  by unfold_locales (auto simp: insert_artifact_link_def comp_simps split: if_splits)

text \<open>
  A version supersedes itself or an earlier one; scope and project agree with its run. \<open>ds\<close> are the
  versions, newest first.
\<close>

fun supersedes_earlier :: "artifact_row list \<Rightarrow> bool" where
  "supersedes_earlier [] = True"
| "supersedes_earlier (r # rs) =
     (fk_ok (av_supersedes r) (av_id r # map av_id rs) \<and> supersedes_earlier rs)"

definition artifact_scoped :: "db \<Rightarrow> artifact_row \<Rightarrow> bool" where
  "artifact_scoped d a \<longleftrightarrow> (\<exists>w\<in>set (runs d). wr_id w = av_run a \<and> av_project a = wr_project w
     \<and> (av_tenant a = None \<or> av_tenant a = Some (wr_tenant w))
     \<and> (av_domain a = None \<or> av_domain a = Some (wr_domain w)))"

definition artifacts_ok :: "db \<Rightarrow> bool" where
  "artifacts_ok d \<longleftrightarrow> distinct (artifact_ids d) \<and> supersedes_earlier (rev (artifact_versions d))
     \<and> (\<forall>a\<in>set (artifact_versions d). artifact_scoped d a
          \<and> av_identity_digest a = Some (build_artifact_version_identity_digest a (av_project a)))"

lemma identity_digest_columns:
  "build_artifact_version_identity_digest (a\<lparr>av_project := p, av_identity_profile := x, av_identity_digest := y\<rparr>) q =
   build_artifact_version_identity_digest a q"
  by (simp add: build_artifact_version_identity_digest_def artifact_version_identity_payload_def)

lemma create_artifact_version_cases:
  obtains e where "create_artifact_version a d = (Inl e, d)"
  | p where "create_artifact_version a d = (Inr (), d\<lparr>artifact_versions := artifact_versions d @
        [a\<lparr>av_project := p, av_identity_profile := Some artifact_identity_profile,
           av_identity_digest := Some (build_artifact_version_identity_digest a p)\<rparr>]\<rparr>)"
      "resolve_project_id_for_workflow d (av_run a) (av_tenant a) (av_domain a) (av_project a) = Inr p"
      "av_id a \<notin> set (artifact_ids d)" "av_run a \<in> wr_id ` set (runs d)"
      "fk_ok (av_supersedes a) (av_id a # artifact_ids d)"
proof (cases "resolve_project_id_for_workflow d (av_run a) (av_tenant a) (av_domain a) (av_project a)")
  case (Inl e)
  with that(1) show thesis by (simp add: create_artifact_version_def comp_simps)
next
  case (Inr p)
  let ?r = "a\<lparr>av_project := p, av_identity_profile := Some artifact_identity_profile,
    av_identity_digest := Some (build_artifact_version_identity_digest a p)\<rparr>"
  let ?ns = "case av_byte_size a of None \<Rightarrow> [] | Some n \<Rightarrow> [n]"
  have run: "create_artifact_version a d = with_integers ?ns (insert_artifact_version ?r) d"
    using Inr by (simp add: create_artifact_version_def comp_simps)
  show thesis
  proof (cases rule: with_integers_cases [of ?ns "insert_artifact_version ?r" d])
    case 1
    show thesis
    proof (cases "insert_artifact_version ?r d")
      case (Pair res d')
      show thesis
      proof (cases res)
        case (Inl e)
        with Pair 1 run artifact_table.insert_failed that(1) show thesis by simp
      next
        case (Inr u)
        with Pair have "insert_artifact_version ?r d = (Inr (), d')" by simp
        then have "d' = d\<lparr>artifact_versions := artifact_versions d @ [?r]\<rparr>" "av_id a \<notin> set (artifact_ids d)"
          "av_run a \<in> wr_id ` set (runs d)" "fk_ok (av_supersedes a) (av_id a # artifact_ids d)"
          by (auto simp: insert_artifact_version_def comp_simps split: if_splits)
        with that(2) [of p] Pair Inr 1 run \<open>resolve_project_id_for_workflow _ _ _ _ _ = Inr p\<close> show thesis by simp
      qed
    qed
  qed (use run that(1) in simp)
qed

lemma artifact_scoped_frame: "runs d' = runs d \<Longrightarrow> artifact_scoped d' a = artifact_scoped d a"
  by (simp add: artifact_scoped_def)

lemma create_artifact_version_ok: "keeps artifacts_ok (create_artifact_version a)"
proof (rule keepsI)
  fix d assume ok: "artifacts_ok d"
  show "artifacts_ok (snd (create_artifact_version a d))"
  proof (cases rule: create_artifact_version_cases [of a d])
    case (2 p)
    let ?r = "a\<lparr>av_project := p, av_identity_profile := Some artifact_identity_profile,
      av_identity_digest := Some (build_artifact_version_identity_digest a p)\<rparr>"
    have "artifact_scoped d ?r"
    proof -
      obtain w where w: "select_one (\<lambda>r. wr_id r = av_run a) (runs d) = Some w"
        using 2(4) by (cases "select_one (\<lambda>r. wr_id r = av_run a) (runs d)") (auto simp: select_one_None)
      with 2(2) select_one_Some [OF w] show ?thesis
        by (auto simp: artifact_scoped_def resolve_project_id_for_workflow_def split: if_splits)
    qed
    moreover have "build_artifact_version_identity_digest ?r p = build_artifact_version_identity_digest a p"
      by (rule identity_digest_columns)
    moreover have "fk_ok (av_supersedes a) (av_id a # map av_id (rev (artifact_versions d)))"
      using 2(5) by (auto simp: fk_ok_def split: option.splits)
    ultimately show ?thesis
      using ok 2(1,3) by (simp add: artifacts_ok_def artifact_scoped_def)
  qed (use ok in simp)
qed


section \<open>The latest version of a chain\<close>

definition create_artifact_versions :: "artifact_row list \<Rightarrow> db \<Rightarrow> db" where
  "create_artifact_versions as d = fold (\<lambda>a d. snd (create_artifact_version a d)) as d"

lemma create_artifact_versions_ok: "artifacts_ok d \<Longrightarrow> artifacts_ok (create_artifact_versions as d)"
  unfolding create_artifact_versions_def
  by (induction as arbitrary: d) (auto intro: keepsD [OF create_artifact_version_ok])

definition supersession :: "db \<Rightarrow> artifact_row \<Rightarrow> artifact_row \<Rightarrow> bool" where
  "supersession d a b \<longleftrightarrow> get_superseding_artifact_version d (av_id a) = Some b"

definition place :: "string list \<Rightarrow> string \<Rightarrow> nat" where
  "place ids i = length (takeWhile (\<lambda>j. j \<noteq> i) ids)"

lemma place_absent: "i \<notin> set ids \<Longrightarrow> place ids i = length ids"
  by (induction ids) (auto simp: place_def)

lemma place_snoc:
  shows "i \<in> set ids \<Longrightarrow> place (ids @ [j]) i = place ids i \<and> place ids i < length ids"
    and "k \<notin> set ids \<Longrightarrow> place (ids @ [k]) k = length ids"
  by (induction ids) (auto simp: place_def)

lemma supersedes_earlier_place:
  assumes "supersedes_earlier (rev rows)" "distinct (map av_id rows)" "s \<in> set rows" "av_supersedes s = Some i"
  shows "i = av_id s \<or> place (map av_id rows) i < place (map av_id rows) (av_id s)"
  using assms
proof (induction rows rule: rev_induct)
  case (snoc r rows)
  show ?case
  proof (cases "s = r")
    case True
    then show ?thesis
      using snoc.prems place_snoc(1) [of i "map av_id rows" "av_id r"] place_snoc(2) [of "av_id r" "map av_id rows" ]
      by (auto simp: fk_ok_def)
  next
    case False
    then have s: "s \<in> set rows" using snoc.prems(3) by simp
    with snoc have ih: "i = av_id s \<or> place (map av_id rows) i < place (map av_id rows) (av_id s)" by simp
    have "av_id s \<in> set (map av_id rows)" using s by simp
    note at = place_snoc(1) [OF this, of "av_id r"]
    from ih show ?thesis
    proof
      assume less: "place (map av_id rows) i < place (map av_id rows) (av_id s)"
      then have "i \<in> set (map av_id rows)" using at place_absent [of i "map av_id rows"] by fastforce
      with place_snoc(1) [OF this, of "av_id r"] at less show ?thesis by simp
    qed simp
  qed
qed simp

lemma supersession_forward:
  assumes "artifacts_ok d" "supersession d a b"
  shows "av_id b = av_id a \<or> place (artifact_ids d) (av_id a) < place (artifact_ids d) (av_id b)"
  using supersedes_earlier_place [of "artifact_versions d" b "av_id a"] assms
    get_superseding_Some [of d "av_id a" b] by (auto simp: artifacts_ok_def supersession_def)

text \<open>The ids seen are those of the rows on the way, none of them later than the current one.\<close>

lemma latest_in_chain_outcome:
  assumes "artifacts_ok d" "current \<in> set (artifact_versions d)"
    "\<forall>i\<in>set seen. i = av_id current \<or> place (artifact_ids d) i < place (artifact_ids d) (av_id current)"
  shows "(\<exists>r. latest_in_chain d seen current = Inr r \<and> (supersession d)\<^sup>*\<^sup>* current r
      \<and> get_superseding_artifact_version d (av_id r) = None)
    \<or> (latest_in_chain d seen current = Inl ValueError \<and> (\<exists>r. (supersession d)\<^sup>*\<^sup>* current r \<and> supersession d r r))"
  using assms
proof (induction d seen current rule: latest_in_chain.induct)
  case (1 d seen current)
  show ?case
  proof (cases "get_superseding_artifact_version d (av_id current)")
    case None
    then show ?thesis by (intro disjI1 exI [of _ current]) (simp add: latest_in_chain.simps [of d seen])
  next
    case (Some s)
    note s = get_superseding_Some [OF Some]
    have move: "supersession d current s" using Some by (simp add: supersession_def)
    note forward = supersession_forward [OF "1.prems"(1) move]
    show ?thesis
    proof (cases "av_id s \<in> set seen")
      case True
      with "1.prems"(3) forward have "av_id s = av_id current" by fastforce
      then have "s = current"
        using "1.prems"(1,2) s(1) by (auto simp: artifacts_ok_def distinct_map dest: inj_onD)
      with move Some True show ?thesis by (simp add: latest_in_chain.simps [of d seen]) blast
    next
      case False
      have "\<forall>i\<in>set (av_id s # seen). i = av_id s \<or> place (artifact_ids d) i < place (artifact_ids d) (av_id s)"
        using "1.prems"(3) forward by force
      from "1.IH" [OF Some False "1.prems"(1) s(1) this]
      have "(\<exists>r. latest_in_chain d (av_id s # seen) s = Inr r \<and> (supersession d)\<^sup>*\<^sup>* s r
          \<and> get_superseding_artifact_version d (av_id r) = None)
        \<or> (latest_in_chain d (av_id s # seen) s = Inl ValueError \<and> (\<exists>r. (supersession d)\<^sup>*\<^sup>* s r \<and> supersession d r r))" .
      moreover have "latest_in_chain d seen current = latest_in_chain d (av_id s # seen) s"
        using Some False by (simp add: latest_in_chain.simps [of d seen])
      ultimately show ?thesis using converse_rtranclp_into_rtranclp [of "supersession d", OF move] by metis
    qed
  qed
qed

text \<open>
  Following the versions that supersede each other ends, and ends well: in whatever way the versions
  were created, \<open>get_latest_artifact_version_in_chain\<close> returns a version that is reached from the one
  asked for and that nothing supersedes, unless it runs into a version created as superseding itself; only then it
  raises the cycle error.
\<close>

lemma latest_version_found:
  assumes "artifacts_ok d0" "d = create_artifact_versions as d0" "get_artifact_version d i = Some a"
  shows "(\<exists>r. get_latest_artifact_version_in_chain d i = Inr (Some r) \<and> (supersession d)\<^sup>*\<^sup>* a r
      \<and> get_superseding_artifact_version d (av_id r) = None)
    \<or> (get_latest_artifact_version_in_chain d i = Inl ValueError
      \<and> (\<exists>r. (supersession d)\<^sup>*\<^sup>* a r \<and> av_supersedes r = Some (av_id r)))"
proof -
  have ok: "artifacts_ok d" using create_artifact_versions_ok [OF assms(1)] assms(2) by simp
  have a: "a \<in> set (artifact_versions d)" "av_id a = i"
    using select_one_Some [OF assms(3) [unfolded get_artifact_version_def]] by auto
  have "\<And>r. supersession d r r \<Longrightarrow> av_supersedes r = Some (av_id r)"
    using get_superseding_Some(2) by (simp add: supersession_def)
  with latest_in_chain_outcome [OF ok a(1), of "[i]"] a assms(3) show ?thesis
    by (auto simp: get_latest_artifact_version_in_chain_def)
qed

definition superseding_artifact :: "string \<Rightarrow> string \<Rightarrow> artifact_row" where
  "superseding_artifact i j = (sample_artifact i)\<lparr>av_supersedes := Some j\<rparr>"

definition sealed :: "artifact_row \<Rightarrow> artifact_row" where
  "sealed a = a\<lparr>av_identity_digest := Some (build_artifact_version_identity_digest a (av_project a))\<rparr>"

definition chain_db :: db where
  "chain_db = sample_db\<lparr>artifact_versions := map sealed [sample_artifact ''a'', superseding_artifact ''b'' ''a'',
     superseding_artifact ''e'' ''e'']\<rparr>"

lemma chain_db_ok: "artifacts_ok chain_db"
  by (simp add: artifacts_ok_def chain_db_def sealed_def superseding_artifact_def sample_artifact_def sample_db_def
    artifact_scoped_def sample_run_def fk_ok_def identity_digest_columns [where x = None, simplified]
    build_artifact_version_identity_digest_def artifact_version_identity_payload_def)

text \<open>A version that supersedes the end of the chain is created; the search from its start goes on past the old end.\<close>

end
