(* ===== verification/Provenance.thy ===== *)
theory Provenance
  imports Artifact_Versions
begin

text \<open>
  The provenance of artifact versions, \<open>src/onetruth/infrastructure/repositories/artifact_provenance.py\<close>:
  edges from an output to the inputs it was made from. An edge that would close a cycle is refused; the
  search for one is the recursive query of \<open>_creates_cycle\<close>, modelled the way SQLite runs it, with a queue
  and the rows found so far.
\<close>

section \<open>Edges\<close>

abbreviation cycle_error :: exc where
  "cycle_error \<equiv> OtherException ''ProvenanceCycleError''"

abbreviation project_scope_error :: exc where
  "project_scope_error \<equiv> OtherException ''ProvenanceProjectScopeError''"

definition insert_provenance_edge :: "provenance_row \<Rightarrow> (unit, db) comp" where
  "insert_provenance_edge r d =
     (if exists_row (\<lambda>x. pe_id x = pe_id r) (provenance_edges d)
      then raise (IntegrityError ''UNIQUE constraint failed: artifact_provenance_edges.edge_id'') d
      else if pe_order r \<noteq> None \<and> exists_row (\<lambda>x. pe_output x = pe_output r \<and> pe_input x = pe_input r
          \<and> pe_type x = pe_type r \<and> pe_order x = pe_order r) (provenance_edges d)
      then raise (IntegrityError (''UNIQUE constraint failed: artifact_provenance_edges.output_artifact_version_id, '' @
        ''artifact_provenance_edges.input_artifact_version_id, artifact_provenance_edges.edge_type, '' @
        ''artifact_provenance_edges.edge_order'')) d
      else if \<not> fk_ok (pe_run r) (map wr_id (runs d)) \<or> \<not> fk_ok (pe_project r) (map pj_id (projects d))
          \<or> pe_output r \<notin> set (artifact_ids d) \<or> pe_input r \<notin> set (artifact_ids d)
      then raise fk_failed d
      else (Inr (), d\<lparr>provenance_edges := provenance_edges d @ [r]\<rparr>))"

definition normalize_edge_type :: "string \<Rightarrow> string result" where
  "normalize_edge_type edge_type =
     (let normalized = replace_char (CHR ''-'') (CHR ''_'') (py_lower (py_strip edge_type))
      in if normalized = [] then Inl ValueError else Inr normalized)"

text \<open>
  \<open>WITH RECURSIVE lineage(node)\<close>: a row is taken from the queue, the nodes its edges lead to are found,
  and those that were not found before are put at its end.
\<close>

function lineage :: "(string \<times> string) list \<Rightarrow> string list \<Rightarrow> string list \<Rightarrow> string list" where
  "lineage edges found [] = found"
| "lineage edges found (node # queue) =
     (let new = remdups (filter (\<lambda>n. n \<notin> set found) (map snd (filter (\<lambda>e. fst e = node) edges)))
      in lineage edges (found @ new) (queue @ new))"
  by pat_completeness auto

termination
proof (relation "measures [\<lambda>(edges, found, queue). card (snd ` set edges - set found),
    \<lambda>(edges, found, queue). length queue]", goal_cases)
  case (2 edges found node queue new)
  show ?case
  proof (cases "new = []")
    case False
    then obtain n where "n \<in> set new" by (cases new) auto
    then have "n \<in> snd ` set edges - set found" "n \<notin> snd ` set edges - set (found @ new)"
      using 2 by auto
    then have "snd ` set edges - set (found @ new) \<subset> snd ` set edges - set found" by auto
    then have "card (snd ` set edges - set (found @ new)) < card (snd ` set edges - set found)"
      by (intro psubset_card_mono) auto
    then show ?thesis by simp
  qed simp
qed simp

declare lineage.simps [simp del]

definition edge_pairs :: "db \<Rightarrow> (string \<times> string) list" where
  "edge_pairs d = map (\<lambda>e. (pe_output e, pe_input e)) (provenance_edges d)"

definition creates_cycle :: "db \<Rightarrow> string \<Rightarrow> string \<Rightarrow> bool" where
  "creates_cycle d output_artifact_version_id input_artifact_version_id \<longleftrightarrow>
     output_artifact_version_id \<in> set (lineage (edge_pairs d) [input_artifact_version_id] [input_artifact_version_id])"

definition artifact_scope :: "db \<Rightarrow> string \<Rightarrow> string option" where
  "artifact_scope d artifact_version_id =
     (case get_artifact_version d artifact_version_id of None \<Rightarrow> None | Some a \<Rightarrow> av_project a)"

definition edge_workflow_scope :: "db \<Rightarrow> string \<Rightarrow> string option" where
  "edge_workflow_scope d workflow_run_id =
     (case select_one (\<lambda>r. wr_id r = workflow_run_id) (runs d) of None \<Rightarrow> None | Some r \<Rightarrow> wr_project r)"

definition resolve_edge_project_id :: "db \<Rightarrow> string \<Rightarrow> string \<Rightarrow> string option \<Rightarrow> string option result" where
  "resolve_edge_project_id d output_artifact_version_id input_artifact_version_id workflow_run_id =
     (let output_project_id = artifact_scope d output_artifact_version_id;
          input_project_id = artifact_scope d input_artifact_version_id in
      if output_project_id \<noteq> input_project_id then Inl project_scope_error
      else case workflow_run_id of
          None \<Rightarrow> Inr output_project_id
        | Some w \<Rightarrow> if edge_workflow_scope d w \<noteq> output_project_id then Inl project_scope_error
            else Inr output_project_id)"

text \<open>The fresh edge id is an argument; an empty id given counts as none.\<close>

definition create_artifact_provenance_edge ::
    "string \<Rightarrow> string \<Rightarrow> string \<Rightarrow> string \<Rightarrow> string option \<Rightarrow> int option \<Rightarrow> string \<Rightarrow> string option \<Rightarrow>
     dict option \<Rightarrow> (string, db) comp" where
  "create_artifact_provenance_edge uuid4 output_artifact_version_id input_artifact_version_id edge_type
       workflow_run_id edge_order created_at edge_id metadata_json d =
     (if output_artifact_version_id = input_artifact_version_id then raise cycle_error d
      else if creates_cycle d output_artifact_version_id input_artifact_version_id then raise cycle_error d
      else
        seq (of_result (resolve_edge_project_id d output_artifact_version_id input_artifact_version_id workflow_run_id))
        (\<lambda>project_id.
        let resolved_edge_id = (case edge_id of None \<Rightarrow> ''ape-'' @ uuid4
              | Some i \<Rightarrow> if i = [] then ''ape-'' @ uuid4 else i) in
        seq (of_result (normalize_edge_type edge_type)) (\<lambda>ty.
        seq (with_integers (case edge_order of None \<Rightarrow> [] | Some n \<Rightarrow> [n]) (insert_provenance_edge
          \<lparr>pe_id = resolved_edge_id, pe_run = workflow_run_id, pe_project = project_id,
           pe_output = output_artifact_version_id, pe_input = input_artifact_version_id, pe_type = ty,
           pe_order = edge_order, pe_metadata = metadata_json, pe_created_at = created_at\<rparr>)) (\<lambda>_.
        ret resolved_edge_id))) d)"

definition edge_order_value :: "int option \<Rightarrow> int" where
  "edge_order_value raw = (case raw of None \<Rightarrow> 0 | Some n \<Rightarrow> n)"

definition list_artifact_provenance_edges_for_output :: "db \<Rightarrow> string \<Rightarrow> provenance_row list" where
  "list_artifact_provenance_edges_for_output d output_artifact_version_id =
     sort_key (\<lambda>r. pe_order r = None) (sort_key (\<lambda>r. edge_order_value (pe_order r)) (sort_key pe_type
       (sort_key pe_input (sort_key pe_id (filter (\<lambda>r. pe_output r = output_artifact_version_id) (provenance_edges d))))))"

text \<open>The legacy parent and superseded version: the first input of the edges of a type.\<close>

definition pick_first_input :: "provenance_row list \<Rightarrow> string \<Rightarrow> string option result" where
  "pick_first_input rows edge_type =
     rbind (normalize_edge_type edge_type) (\<lambda>normalized.
     rbind (map_result (\<lambda>r. rbind (normalize_edge_type (pe_type r)) (\<lambda>ty. Inr (r, ty))) rows) (\<lambda>typed.
     let candidates = map fst (filter (\<lambda>p. snd p = normalized) typed) in
     Inr (case sort_key (\<lambda>r. pe_order r = None) (sort_key (\<lambda>r. edge_order_value (pe_order r))
            (sort_key pe_input (sort_key pe_id candidates))) of
          [] \<Rightarrow> None
        | r # _ \<Rightarrow> if pe_input r = [] then None else Some (pe_input r))))"

definition project_legacy_lineage_from_edge_rows ::
    "provenance_row list \<Rightarrow> (string option \<times> string option) result" where
  "project_legacy_lineage_from_edge_rows rows =
     rbind (pick_first_input rows ''derives_from'') (\<lambda>parent.
     rbind (pick_first_input rows ''supersedes'') (\<lambda>supersedes. Inr (parent, supersedes)))"

definition project_legacy_lineage_fields :: "db \<Rightarrow> string \<Rightarrow> (string option \<times> string option) result" where
  "project_legacy_lineage_fields d output_artifact_version_id =
     project_legacy_lineage_from_edge_rows (list_artifact_provenance_edges_for_output d output_artifact_version_id)"

section \<open>The query finds what is reachable\<close>

lemma lineage_found: "set found \<subseteq> set (lineage edges found queue)"
proof (induction edges found queue rule: lineage.induct)
  case (2 edges found node queue)
  then show ?case by (subst lineage.simps) (auto simp: Let_def)
qed (simp add: lineage.simps)

lemma lineage_sound:
  assumes "set queue \<subseteq> set found"
  shows "set (lineage edges found queue) \<subseteq> {n. \<exists>m\<in>set found. (m, n) \<in> (set edges)\<^sup>*}"
  using assms
proof (induction edges found queue rule: lineage.induct)
  case (2 edges found node queue)
  let ?new = "remdups (filter (\<lambda>n. n \<notin> set found) (map snd (filter (\<lambda>e. fst e = node) edges)))"
  have new: "\<exists>m\<in>set found. (m, n) \<in> (set edges)\<^sup>*" if "n \<in> set ?new" for n
  proof -
    have "(node, n) \<in> set edges" using that by auto
    with 2(2) show ?thesis by auto
  qed
  have "set (queue @ ?new) \<subseteq> set (found @ ?new)" using 2(2) by auto
  note ih = "2.IH" [OF refl this]
  show ?case
  proof
    fix n assume "n \<in> set (lineage edges found (node # queue))"
    then have "n \<in> set (lineage edges (found @ ?new) (queue @ ?new))" by (simp add: lineage.simps(2) Let_def)
    with ih obtain m where m: "m \<in> set (found @ ?new)" "(m, n) \<in> (set edges)\<^sup>*" by blast
    show "n \<in> {n. \<exists>m\<in>set found. (m, n) \<in> (set edges)\<^sup>*}"
    proof (cases "m \<in> set found")
      case False
      with m(1) have "m \<in> set ?new" by simp
      from new [OF this] m(2) show ?thesis by (blast intro: rtrancl_trans)
    qed (use m(2) in blast)
  qed
qed (auto simp: lineage.simps)

lemma lineage_complete:
  assumes "set queue \<subseteq> set found"
    and closed: "\<And>m n. m \<in> set found - set queue \<Longrightarrow> (m, n) \<in> set edges \<Longrightarrow> n \<in> set found"
  shows "m \<in> set (lineage edges found queue) \<Longrightarrow> (m, n) \<in> set edges \<Longrightarrow> n \<in> set (lineage edges found queue)"
  using assms
proof (induction edges found queue rule: lineage.induct)
  case (2 edges found node queue)
  let ?new = "remdups (filter (\<lambda>n. n \<notin> set found) (map snd (filter (\<lambda>e. fst e = node) edges)))"
  have sub: "set (queue @ ?new) \<subseteq> set (found @ ?new)" using "2.prems"(3) by auto
  have cl: "b \<in> set (found @ ?new)" if "a \<in> set (found @ ?new) - set (queue @ ?new)" "(a, b) \<in> set edges" for a b
  proof (cases "a = node")
    case True
    with that(2) show ?thesis by force
  next
    case False
    with that "2.prems"(4) [of a b] show ?thesis by auto
  qed
  from "2.IH" [OF refl _ _ sub cl] "2.prems"(1,2) show ?case by (simp add: lineage.simps(2) Let_def)
qed (auto simp: lineage.simps)

lemma lineage_reachable: "set (lineage edges [a] [a]) = {n. (a, n) \<in> (set edges)\<^sup>*}"
proof
  show "set (lineage edges [a] [a]) \<subseteq> {n. (a, n) \<in> (set edges)\<^sup>*}"
    using lineage_sound [of "[a]" "[a]" edges] by auto
  show "{n. (a, n) \<in> (set edges)\<^sup>*} \<subseteq> set (lineage edges [a] [a])"
  proof
    fix n assume "n \<in> {n. (a, n) \<in> (set edges)\<^sup>*}"
    then have "(a, n) \<in> (set edges)\<^sup>*" by simp
    then show "n \<in> set (lineage edges [a] [a])"
    proof (induction rule: rtrancl_induct)
      case base
      show ?case using lineage_found [of "[a]" edges "[a]"] by auto
    next
      case (step m n)
      from lineage_complete [of "[a]" "[a]" edges m n] step show ?case by auto
    qed
  qed
qed

text \<open>
  C23: The cycle check decides reachability: the recursive query ends on every edge table, also on
  one with cycles, and \<open>_creates_cycle\<close> holds exactly when the output can be reached from the input along
  stored edges, in the reflexive and transitive closure of the edge relation.
\<close>

theorem creates_cycle_decides_reachability:
  "creates_cycle d output_id input_id \<longleftrightarrow>
     (input_id, output_id) \<in> {(pe_output e, pe_input e) | e. e \<in> set (provenance_edges d)}\<^sup>*"
proof -
  have "set (edge_pairs d) = {(pe_output e, pe_input e) | e. e \<in> set (provenance_edges d)}"
    by (auto simp: edge_pairs_def)
  then show ?thesis by (simp add: creates_cycle_def lineage_reachable)
qed

section \<open>Provenance has no cycles\<close>

definition edge_relation :: "db \<Rightarrow> (string \<times> string) set" where
  "edge_relation d = set (edge_pairs d)"

text \<open>Every edge connects stored versions of one project, which it records.\<close>

definition edge_scoped :: "db \<Rightarrow> provenance_row \<Rightarrow> bool" where
  "edge_scoped d e \<longleftrightarrow> (\<exists>a b. get_artifact_version d (pe_output e) = Some a \<and> get_artifact_version d (pe_input e) = Some b
     \<and> av_project a = av_project b \<and> pe_project e = av_project a)"

definition provenance_ok :: "db \<Rightarrow> bool" where
  "provenance_ok d \<longleftrightarrow> acyclic (edge_relation d) \<and> (\<forall>e\<in>set (provenance_edges d). edge_scoped d e)"

lemma create_edge_cases:
  obtains e where "create_artifact_provenance_edge u out inp ty w ord now i meta d = (Inl e, d)"
  | k r where "create_artifact_provenance_edge u out inp ty w ord now i meta d =
        (Inr k, d\<lparr>provenance_edges := provenance_edges d @ [r]\<rparr>)"
      "pe_output r = out" "pe_input r = inp" "out \<noteq> inp" "\<not> creates_cycle d out inp" "edge_scoped d r"
proof (cases "create_artifact_provenance_edge u out inp ty w ord now i meta d")
  case (Pair res d')
  show thesis
  proof (cases res)
    case (Inl e)
    have "atomic (create_artifact_provenance_edge u out inp ty w ord now i meta)"
      unfolding atomic_def create_artifact_provenance_edge_def
      by (auto simp: seq_eq_Inl comp_apply Let_def with_integers_def insert_provenance_edge_def split: if_splits)
    with that(1) Pair Inl show thesis by (auto dest: atomicD)
  next
    case (Inr k)
    with Pair obtain p where p: "resolve_edge_project_id d out inp w = Inr p" "out \<noteq> inp" "\<not> creates_cycle d out inp"
      and ins: "\<exists>r. insert_provenance_edge r d = (Inr (), d') \<and> pe_output r = out \<and> pe_input r = inp \<and> pe_project r = p"
      unfolding create_artifact_provenance_edge_def Let_def
      by (fastforce simp: seq_eq_Inr comp_apply with_integers_Inr split: if_splits)
    then obtain r where r: "insert_provenance_edge r d = (Inr (), d')" "pe_output r = out" "pe_input r = inp" "pe_project r = p"
      by blast
    then have d': "d' = d\<lparr>provenance_edges := provenance_edges d @ [r]\<rparr>" "out \<in> set (artifact_ids d)" "inp \<in> set (artifact_ids d)"
      by (auto simp: insert_provenance_edge_def comp_apply split: if_splits)
    have "get_artifact_version d x \<noteq> None" if "x \<in> set (artifact_ids d)" for x
      using that by (auto simp: get_artifact_version_def select_one_None)
    with d'(2,3) obtain a b where "get_artifact_version d out = Some a" "get_artifact_version d inp = Some b" by blast
    with p(1) r(2-4) have "edge_scoped d r"
      by (auto simp: edge_scoped_def resolve_edge_project_id_def artifact_scope_def Let_def split: if_splits option.splits)
    with that(2) [of k r] Pair Inr d' r p show thesis by simp
  qed
qed

lemma edge_scoped_frame:
  "artifact_versions d' = artifact_versions d \<Longrightarrow> edge_scoped d' e = edge_scoped d e"
  by (simp add: edge_scoped_def get_artifact_version_def)

lemma create_edge_ok: "keeps provenance_ok (create_artifact_provenance_edge u out inp ty w ord now i meta)"
proof (rule keepsI)
  fix d assume ok: "provenance_ok d"
  show "provenance_ok (snd (create_artifact_provenance_edge u out inp ty w ord now i meta d))"
  proof (cases rule: create_edge_cases [of u out inp ty w ord now i meta d])
    case (2 k r)
    let ?d = "d\<lparr>provenance_edges := provenance_edges d @ [r]\<rparr>"
    have "(inp, out) \<notin> (edge_relation d)\<^sup>*"
      using 2(5) by (simp add: creates_cycle_def lineage_reachable edge_relation_def)
    moreover have "edge_relation ?d = insert (out, inp) (edge_relation d)"
      using 2(2,3) by (simp add: edge_relation_def edge_pairs_def)
    ultimately have "acyclic (edge_relation ?d)"
      using ok by (simp add: provenance_ok_def acyclic_insert)
    moreover have "edge_scoped ?d e = edge_scoped d e" for e by (rule edge_scoped_frame) simp
    ultimately show ?thesis using ok 2(1,6) by (auto simp: provenance_ok_def)
  qed (use ok in simp)
qed

lemma create_version_keeps_provenance: "keeps provenance_ok (create_artifact_version a)"
proof (rule keepsI)
  fix d assume ok: "provenance_ok d"
  show "provenance_ok (snd (create_artifact_version a d))"
  proof (cases rule: create_artifact_version_cases [of a d])
    case (2 p)
    let ?r = "a\<lparr>av_project := p, av_identity_profile := Some artifact_identity_profile,
      av_identity_digest := Some (build_artifact_version_identity_digest a p)\<rparr>"
    let ?d = "d\<lparr>artifact_versions := artifact_versions d @ [?r]\<rparr>"
    have "edge_scoped ?d e" if "edge_scoped d e" for e
      using that by (auto simp: edge_scoped_def get_artifact_version_def select_one_append)
    moreover have "edge_relation ?d = edge_relation d" by (simp add: edge_relation_def edge_pairs_def)
    ultimately show ?thesis using ok 2(1) by (auto simp: provenance_ok_def)
  qed (use ok in simp)
qed

datatype lineage_op =
    Create_Version artifact_row
  | Create_Edge string string string string "string option" "int option" string "string option" "dict option"

fun run_lineage_op :: "lineage_op \<Rightarrow> db \<Rightarrow> db" where
  "run_lineage_op (Create_Version a) d = snd (create_artifact_version a d)"
| "run_lineage_op (Create_Edge u out inp ty w ord now i meta) d =
     snd (create_artifact_provenance_edge u out inp ty w ord now i meta d)"

text \<open>
  C9: Provenance has no cycles: whatever versions and edges are created, and refused, in whatever order,
  no version derives from itself, directly or through others, and every edge connects two stored
  versions of the same project and records that project.
\<close>

theorem provenance_acyclic:
  assumes "provenance_edges d = []"
  shows "(\<forall>i. (i, i) \<notin> {(pe_output e, pe_input e) | e. e \<in> set (provenance_edges (fold run_lineage_op ops d))}\<^sup>+)
    \<and> (\<forall>e\<in>set (provenance_edges (fold run_lineage_op ops d)). edge_scoped (fold run_lineage_op ops d) e)"
proof -
  have "provenance_ok (fold run_lineage_op ops d)" if "provenance_ok d" for d
    using that
  proof (induction ops arbitrary: d)
    case (Cons op ops)
    then show ?case
      using keepsD [OF create_edge_ok] keepsD [OF create_version_keeps_provenance] by (cases op) auto
  qed simp
  moreover have "provenance_ok d" using assms by (simp add: provenance_ok_def edge_relation_def edge_pairs_def acyclic_def)
  moreover have "edge_relation d' = {(pe_output e, pe_input e) | e. e \<in> set (provenance_edges d')}" for d'
    by (auto simp: edge_relation_def edge_pairs_def)
  ultimately show ?thesis by (simp add: provenance_ok_def acyclic_def)
qed

definition provenance_sample_db :: db where
  "provenance_sample_db = sample_db\<lparr>artifact_versions := map sample_artifact [''a'', ''b'', ''c'']\<rparr>"

definition sample_edge :: "string \<Rightarrow> string \<Rightarrow> string \<Rightarrow> lineage_op" where
  "sample_edge u out inp = Create_Edge u out inp ''derives-from'' (Some ''r'') (Some 0) ''t0'' None None"

text \<open>Of three edges around a triangle, the one that would close it is refused.\<close>

theorem provenance_acyclic_witness:
  "length (provenance_edges (fold run_lineage_op
     [sample_edge ''1'' ''b'' ''a'', sample_edge ''2'' ''c'' ''b'', sample_edge ''3'' ''a'' ''c''] provenance_sample_db)) = 2
   \<and> (\<forall>i. (i, i) \<notin> {(pe_output e, pe_input e) | e. e \<in> set (provenance_edges (fold run_lineage_op
     [sample_edge ''1'' ''b'' ''a'', sample_edge ''2'' ''c'' ''b'', sample_edge ''3'' ''a'' ''c''] provenance_sample_db))}\<^sup>+)"
proof -
  have "provenance_edges provenance_sample_db = []" by (simp add: provenance_sample_db_def sample_db_def empty_db_def)
  from provenance_acyclic [OF this, of "[sample_edge ''1'' ''b'' ''a'', sample_edge ''2'' ''c'' ''b'', sample_edge ''3'' ''a'' ''c'']"]
  have "\<forall>i. (i, i) \<notin> {(pe_output e, pe_input e) | e. e \<in> set (provenance_edges (fold run_lineage_op
     [sample_edge ''1'' ''b'' ''a'', sample_edge ''2'' ''c'' ''b'', sample_edge ''3'' ''a'' ''c''] provenance_sample_db))}\<^sup>+"
    by blast
  moreover have "length (provenance_edges (fold run_lineage_op
     [sample_edge ''1'' ''b'' ''a'', sample_edge ''2'' ''c'' ''b'', sample_edge ''3'' ''a'' ''c''] provenance_sample_db)) = 2"
    by code_simp
  ultimately show ?thesis by blast
qed

end
