(* ===== verification/Command_Effects.thy ===== *)
theory Command_Effects
  imports Command_Boundary
begin

text \<open>
  What the handlers written as one operation of many effects share: the environment they read, appending
  an event (\<open>append_event(connection, _event_envelope(...))\<close>), transactions without a frame, and two
  ways to reason about a whole command from its parts. A predicate that every part keeps is kept
  (\<open>keeps\<close>), also when the command is all or nothing and its parts keep it only when they return
  (\<open>yields\<close>); a preorder between the states before and after that every part respects is respected by the
  command (locale \<open>evolution\<close>).
\<close>

section \<open>Environment and events\<close>

text \<open>
  The operation's own reading of the clock, a uuid for its row, and for each envelope the reading and
  the uuid of that envelope. An envelope is appended right after it is built, so the sequence number it
  gets tells the envelopes of a command apart.
\<close>

record effect_env =
  fe_now :: string
  fe_uuid :: string
  fe_event :: "nat \<Rightarrow> string \<times> string"

definition emit ::
    "effect_env \<Rightarrow> string \<Rightarrow> string \<Rightarrow> string \<Rightarrow> string \<Rightarrow> string \<Rightarrow> json list \<Rightarrow> dict \<Rightarrow> string option \<Rightarrow>
     (string, db) comp" where
  "emit env event_type tenant_id domain_id actor_type actor_id links payload idempotency_key d =
     (case fe_event env (next_seq d) of (now, uuid) \<Rightarrow>
        seq (of_result (event_envelope now uuid event_type tenant_id domain_id actor_type actor_id links
          payload idempotency_key)) append_event d)"

definition rel_link :: "string \<Rightarrow> string \<Rightarrow> string \<Rightarrow> json" where
  "rel_link rel link_type link_id = JObj [(''rel'', JStr rel), (''type'', JStr link_type), (''id'', JStr link_id)]"

text \<open>\<open>str(payload.get(k, default))\<close>, and \<open>int\<close> likewise.\<close>

definition str_field :: "dict \<Rightarrow> string \<Rightarrow> string \<Rightarrow> string" where
  "str_field payload k fallback = py_str (jget_default payload k (JStr fallback))"

definition int_field :: "dict \<Rightarrow> string \<Rightarrow> int \<Rightarrow> int result" where
  "int_field payload k fallback = py_int (jget_default payload k (JInt fallback))"

text \<open>\<open>if row is None: raise\<close>.\<close>

definition found_or :: "exc \<Rightarrow> 'a option \<Rightarrow> ('a, db) comp" where
  "found_or e x = (case x of None \<Rightarrow> raise e | Some y \<Rightarrow> ret y)"

lemma emit_cases:
  obtains e where "emit env ty tenant domain at ai ls p k d = (Inl e, d)"
  | i row where "emit env ty tenant domain at ai ls p k d =
      (Inr i, d\<lparr>events := events d @ [row], next_seq := Suc (next_seq d)\<rparr>)"
proof (cases "event_envelope (fst (fe_event env (next_seq d))) (snd (fe_event env (next_seq d))) ty tenant
    domain at ai ls p k")
  case (Inl e)
  then show thesis by (intro that(1)) (simp add: emit_def split_def comp_simps)
next
  case (Inr envelope)
  then have "emit env ty tenant domain at ai ls p k d = append_event envelope d"
    by (simp add: emit_def split_def comp_simps)
  then show thesis
  proof (cases rule: append_event_cases [of envelope d])
    case (appended r)
    with bind_event_fields [OF appended(2)] that(2) \<open>emit env ty tenant domain at ai ls p k d = append_event envelope d\<close>
    show thesis by metis
  qed (use that(1) in simp)
qed

lemma emit_frame:
  assumes "emit env ty tenant domain at ai ls p k d = (r, d')"
  shows "d' = d\<lparr>events := events d', next_seq := next_seq d'\<rparr>"
  using assms by (cases rule: emit_cases [of env ty tenant domain at ai ls p k d]) auto

lemma atomic_emit [intro]: "atomic (emit env ty tenant domain at ai ls p k)"
  unfolding atomic_def by (metis emit_cases prod.inject sum.distinct(1))

text \<open>An event that can be appended.\<close>

lemma emit_ok:
  assumes actor: "assert_actor_type actor_type = Inr ()"
    and links: "\<And>required. required_link_types_by_event event_type = Some required \<Longrightarrow> set required \<subseteq> set (link_types links)"
    and new_id: "event_id_for_type event_type (snd (fe_event env (next_seq d))) \<notin> ev_id ` set (events d)"
    and new_key: "key = None \<or> key \<notin> ev_idem ` set (events d)"
  obtains i d' where "emit env event_type tenant domain actor_type actor_id links payload key d = (Inr i, d')"
    "d' = d\<lparr>events := events d', next_seq := next_seq d'\<rparr>"
proof -
  obtain now uuid where clock: "fe_event env (next_seq d) = (now, uuid)" by fastforce
  obtain envelope where envelope:
    "event_envelope now uuid event_type tenant domain actor_type actor_id links payload key = Inr envelope"
    using actor by (simp add: event_envelope_def)
  then have "jget envelope ''event_type'' = JStr event_type" "jget envelope ''links'' = JArr links"
    by (auto simp: event_envelope_def rbind_eq_Inr jget_def)
  with links have "require_required_links_for_event envelope = Inr ()"
    by (auto simp: require_required_links_for_event_def py_str_def split: option.split list.split)
  from append_envelope_ok [OF envelope this, of d] new_id new_key clock obtain r where
    "append_event envelope d = (Inr (event_id_for_type event_type uuid),
      d\<lparr>events := events d @ [r], next_seq := Suc (next_seq d)\<rparr>)" by auto
  then show thesis
    by (intro that) (auto simp: emit_def clock envelope comp_simps)
qed

section \<open>What a command keeps\<close>

text \<open>Predicates that do not look at the log or the receipts.\<close>

definition log_free :: "(db \<Rightarrow> bool) \<Rightarrow> bool" where
  "log_free P \<longleftrightarrow> (\<forall>d es n rs m. P d \<longrightarrow> P (d\<lparr>events := es, next_seq := n\<rparr>) \<and> P (d\<lparr>receipts := rs, next_receipt := m\<rparr>))"

lemma keeps_emit: "log_free P \<Longrightarrow> keeps P (emit env ty tenant domain at ai ls p k)"
  by (rule keepsI) (metis emit_frame log_free_def prod.collapse)

lemma keeps_with_integers: "keeps P m \<Longrightarrow> keeps P (with_integers ns m)"
  unfolding with_integers_def by auto

lemma keeps_here: "(\<And>x. keeps P (f x)) \<Longrightarrow> keeps P (\<lambda>d. f d d)"
  by (simp add: keeps_def)

lemma keeps_read: "keeps P (\<lambda>d. (f d, d))"
  by (simp add: keeps_def)

text \<open>Commands are steps of which each keeps the predicate; checks in front narrow what has to be shown.\<close>

lemma keeps_checked:
  "(\<And>x. r = Inr x \<Longrightarrow> keeps P (f x)) \<Longrightarrow> keeps P (seq (of_result r) f)"
  by (cases r) (auto simp: seq_unit)

lemma keeps_finish: "keeps P m \<Longrightarrow> keeps P (seq m (\<lambda>x. ret (g x)))"
  by auto

lemma keeps_option:
  "keeps P m \<Longrightarrow> (\<And>y. keeps P (f y)) \<Longrightarrow> keeps P (case x of None \<Rightarrow> m | Some y \<Rightarrow> f y)"
  by (cases x) auto

lemma keeps_if: "(b \<Longrightarrow> keeps P m) \<Longrightarrow> (\<not> b \<Longrightarrow> keeps P n) \<Longrightarrow> keeps P (if b then m else n)"
  by simp

lemma keeps_found: "keeps P (found_or e x)"
  unfolding found_or_def by (intro keeps_option keeps_basic)

section \<open>What a computation yields when it returns\<close>

definition yields :: "('s \<Rightarrow> bool) \<Rightarrow> ('a, 's) comp \<Rightarrow> ('a \<Rightarrow> 's \<Rightarrow> bool) \<Rightarrow> bool" where
  "yields P m Q \<longleftrightarrow> (\<forall>s x s'. P s \<longrightarrow> m s = (Inr x, s') \<longrightarrow> Q x s')"

lemma yieldsI: "(\<And>s x s'. P s \<Longrightarrow> m s = (Inr x, s') \<Longrightarrow> Q x s') \<Longrightarrow> yields P m Q"
  by (simp add: yields_def)

lemma yieldsD: "yields P m Q \<Longrightarrow> m s = (Inr x, s') \<Longrightarrow> P s \<Longrightarrow> Q x s'"
  by (simp add: yields_def)

lemma yields_pre: "yields P' m Q \<Longrightarrow> (\<And>s. P s \<Longrightarrow> P' s) \<Longrightarrow> yields P m Q"
  by (auto simp: yields_def)

lemma yields_post: "yields P m Q' \<Longrightarrow> (\<And>x s. Q' x s \<Longrightarrow> Q x s) \<Longrightarrow> yields P m Q"
  by (simp add: yields_def)

lemma yields_seq: "yields P m R \<Longrightarrow> (\<And>x. yields (R x) (f x) Q) \<Longrightarrow> yields P (seq m f) Q"
  by (auto simp: yields_def seq_eq_Inr)

lemma yields_ret: "(\<And>s. P s \<Longrightarrow> Q x s) \<Longrightarrow> yields P (ret x) Q"
  by (simp add: yields_def comp_apply)

lemma yields_raise: "yields P (raise e) Q"
  by (simp add: yields_def comp_apply)

text \<open>Steps that leave the state, with what they tell; sequenced in front of the rest.\<close>

lemma yields_asking: "(\<And>x. yields (\<lambda>s. P s \<and> x = g s) (f x) Q) \<Longrightarrow> yields P (seq (asks g) f) Q"
  by (auto simp: yields_def seq_unit)

lemma yields_peek: "(\<And>x. yields P (f x) Q) \<Longrightarrow> yields P (seq (asks g) f) Q"
  by (auto simp: yields_def seq_unit)

lemma yields_reading: "(\<And>x. yields (\<lambda>s. P s \<and> g s = Inr x) (f x) Q) \<Longrightarrow> yields P (seq (\<lambda>s. (g s, s)) f) Q"
  by (auto simp: yields_def seq_eq_Inr)

lemma yields_check: "(\<And>x. r = Inr x \<Longrightarrow> yields P (f x) Q) \<Longrightarrow> yields P (seq (of_result r) f) Q"
  by (auto simp: yields_def seq_of_result_Inr)

lemma found_or_Inr: "found_or e y d = (Inr x, d') \<longleftrightarrow> y = Some x \<and> d' = d"
  by (auto simp: found_or_def comp_apply split: option.split)

lemma yields_found: "(\<And>x. y = Some x \<Longrightarrow> yields P (f x) Q) \<Longrightarrow> yields P (seq (found_or e y) f) Q"
  by (auto simp: yields_def seq_eq_Inr found_or_Inr)

lemma yields_emitting:
  "log_free P \<Longrightarrow> (\<And>x. yields P (f x) Q) \<Longrightarrow> yields P (seq (emit env ty tenant domain at ai ls p k) f) Q"
  by (rule yields_seq [where R = "\<lambda>_. P"], rule yieldsI, erule keepsD' [OF keeps_emit]) assumption+

lemma yields_if:
  "(b \<Longrightarrow> yields P m Q) \<Longrightarrow> (\<not> b \<Longrightarrow> yields P n Q) \<Longrightarrow> yields P (if b then m else n) Q"
  by simp

lemma yields_option:
  "(x = None \<Longrightarrow> yields P m Q) \<Longrightarrow> (\<And>y. x = Some y \<Longrightarrow> yields P (f y) Q) \<Longrightarrow>
     yields P (case x of None \<Rightarrow> m | Some y \<Rightarrow> f y) Q"
  by (cases x) auto

lemma yields_each:
  "(\<And>x. x \<in> set xs \<Longrightarrow> yields P (f x) (\<lambda>_. P)) \<Longrightarrow> yields P (map_each f xs) (\<lambda>_. P)"
proof (induction xs)
  case (Cons x xs)
  then show ?case by (auto intro!: yields_seq [where R = "\<lambda>_. P"] yields_ret)
qed (simp add: yields_ret)

text \<open>All-or-nothing steps keep what their body yields.\<close>

lemma keeps_atomic: "yields P m (\<lambda>_. P) \<Longrightarrow> keeps P (atomically m)"
  by (auto simp: keeps_def yields_def snd_atomically split: sum.split) (metis prod.collapse)

lemma keeps_executed:
  assumes "log_free P" "yields P operation (\<lambda>_. P)"
  shows "keeps P (execute_with_command_receipt receipt operation)"
proof (rule keepsI)
  fix d assume P: "P d"
  obtain r d' where run: "execute_with_command_receipt receipt operation d = (r, d')" by fastforce
  have "P d'"
  proof (cases rule: execute_cases [OF run])
    case (2 outcome d1)
    then have "P d1" using yieldsD [OF assms(2) 2(2) P] by blast
    with assms(1) 2(5) show ?thesis unfolding log_free_def by metis
  qed (use P in simp)
  with run show "P (snd (execute_with_command_receipt receipt operation d))" by simp
qed

lemma keeps_yields: "keeps P m \<Longrightarrow> yields P m (\<lambda>_. P)"
  by (auto intro: yieldsI keepsD')

lemma keeps_execute: "log_free P \<Longrightarrow> keeps P operation \<Longrightarrow> keeps P (execute_with_command_receipt receipt operation)"
  by (rule keeps_executed [OF _ keeps_yields])

lemmas yields_steps = yields_asking yields_reading yields_check yields_found yields_if yields_raise

text \<open>The same for a command, whatever it returns: what holds of the state it leaves.\<close>

definition brings :: "('s \<Rightarrow> bool) \<Rightarrow> ('a, 's) comp \<Rightarrow> ('s \<Rightarrow> bool) \<Rightarrow> bool" where
  "brings P m Q \<longleftrightarrow> (\<forall>s. P s \<longrightarrow> Q (snd (m s)))"

lemma brings_keeps: "brings P m P = keeps P m"
  by (simp add: brings_def keeps_def)

lemma brings_reading:
  "(\<And>s. P s \<Longrightarrow> Q s) \<Longrightarrow> (\<And>x. brings (\<lambda>s. P s \<and> g s = Inr x) (f x) Q) \<Longrightarrow> brings P (seq (\<lambda>s. (g s, s)) f) Q"
  unfolding brings_def seq_def by (auto split: sum.split)

lemma brings_asking: "(\<And>x. brings P (f x) Q) \<Longrightarrow> brings P (seq (asks g) f) Q"
  by (simp add: brings_def seq_unit)

lemma brings_checked:
  "(\<And>s. P s \<Longrightarrow> Q s) \<Longrightarrow> (\<And>x. r = Inr x \<Longrightarrow> brings P (f x) Q) \<Longrightarrow> brings P (seq (of_result r) f) Q"
  by (cases r) (auto simp: brings_def seq_unit comp_apply)

lemma brings_finish: "brings P m Q \<Longrightarrow> brings P (seq m (\<lambda>x. ret (g x))) Q"
  by (auto simp: brings_def seq_def comp_apply split: prod.split sum.split)

lemma brings_reraise: "brings P m Q \<Longrightarrow> brings P (handle m (\<lambda>e. raise (g e))) Q"
  by (auto simp: brings_def handle_def comp_apply split: prod.split sum.split)

lemma brings_executed:
  assumes "\<And>d. P d \<Longrightarrow> Q d" "log_free Q" "yields P operation (\<lambda>_. Q)"
  shows "brings P (execute_with_command_receipt receipt operation) Q"
  unfolding brings_def
proof (intro allI impI)
  fix d assume P: "P d"
  obtain r d' where run: "execute_with_command_receipt receipt operation d = (r, d')" by fastforce
  have "Q d'"
  proof (cases rule: execute_cases [OF run])
    case (2 outcome d1)
    then have "Q d1" using yieldsD [OF assms(3) 2(2) P] by blast
    with assms(2) 2(5) show ?thesis unfolding log_free_def by metis
  qed (use P assms(1) in simp)
  with run show "Q (snd (execute_with_command_receipt receipt operation d))" by simp
qed

section \<open>How a command moves the state\<close>

definition evolves :: "('s \<Rightarrow> 's \<Rightarrow> bool) \<Rightarrow> ('a, 's) comp \<Rightarrow> bool" where
  "evolves R m \<longleftrightarrow> (\<forall>s. R s (snd (m s)))"

lemma evolvesI: "(\<And>s r s'. m s = (r, s') \<Longrightarrow> R s s') \<Longrightarrow> evolves R m"
  unfolding evolves_def by (metis prod.collapse)

lemma evolvesD: "evolves R m \<Longrightarrow> m s = (r, s') \<Longrightarrow> R s s'"
  unfolding evolves_def by (metis snd_conv)

locale evolution =
  fixes R :: "'s \<Rightarrow> 's \<Rightarrow> bool"
  assumes refl: "R s s"
    and trans: "R s t \<Longrightarrow> R t u \<Longrightarrow> R s u"
begin

lemma basic [intro, simp]:
  "evolves R (ret x)"
  "evolves R (raise e)"
  "evolves R (of_result r)"
  "evolves R (asks f)"
  "evolves R (\<lambda>s. (g s, s))"
  by (simp_all add: evolves_def comp_apply refl)

lemma sequence [intro]:
  assumes "evolves R m" "\<And>x. evolves R (f x)"
  shows "evolves R (seq m f)"
proof (rule evolvesI)
  fix s r s' assume run: "seq m f s = (r, s')"
  obtain r1 s1 where m: "m s = (r1, s1)" by fastforce
  show "R s s'"
  proof (cases r1)
    case (Inl e)
    with run m evolvesD [OF assms(1) m] show ?thesis by (simp add: seq_def)
  next
    case (Inr x)
    with run m have "f x s1 = (r, s')" by (simp add: seq_def)
    from trans [OF evolvesD [OF assms(1) m] evolvesD [OF assms(2) this]] show ?thesis .
  qed
qed

lemma handled [intro]:
  assumes "evolves R m" "\<And>e. evolves R (h e)"
  shows "evolves R (handle m h)"
proof (rule evolvesI)
  fix s r s' assume run: "handle m h s = (r, s')"
  obtain r1 s1 where m: "m s = (r1, s1)" by fastforce
  show "R s s'"
  proof (cases r1)
    case (Inr x)
    with run m evolvesD [OF assms(1) m] show ?thesis by (simp add: handle_def)
  next
    case (Inl e)
    with run m have "h e s1 = (r, s')" by (simp add: handle_def)
    from trans [OF evolvesD [OF assms(1) m] evolvesD [OF assms(2) this]] show ?thesis .
  qed
qed

lemma loop [intro]:
  "(\<And>x. x \<in> set xs \<Longrightarrow> evolves R (f x)) \<Longrightarrow> evolves R (for_each f xs)"
  by (induction xs) auto

lemma collecting_loop [intro]:
  fixes f :: "'x \<Rightarrow> ('b, 's) comp"
  shows "(\<And>x. x \<in> set xs \<Longrightarrow> evolves R (f x)) \<Longrightarrow> evolves R (map_each f xs)"
  by (induction xs) auto

lemma here [intro]: "(\<And>x. evolves R (f x)) \<Longrightarrow> evolves R (\<lambda>s. f s s)"
  by (simp add: evolves_def)

lemma atomic [intro]: "evolves R m \<Longrightarrow> evolves R (atomically m)"
  by (auto simp: evolves_def snd_atomically refl split: sum.split)

lemma integers [intro]: "evolves R m \<Longrightarrow> evolves R (with_integers ns m)"
  unfolding with_integers_def by auto

lemma run: "(\<And>op s. R s (step op s)) \<Longrightarrow> R s (fold step ops s)"
  by (induction ops arbitrary: s) (auto intro: refl trans)

end

lemma evolves_if: "evolves R m \<Longrightarrow> evolves R n \<Longrightarrow> evolves R (if b then m else n)"
  by simp

lemma evolves_option:
  "evolves R m \<Longrightarrow> (\<And>y. evolves R (f y)) \<Longrightarrow> evolves R (case x of None \<Rightarrow> m | Some y \<Rightarrow> f y)"
  by (cases x) auto

text \<open>Preorders that do not look at the log or the receipts.\<close>

locale db_evolution = evolution R for R :: "db \<Rightarrow> db \<Rightarrow> bool" +
  assumes log: "R d (d\<lparr>events := es, next_seq := n\<rparr>)"
    and receipt: "R d (d\<lparr>receipts := rs, next_receipt := m\<rparr>)"
begin

lemma emitting [intro]: "evolves R (emit env ty tenant domain at ai ls p k)"
  by (rule evolvesI) (metis emit_frame log)

lemma executing [intro]:
  assumes "evolves R operation"
  shows "evolves R (execute_with_command_receipt receipt' operation)"
proof (rule evolvesI)
  fix d r d' assume run: "execute_with_command_receipt receipt' operation d = (r, d')"
  show "R d d'"
  proof (cases rule: execute_cases [OF run])
    case (2 outcome d1)
    then show ?thesis using trans [OF evolvesD [OF assms 2(2)]] receipt [of d1] by metis
  qed (simp add: refl)
qed

end

section \<open>Transactions without a frame\<close>

text \<open>
  Some handlers open their transaction with \<open>_begin_transaction\<close> and end it with \<open>connection.commit()\<close>,
  or \<open>connection.rollback()\<close> on an error, whatever the frame is that they got.
\<close>

definition unframed_transaction :: "string \<Rightarrow> ('a, 'd conn) comp \<Rightarrow> ('a, 'd conn) comp" where
  "unframed_transaction fresh body =
     seq (begin_transaction fresh) (\<lambda>_.
       seq (handle body (\<lambda>e. seq connection_rollback (\<lambda>_. raise e)))
         (\<lambda>x. seq connection_commit (\<lambda>_. ret x)))"

lemma unframed_outermost:
  assumes "implements body m"
  shows "unframed_transaction fresh body (fresh_connection d) =
    (fst (atomically m d), fresh_connection (snd (atomically m d)))"
proof -
  let ?c = "(fresh_connection d)\<lparr>in_transaction := True\<rparr>"
  obtain r0 d0 where m: "m d = (r0, d0)" by fastforce
  then have "body ?c = (r0, ?c\<lparr>working := d0\<rparr>)"
    using implementsD [OF assms, of ?c] by (simp add: fresh_connection_def)
  with m show ?thesis
    by (cases r0) (auto simp: unframed_transaction_def begin_transaction_def fresh_connection_def
      execute_begin_immediate_def seq_def handle_def comp_apply atomically_def connection_commit_def
      connection_rollback_def)
qed

lemma unframed_nested:
  assumes "implements body m" and c: "in_transaction c"
  shows "unframed_transaction fresh body c =
    (case m (working c) of
       (Inr x, d) \<Rightarrow> (Inr x, fresh_connection d)
     | (Inl e, d) \<Rightarrow> (Inl e, fresh_connection (committed c)))"
proof -
  let ?c = "c\<lparr>in_transaction := True, savepoints := (fresh, working c) # savepoints c\<rparr>"
  obtain r0 d0 where m: "m (working c) = (r0, d0)" by fastforce
  then have "body ?c = (r0, ?c\<lparr>working := d0\<rparr>)"
    using implementsD [OF assms(1), of ?c] c by simp
  with m c show ?thesis
    by (cases r0) (auto simp: unframed_transaction_def begin_transaction_def execute_savepoint_def
      fresh_connection_def seq_def handle_def comp_apply connection_commit_def connection_rollback_def)
qed

end
