(* ===== verification/Datetime.thy ===== *)
theory Datetime
  imports Calendar
begin

text \<open>
  The timestamps of the program: \<open>utc_now_iso\<close> of \<open>src/onetruth/infrastructure/events/event_store.py\<close>
  writes them, \<open>_parse_iso_datetime\<close> and \<open>_future_iso\<close> of \<open>command_boundary.py\<close> read and shift them. A
  \<open>datetime\<close> with a time zone is the number of microseconds since the day before 0001-01-01 in UTC.
  \<open>datetime.fromisoformat\<close> is modelled on the extended format with seconds and an offset, which is what
  the program writes; the other formats Python 3.11 reads (basic, week dates, shorter times, texts without
  offset, which it takes in the local time zone) give a \<open>ValueError\<close> here.

  The program stores timestamps as texts and compares the texts. The second section says what such a
  comparison means.
\<close>

section \<open>Texts and instants\<close>

definition second_us :: int where
  "second_us = 1000000"

definition day_us :: int where
  "day_us = 86400 * second_us"

definition instant_ok :: "int \<Rightarrow> bool" where
  "instant_ok t \<longleftrightarrow> day_us \<le> t \<and> t < (max_ordinal + 1) * day_us"

definition time_text :: "int \<Rightarrow> string" where
  "time_text s = pad 2 (nat (s div 3600)) @ '':'' @ pad 2 (nat (s div 60 mod 60)) @ '':'' @ pad 2 (nat (s mod 60))"

definition fraction_text :: "int \<Rightarrow> string" where
  "fraction_text u = (if u = 0 then [] else ''.'' @ pad 6 (nat u))"

text \<open>\<open>value.isoformat().replace("+00:00", "Z")\<close> in UTC.\<close>

definition date_text :: "int \<Rightarrow> string" where
  "date_text n = (case from_ordinal n of Inl _ \<Rightarrow> [] | Inr x \<Rightarrow> isoformat x)"

definition iso_text :: "int \<Rightarrow> string" where
  "iso_text t = date_text (t div day_us) @ ''T'' @ time_text (t div second_us mod 86400)
     @ fraction_text (t mod second_us) @ ''Z''"

definition replace_z :: "string \<Rightarrow> string" where
  "replace_z value = concat (map (\<lambda>c. if c = CHR ''Z'' then ''+00:00'' else [c]) value)"

definition date_atoms :: "atom list" where
  "date_atoms = [Dig, Dig, Dig, Dig, Lit (CHR ''-''), Dig, Dig, Lit (CHR ''-''), Dig, Dig]"

definition time_atoms :: "atom list" where
  "time_atoms = [Dig, Dig, Lit (CHR '':''), Dig, Dig, Lit (CHR '':''), Dig, Dig]"

definition offset_atoms :: "atom list" where
  "offset_atoms = [Dig, Dig, Lit (CHR '':''), Dig, Dig]"

definition digits_at :: "nat \<Rightarrow> nat \<Rightarrow> string \<Rightarrow> int" where
  "digits_at i n s = int (digits_val (take n (drop i s)))"

text \<open>The digits after the point, six of them; the rest is cut off.\<close>

definition microseconds_of :: "string \<Rightarrow> int" where
  "microseconds_of fraction = int (digits_val (take 6 (fraction @ ''000000'')))"

definition offset_of :: "string \<Rightarrow> int" where
  "offset_of off =
     (let n = digits_at 1 2 off * 3600 + digits_at 4 2 off * 60 in if hd off = CHR ''-'' then - n else n)"

definition in_range :: "int \<Rightarrow> int result" where
  "in_range t = (if instant_ok t then Inr t else Inl OverflowError)"

definition parse_iso_datetime :: "string \<Rightarrow> int result" where
  "parse_iso_datetime value =
     (let s = replace_z value; rest = drop 19 s;
          pointed = (rest \<noteq> [] \<and> hd rest \<in> {CHR ''.'', CHR '',''});
          fraction = (if pointed then takeWhile is_digit (tl rest) else []);
          off = (if pointed then dropWhile is_digit (tl rest) else rest)
      in if fullmatch date_atoms (take 10 s) \<and> fullmatch time_atoms (take 8 (drop 11 s))
            \<and> (pointed \<longrightarrow> fraction \<noteq> []) \<and> off \<noteq> [] \<and> hd off \<in> {CHR ''+'', CHR ''-''}
            \<and> fullmatch offset_atoms (tl off)
            \<and> digits_at 11 2 s < 24 \<and> digits_at 14 2 s < 60 \<and> digits_at 17 2 s < 60
            \<and> \<bar>offset_of off\<bar> < 86400
         then rbind (mk_date (digits_at 0 4 s) (digits_at 5 2 s) (digits_at 8 2 s)) (\<lambda>x.
           in_range ((to_ordinal x * 86400 + digits_at 11 2 s * 3600 + digits_at 14 2 s * 60
             + digits_at 17 2 s - offset_of off) * second_us + microseconds_of fraction))
         else Inl ValueError)"

text \<open>\<open>value + timedelta(seconds=n)\<close>.\<close>

definition shift_seconds :: "int \<Rightarrow> int \<Rightarrow> int result" where
  "shift_seconds t n = in_range (t + n * second_us)"

text \<open>\<open>_future_iso\<close>, the clock being read as \<open>now\<close>.\<close>

definition future_iso :: "string \<Rightarrow> int \<Rightarrow> string result" where
  "future_iso now lease_seconds =
     rbind (parse_iso_datetime now) (\<lambda>t. rbind (shift_seconds t lease_seconds) (\<lambda>u. Inr (iso_text u)))"

section \<open>The order of timestamp texts\<close>

lemma append_less:
  fixes a b :: "'a::linorder list"
  assumes "length a = length b"
  shows "a @ x < b @ y \<longleftrightarrow> a < b \<or> (a = b \<and> x < y)"
  using assms by (induction a b rule: list_induct2) auto

lemma append_le:
  fixes a b :: "'a::linorder list"
  assumes "length a = length b"
  shows "a @ x \<le> b @ y \<longleftrightarrow> a < b \<or> (a = b \<and> x \<le> y)"
  using assms by (induction a b rule: list_induct2) auto

lemma digits_val_Cons: "digits_val (c # s) = digit_val c * 10 ^ length s + digits_val s"
proof (induction s rule: rev_induct)
  case (snoc d s)
  have "digits_val ((c # s) @ [d]) = 10 * digits_val (c # s) + digit_val d"
    by (rule digits_val_snoc)
  with snoc show ?case by (simp add: algebra_simps)
qed (use digits_val_snoc [of "[]" c] in simp)

lemma digits_val_less: "(\<forall>c\<in>set s. is_digit c) \<Longrightarrow> digits_val s < 10 ^ length s"
proof (induction s)
  case (Cons c s)
  then have "code_of c \<le> 57" by (simp add: is_digit_def)
  then have "digit_val c \<le> 9" unfolding digit_val_def by linarith
  then have "digit_val c * 10 ^ length s \<le> 9 * 10 ^ length s" by (rule mult_right_mono) simp
  moreover have "digits_val s < 10 ^ length s" using Cons by simp
  moreover have "(10::nat) ^ length (c # s) = 9 * 10 ^ length s + 10 ^ length s" by simp
  ultimately show ?case unfolding digits_val_Cons by linarith
qed simp

lemma digits_less_iff:
  assumes "length a = length b" "\<forall>c\<in>set a. is_digit c" "\<forall>c\<in>set b. is_digit c"
  shows "a < b \<longleftrightarrow> digits_val a < digits_val b"
  using assms
proof (induction a b rule: list_induct2)
  case (Cons c s e t)
  have bounds: "digits_val s < 10 ^ length s" "digits_val t < 10 ^ length s"
    using Cons digits_val_less [of s] digits_val_less [of t] by simp_all
  have digits: "code_of c = 48 + digit_val c" "code_of e = 48 + digit_val e"
    using Cons.prems by (simp_all add: is_digit_def digit_val_def)
  have less: "c < e \<longleftrightarrow> digit_val c < digit_val e" using digits by (simp add: less_char_def)
  have eq: "c = e \<longleftrightarrow> digit_val c = digit_val e" using digits by (metis of_char_eq_iff)
  have far: "m * 10 ^ length s + v < n * 10 ^ length s + w"
    if "m < n" "v < 10 ^ length s" for m n v w :: nat
  proof -
    have "Suc m * 10 ^ length s \<le> n * 10 ^ length s" using that(1) by (intro mult_right_mono) simp_all
    with that(2) show ?thesis by simp
  qed
  show ?case
    using Cons bounds less eq far [of "digit_val c" "digit_val e" "digits_val s" "digits_val t"]
      far [of "digit_val e" "digit_val c" "digits_val t" "digits_val s"]
    by (cases "digit_val c" "digit_val e" rule: linorder_cases) (auto simp: digits_val_Cons)
qed simp

lemma pad_less_iff:
  assumes "m < 10 ^ w" "n < 10 ^ w" "0 < w"
  shows "pad w m < pad w n \<longleftrightarrow> m < n"
  using assms by (subst digits_less_iff) (auto simp: length_pad dest: pad_digits)

lemma pad_eq_iff: "pad w m = pad w n \<longleftrightarrow> m = n"
  by (auto dest: pad_inj)

lemma to_ordinal_less:
  assumes "valid_date x" "valid_date z"
    and "year x < year z \<or> (year x = year z \<and> (month x < month z \<or> (month x = month z \<and> day x < day z)))"
  shows "to_ordinal x < to_ordinal z"
  using assms(3)
proof (elim disjE conjE)
  assume "year x < year z"
  then have "days_before_year (year x + 1) \<le> days_before_year (year z)"
    using days_before_year_mono [of "year x + 1" "year z"] by simp
  then show ?thesis
    using valid_to_ordinal(2) [OF assms(1)] valid_to_ordinal(1) [OF assms(2)] by simp
next
  assume y: "year x = year z" and m: "month x < month z"
  let ?k = "nat (month x - 1)" and ?j = "nat (month z - 1)" and ?ls = "month_lengths (year z)"
  have k: "?k < ?j" "?j < length ?ls" "?k < length ?ls"
    using m assms by (auto simp: valid_date_def)
  have "take ?j ?ls = take (Suc ?k) ?ls @ take (?j - Suc ?k) (drop (Suc ?k) ?ls)"
    using k(1) by (metis Suc_leI le_add_diff_inverse take_add)
  moreover have "0 \<le> sum_list (take (?j - Suc ?k) (drop (Suc ?k) ?ls))"
    by (rule sum_list_nonneg) (auto dest!: in_set_takeD in_set_dropD month_lengths_pos)
  ultimately have "sum_list (take ?k ?ls) + ?ls ! ?k \<le> sum_list (take ?j ?ls)"
    using k(3) by (simp add: take_Suc_conv_app_nth)
  moreover have "day x \<le> ?ls ! ?k" "1 \<le> day z"
    using assms y by (simp_all add: valid_date_def days_in_month_def)
  ultimately show ?thesis by (simp add: to_ordinal_def y days_before_month_def)
qed (simp add: to_ordinal_def)

lemma valid_date_bounds:
  assumes "valid_date x"
  shows "0 \<le> year x" "year x < 10000" "0 \<le> month x" "month x < 100" "0 \<le> day x" "day x < 100"
proof -
  have "days_in_month (year x) (month x) \<in> set (month_lengths (year x))"
    using assms by (auto simp: valid_date_def days_in_month_def intro!: nth_mem)
  then have "day x \<le> 31" using assms month_lengths_pos by (fastforce simp: valid_date_def)
  with assms show "0 \<le> year x" "year x < 10000" "0 \<le> month x" "month x < 100" "0 \<le> day x" "day x < 100"
    by (simp_all add: valid_date_def)
qed

lemma isoformat_less_iff:
  assumes "valid_date x" "valid_date z"
  shows "isoformat x < isoformat z \<longleftrightarrow> to_ordinal x < to_ordinal z"
proof -
  note b = valid_date_bounds [OF assms(1)] valid_date_bounds [OF assms(2)]
  let ?lex = "\<lambda>x z. year x < year z \<or> (year x = year z \<and> (month x < month z \<or> (month x = month z \<and> day x < day z)))"
  have "isoformat x < isoformat z \<longleftrightarrow> ?lex x z"
    using b by (auto simp: isoformat_def append_less length_pad pad_less_iff pad_eq_iff nat_less_iff eq_nat_nat_iff)
  moreover have "?lex x z \<longleftrightarrow> to_ordinal x < to_ordinal z"
  proof
    assume less: "to_ordinal x < to_ordinal z"
    show "?lex x z"
    proof (rule ccontr)
      assume "\<not> ?lex x z"
      then have "?lex z x \<or> x = z" by (cases x; cases z) auto
      then show False using to_ordinal_less [OF assms(2,1)] less by auto
    qed
  qed (rule to_ordinal_less [OF assms])
  ultimately show ?thesis by simp
qed


lemma lex3:
  fixes h m z h' m' z' :: int
  assumes "0 \<le> m" "m < 60" "0 \<le> z" "z < 60" "0 \<le> m'" "m' < 60" "0 \<le> z'" "z' < 60"
  shows "h < h' \<or> (h = h' \<and> (m < m' \<or> (m = m' \<and> z < z'))) \<longleftrightarrow> 3600 * h + 60 * m + z < 3600 * h' + 60 * m' + z'"
  using assms by (cases h h' rule: linorder_cases; cases m m' rule: linorder_cases) auto

lemma lex2:
  fixes a x b y :: int
  assumes "0 \<le> x" "x < 86400" "0 \<le> y" "y < 86400"
  shows "a < b \<or> (a = b \<and> x < y) \<longleftrightarrow> 86400 * a + x < 86400 * b + y"
  using assms by (cases a b rule: linorder_cases) auto

lemma clock_text_less:
  fixes h m z h' m' z' :: int
  assumes "0 \<le> h" "h < 100" "0 \<le> m" "m < 100" "0 \<le> z" "z < 100"
    "0 \<le> h'" "h' < 100" "0 \<le> m'" "m' < 100" "0 \<le> z'" "z' < 100"
  shows "pad 2 (nat h) @ '':'' @ pad 2 (nat m) @ '':'' @ pad 2 (nat z)
      < pad 2 (nat h') @ '':'' @ pad 2 (nat m') @ '':'' @ pad 2 (nat z') \<longleftrightarrow>
    h < h' \<or> (h = h' \<and> (m < m' \<or> (m = m' \<and> z < z')))"
proof -
  have pad2: "length (pad 2 (nat k)) = 2" if "0 \<le> k" "k < 100" for k
    using that by (simp add: length_pad nat_less_iff)
  have less: "pad 2 (nat k) < pad 2 (nat l) \<longleftrightarrow> k < l" "pad 2 (nat k) = pad 2 (nat l) \<longleftrightarrow> k = l"
    if "0 \<le> k" "k < 100" "0 \<le> l" "l < 100" for k l
    using that by (auto simp: pad_less_iff pad_eq_iff nat_less_iff eq_nat_nat_iff)
  show ?thesis using assms by (simp add: append_less pad2 less)
qed

lemma time_text_less_iff:
  assumes "0 \<le> s" "s < 86400" "0 \<le> t" "t < 86400"
  shows "time_text s < time_text t \<longleftrightarrow> s < t"
proof -
  have bounds: "0 \<le> z div 3600" "z div 3600 < 100" "0 \<le> z div 60 mod 60" "z div 60 mod 60 < 100"
    "0 \<le> z mod 60" "z mod 60 < 100" if "0 \<le> z" "z < 86400" for z :: int
  proof -
    have "z div 60 mod 60 < 60" "z mod 60 < 60" by simp_all
    then show "z div 60 mod 60 < 100" "z mod 60 < 100" by linarith+
    show "0 \<le> z div 3600" "z div 3600 < 100" "0 \<le> z div 60 mod 60" "0 \<le> z mod 60"
      using that by simp_all
  qed
  have parts: "z = 3600 * (z div 3600) + 60 * (z div 60 mod 60) + z mod 60" for z :: int
  proof -
    have "z div 3600 = z div 60 div 60" using zdiv_zmult2_eq [of 60 z 60] by simp
    then show ?thesis using mult_div_mod_eq [of 60 z] mult_div_mod_eq [of 60 "z div 60"] by linarith
  qed
  have "time_text s < time_text t \<longleftrightarrow> s div 3600 < t div 3600 \<or> (s div 3600 = t div 3600
     \<and> (s div 60 mod 60 < t div 60 mod 60 \<or> (s div 60 mod 60 = t div 60 mod 60 \<and> s mod 60 < t mod 60)))"
    unfolding time_text_def
    by (rule clock_text_less [OF bounds [OF assms(1,2)] bounds [OF assms(3,4)]])
  also have "\<dots> \<longleftrightarrow> 3600 * (s div 3600) + 60 * (s div 60 mod 60) + s mod 60 <
      3600 * (t div 3600) + 60 * (t div 60 mod 60) + t mod 60"
    by (rule lex3) simp_all
  finally show ?thesis unfolding parts [of s, symmetric] parts [of t, symmetric] .
qed

text \<open>The part of a timestamp up to the seconds.\<close>

definition seconds_text :: "int \<Rightarrow> string" where
  "seconds_text n = date_text (n div 86400) @ ''T'' @ time_text (n mod 86400)"

lemma iso_text_parts:
  "iso_text t = seconds_text (t div second_us) @ fraction_text (t mod second_us) @ ''Z''"
proof -
  have "t div (1000000 * 86400) = t div 1000000 div 86400" by (rule zdiv_zmult2_eq) simp
  then show ?thesis by (simp add: iso_text_def seconds_text_def day_us_def second_us_def)
qed

lemma instant_ok_seconds:
  assumes "instant_ok t"
  shows "1 \<le> t div second_us div 86400 \<and> t div second_us div 86400 \<le> max_ordinal"
  using assms by (auto simp: instant_ok_def day_us_def second_us_def max_ordinal_def)

lemma date_text_eq:
  assumes "1 \<le> n" "n \<le> max_ordinal"
  obtains x where "date_text n = isoformat x" "valid_date x" "to_ordinal x = n" "from_ordinal n = Inr x"
  using from_ordinal_ok [OF assms] by (auto simp: date_text_def)

lemma length_isoformat: "valid_date x \<Longrightarrow> length (isoformat x) = 10"
  using valid_date_bounds [of x] by (simp add: isoformat_def length_pad nat_less_iff)

lemma seconds_text_less_iff:
  assumes "1 \<le> m div 86400" "m div 86400 \<le> max_ordinal" "1 \<le> n div 86400" "n div 86400 \<le> max_ordinal"
  shows "seconds_text m < seconds_text n \<longleftrightarrow> m < n"
proof -
  obtain x where x: "date_text (m div 86400) = isoformat x" "valid_date x" "to_ordinal x = m div 86400"
    using date_text_eq [OF assms(1,2)] by blast
  obtain z where z: "date_text (n div 86400) = isoformat z" "valid_date z" "to_ordinal z = n div 86400"
    using date_text_eq [OF assms(3,4)] by blast
  have same: "isoformat x = isoformat z \<longleftrightarrow> m div 86400 = n div 86400"
    using isoformat_less_iff [OF x(2) z(2)] isoformat_less_iff [OF z(2) x(2)] to_ordinal_inj [OF x(2) z(2)] x(3) z(3)
    by (metis less_irrefl linorder_neqE)
  have "seconds_text m < seconds_text n \<longleftrightarrow> m div 86400 < n div 86400
      \<or> (m div 86400 = n div 86400 \<and> m mod 86400 < n mod 86400)"
    using x z same
    by (simp add: seconds_text_def append_less length_isoformat isoformat_less_iff time_text_less_iff)
  also have "\<dots> \<longleftrightarrow> 86400 * (m div 86400) + m mod 86400 < 86400 * (n div 86400) + n mod 86400"
    by (rule lex2) simp_all
  also have "\<dots> \<longleftrightarrow> m < n" by (simp only: mult_div_mod_eq)
  finally show ?thesis .
qed

lemma length_seconds_text:
  assumes "1 \<le> n div 86400" "n div 86400 \<le> max_ordinal"
  shows "length (seconds_text n) = 19"
proof -
  obtain x where "date_text (n div 86400) = isoformat x" "valid_date x"
    using date_text_eq [OF assms] by blast
  then show ?thesis
    by (simp add: seconds_text_def length_isoformat time_text_def length_pad nat_less_iff)
qed

lemma fraction_le_iff:
  assumes "0 \<le> u" "u < second_us" "0 \<le> v" "v < second_us"
  shows "fraction_text u @ ''Z'' \<le> fraction_text v @ ''Z'' \<longleftrightarrow> v = 0 \<or> (u \<noteq> 0 \<and> u \<le> v)"
proof -
  have p: "length (pad 6 (nat w)) = 6" if "0 \<le> w" "w < second_us" for w
    using that by (intro length_pad) (simp_all add: second_us_def nat_less_iff)
  have l: "pad 6 (nat u) < pad 6 (nat v) \<longleftrightarrow> u < v"
    using assms by (subst pad_less_iff) (auto simp: second_us_def nat_less_iff)
  have less: "CHR ''.'' < CHR ''Z''" by (simp add: less_char_def)
  show ?thesis
    using assms p [of u] p [of v] l less
    by (cases "u = 0"; cases "0 < v") (auto simp: fraction_text_def append_le pad_eq_iff)
qed

lemma text_order:
  assumes "instant_ok s" "instant_ok t"
  shows "iso_text s \<le> iso_text t \<longleftrightarrow> s div second_us < t div second_us
    \<or> (s div second_us = t div second_us
       \<and> (t mod second_us = 0 \<or> (s mod second_us \<noteq> 0 \<and> s mod second_us \<le> t mod second_us)))"
proof -
  note i = instant_ok_seconds [OF assms(1)] instant_ok_seconds [OF assms(2)]
  have less: "seconds_text (s div second_us) < seconds_text (t div second_us) \<longleftrightarrow> s div second_us < t div second_us"
    "seconds_text (t div second_us) < seconds_text (s div second_us) \<longleftrightarrow> t div second_us < s div second_us"
    using i by (simp_all add: seconds_text_less_iff)
  then have same: "seconds_text (s div second_us) = seconds_text (t div second_us) \<longleftrightarrow> s div second_us = t div second_us"
    by (metis less_irrefl linorder_neqE)
  have len: "length (seconds_text (s div second_us)) = length (seconds_text (t div second_us))"
    using i by (simp add: length_seconds_text)
  have f: "fraction_text (s mod second_us) @ ''Z'' \<le> fraction_text (t mod second_us) @ ''Z'' \<longleftrightarrow>
      t mod second_us = 0 \<or> (s mod second_us \<noteq> 0 \<and> s mod second_us \<le> t mod second_us)"
    by (rule fraction_le_iff) (simp_all add: second_us_def)
  show ?thesis unfolding iso_text_parts append_le [OF len] less same f ..
qed


section \<open>Reading back what was written\<close>

lemma date_fields:
  assumes "length ys = 4" "length ms = 2" "length ds = 2" "length hs = 2" "length is = 2" "length ss = 2"
    and s: "s = ys @ ''-'' @ ms @ ''-'' @ ds @ c # hs @ '':'' @ is @ '':'' @ ss @ rest"
  shows "take 10 s = ys @ ''-'' @ ms @ ''-'' @ ds" "take 8 (drop 11 s) = hs @ '':'' @ is @ '':'' @ ss"
    "drop 19 s = rest"
    "digits_at 0 4 s = int (digits_val ys)" "digits_at 5 2 s = int (digits_val ms)" "digits_at 8 2 s = int (digits_val ds)"
    "digits_at 11 2 s = int (digits_val hs)" "digits_at 14 2 s = int (digits_val is)" "digits_at 17 2 s = int (digits_val ss)"
  using assms(1-6) unfolding s by (simp_all add: digits_at_def)

lemma atoms_match:
  assumes "length ms = 2" "length ds = 2" "\<forall>c\<in>set ys \<union> set ms \<union> set ds. is_digit c"
  shows "length ys = 4 \<Longrightarrow> fullmatch date_atoms (ys @ ''-'' @ ms @ ''-'' @ ds)"
    and "length ys = 2 \<Longrightarrow> fullmatch time_atoms (ys @ '':'' @ ms @ '':'' @ ds)"
proof -
  have lits: "fullmatch (Lit a # ps) (a # s) = fullmatch ps s" for a ps s by (simp add: fullmatch_def)
  have date: "date_atoms = replicate 4 Dig @ Lit (CHR ''-'') # replicate 2 Dig @ Lit (CHR ''-'') # replicate 2 Dig"
    by (simp add: date_atoms_def numeral_eq_Suc)
  have time: "time_atoms = replicate 2 Dig @ Lit (CHR '':'') # replicate 2 Dig @ Lit (CHR '':'') # replicate 2 Dig"
    by (simp add: time_atoms_def numeral_eq_Suc)
  show "length ys = 4 \<Longrightarrow> fullmatch date_atoms (ys @ ''-'' @ ms @ ''-'' @ ds)"
    using assms by (simp add: date fullmatch_append lits fullmatch_digits)
  show "length ys = 2 \<Longrightarrow> fullmatch time_atoms (ys @ '':'' @ ms @ '':'' @ ds)"
    using assms by (simp add: time fullmatch_append lits fullmatch_digits)
qed

lemma replace_z_other: "CHR ''Z'' \<notin> set s \<Longrightarrow> replace_z (s @ t) = s @ replace_z t"
  by (induction s) (auto simp: replace_z_def)

lemma iso_text_fields:
  assumes "instant_ok t"
  obtains x h i s where "valid_date x" "to_ordinal x = t div second_us div 86400"
    "0 \<le> h" "h < 24" "0 \<le> i" "i < 60" "0 \<le> s" "s < 60" "h * 3600 + i * 60 + s = t div second_us mod 86400"
    "seconds_text (t div second_us) = pad 4 (nat (year x)) @ ''-'' @ pad 2 (nat (month x)) @ ''-'' @ pad 2 (nat (day x))
       @ CHR ''T'' # pad 2 (nat h) @ '':'' @ pad 2 (nat i) @ '':'' @ pad 2 (nat s)"
proof -
  define n where "n = t div second_us"
  obtain x where x: "date_text (n div 86400) = isoformat x" "valid_date x" "to_ordinal x = n div 86400"
    using date_text_eq instant_ok_seconds [OF assms] unfolding n_def by metis
  define z where "z = n mod 86400"
  have z: "0 \<le> z" "z < 86400" by (simp_all add: z_def)
  have "z div 3600 = z div 60 div 60" using zdiv_zmult2_eq [of 60 z 60] by simp
  then have parts: "z div 3600 * 3600 + z div 60 mod 60 * 60 + z mod 60 = z"
    using mult_div_mod_eq [of 60 z] mult_div_mod_eq [of 60 "z div 60"] by linarith
  have hour: "0 \<le> z div 3600" "z div 3600 < 24" using z by simp_all
  show thesis
    by (rule that [of x "z div 3600" "z div 60 mod 60" "z mod 60"])
       (use x parts hour z in \<open>simp_all add: n_def [symmetric] z_def [symmetric] seconds_text_def isoformat_def time_text_def\<close>)
qed

lemma not_digit: "\<not> is_digit (CHR ''+'')" "\<not> is_digit (CHR ''Z'')" "\<not> is_digit (CHR '':'')"
  by (simp_all add: is_digit_def)

lemma utc_offset: "fullmatch offset_atoms ''00:00''" "offset_of ''+00:00'' = 0" "microseconds_of [] = 0"
  by code_simp+

lemma parse_iso_text:
  assumes t: "instant_ok t"
  shows "parse_iso_datetime (iso_text t) = Inr t"
proof -
  obtain x h i s where f: "valid_date x" "to_ordinal x = t div second_us div 86400"
    "0 \<le> h" "h < 24" "0 \<le> i" "i < 60" "0 \<le> s" "s < 60" "h * 3600 + i * 60 + s = t div second_us mod 86400"
    "seconds_text (t div second_us) = pad 4 (nat (year x)) @ ''-'' @ pad 2 (nat (month x)) @ ''-'' @ pad 2 (nat (day x))
       @ CHR ''T'' # pad 2 (nat h) @ '':'' @ pad 2 (nat i) @ '':'' @ pad 2 (nat s)"
    using iso_text_fields [OF t] by blast
  let ?u = "t mod second_us"
  let ?F = "fraction_text ?u"
  note b = valid_date_bounds [OF f(1)]
  have u: "0 \<le> ?u" "?u < second_us" by (simp_all add: second_us_def)
  have len: "length (pad 4 (nat (year x))) = 4" "length (pad 2 (nat (month x))) = 2" "length (pad 2 (nat (day x))) = 2"
    "length (pad 2 (nat h)) = 2" "length (pad 2 (nat i)) = 2" "length (pad 2 (nat s)) = 2" "length (pad 6 (nat ?u)) = 6"
    using b f(3-8) u by (simp_all add: length_pad nat_less_iff second_us_def)
  have digits: "\<And>w n c. c \<in> set (pad w n) \<Longrightarrow> is_digit c \<and> c \<noteq> CHR ''Z''"
    using pad_digits not_digit(2) by metis
  have no_z: "CHR ''Z'' \<notin> set (seconds_text (t div second_us))" "CHR ''Z'' \<notin> set ?F"
    using digits unfolding f(10) fraction_text_def by auto
  have whole: "replace_z (iso_text t) = seconds_text (t div second_us) @ ?F @ ''+00:00''"
  proof -
    have "replace_z (seconds_text (t div second_us) @ ?F @ ''Z'') = seconds_text (t div second_us) @ ?F @ replace_z ''Z''"
      unfolding replace_z_other [OF no_z(1)] replace_z_other [OF no_z(2)] ..
    then show ?thesis by (simp add: iso_text_parts replace_z_def)
  qed
  have s: "replace_z (iso_text t) = pad 4 (nat (year x)) @ ''-'' @ pad 2 (nat (month x)) @ ''-'' @ pad 2 (nat (day x))
       @ CHR ''T'' # pad 2 (nat h) @ '':'' @ pad 2 (nat i) @ '':'' @ pad 2 (nat s) @ ?F @ ''+00:00''"
    unfolding whole f(10) by simp
  note fields = date_fields [OF len(1-6) s]
  have atoms: "fullmatch date_atoms (take 10 (replace_z (iso_text t)))" "fullmatch time_atoms (take 8 (drop 11 (replace_z (iso_text t))))"
    unfolding fields
    using atoms_match(1) [OF len(2,3) _ len(1)] atoms_match(2) [OF len(5,6) _ len(4)] digits by blast+
  have date: "mk_date (int (nat (year x))) (int (nat (month x))) (int (nat (day x))) = Inr x"
    using f(1) b by (simp add: mk_date_def valid_date_def)
  have instant: "(to_ordinal x * 86400 + h * 3600 + i * 60 + s) * second_us + ?u = t"
  proof -
    have "to_ordinal x * 86400 + h * 3600 + i * 60 + s = t div second_us"
      using f(2,9) mult_div_mod_eq [of 86400 "t div second_us"] by linarith
    then show ?thesis using mult_div_mod_eq [of second_us t] by (simp add: mult.commute)
  qed
  have offset: "hd ''+00:00'' \<in> {CHR ''+'', CHR ''-''}" by simp
  show ?thesis
  proof (cases "?u = 0")
    case True
    then have F: "?F = []" by (simp add: fraction_text_def)
    show ?thesis
      unfolding parse_iso_datetime_def Let_def fields F
      using atoms date instant True t f(3-8) utc_offset
      by (simp add: fields in_range_def)
  next
    case False
    then have F: "?F = CHR ''.'' # pad 6 (nat ?u)" by (simp add: fraction_text_def)
    have span: "takeWhile is_digit (pad 6 (nat ?u) @ ''+00:00'') = pad 6 (nat ?u)"
      "dropWhile is_digit (pad 6 (nat ?u) @ ''+00:00'') = ''+00:00''"
      using digits not_digit by (auto simp: takeWhile_append2 dropWhile_append2)
    have us: "microseconds_of (pad 6 (nat ?u)) = ?u" "pad 6 (nat ?u) \<noteq> []"
      using len(7) u by (auto simp: microseconds_of_def)
    show ?thesis
      unfolding parse_iso_datetime_def Let_def fields F
      using atoms date instant t f(3-8) utc_offset us span
      by (simp add: fields in_range_def)
  qed
qed

section \<open>Properties\<close>

lemma sample_day: "date_text 739676 = ''2026-03-01''"
proof -
  have "to_ordinal \<lparr>year = 2026, month = 3, day = 1\<rparr> = 739676" "valid_date \<lparr>year = 2026, month = 3, day = 1\<rparr>"
    "isoformat \<lparr>year = 2026, month = 3, day = 1\<rparr> = ''2026-03-01''"
    by code_simp+
  with from_to_ordinal [of "\<lparr>year = 2026, month = 3, day = 1\<rparr>"] show ?thesis by (simp add: date_text_def)
qed

lemma sample_pads: "pad 2 8 = ''08''" "pad 2 9 = ''09''" "pad 2 0 = ''00''"
  by code_simp+

lemma sample_fraction: "pad 6 500000 = ''500000''"
proof -
  have "digit_char 5 = CHR ''5''" "digit_char 0 = CHR ''0''" by code_simp+
  then show ?thesis by (simp add: pad_def dec.simps)
qed

lemma sample_times:
  "iso_text 63908035200000000 = ''2026-03-01T08:00:00Z''" "iso_text 63908038800000000 = ''2026-03-01T09:00:00Z''"
  "iso_text 63908038800500000 = ''2026-03-01T09:00:00.500000Z''"
  by (simp_all add: iso_text_def day_us_def second_us_def sample_day time_text_def fraction_text_def sample_pads sample_fraction)

lemma sample_instants: "instant_ok 63908035200000000" "instant_ok 63908038800000000" "instant_ok 63908038800500000"
  by (simp_all add: instant_ok_def day_us_def second_us_def max_ordinal_def)

text \<open>
  Reading back a written timestamp gives the instant; a lease taken at it expires that many seconds later, and
  past the last day of year 9999 computing its end raises.
\<close>

lemma written_timestamps_read_back:
  assumes "instant_ok t"
  shows "parse_iso_datetime (iso_text t) = Inr t
    \<and> future_iso (iso_text t) n = (if instant_ok (t + n * second_us) then Inr (iso_text (t + n * second_us)) else Inl OverflowError)"
  by (simp add: future_iso_def parse_iso_text [OF assms] shift_seconds_def in_range_def)

end
