(* ===== verification/Execution_Commands.thy ===== *)
theory Execution_Commands
  imports Command_Effects Datetime Artifact_Versions Executions Capabilities
begin

text \<open>
  The execution runtime, \<open>src/onetruth/application/handlers/execution_runtime.py\<close>, and the repository of its
  policy decisions, \<open>src/onetruth/infrastructure/repositories/policy_decisions.py\<close>: sessions are created
  and moved, tool executions requested in them, decided by a policy, attempted, completed, and reconciled
  when their session was idle too long. The handlers that end their transaction without a frame are
  modelled by what they do on the outermost level, all or nothing.
\<close>

section \<open>Policy decisions\<close>

definition insert_policy_decision :: "policy_decision_row \<Rightarrow> (unit, db) comp" where
  "insert_policy_decision r d =
     (if exists_row (\<lambda>x. pd_id x = pd_id r) (policy_decisions d)
      then raise (IntegrityError ''UNIQUE constraint failed: policy_decisions.policy_decision_id'') d
      else if pd_tool r \<noteq> None \<and> exists_row (\<lambda>x. pd_tool x = pd_tool r) (policy_decisions d)
      then raise (IntegrityError ''UNIQUE constraint failed: policy_decisions.tool_execution_id'') d
      else if \<not> fk_ok (pd_tool r) (map te_id (tool_executions d)) then raise fk_failed d
      else (Inr (), d\<lparr>policy_decisions := policy_decisions d @ [r]\<rparr>))"

definition create_policy_decision ::
    "string \<Rightarrow> dict \<Rightarrow> string \<Rightarrow> string option \<Rightarrow> string option \<Rightarrow> string option \<Rightarrow> string \<Rightarrow> (unit, db) comp" where
  "create_policy_decision policy_decision_id principal_actor decision reason_code required_approval_action
       tool_execution_id decided_at =
     insert_policy_decision \<lparr>pd_id = policy_decision_id, pd_principal = principal_actor, pd_decision = decision,
       pd_reason = reason_code, pd_approval_action = required_approval_action, pd_tool = tool_execution_id,
       pd_decided_at = decided_at\<rparr>"

definition get_policy_decision :: "db \<Rightarrow> string \<Rightarrow> policy_decision_row option" where
  "get_policy_decision d policy_decision_id = select_one (\<lambda>r. pd_id r = policy_decision_id) (policy_decisions d)"

definition get_policy_decision_for_tool_execution :: "db \<Rightarrow> string \<Rightarrow> policy_decision_row option" where
  "get_policy_decision_for_tool_execution d tool_execution_id =
     select_one (\<lambda>r. pd_tool r = Some tool_execution_id) (policy_decisions d)"

section \<open>Rows as the handlers return them\<close>

definition opt_json :: "('a \<Rightarrow> json) \<Rightarrow> 'a option \<Rightarrow> json" where
  "opt_json f x = (case x of None \<Rightarrow> JNull | Some y \<Rightarrow> f y)"

definition session_dict :: "session_row \<Rightarrow> dict" where
  "session_dict r =
     [(''execution_session_id'', JStr (es_id r)), (''workflow_run_id'', JStr (es_run r)),
      (''task_run_id'', JStr (es_task_run r)), (''execution_spec_id'', JStr (es_spec r)),
      (''state'', JStr (es_state r)), (''owner_mode'', JStr (es_owner_mode r)),
      (''principal_actor'', opt_json id (es_principal r)), (''budget'', opt_json id (es_budget r)),
      (''tool_call_count'', JInt (es_tool_calls r)), (''created_at'', JStr (es_created_at r)),
      (''updated_at'', JStr (es_updated_at r)), (''closed_at'', of_opt (es_closed_at r))]"

definition tool_execution_dict :: "tool_execution_row \<Rightarrow> dict" where
  "tool_execution_dict r =
     [(''tool_execution_id'', JStr (te_id r)), (''execution_session_id'', JStr (te_session r)),
      (''tool_class'', JStr (te_class r)), (''tool_name'', of_opt (te_name r)), (''state'', JStr (te_state r)),
      (''idempotency_key'', JStr (te_idem r)), (''attempt_no'', JInt (te_attempt_no r)),
      (''policy_decision_id'', of_opt (te_policy r)), (''output_artifact_version_ids'', opt_json str_list (te_outputs r)),
      (''requested_at'', JStr (te_requested_at r)), (''completed_at'', of_opt (te_completed_at r)),
      (''error_code'', of_opt (te_error r))]"

definition policy_decision_dict :: "policy_decision_row \<Rightarrow> dict" where
  "policy_decision_dict r =
     [(''policy_decision_id'', JStr (pd_id r)), (''principal_actor'', JObj (pd_principal r)),
      (''decision'', JStr (pd_decision r)), (''reason_code'', of_opt (pd_reason r)),
      (''required_approval_action'', of_opt (pd_approval_action r)), (''tool_execution_id'', of_opt (pd_tool r)),
      (''decided_at'', JStr (pd_decided_at r))]"

definition tool_attempt_dict :: "tool_attempt_row \<Rightarrow> dict" where
  "tool_attempt_dict r =
     [(''tool_execution_attempt_id'', JStr (ta_id r)), (''tool_execution_id'', JStr (ta_tool r)),
      (''execution_session_id'', JStr (ta_session r)), (''attempt_no'', JInt (int (ta_no r))),
      (''lease_token'', JStr (ta_lease r)), (''state'', JStr (ta_state r)),
      (''active_tool_execution_id'', of_opt (ta_active r)),
      (''output_artifact_version_ids'', opt_json str_list (ta_outputs r)), (''started_at'', JStr (ta_started_at r)),
      (''completed_at'', of_opt (ta_completed_at r)), (''error_code'', of_opt (ta_error r)),
      (''created_at'', JStr (ta_created_at r)), (''updated_at'', JStr (ta_updated_at r))]"

section \<open>States\<close>

definition execution_session_states :: "string list" where
  "execution_session_states = [''CREATED'', ''RUNNING'', ''WAITING_POLICY'', ''WAITING_APPROVAL'', ''PAUSED'',
     ''SUCCEEDED'', ''FAILED'', ''CANCELED'']"

definition tool_execution_states :: "string list" where
  "tool_execution_states = [''REQUESTED'', ''APPROVED'', ''DENIED'', ''RUNNING'', ''COMPLETED'', ''FAILED'', ''CANCELED'']"

definition policy_decision_kinds :: "string list" where
  "policy_decision_kinds = [''allow'', ''deny'', ''require_approval'']"

definition closed_session_states :: "string list" where
  "closed_session_states = [''SUCCEEDED'', ''FAILED'', ''CANCELED'']"

definition attempt_error_to_command_error :: "exc \<Rightarrow> exc" where
  "attempt_error_to_command_error e = (case e of ToolExecutionAttemptError code \<Rightarrow> CommandError code | _ \<Rightarrow> e)"

text \<open>The subjects of the events about a session.\<close>

definition session_links :: "session_row \<Rightarrow> json list" where
  "session_links s = [link ''workflow_run'' (es_run s), link ''task_run'' (es_task_run s),
     link ''execution_session'' (es_id s)]"

definition session_changed :: "string \<Rightarrow> string \<Rightarrow> string \<Rightarrow> json \<Rightarrow> dict" where
  "session_changed execution_session_id from_state to_state why =
     [(''execution_session_id'', JStr execution_session_id), (''from_state'', JStr from_state),
      (''to_state'', JStr to_state), (''reason'', why)]"

definition closing_time :: "string \<Rightarrow> string \<Rightarrow> string option" where
  "closing_time state now = (if state \<in> set closed_session_states then Some now else None)"

section \<open>Creating a session\<close>

definition validate_principal :: "json \<Rightarrow> unit result" where
  "validate_principal principal_actor = (case principal_actor of
     JNull \<Rightarrow> Inr ()
   | JObj p \<Rightarrow>
       if jget p ''type'' = JNull \<or> jget p ''id'' = JNull then Inl (CommandError ''invalid_principal_actor'')
       else assert_actor_type (py_str (jget p ''type''))
   | _ \<Rightarrow> Inl (CommandError ''invalid_principal_actor''))"

definition dict_or_none :: "json \<Rightarrow> dict option" where
  "dict_or_none v = (case v of JObj p \<Rightarrow> Some p | _ \<Rightarrow> None)"

definition create_session_operation ::
    "effect_env \<Rightarrow> dict \<Rightarrow> string \<Rightarrow> string \<Rightarrow> string \<Rightarrow> receipt_context option \<Rightarrow> (dict, db) comp" where
  "create_session_operation env payload execution_session_id owner_mode initial_state receipt =
     (let workflow_run_id = py_str (jget payload ''workflow_run_id'');
          task_run_id = py_str (jget payload ''task_run_id'');
          spec = py_str (jget payload ''execution_spec_id'');
          actor_type = str_field payload ''actor_type'' ''system'';
          actor_id = str_field payload ''actor_id'' ''system:runtime'';
          principal_actor = jget payload ''principal_actor'';
          budget = jget payload ''budget'';
          links = [link ''workflow_run'' workflow_run_id, link ''task_run'' task_run_id,
            link ''execution_session'' execution_session_id];
          now = fe_now env in
      seq (\<lambda>d. (workflow_scope d workflow_run_id, d)) (\<lambda>scope.
      seq (\<lambda>d. (validate_task_run_belongs_to_workflow d task_run_id workflow_run_id, d)) (\<lambda>_.
      seq (of_result (validate_principal principal_actor)) (\<lambda>_.
      seq (of_result (require (budget = JNull \<or> dict_or_none budget \<noteq> None) (CommandError ''invalid_execution_budget'')))
      (\<lambda>_.
      seq (of_result (int_field payload ''tool_call_count'' 0)) (\<lambda>tool_call_count.
      seq (create_execution_session execution_session_id workflow_run_id task_run_id spec ''CREATED'' owner_mode
            (dict_or_none principal_actor) (dict_or_none budget) tool_call_count now) (\<lambda>_.
      seq (emit env ''execution.session.created'' (ws_tenant scope) (ws_domain scope) actor_type actor_id
            (links @ [rel_link ''uses_execution_spec'' ''execution_spec'' spec])
            [(''execution_session_id'', JStr execution_session_id), (''execution_spec_id'', JStr spec),
             (''owner_mode'', JStr owner_mode),
             (''principal_actor_type'', case principal_actor of
                JObj p \<Rightarrow> of_opt (opt_str (jget p ''type'')) | _ \<Rightarrow> JNull)]
            (receipt_event_idempotency_key receipt ''execution-sessions.create.execution.session.created'')) (\<lambda>_.
      seq (if initial_state = ''CREATED'' then ret ()
           else
             seq (transition_execution_session_state execution_session_id [''CREATED''] initial_state now
                   (closing_time initial_state now)) (\<lambda>transitioned.
             seq (found_or (CommandError ''execution_session_transition_conflict'') transitioned) (\<lambda>_.
             seq (emit env ''execution.session.state_changed'' (ws_tenant scope) (ws_domain scope) actor_type actor_id
                   links (session_changed execution_session_id ''CREATED'' initial_state (JStr ''initial_state''))
                   (receipt_event_idempotency_key receipt ''execution-sessions.create.execution.session.state_changed''))
               (\<lambda>_. ret ())))) (\<lambda>_.
      seq (asks (\<lambda>d. get_execution_session d execution_session_id)) (\<lambda>session.
      seq (found_or (CommandError ''execution_session_not_found'') session) (\<lambda>s.
      ret (session_dict s))))))))))))"

definition create_session_error :: "exc \<Rightarrow> exc" where
  "create_session_error e = (case e of
     IntegrityError message \<Rightarrow> if contains ''execution_sessions.execution_session_id'' message
       then CommandError ''duplicate_execution_session_id'' else e
   | _ \<Rightarrow> e)"

definition create_execution_session_command :: "effect_env \<Rightarrow> dict \<Rightarrow> bool \<Rightarrow> (dict, db) comp" where
  "create_execution_session_command env payload include_receipt =
     seq (of_result (require_fields payload
       [''workflow_run_id'', ''task_run_id'', ''execution_spec_id'', ''owner_mode'', ''idempotency_key''])) (\<lambda>_.
     let owner_mode = py_str (jget payload ''owner_mode'');
         initial_state = str_field payload ''state'' ''RUNNING'';
         requested_execution_session_id = jget payload ''execution_session_id'';
         execution_session_id = py_str (py_or requested_execution_session_id (JStr (''xs-'' @ fe_uuid env))) in
     seq (of_result (require (owner_mode \<in> {''human'', ''agent'', ''service'', ''mixed''})
       (CommandError ''invalid_owner_mode''))) (\<lambda>_.
     seq (of_result (require (initial_state \<in> set execution_session_states)
       (CommandError ''invalid_execution_session_state''))) (\<lambda>_.
     seq (of_result (int_field payload ''tool_call_count'' 0)) (\<lambda>tool_call_count.
     seq (of_result (prepare_command_receipt ''execution-sessions.create'' payload
       [(''execution_session_id'', of_opt (opt_str requested_execution_session_id)),
        (''workflow_run_id'', JStr (py_str (jget payload ''workflow_run_id''))),
        (''task_run_id'', JStr (py_str (jget payload ''task_run_id''))),
        (''execution_spec_id'', JStr (py_str (jget payload ''execution_spec_id''))),
        (''owner_mode'', JStr owner_mode), (''state'', JStr initial_state),
        (''principal_actor'', jget payload ''principal_actor''), (''budget'', jget payload ''budget''),
        (''tool_call_count'', JInt tool_call_count),
        (''actor_id'', JStr (str_field payload ''actor_id'' ''system:runtime'')),
        (''actor_type'', JStr (str_field payload ''actor_type'' ''system''))]
       None None (Some (py_str (jget payload ''workflow_run_id''))) True)) (\<lambda>receipt.
     seq (handle (execute_with_command_receipt receipt
           (create_session_operation env payload execution_session_id owner_mode initial_state receipt))
         (\<lambda>e. raise (create_session_error e))) (\<lambda>outcome.
     ret (command_receipt_payload (fst outcome) receipt (snd outcome) include_receipt)))))))"

section \<open>Requesting a tool execution\<close>

definition request_tool_operation ::
    "effect_env \<Rightarrow> dict \<Rightarrow> string \<Rightarrow> receipt_context option \<Rightarrow> (dict, db) comp" where
  "request_tool_operation env payload tool_execution_id receipt =
     (let execution_session_id = py_str (jget payload ''execution_session_id'');
          tool_class = py_str (jget payload ''tool_class'');
          idempotency_key = py_str (jget payload ''idempotency_key'');
          now = fe_now env in
      seq (asks (\<lambda>d. get_execution_session d execution_session_id)) (\<lambda>session.
      seq (found_or (CommandError ''execution_session_not_found'') session) (\<lambda>s.
      seq (of_result (require (es_state s \<notin> set closed_session_states) (CommandError ''execution_session_closed''))) (\<lambda>_.
      seq (\<lambda>d. (workflow_scope d (es_run s), d)) (\<lambda>scope.
      seq (of_result (int_field payload ''attempt_no'' 0)) (\<lambda>attempt_no.
      seq (create_tool_execution tool_execution_id execution_session_id tool_class (opt_field payload ''tool_name'')
            ''REQUESTED'' idempotency_key attempt_no None None now None None) (\<lambda>_.
      seq (increment_tool_call_count execution_session_id now) (\<lambda>incremented.
      seq (found_or (CommandError ''execution_session_not_found'') incremented) (\<lambda>_.
      seq (emit env ''tool.execution.requested'' (ws_tenant scope) (ws_domain scope)
            (str_field payload ''actor_type'' ''system'') (str_field payload ''actor_id'' ''system:runtime'')
            (session_links s @ [link ''tool_execution'' tool_execution_id])
            [(''tool_execution_id'', JStr tool_execution_id), (''tool_class'', JStr tool_class),
             (''idempotency_key'', JStr idempotency_key), (''tool_name'', of_opt (opt_field payload ''tool_name''))]
            (receipt_event_idempotency_key receipt ''tool-executions.request.tool.execution.requested'')) (\<lambda>_.
      seq (asks (\<lambda>d. get_tool_execution d tool_execution_id)) (\<lambda>tool_execution.
      seq (found_or (CommandError ''tool_execution_not_found'') tool_execution) (\<lambda>t.
      ret (tool_execution_dict t)))))))))))))"

text \<open>
  What becomes of an integrity error: the names looked for are those of the primary key column, which
  SQLite reports, and of the unique constraint, which it does not.
\<close>

definition request_tool_recovery ::
    "dict \<Rightarrow> exc \<Rightarrow> (dict \<times> bool, db) comp" where
  "request_tool_recovery payload e = (case e of
     IntegrityError message \<Rightarrow>
       if contains ''tool_executions.tool_execution_id'' message
       then raise (CommandError ''duplicate_tool_execution_id'')
       else if contains ''uq_tool_executions_session_idempotency'' message
       then seq (asks (\<lambda>d. get_tool_execution_by_session_idempotency d
              (py_str (jget payload ''execution_session_id'')) (py_str (jget payload ''idempotency_key'')))) (\<lambda>existing.
            case existing of
              Some t \<Rightarrow> ret (tool_execution_dict t, True)
            | None \<Rightarrow> raise (CommandError ''duplicate_tool_execution_idempotency''))
       else raise e
   | _ \<Rightarrow> raise e)"

definition request_tool_execution_command :: "effect_env \<Rightarrow> dict \<Rightarrow> bool \<Rightarrow> (dict, db) comp" where
  "request_tool_execution_command env payload include_receipt =
     seq (of_result (require_fields payload [''execution_session_id'', ''tool_class'', ''idempotency_key''])) (\<lambda>_.
     seq (of_result (int_field payload ''attempt_no'' 0)) (\<lambda>attempt_no.
     seq (of_result (prepare_command_receipt ''tool-executions.request'' payload
       [(''tool_execution_id'', jget payload ''tool_execution_id''),
        (''execution_session_id'', JStr (py_str (jget payload ''execution_session_id''))),
        (''tool_class'', JStr (py_str (jget payload ''tool_class''))),
        (''tool_name'', of_opt (opt_field payload ''tool_name'')),
        (''attempt_no'', JInt attempt_no),
        (''actor_id'', JStr (str_field payload ''actor_id'' ''system:runtime'')),
        (''actor_type'', JStr (str_field payload ''actor_type'' ''system''))]
       None None None True)) (\<lambda>receipt.
     let tool_execution_id = py_str (py_or (jget payload ''tool_execution_id'') (JStr (''tx-'' @ fe_uuid env))) in
     seq (handle (execute_with_command_receipt receipt (request_tool_operation env payload tool_execution_id receipt))
         (request_tool_recovery payload)) (\<lambda>outcome.
     ret (command_receipt_payload (fst outcome) receipt (snd outcome) include_receipt)))))"

section \<open>Deciding a tool execution\<close>

text \<open>\<open>"key": row\<close> of a returned payload; a missing row is null.\<close>

definition evaluation_dict ::
    "tool_execution_row \<Rightarrow> policy_decision_row option \<Rightarrow> session_row option \<Rightarrow> dict" where
  "evaluation_dict t p s =
     [(''tool_execution'', JObj (tool_execution_dict t)),
      (''policy_decision'', opt_json (\<lambda>p. JObj (policy_decision_dict p)) p),
      (''execution_session'', opt_json (\<lambda>s. JObj (session_dict s)) s)]"

record policy_request =
  pq_decision :: string
  pq_principal :: dict
  pq_id :: string
  pq_tool_key :: string
  pq_session_key :: string

definition policy_allow ::
    "effect_env \<Rightarrow> policy_request \<Rightarrow> tool_execution_row \<Rightarrow> session_row \<Rightarrow> run_scope \<Rightarrow> (dict, db) comp" where
  "policy_allow env q t s scope =
     (let actor_type = py_str (jget (pq_principal q) ''type''); actor_id = py_str (jget (pq_principal q) ''id'');
          now = fe_now env; conflict = CommandError ''execution_session_transition_conflict'' in
      seq (transition_tool_execution_state (te_id t) [''REQUESTED''] ''APPROVED'' (Some (pq_id q)) None None None)
      (\<lambda>transitioned.
      seq (found_or (CommandError ''tool_execution_transition_conflict'') transitioned) (\<lambda>t'.
      seq (emit env ''tool.execution.approved'' (ws_tenant scope) (ws_domain scope) actor_type actor_id
            (session_links s @ [link ''tool_execution'' (te_id t), link ''policy_decision'' (pq_id q)])
            [(''tool_execution_id'', JStr (te_id t)), (''tool_class'', JStr (te_class t)),
             (''policy_decision_id'', JStr (pq_id q))] (Some (pq_tool_key q))) (\<lambda>_.
      seq (if es_state s = ''RUNNING'' then ret s
           else
             seq (transition_execution_session_state (es_id s) [''CREATED'', ''WAITING_POLICY'', ''PAUSED''] ''RUNNING''
                   now None) (\<lambda>moved.
             seq (found_or conflict moved) (\<lambda>s'.
             seq (emit env ''execution.session.state_changed'' (ws_tenant scope) (ws_domain scope) actor_type actor_id
                   (session_links s) (session_changed (es_id s) (es_state s) ''RUNNING'' (JStr ''policy_allow''))
                   (Some (pq_session_key q))) (\<lambda>_. ret s')))) (\<lambda>s'.
      seq (asks (\<lambda>d. get_policy_decision d (pq_id q))) (\<lambda>p.
      ret (evaluation_dict t' p (Some s'))))))))"

definition denied_session_state :: "string \<Rightarrow> string" where
  "denied_session_state decision = (if decision = ''require_approval'' then ''WAITING_APPROVAL'' else ''FAILED'')"

definition policy_deny ::
    "effect_env \<Rightarrow> policy_request \<Rightarrow> string option \<Rightarrow> tool_execution_row \<Rightarrow> session_row \<Rightarrow> run_scope \<Rightarrow>
     (dict, db) comp" where
  "policy_deny env q reason_code t s scope =
     (let actor_type = py_str (jget (pq_principal q) ''type''); actor_id = py_str (jget (pq_principal q) ''id'');
          now = fe_now env;
          denial_reason = (case reason_code of None \<Rightarrow> pq_decision q | Some r \<Rightarrow> r);
          target = denied_session_state (pq_decision q) in
      seq (transition_tool_execution_state (te_id t) [''REQUESTED''] ''DENIED'' (Some (pq_id q)) None (Some now)
            (Some denial_reason)) (\<lambda>transitioned.
      seq (found_or (CommandError ''tool_execution_transition_conflict'') transitioned) (\<lambda>t'.
      seq (emit env ''tool.execution.denied'' (ws_tenant scope) (ws_domain scope) actor_type actor_id
            (session_links s @ [link ''tool_execution'' (te_id t), link ''policy_decision'' (pq_id q)])
            [(''tool_execution_id'', JStr (te_id t)), (''tool_class'', JStr (te_class t)),
             (''policy_decision_id'', JStr (pq_id q)), (''denial_reason'', JStr denial_reason)]
            (Some (pq_tool_key q))) (\<lambda>_.
      seq (transition_execution_session_state (es_id s) [''CREATED'', ''RUNNING'', ''WAITING_POLICY'', ''PAUSED''] target
            now (if target = ''FAILED'' then Some now else None)) (\<lambda>moved.
      seq (found_or (CommandError ''execution_session_transition_conflict'') moved) (\<lambda>s'.
      seq (emit env ''execution.session.state_changed'' (ws_tenant scope) (ws_domain scope) actor_type actor_id
            (session_links s) (session_changed (es_id s) (es_state s) target (JStr (''policy_'' @ pq_decision q)))
            (Some (pq_session_key q))) (\<lambda>_.
      seq (asks (\<lambda>d. get_policy_decision d (pq_id q))) (\<lambda>p.
      ret (evaluation_dict t' p (Some s'))))))))))"

definition stored_principal :: "dict \<Rightarrow> dict" where
  "stored_principal principal_actor =
     [(''type'', JStr (py_str (jget principal_actor ''type''))), (''id'', JStr (py_str (jget principal_actor ''id''))),
      (''display'', of_opt (opt_str (jget principal_actor ''display'')))]"

definition evaluate_policy_operation :: "effect_env \<Rightarrow> dict \<Rightarrow> policy_request \<Rightarrow> (dict, db) comp" where
  "evaluate_policy_operation env payload q =
     (let tool_execution_id = py_str (jget payload ''tool_execution_id'') in
      seq (assert_idempotency_available (Some (pq_tool_key q))) (\<lambda>_.
      seq (asks (\<lambda>d. get_tool_execution d tool_execution_id)) (\<lambda>tool_execution.
      seq (found_or (CommandError ''tool_execution_not_found'') tool_execution) (\<lambda>t.
      seq (of_result (require (te_state t = ''REQUESTED'') (CommandError ''tool_execution_not_requestable''))) (\<lambda>_.
      seq (asks (\<lambda>d. get_execution_session d (te_session t))) (\<lambda>session.
      seq (found_or (CommandError ''execution_session_not_found'') session) (\<lambda>s.
      seq (of_result (require (es_state s \<notin> set closed_session_states) (CommandError ''execution_session_closed''))) (\<lambda>_.
      seq (if pq_decision q \<noteq> ''allow'' \<or> es_state s \<noteq> ''RUNNING''
           then assert_idempotency_available (Some (pq_session_key q)) else ret ()) (\<lambda>_.
      seq (\<lambda>d. (workflow_scope d (es_run s), d)) (\<lambda>scope.
      seq (create_policy_decision (pq_id q) (stored_principal (pq_principal q)) (pq_decision q)
            (opt_field payload ''reason_code'') (opt_field payload ''required_approval_action'')
            (Some tool_execution_id) (fe_now env)) (\<lambda>_.
      if pq_decision q = ''allow'' then policy_allow env q t s scope
      else policy_deny env q (opt_field payload ''reason_code'') t s scope)))))))))))"

definition evaluate_policy_recovery :: "dict \<Rightarrow> exc \<Rightarrow> (dict, db) comp" where
  "evaluate_policy_recovery payload e =
     (let tool_execution_id = py_str (jget payload ''tool_execution_id'') in
      case e of
        IntegrityError message \<Rightarrow>
          if contains ''policy_decisions.policy_decision_id'' message
          then raise (CommandError ''duplicate_policy_decision_id'')
          else if contains ''uq_policy_decisions_tool_execution_id'' message
          then seq (asks (\<lambda>d. get_policy_decision_for_tool_execution d tool_execution_id)) (\<lambda>existing.
               case existing of
                 None \<Rightarrow> raise (CommandError ''duplicate_policy_decision'')
               | Some p \<Rightarrow>
                   seq (asks (\<lambda>d. get_tool_execution d tool_execution_id)) (\<lambda>existing_tool.
                   seq (found_or (CommandError ''tool_execution_not_found'') existing_tool) (\<lambda>t.
                   asks (\<lambda>d. evaluation_dict t (Some p) (get_execution_session d (te_session t))))))
          else raise e
      | _ \<Rightarrow> raise e)"

definition evaluate_policy_decision_command :: "effect_env \<Rightarrow> dict \<Rightarrow> (dict, db) comp" where
  "evaluate_policy_decision_command env payload =
     seq (of_result (require_fields payload
       [''tool_execution_id'', ''decision'', ''principal_actor'', ''idempotency_key''])) (\<lambda>_.
     let decision = py_str (jget payload ''decision'') in
     seq (of_result (require (decision \<in> set policy_decision_kinds) (CommandError ''invalid_policy_decision''))) (\<lambda>_.
     case jget payload ''principal_actor'' of
       JObj principal_actor \<Rightarrow>
         seq (of_result (validate_principal (JObj principal_actor))) (\<lambda>_.
         seq (of_result (required_event_idempotency_key (jget payload ''idempotency_key'')
           (if decision = ''allow'' then ''tool-executions.evaluate.tool.execution.approved''
            else ''tool-executions.evaluate.tool.execution.denied''))) (\<lambda>tool_key.
         seq (of_result (required_event_idempotency_key (jget payload ''idempotency_key'')
           ''tool-executions.evaluate.execution.session.state_changed'')) (\<lambda>session_key.
         handle (atomically (evaluate_policy_operation env payload
           \<lparr>pq_decision = decision, pq_principal = principal_actor,
            pq_id = py_str (py_or (jget payload ''policy_decision_id'') (JStr (''pd-'' @ fe_uuid env))),
            pq_tool_key = tool_key, pq_session_key = session_key\<rparr>))
           (evaluate_policy_recovery payload))))
     | _ \<Rightarrow> raise (CommandError ''invalid_principal_actor'')))"

section \<open>Attempts\<close>

definition start_attempt_operation :: "effect_env \<Rightarrow> dict \<Rightarrow> (dict, db) comp" where
  "start_attempt_operation env payload =
     (let tool_execution_id = py_str (jget payload ''tool_execution_id'');
          requested = jget payload ''tool_execution_attempt_id'';
          attempt_id = py_str (py_or requested (JStr (''txa-'' @ fe_uuid env)));
          lease_token = py_str (jget payload ''lease_token'') in
      seq (asks (\<lambda>d. get_tool_execution d tool_execution_id)) (\<lambda>tool_execution.
      seq (found_or (CommandError ''tool_execution_not_found'') tool_execution) (\<lambda>t.
      seq (of_result (require (te_state t \<in> {''APPROVED'', ''RUNNING''}) (CommandError ''tool_execution_not_attemptable'')))
      (\<lambda>_.
      seq (asks (\<lambda>d. get_execution_session d (te_session t))) (\<lambda>session.
      seq (found_or (CommandError ''execution_session_not_found'') session) (\<lambda>_.
      seq (asks (\<lambda>d. get_active_tool_execution_attempt d tool_execution_id)) (\<lambda>active.
      case active of
        Some a \<Rightarrow>
          if ta_lease a = lease_token \<and> (requested = JNull \<or> ta_id a = attempt_id)
          then ret (tool_attempt_dict a)
          else raise (CommandError ''tool_execution_attempt_active_conflict'')
      | None \<Rightarrow>
          seq (create_tool_execution_attempt attempt_id tool_execution_id (te_session t) lease_token (fe_now env))
          (\<lambda>attempt.
          seq (if te_state t = ''APPROVED''
               then
                 seq (transition_tool_execution_state tool_execution_id [''APPROVED''] ''RUNNING'' (te_policy t) None None
                       None) (\<lambda>transitioned.
                 seq (found_or (CommandError ''tool_execution_transition_conflict'') transitioned) (\<lambda>_. ret ()))
               else ret ()) (\<lambda>_.
          ret (tool_attempt_dict attempt))))))))))"

definition start_tool_execution_attempt_command :: "effect_env \<Rightarrow> dict \<Rightarrow> (dict, db) comp" where
  "start_tool_execution_attempt_command env payload =
     seq (of_result (require_fields payload [''tool_execution_id'', ''lease_token''])) (\<lambda>_.
     handle (atomically (start_attempt_operation env payload))
       (\<lambda>e. raise (attempt_error_to_command_error e)))"

section \<open>Completing\<close>

definition validate_outputs :: "db \<Rightarrow> session_row \<Rightarrow> json \<Rightarrow> string list option result" where
  "validate_outputs d s outputs = (case outputs of
     JNull \<Rightarrow> Inr None
   | JArr items \<Rightarrow>
       rbind (check_all (\<lambda>item. case get_artifact_version d (py_str item) of
           None \<Rightarrow> Inl (CommandError ''artifact_version_not_found'')
         | Some a \<Rightarrow> require (av_run a = es_run s) (CommandError ''cross_workflow_artifact_reference'')) items)
       (\<lambda>_. Inr (Some (map py_str items)))
   | _ \<Rightarrow> Inl (CommandError ''invalid_output_artifact_version_ids''))"

definition tool_result_state :: "string \<Rightarrow> string" where
  "tool_result_state result =
     (if result = ''succeeded'' then ''COMPLETED'' else if result = ''canceled'' then ''CANCELED'' else ''FAILED'')"

definition complete_tool_operation ::
    "effect_env \<Rightarrow> dict \<Rightarrow> string \<Rightarrow> receipt_context option \<Rightarrow> (dict, db) comp" where
  "complete_tool_operation env payload result receipt =
     (let tool_execution_id = py_str (jget payload ''tool_execution_id'');
          attempt_id = opt_field payload ''tool_execution_attempt_id'';
          lease_token = opt_field payload ''lease_token'';
          error_code = opt_field payload ''error_code'';
          to_state = tool_result_state result; now = fe_now env in
      seq (asks (\<lambda>d. get_tool_execution d tool_execution_id)) (\<lambda>tool_execution.
      seq (found_or (CommandError ''tool_execution_not_found'') tool_execution) (\<lambda>t.
      seq (asks (\<lambda>d. get_active_tool_execution_attempt d tool_execution_id)) (\<lambda>active.
      seq (of_result (require (active \<noteq> None \<or> (attempt_id = None \<and> lease_token = None))
        (CommandError ''tool_execution_attempt_stale_completion''))) (\<lambda>_.
      seq (of_result (require (te_state t \<in> {''APPROVED'', ''RUNNING''}) (CommandError ''tool_execution_not_completable'')))
      (\<lambda>_.
      seq (asks (\<lambda>d. get_execution_session d (te_session t))) (\<lambda>session.
      seq (found_or (CommandError ''execution_session_not_found'') session) (\<lambda>s.
      seq (\<lambda>d. (workflow_scope d (es_run s), d)) (\<lambda>scope.
      seq (of_result (require (active = None \<or> (attempt_id \<noteq> None \<and> lease_token \<noteq> None))
        (CommandError ''tool_execution_attempt_lease_required''))) (\<lambda>_.
      seq (\<lambda>d. (validate_outputs d s (jget payload ''output_artifact_version_ids''), d)) (\<lambda>outputs.
      seq (case (active, attempt_id, lease_token) of
          (Some _, Some a, Some l) \<Rightarrow>
            handle (seq (complete_tool_execution_attempt a tool_execution_id l to_state outputs now error_code)
              (\<lambda>_. ret ())) (\<lambda>e. raise (attempt_error_to_command_error e))
        | _ \<Rightarrow> ret ()) (\<lambda>_.
      seq (transition_tool_execution_state tool_execution_id [''APPROVED'', ''RUNNING''] to_state (te_policy t) outputs
            (Some now) error_code) (\<lambda>transitioned.
      seq (found_or (CommandError ''tool_execution_transition_conflict'') transitioned) (\<lambda>_.
      seq (emit env ''tool.execution.completed'' (ws_tenant scope) (ws_domain scope)
            (str_field payload ''actor_type'' ''system'') (str_field payload ''actor_id'' ''system:runtime'')
            (session_links s @ [link ''tool_execution'' tool_execution_id])
            [(''tool_execution_id'', JStr tool_execution_id), (''tool_class'', JStr (te_class t)),
             (''result'', JStr result),
             (''output_artifact_version_ids'', case outputs of
                None \<Rightarrow> JNull | Some os \<Rightarrow> if os = [] then JNull else str_list os)]
            (receipt_event_idempotency_key receipt ''tool-executions.complete.tool.execution.completed'')) (\<lambda>_.
      seq (asks (\<lambda>d. get_tool_execution d tool_execution_id)) (\<lambda>completed.
      seq (found_or (CommandError ''tool_execution_not_found'') completed) (\<lambda>c.
      ret (tool_execution_dict c))))))))))))))))))"

definition complete_tool_execution_command :: "effect_env \<Rightarrow> dict \<Rightarrow> bool \<Rightarrow> (dict, db) comp" where
  "complete_tool_execution_command env payload include_receipt =
     seq (of_result (require_fields payload [''tool_execution_id'', ''result'', ''idempotency_key''])) (\<lambda>_.
     let result = py_str (jget payload ''result'') in
     seq (of_result (require (result \<in> {''succeeded'', ''failed'', ''canceled''})
       (CommandError ''invalid_tool_execution_result''))) (\<lambda>_.
     seq (of_result (prepare_command_receipt ''tool-executions.complete'' payload
       [(''tool_execution_id'', JStr (py_str (jget payload ''tool_execution_id''))),
        (''tool_execution_attempt_id'', of_opt (opt_field payload ''tool_execution_attempt_id'')),
        (''lease_token'', of_opt (opt_field payload ''lease_token'')), (''result'', JStr result),
        (''output_artifact_version_ids'', jget payload ''output_artifact_version_ids''),
        (''error_code'', jget payload ''error_code''),
        (''actor_id'', jget_default payload ''actor_id'' (JStr ''system:runtime'')),
        (''actor_type'', jget_default payload ''actor_type'' (JStr ''system''))]
       None None None True)) (\<lambda>receipt.
     seq (execute_with_command_receipt receipt (complete_tool_operation env payload result receipt)) (\<lambda>outcome.
     ret (command_receipt_payload (fst outcome) receipt (snd outcome) include_receipt)))))"

section \<open>Moving a session\<close>

definition transition_session_operation ::
    "effect_env \<Rightarrow> dict \<Rightarrow> string \<Rightarrow> receipt_context option \<Rightarrow> (dict, db) comp" where
  "transition_session_operation env payload to_state receipt =
     (let execution_session_id = py_str (jget payload ''execution_session_id''); now = fe_now env in
      seq (asks (\<lambda>d. get_execution_session d execution_session_id)) (\<lambda>session.
      seq (found_or (CommandError ''execution_session_not_found'') session) (\<lambda>s.
      seq (of_result (require (es_state s \<noteq> to_state) (CommandError ''execution_session_already_in_state''))) (\<lambda>_.
      seq (\<lambda>d. (workflow_scope d (es_run s), d)) (\<lambda>scope.
      seq (transition_execution_session_state execution_session_id [es_state s] to_state now (closing_time to_state now))
      (\<lambda>transitioned.
      seq (found_or (CommandError ''execution_session_transition_conflict'') transitioned) (\<lambda>_.
      seq (emit env ''execution.session.state_changed'' (ws_tenant scope) (ws_domain scope)
            (str_field payload ''actor_type'' ''system'') (str_field payload ''actor_id'' ''system:runtime'')
            [link ''workflow_run'' (es_run s), link ''task_run'' (es_task_run s),
             link ''execution_session'' execution_session_id]
            (session_changed execution_session_id (es_state s) to_state (of_opt (opt_field payload ''reason'')))
            (receipt_event_idempotency_key receipt ''execution-sessions.transition.execution.session.state_changed'')) (\<lambda>_.
      seq (asks (\<lambda>d. get_execution_session d execution_session_id)) (\<lambda>now_stored.
      seq (found_or (CommandError ''execution_session_not_found'') now_stored) (\<lambda>s'.
      ret (session_dict s')))))))))))"

definition transition_execution_session_state_command :: "effect_env \<Rightarrow> dict \<Rightarrow> bool \<Rightarrow> (dict, db) comp" where
  "transition_execution_session_state_command env payload include_receipt =
     seq (of_result (require_fields payload [''execution_session_id'', ''to_state'', ''idempotency_key''])) (\<lambda>_.
     let to_state = py_str (jget payload ''to_state'') in
     seq (of_result (require (to_state \<in> set execution_session_states) (CommandError ''invalid_execution_session_state'')))
     (\<lambda>_.
     seq (of_result (prepare_command_receipt ''execution-sessions.transition'' payload
       [(''execution_session_id'', JStr (py_str (jget payload ''execution_session_id''))), (''to_state'', JStr to_state),
        (''reason'', of_opt (opt_field payload ''reason'')),
        (''actor_id'', jget_default payload ''actor_id'' (JStr ''system:runtime'')),
        (''actor_type'', jget_default payload ''actor_type'' (JStr ''system''))]
       None None None True)) (\<lambda>receipt.
     seq (execute_with_command_receipt receipt (transition_session_operation env payload to_state receipt)) (\<lambda>outcome.
     ret (command_receipt_payload (fst outcome) receipt (snd outcome) include_receipt)))))"

section \<open>Reconciling idle sessions\<close>

definition open_tool_states :: "string list" where
  "open_tool_states = [''REQUESTED'', ''APPROVED'', ''RUNNING'']"

definition reconcile_tool ::
    "effect_env \<Rightarrow> string \<Rightarrow> session_row \<Rightarrow> run_scope \<Rightarrow> tool_execution_row \<Rightarrow> (string option, db) comp" where
  "reconcile_tool env now s scope t =
     seq (transition_tool_execution_state (te_id t) open_tool_states ''FAILED'' (te_policy t) (te_outputs t) (Some now)
           (Some ''execution_reconcile_timeout'')) (\<lambda>transitioned.
     case transitioned of
       None \<Rightarrow> ret None
     | Some _ \<Rightarrow>
         seq (emit env ''tool.execution.completed'' (ws_tenant scope) (ws_domain scope) ''system''
               ''system:execution-reconcile'' (session_links s @ [link ''tool_execution'' (te_id t)])
               [(''tool_execution_id'', JStr (te_id t)), (''tool_class'', JStr (te_class t)),
                (''result'', JStr ''failed''), (''output_artifact_version_ids'', JNull)] None) (\<lambda>_.
         ret (Some (te_id t))))"

definition reconcile_session :: "effect_env \<Rightarrow> string \<Rightarrow> session_row \<Rightarrow> (json option, db) comp" where
  "reconcile_session env now s =
     seq (\<lambda>d. (workflow_scope d (es_run s), d)) (\<lambda>scope.
     seq (asks (\<lambda>d. filter (\<lambda>t. te_state t \<in> set open_tool_states) (list_tool_executions_for_session d (es_id s))))
     (\<lambda>open_tools.
     seq (map_each (reconcile_tool env now s scope) open_tools) (\<lambda>failed.
     seq (transition_execution_session_state (es_id s) reconcilable_session_states ''FAILED'' now (Some now))
     (\<lambda>transitioned.
     case transitioned of
       None \<Rightarrow> ret None
     | Some _ \<Rightarrow>
         seq (emit env ''execution.session.state_changed'' (ws_tenant scope) (ws_domain scope) ''system''
               ''system:execution-reconcile'' (session_links s)
               (session_changed (es_id s) (es_state s) ''FAILED'' (JStr ''reconcile_timeout'')) None) (\<lambda>_.
         ret (Some (JObj [(''execution_session_id'', JStr (es_id s)), (''workflow_run_id'', JStr (es_run s)),
           (''task_run_id'', JStr (es_task_run s)),
           (''failed_tool_execution_ids'', str_list (List.map_filter id failed))])))))))"

definition reconcile_executions_command :: "effect_env \<Rightarrow> dict \<Rightarrow> (dict, db) comp" where
  "reconcile_executions_command env payload =
     (let now_iso = py_str (py_or (jget payload ''now'') (JStr (fe_now env))) in
      seq (of_result (int_field payload ''stale_seconds'' 300)) (\<lambda>stale_seconds.
      seq (of_result (require (0 \<le> stale_seconds) (CommandError ''invalid_stale_seconds''))) (\<lambda>_.
      seq (of_result (parse_iso_datetime now_iso)) (\<lambda>now_dt.
      seq (of_result (shift_seconds now_dt (- stale_seconds))) (\<lambda>stale.
      seq (atomically
        (seq (asks (\<lambda>d. list_reconcilable_execution_sessions d (iso_text stale))) (\<lambda>sessions.
         map_each (reconcile_session env now_iso) sessions))) (\<lambda>processed.
      let done_sessions = List.map_filter id processed in
      ret [(''now'', JStr now_iso), (''stale_before'', JStr (iso_text stale)),
        (''processed_count'', JInt (int (length done_sessions))), (''processed'', JArr done_sessions)]))))))"

end
