(* ===== verification/Execution_Lifecycle.thy ===== *)
theory Execution_Lifecycle
  imports Execution_Commands
begin

text \<open>
  What the commands of the execution runtime guarantee together: the states and closing times of sessions
  and tool executions, the policy decision behind every tool execution that runs, the life of a tool
  execution as a path of allowed steps, and what becomes of attempts and sessions that are over.
\<close>

section \<open>The invariant\<close>

definition session_runs :: "db \<Rightarrow> (string \<times> string) list" where
  "session_runs d = map (\<lambda>s. (es_id s, es_run s)) (sessions d)"

text \<open>A decision of that kind was made about the tool execution, and it names it.\<close>

definition decided :: "db \<Rightarrow> string \<Rightarrow> string option \<Rightarrow> string \<Rightarrow> bool" where
  "decided d tool_execution_id policy kind \<longleftrightarrow>
     (\<exists>p\<in>set (policy_decisions d). policy = Some (pd_id p) \<and> pd_tool p = Some tool_execution_id \<and> pd_decision p = kind)"

text \<open>The outputs are artifact versions of the workflow run of the session.\<close>

definition outputs_ok :: "db \<Rightarrow> string \<Rightarrow> string list option \<Rightarrow> bool" where
  "outputs_ok d session outputs \<longleftrightarrow>
     (\<forall>i\<in>set (case outputs of None \<Rightarrow> [] | Some os \<Rightarrow> os).
        \<exists>a\<in>set (artifact_versions d). av_id a = i \<and> (session, av_run a) \<in> set (session_runs d))"

definition tool_row_ok :: "db \<Rightarrow> tool_execution_row \<Rightarrow> bool" where
  "tool_row_ok d t \<longleftrightarrow> te_state t \<in> set tool_execution_states
     \<and> (te_completed_at t = None \<longleftrightarrow> te_state t \<in> set open_tool_states)
     \<and> (te_state t \<in> {''APPROVED'', ''RUNNING'', ''COMPLETED'', ''CANCELED''} \<longrightarrow> decided d (te_id t) (te_policy t) ''allow'')
     \<and> (te_state t = ''DENIED'' \<longrightarrow> decided d (te_id t) (te_policy t) ''deny''
          \<or> decided d (te_id t) (te_policy t) ''require_approval'')
     \<and> outputs_ok d (te_session t) (te_outputs t)"

definition session_row_ok :: "session_row \<Rightarrow> bool" where
  "session_row_ok s \<longleftrightarrow> es_state s \<in> set execution_session_states
     \<and> (es_closed_at s = None \<longleftrightarrow> es_state s \<notin> set closed_session_states)"

definition execution_ok :: "db \<Rightarrow> bool" where
  "execution_ok d \<longleftrightarrow> distinct (map te_id (tool_executions d)) \<and> distinct (map es_id (sessions d))
     \<and> (\<forall>t\<in>set (tool_executions d). tool_row_ok d t) \<and> (\<forall>s\<in>set (sessions d). session_row_ok s)"

text \<open>What a row depends on only grows.\<close>

definition evidence_grows :: "db \<Rightarrow> db \<Rightarrow> bool" where
  "evidence_grows d d' \<longleftrightarrow> set (policy_decisions d) \<subseteq> set (policy_decisions d')
     \<and> set (artifact_versions d) \<subseteq> set (artifact_versions d') \<and> set (session_runs d) \<subseteq> set (session_runs d')"

lemma evidence_grows_ok:
  assumes "evidence_grows d d'"
  shows "decided d i p k \<Longrightarrow> decided d' i p k" "outputs_ok d s os \<Longrightarrow> outputs_ok d' s os"
    "tool_row_ok d t \<Longrightarrow> tool_row_ok d' t"
proof -
  show *: "decided d i p k \<Longrightarrow> decided d' i p k" for i p k
    using assms unfolding evidence_grows_def decided_def by blast
  show **: "outputs_ok d s os \<Longrightarrow> outputs_ok d' s os" for s os
    using assms unfolding evidence_grows_def outputs_ok_def by blast
  show "tool_row_ok d t \<Longrightarrow> tool_row_ok d' t"
    unfolding tool_row_ok_def using * ** by blast
qed

lemma execution_ok_tools:
  assumes "execution_ok d" "evidence_grows d d'" "sessions d' = sessions d"
    and "distinct (map te_id (tool_executions d'))"
    and "\<And>t. t \<in> set (tool_executions d') \<Longrightarrow> t \<in> set (tool_executions d) \<or> tool_row_ok d t"
  shows "execution_ok d'"
  using assms evidence_grows_ok(3) [OF assms(2)] unfolding execution_ok_def by metis

lemma execution_ok_sessions:
  assumes "execution_ok d" "evidence_grows d d'" "tool_executions d' = tool_executions d"
    and "distinct (map es_id (sessions d'))"
    and "\<And>s. s \<in> set (sessions d') \<Longrightarrow> s \<in> set (sessions d) \<or> session_row_ok s"
  shows "execution_ok d'"
  using assms evidence_grows_ok(3) [OF assms(2)] unfolding execution_ok_def by metis

lemma execution_ok_frame:
  assumes "tool_executions d' = tool_executions d" "sessions d' = sessions d"
    "policy_decisions d' = policy_decisions d" "artifact_versions d' = artifact_versions d"
  shows "execution_ok d' = execution_ok d" "decided d' = decided d" "outputs_ok d' = outputs_ok d"
    "tool_row_ok d' = tool_row_ok d"
  using assms
  by (simp_all add: execution_ok_def tool_row_ok_def outputs_ok_def session_runs_def decided_def fun_eq_iff)

section \<open>Steps that keep the invariant\<close>

abbreviation moved_tool ::
    "string \<Rightarrow> string option \<Rightarrow> string list option \<Rightarrow> string option \<Rightarrow> string option \<Rightarrow> tool_execution_row \<Rightarrow>
     tool_execution_row" where
  "moved_tool to_state policy outputs completed error r \<equiv>
     r\<lparr>te_state := to_state, te_policy := policy, te_outputs := outputs, te_completed_at := completed, te_error := error\<rparr>"

lemma transition_tool_cases:
  assumes run: "transition_tool_execution_state i states to_state policy outputs completed error d = (Inr res, d')"
    and unique: "distinct (map te_id (tool_executions d))"
  obtains "res = None" "d' = d"
  | t where "get_tool_execution d i = Some t" "te_state t \<in> set states"
      "res = Some (moved_tool to_state policy outputs completed error t)"
      "d' = d\<lparr>tool_executions := update_where (\<lambda>r. te_id r = i \<and> te_state r \<in> set states)
         (moved_tool to_state policy outputs completed error) (tool_executions d)\<rparr>"
proof -
  have "states \<noteq> []" using run by (auto simp: transition_tool_execution_state_def comp_apply)
  then have "update_one tool_executions (\<lambda>rs d. d\<lparr>tool_executions := rs\<rparr>)
      (\<lambda>r. te_id r = i \<and> te_state r \<in> set states) (moved_tool to_state policy outputs completed error)
      (\<lambda>d. select_one (\<lambda>r. te_id r = i) (tool_executions d)) d = (Inr res, d')"
    using run by (simp add: transition_tool_execution_state_def get_tool_execution_def)
  then show thesis
    by (rule tool_execution_table.outcome [where f = "moved_tool to_state policy outputs completed error"
        and q = "\<lambda>r. te_state r \<in> set states", OF _ unique])
      (simp_all add: that get_tool_execution_def)
qed

lemma transition_session_cases:
  assumes run: "transition_execution_session_state i states to_state updated closed d = (Inr res, d')"
    and unique: "distinct (map es_id (sessions d))"
  obtains "res = None" "d' = d"
  | s where "get_execution_session d i = Some s" "es_state s \<in> set states"
      "res = Some (s\<lparr>es_state := to_state, es_updated_at := updated, es_closed_at := closed\<rparr>)"
      "d' = d\<lparr>sessions := update_where (\<lambda>r. es_id r = i \<and> es_state r \<in> set states)
         (\<lambda>r. r\<lparr>es_state := to_state, es_updated_at := updated, es_closed_at := closed\<rparr>) (sessions d)\<rparr>"
proof -
  have "states \<noteq> []" using run by (auto simp: transition_execution_session_state_def comp_apply)
  then have "update_one sessions (\<lambda>rs d. d\<lparr>sessions := rs\<rparr>) (\<lambda>r. es_id r = i \<and> es_state r \<in> set states)
      (\<lambda>r. r\<lparr>es_state := to_state, es_updated_at := updated, es_closed_at := closed\<rparr>)
      (\<lambda>d. select_one (\<lambda>r. es_id r = i) (sessions d)) d = (Inr res, d')"
    using run by (simp add: transition_execution_session_state_def get_execution_session_def)
  then show thesis
    by (rule session_table.outcome [where f = "\<lambda>r. r\<lparr>es_state := to_state, es_updated_at := updated, es_closed_at := closed\<rparr>"
        and q = "\<lambda>r. es_state r \<in> set states", OF _ unique])
      (simp_all add: that get_execution_session_def)
qed

text \<open>Facts that survive the moves of the tool executions and of the sessions.\<close>

definition tool_sessions :: "db \<Rightarrow> (string \<times> string) list" where
  "tool_sessions d = map (\<lambda>t. (te_id t, te_session t)) (tool_executions d)"

definition about_evidence :: "(db \<Rightarrow> bool) \<Rightarrow> bool" where
  "about_evidence R \<longleftrightarrow> (\<forall>d xs ys. R d \<longrightarrow>
     (map (\<lambda>t. (te_id t, te_session t)) xs = tool_sessions d \<longrightarrow> R (d\<lparr>tool_executions := xs\<rparr>))
     \<and> (map (\<lambda>s. (es_id s, es_run s)) ys = session_runs d \<longrightarrow> R (d\<lparr>sessions := ys\<rparr>)))"

lemma outputs_ok_cong:
  "session_runs d' = session_runs d \<Longrightarrow> artifact_versions d' = artifact_versions d \<Longrightarrow> outputs_ok d' = outputs_ok d"
  by (simp add: outputs_ok_def fun_eq_iff)

lemma about_evidence_intros [intro, simp]:
  "about_evidence (\<lambda>_. True)"
  "about_evidence (\<lambda>d. decided d i p k)"
  "about_evidence (\<lambda>d. outputs_ok d i os)"
  "about_evidence (\<lambda>d. \<forall>t\<in>A. (te_id t, te_session t) \<in> set (tool_sessions d) \<and> outputs_ok d (te_session t) (te_outputs t))"
proof -
  have "outputs_ok (d\<lparr>tool_executions := xs\<rparr>) = outputs_ok d" for d xs
    by (rule outputs_ok_cong) (simp_all add: session_runs_def)
  moreover have "outputs_ok (d\<lparr>sessions := ys\<rparr>) = outputs_ok d"
    if "map (\<lambda>s. (es_id s, es_run s)) ys = session_runs d" for d ys
    using that by (intro outputs_ok_cong) (simp_all add: session_runs_def)
  moreover have same_tools: "tool_sessions (d\<lparr>tool_executions := xs\<rparr>) = tool_sessions d"
    if "map (\<lambda>t. (te_id t, te_session t)) xs = tool_sessions d" for d xs
    using that by (simp add: tool_sessions_def)
  ultimately show "about_evidence (\<lambda>d. outputs_ok d i os)"
    "about_evidence (\<lambda>d. \<forall>t\<in>A. (te_id t, te_session t) \<in> set (tool_sessions d) \<and> outputs_ok d (te_session t) (te_outputs t))"
    by (simp_all add: about_evidence_def same_tools tool_sessions_def [of "sessions_update _ _"] flip: tool_sessions_def)
qed (simp_all add: about_evidence_def decided_def)

lemma yields_tool_move:
  assumes ok: "\<And>d. P d \<Longrightarrow> execution_ok d" and R: "\<And>d. P d \<Longrightarrow> R d" "about_evidence R"
    and row: "\<And>d t. P d \<Longrightarrow> get_tool_execution d i = Some t \<Longrightarrow> te_state t \<in> set states \<Longrightarrow>
      tool_row_ok d (moved_tool to_state policy outputs completed error t)"
    and rest: "\<And>x. yields (\<lambda>d. execution_ok d \<and> R d) (f x) Q"
  shows "yields P (seq (transition_tool_execution_state i states to_state policy outputs completed error) f) Q"
proof (rule yields_seq [OF yieldsI rest])
  fix d res d'
  assume P: "P d" and run: "transition_tool_execution_state i states to_state policy outputs completed error d = (Inr res, d')"
  note unique = ok [OF P, unfolded execution_ok_def, THEN conjunct1]
  show "execution_ok d' \<and> R d'"
  proof (cases rule: transition_tool_cases [OF run unique])
    case (2 t)
    have "execution_ok d'"
    proof (rule execution_ok_tools [OF ok [OF P]])
      fix x assume "x \<in> set (tool_executions d')"
      then obtain y where y: "y \<in> set (tool_executions d)" "x = (if te_id y = i \<and> te_state y \<in> set states
          then moved_tool to_state policy outputs completed error y else y)"
        unfolding 2(4) by (auto simp: set_update_where)
      moreover have "y = t" if "te_id y = i"
        using select_of_key [OF unique y(1)] 2(1) that by (simp add: get_tool_execution_def)
      ultimately show "x \<in> set (tool_executions d) \<or> tool_row_ok d x"
        using row [OF P 2(1,2)] by auto
    qed (use unique in \<open>simp_all add: 2(4) evidence_grows_def session_runs_def map_update_where\<close>)
    moreover have "R d'" using R(1) [OF P] R(2) unfolding about_evidence_def 2(4)
      by (simp add: map_update_where tool_sessions_def)
    ultimately show ?thesis by blast
  qed (use ok [OF P] R(1) [OF P] in simp)
qed

lemma yields_session_move:
  assumes ok: "\<And>d. P d \<Longrightarrow> execution_ok d" and R: "\<And>d. P d \<Longrightarrow> R d" "about_evidence R"
    and state: "to_state \<in> set execution_session_states" "closed = None \<longleftrightarrow> to_state \<notin> set closed_session_states"
    and rest: "\<And>x. yields (\<lambda>d. execution_ok d \<and> R d) (f x) Q"
  shows "yields P (seq (transition_execution_session_state i states to_state updated closed) f) Q"
proof (rule yields_seq [OF yieldsI rest])
  fix d res d'
  assume P: "P d" and run: "transition_execution_session_state i states to_state updated closed d = (Inr res, d')"
  have unique: "distinct (map es_id (sessions d))" using ok [OF P] by (simp add: execution_ok_def)
  show "execution_ok d' \<and> R d'"
  proof (cases rule: transition_session_cases [OF run unique])
    case (2 s)
    have "execution_ok d'"
    proof (rule execution_ok_sessions [OF ok [OF P]])
      fix x assume "x \<in> set (sessions d')"
      then show "x \<in> set (sessions d) \<or> session_row_ok x"
        using state by (auto simp: 2(4) set_update_where session_row_ok_def)
    qed (use unique in \<open>simp_all add: 2(4) evidence_grows_def session_runs_def map_update_where\<close>)
    moreover have "R d'" using R(1) [OF P] R(2) unfolding about_evidence_def 2(4)
      by (simp add: map_update_where session_runs_def)
    ultimately show ?thesis by blast
  qed (use ok [OF P] R(1) [OF P] in simp)
qed

section \<open>Every command keeps it\<close>

lemma log_free_execution [intro, simp]: "log_free execution_ok"
  by (simp add: log_free_def execution_ok_def tool_row_ok_def outputs_ok_def session_runs_def decided_def)

lemma log_free_facts [intro, simp]:
  "log_free P \<Longrightarrow> log_free Q \<Longrightarrow> log_free (\<lambda>d. P d \<and> Q d)"
  "log_free (\<lambda>_. b)"
  "log_free (\<lambda>d. x = get_tool_execution d i)"
  "log_free (\<lambda>d. y = get_execution_session d i)"
  "log_free (\<lambda>d. decided d i p k)"
  "log_free (\<lambda>d. outputs_ok d i os)"
  "log_free (\<lambda>d. \<forall>t\<in>A. (te_id t, te_session t) \<in> set (tool_sessions d) \<and> outputs_ok d (te_session t) (te_outputs t))"
  by (simp_all add: log_free_def tool_sessions_def get_tool_execution_def get_execution_session_def decided_def outputs_ok_def
    session_runs_def)

lemma closing_time_ok:
  "closing_time state now = None \<longleftrightarrow> state \<notin> set closed_session_states"
  by (simp add: closing_time_def)

lemma create_session_row_ok:
  "yields execution_ok (create_execution_session i w t spec ''CREATED'' owner who budget n now) (\<lambda>_. execution_ok)"
proof (rule yieldsI)
  fix d u d'
  assume ok: "execution_ok d"
    and "create_execution_session i w t spec ''CREATED'' owner who budget n now d = (Inr u, d')"
  then obtain r where insert: "insert_session r d = (Inr (), d')" and r: "es_state r = ''CREATED''" "es_closed_at r = None"
    by (auto simp: create_execution_session_def with_integers_Inr)
  then have d': "d' = d\<lparr>sessions := sessions d @ [r]\<rparr>" by (simp add: insert_session_def comp_apply split: if_splits)
  show "execution_ok d'"
  proof (rule execution_ok_sessions [OF ok])
    show "distinct (map es_id (sessions d'))"
      using keepsD' [OF session_ids.keeps_unique _ insert] ok by (simp add: unique_keys_total execution_ok_def)
  qed (use r in \<open>auto simp: d' evidence_grows_def session_runs_def session_row_ok_def execution_session_states_def
    closed_session_states_def\<close>)
qed

lemma create_session_keeps:
  assumes "state \<in> set execution_session_states"
  shows "yields execution_ok (create_session_operation env payload i owner state receipt) (\<lambda>_. execution_ok)"
proof -
  have moved: "yields execution_ok (if state = ''CREATED'' then ret () else
      seq (transition_execution_session_state i [''CREATED''] state now (closing_time state now)) (\<lambda>x.
      seq (found_or e x) (\<lambda>_. seq (emit env ty tenant domain at ai ls p k) (\<lambda>_. ret ())))) (\<lambda>_. execution_ok)"
    for now e ty tenant domain at ai ls p k
    by (rule yields_steps yields_session_move [where R = "\<lambda>_. True"] yields_emitting yields_ret
      | simp add: assms closing_time_ok | blast)+
  show ?thesis
    unfolding create_session_operation_def Let_def
    by (rule yields_steps yields_seq [OF yields_pre [OF create_session_row_ok]] yields_emitting yields_seq [OF moved]
      yields_ret yields_pre [OF yields_ret] | blast)+
qed

lemma request_row_ok:
  "yields execution_ok (create_tool_execution i s c name ''REQUESTED'' idem n None None now None None) (\<lambda>_. execution_ok)"
proof (rule yieldsI)
  fix d u d'
  assume ok: "execution_ok d"
    and "create_tool_execution i s c name ''REQUESTED'' idem n None None now None None d = (Inr u, d')"
  then obtain r where insert: "insert_tool_execution r d = (Inr (), d')"
    and r: "te_state r = ''REQUESTED''" "te_completed_at r = None" "te_outputs r = None"
    by (auto simp: create_tool_execution_def with_integers_Inr)
  then have d': "d' = d\<lparr>tool_executions := tool_executions d @ [r]\<rparr>"
    by (simp add: insert_tool_execution_def comp_apply split: if_splits)
  show "execution_ok d'"
  proof (rule execution_ok_tools [OF ok])
    show "distinct (map te_id (tool_executions d'))"
      using keepsD' [OF tool_execution_ids.keeps_unique _ insert] ok by (simp add: unique_keys_total execution_ok_def)
  qed (use r in \<open>auto simp: d' evidence_grows_def session_runs_def tool_row_ok_def tool_execution_states_def
    open_tool_states_def outputs_ok_def\<close>)
qed

lemma increment_ok: "yields execution_ok (increment_tool_call_count i now) (\<lambda>_. execution_ok)"
proof (rule yieldsI)
  fix d u d'
  assume ok: "execution_ok d" and "increment_tool_call_count i now d = (Inr u, d')"
  then have d': "d' = d\<lparr>sessions := update_where (\<lambda>r. es_id r = i \<and> True)
      (\<lambda>r. r\<lparr>es_tool_calls := es_tool_calls r + 1, es_updated_at := now\<rparr>) (sessions d)\<rparr>"
    by (auto simp: increment_tool_call_count_def update_one_def Let_def)
  have "session_row_ok (s\<lparr>es_tool_calls := n, es_updated_at := now\<rparr>) = session_row_ok s" for s n
    by (simp add: session_row_ok_def)
  then have "execution_ok d' = execution_ok (d\<lparr>sessions := sessions d\<rparr>)"
    using ok unfolding d' execution_ok_def tool_row_ok_def outputs_ok_def decided_def session_runs_def
    by (simp add: map_update_where set_update_where) (auto simp: update_where_def)
  with ok show "execution_ok d'" by simp
qed

lemma request_tool_keeps:
  "yields execution_ok (request_tool_operation env payload i receipt) (\<lambda>_. execution_ok)"
  unfolding request_tool_operation_def Let_def
  by (rule yields_steps yields_seq [OF yields_pre [OF request_row_ok]] yields_seq [OF increment_ok] yields_emitting
    yields_ret | simp)+

text \<open>Recording a decision; the outcome of one about the tool execution itself.\<close>

lemma policy_decision_yields:
  "yields execution_ok (create_policy_decision i who kind why approval (Some t) now)
     (\<lambda>_ d. execution_ok d \<and> decided d t (Some i) kind)"
proof (rule yieldsI)
  fix d u d'
  assume ok: "execution_ok d" and "create_policy_decision i who kind why approval (Some t) now d = (Inr u, d')"
  then obtain p where d': "d' = d\<lparr>policy_decisions := policy_decisions d @ [p]\<rparr>"
    and p: "pd_id p = i" "pd_tool p = Some t" "pd_decision p = kind"
    by (auto simp: create_policy_decision_def insert_policy_decision_def comp_apply split: if_splits)
  have "evidence_grows d d'" by (auto simp: d' evidence_grows_def session_runs_def)
  then have "execution_ok d'" using ok by (intro execution_ok_tools [OF ok]) (auto simp: d' execution_ok_def)
  with p show "execution_ok d' \<and> decided d' t (Some i) kind" by (auto simp: d' decided_def)
qed

lemma get_tool_row:
  "execution_ok d \<Longrightarrow> get_tool_execution d i = Some t \<Longrightarrow> te_id t = i \<and> tool_row_ok d t"
  by (auto simp: execution_ok_def get_tool_execution_def dest: select_one_Some)

lemma policy_allow_keeps:
  "yields (\<lambda>d. execution_ok d \<and> decided d (te_id t) (Some (pq_id q)) ''allow'') (policy_allow env q t s scope)
     (\<lambda>_. execution_ok)"
proof -
  have row: "tool_row_ok d (moved_tool ''APPROVED'' (Some (pq_id q)) None None None r)"
    if "execution_ok d \<and> decided d (te_id t) (Some (pq_id q)) ''allow''" "get_tool_execution d (te_id t) = Some r" for d r
    using that get_tool_row [of d "te_id t" r]
    by (simp add: tool_row_ok_def outputs_ok_def tool_execution_states_def open_tool_states_def)
  have session: "yields execution_ok (if b then ret s else
      seq (transition_execution_session_state (es_id s) froms ''RUNNING'' now None) (\<lambda>x.
      seq (found_or e x) (\<lambda>s'. seq (emit env ty tenant domain at ai ls p k) (\<lambda>_. ret s')))) (\<lambda>_. execution_ok)"
    for b froms now e ty tenant domain at ai ls p k
    by (rule yields_steps yields_session_move [where R = "\<lambda>_. True"] yields_emitting yields_ret
      | simp add: execution_session_states_def closed_session_states_def)+
  show ?thesis
    unfolding policy_allow_def Let_def
    by (rule yields_steps yields_tool_move [where R = "\<lambda>_. True"] yields_emitting
        yields_seq [OF yields_pre [OF session]] yields_ret row | assumption | simp; fail)+
qed

lemma policy_deny_keeps:
  assumes "pq_decision q \<in> {''deny'', ''require_approval''}"
  shows "yields (\<lambda>d. execution_ok d \<and> decided d (te_id t) (Some (pq_id q)) (pq_decision q))
     (policy_deny env q why t s scope) (\<lambda>_. execution_ok)"
proof -
  have row: "tool_row_ok d (moved_tool ''DENIED'' (Some (pq_id q)) None (Some now) e r)"
    if "execution_ok d \<and> decided d (te_id t) (Some (pq_id q)) (pq_decision q)"
      "get_tool_execution d (te_id t) = Some r" for d r now e
    using that get_tool_row [of d "te_id t" r] assms
    by (elim insertE emptyE)
      (simp_all add: tool_row_ok_def outputs_ok_def tool_execution_states_def open_tool_states_def)
  show ?thesis
    unfolding policy_deny_def Let_def
    by (rule yields_steps yields_tool_move [where R = "\<lambda>_. True"] yields_session_move [where R = "\<lambda>_. True"]
        yields_emitting yields_ret row | assumption | simp; fail
      | simp add: denied_session_state_def execution_session_states_def closed_session_states_def; fail)+
qed

text \<open>Reading a tool execution, then its session; what is read is a row of the state.\<close>

lemma yields_tool_read:
  assumes "\<And>d. P d \<Longrightarrow> execution_ok d"
    and "\<And>t. te_id t = i \<Longrightarrow> yields (\<lambda>d. P d \<and> get_tool_execution d i = Some t) (f t) Q"
  shows "yields P (seq (asks (\<lambda>d. get_tool_execution d i)) (\<lambda>x. seq (found_or e x) f)) Q"
proof (rule yieldsI)
  fix d x d'
  assume P: "P d" and "seq (asks (\<lambda>d. get_tool_execution d i)) (\<lambda>x. seq (found_or e x) f) d = (Inr x, d')"
  then obtain t where t: "get_tool_execution d i = Some t" "f t d = (Inr x, d')"
    by (auto simp: seq_unit seq_eq_Inr found_or_Inr)
  with get_tool_row [OF assms(1) [OF P] t(1)] assms(2) [of t] P show "Q x d'" by (auto simp: yields_def)
qed

lemma yields_session_read:
  assumes "\<And>s. es_id s = i \<Longrightarrow> yields (\<lambda>d. P d \<and> get_execution_session d i = Some s) (f s) Q"
  shows "yields P (seq (asks (\<lambda>d. get_execution_session d i)) (\<lambda>x. seq (found_or e x) f)) Q"
proof (rule yieldsI)
  fix d x d'
  assume P: "P d" and "seq (asks (\<lambda>d. get_execution_session d i)) (\<lambda>x. seq (found_or e x) f) d = (Inr x, d')"
  then obtain s where s: "get_execution_session d i = Some s" "f s d = (Inr x, d')"
    by (auto simp: seq_unit seq_eq_Inr found_or_Inr)
  moreover from s(1) have "es_id s = i" by (auto simp: get_execution_session_def dest: select_one_Some)
  ultimately show "Q x d'" using assms [of s] P by (auto simp: yields_def)
qed

lemma evaluate_policy_keeps:
  assumes "pq_decision q \<in> set policy_decision_kinds"
  shows "yields execution_ok (evaluate_policy_operation env payload q) (\<lambda>_. execution_ok)"
proof -
  have available: "yields P (assert_idempotency_available k) (\<lambda>_. P)" for P k
    by (rule yieldsI) (auto simp: assert_idempotency_available_def comp_apply split: option.splits if_splits)
  have decision: "yields execution_ok (seq (create_policy_decision (pq_id q) who (pq_decision q) why approval (Some i) now)
      (\<lambda>_. if pq_decision q = ''allow'' then policy_allow env q t s scope
        else policy_deny env q why t s scope)) (\<lambda>_. execution_ok)"
    if "te_id t = i" for who why approval i t s scope now
  proof (rule yields_seq [OF policy_decision_yields])
    show "yields (\<lambda>d. execution_ok d \<and> decided d i (Some (pq_id q)) (pq_decision q))
      (if pq_decision q = ''allow'' then policy_allow env q t s scope else policy_deny env q why t s scope)
      (\<lambda>_. execution_ok)"
      using policy_allow_keeps [of t q env s scope] policy_deny_keeps [of q t env why s scope] assms that
      by (auto simp: policy_decision_kinds_def)
  qed
  have asserted: "yields P (if b then assert_idempotency_available k else ret ()) (\<lambda>_. P)" for P b k
    using available [of P k] by (auto intro: yields_ret)
  show ?thesis
    unfolding evaluate_policy_operation_def Let_def
    apply (rule yields_seq [OF available] yields_tool_read yields_check yields_session_read yields_reading
      yields_seq [OF asserted] | assumption)+
    apply (rule yields_pre [OF decision], simp_all)
    done
qed

lemma start_attempt_keeps:
  "yields execution_ok (start_attempt_operation env payload) (\<lambda>_. execution_ok)"
proof -
  have attempt: "yields P (create_tool_execution_attempt i t s lease now) (\<lambda>_. P)"
    if "\<And>d xs. P d \<Longrightarrow> P (d\<lparr>tool_attempts := xs\<rparr>)" for P i t s lease now
  proof (rule yieldsI)
    fix d r d' assume P: "P d" and run: "create_tool_execution_attempt i t s lease now d = (Inr r, d')"
    show "P d'" by (cases rule: create_tool_execution_attempt_cases [OF run]) (use P that in auto)
  qed
  have stable: "execution_ok (d\<lparr>tool_attempts := xs\<rparr>) = execution_ok d" for d xs
    by (rule execution_ok_frame) simp_all
  have running: "tool_row_ok d (moved_tool ''RUNNING'' (te_policy t) None None None r)"
    if "execution_ok d \<and> get_tool_execution d i = Some t" "get_tool_execution d i = Some r"
      "te_state r \<in> set [''APPROVED'']" for d t i r
    using that get_tool_row [of d i t]
    by (clarsimp simp: tool_row_ok_def outputs_ok_def tool_execution_states_def open_tool_states_def)
  have move: "yields (\<lambda>d. execution_ok d \<and> get_tool_execution d i = Some t)
     (if b then
        seq (transition_tool_execution_state i [''APPROVED''] ''RUNNING'' (te_policy t) None None None)
          (\<lambda>x. seq (found_or e x) (\<lambda>_. ret ()))
      else ret ()) (\<lambda>_. execution_ok)" for i t e b
    by (rule yields_if yields_tool_move [where R = "\<lambda>_. True"] yields_found yields_ret running | simp; fail
      | assumption)+
  show ?thesis
    unfolding start_attempt_operation_def Let_def
    by (rule yields_tool_read yields_check yields_session_read yields_peek yields_option yields_if yields_ret
        yields_raise yields_seq [OF attempt] yields_seq [OF yields_pre [OF move]] | assumption
      | simp add: stable get_tool_execution_def get_execution_session_def; fail)+
qed

lemma validate_outputs_ok:
  assumes "validate_outputs d s json = Inr outputs" "(es_id s, es_run s) \<in> set (session_runs d)"
  shows "outputs_ok d (es_id s) outputs"
proof (cases json)
  case (JArr items)
  have "\<exists>a\<in>set (artifact_versions d). av_id a = py_str item \<and> av_run a = es_run s" if "item \<in> set items" for item
  proof -
    have "(case get_artifact_version d (py_str item) of
        None \<Rightarrow> Inl (CommandError ''artifact_version_not_found'')
      | Some a \<Rightarrow> require (av_run a = es_run s) (CommandError ''cross_workflow_artifact_reference'')) = Inr ()"
      using assms(1) JArr that by (auto simp: validate_outputs_def rbind_eq_Inr)
    then show ?thesis
      by (auto simp: get_artifact_version_def dest: select_one_Some split: option.splits)
  qed
  then show ?thesis using assms JArr by (fastforce simp: validate_outputs_def rbind_eq_Inr outputs_ok_def)
qed (use assms in \<open>auto simp: validate_outputs_def outputs_ok_def\<close>)

lemma session_run_listed:
  "get_execution_session d i = Some s \<Longrightarrow> (es_id s, es_run s) \<in> set (session_runs d)"
  by (auto simp: get_execution_session_def session_runs_def dest: select_one_Some)

lemma complete_tool_keeps:
  assumes "result \<in> {''succeeded'', ''failed'', ''canceled''}"
  shows "yields execution_ok (complete_tool_operation env payload result receipt) (\<lambda>_. execution_ok)"
proof -
  have attempt: "yields P (handle (seq (complete_tool_execution_attempt i t l state os now e) (\<lambda>_. ret ())) (\<lambda>e. raise (g e)))
      (\<lambda>_. P)" if "\<And>d xs. P d \<Longrightarrow> P (d\<lparr>tool_attempts := xs\<rparr>)" for P i t l state os now e and g :: "exc \<Rightarrow> exc"
  proof (rule yieldsI)
    fix d d' and u :: unit
    assume P: "P d" and "handle (seq (complete_tool_execution_attempt i t l state os now e) (\<lambda>_. ret ()))
      (\<lambda>e. raise (g e)) d = (Inr u, d')"
    then obtain r where "complete_tool_execution_attempt i t l state os now e d = (Inr r, d')"
      by (auto simp: handle_raise_Inr seq_eq_Inr comp_apply)
    then have "\<exists>xs. d' = d\<lparr>tool_attempts := xs\<rparr>"
      by (auto simp: complete_tool_execution_attempt_def Let_def read_back_def seq_unit comp_apply
        split: if_splits option.splits)
    with P that show "P d'" by blast
  qed
  have stable: "execution_ok (d\<lparr>tool_attempts := xs\<rparr>) = execution_ok d"
      "outputs_ok (d\<lparr>tool_attempts := xs\<rparr>) = outputs_ok d" for d xs
    by (rule execution_ok_frame; simp)+
  let ?now = "\<lambda>i t os d. (execution_ok d \<and> get_tool_execution d i = Some t) \<and> outputs_ok d (te_session t) os"
  have closing: "yields (?now i t os) (case (active, a, l) of
      (Some x, Some k, Some j) \<Rightarrow> handle (seq (complete_tool_execution_attempt k i j state os now e) (\<lambda>_. ret ()))
        (\<lambda>e. raise (attempt_error_to_command_error e))
    | _ \<Rightarrow> ret ()) (\<lambda>_. ?now i t os)" for i t os active a l state now e
    by (auto split: option.split intro!: yields_ret attempt) (auto simp: stable get_tool_execution_def)
  have row: "tool_row_ok d (moved_tool (tool_result_state result) (te_policy t) os (Some now) e r)"
    if "?now i t os d" "get_tool_execution d i = Some r" "te_state r \<in> set [''APPROVED'', ''RUNNING'']"
    for d i t os now e r
  proof -
    have "r = t" "decided d (te_id t) (te_policy t) ''allow''" "outputs_ok d (te_session t) os"
      using that get_tool_row [of d i t] by (auto simp: tool_row_ok_def)
    then show ?thesis
      by (simp add: tool_row_ok_def tool_result_state_def tool_execution_states_def open_tool_states_def)
  qed
  have pre: "outputs_ok d (te_session t) os" if "validate_outputs d s json = Inr os" "es_id s = te_session t"
      "get_execution_session d (te_session t) = Some s" for d t s json os
    using that validate_outputs_ok [of d s json os] session_run_listed [of d "te_session t" s] by simp
  have finish: "yields (\<lambda>d. (((execution_ok d \<and> get_tool_execution d i = Some t) \<and>
      get_execution_session d (te_session t) = Some s) \<and> scope d) \<and> validate_outputs d s json = Inr os)
    (seq (case (active, a, l) of
      (Some x, Some k, Some j) \<Rightarrow> handle (seq (complete_tool_execution_attempt k i j state os now e) (\<lambda>_. ret ()))
        (\<lambda>e. raise (attempt_error_to_command_error e))
    | _ \<Rightarrow> ret ()) (\<lambda>_.
      seq (transition_tool_execution_state i [''APPROVED'', ''RUNNING''] (tool_result_state result) (te_policy t) os
        (Some now) e) f)) Q"
    if "es_id s = te_session t" "\<And>x. yields execution_ok (f x) Q"
    for i t s scope json os active a l state now e f and Q :: "dict \<Rightarrow> db \<Rightarrow> bool"
    by (rule yields_pre [OF yields_seq [OF closing yields_tool_move [where R = "\<lambda>_. True"]]])
      (use that in \<open>auto intro: row pre\<close>)
  show ?thesis
    unfolding complete_tool_operation_def Let_def
    by (rule yields_tool_read yields_check yields_session_read yields_peek yields_reading finish yields_found
       yields_emitting yields_ret | assumption | simp; fail)+
qed

lemma transition_session_keeps:
  assumes "state \<in> set execution_session_states"
  shows "yields execution_ok (transition_session_operation env payload state receipt) (\<lambda>_. execution_ok)"
  unfolding transition_session_operation_def Let_def
  by (rule yields_session_read yields_session_move [where R = "\<lambda>_. True"] yields_steps yields_emitting yields_ret
    | simp add: assms closing_time_ok; fail)+

text \<open>Reconciling: the open tool executions were read before the first of them is failed.\<close>

abbreviation reconciling :: "tool_execution_row set \<Rightarrow> db \<Rightarrow> bool" where
  "reconciling A d \<equiv> execution_ok d
     \<and> (\<forall>t\<in>A. (te_id t, te_session t) \<in> set (tool_sessions d) \<and> outputs_ok d (te_session t) (te_outputs t))"

lemma reconcile_tool_keeps:
  assumes "t \<in> A"
  shows "yields (reconciling A) (reconcile_tool env now s scope t) (\<lambda>_. reconciling A)"
proof -
  have row: "tool_row_ok d (moved_tool ''FAILED'' policy (te_outputs t) (Some now) e r)"
    if "reconciling A d" "get_tool_execution d (te_id t) = Some r" for d r policy e
  proof -
    from that assms obtain t' where t': "t' \<in> set (tool_executions d)" "te_id t' = te_id t" "te_session t' = te_session t"
      by (auto simp: tool_sessions_def)
    then have "r = t'"
      using that select_of_key [of te_id "tool_executions d" t'] by (simp add: execution_ok_def get_tool_execution_def)
    with t' that assms show ?thesis
      by (simp add: tool_row_ok_def tool_execution_states_def open_tool_states_def)
  qed
  show ?thesis
    unfolding reconcile_tool_def
    by (rule yields_tool_move [where R = "\<lambda>d. \<forall>t\<in>A. (te_id t, te_session t) \<in> set (tool_sessions d)
          \<and> outputs_ok d (te_session t) (te_outputs t)"] yields_option yields_emitting yields_ret
      | erule (1) row | erule conjunct1 | erule conjunct2 | simp; fail)+
qed

lemma reconcile_session_keeps: "yields execution_ok (reconcile_session env now s) (\<lambda>_. execution_ok)"
proof -
  have tools: "yields (\<lambda>d. (execution_ok d \<and> b d)
        \<and> ts = filter (\<lambda>t. te_state t \<in> set open_tool_states) (list_tool_executions_for_session d i))
      (map_each (reconcile_tool env now s scope) ts) (\<lambda>_. execution_ok)" for ts i scope b
  proof (rule yields_pre [OF yields_post])
    show "yields (reconciling (set ts)) (map_each (reconcile_tool env now s scope) ts) (\<lambda>_. reconciling (set ts))"
      by (rule yields_each) (rule reconcile_tool_keeps)
  qed (auto simp: list_tool_executions_for_session_def tool_sessions_def execution_ok_def tool_row_ok_def)
  show ?thesis
    unfolding reconcile_session_def
    by (rule yields_reading yields_asking yields_seq [OF tools] yields_session_move [where R = "\<lambda>_. True"]
        yields_option yields_emitting yields_ret
      | simp add: execution_session_states_def closed_session_states_def; fail)+
qed

section \<open>Runs of commands\<close>

datatype execution_command =
    Create_Session effect_env dict bool
  | Request_Tool effect_env dict bool
  | Evaluate_Policy effect_env dict
  | Start_Attempt effect_env dict
  | Complete_Tool effect_env dict bool
  | Transition_Session effect_env dict bool
  | Reconcile_Executions effect_env dict

fun run_execution_command :: "execution_command \<Rightarrow> db \<Rightarrow> db" where
  "run_execution_command (Create_Session env p r) d = snd (create_execution_session_command env p r d)"
| "run_execution_command (Request_Tool env p r) d = snd (request_tool_execution_command env p r d)"
| "run_execution_command (Evaluate_Policy env p) d = snd (evaluate_policy_decision_command env p d)"
| "run_execution_command (Start_Attempt env p) d = snd (start_tool_execution_attempt_command env p d)"
| "run_execution_command (Complete_Tool env p r) d = snd (complete_tool_execution_command env p r d)"
| "run_execution_command (Transition_Session env p r) d = snd (transition_execution_session_state_command env p r d)"
| "run_execution_command (Reconcile_Executions env p) d = snd (reconcile_executions_command env p d)"

lemma recovery_reads:
  "keeps P (request_tool_recovery payload e)"
  "keeps P (evaluate_policy_recovery payload e)"
  unfolding request_tool_recovery_def evaluate_policy_recovery_def Let_def
  by (auto split: exc.split intro!: keeps_if keeps_seq keeps_option keeps_found)

lemma keeps_execution_ok: "execution_ok d \<Longrightarrow> execution_ok (run_execution_command c d)"
proof -
  note steps = keeps_checked keeps_finish keeps_handle keeps_executed keeps_atomic log_free_execution recovery_reads
    keeps_basic
  have "keeps execution_ok (create_execution_session_command env p r)" for env p r
    unfolding create_execution_session_command_def Let_def
    by (rule steps create_session_keeps | simp)+
  moreover have "keeps execution_ok (request_tool_execution_command env p r)" for env p r
    unfolding request_tool_execution_command_def Let_def by (rule steps request_tool_keeps)+
  moreover have "keeps execution_ok (evaluate_policy_decision_command env p)" for env p
    unfolding evaluate_policy_decision_command_def Let_def
    by (cases "jget p ''principal_actor''"; simp only: json.case)
      (rule steps evaluate_policy_keeps | simp)+
  moreover have "keeps execution_ok (start_tool_execution_attempt_command env p)" for env p
    unfolding start_tool_execution_attempt_command_def by (rule steps start_attempt_keeps)+
  moreover have "keeps execution_ok (complete_tool_execution_command env p r)" for env p r
    unfolding complete_tool_execution_command_def Let_def by (rule steps complete_tool_keeps | simp)+
  moreover have "keeps execution_ok (transition_execution_session_state_command env p r)" for env p r
    unfolding transition_execution_session_state_command_def Let_def by (rule steps transition_session_keeps | simp)+
  moreover have "keeps execution_ok (reconcile_executions_command env p)" for env p
    unfolding reconcile_executions_command_def Let_def
    by (rule steps yields_peek yields_each reconcile_session_keeps)+
  ultimately show "execution_ok d \<Longrightarrow> execution_ok (run_execution_command c d)"
    by (cases c) (simp_all add: keeps_def)
qed

lemma execution_runs_ok: "execution_ok d \<Longrightarrow> execution_ok (fold run_execution_command cs d)"
  by (induction cs arbitrary: d) (simp_all add: keeps_execution_ok)

section \<open>The life of a tool execution\<close>

text \<open>
  The moves each command may make of a stored tool execution. No two moves of one command follow each
  other, so what a command does to a row is one move or none. The document
  \<open>docs/planning/EXECUTION_SESSION_RUNTIME_MODEL.md\<close> lists four moves: requested to approved and to denied,
  approved to completed and to failed. The code has more: starting an attempt stores the tool execution
  as running, an attempt may end as cancelled, and reconciling a stale session fails what is still open in it.
\<close>

fun tool_edges :: "execution_command \<Rightarrow> (string \<times> string) list" where
  "tool_edges (Evaluate_Policy _ _) = [(''REQUESTED'', ''APPROVED''), (''REQUESTED'', ''DENIED'')]"
| "tool_edges (Start_Attempt _ _) = [(''APPROVED'', ''RUNNING'')]"
| "tool_edges (Complete_Tool _ _ _) =
     [(''APPROVED'', ''COMPLETED''), (''APPROVED'', ''FAILED''), (''APPROVED'', ''CANCELED''),
      (''RUNNING'', ''COMPLETED''), (''RUNNING'', ''FAILED''), (''RUNNING'', ''CANCELED'')]"
| "tool_edges (Reconcile_Executions _ _) =
     [(''REQUESTED'', ''FAILED''), (''APPROVED'', ''FAILED''), (''RUNNING'', ''FAILED'')]"
| "tool_edges _ = []"

inductive tool_step :: "execution_command \<Rightarrow> tool_execution_row \<Rightarrow> tool_execution_row \<Rightarrow> bool" where
  unmoved: "tool_step c t t"
| moved: "(te_state t, s) \<in> set (tool_edges c) \<Longrightarrow> tool_step c t (moved_tool s policy outputs completed error t)"

lemma tool_step_once:
  assumes "tool_step c t t1" "tool_step c t1 t2"
  shows "tool_step c t t2"
proof -
  have "(y, z) \<notin> set (tool_edges c)" if "(x, y) \<in> set (tool_edges c)" for x y z
    using that by (cases c) auto
  with assms show ?thesis by (fastforce elim!: tool_step.cases intro: tool_step.intros)
qed

definition tools_evolve :: "execution_command \<Rightarrow> db \<Rightarrow> db \<Rightarrow> bool" where
  "tools_evolve c d d' \<longleftrightarrow> (\<forall>i t. get_tool_execution d i = Some t \<longrightarrow>
     (\<exists>t'. get_tool_execution d' i = Some t' \<and> tool_step c t t'))"

lemma tools_unchanged: "tool_executions d' = tool_executions d \<Longrightarrow> tools_evolve c d d'"
  by (auto simp: tools_evolve_def get_tool_execution_def intro: unmoved)

interpretation tools: db_evolution "tools_evolve c" for c
proof
  fix d d1 d2 assume "tools_evolve c d d1" "tools_evolve c d1 d2"
  then show "tools_evolve c d d2" unfolding tools_evolve_def by (meson tool_step_once)
qed (simp_all add: tools_unchanged)

lemma tools_still:
  "(\<And>d. tool_executions (snd (m d)) = tool_executions d) \<Longrightarrow> evolves (tools_evolve c) m"
  by (simp add: evolves_def tools_unchanged)

lemma tools_move:
  assumes "\<And>s. s \<in> set states \<Longrightarrow> (s, to_state) \<in> set (tool_edges c)"
  shows "evolves (tools_evolve c) (transition_tool_execution_state i states to_state policy outputs completed error)"
proof (rule evolvesI)
  fix d r d'
  assume run: "transition_tool_execution_state i states to_state policy outputs completed error d = (r, d')"
  let ?f = "moved_tool to_state policy outputs completed error"
  show "tools_evolve c d d'"
  proof (cases "states = []")
    case False
    then have "tool_executions d' = update_where (\<lambda>r. te_id r = i \<and> te_state r \<in> set states) ?f (tool_executions d)"
      using run by (auto simp: transition_tool_execution_state_def update_one_def Let_def)
    then have "get_tool_execution d' j =
        map_option (\<lambda>t. if j = i \<and> te_state t \<in> set states then ?f t else t) (get_tool_execution d j)" for j
      by (cases "j = i") (simp_all add: get_tool_execution_def select_key_update select_other_update option.map_ident)
    with assms show ?thesis unfolding tools_evolve_def by (auto intro: tool_step.intros)
  qed (use run in \<open>simp add: transition_tool_execution_state_def comp_apply tools_unchanged\<close>)
qed

lemma tools_requested: "evolves (tools_evolve c) (insert_tool_execution r)"
  using tool_execution_ids.grows [of r]
  unfolding evolves_def tools_evolve_def get_tool_execution_def
  by (metis (no_types, lifting) unmoved select_one_append option.case(2))

lemma tool_frames:
  "tool_executions (snd (create_execution_session a b c e f g h k l m d)) = tool_executions d"
  "tool_executions (snd (increment_tool_call_count a b d)) = tool_executions d"
  "tool_executions (snd (transition_execution_session_state a ss b c closed d)) = tool_executions d"
  "tool_executions (snd (create_policy_decision a who b why what tool now d)) = tool_executions d"
  "tool_executions (snd (assert_idempotency_available x d)) = tool_executions d"
proof -
  show "tool_executions (snd (create_execution_session a b c e f g h k l m d)) = tool_executions d"
    unfolding create_execution_session_def with_integers_def
    by (cases "check_all bind_integer [l]") (auto simp: seq_unit insert_session_def comp_apply)
qed (auto simp: increment_tool_call_count_def update_one_def Let_def transition_execution_session_state_def
  create_policy_decision_def insert_policy_decision_def comp_apply assert_idempotency_available_def split: option.split)

lemma attempt_frames:
  "tool_executions (snd (create_tool_execution_attempt a b c e f d)) = tool_executions d"
  "tool_executions (snd (complete_tool_execution_attempt a b c e os h err d)) = tool_executions d"
proof -
  show "tool_executions (snd (create_tool_execution_attempt a b c e f d)) = tool_executions d"
    by (rule create_tool_execution_attempt_cases [of a b c e f d "fst (create_tool_execution_attempt a b c e f d)"
        "snd (create_tool_execution_attempt a b c e f d)"]) auto
  show "tool_executions (snd (complete_tool_execution_attempt a b c e os h err d)) = tool_executions d"
    by (auto simp: complete_tool_execution_attempt_def Let_def read_back_def seq_unit comp_apply split: option.split)
qed

lemmas tools_steps = tools.basic tools.sequence tools.handled tools.atomic tools.executing tools.emitting
  tools.collecting_loop evolves_if evolves_option tools_still [OF tool_frames(1)] tools_still [OF tool_frames(2)]
  tools_still [OF tool_frames(3)] tools_still [OF tool_frames(4)] tools_still [OF tool_frames(5)]
  tools_still [OF attempt_frames(1)] tools_still [OF attempt_frames(2)]

lemma tools_found: "evolves (tools_evolve c) (found_or e x)"
  unfolding found_or_def by (rule evolves_option tools.basic)+

lemma tools_recovery:
  "evolves (tools_evolve c) (request_tool_recovery payload e)"
  "evolves (tools_evolve c) (evaluate_policy_recovery payload e)"
  using recovery_reads [of "\<lambda>d'. d' = d" for d] unfolding keeps_def evolves_def
  by (metis tools.refl)+

lemma command_tools: "tools_evolve c d (run_execution_command c d)"
proof -
  have "evolves (tools_evolve (Create_Session env p r)) (create_execution_session_command env p r)" for env p r
    unfolding create_execution_session_command_def create_session_operation_def Let_def
    by (rule tools_steps tools_found)+
  moreover have "evolves (tools_evolve (Request_Tool env p r)) (request_tool_execution_command env p r)" for env p r
    unfolding request_tool_execution_command_def request_tool_operation_def create_tool_execution_def Let_def
    by (rule tools_steps tools_found tools_recovery tools.integers tools_requested)+
  moreover have "evolves (tools_evolve (Evaluate_Policy env p)) (evaluate_policy_decision_command env p)" for env p
  proof -
    have "evolves (tools_evolve (Evaluate_Policy env p)) (policy_allow env q t s scope)"
      "evolves (tools_evolve (Evaluate_Policy env p)) (policy_deny env q why t s scope)" for env q t s scope why
      unfolding policy_allow_def policy_deny_def Let_def
      by (rule tools_steps tools_found tools_move | simp; fail)+
    then show ?thesis
      unfolding evaluate_policy_decision_command_def evaluate_policy_operation_def Let_def
      by (cases "jget p ''principal_actor''"; simp only: json.case)
        (rule tools_steps tools_found tools_recovery | assumption)+
  qed
  moreover have "evolves (tools_evolve (Start_Attempt env p)) (start_tool_execution_attempt_command env p)" for env p
    unfolding start_tool_execution_attempt_command_def start_attempt_operation_def Let_def
    by (rule tools_steps tools_found tools_move | simp; fail)+
  moreover have "evolves (tools_evolve (Complete_Tool env p r)) (complete_tool_execution_command env p r)" for env p r
    unfolding complete_tool_execution_command_def complete_tool_operation_def Let_def prod.case
    by (rule tools_steps tools_found tools_move | simp add: tool_result_state_def; fail)+
  moreover have "evolves (tools_evolve (Transition_Session env p r)) (transition_execution_session_state_command env p r)" for env p r
    unfolding transition_execution_session_state_command_def transition_session_operation_def Let_def
    by (rule tools_steps tools_found)+
  moreover have "evolves (tools_evolve (Reconcile_Executions env p)) (reconcile_executions_command env p)" for env p
    unfolding reconcile_executions_command_def reconcile_session_def reconcile_tool_def Let_def
    by (rule tools_steps tools_found tools_move
      | auto simp: open_tool_states_def; fail)+
  ultimately show ?thesis by (cases c) (simp_all add: evolves_def)
qed

text \<open>A closed tool execution stays as it is, and so do the attempts at it.\<close>

definition frozen :: "tool_execution_row \<Rightarrow> tool_attempt_row list \<Rightarrow> db \<Rightarrow> bool" where
  "frozen t as d \<longleftrightarrow> get_tool_execution d (te_id t) = Some t \<and> te_state t \<notin> set open_tool_states
     \<and> filter (\<lambda>a. ta_tool a = te_id t) (tool_attempts d) = as"

lemma frozen_frame:
  "tool_executions d' = tool_executions d \<Longrightarrow> tool_attempts d' = tool_attempts d \<Longrightarrow> frozen t as d' = frozen t as d"
  by (simp add: frozen_def get_tool_execution_def)

lemma keeps_unframed:
  assumes "\<And>d. tool_executions (snd (m d)) = tool_executions d" "\<And>d. tool_attempts (snd (m d)) = tool_attempts d"
  shows "keeps (frozen t as) m"
  using assms frozen_frame unfolding keeps_def by blast

lemma attempt_table_frames:
  "tool_attempts (snd (create_execution_session a b c e f g h k l m d)) = tool_attempts d"
  "tool_attempts (snd (increment_tool_call_count a b d)) = tool_attempts d"
  "tool_attempts (snd (transition_execution_session_state a ss b c closed d)) = tool_attempts d"
  "tool_attempts (snd (create_policy_decision a who b why what tool now d)) = tool_attempts d"
  "tool_attempts (snd (assert_idempotency_available x d)) = tool_attempts d"
proof -
  show "tool_attempts (snd (create_execution_session a b c e f g h k l m d)) = tool_attempts d"
    unfolding create_execution_session_def with_integers_def
    by (cases "check_all bind_integer [l]") (auto simp: seq_unit insert_session_def comp_apply)
qed (auto simp: increment_tool_call_count_def update_one_def Let_def transition_execution_session_state_def
  create_policy_decision_def insert_policy_decision_def comp_apply assert_idempotency_available_def split: option.split)

lemma frozen_move:
  assumes "set states \<subseteq> set open_tool_states"
  shows "keeps (frozen t as) (transition_tool_execution_state i states to_state policy outputs completed error)"
proof (rule keepsI)
  fix d assume frozen: "frozen t as d"
  let ?m = "transition_tool_execution_state i states to_state policy outputs completed error"
  let ?f = "moved_tool to_state policy outputs completed error"
  show "frozen t as (snd (?m d))"
  proof (cases "states = []")
    case False
    then have m: "snd (?m d) = d\<lparr>tool_executions :=
        update_where (\<lambda>r. te_id r = i \<and> te_state r \<in> set states) ?f (tool_executions d)\<rparr>"
      by (simp add: transition_tool_execution_state_def update_one_def Let_def)
    have "get_tool_execution (snd (?m d)) j =
        map_option (\<lambda>t. if j = i \<and> te_state t \<in> set states then ?f t else t) (get_tool_execution d j)" for j
      by (cases "j = i") (simp_all add: m get_tool_execution_def select_key_update select_other_update option.map_ident)
    with frozen assms show ?thesis by (auto simp: frozen_def m)
  qed (use frozen in \<open>simp add: transition_tool_execution_state_def comp_apply\<close>)
qed

lemma frozen_request:
  "keeps (frozen t as) (create_tool_execution i s c name state idem n policy outputs now completed error)"
  unfolding create_tool_execution_def
proof (rule keeps_with_integers, rule keepsI)
  fix d and r assume frozen: "frozen t as d"
  then show "frozen t as (snd (insert_tool_execution r d))"
    by (auto simp: insert_tool_execution_def comp_apply frozen_def get_tool_execution_def select_one_append)
qed

lemma frozen_attempts:
  assumes "j \<noteq> te_id t"
  shows "keeps (frozen t as) (create_tool_execution_attempt i j s l now)"
    and "keeps (frozen t as) (complete_tool_execution_attempt i j l state os now e)"
proof -
  show "keeps (frozen t as) (create_tool_execution_attempt i j s l now)"
  proof (rule keepsI)
    fix d assume frozen: "frozen t as d"
    obtain r d' where run: "create_tool_execution_attempt i j s l now d = (r, d')" by fastforce
    have "frozen t as d'"
      by (cases rule: create_tool_execution_attempt_cases [OF run])
        (use frozen assms in \<open>auto simp: frozen_def get_tool_execution_def\<close>)
    with run show "frozen t as (snd (create_tool_execution_attempt i j s l now d))" by simp
  qed
  have same: "filter (\<lambda>a. ta_tool a = te_id t) (update_where (\<lambda>r. ta_id r = i \<and> ta_tool r = j \<and> q r)
      (completed_attempt state os now e) rows) = filter (\<lambda>a. ta_tool a = te_id t) rows" for q rows
    using assms by (induction rows) (auto simp: update_where_def)
  show "keeps (frozen t as) (complete_tool_execution_attempt i j l state os now e)"
    by (rule keepsI) (auto simp: complete_tool_execution_attempt_def Let_def read_back_def seq_unit comp_apply
      frozen_def get_tool_execution_def same split: option.split)
qed

lemmas frozen_steps = keeps_basic keeps_seq keeps_if keeps_option keeps_found keeps_handle keeps_emit keeps_read
  keeps_unframed [OF tool_frames(1) attempt_table_frames(1)] keeps_unframed [OF tool_frames(2) attempt_table_frames(2)]
  keeps_unframed [OF tool_frames(3) attempt_table_frames(3)] keeps_unframed [OF tool_frames(4) attempt_table_frames(4)]
  keeps_unframed [OF tool_frames(5) attempt_table_frames(5)] frozen_request recovery_reads keeps_atomically
  keeps_map_each keeps_execute

lemma log_free_frozen: "log_free (frozen t as)"
  by (simp add: log_free_def frozen_def get_tool_execution_def)

lemma frozen_start: "yields (frozen t as) (start_attempt_operation env payload) (\<lambda>_. frozen t as)"
proof (cases "py_str (jget payload ''tool_execution_id'') = te_id t")
  case True
  then show ?thesis
    unfolding start_attempt_operation_def Let_def
    by (auto simp: yields_def seq_unit frozen_def found_or_def open_tool_states_def seq_eq_Inr comp_apply)
next
  case False
  show ?thesis
    unfolding start_attempt_operation_def Let_def
    by (rule keeps_yields) (rule frozen_steps frozen_attempts frozen_move False | simp add: open_tool_states_def; fail)+
qed

lemma frozen_complete: "yields (frozen t as) (complete_tool_operation env payload result receipt) (\<lambda>_. frozen t as)"
proof (cases "py_str (jget payload ''tool_execution_id'') = te_id t")
  case True
  then show ?thesis
    unfolding complete_tool_operation_def Let_def
    by (auto simp: yields_def seq_unit frozen_def found_or_def open_tool_states_def seq_eq_Inr comp_apply)
next
  case False
  show ?thesis
    unfolding complete_tool_operation_def Let_def prod.case
    by (rule keeps_yields) (rule frozen_steps frozen_attempts frozen_move log_free_frozen False
      | simp add: open_tool_states_def; fail)+
qed

lemma frozen_command: "frozen t as d \<Longrightarrow> frozen t as (run_execution_command c d)"
proof -
  note steps = frozen_steps log_free_frozen
  have "keeps (frozen t as) (create_execution_session_command env p r)" for env p r
    unfolding create_execution_session_command_def create_session_operation_def Let_def by (rule steps)+
  moreover have "keeps (frozen t as) (request_tool_execution_command env p r)" for env p r
    unfolding request_tool_execution_command_def request_tool_operation_def Let_def by (rule steps)+
  moreover have "keeps (frozen t as) (evaluate_policy_decision_command env p)" for env p
  proof -
    have "keeps (frozen t as) (policy_allow env q u s scope)" "keeps (frozen t as) (policy_deny env q why u s scope)"
      for env q u s scope why
      unfolding policy_allow_def policy_deny_def Let_def
      by (rule steps frozen_move | simp add: open_tool_states_def; fail)+
    then show ?thesis
      unfolding evaluate_policy_decision_command_def evaluate_policy_operation_def Let_def
      by (cases "jget p ''principal_actor''"; simp only: json.case) (rule steps | assumption)+
  qed
  moreover have "keeps (frozen t as) (start_tool_execution_attempt_command env p)" for env p
    unfolding start_tool_execution_attempt_command_def by (rule steps keeps_atomic frozen_start)+
  moreover have "keeps (frozen t as) (complete_tool_execution_command env p r)" for env p r
    unfolding complete_tool_execution_command_def Let_def
    by (rule keeps_checked keeps_finish keeps_executed log_free_frozen frozen_complete)+
  moreover have "keeps (frozen t as) (transition_execution_session_state_command env p r)" for env p r
    unfolding transition_execution_session_state_command_def transition_session_operation_def Let_def by (rule steps)+
  moreover have "keeps (frozen t as) (reconcile_executions_command env p)" for env p
    unfolding reconcile_executions_command_def reconcile_session_def reconcile_tool_def Let_def
    by (rule steps frozen_move | simp; fail)+
  ultimately show "frozen t as d \<Longrightarrow> frozen t as (run_execution_command c d)"
    by (cases c) (simp_all add: keeps_def)
qed

lemma frozen_runs: "frozen t as d \<Longrightarrow> frozen t as (fold run_execution_command cs d)"
  by (induction cs arbitrary: d) (simp_all add: frozen_command)

section \<open>Reopening a session\<close>

definition moved_session :: "string \<Rightarrow> string \<Rightarrow> string option \<Rightarrow> session_row \<Rightarrow> session_row" where
  "moved_session to_state updated closed s = s\<lparr>es_state := to_state, es_updated_at := updated, es_closed_at := closed\<rparr>"

lemma session_moves:
  assumes unique: "distinct (map es_id (sessions d))"
    and s: "get_execution_session d (py_str (jget payload ''execution_session_id'')) = Some s" "es_state s \<noteq> to_state"
    and run: "es_run s \<in> wr_id ` set (runs d)"
    and request: "require_fields payload [''execution_session_id'', ''to_state'', ''idempotency_key''] = Inr ()"
      "py_str (jget payload ''to_state'') = to_state" "to_state \<in> set execution_session_states"
      "assert_actor_type (str_field payload ''actor_type'' ''system'') = Inr ()"
      "normalize_command_idempotency_key (jget payload ''idempotency_key'') True = Inr (Some k)"
      "public_command_scope_key ''execution-sessions.transition'' payload = Inr scope_key"
    and fresh: "get_command_receipt d ''execution-sessions.transition'' scope_key k = None"
      "event_id_for_type ''execution.session.state_changed'' (snd (fe_event env (next_seq d))) \<notin> ev_id ` set (events d)"
      "Some (scoped_event_idempotency_base ''execution-sessions.transition'' scope_key k @
         '':execution-sessions.transition.execution.session.state_changed'') \<notin> ev_idem ` set (events d)"
  shows "\<exists>out d'. transition_execution_session_state_command env payload include_receipt d = (Inr out, d')
    \<and> get_execution_session d' (es_id s) = Some (moved_session to_state (fe_now env) (closing_time to_state (fe_now env)) s)"
proof -
  let ?i = "py_str (jget payload ''execution_session_id'')"
  let ?move = "moved_session to_state (fe_now env) (closing_time to_state (fe_now env))"
  have id: "es_id s = ?i" using s(1) by (auto simp: get_execution_session_def dest: select_one_Some)
  obtain w where "select_one (\<lambda>x. wr_id x = es_run s) (runs d) = Some w"
    using run by (cases "select_one (\<lambda>x. wr_id x = es_run s) (runs d)") (auto simp: select_one_None)
  then obtain scope where scope: "workflow_scope d (es_run s) = Inr scope"
    by (simp add: workflow_scope_def get_workflow_run_def)
  define input where "input = [(''execution_session_id'', JStr ?i), (''to_state'', JStr to_state),
        (''reason'', of_opt (opt_field payload ''reason'')),
        (''actor_id'', jget_default payload ''actor_id'' (JStr ''system:runtime'')),
        (''actor_type'', jget_default payload ''actor_type'' (JStr ''system''))]"
  define rx where "rx = \<lparr>rx_command = ''execution-sessions.transition'', rx_scope = scope_key, rx_idem = k,
      rx_fingerprint = command_request_fingerprint input, rx_profile = receipt_hash_profile,
      rx_event_base = scoped_event_idempotency_base ''execution-sessions.transition'' scope_key k,
      rx_tenant = None, rx_domain = None, rx_run = None\<rparr>"
  have prepared: "prepare_command_receipt ''execution-sessions.transition'' payload input None None None True = Inr (Some rx)"
    unfolding rx_def by (rule prepare_command_receipt_ok [OF request(5,6)])
  define d1 where "d1 = d\<lparr>sessions := update_where (\<lambda>r. es_id r = ?i \<and> es_state r \<in> set [es_state s]) ?move (sessions d)\<rparr>"
  have moved: "transition_execution_session_state ?i [es_state s] to_state (fe_now env) (closing_time to_state (fe_now env)) d
      = (Inr (Some (?move s)), d1)"
    unfolding transition_execution_session_state_def d1_def get_execution_session_def
    using session_table.hit [where q = "\<lambda>r. es_state r \<in> set [es_state s]" and f = ?move,
        OF unique _ s(1) [unfolded get_execution_session_def]]
    by (simp add: moved_session_def [abs_def])
  have stored: "get_execution_session d1 ?i = Some (?move s)"
    using s(1) by (simp add: d1_def get_execution_session_def select_key_update moved_session_def)
  let ?links = "[link ''workflow_run'' (es_run s), link ''task_run'' (es_task_run s), link ''execution_session'' ?i]"
  let ?key = "receipt_event_idempotency_key (Some rx) ''execution-sessions.transition.execution.session.state_changed''"
  have types: "set required \<subseteq> set (link_types ?links)"
    if "required_link_types_by_event ''execution.session.state_changed'' = Some required" for required
  proof -
    have "required_link_types_by_event ''execution.session.state_changed'' = Some [''execution_session'']"
      "py_strip ''execution_session'' = ''execution_session''" "py_strip ''workflow_run'' = ''workflow_run''"
      "py_strip ''task_run'' = ''task_run''" by code_simp+
    with that show ?thesis by (auto simp: link_def jget_def)
  qed
  have ids: "event_id_for_type ''execution.session.state_changed'' (snd (fe_event env (next_seq d1))) \<notin> ev_id ` set (events d1)"
    "?key = None \<or> ?key \<notin> ev_idem ` set (events d1)"
    using fresh by (simp_all add: d1_def rx_def receipt_event_idempotency_key_def)
  obtain i d2 where emitted: "emit env ''execution.session.state_changed'' (ws_tenant scope) (ws_domain scope)
      (str_field payload ''actor_type'' ''system'') (str_field payload ''actor_id'' ''system:runtime'') ?links
      (session_changed ?i (es_state s) to_state (of_opt (opt_field payload ''reason''))) ?key d1 = (Inr i, d2)"
    and d2: "d2 = d1\<lparr>events := events d2, next_seq := next_seq d2\<rparr>"
    by (rule emit_ok [OF request(4) types ids])
  have frame: "receipts d2 = receipts d" "runs d2 = runs d" "sessions d2 = sessions d1"
    using arg_cong [OF d2, of receipts] arg_cong [OF d2, of runs] arg_cong [OF d2, of sessions] by (simp_all add: d1_def)
  have stored2: "get_execution_session d2 ?i = Some (?move s)"
    using stored by (simp add: get_execution_session_def frame)
  let ?op = "transition_session_operation env payload to_state (Some rx)"
  have op: "?op d = (Inr (session_dict (?move s)), d2)"
    using s(2) scope moved emitted stored2
    by (simp add: transition_session_operation_def Let_def seq_unit s(1) found_or_def seq_def comp_apply)
  have "find_receipt (Some rx) d = None" "fk_ok (rx_run rx) (map wr_id (runs d2))"
    using fresh(1) by (simp_all add: find_receipt_def fk_ok_def rx_def)
  from execute_new [where operation = ?op and d = d, OF op this(1) frame(1) this(2)] obtain d' where
    exec: "execute_with_command_receipt (Some rx) ?op d = (Inr (session_dict (?move s), False), d')"
    and d': "d' = d2\<lparr>receipts := receipts d', next_receipt := next_receipt d'\<rparr>" by blast
  have "get_execution_session d' ?i = Some (?move s)"
    using arg_cong [OF d', of sessions] stored2 by (simp add: get_execution_session_def)
  with exec show ?thesis
    using request(1,2,3) prepared id
    unfolding transition_execution_session_state_command_def Let_def input_def
    by (simp add: seq_of_result_Inr seq_eq_Inr comp_apply seq_unit)
qed

section \<open>Properties\<close>

text \<open>A run with one session, where a tool execution was allowed and is being attempted.\<close>

definition running_tool :: tool_execution_row where
  "running_tool = \<lparr>te_id = ''x'', te_session = ''s'', te_class = ''model'', te_name = None, te_state = ''RUNNING'',
     te_idem = ''k'', te_attempt_no = 0, te_policy = Some ''p'', te_outputs = None, te_requested_at = ''t0'',
     te_completed_at = None, te_error = None\<rparr>"

definition execution_sample :: db where
  "execution_sample = sample_db\<lparr>
     sessions := [\<lparr>es_id = ''s'', es_run = ''r'', es_task_run = ''t'', es_spec = ''e'', es_state = ''RUNNING'',
       es_owner_mode = ''agent'', es_principal = None, es_budget = None, es_tool_calls = 1, es_created_at = ''2026-01-01T00:00:00Z'',
       es_updated_at = ''2026-01-01T00:00:00Z'', es_closed_at = None\<rparr>],
     tool_executions := [running_tool],
     policy_decisions := [\<lparr>pd_id = ''p'', pd_principal = [], pd_decision = ''allow'', pd_reason = None,
       pd_approval_action = None, pd_tool = Some ''x'', pd_decided_at = ''t0''\<rparr>],
     tool_attempts := [\<lparr>ta_id = ''a'', ta_tool = ''x'', ta_session = ''s'', ta_no = 1, ta_lease = ''l'', ta_state = ''RUNNING'',
       ta_active = Some ''x'', ta_outputs = None, ta_started_at = ''t0'', ta_completed_at = None, ta_error = None,
       ta_created_at = ''t0'', ta_updated_at = ''t0''\<rparr>]\<rparr>"

definition sample_effects :: effect_env where
  "sample_effects = \<lparr>fe_now = ''2026-01-02T00:00:00Z'', fe_uuid = ''u'', fe_event = (\<lambda>n. (''2026-01-02T00:00:00Z'', replicate n CHR ''e''))\<rparr>"

lemma lifecycle_sample_ok: "execution_ok execution_sample"
  by code_simp

lemma sample_stale:
  "rbind (parse_iso_datetime ''2026-01-02T00:00:00Z'') (\<lambda>n. rbind (shift_seconds n (- 300)) (\<lambda>m. Inr (iso_text m)))
    = Inr ''2026-01-01T23:55:00Z''"
  by code_simp

lemma sample_sessions:
  "map es_id (list_reconcilable_execution_sessions execution_sample ''2026-01-01T23:55:00Z'') = [''s'']"
  by code_simp

lemma sample_reconciled:
  "frozen (moved_tool ''FAILED'' (Some ''p'') None (Some ''2026-01-02T00:00:00Z'') (Some ''execution_reconcile_timeout'') running_tool)
     (tool_attempts execution_sample) (snd (atomically
        (seq (asks (\<lambda>d. list_reconcilable_execution_sessions d ''2026-01-01T23:55:00Z'')) (\<lambda>sessions.
         map_each (reconcile_session sample_effects ''2026-01-02T00:00:00Z'') sessions)) execution_sample))"
  by code_simp

lemma execution_sample_reconciled:
  "frozen (moved_tool ''FAILED'' (Some ''p'') None (Some ''2026-01-02T00:00:00Z'') (Some ''execution_reconcile_timeout'') running_tool)
     (tool_attempts execution_sample) (run_execution_command (Reconcile_Executions sample_effects []) execution_sample)"
proof -
  obtain n m where n: "parse_iso_datetime ''2026-01-02T00:00:00Z'' = Inr n" "shift_seconds n (- 300) = Inr m"
    "iso_text m = ''2026-01-01T23:55:00Z''"
    using sample_stale by (auto simp: rbind_eq_Inr)
  have now: "py_str (py_or (jget [] ''now'') (JStr (fe_now sample_effects))) = ''2026-01-02T00:00:00Z''"
    "int_field [] ''stale_seconds'' 300 = Inr 300" by code_simp+
  have snd_ret: "snd (seq m (\<lambda>x. ret (f x)) s) = snd (m s)" for m :: "('a, 's) comp" and f :: "'a \<Rightarrow> 'b" and s
    by (auto simp: seq_def comp_apply split: prod.split sum.split)
  show ?thesis
    using sample_reconciled n
    by (simp add: reconcile_executions_command_def Let_def now seq_unit snd_ret)
qed

text \<open>
  C20: Every session and every tool execution stays in a state of its enumeration, and has a closing time
  exactly while it is in a closed state: over any commands, if it holds at the start.
\<close>

theorem execution_rows_typed:
  assumes "execution_ok d"
  shows "(\<forall>s\<in>set (sessions (fold run_execution_command cs d)). es_state s \<in> set execution_session_states
        \<and> (es_closed_at s \<noteq> None \<longleftrightarrow> es_state s \<in> set closed_session_states))
    \<and> (\<forall>t\<in>set (tool_executions (fold run_execution_command cs d)). te_state t \<in> set tool_execution_states
        \<and> (te_completed_at t \<noteq> None \<longleftrightarrow> te_state t \<notin> set open_tool_states))"
  using execution_runs_ok [OF assms, of cs] by (auto simp: execution_ok_def session_row_ok_def tool_row_ok_def)

theorem execution_rows_typed_witness:
  "list_all (\<lambda>t. te_completed_at t \<noteq> None \<longleftrightarrow> te_state t \<notin> set open_tool_states)
     (tool_executions (fold run_execution_command [Reconcile_Executions sample_effects []] execution_sample))"
  unfolding list_all_iff using execution_rows_typed [OF lifecycle_sample_ok] by blast

text \<open>
  C8: No tool execution is approved, running, completed or cancelled without a policy decision that allows
  it: one is stored that was made about this tool execution and that the row names. Every output recorded
  for a tool execution is an artifact version of the workflow run of its session.
\<close>

theorem tools_run_only_when_allowed:
  assumes "execution_ok d" "t \<in> set (tool_executions (fold run_execution_command cs d))"
    and "te_state t \<in> {''APPROVED'', ''RUNNING'', ''COMPLETED'', ''CANCELED''}"
  shows "decided (fold run_execution_command cs d) (te_id t) (te_policy t) ''allow''
    \<and> outputs_ok (fold run_execution_command cs d) (te_session t) (te_outputs t)"
  using execution_runs_ok [OF assms(1), of cs] assms(2,3) by (auto simp: execution_ok_def tool_row_ok_def)

theorem tools_run_only_when_allowed_witness:
  "decided (fold run_execution_command [] execution_sample) (te_id running_tool) (te_policy running_tool) ''allow''"
proof -
  have "running_tool \<in> set (tool_executions (fold run_execution_command [] execution_sample))"
    "te_state running_tool \<in> {''APPROVED'', ''RUNNING'', ''COMPLETED'', ''CANCELED''}"
    by (simp_all add: execution_sample_def running_tool_def)
  from tools_run_only_when_allowed [OF lifecycle_sample_ok this] show ?thesis ..
qed

text \<open>
  C7: A command moves a stored tool execution along one edge of its own or leaves it as it is, whatever
  the database: evaluating a policy decides a requested one, starting an attempt takes an approved one,
  completing takes an approved or running one and reconciling fails an open one; no other command touches
  it. Its session, class, name, idempotency key and time of request never change, and a closed one stays
  as it is over any further commands.
\<close>

theorem tool_execution_path:
  assumes "get_tool_execution d i = Some t"
  shows "\<exists>t'. get_tool_execution (run_execution_command c d) i = Some t'
    \<and> (t' = t \<or> (te_state t, te_state t') \<in> set (tool_edges c))
    \<and> (te_id t', te_session t', te_class t', te_name t', te_idem t', te_requested_at t') =
        (te_id t, te_session t, te_class t, te_name t, te_idem t, te_requested_at t)
    \<and> (te_state t \<in> set open_tool_states \<or> get_tool_execution (fold run_execution_command cs d) i = Some t)"
proof -
  from command_tools [of c d] obtain t' where t': "get_tool_execution (run_execution_command c d) i = Some t'"
    "tool_step c t t'"
    using assms unfolding tools_evolve_def by blast
  have i: "te_id t = i" using assms by (auto simp: get_tool_execution_def dest: select_one_Some)
  have "te_state t \<in> set open_tool_states \<or> get_tool_execution (fold run_execution_command cs d) i = Some t"
    using frozen_runs [where t = t and d = d and cs = cs] assms i by (auto simp: frozen_def)
  with t' show ?thesis by (auto elim!: tool_step.cases)
qed

theorem tool_execution_path_witness:
  "\<exists>t'. get_tool_execution (run_execution_command (Reconcile_Executions sample_effects []) execution_sample) ''x'' = Some t'
     \<and> te_state running_tool = ''RUNNING'' \<and> te_state t' = ''FAILED'' \<and> te_session t' = ''s''
     \<and> (''RUNNING'', ''FAILED'') \<in> set (tool_edges (Reconcile_Executions sample_effects []))"
proof -
  have stored: "get_tool_execution execution_sample ''x'' = Some running_tool"
    by (simp add: get_tool_execution_def execution_sample_def running_tool_def)
  have columns: "te_state running_tool = ''RUNNING''" "te_session running_tool = ''s''" "te_id running_tool = ''x''"
    by (simp_all add: running_tool_def)
  from execution_sample_reconciled
  have "map_option te_state (get_tool_execution
      (run_execution_command (Reconcile_Executions sample_effects []) execution_sample) ''x'') = Some ''FAILED''"
    by (simp add: frozen_def columns)
  with tool_execution_path [OF stored, of "Reconcile_Executions sample_effects []"] show ?thesis
    unfolding columns by auto
qed

text \<open>
  The attempts at a closed tool execution can never be started or finished any more: over any commands
  they stay as they are. So an attempt that is running when its tool execution is failed by reconciling, which
  leaves attempts alone, is stored as running and active for good.
\<close>

lemma closed_tool_keeps_attempts:
  assumes "get_tool_execution d i = Some t" "te_state t \<notin> set open_tool_states"
  shows "filter (\<lambda>a. ta_tool a = i) (tool_attempts (fold run_execution_command cs d)) =
    filter (\<lambda>a. ta_tool a = i) (tool_attempts d)"
proof -
  have i: "te_id t = i" using assms(1) by (auto simp: get_tool_execution_def dest: select_one_Some)
  with assms have "frozen t (filter (\<lambda>a. ta_tool a = i) (tool_attempts d)) d" by (simp add: frozen_def)
  from frozen_runs [OF this, of cs] i show ?thesis by (simp add: frozen_def)
qed

text \<open>
  A session moves to any other state on request, also out of a state the documentation calls terminal: a
  request with a key and an event id not used before succeeds and stores the requested state; a closed session
  moved to an open state loses its closing time.
\<close>

lemma session_moves_anywhere:
  assumes unique: "distinct (map es_id (sessions d))"
    and s: "get_execution_session d (py_str (jget payload ''execution_session_id'')) = Some s" "es_state s \<noteq> to_state"
    and run: "es_run s \<in> wr_id ` set (runs d)"
    and request: "require_fields payload [''execution_session_id'', ''to_state'', ''idempotency_key''] = Inr ()"
      "py_str (jget payload ''to_state'') = to_state" "to_state \<in> set execution_session_states"
      "assert_actor_type (str_field payload ''actor_type'' ''system'') = Inr ()"
      "normalize_command_idempotency_key (jget payload ''idempotency_key'') True = Inr (Some k)"
      "public_command_scope_key ''execution-sessions.transition'' payload = Inr scope_key"
    and fresh: "get_command_receipt d ''execution-sessions.transition'' scope_key k = None"
      "event_id_for_type ''execution.session.state_changed'' (snd (fe_event env (next_seq d))) \<notin> ev_id ` set (events d)"
      "Some (scoped_event_idempotency_base ''execution-sessions.transition'' scope_key k @
         '':execution-sessions.transition.execution.session.state_changed'') \<notin> ev_idem ` set (events d)"
  shows "\<exists>out d'. transition_execution_session_state_command env payload include_receipt d = (Inr out, d')
    \<and> get_execution_session d' (es_id s) = Some (moved_session to_state (fe_now env) (closing_time to_state (fe_now env)) s)"
  by (rule session_moves [OF assms])

definition closed_sample :: db where
  "closed_sample = execution_sample\<lparr>sessions := map (moved_session ''SUCCEEDED'' ''t1'' (Some ''t1'')) (sessions execution_sample)\<rparr>"

definition reopen_request :: dict where
  "reopen_request = [(''execution_session_id'', JStr ''s''), (''to_state'', JStr ''RUNNING''), (''idempotency_key'', JStr ''k1'')]"

lemma reopen_request_simps:
  "distinct (map es_id (sessions closed_sample))" "''r'' \<in> wr_id ` set (runs closed_sample)"
  "require_fields reopen_request [''execution_session_id'', ''to_state'', ''idempotency_key''] = Inr ()"
  "py_str (jget reopen_request ''to_state'') = ''RUNNING''" "''RUNNING'' \<in> set execution_session_states"
  "assert_actor_type (str_field reopen_request ''actor_type'' ''system'') = Inr ()"
  "normalize_command_idempotency_key (jget reopen_request ''idempotency_key'') True = Inr (Some ''k1'')"
  "events closed_sample = []" "receipts closed_sample = []" "py_str (jget reopen_request ''execution_session_id'') = ''s''"
  by code_simp+

end
