(* ===== verification/Capex_Projects.thy ===== *)
theory Capex_Projects
  imports Command_Effects
begin

text \<open>
  CAPEX projects, their memberships and what is projected from them:
  \<open>src/onetruth/infrastructure/repositories/capex_projects.py\<close> and \<open>capex_project_authorization.py\<close>, the
  refresh of the projection in \<open>src/onetruth/capex_platform/project_authorization.py\<close>, the queries of
  \<open>src/onetruth/capex_platform/project_access.py\<close> and the checks of
  \<open>src/onetruth/application/services/capex_project_access.py\<close>. A join along a primary key is a lookup.
\<close>

text \<open>Keys of rows, and times as ISO texts.\<close>

type_synonym row_id = string
type_synonym timestamp = string

section \<open>Projects\<close>

definition insert_project :: "project_row \<Rightarrow> (unit, db) comp" where
  "insert_project r d =
     (if exists_row (\<lambda>x. pj_id x = pj_id r) (projects d)
      then raise (IntegrityError ''UNIQUE constraint failed: capex_projects.project_id'') d
      else if exists_row (\<lambda>x. pj_tenant x = pj_tenant r \<and> pj_domain x = pj_domain r \<and> pj_key x = pj_key r) (projects d)
      then raise (IntegrityError (''UNIQUE constraint failed: capex_projects.tenant_id, '' @
        ''capex_projects.domain_id, capex_projects.project_key'')) d
      else (Inr (), d\<lparr>projects := projects d @ [r]\<rparr>))"

definition create_capex_project ::
    "row_id \<Rightarrow> string \<Rightarrow> string \<Rightarrow> string \<Rightarrow> string \<Rightarrow> string \<Rightarrow> dict \<Rightarrow> row_id \<Rightarrow> string \<Rightarrow> timestamp \<Rightarrow> (unit, db) comp" where
  "create_capex_project project_id tenant_id domain_id project_key name state metadata created_by_actor_id
       created_by_actor_type created_at =
     insert_project \<lparr>pj_id = project_id, pj_tenant = tenant_id, pj_domain = domain_id, pj_key = project_key,
       pj_name = name, pj_state = state, pj_metadata = sort_dict metadata, pj_creator_id = created_by_actor_id,
       pj_creator_type = created_by_actor_type, pj_created_at = created_at, pj_updated_at = created_at\<rparr>"

definition get_capex_project :: "db \<Rightarrow> string \<Rightarrow> project_row option" where
  "get_capex_project d project_id = select_one (\<lambda>r. pj_id r = project_id) (projects d)"

definition get_capex_project_by_key :: "db \<Rightarrow> string \<Rightarrow> string \<Rightarrow> string \<Rightarrow> project_row option" where
  "get_capex_project_by_key d tenant_id domain_id project_key =
     select_one (\<lambda>r. pj_tenant r = tenant_id \<and> pj_domain r = domain_id \<and> pj_key r = project_key) (projects d)"

text \<open>A project as a query returns it, with the role of the caller.\<close>

record authorized_project =
  aj_id :: string
  aj_tenant :: string
  aj_domain :: string
  aj_key :: string
  aj_name :: string
  aj_state :: string
  aj_metadata :: dict
  aj_creator_id :: string
  aj_creator_type :: string
  aj_created_at :: string
  aj_updated_at :: string
  aj_role :: string

definition with_role :: "project_row \<Rightarrow> string \<Rightarrow> authorized_project" where
  "with_role p caller_role = \<lparr>aj_id = pj_id p, aj_tenant = pj_tenant p, aj_domain = pj_domain p, aj_key = pj_key p,
     aj_name = pj_name p, aj_state = pj_state p, aj_metadata = pj_metadata p, aj_creator_id = pj_creator_id p,
     aj_creator_type = pj_creator_type p, aj_created_at = pj_created_at p, aj_updated_at = pj_updated_at p,
     aj_role = caller_role\<rparr>"

definition by_key_and_id :: "authorized_project list \<Rightarrow> authorized_project list" where
  "by_key_and_id ps = sort_key aj_key (sort_key aj_id ps)"

definition list_capex_projects_for_actor :: "db \<Rightarrow> string \<Rightarrow> string \<Rightarrow> string \<Rightarrow> string \<Rightarrow> authorized_project list" where
  "list_capex_projects_for_actor d tenant_id domain_id actor_type actor_id =
     by_key_and_id (List.map_filter (\<lambda>p. map_option (\<lambda>m. with_role p (mb_role m))
         (select_one (\<lambda>m. mb_project m = pj_id p \<and> mb_actor_type m = actor_type \<and> mb_actor_id m = actor_id
            \<and> mb_state m = ''active'') (memberships d)))
       (filter (\<lambda>p. pj_tenant p = tenant_id \<and> pj_domain p = domain_id \<and> pj_state p = ''active'') (projects d)))"

section \<open>Memberships\<close>

definition insert_membership :: "membership_row \<Rightarrow> (unit, db) comp" where
  "insert_membership r d =
     (if exists_row (\<lambda>x. mb_id x = mb_id r) (memberships d)
      then raise (IntegrityError ''UNIQUE constraint failed: project_memberships.project_membership_id'') d
      else if exists_row (\<lambda>x. mb_project x = mb_project r \<and> mb_actor_type x = mb_actor_type r
          \<and> mb_actor_id x = mb_actor_id r) (memberships d)
      then raise (IntegrityError (''UNIQUE constraint failed: project_memberships.project_id, '' @
        ''project_memberships.actor_type, project_memberships.actor_id'')) d
      else if mb_project r \<notin> pj_id ` set (projects d) then raise fk_failed d
      else (Inr (), d\<lparr>memberships := memberships d @ [r]\<rparr>))"

definition create_project_membership ::
    "row_id \<Rightarrow> row_id \<Rightarrow> string \<Rightarrow> string \<Rightarrow> string \<Rightarrow> string \<Rightarrow> string \<Rightarrow> string \<Rightarrow> row_id \<Rightarrow> string \<Rightarrow> timestamp \<Rightarrow>
     (unit, db) comp" where
  "create_project_membership project_membership_id project_id tenant_id domain_id actor_type actor_id role state
       granted_by_actor_id granted_by_actor_type created_at =
     insert_membership \<lparr>mb_id = project_membership_id, mb_project = project_id, mb_tenant = tenant_id,
       mb_domain = domain_id, mb_actor_type = actor_type, mb_actor_id = actor_id, mb_role = role, mb_state = state,
       mb_granter_id = granted_by_actor_id, mb_granter_type = granted_by_actor_type, mb_created_at = created_at,
       mb_updated_at = created_at\<rparr>"

definition update_project_membership_grant ::
    "string \<Rightarrow> string \<Rightarrow> string \<Rightarrow> string \<Rightarrow> string \<Rightarrow> string \<Rightarrow> (unit, db) comp" where
  "update_project_membership_grant project_membership_id role state granted_by_actor_id granted_by_actor_type
       updated_at =
     modify (\<lambda>d. d\<lparr>memberships := update_where (\<lambda>r. mb_id r = project_membership_id)
       (\<lambda>r. r\<lparr>mb_role := role, mb_state := state, mb_granter_id := granted_by_actor_id,
          mb_granter_type := granted_by_actor_type, mb_updated_at := updated_at\<rparr>) (memberships d)\<rparr>)"

definition revoke_project_membership :: "string \<Rightarrow> string \<Rightarrow> (unit, db) comp" where
  "revoke_project_membership project_membership_id updated_at =
     modify (\<lambda>d. d\<lparr>memberships := update_where (\<lambda>r. mb_id r = project_membership_id)
       (\<lambda>r. r\<lparr>mb_state := ''revoked'', mb_updated_at := updated_at\<rparr>) (memberships d)\<rparr>)"

definition get_project_membership :: "db \<Rightarrow> string \<Rightarrow> membership_row option" where
  "get_project_membership d project_membership_id = select_one (\<lambda>r. mb_id r = project_membership_id) (memberships d)"

definition get_any_project_membership_for_actor :: "db \<Rightarrow> string \<Rightarrow> string \<Rightarrow> string \<Rightarrow> membership_row option" where
  "get_any_project_membership_for_actor d project_id actor_type actor_id =
     select_one (\<lambda>r. mb_project r = project_id \<and> mb_actor_type r = actor_type \<and> mb_actor_id r = actor_id) (memberships d)"

definition get_project_membership_for_actor :: "db \<Rightarrow> string \<Rightarrow> string \<Rightarrow> string \<Rightarrow> membership_row option" where
  "get_project_membership_for_actor d project_id actor_type actor_id =
     select_one (\<lambda>r. mb_project r = project_id \<and> mb_actor_type r = actor_type \<and> mb_actor_id r = actor_id
       \<and> mb_state r = ''active'') (memberships d)"

definition list_project_memberships :: "db \<Rightarrow> string \<Rightarrow> membership_row list" where
  "list_project_memberships d project_id =
     sort_key mb_actor_type (sort_key mb_actor_id
       (filter (\<lambda>r. mb_project r = project_id \<and> mb_state r = ''active'') (memberships d)))"

section \<open>The projected tables\<close>

definition runtime_activation_feature_key :: string where
  "runtime_activation_feature_key = ''capex.runtime_activation''"

definition runtime_activation_blocked_reason :: string where
  "runtime_activation_blocked_reason = ''capex_runtime_activation_blocked_by_future_gates''"

definition project_authorization_id :: "string \<Rightarrow> string \<Rightarrow> string \<Rightarrow> string" where
  "project_authorization_id project_id actor_type actor_id = ''cpa:'' @ project_id @ '':'' @ actor_type @ '':'' @ actor_id"

definition project_feature_id :: "string \<Rightarrow> string \<Rightarrow> string" where
  "project_feature_id project_id feature_key = ''cpf:'' @ project_id @ '':'' @ feature_key"

definition user_project_view_id :: "string \<Rightarrow> string \<Rightarrow> string \<Rightarrow> string" where
  "user_project_view_id project_id actor_type actor_id = ''cpuv:'' @ project_id @ '':'' @ actor_type @ '':'' @ actor_id"

text \<open>A row that a kept row refers to cannot be deleted.\<close>

definition clear_project_authorization_projection :: "string \<Rightarrow> (unit, db) comp" where
  "clear_project_authorization_projection project_id d =
     (let kept = filter (\<lambda>v. pv_project v \<noteq> project_id) (project_views d);
          gone = filter (\<lambda>a. pa_project a = project_id) (project_authorizations d)
      in if exists_row (\<lambda>v. pv_authorization v \<in> pa_id ` set gone) kept
         then raise fk_failed (d\<lparr>project_views := kept\<rparr>)
         else (Inr (), d\<lparr>project_views := kept,
           project_authorizations := filter (\<lambda>a. pa_project a \<noteq> project_id) (project_authorizations d)\<rparr>))"

definition create_project_authorization_projection :: "authorization_row \<Rightarrow> (unit, db) comp" where
  "create_project_authorization_projection r d =
     (if exists_row (\<lambda>x. pa_id x = pa_id r) (project_authorizations d)
      then raise (IntegrityError ''UNIQUE constraint failed: capex_project_authorization.project_authorization_id'') d
      else if exists_row (\<lambda>x. pa_project x = pa_project r \<and> pa_actor_type x = pa_actor_type r
          \<and> pa_actor_id x = pa_actor_id r) (project_authorizations d)
      then raise (IntegrityError (''UNIQUE constraint failed: capex_project_authorization.project_id, '' @
        ''capex_project_authorization.actor_type, capex_project_authorization.actor_id'')) d
      else if pa_project r \<notin> pj_id ` set (projects d) \<or> pa_membership r \<notin> mb_id ` set (memberships d)
      then raise fk_failed d
      else (Inr (), d\<lparr>project_authorizations := project_authorizations d @ [r]\<rparr>))"

definition create_user_project_view_row :: "project_view_row \<Rightarrow> (unit, db) comp" where
  "create_user_project_view_row r d =
     (if exists_row (\<lambda>x. pv_id x = pv_id r) (project_views d)
      then raise (IntegrityError ''UNIQUE constraint failed: capex_user_project_view.user_project_view_id'') d
      else if exists_row (\<lambda>x. pv_tenant x = pv_tenant r \<and> pv_domain x = pv_domain r \<and> pv_actor_type x = pv_actor_type r
          \<and> pv_actor_id x = pv_actor_id r \<and> pv_project x = pv_project r) (project_views d)
      then raise (IntegrityError (''UNIQUE constraint failed: capex_user_project_view.tenant_id, '' @
        ''capex_user_project_view.domain_id, capex_user_project_view.actor_type, '' @
        ''capex_user_project_view.actor_id, capex_user_project_view.project_id'')) d
      else if pv_project r \<notin> pj_id ` set (projects d) \<or> pv_authorization r \<notin> pa_id ` set (project_authorizations d)
      then raise fk_failed d
      else (Inr (), d\<lparr>project_views := project_views d @ [r]\<rparr>))"

text \<open>\<open>INSERT ... ON CONFLICT(project_id, feature_key) DO UPDATE\<close>; that conflict is looked for first.\<close>

definition upsert_project_feature ::
    "string \<Rightarrow> string \<Rightarrow> string \<Rightarrow> string \<Rightarrow> string \<Rightarrow> string \<Rightarrow> string option \<Rightarrow> dict \<Rightarrow> string \<Rightarrow> (unit, db) comp" where
  "upsert_project_feature feature_id project_id tenant_id domain_id feature_key state blocked_reason metadata
       updated_at d =
     (let here = (\<lambda>r. pf_project r = project_id \<and> pf_key r = feature_key) in
      if exists_row here (project_features d)
      then (Inr (), d\<lparr>project_features := update_where here
        (\<lambda>r. r\<lparr>pf_tenant := tenant_id, pf_domain := domain_id, pf_state := state, pf_blocked_reason := blocked_reason,
           pf_metadata := sort_dict metadata, pf_updated_at := updated_at\<rparr>) (project_features d)\<rparr>)
      else if exists_row (\<lambda>x. pf_id x = feature_id) (project_features d)
      then raise (IntegrityError ''UNIQUE constraint failed: capex_project_feature.project_feature_id'') d
      else if project_id \<notin> pj_id ` set (projects d) then raise fk_failed d
      else (Inr (), d\<lparr>project_features := project_features d @ [
        \<lparr>pf_id = feature_id, pf_project = project_id, pf_tenant = tenant_id, pf_domain = domain_id,
         pf_key = feature_key, pf_state = state, pf_blocked_reason = blocked_reason, pf_metadata = sort_dict metadata,
         pf_created_at = updated_at, pf_updated_at = updated_at\<rparr>]\<rparr>))"

definition get_project_feature :: "db \<Rightarrow> string \<Rightarrow> string \<Rightarrow> feature_row option" where
  "get_project_feature d project_id feature_key =
     select_one (\<lambda>r. pf_project r = project_id \<and> pf_key r = feature_key) (project_features d)"

definition list_project_authorizations :: "db \<Rightarrow> string \<Rightarrow> authorization_row list" where
  "list_project_authorizations d project_id =
     sort_key pa_actor_type (sort_key pa_actor_id (filter (\<lambda>r. pa_project r = project_id) (project_authorizations d)))"

definition list_user_project_views_for_actor ::
    "db \<Rightarrow> string \<Rightarrow> string \<Rightarrow> string \<Rightarrow> string \<Rightarrow> bool \<Rightarrow> project_view_row list" where
  "list_user_project_views_for_actor d tenant_id domain_id actor_type actor_id active_only =
     sort_key pv_key (sort_key pv_project (filter (\<lambda>v. pv_tenant v = tenant_id \<and> pv_domain v = domain_id
       \<and> pv_actor_type v = actor_type \<and> pv_actor_id v = actor_id \<and> pv_authorization_state v = ''active''
       \<and> (active_only \<longrightarrow> pv_state v = ''active'')) (project_views d)))"

definition list_project_ids_for_projection_rebuild :: "db \<Rightarrow> string option \<Rightarrow> string option \<Rightarrow> string list" where
  "list_project_ids_for_projection_rebuild d tenant_id domain_id =
     map pj_id (sort_key pj_tenant (sort_key pj_domain (sort_key pj_key (sort_key pj_id
       (filter (\<lambda>p. (tenant_id = None \<or> tenant_id = Some (pj_tenant p))
          \<and> (domain_id = None \<or> domain_id = Some (pj_domain p))) (projects d))))))"

section \<open>Refreshing the projection\<close>

definition ensure_project_feature_defaults :: "string \<Rightarrow> string \<Rightarrow> (unit, db) comp" where
  "ensure_project_feature_defaults project_id now d = (case get_capex_project d project_id of
     None \<Rightarrow> ret () d
   | Some p \<Rightarrow> upsert_project_feature (project_feature_id project_id runtime_activation_feature_key) project_id
       (pj_tenant p) (pj_domain p) runtime_activation_feature_key ''disabled'' (Some runtime_activation_blocked_reason)
       [(''owner_task_ref'', JStr ''TASK-0563'')] now d)"

definition authorization_of :: "project_row \<Rightarrow> string \<Rightarrow> membership_row \<Rightarrow> authorization_row" where
  "authorization_of p now m =
     \<lparr>pa_id = project_authorization_id (pj_id p) (mb_actor_type m) (mb_actor_id m), pa_project = pj_id p,
      pa_tenant = pj_tenant p, pa_domain = pj_domain p, pa_actor_type = mb_actor_type m, pa_actor_id = mb_actor_id m,
      pa_direct_role = mb_role m, pa_effective_role = mb_role m, pa_membership = mb_id m, pa_state = ''active'',
      pa_created_at = now, pa_updated_at = now\<rparr>"

definition view_of :: "project_row \<Rightarrow> string \<Rightarrow> membership_row \<Rightarrow> project_view_row" where
  "view_of p now m =
     \<lparr>pv_id = user_project_view_id (pj_id p) (mb_actor_type m) (mb_actor_id m), pv_tenant = pj_tenant p,
      pv_domain = pj_domain p, pv_actor_type = mb_actor_type m, pv_actor_id = mb_actor_id m, pv_project = pj_id p,
      pv_key = pj_key p, pv_name = pj_name p, pv_state = pj_state p, pv_metadata = sort_dict (pj_metadata p),
      pv_creator_id = pj_creator_id p, pv_creator_type = pj_creator_type p,
      pv_project_created_at = pj_created_at p, pv_project_updated_at = pj_updated_at p, pv_role = mb_role m,
      pv_authorization_state = ''active'',
      pv_authorization = project_authorization_id (pj_id p) (mb_actor_type m) (mb_actor_id m),
      pv_created_at = now, pv_updated_at = now\<rparr>"

definition project_membership :: "project_row \<Rightarrow> string \<Rightarrow> membership_row \<Rightarrow> (unit, db) comp" where
  "project_membership p now m =
     seq (create_project_authorization_projection (authorization_of p now m)) (\<lambda>_.
       create_user_project_view_row (view_of p now m))"

definition refresh_project_authorization_projection ::
    "string \<Rightarrow> string \<Rightarrow> (authorization_row list, db) comp" where
  "refresh_project_authorization_projection project_id now =
     seq (asks (\<lambda>d. get_capex_project d project_id)) (\<lambda>project.
     seq (clear_project_authorization_projection project_id) (\<lambda>_.
     case project of
       None \<Rightarrow> ret []
     | Some p \<Rightarrow>
         seq (ensure_project_feature_defaults project_id now) (\<lambda>_.
         seq (asks (\<lambda>d. list_project_memberships d project_id)) (\<lambda>members.
         seq (for_each (project_membership p now) members) (\<lambda>_.
         asks (\<lambda>d. list_project_authorizations d project_id))))))"

text \<open>Each refresh reads the clock for itself.\<close>

definition rebuild_project_authorization_projections ::
    "(string \<Rightarrow> string) \<Rightarrow> string option \<Rightarrow> string option \<Rightarrow> (nat \<times> nat, db) comp" where
  "rebuild_project_authorization_projections clock tenant_id domain_id =
     seq (asks (\<lambda>d. list_project_ids_for_projection_rebuild d tenant_id domain_id)) (\<lambda>project_ids.
     seq (map_each (\<lambda>i. refresh_project_authorization_projection i (clock i)) project_ids) (\<lambda>refreshed.
     ret (length project_ids, sum_list (map length refreshed))))"

section \<open>Queries\<close>

definition source_membership :: "db \<Rightarrow> authorization_row \<Rightarrow> membership_row option" where
  "source_membership d a = select_one (\<lambda>m. mb_id m = pa_membership a \<and> mb_project m = pa_project a
     \<and> mb_tenant m = pa_tenant a \<and> mb_domain m = pa_domain a \<and> mb_actor_type m = pa_actor_type a
     \<and> mb_actor_id m = pa_actor_id a \<and> mb_state m = ''active'') (memberships d)"

definition of_view :: "project_view_row \<Rightarrow> string \<Rightarrow> authorized_project" where
  "of_view v caller_role = \<lparr>aj_id = pv_project v, aj_tenant = pv_tenant v, aj_domain = pv_domain v, aj_key = pv_key v,
     aj_name = pv_name v, aj_state = pv_state v, aj_metadata = pv_metadata v, aj_creator_id = pv_creator_id v,
     aj_creator_type = pv_creator_type v, aj_created_at = pv_project_created_at v,
     aj_updated_at = pv_project_updated_at v, aj_role = caller_role\<rparr>"

definition for_actor :: "db \<Rightarrow> string \<Rightarrow> string \<Rightarrow> string \<Rightarrow> string \<Rightarrow> bool \<Rightarrow> authorized_project list" where
  "for_actor d tenant_id domain_id actor_type actor_id active_only =
     by_key_and_id (List.map_filter
       (\<lambda>v. case select_one (\<lambda>a. pa_id a = pv_authorization v \<and> pa_project a = pv_project v \<and> pa_tenant a = pv_tenant v
            \<and> pa_domain a = pv_domain v \<and> pa_actor_type a = pv_actor_type v \<and> pa_actor_id a = pv_actor_id v
            \<and> pa_state a = ''active'') (project_authorizations d) of
          None \<Rightarrow> None
        | Some a \<Rightarrow> map_option (\<lambda>m. of_view v (mb_role m)) (source_membership d a))
       (filter (\<lambda>v. pv_tenant v = tenant_id \<and> pv_domain v = domain_id \<and> pv_actor_type v = actor_type
          \<and> pv_actor_id v = actor_id \<and> pv_authorization_state v = ''active''
          \<and> (active_only \<longrightarrow> pv_state v = ''active'')) (project_views d)))"

definition role_for_project :: "db \<Rightarrow> string \<Rightarrow> string \<Rightarrow> string \<Rightarrow> bool \<Rightarrow> string option" where
  "role_for_project d project_id actor_type actor_id active_only =
     (case List.map_filter
        (\<lambda>a. case select_one (\<lambda>p. pj_id p = pa_project a \<and> pj_tenant p = pa_tenant a \<and> pj_domain p = pa_domain a
             \<and> (active_only \<longrightarrow> pj_state p = ''active'')) (projects d) of
           None \<Rightarrow> None
         | Some _ \<Rightarrow> map_option mb_role (source_membership d a))
        (filter (\<lambda>a. pa_project a = project_id \<and> pa_actor_type a = actor_type \<and> pa_actor_id a = actor_id
           \<and> pa_state a = ''active'') (project_authorizations d)) of
       [] \<Rightarrow> None | role # _ \<Rightarrow> Some role)"

section \<open>Access checks\<close>

definition project_role_ranks :: "(string \<times> nat) list" where
  "project_role_ranks = [(''project_viewer'', 1), (''project_contributor'', 2), (''project_admin'', 3)]"

definition validate_project_role :: "string \<Rightarrow> string result" where
  "validate_project_role role =
     (let normalized = py_strip role in
      if map_of project_role_ranks normalized = None then Inl (CommandError ''invalid_project_role'') else Inr normalized)"

definition project_role_rank :: "string option \<Rightarrow> nat" where
  "project_role_rank role = (case role of
     None \<Rightarrow> 0 | Some r \<Rightarrow> (case map_of project_role_ranks r of None \<Rightarrow> 0 | Some n \<Rightarrow> n))"

definition has_project_role :: "db \<Rightarrow> string \<Rightarrow> string \<Rightarrow> string \<Rightarrow> string \<Rightarrow> bool" where
  "has_project_role d project_id actor_type actor_id min_role \<longleftrightarrow>
     project_role_rank (Some min_role) \<le> project_role_rank (role_for_project d project_id actor_type actor_id False)"

definition require_project_access ::
    "db \<Rightarrow> row_id \<Rightarrow> string \<Rightarrow> string \<Rightarrow> string \<Rightarrow> row_id \<Rightarrow> string \<Rightarrow> string \<Rightarrow> project_row result" where
  "require_project_access d project_id tenant_id domain_id actor_type actor_id min_role not_found_code =
     rbind (validate_project_role min_role) (\<lambda>_.
     case get_capex_project d project_id of
       None \<Rightarrow> Inl (CommandError not_found_code)
     | Some p \<Rightarrow>
         if pj_tenant p \<noteq> tenant_id \<or> pj_domain p \<noteq> domain_id then Inl (CommandError not_found_code)
         else if \<not> has_project_role d project_id actor_type actor_id min_role then Inl (CommandError not_found_code)
         else Inr p)"

definition require_project_membership_role ::
    "db \<Rightarrow> project_row \<Rightarrow> string \<Rightarrow> string \<Rightarrow> string \<Rightarrow> string \<Rightarrow> unit result" where
  "require_project_membership_role d project actor_type actor_id min_role denied_code =
     rbind (validate_project_role min_role) (\<lambda>_.
       require (has_project_role d (pj_id project) actor_type actor_id min_role) (CommandError denied_code))"

text \<open>A row without project is for everyone; rows are payloads here.\<close>

definition filter_project_authorized_rows :: "db \<Rightarrow> dict list \<Rightarrow> string \<Rightarrow> string \<Rightarrow> dict list" where
  "filter_project_authorized_rows d rows actor_type actor_id =
     filter (\<lambda>row. jget row ''project_id'' = JNull
       \<or> has_project_role d (py_str (jget row ''project_id'')) actor_type actor_id ''project_viewer'') rows"

section \<open>What a refresh does\<close>

lemma members_projected:
  assumes "for_each (project_membership p now) ms d = (Inr u, d')"
  shows "d' = d\<lparr>project_authorizations := project_authorizations d @ map (authorization_of p now) ms,
     project_views := project_views d @ map (view_of p now) ms\<rparr>"
  using assms
proof (induction ms arbitrary: d)
  case (Cons m ms)
  from Cons.prems obtain d2 where "project_membership p now m d = (Inr (), d2)"
    and rest: "for_each (project_membership p now) ms d2 = (Inr u, d')"
    by (auto simp: seq_eq_Inr)
  then obtain d1 where
    one: "create_project_authorization_projection (authorization_of p now m) d = (Inr (), d1)"
      "create_user_project_view_row (view_of p now m) d1 = (Inr (), d2)"
    by (auto simp: project_membership_def seq_eq_Inr)
  have "d1 = d\<lparr>project_authorizations := project_authorizations d @ [authorization_of p now m]\<rparr>"
    using one(1) by (simp add: create_project_authorization_projection_def comp_apply split: if_splits)
  moreover have "d2 = d1\<lparr>project_views := project_views d1 @ [view_of p now m]\<rparr>"
    using one(2) by (simp add: create_user_project_view_row_def comp_apply split: if_splits)
  ultimately show ?case using Cons.IH [OF rest] by simp
qed (simp add: comp_apply)

lemma feature_frame:
  assumes "ensure_project_feature_defaults i now d = (r, d')"
  obtains fs where "d' = d\<lparr>project_features := fs\<rparr>"
proof -
  have "\<exists>fs. x = x\<lparr>project_features := fs\<rparr>" for x :: db by (rule exI [of _ "project_features x"]) simp
  then have "\<exists>fs. d' = d\<lparr>project_features := fs\<rparr>"
    using assms by (auto simp: ensure_project_feature_defaults_def upsert_project_feature_def Let_def comp_apply
      split: option.splits if_splits)
  with that show thesis by blast
qed

lemma clear_Inr:
  assumes "clear_project_authorization_projection i d = (Inr u, d')"
  shows "d' = d\<lparr>project_views := filter (\<lambda>v. pv_project v \<noteq> i) (project_views d),
    project_authorizations := filter (\<lambda>a. pa_project a \<noteq> i) (project_authorizations d)\<rparr>"
  using assms by (auto simp: clear_project_authorization_projection_def Let_def comp_apply split: if_splits)

lemma refreshed:
  assumes run: "refresh_project_authorization_projection i now d = (Inr r, d')"
    and p: "get_capex_project d i = Some p"
  shows "d' = d\<lparr>project_features := project_features d',
      project_authorizations := filter (\<lambda>a. pa_project a \<noteq> i) (project_authorizations d)
        @ map (authorization_of p now) (list_project_memberships d i),
      project_views := filter (\<lambda>v. pv_project v \<noteq> i) (project_views d)
        @ map (view_of p now) (list_project_memberships d i)\<rparr>"
proof -
  from run p obtain d1 d2 where steps: "clear_project_authorization_projection i d = (Inr (), d1)"
    "ensure_project_feature_defaults i now d1 = (Inr (), d2)"
    "for_each (project_membership p now) (list_project_memberships d2 i) d2 = (Inr (), d')"
    by (auto simp: refresh_project_authorization_projection_def seq_unit seq_eq_Inr comp_apply)
  note d1 = clear_Inr [OF steps(1)]
  obtain fs where d2: "d2 = d1\<lparr>project_features := fs\<rparr>" using steps(2) by (rule feature_frame)
  have "list_project_memberships d2 i = list_project_memberships d i"
    by (simp add: list_project_memberships_def d1 d2)
  then show ?thesis using members_projected [OF steps(3)] by (simp add: d1 d2)
qed

section \<open>The projection shows the memberships\<close>

definition projects_ok :: "db \<Rightarrow> bool" where
  "projects_ok d \<longleftrightarrow> distinct (map pj_id (projects d)) \<and> distinct (map mb_id (memberships d))
     \<and> distinct (map (\<lambda>m. (mb_project m, mb_actor_type m, mb_actor_id m)) (memberships d))
     \<and> (\<forall>m\<in>set (memberships d). \<exists>p\<in>set (projects d). pj_id p = mb_project m \<and> pj_tenant p = mb_tenant m
          \<and> pj_domain p = mb_domain m)
     \<and> (\<forall>p\<in>set (projects d). sort_dict (pj_metadata p) = pj_metadata p)"

definition shown :: "db \<Rightarrow> project_row \<Rightarrow> bool" where
  "shown d p \<longleftrightarrow> (\<exists>now.
     filter (\<lambda>a. pa_project a = pj_id p) (project_authorizations d)
       = map (authorization_of p now) (list_project_memberships d (pj_id p))
     \<and> filter (\<lambda>v. pv_project v = pj_id p) (project_views d)
       = map (view_of p now) (list_project_memberships d (pj_id p)))"

definition capex_ok :: "db \<Rightarrow> bool" where
  "capex_ok d \<longleftrightarrow> projects_ok d \<and> (\<forall>p\<in>set (projects d). shown d p)
     \<and> pa_project ` set (project_authorizations d) \<union> pv_project ` set (project_views d) \<subseteq> pj_id ` set (projects d)"

lemma projected_fields [simp]:
  "pa_project (authorization_of p now m) = pj_id p" "pv_project (view_of p now m) = pj_id p"
  by (simp_all add: authorization_of_def view_of_def)

text \<open>A refresh brings the project in step, and leaves the others as they are.\<close>

lemma refresh_shows:
  assumes run: "refresh_project_authorization_projection i now d = (Inr r, d')"
    and ok: "projects_ok d" and others: "\<And>p. p \<in> set (projects d) \<Longrightarrow> pj_id p \<noteq> i \<Longrightarrow> shown d p"
    and within: "pa_project ` set (project_authorizations d) \<union> pv_project ` set (project_views d) \<subseteq> pj_id ` set (projects d)"
    and p: "get_capex_project d i = Some p"
  shows "capex_ok d'" "projects d' = projects d" "memberships d' = memberships d"
proof -
  note d' = refreshed [OF run p]
  have id: "pj_id p = i" "p \<in> set (projects d)" using p by (auto simp: get_capex_project_def dest: select_one_Some)
  show same: "projects d' = projects d" "memberships d' = memberships d"
    by (subst d', simp)+
  have a: "project_authorizations d' = filter (\<lambda>a. pa_project a \<noteq> i) (project_authorizations d)
        @ map (authorization_of p now) (list_project_memberships d i)"
    and v: "project_views d' = filter (\<lambda>v. pv_project v \<noteq> i) (project_views d)
        @ map (view_of p now) (list_project_memberships d i)"
    by (subst d', simp)+
  have members: "list_project_memberships d' j = list_project_memberships d j" for j
    by (simp add: list_project_memberships_def same)
  have "shown d' q" if q: "q \<in> set (projects d)" for q
  proof (cases "pj_id q = i")
    case True
    then have "q = p" using select_of_key [of pj_id "projects d" q] q p ok
      by (simp add: projects_ok_def get_capex_project_def)
    moreover have "filter (\<lambda>a. pa_project a = i) (map (authorization_of p now) ms) = map (authorization_of p now) ms"
      "filter (\<lambda>v. pv_project v = i) (map (view_of p now) ms) = map (view_of p now) ms" for ms
      using id(1) by (simp_all add: filter_map comp_def)
    ultimately show ?thesis
      unfolding shown_def members using id(1) by (intro exI [of _ now]) (simp add: a v)
  next
    case False
    then have "filter (\<lambda>a. pa_project a = pj_id q) (project_authorizations d')
        = filter (\<lambda>a. pa_project a = pj_id q) (project_authorizations d)"
      "filter (\<lambda>v. pv_project v = pj_id q) (project_views d') = filter (\<lambda>v. pv_project v = pj_id q) (project_views d)"
      using id(1) by (auto simp: a v filter_map comp_def intro: filter_cong)
    with others [OF q False] show ?thesis by (simp add: shown_def members)
  qed
  moreover have "projects_ok d'" using ok by (simp add: projects_ok_def same)
  moreover have "pa_project ` set (project_authorizations d') \<union> pv_project ` set (project_views d') \<subseteq> pj_id ` set (projects d)"
    using within id by (auto simp: a v)
  ultimately show "capex_ok d'" by (simp add: capex_ok_def same)
qed

section \<open>The queries on the projection\<close>

lemma projects_unique:
  "projects_ok d \<Longrightarrow> p \<in> set (projects d) \<Longrightarrow> q \<in> set (projects d) \<Longrightarrow> pj_id p = pj_id q \<Longrightarrow> p = q"
  unfolding projects_ok_def distinct_map by (blast dest: inj_onD)

lemma memberships_unique:
  assumes "projects_ok d" "m \<in> set (memberships d)" "n \<in> set (memberships d)"
  shows "mb_id m = mb_id n \<Longrightarrow> m = n"
    and "mb_project m = mb_project n \<Longrightarrow> mb_actor_type m = mb_actor_type n \<Longrightarrow> mb_actor_id m = mb_actor_id n \<Longrightarrow> m = n"
proof -
  have inj: "inj_on mb_id (set (memberships d))"
    "inj_on (\<lambda>m. (mb_project m, mb_actor_type m, mb_actor_id m)) (set (memberships d))"
    using assms(1) unfolding projects_ok_def distinct_map by blast+
  show "mb_id m = mb_id n \<Longrightarrow> m = n" using inj_onD [OF inj(1) _ assms(2,3)] .
  show "mb_project m = mb_project n \<Longrightarrow> mb_actor_type m = mb_actor_type n \<Longrightarrow> mb_actor_id m = mb_actor_id n \<Longrightarrow> m = n"
    using inj_onD [OF inj(2) _ assms(2,3)] by simp
qed

lemma membership_project:
  assumes "projects_ok d" "m \<in> set (memberships d)" "p \<in> set (projects d)" "pj_id p = mb_project m"
  shows "mb_tenant m = pj_tenant p" "mb_domain m = pj_domain p"
proof -
  obtain q where q: "q \<in> set (projects d)" "pj_id q = mb_project m" "pj_tenant q = mb_tenant m" "pj_domain q = mb_domain m"
    using assms(1,2) unfolding projects_ok_def by blast
  with projects_unique [OF assms(1) q(1) assms(3)] assms(4) show "mb_tenant m = pj_tenant p" "mb_domain m = pj_domain p"
    by simp_all
qed

lemma shown_authorization:
  assumes "shown d p" "a \<in> set (project_authorizations d)" "pa_project a = pj_id p"
  obtains now m where "a = authorization_of p now m" "m \<in> set (list_project_memberships d (pj_id p))"
proof -
  obtain now where rows: "filter (\<lambda>a. pa_project a = pj_id p) (project_authorizations d)
      = map (authorization_of p now) (list_project_memberships d (pj_id p))"
    using assms(1) by (auto simp: shown_def)
  have "a \<in> set (filter (\<lambda>a. pa_project a = pj_id p) (project_authorizations d))" using assms(2,3) by simp
  then show thesis unfolding rows using that by auto
qed

lemma shown_view:
  assumes "shown d p" "v \<in> set (project_views d)" "pv_project v = pj_id p"
  obtains now m where "v = view_of p now m" "m \<in> set (list_project_memberships d (pj_id p))"
proof -
  obtain now where rows: "filter (\<lambda>v. pv_project v = pj_id p) (project_views d)
      = map (view_of p now) (list_project_memberships d (pj_id p))"
    using assms(1) by (auto simp: shown_def)
  have "v \<in> set (filter (\<lambda>v. pv_project v = pj_id p) (project_views d))" using assms(2,3) by simp
  then show thesis unfolding rows using that by auto
qed

lemma listed_membership [simp]:
  "m \<in> set (list_project_memberships d i) \<longleftrightarrow> m \<in> set (memberships d) \<and> mb_project m = i \<and> mb_state m = ''active''"
  by (auto simp: list_project_memberships_def)

text \<open>The active membership of an actor is the one the projected row points to.\<close>

lemma select_one_unique:
  assumes "x \<in> set rows" "p x" "\<And>y. y \<in> set rows \<Longrightarrow> p y \<Longrightarrow> y = x"
  shows "select_one p rows = Some x"
proof (cases "select_one p rows")
  case None
  with assms(1,2) show ?thesis by (simp add: select_one_None)
next
  case (Some y)
  with assms(3) [of y] show ?thesis by (simp add: select_one_Some)
qed

text \<open>Every projected row belongs to a project that is shown.\<close>

lemma projected_project:
  assumes "capex_ok d"
  shows "a \<in> set (project_authorizations d) \<Longrightarrow> \<exists>p\<in>set (projects d). pj_id p = pa_project a \<and> shown d p"
    and "v \<in> set (project_views d) \<Longrightarrow> \<exists>p\<in>set (projects d). pj_id p = pv_project v \<and> shown d p"
proof -
  have shown: "\<forall>p\<in>set (projects d). shown d p"
    and within: "pa_project ` set (project_authorizations d) \<subseteq> pj_id ` set (projects d)"
      "pv_project ` set (project_views d) \<subseteq> pj_id ` set (projects d)"
    using assms unfolding capex_ok_def by blast+
  show "\<exists>p\<in>set (projects d). pj_id p = pa_project a \<and> shown d p" if "a \<in> set (project_authorizations d)"
    using subsetD [OF within(1) imageI [OF that]] shown by force
  show "\<exists>p\<in>set (projects d). pj_id p = pv_project v \<and> shown d p" if "v \<in> set (project_views d)"
    using subsetD [OF within(2) imageI [OF that]] shown by force
qed

lemma membership_found:
  assumes "projects_ok d" "m \<in> set (memberships d)" "mb_state m = ''active''"
  shows "get_project_membership_for_actor d (mb_project m) (mb_actor_type m) (mb_actor_id m) = Some m"
  unfolding get_project_membership_for_actor_def
proof (rule select_one_unique [OF assms(2)])
  fix y assume "y \<in> set (memberships d)" "mb_project y = mb_project m \<and> mb_actor_type y = mb_actor_type m
    \<and> mb_actor_id y = mb_actor_id m \<and> mb_state y = ''active''"
  then show "y = m" using memberships_unique(2) [OF assms(1) _ assms(2)] by blast
qed (use assms(3) in simp)

lemma source_found:
  assumes "projects_ok d" "m \<in> set (memberships d)" "mb_state m = ''active''"
    and "p \<in> set (projects d)" "pj_id p = mb_project m"
  shows "source_membership d (authorization_of p now m) = Some m"
  unfolding source_membership_def
proof (rule select_one_unique [OF assms(2)])
  fix y assume "y \<in> set (memberships d)"
  then show "y = m" if "mb_id y = pa_membership (authorization_of p now m) \<and> X" for X
    using memberships_unique(1) [OF assms(1) _ assms(2)] that by (simp add: authorization_of_def)
qed (use membership_project [OF assms(1,2,4,5)] assms(3,5) in \<open>simp add: authorization_of_def\<close>)

text \<open>The role a query reads off the projection is that of the active membership.\<close>

lemma role_is_membership:
  assumes ok: "capex_ok d"
  shows "role_for_project d i ty actor False = map_option mb_role (get_project_membership_for_actor d i ty actor)"
proof -
  have p_ok: "projects_ok d" using ok by (simp add: capex_ok_def)
  let ?as = "filter (\<lambda>a. pa_project a = i \<and> pa_actor_type a = ty \<and> pa_actor_id a = actor \<and> pa_state a = ''active'')
    (project_authorizations d)"
  let ?role = "\<lambda>a. case select_one (\<lambda>p. pj_id p = pa_project a \<and> pj_tenant p = pa_tenant a \<and> pj_domain p = pa_domain a
      \<and> (False \<longrightarrow> pj_state p = ''active'')) (projects d) of
    None \<Rightarrow> None | Some _ \<Rightarrow> map_option mb_role (source_membership d a)"
  have role: "?role a = map_option mb_role (get_project_membership_for_actor d i ty actor)
      \<and> get_project_membership_for_actor d i ty actor \<noteq> None" if "a \<in> set ?as" for a
  proof -
    from that projected_project(1) [OF ok, of a] obtain p where
      p: "p \<in> set (projects d)" "pj_id p = pa_project a" "shown d p" by auto
    have a: "a \<in> set (project_authorizations d)" using that by simp
    obtain now m where am: "a = authorization_of p now m" "m \<in> set (list_project_memberships d (pj_id p))"
      using shown_authorization [OF p(3) a p(2) [symmetric]] .
    then have m: "a = authorization_of p now m" "m \<in> set (memberships d)" "mb_project m = pj_id p" "mb_state m = ''active''"
      by simp_all
    have "select_one (\<lambda>q. pj_id q = pa_project a \<and> pj_tenant q = pa_tenant a \<and> pj_domain q = pa_domain a) (projects d) = Some p"
    proof (rule select_one_unique [OF p(1)])
      show "q = p" if "q \<in> set (projects d)" "pj_id q = pa_project a \<and> pj_tenant q = pa_tenant a \<and> pj_domain q = pa_domain a" for q
        using projects_unique [OF p_ok that(1) p(1)] that(2) p(2) by simp
    qed (simp add: m(1) authorization_of_def)
    moreover have "source_membership d a = Some m"
      unfolding m(1) using source_found [OF p_ok m(2,4) p(1)] m(3) by simp
    moreover have "get_project_membership_for_actor d i ty actor = Some m"
      using membership_found [OF p_ok m(2,4)] that by (simp add: m(1,3) authorization_of_def)
    ultimately show ?thesis by simp
  qed
  show ?thesis
  proof (cases "?as")
    case Nil
    have "get_project_membership_for_actor d i ty actor = None"
    proof (rule ccontr)
      assume "get_project_membership_for_actor d i ty actor \<noteq> None"
      then obtain m where m: "m \<in> set (memberships d)" "mb_project m = i" "mb_actor_type m = ty" "mb_actor_id m = actor"
        "mb_state m = ''active''"
        by (auto simp: get_project_membership_for_actor_def dest: select_one_Some)
      then obtain p where p: "p \<in> set (projects d)" "pj_id p = i" "shown d p"
        using ok unfolding capex_ok_def projects_ok_def by metis
      then obtain now where "filter (\<lambda>a. pa_project a = i) (project_authorizations d)
          = map (authorization_of p now) (list_project_memberships d i)"
        by (auto simp: shown_def)
      moreover have "m \<in> set (list_project_memberships d i)" using m by simp
      ultimately have "authorization_of p now m \<in> set (filter (\<lambda>a. pa_project a = i) (project_authorizations d))" by simp
      with m p have "authorization_of p now m \<in> set ?as" by (simp add: authorization_of_def)
      then show False unfolding Nil by simp
    qed
    with Nil show ?thesis by (simp add: role_for_project_def List.map_filter_simps)
  next
    case (Cons a rest)
    then obtain m where m: "get_project_membership_for_actor d i ty actor = Some m" "?role a = Some (mb_role m)"
      using role [of a] by auto
    then show ?thesis
      unfolding role_for_project_def Cons by (simp only: List.map_filter_simps option.case list.case option.map)
  qed
qed

section \<open>The projected list of projects\<close>

lemma distinct_groups:
  assumes "\<And>k. length (filter (\<lambda>x. f x = k) xs) \<le> 1"
  shows "distinct (map f xs)"
  using assms
proof (induction xs)
  case (Cons x xs)
  have "filter (\<lambda>y. f y = f x) xs = []" using Cons.prems [of "f x"] by simp
  moreover have "length (filter (\<lambda>x. f x = k) xs) \<le> 1" for k
    using Cons.prems [of k] by (simp split: if_splits)
  ultimately show ?case using Cons.IH by (fastforce simp: filter_empty_conv)
qed simp

lemma by_key_and_id_same:
  assumes "set xs = set ys" "distinct (map aj_id xs)" "distinct (map aj_id ys)"
  shows "by_key_and_id xs = by_key_and_id ys"
proof -
  have "mset xs = mset ys"
    using assms by (simp add: distinct_map set_eq_iff_mset_eq_distinct)
  then have "sort_key aj_id xs = sort_key aj_id ys"
    using assms(2) by (intro sort_key_inj_key_eq) (simp_all add: distinct_map)
  then show ?thesis by (simp add: by_key_and_id_def)
qed

lemma map_filter_set: "set (List.map_filter f xs) = {y. \<exists>x\<in>set xs. f x = Some y}"
  by (auto simp: List.map_filter_def image_iff) (metis option.sel)

lemma map_filter_ids:
  assumes "distinct (map g xs)" "\<And>x y. x \<in> set xs \<Longrightarrow> f x = Some y \<Longrightarrow> h y = g x"
  shows "distinct (map h (List.map_filter f xs))"
  using assms
proof (induction xs)
  case (Cons x xs)
  then have "distinct (map h (List.map_filter f xs))" by simp
  moreover have "h y \<notin> h ` set (List.map_filter f xs)" if "f x = Some y" for y
  proof
    assume "h y \<in> h ` set (List.map_filter f xs)"
    then obtain x' y' where "x' \<in> set xs" "f x' = Some y'" "h y' = h y" by (auto simp: map_filter_set)
    with Cons.prems(2) [of x y] Cons.prems(2) [of x' y'] that have "g x \<in> g ` set xs" by (metis image_eqI list.set_intros)
    with Cons.prems(1) show False by simp
  qed
  ultimately show ?case by (auto split: option.split)
qed simp

definition projects_of_actor :: "db \<Rightarrow> string \<Rightarrow> string \<Rightarrow> string \<Rightarrow> string \<Rightarrow> authorized_project set" where
  "projects_of_actor d tenant domain ty actor = {with_role p (mb_role m) | p m. p \<in> set (projects d) \<and> m \<in> set (memberships d)
     \<and> mb_project m = pj_id p \<and> mb_actor_type m = ty \<and> mb_actor_id m = actor \<and> mb_state m = ''active''
     \<and> pj_tenant p = tenant \<and> pj_domain p = domain \<and> pj_state p = ''active''}"

lemma members_of_actor:
  assumes "projects_ok d"
  shows "length (filter (\<lambda>m. mb_actor_type m = ty \<and> mb_actor_id m = actor) (list_project_memberships d i)) \<le> 1"
proof -
  let ?ms = "filter (\<lambda>m. mb_actor_type m = ty \<and> mb_actor_id m = actor) (list_project_memberships d i)"
  have "distinct (memberships d)" using assms by (auto simp: projects_ok_def distinct_map)
  then have "distinct ?ms" by (simp add: list_project_memberships_def)
  moreover have "m = n" if "m \<in> set ?ms" "n \<in> set ?ms" for m n
    using memberships_unique(2) [OF assms, of m n] that by auto
  ultimately show ?thesis
    using card_le_Suc0_iff_eq [of "set ?ms"] distinct_card [of ?ms] by (simp del: set_filter listed_membership)
qed

lemma direct_rows:
  fixes d tenant domain ty actor
  defines "rows \<equiv> List.map_filter (\<lambda>p. map_option (\<lambda>m. with_role p (mb_role m))
         (select_one (\<lambda>m. mb_project m = pj_id p \<and> mb_actor_type m = ty \<and> mb_actor_id m = actor
            \<and> mb_state m = ''active'') (memberships d)))
       (filter (\<lambda>p. pj_tenant p = tenant \<and> pj_domain p = domain \<and> pj_state p = ''active'') (projects d))"
  assumes ok: "projects_ok d"
  shows "set rows = projects_of_actor d tenant domain ty actor" "distinct (map aj_id rows)"
proof -
  have found: "select_one (\<lambda>m. mb_project m = pj_id p \<and> mb_actor_type m = ty \<and> mb_actor_id m = actor
      \<and> mb_state m = ''active'') (memberships d) = Some m \<longleftrightarrow>
      m \<in> set (memberships d) \<and> mb_project m = pj_id p \<and> mb_actor_type m = ty \<and> mb_actor_id m = actor
      \<and> mb_state m = ''active''" for p m
    using membership_found [OF ok, of m] by (auto simp: get_project_membership_for_actor_def dest: select_one_Some)
  show "set rows = projects_of_actor d tenant domain ty actor"
    unfolding rows_def map_filter_set projects_of_actor_def map_option_eq_Some found by auto
  show "distinct (map aj_id rows)"
    unfolding rows_def
    by (rule map_filter_ids [where g = pj_id])
      (use ok in \<open>auto simp: projects_ok_def with_role_def intro: distinct_map_filter\<close>)
qed

lemma view_rows:
  fixes d tenant domain ty actor
  defines "here \<equiv> (\<lambda>v. pv_tenant v = tenant \<and> pv_domain v = domain \<and> pv_actor_type v = ty
          \<and> pv_actor_id v = actor \<and> pv_authorization_state v = ''active''
          \<and> (True \<longrightarrow> pv_state v = ''active''))"
    and "shown_as \<equiv> (\<lambda>v. case select_one (\<lambda>a. pa_id a = pv_authorization v \<and> pa_project a = pv_project v
            \<and> pa_tenant a = pv_tenant v
            \<and> pa_domain a = pv_domain v \<and> pa_actor_type a = pv_actor_type v \<and> pa_actor_id a = pv_actor_id v
            \<and> pa_state a = ''active'') (project_authorizations d) of
          None \<Rightarrow> None
        | Some a \<Rightarrow> map_option (\<lambda>m. of_view v (mb_role m)) (source_membership d a))"
  assumes ok: "capex_ok d"
  shows "set (List.map_filter shown_as (filter here (project_views d))) = projects_of_actor d tenant domain ty actor"
    and "distinct (map aj_id (List.map_filter shown_as (filter here (project_views d))))"
proof -
  have p_ok: "projects_ok d" using ok by (simp add: capex_ok_def)
  have view: "shown_as (view_of p now m) = Some (with_role p (mb_role m))"
    if p: "p \<in> set (projects d)" and m: "m \<in> set (memberships d)" "mb_project m = pj_id p" "mb_state m = ''active''" for p now m
  proof -
    let ?q = "\<lambda>a. pa_id a = pv_authorization (view_of p now m) \<and> pa_project a = pv_project (view_of p now m)
            \<and> pa_tenant a = pv_tenant (view_of p now m) \<and> pa_domain a = pv_domain (view_of p now m)
            \<and> pa_actor_type a = pv_actor_type (view_of p now m) \<and> pa_actor_id a = pv_actor_id (view_of p now m)
            \<and> pa_state a = ''active''"
    have shown: "shown d p" using ok p by (simp add: capex_ok_def)
    then obtain now' where rows: "filter (\<lambda>a. pa_project a = pj_id p) (project_authorizations d)
        = map (authorization_of p now') (list_project_memberships d (pj_id p))"
      by (auto simp: shown_def)
    have "authorization_of p now' m \<in> set (filter (\<lambda>a. pa_project a = pj_id p) (project_authorizations d))"
      unfolding rows using m by simp
    then have "authorization_of p now' m \<in> set (project_authorizations d)" "?q (authorization_of p now' m)"
      by (simp_all add: authorization_of_def view_of_def)
    then obtain a where a: "select_one ?q (project_authorizations d) = Some a"
      using select_one_None [of ?q "project_authorizations d"] by (cases "select_one ?q (project_authorizations d)") auto
    have a': "a \<in> set (project_authorizations d)" "?q a" using select_one_Some [OF a] by blast+
    then obtain now'' n where n: "a = authorization_of p now'' n" "n \<in> set (list_project_memberships d (pj_id p))"
      using shown_authorization [OF shown a'(1)] by (auto simp: view_of_def)
    then have "n = m"
      using memberships_unique(2) [OF p_ok, of n m] a'(2) m by (simp add: authorization_of_def view_of_def)
    then have "source_membership d a = Some m"
      unfolding n(1) using source_found [OF p_ok m(1,3) p] m(2) by simp
    then show ?thesis
      using p_ok p unfolding shown_as_def a by (simp add: of_view_def with_role_def view_of_def projects_ok_def)
  qed
  have rows: "\<exists>now. filter (\<lambda>v. pv_project v = pj_id p) (project_views d)
      = map (view_of p now) (list_project_memberships d (pj_id p))" if "p \<in> set (projects d)" for p
    using ok that by (auto simp: capex_ok_def shown_def)
  have from_view: "\<exists>p now m. v = view_of p now m \<and> p \<in> set (projects d) \<and> m \<in> set (memberships d)
      \<and> mb_project m = pj_id p \<and> mb_state m = ''active''" if v: "v \<in> set (project_views d)" for v
  proof -
    obtain p where p: "p \<in> set (projects d)" "pj_id p = pv_project v" "shown d p"
      using projected_project(2) [OF ok v] by blast
    from shown_view [OF p(3) v p(2) [symmetric]] obtain now m where
      "v = view_of p now m" "m \<in> set (list_project_memberships d (pj_id p))" .
    with p(1) show ?thesis by auto
  qed
  show "set (List.map_filter shown_as (filter here (project_views d))) = projects_of_actor d tenant domain ty actor"
  proof (intro subset_antisym subsetI)
    fix y assume "y \<in> set (List.map_filter shown_as (filter here (project_views d)))"
    then obtain v where v: "v \<in> set (project_views d)" "here v" "shown_as v = Some y" by (auto simp: map_filter_set)
    obtain p now m where pm: "v = view_of p now m" "p \<in> set (projects d)" "m \<in> set (memberships d)"
      "mb_project m = pj_id p" "mb_state m = ''active''"
      using from_view [OF v(1)] by blast
    then have "y = with_role p (mb_role m)" using view [OF pm(2-5)] v(3) by simp
    with pm v(2) show "y \<in> projects_of_actor d tenant domain ty actor"
      by (auto simp: projects_of_actor_def here_def view_of_def)
  next
    fix y assume "y \<in> projects_of_actor d tenant domain ty actor"
    then obtain p m where pm: "y = with_role p (mb_role m)" "p \<in> set (projects d)" "m \<in> set (memberships d)"
      "mb_project m = pj_id p" "mb_state m = ''active''" "mb_actor_type m = ty" "mb_actor_id m = actor"
      "pj_tenant p = tenant" "pj_domain p = domain" "pj_state p = ''active''"
      by (auto simp: projects_of_actor_def)
    obtain now where "filter (\<lambda>v. pv_project v = pj_id p) (project_views d)
        = map (view_of p now) (list_project_memberships d (pj_id p))" using rows [OF pm(2)] by blast
    moreover have "m \<in> set (list_project_memberships d (pj_id p))" using pm by simp
    ultimately have "view_of p now m \<in> set (filter (\<lambda>v. pv_project v = pj_id p) (project_views d))" by simp
    moreover have "here (view_of p now m)" using pm by (simp add: here_def view_of_def)
    ultimately show "y \<in> set (List.map_filter shown_as (filter here (project_views d)))"
      using view [OF pm(2-5), of now] pm(1) by (auto simp: map_filter_set)
  qed
  have "length (filter (\<lambda>v. pv_project v = k) (filter here (project_views d))) \<le> 1" for k
  proof (cases "k \<in> pj_id ` set (projects d)")
    case True
    then obtain p where p: "p \<in> set (projects d)" "pj_id p = k" by auto
    obtain now where now: "filter (\<lambda>v. pv_project v = k) (project_views d)
        = map (view_of p now) (list_project_memberships d k)" using rows [OF p(1)] p(2) by blast
    have "filter (\<lambda>v. pv_project v = k) (filter here (project_views d))
        = filter here (filter (\<lambda>v. pv_project v = k) (project_views d))"
      by (simp add: conj_commute)
    also have "length \<dots> = length (filter (\<lambda>m. here (view_of p now m)) (list_project_memberships d k))"
      unfolding now by (simp add: filter_map comp_def)
    also have "\<dots> \<le> length (filter (\<lambda>m. mb_actor_type m = ty \<and> mb_actor_id m = actor) (list_project_memberships d k))"
    proof -
      have mono: "length (filter q ms) \<le> length (filter r ms)" if "\<And>x. q x \<Longrightarrow> r x" for q r and ms :: "membership_row list"
        using that by (induction ms) auto
      show ?thesis by (rule mono) (simp add: here_def view_of_def)
    qed
    also have "\<dots> \<le> 1" by (rule members_of_actor [OF p_ok])
    finally show ?thesis .
  next
    case False
    have "pv_project v \<noteq> k" if "v \<in> set (project_views d)" for v
      using projected_project(2) [OF ok that] False by (metis imageI)
    then have "filter (\<lambda>v. pv_project v = k) (project_views d) = []" by (simp add: filter_empty_conv)
    then show ?thesis by (simp add: filter_empty_conv)
  qed
  from distinct_groups [OF this]
  show "distinct (map aj_id (List.map_filter shown_as (filter here (project_views d))))"
  proof (rule map_filter_ids)
    fix v y assume "v \<in> set (filter here (project_views d))" "shown_as v = Some y"
    then show "aj_id y = pv_project v"
      by (auto simp: shown_as_def of_view_def split: option.splits)
  qed
qed

lemma projected_list:
  assumes "capex_ok d"
  shows "for_actor d tenant domain ty actor True = list_capex_projects_for_actor d tenant domain ty actor"
  unfolding for_actor_def list_capex_projects_for_actor_def
  using view_rows [where tenant = tenant and domain = domain and ty = ty and actor = actor, OF assms]
    direct_rows [where d = d and tenant = tenant and domain = domain and ty = ty and actor = actor] assms
  by (intro by_key_and_id_same) (simp_all add: capex_ok_def)

end
