(* ===== verification/Capex_Commands.thy ===== *)
theory Capex_Commands
  imports Capex_Projects
begin

text \<open>
  The commands on CAPEX projects, \<open>src/onetruth/application/handlers/capex_projects.py\<close>: creating a project
  with its first admin, granting and revoking memberships. Each refreshes the projection of the project.
\<close>

section \<open>Rows as the handlers return them\<close>

definition project_dict :: "project_row \<Rightarrow> dict" where
  "project_dict p =
     [(''project_id'', JStr (pj_id p)), (''tenant_id'', JStr (pj_tenant p)), (''domain_id'', JStr (pj_domain p)),
      (''project_key'', JStr (pj_key p)), (''name'', JStr (pj_name p)), (''state'', JStr (pj_state p)),
      (''metadata_json'', JObj (pj_metadata p)), (''created_by_actor_id'', JStr (pj_creator_id p)),
      (''created_by_actor_type'', JStr (pj_creator_type p)), (''created_at'', JStr (pj_created_at p)),
      (''updated_at'', JStr (pj_updated_at p))]"

definition membership_dict :: "membership_row \<Rightarrow> dict" where
  "membership_dict m =
     [(''project_membership_id'', JStr (mb_id m)), (''project_id'', JStr (mb_project m)),
      (''tenant_id'', JStr (mb_tenant m)), (''domain_id'', JStr (mb_domain m)),
      (''actor_type'', JStr (mb_actor_type m)), (''actor_id'', JStr (mb_actor_id m)), (''role'', JStr (mb_role m)),
      (''state'', JStr (mb_state m)), (''granted_by_actor_id'', JStr (mb_granter_id m)),
      (''granted_by_actor_type'', JStr (mb_granter_type m)), (''created_at'', JStr (mb_created_at m)),
      (''updated_at'', JStr (mb_updated_at m))]"

definition authorized_project_dict :: "authorized_project \<Rightarrow> dict" where
  "authorized_project_dict p =
     [(''project_id'', JStr (aj_id p)), (''tenant_id'', JStr (aj_tenant p)), (''domain_id'', JStr (aj_domain p)),
      (''project_key'', JStr (aj_key p)), (''name'', JStr (aj_name p)), (''state'', JStr (aj_state p)),
      (''metadata_json'', JObj (aj_metadata p)), (''created_by_actor_id'', JStr (aj_creator_id p)),
      (''created_by_actor_type'', JStr (aj_creator_type p)), (''created_at'', JStr (aj_created_at p)),
      (''updated_at'', JStr (aj_updated_at p)), (''caller_role'', JStr (aj_role p))]"

definition membership_granted ::
    "string \<Rightarrow> string \<Rightarrow> string \<Rightarrow> string \<Rightarrow> string \<Rightarrow> string \<Rightarrow> string \<Rightarrow> dict" where
  "membership_granted membership_id project_id actor_id actor_type role granter_id granter_type =
     [(''project_membership_id'', JStr membership_id), (''project_id'', JStr project_id),
      (''actor_id'', JStr actor_id), (''actor_type'', JStr actor_type), (''role'', JStr role),
      (''state'', JStr ''active''), (''granted_by_actor_id'', JStr granter_id),
      (''granted_by_actor_type'', JStr granter_type)]"

definition membership_links :: "string \<Rightarrow> string \<Rightarrow> json list" where
  "membership_links project_id membership_id =
     [rel_link ''project'' ''capex_project'' project_id, link ''project_membership'' membership_id]"

section \<open>Checks of the payload\<close>

definition required_non_empty :: "json \<Rightarrow> string result" where
  "required_non_empty value =
     (let normalized = py_strip (py_str value)
      in if normalized = [] then Inl (CommandError ''invalid_payload'') else Inr normalized)"

definition validate_project_state :: "string \<Rightarrow> string result" where
  "validate_project_state state =
     (if state \<in> {''active'', ''archived''} then Inr state else Inl (CommandError ''invalid_project_state''))"

definition project_metadata :: "json \<Rightarrow> dict result" where
  "project_metadata value = (case value of
     JNull \<Rightarrow> Inr [] | JObj m \<Rightarrow> Inr m | _ \<Rightarrow> Inl (CommandError ''invalid_project_metadata''))"

section \<open>Creating a project\<close>

record project_request =
  np_id :: string
  np_key :: string
  np_name :: string
  np_state :: string
  np_metadata :: dict

text \<open>The uuid of the membership is drawn in the operation, the one of the project before.\<close>

definition create_project_operation ::
    "effect_env \<Rightarrow> string \<Rightarrow> dict \<Rightarrow> project_request \<Rightarrow> receipt_context option \<Rightarrow> (dict, db) comp" where
  "create_project_operation env membership_uuid payload q receipt =
     (let tenant_id = py_str (jget payload ''tenant_id''); domain_id = py_str (jget payload ''domain_id'');
          actor_id = py_str (jget payload ''actor_id''); actor_type = py_str (jget payload ''actor_type'');
          membership_id = ''pm-'' @ membership_uuid; now = fe_now env in
      seq (create_capex_project (np_id q) tenant_id domain_id (np_key q) (np_name q) (np_state q) (np_metadata q)
            actor_id actor_type now) (\<lambda>_.
      seq (create_project_membership membership_id (np_id q) tenant_id domain_id actor_type actor_id
            ''project_admin'' ''active'' actor_id actor_type now) (\<lambda>_.
      seq (emit env ''capex.project.created'' tenant_id domain_id actor_type actor_id
            [link ''capex_project'' (np_id q)]
            [(''project_id'', JStr (np_id q)), (''project_key'', JStr (np_key q)), (''name'', JStr (np_name q)),
             (''state'', JStr (np_state q)), (''created_by_actor_id'', JStr actor_id),
             (''created_by_actor_type'', JStr actor_type)]
            (receipt_event_idempotency_key receipt ''capex.projects.create.capex.project.created'')) (\<lambda>_.
      seq (emit env ''capex.project_membership.granted'' tenant_id domain_id actor_type actor_id
            (membership_links (np_id q) membership_id)
            (membership_granted membership_id (np_id q) actor_id actor_type ''project_admin'' actor_id actor_type)
            (receipt_event_idempotency_key receipt ''capex.projects.create.capex.project_membership.granted'')) (\<lambda>_.
      seq (refresh_project_authorization_projection (np_id q) now) (\<lambda>_.
      seq (asks (\<lambda>d. get_capex_project d (np_id q))) (\<lambda>project.
      seq (asks (\<lambda>d. get_project_membership d membership_id)) (\<lambda>membership.
      seq (found_or (CommandError ''capex_project_not_found'') project) (\<lambda>p.
      seq (found_or (CommandError ''capex_project_not_found'') membership) (\<lambda>m.
      ret [(''project'', JObj (project_dict p)), (''admin_membership'', JObj (membership_dict m))]))))))))))"

definition create_project_error :: "exc \<Rightarrow> exc" where
  "create_project_error e = (case e of
     IntegrityError message \<Rightarrow>
       if contains ''capex_projects.project_id'' message then CommandError ''duplicate_capex_project_id''
       else CommandError ''duplicate_capex_project_key''
   | _ \<Rightarrow> e)"

definition create_capex_project_command :: "effect_env \<Rightarrow> string \<Rightarrow> dict \<Rightarrow> bool \<Rightarrow> (dict, db) comp" where
  "create_capex_project_command env membership_uuid payload include_receipt =
     seq (of_result (require_fields payload
       [''tenant_id'', ''domain_id'', ''project_key'', ''name'', ''actor_id'', ''actor_type'', ''idempotency_key''])) (\<lambda>_.
     seq (of_result (assert_actor_type (py_str (jget payload ''actor_type'')))) (\<lambda>_.
     let requested = jget payload ''project_id'';
         project_id = py_str (py_or requested (JStr (''cp-'' @ fe_uuid env))) in
     seq (of_result (required_non_empty (jget payload ''project_key''))) (\<lambda>project_key.
     seq (of_result (required_non_empty (jget payload ''name''))) (\<lambda>name.
     seq (of_result (validate_project_state (str_field payload ''state'' ''active''))) (\<lambda>state.
     seq (of_result (project_metadata (jget payload ''metadata_json''))) (\<lambda>metadata.
     seq (of_result (prepare_command_receipt ''capex.projects.create'' payload
       [(''project_id'', of_opt (opt_str requested)),
        (''tenant_id'', JStr (py_str (jget payload ''tenant_id''))),
        (''domain_id'', JStr (py_str (jget payload ''domain_id''))), (''project_key'', JStr project_key),
        (''name'', JStr name), (''state'', JStr state), (''metadata_json'', JObj metadata),
        (''actor_id'', JStr (py_str (jget payload ''actor_id''))),
        (''actor_type'', JStr (py_str (jget payload ''actor_type'')))]
       (Some (py_str (jget payload ''tenant_id''))) (Some (py_str (jget payload ''domain_id''))) None True)) (\<lambda>receipt.
     seq (handle (execute_with_command_receipt receipt (create_project_operation env membership_uuid payload
           \<lparr>np_id = project_id, np_key = project_key, np_name = name, np_state = state, np_metadata = metadata\<rparr>
           receipt))
         (\<lambda>e. raise (create_project_error e))) (\<lambda>outcome.
     ret (command_receipt_payload (fst outcome) receipt (snd outcome) include_receipt)))))))))"

section \<open>Granting a membership\<close>

text \<open>The two checks in front of both commands; what they give is the project.\<close>

definition require_project_admin :: "db \<Rightarrow> dict \<Rightarrow> project_row result" where
  "require_project_admin d payload =
     (let actor_type = py_str (jget payload ''actor_type''); actor_id = py_str (jget payload ''actor_id'') in
      rbind (require_project_access d (py_str (jget payload ''project_id'')) (py_str (jget payload ''tenant_id''))
        (py_str (jget payload ''domain_id'')) actor_type actor_id ''project_viewer'' ''capex_project_not_found'') (\<lambda>p.
      rbind (require_project_membership_role d p actor_type actor_id ''project_admin'' ''capex_project_access_forbidden'')
      (\<lambda>_. Inr p)))"

definition grant_membership_operation ::
    "effect_env \<Rightarrow> dict \<Rightarrow> project_row \<Rightarrow> string \<Rightarrow> string \<Rightarrow> receipt_context option \<Rightarrow> (dict, db) comp" where
  "grant_membership_operation env payload project role membership_id receipt =
     (let project_id = py_str (jget payload ''project_id'');
          actor_id = py_str (jget payload ''actor_id''); actor_type = py_str (jget payload ''actor_type'');
          target_id = py_str (jget payload ''target_actor_id''); target_type = py_str (jget payload ''target_actor_type'');
          now = fe_now env in
      seq (asks (\<lambda>d. get_any_project_membership_for_actor d project_id target_type target_id)) (\<lambda>current.
      seq (case current of
          None \<Rightarrow>
            seq (create_project_membership membership_id project_id (pj_tenant project) (pj_domain project) target_type
              target_id role ''active'' actor_id actor_type now) (\<lambda>_. ret membership_id)
        | Some m \<Rightarrow>
            if mb_state m = ''revoked''
            then seq (update_project_membership_grant (mb_id m) role ''active'' actor_id actor_type now) (\<lambda>_. ret (mb_id m))
            else raise (CommandError ''duplicate_project_membership'')) (\<lambda>resolved.
      seq (emit env ''capex.project_membership.granted'' (pj_tenant project) (pj_domain project) actor_type actor_id
            (membership_links project_id resolved)
            (membership_granted resolved project_id target_id target_type role actor_id actor_type)
            (receipt_event_idempotency_key receipt ''capex.project_memberships.grant.capex.project_membership.granted''))
      (\<lambda>_.
      seq (refresh_project_authorization_projection project_id now) (\<lambda>_.
      seq (asks (\<lambda>d. get_project_membership d resolved)) (\<lambda>membership.
      seq (found_or (CommandError ''project_membership_not_found'') membership) (\<lambda>m.
      ret [(''project'', JObj (project_dict project)), (''membership'', JObj (membership_dict m))])))))))"

definition grant_membership_error :: "exc \<Rightarrow> exc" where
  "grant_membership_error e = (case e of
     IntegrityError message \<Rightarrow>
       if contains ''project_memberships.project_membership_id'' message
       then CommandError ''duplicate_project_membership_id'' else CommandError ''duplicate_project_membership''
   | _ \<Rightarrow> e)"

definition grant_project_membership_command :: "effect_env \<Rightarrow> dict \<Rightarrow> bool \<Rightarrow> (dict, db) comp" where
  "grant_project_membership_command env payload include_receipt =
     seq (of_result (require_fields payload [''project_id'', ''tenant_id'', ''domain_id'', ''actor_id'', ''actor_type'',
       ''target_actor_id'', ''target_actor_type'', ''role'', ''idempotency_key''])) (\<lambda>_.
     seq (of_result (assert_actor_type (py_str (jget payload ''actor_type'')))) (\<lambda>_.
     seq (of_result (assert_actor_type (py_str (jget payload ''target_actor_type'')))) (\<lambda>_.
     seq (of_result (validate_project_role (py_str (jget payload ''role'')))) (\<lambda>role.
     seq (\<lambda>d. (require_project_admin d payload, d)) (\<lambda>project.
     let project_id = py_str (jget payload ''project_id'');
         target_id = py_str (jget payload ''target_actor_id''); target_type = py_str (jget payload ''target_actor_type'');
         requested = jget payload ''project_membership_id'' in
     seq (asks (\<lambda>d. get_any_project_membership_for_actor d project_id target_type target_id)) (\<lambda>existing.
     let membership_id = py_str (py_or requested
           (JStr (case existing of Some m \<Rightarrow> mb_id m | None \<Rightarrow> ''pm-'' @ fe_uuid env))) in
     seq (of_result (require (requested = JNull \<or> (case existing of None \<Rightarrow> True | Some m \<Rightarrow> mb_id m = membership_id))
       (CommandError ''duplicate_project_membership''))) (\<lambda>_.
     seq (of_result (prepare_command_receipt ''capex.project_memberships.grant'' payload
       [(''project_membership_id'', of_opt (opt_str requested)), (''project_id'', JStr project_id),
        (''tenant_id'', JStr (py_str (jget payload ''tenant_id''))),
        (''domain_id'', JStr (py_str (jget payload ''domain_id''))),
        (''actor_id'', JStr (py_str (jget payload ''actor_id''))),
        (''actor_type'', JStr (py_str (jget payload ''actor_type''))), (''target_actor_id'', JStr target_id),
        (''target_actor_type'', JStr target_type), (''role'', JStr role)]
       (Some (py_str (jget payload ''tenant_id''))) (Some (py_str (jget payload ''domain_id''))) None True)) (\<lambda>receipt.
     seq (handle (execute_with_command_receipt receipt
           (grant_membership_operation env payload project role membership_id receipt))
         (\<lambda>e. raise (grant_membership_error e))) (\<lambda>outcome.
     ret (command_receipt_payload (fst outcome) receipt (snd outcome) include_receipt))))))))))"

section \<open>Revoking a membership\<close>

definition revoke_membership_operation ::
    "effect_env \<Rightarrow> dict \<Rightarrow> project_row \<Rightarrow> receipt_context option \<Rightarrow> (dict, db) comp" where
  "revoke_membership_operation env payload project receipt =
     (let project_id = py_str (jget payload ''project_id'');
          membership_id = py_str (jget payload ''project_membership_id'');
          actor_id = py_str (jget payload ''actor_id''); actor_type = py_str (jget payload ''actor_type'');
          missing = CommandError ''project_membership_not_found''; now = fe_now env in
      seq (asks (\<lambda>d. get_project_membership d membership_id)) (\<lambda>membership.
      seq (found_or missing membership) (\<lambda>m.
      seq (of_result (require (mb_project m = project_id \<and> mb_tenant m = pj_tenant project \<and> mb_domain m = pj_domain project)
        missing)) (\<lambda>_.
      seq (of_result (require (mb_state m = ''active'') (CommandError ''project_membership_conflict''))) (\<lambda>_.
      seq (revoke_project_membership membership_id now) (\<lambda>_.
      seq (emit env ''capex.project_membership.revoked'' (pj_tenant project) (pj_domain project) actor_type actor_id
            (membership_links project_id membership_id)
            [(''project_membership_id'', JStr membership_id), (''project_id'', JStr project_id),
             (''actor_id'', JStr (mb_actor_id m)), (''actor_type'', JStr (mb_actor_type m)),
             (''previous_role'', JStr (mb_role m)), (''state'', JStr ''revoked''),
             (''revoked_by_actor_id'', JStr actor_id), (''revoked_by_actor_type'', JStr actor_type)]
            (receipt_event_idempotency_key receipt ''capex.project_memberships.revoke.capex.project_membership.revoked''))
      (\<lambda>_.
      seq (refresh_project_authorization_projection project_id now) (\<lambda>_.
      seq (asks (\<lambda>d. get_project_membership d membership_id)) (\<lambda>revoked.
      seq (found_or missing revoked) (\<lambda>m'.
      ret [(''project'', JObj (project_dict project)), (''membership'', JObj (membership_dict m'))]))))))))))"

definition revoke_project_membership_command :: "effect_env \<Rightarrow> dict \<Rightarrow> bool \<Rightarrow> (dict, db) comp" where
  "revoke_project_membership_command env payload include_receipt =
     seq (of_result (require_fields payload [''project_id'', ''project_membership_id'', ''tenant_id'', ''domain_id'',
       ''actor_id'', ''actor_type'', ''idempotency_key''])) (\<lambda>_.
     seq (of_result (assert_actor_type (py_str (jget payload ''actor_type'')))) (\<lambda>_.
     seq (\<lambda>d. (require_project_admin d payload, d)) (\<lambda>project.
     seq (of_result (prepare_command_receipt ''capex.project_memberships.revoke'' payload
       [(''project_id'', JStr (py_str (jget payload ''project_id''))),
        (''project_membership_id'', JStr (py_str (jget payload ''project_membership_id''))),
        (''tenant_id'', JStr (py_str (jget payload ''tenant_id''))),
        (''domain_id'', JStr (py_str (jget payload ''domain_id''))),
        (''actor_id'', JStr (py_str (jget payload ''actor_id''))),
        (''actor_type'', JStr (py_str (jget payload ''actor_type'')))]
       (Some (py_str (jget payload ''tenant_id''))) (Some (py_str (jget payload ''domain_id''))) None True)) (\<lambda>receipt.
     seq (execute_with_command_receipt receipt (revoke_membership_operation env payload project receipt)) (\<lambda>outcome.
     ret (command_receipt_payload (fst outcome) receipt (snd outcome) include_receipt))))))"

section \<open>Reading\<close>

definition list_capex_projects_command :: "db \<Rightarrow> string \<Rightarrow> string \<Rightarrow> string \<Rightarrow> string \<Rightarrow> dict list" where
  "list_capex_projects_command d tenant_id domain_id actor_type actor_id =
     map authorized_project_dict (for_actor d tenant_id domain_id actor_type actor_id True)"

definition show_capex_project_command :: "db \<Rightarrow> string \<Rightarrow> string \<Rightarrow> string \<Rightarrow> string \<Rightarrow> string \<Rightarrow> dict result" where
  "show_capex_project_command d project_id tenant_id domain_id actor_type actor_id =
     rbind (require_project_access d project_id tenant_id domain_id actor_type actor_id ''project_viewer''
       ''capex_project_not_found'') (\<lambda>p. Inr (project_dict p))"

definition list_project_memberships_command ::
    "db \<Rightarrow> string \<Rightarrow> string \<Rightarrow> string \<Rightarrow> string \<Rightarrow> string \<Rightarrow> dict list result" where
  "list_project_memberships_command d project_id tenant_id domain_id actor_type actor_id =
     rbind (require_project_access d project_id tenant_id domain_id actor_type actor_id ''project_viewer''
       ''capex_project_not_found'') (\<lambda>p.
     rbind (require_project_membership_role d p actor_type actor_id ''project_admin'' ''capex_project_access_forbidden'')
     (\<lambda>_. Inr (map membership_dict (list_project_memberships d project_id))))"

section \<open>The invariant\<close>

definition nearly :: "string \<Rightarrow> string \<Rightarrow> string \<Rightarrow> db \<Rightarrow> bool" where
  "nearly i tenant domain d \<longleftrightarrow> projects_ok d \<and> (\<forall>p\<in>set (projects d). pj_id p \<noteq> i \<longrightarrow> shown d p)
     \<and> pa_project ` set (project_authorizations d) \<union> pv_project ` set (project_views d) \<subseteq> pj_id ` set (projects d)
     \<and> (\<exists>p. get_capex_project d i = Some p \<and> pj_tenant p = tenant \<and> pj_domain p = domain)"

lemma log_free_capex [intro, simp]: "log_free capex_ok" "log_free (nearly i tenant domain)"
  by (simp_all add: log_free_def capex_ok_def nearly_def projects_ok_def shown_def list_project_memberships_def
    get_capex_project_def)

lemma refresh_ok: "yields (nearly i tenant domain) (refresh_project_authorization_projection i now) (\<lambda>_. capex_ok)"
proof (rule yieldsI)
  fix d r d' assume near: "nearly i tenant domain d" and run: "refresh_project_authorization_projection i now d = (Inr r, d')"
  then obtain p where "get_capex_project d i = Some p" by (auto simp: nearly_def)
  from refresh_shows(1) [OF run _ _ _ this] near show "capex_ok d'" by (simp add: nearly_def)
qed

lemma insert_project_Inr:
  assumes "insert_project r d = (Inr u, d')"
  shows "d' = d\<lparr>projects := projects d @ [r]\<rparr>" "\<forall>x\<in>set (projects d). pj_id x \<noteq> pj_id r"
  using assms by (auto simp: insert_project_def comp_apply split: if_splits)

lemma insert_membership_Inr:
  assumes "insert_membership r d = (Inr u, d')"
  shows "d' = d\<lparr>memberships := memberships d @ [r]\<rparr>" "\<forall>x\<in>set (memberships d). mb_id x \<noteq> mb_id r"
    "\<forall>x\<in>set (memberships d). (mb_project x, mb_actor_type x, mb_actor_id x) \<noteq> (mb_project r, mb_actor_type r, mb_actor_id r)"
  using assms by (auto simp: insert_membership_def comp_apply split: if_splits)

lemma project_created:
  "yields capex_ok (create_capex_project i tenant domain k name state m who ty now) (\<lambda>_. nearly i tenant domain)"
proof (rule yieldsI)
  fix d u d'
  assume ok: "capex_ok d" and run: "create_capex_project i tenant domain k name state m who ty now d = (Inr u, d')"
  define r where "r = \<lparr>pj_id = i, pj_tenant = tenant, pj_domain = domain, pj_key = k,
       pj_name = name, pj_state = state, pj_metadata = sort_dict m, pj_creator_id = who,
       pj_creator_type = ty, pj_created_at = now, pj_updated_at = now\<rparr>"
  then have r: "pj_id r = i" "pj_tenant r = tenant" "pj_domain r = domain" "sort_dict (pj_metadata r) = pj_metadata r"
    by simp_all
  have "insert_project r d = (Inr u, d')" using run by (simp add: create_capex_project_def r_def)
  note insert_project_Inr [OF this]
  then have d': "d' = d\<lparr>projects := projects d @ [r]\<rparr>" and new: "i \<notin> pj_id ` set (projects d)"
    using r(1) by auto
  have "select_one (\<lambda>r. pj_id r = i) (projects d) = None" using new by (auto simp: select_one_None)
  then have "get_capex_project d' i = Some r" by (simp add: get_capex_project_def d' select_one_append r)
  moreover have "projects_ok d'"
    using ok new r by (auto simp: capex_ok_def projects_ok_def d')
  moreover have "shown d' p = shown d p" for p by (simp add: d' shown_def list_project_memberships_def)
  ultimately show "nearly i tenant domain d'"
    using ok r unfolding nearly_def capex_ok_def by (auto simp: d')
qed

lemma membership_created:
  "yields (nearly i tenant domain) (create_project_membership j i tenant domain ty actor role state g gt now)
     (\<lambda>_. nearly i tenant domain)"
proof (rule yieldsI)
  fix d u d'
  assume ok: "nearly i tenant domain d"
    and run: "create_project_membership j i tenant domain ty actor role state g gt now d = (Inr u, d')"
  define r where "r = \<lparr>mb_id = j, mb_project = i, mb_tenant = tenant, mb_domain = domain, mb_actor_type = ty,
      mb_actor_id = actor, mb_role = role, mb_state = state, mb_granter_id = g, mb_granter_type = gt,
      mb_created_at = now, mb_updated_at = now\<rparr>"
  then have r: "mb_project r = i" "mb_tenant r = tenant" "mb_domain r = domain" by simp_all
  have "insert_membership r d = (Inr u, d')" using run by (simp add: create_project_membership_def r_def)
  note d' = insert_membership_Inr(1) [OF this] and new = insert_membership_Inr(2,3) [OF this]
  obtain p where p: "p \<in> set (projects d)" "pj_id p = i" "pj_tenant p = tenant" "pj_domain p = domain"
    using ok by (auto simp: nearly_def get_capex_project_def dest: select_one_Some)
  have "projects_ok d'"
    using ok new r p unfolding nearly_def projects_ok_def d' by auto
  moreover have "shown d' q = shown d q" if "pj_id q \<noteq> i" for q
    using that r(1) by (simp add: list_project_memberships_def d' shown_def)
  ultimately show "nearly i tenant domain d'"
    using ok unfolding nearly_def by (auto simp: d' get_capex_project_def)
qed

lemma membership_updated:
  assumes keeps_key: "\<And>r. mb_id (f r) = mb_id r" "\<And>r. mb_project (f r) = mb_project r" "\<And>r. mb_tenant (f r) = mb_tenant r"
    "\<And>r. mb_domain (f r) = mb_domain r" "\<And>r. mb_actor_type (f r) = mb_actor_type r" "\<And>r. mb_actor_id (f r) = mb_actor_id r"
  shows "yields (\<lambda>d. capex_ok d \<and> m \<in> set (memberships d))
     (modify (\<lambda>d. d\<lparr>memberships := update_where (\<lambda>r. mb_id r = mb_id m) f (memberships d)\<rparr>))
     (\<lambda>_. nearly (mb_project m) (mb_tenant m) (mb_domain m))"
proof (rule yieldsI)
  fix d u d'
  assume P: "capex_ok d \<and> m \<in> set (memberships d)"
    and "modify (\<lambda>d. d\<lparr>memberships := update_where (\<lambda>r. mb_id r = mb_id m) f (memberships d)\<rparr>) d = (Inr u, d')"
  then have d': "d' = d\<lparr>memberships := update_where (\<lambda>r. mb_id r = mb_id m) f (memberships d)\<rparr>"
    by (simp add: comp_apply)
  have ok: "projects_ok d" and m: "m \<in> set (memberships d)" using P by (simp_all add: capex_ok_def)
  obtain p where p: "p \<in> set (projects d)" "pj_id p = mb_project m" "pj_tenant p = mb_tenant m" "pj_domain p = mb_domain m"
    using ok m unfolding projects_ok_def by blast
  have "get_capex_project d' (mb_project m) = Some p"
    using select_of_key [of pj_id "projects d" p] p ok by (simp add: get_capex_project_def d' projects_ok_def)
  moreover have "projects_ok d'"
    using ok unfolding projects_ok_def d'
    by (simp add: map_update_where keeps_key) (auto simp: set_update_where keeps_key)
  moreover have "list_project_memberships d' q = list_project_memberships d q" if "q \<noteq> mb_project m" for q
  proof -
    have "mb_project r = mb_project m" if "r \<in> set (memberships d)" "mb_id r = mb_id m" for r
      using memberships_unique(1) [OF ok that(1) m that(2)] by simp
    then have "filter (\<lambda>r. mb_project r = q \<and> mb_state r = ''active'') (update_where (\<lambda>r. mb_id r = mb_id m) f rs)
        = filter (\<lambda>r. mb_project r = q \<and> mb_state r = ''active'') rs" if "set rs \<subseteq> set (memberships d)" for rs
      using that \<open>q \<noteq> mb_project m\<close> by (induction rs) (auto simp: update_where_def keeps_key)
    then show ?thesis by (simp add: list_project_memberships_def d')
  qed
  ultimately show "nearly (mb_project m) (mb_tenant m) (mb_domain m) d'"
    using P p unfolding nearly_def capex_ok_def by (auto simp: d' shown_def)
qed

section \<open>Every command keeps it\<close>

lemma create_project_keeps: "yields capex_ok (create_project_operation env uuid payload q receipt) (\<lambda>_. capex_ok)"
  unfolding create_project_operation_def Let_def
  by (rule yields_seq [OF project_created] yields_seq [OF membership_created] yields_emitting log_free_capex
    yields_seq [OF refresh_ok] yields_peek yields_found yields_ret | assumption)+

definition near :: "string \<Rightarrow> db \<Rightarrow> bool" where
  "near i d \<longleftrightarrow> (\<exists>tenant domain. nearly i tenant domain d)"

lemma refresh_near: "yields (near i) (refresh_project_authorization_projection i now) (\<lambda>_. capex_ok)"
  using refresh_ok unfolding yields_def near_def by blast

lemma log_free_near [intro, simp]: "log_free (near i)"
  using log_free_capex(2) unfolding log_free_def near_def by blast

lemma member_updated:
  assumes "\<And>r. mb_id (f r) = mb_id r" "\<And>r. mb_project (f r) = mb_project r" "\<And>r. mb_tenant (f r) = mb_tenant r"
    "\<And>r. mb_domain (f r) = mb_domain r" "\<And>r. mb_actor_type (f r) = mb_actor_type r" "\<And>r. mb_actor_id (f r) = mb_actor_id r"
    and "\<And>d. P d \<Longrightarrow> capex_ok d \<and> m \<in> set (memberships d)" "mb_project m = i" "mb_id m = j"
  shows "yields P (modify (\<lambda>d. d\<lparr>memberships := update_where (\<lambda>r. mb_id r = j) f (memberships d)\<rparr>)) (\<lambda>_. near i)"
  using membership_updated [of f m, OF assms(1-6)] assms(7-9) unfolding yields_def near_def by blast

lemma grant_keeps:
  "yields (\<lambda>d. capex_ok d \<and> get_capex_project d (py_str (jget payload ''project_id'')) = Some p)
     (grant_membership_operation env payload p role j receipt) (\<lambda>_. capex_ok)"
proof -
  let ?i = "py_str (jget payload ''project_id'')"
  have new: "yields (\<lambda>d. (capex_ok d \<and> get_capex_project d ?i = Some p) \<and> b d)
      (seq (create_project_membership j ?i (pj_tenant p) (pj_domain p) ty actor r ''active'' g gt now) (\<lambda>_. ret k))
      (\<lambda>_. near ?i)" for ty actor r g gt now b k
  proof (rule yields_seq [OF yields_pre [OF membership_created]])
    show "nearly ?i (pj_tenant p) (pj_domain p) d" if "(capex_ok d \<and> get_capex_project d ?i = Some p) \<and> b d" for d
      using that by (simp add: nearly_def capex_ok_def)
    show "yields (nearly ?i (pj_tenant p) (pj_domain p)) (ret k) (\<lambda>_. near ?i)" by (rule yields_ret) (unfold near_def, blast)
  qed
  have update: "yields (\<lambda>d. (capex_ok d \<and> get_capex_project d ?i = Some p) \<and>
        x = get_any_project_membership_for_actor d ?i ty actor)
      (seq (update_project_membership_grant (mb_id m) r ''active'' g gt now) (\<lambda>_. ret k))
      (\<lambda>_. near ?i)" if x: "x = Some m" for x m ty actor r g gt now k
  proof (cases "mb_project m = ?i")
    case True
    show ?thesis
      unfolding update_project_membership_grant_def
    proof (rule yields_seq [OF member_updated [OF _ _ _ _ _ _ _ True refl]])
      fix d assume "(capex_ok d \<and> get_capex_project d ?i = Some p) \<and> x = get_any_project_membership_for_actor d ?i ty actor"
      then show "capex_ok d \<and> m \<in> set (memberships d)"
        using x by (auto simp: get_any_project_membership_for_actor_def dest: select_one_Some [OF sym])
    qed (auto intro!: yields_ret)
  next
    case False
    then have "x \<noteq> get_any_project_membership_for_actor d ?i ty actor" for d
      using x by (auto simp: get_any_project_membership_for_actor_def dest: select_one_Some [OF sym])
    then show ?thesis by (simp add: yields_def)
  qed
  have changed: "yields (\<lambda>d. (capex_ok d \<and> get_capex_project d ?i = Some p) \<and>
        x = get_any_project_membership_for_actor d ?i ty actor)
      (case x of
          None \<Rightarrow>
            seq (create_project_membership j ?i (pj_tenant p) (pj_domain p) ty actor r ''active'' g gt now) (\<lambda>_. ret j)
        | Some m \<Rightarrow>
            if mb_state m = ''revoked''
            then seq (update_project_membership_grant (mb_id m) r ''active'' g gt now) (\<lambda>_. ret (mb_id m))
            else raise (CommandError ''duplicate_project_membership'')) (\<lambda>_. near ?i)" for x ty actor r g gt now
  proof (cases x)
    case None
    then show ?thesis
      using new [of "\<lambda>d. x = get_any_project_membership_for_actor d ?i ty actor" ty actor r g gt now j] by simp
  next
    case (Some m)
    from update [OF this, of ty actor r g gt now "mb_id m"] show ?thesis
      by (cases "mb_state m = ''revoked''") (simp_all add: Some yields_raise)
  qed
  show ?thesis
    unfolding grant_membership_operation_def Let_def
    by (rule yields_asking yields_seq [OF changed] yields_emitting log_free_near yields_seq [OF refresh_near]
      yields_peek yields_found yields_ret | assumption)+
qed

lemma revoke_keeps: "yields capex_ok (revoke_membership_operation env payload p receipt) (\<lambda>_. capex_ok)"
proof -
  let ?i = "py_str (jget payload ''project_id'')" and ?j = "py_str (jget payload ''project_membership_id'')"
  have revoked: "yields (\<lambda>d. capex_ok d \<and> x = get_project_membership d ?j) (revoke_project_membership ?j now) (\<lambda>_. near ?i)"
    if "x = Some m" "mb_project m = ?i" for x m now
  proof (cases "mb_id m = ?j")
    case True
    show ?thesis
      unfolding revoke_project_membership_def
    proof (rule member_updated [OF _ _ _ _ _ _ _ that(2) True])
      fix d assume "capex_ok d \<and> x = get_project_membership d ?j"
      then show "capex_ok d \<and> m \<in> set (memberships d)"
        using that(1) by (auto simp: get_project_membership_def dest: select_one_Some [OF sym])
    qed simp_all
  next
    case False
    then have "x \<noteq> get_project_membership d ?j" for d
      using that(1) by (auto simp: get_project_membership_def dest: select_one_Some [OF sym])
    then show ?thesis by (simp add: yields_def)
  qed
  show ?thesis
    unfolding revoke_membership_operation_def Let_def
    by (rule yields_seq [OF revoked] yields_asking yields_check yields_emitting log_free_near yields_seq [OF refresh_near]
      yields_found yields_ret | assumption | simp; fail)+
qed

end
