(* ===== verification/Capex_Access.thy ===== *)
theory Capex_Access
  imports Capex_Commands
begin

text \<open>
  What the CAPEX commands do to access: any sequence of them keeps the projection in line with the memberships, and
  memberships of a project change only at the hands of its admins.
\<close>

section \<open>Sequences of commands\<close>

datatype capex_command =
    Create_capex_project effect_env string dict bool
  | Grant_project_membership effect_env dict bool
  | Revoke_project_membership effect_env dict bool

definition run_capex_command :: "capex_command \<Rightarrow> db \<Rightarrow> db" where
  "run_capex_command c d = (case c of
     Create_capex_project env membership_uuid payload receipt \<Rightarrow>
       snd (create_capex_project_command env membership_uuid payload receipt d)
   | Grant_project_membership env payload receipt \<Rightarrow> snd (grant_project_membership_command env payload receipt d)
   | Revoke_project_membership env payload receipt \<Rightarrow> snd (revoke_project_membership_command env payload receipt d))"

definition command_payload :: "capex_command \<Rightarrow> dict" where
  "command_payload c = (case c of
     Create_capex_project env membership_uuid payload receipt \<Rightarrow> payload
   | Grant_project_membership env payload receipt \<Rightarrow> payload
   | Revoke_project_membership env payload receipt \<Rightarrow> payload)"

text \<open>What a command brings about, from what its operation does once the checks in front have passed.\<close>

lemma create_brings:
  assumes "\<And>d. P d \<Longrightarrow> Q d" "log_free Q"
    and "\<And>q receipt. yields P (create_project_operation env uuid payload q receipt) (\<lambda>_. Q)"
  shows "brings P (create_capex_project_command env uuid payload b) Q"
  unfolding create_capex_project_command_def Let_def
  by (intro brings_checked brings_finish brings_reraise brings_executed assms)

lemma admin_checked:
  assumes "require_project_admin d payload = Inr p"
  shows "get_capex_project d (py_str (jget payload ''project_id'')) = Some p" "pj_id p = py_str (jget payload ''project_id'')"
    "has_project_role d (pj_id p) (py_str (jget payload ''actor_type'')) (py_str (jget payload ''actor_id''))
      ''project_admin''"
  using assms
  by (auto simp: require_project_admin_def rbind_eq_Inr require_project_access_def require_project_membership_role_def
      require_def get_capex_project_def Let_def dest: select_one_Some split: option.splits if_splits)

lemma grant_brings:
  assumes "\<And>d. P d \<Longrightarrow> Q d" "log_free Q"
    and "\<And>p role j receipt. yields (\<lambda>d. P d \<and> require_project_admin d payload = Inr p)
      (grant_membership_operation env payload p role j receipt) (\<lambda>_. Q)"
  shows "brings P (grant_project_membership_command env payload b) Q"
  unfolding grant_project_membership_command_def Let_def
  by (intro brings_checked brings_reading brings_asking brings_finish brings_reraise brings_executed assms)
    (auto intro: assms(1))

lemma revoke_brings:
  assumes "\<And>d. P d \<Longrightarrow> Q d" "log_free Q"
    and "\<And>p receipt. yields (\<lambda>d. P d \<and> require_project_admin d payload = Inr p)
      (revoke_membership_operation env payload p receipt) (\<lambda>_. Q)"
  shows "brings P (revoke_project_membership_command env payload b) Q"
  unfolding revoke_project_membership_command_def Let_def
  by (intro brings_checked brings_reading brings_finish brings_executed assms) (auto intro: assms(1))

lemma commands_keep:
  assumes "capex_ok d" shows "capex_ok (run_capex_command c d)"
proof -
  have "brings capex_ok (create_capex_project_command env uuid payload b) capex_ok" for env uuid payload b
    by (intro create_brings log_free_capex create_project_keeps) assumption
  moreover have "brings capex_ok (grant_project_membership_command env payload b) capex_ok" for env payload b
    by (intro grant_brings log_free_capex yields_pre [OF grant_keeps]) (auto dest: admin_checked(1))
  moreover have "brings capex_ok (revoke_project_membership_command env payload b) capex_ok" for env payload b
    by (intro revoke_brings log_free_capex yields_pre [OF revoke_keeps]) auto
  ultimately show ?thesis
    using assms by (simp add: run_capex_command_def brings_def split: capex_command.split)
qed

lemma runs_keep: "capex_ok d \<Longrightarrow> capex_ok (fold run_capex_command cs d)"
  by (induction cs arbitrary: d) (simp_all add: commands_keep)

section \<open>What stays untouched\<close>

definition members_of :: "string \<Rightarrow> db \<Rightarrow> membership_row list" where
  "members_of i d = filter (\<lambda>m. mb_project m = i) (memberships d)"

definition untouched :: "string set \<Rightarrow> db \<Rightarrow> db \<Rightarrow> bool" where
  "untouched J d0 d \<longleftrightarrow> pj_id ` set (projects d0) \<subseteq> pj_id ` set (projects d) \<and> (\<forall>j\<in>J. members_of j d = members_of j d0)"

lemma untouched_refl [simp]: "untouched J d d"
  by (simp add: untouched_def)

lemma log_free_untouched [intro, simp]: "log_free (untouched J d0)"
  by (simp add: log_free_def untouched_def members_of_def)

lemma refresh_untouched:
  "yields (untouched J d0) (refresh_project_authorization_projection i now) (\<lambda>_. untouched J d0)"
proof (rule yieldsI)
  fix d r d' assume ok: "untouched J d0 d" and run: "refresh_project_authorization_projection i now d = (Inr r, d')"
  have "projects d' = projects d \<and> memberships d' = memberships d"
  proof (cases "get_capex_project d i")
    case None
    with run obtain d1 where "clear_project_authorization_projection i d = (Inr (), d1)" "d' = d1"
      by (auto simp: refresh_project_authorization_projection_def seq_unit seq_eq_Inr comp_apply)
    then show ?thesis using clear_Inr [of i d "()" d1] by simp
  next
    case (Some p)
    obtain fs as vs where "d' = d\<lparr>project_features := fs, project_authorizations := as, project_views := vs\<rparr>"
      using refreshed [OF run Some] by blast
    then show ?thesis by simp
  qed
  with ok show "untouched J d0 d'" by (simp add: untouched_def members_of_def)
qed

lemma membership_outside:
  assumes "i \<notin> J"
  shows "yields (untouched J d0) (create_project_membership j i tenant domain ty actor role state g gt now)
     (\<lambda>_. untouched J d0)"
proof (rule yieldsI)
  fix d u d'
  assume ok: "untouched J d0 d"
    and run: "create_project_membership j i tenant domain ty actor role state g gt now d = (Inr u, d')"
  from insert_membership_Inr(1) [OF run [unfolded create_project_membership_def]] ok assms show "untouched J d0 d'"
    by (auto simp: untouched_def members_of_def)
qed

lemma project_outside:
  "yields (\<lambda>d. d = d0) (create_capex_project i tenant domain k name state m who ty now)
     (\<lambda>_ d. i \<notin> pj_id ` set (projects d0) \<and> untouched (pj_id ` set (projects d0)) d0 d)"
proof (rule yieldsI)
  fix d u d' assume "d = d0" and run: "create_capex_project i tenant domain k name state m who ty now d = (Inr u, d')"
  with insert_project_Inr [OF run [unfolded create_capex_project_def]]
  show "i \<notin> pj_id ` set (projects d0) \<and> untouched (pj_id ` set (projects d0)) d0 d'"
    by (auto simp: untouched_def members_of_def)
qed

lemma create_outside:
  "yields (\<lambda>d. d = d0) (create_project_operation env uuid payload q receipt) (\<lambda>_. untouched (pj_id ` set (projects d0)) d0)"
proof (cases "np_id q \<in> pj_id ` set (projects d0)")
  case True
  show ?thesis
    unfolding create_project_operation_def Let_def
    by (rule yields_seq [OF project_outside]) (simp add: True yields_def)
next
  case False
  have created: "yields (\<lambda>d. d = d0) (create_capex_project (np_id q) tenant domain k name state m who ty now)
      (\<lambda>_. untouched (pj_id ` set (projects d0)) d0)" for tenant domain k name state m who ty now
    by (rule yields_post [OF project_outside]) simp
  show ?thesis
    unfolding create_project_operation_def Let_def
    by (rule yields_seq [OF created] yields_seq [OF membership_outside [OF False]] yields_emitting log_free_untouched
      yields_seq [OF refresh_untouched] yields_peek yields_found yields_ret | assumption)+
qed

lemma update_inside:
  assumes keeps_project: "\<And>r. mb_project (f r) = mb_project r"
    and here: "\<And>d. P d \<Longrightarrow> d = d0 \<and> capex_ok d \<and> m \<in> set (memberships d)" and m: "mb_id m = j" "mb_project m \<notin> J"
  shows "yields P (modify (\<lambda>d. d\<lparr>memberships := update_where (\<lambda>r. mb_id r = j) f (memberships d)\<rparr>)) (\<lambda>_. untouched J d0)"
proof (rule yieldsI)
  fix d u d' assume P: "P d" and "modify (\<lambda>d. d\<lparr>memberships := update_where (\<lambda>r. mb_id r = j) f (memberships d)\<rparr>) d = (Inr u, d')"
  then have d': "d' = d\<lparr>memberships := update_where (\<lambda>r. mb_id r = j) f (memberships d)\<rparr>" by (simp add: comp_apply)
  have d: "d = d0" "capex_ok d" "m \<in> set (memberships d)" using here [OF P] by blast+
  have "mb_project r = mb_project m" if "r \<in> set (memberships d)" "mb_id r = j" for r
    using memberships_unique(1) [of d r m] d that m(1) by (simp add: capex_ok_def)
  then have other: "mb_project r \<notin> J" if "r \<in> set (memberships d)" "mb_id r = j" for r using that m(2) by simp
  have "filter (\<lambda>r. mb_project r = i) (update_where (\<lambda>r. mb_id r = j) f rs) = filter (\<lambda>r. mb_project r = i) rs"
    if "i \<in> J" "set rs \<subseteq> set (memberships d)" for i rs
    using that(2) other \<open>i \<in> J\<close> by (induction rs) (auto simp: update_where_def keeps_project)
  then show "untouched J d0 d'" using d by (simp add: untouched_def members_of_def d')
qed

lemma grant_inside:
  "yields (\<lambda>d. d = d0 \<and> capex_ok d) (grant_membership_operation env payload p role j receipt)
     (\<lambda>_. untouched {i. i \<noteq> py_str (jget payload ''project_id'')} d0)"
proof -
  let ?i = "py_str (jget payload ''project_id'')"
  have new: "yields (\<lambda>d. (d = d0 \<and> capex_ok d) \<and> b d)
      (seq (create_project_membership j ?i tenant domain ty actor r ''active'' g gt now) (\<lambda>_. ret k))
      (\<lambda>_. untouched {i. i \<noteq> ?i} d0)" for tenant domain ty actor r g gt now b k
    by (rule yields_seq [OF yields_pre [OF membership_outside [of ?i "{i. i \<noteq> ?i}" d0]]])
      (simp, clarsimp, rule yields_ret, assumption)
  have update: "yields (\<lambda>d. (d = d0 \<and> capex_ok d) \<and> x = get_any_project_membership_for_actor d ?i ty actor)
      (seq (update_project_membership_grant (mb_id m) r ''active'' g gt now) (\<lambda>_. ret k))
      (\<lambda>_. untouched {i. i \<noteq> ?i} d0)" if x: "x = Some m" for x m ty actor r g gt now k
  proof (cases "mb_project m = ?i")
    case True
    have step: "yields (\<lambda>d. (d = d0 \<and> capex_ok d) \<and> x = get_any_project_membership_for_actor d ?i ty actor)
       (update_project_membership_grant (mb_id m) r ''active'' g gt now) (\<lambda>_. untouched {i. i \<noteq> ?i} d0)"
      unfolding update_project_membership_grant_def
    proof (rule update_inside [OF _ _ refl])
      fix d assume "(d = d0 \<and> capex_ok d) \<and> x = get_any_project_membership_for_actor d ?i ty actor"
      then show "d = d0 \<and> capex_ok d \<and> m \<in> set (memberships d)"
        using x by (auto simp: get_any_project_membership_for_actor_def dest: select_one_Some [OF sym])
    qed (simp_all add: True)
    show ?thesis by (rule yields_seq [OF step]) (rule yields_ret, assumption)
  next
    case False
    then have "x \<noteq> get_any_project_membership_for_actor d ?i ty actor" for d
      using x by (auto simp: get_any_project_membership_for_actor_def dest: select_one_Some [OF sym])
    then show ?thesis by (simp add: yields_def)
  qed
  have changed: "yields (\<lambda>d. (d = d0 \<and> capex_ok d) \<and> x = get_any_project_membership_for_actor d ?i ty actor)
      (case x of
          None \<Rightarrow>
            seq (create_project_membership j ?i (pj_tenant p) (pj_domain p) ty actor r ''active'' g gt now) (\<lambda>_. ret j)
        | Some m \<Rightarrow>
            if mb_state m = ''revoked''
            then seq (update_project_membership_grant (mb_id m) r ''active'' g gt now) (\<lambda>_. ret (mb_id m))
            else raise (CommandError ''duplicate_project_membership'')) (\<lambda>_. untouched {i. i \<noteq> ?i} d0)"
      for x ty actor r g gt now
  proof (cases x)
    case None
    then show ?thesis
      using new [of "\<lambda>d. x = get_any_project_membership_for_actor d ?i ty actor"] by simp
  next
    case (Some m)
    from update [OF this, of ty actor r g gt now "mb_id m"] show ?thesis
      by (cases "mb_state m = ''revoked''") (simp_all add: Some yields_raise)
  qed
  show ?thesis
    unfolding grant_membership_operation_def Let_def
    by (rule yields_asking yields_seq [OF changed] yields_emitting log_free_untouched yields_seq [OF refresh_untouched]
      yields_peek yields_found yields_ret | assumption)+
qed

lemma revoke_inside:
  "yields (\<lambda>d. d = d0 \<and> capex_ok d) (revoke_membership_operation env payload p receipt)
     (\<lambda>_. untouched {i. i \<noteq> py_str (jget payload ''project_id'')} d0)"
proof -
  let ?i = "py_str (jget payload ''project_id'')" and ?j = "py_str (jget payload ''project_membership_id'')"
  have revoked: "yields (\<lambda>d. (d = d0 \<and> capex_ok d) \<and> x = get_project_membership d ?j) (revoke_project_membership ?j now)
      (\<lambda>_. untouched {i. i \<noteq> ?i} d0)" if "x = Some m" "mb_project m = ?i" for x m now
  proof (cases "mb_id m = ?j")
    case True
    show ?thesis
      unfolding revoke_project_membership_def
    proof (rule update_inside [OF _ _ True])
      fix d assume "(d = d0 \<and> capex_ok d) \<and> x = get_project_membership d ?j"
      then show "d = d0 \<and> capex_ok d \<and> m \<in> set (memberships d)"
        using that(1) by (auto simp: get_project_membership_def dest: select_one_Some [OF sym])
    qed (simp_all add: that(2))
  next
    case False
    then have "x \<noteq> get_project_membership d ?j" for d
      using that(1) by (auto simp: get_project_membership_def dest: select_one_Some [OF sym])
    then show ?thesis by (simp add: yields_def)
  qed
  show ?thesis
    unfolding revoke_membership_operation_def Let_def
    by (rule yields_seq [OF revoked] yields_asking yields_check yields_emitting log_free_untouched
      yields_seq [OF refresh_untouched] yields_found yields_ret | assumption | simp; fail)+
qed


section \<open>Only admins change memberships\<close>

definition is_admin :: "db \<Rightarrow> string \<Rightarrow> string \<Rightarrow> string \<Rightarrow> bool" where
  "is_admin d project_id actor_type actor_id \<longleftrightarrow> (\<exists>m\<in>set (memberships d). mb_project m = project_id
     \<and> mb_actor_type m = actor_type \<and> mb_actor_id m = actor_id \<and> mb_state m = ''active'' \<and> mb_role m = ''project_admin'')"

lemma admin_rank: "project_role_rank (Some ''project_admin'') \<le> project_role_rank role \<longleftrightarrow> role = Some ''project_admin''"
  by (auto simp: project_role_rank_def project_role_ranks_def split: option.splits if_splits)

lemma admin_role:
  assumes "capex_ok d" "has_project_role d i ty actor ''project_admin''"
  shows "is_admin d i ty actor"
proof -
  have "role_for_project d i ty actor False = Some ''project_admin''"
    using assms(2) unfolding has_project_role_def admin_rank .
  then obtain m where m: "get_project_membership_for_actor d i ty actor = Some m" "mb_role m = ''project_admin''"
    unfolding role_is_membership [OF assms(1)] by auto
  then show ?thesis by (auto simp: is_admin_def get_project_membership_for_actor_def dest!: select_one_Some)
qed

lemma command_step:
  assumes ok: "capex_ok d" and j: "j \<in> pj_id ` set (projects d)"
    and not_admin: "\<not> is_admin d j (py_str (jget (command_payload c) ''actor_type'')) (py_str (jget (command_payload c) ''actor_id''))"
  shows "untouched {j} d (run_capex_command c d)"
proof -
  have "brings (\<lambda>x. x = d) (create_capex_project_command env uuid payload b) (untouched {j} d)" for env uuid payload b
  proof (intro create_brings log_free_untouched)
    fix q receipt
    show "yields (\<lambda>x. x = d) (create_project_operation env uuid payload q receipt) (\<lambda>_. untouched {j} d)"
      by (rule yields_post [OF create_outside]) (use j in \<open>auto simp: untouched_def\<close>)
  qed simp
  moreover have elsewhere: "py_str (jget (command_payload c) ''project_id'') \<noteq> j"
    if "require_project_admin d (command_payload c) = Inr p" for p
    using admin_role [OF ok admin_checked(3) [OF that]] not_admin unfolding admin_checked(2) [OF that] by blast
  moreover have "brings (\<lambda>x. x = d) (grant_project_membership_command env payload b) (untouched {j} d)"
    if c: "command_payload c = payload" for env payload b
  proof (intro grant_brings log_free_untouched)
    fix p role k receipt
    show "yields (\<lambda>x. x = d \<and> require_project_admin x payload = Inr p)
        (grant_membership_operation env payload p role k receipt) (\<lambda>_. untouched {j} d)"
    proof (cases "require_project_admin d payload = Inr p")
      case True
      with elsewhere c have "py_str (jget payload ''project_id'') \<noteq> j" by simp
      then show ?thesis
        by (intro yields_pre [OF yields_post [OF grant_inside]]) (use ok in \<open>auto simp: untouched_def\<close>)
    qed (simp add: yields_def)
  qed simp
  moreover have "brings (\<lambda>x. x = d) (revoke_project_membership_command env payload b) (untouched {j} d)"
    if c: "command_payload c = payload" for env payload b
  proof (intro revoke_brings log_free_untouched)
    fix p receipt
    show "yields (\<lambda>x. x = d \<and> require_project_admin x payload = Inr p)
        (revoke_membership_operation env payload p receipt) (\<lambda>_. untouched {j} d)"
    proof (cases "require_project_admin d payload = Inr p")
      case True
      with elsewhere c have "py_str (jget payload ''project_id'') \<noteq> j" by simp
      then show ?thesis
        by (intro yields_pre [OF yields_post [OF revoke_inside]]) (use ok in \<open>auto simp: untouched_def\<close>)
    qed (simp add: yields_def)
  qed simp
  ultimately show ?thesis
    by (cases c) (simp_all add: run_capex_command_def command_payload_def brings_def)
qed

lemma orphaned:
  assumes "capex_ok d" "j \<in> pj_id ` set (projects d)" "\<And>ty actor. \<not> is_admin d j ty actor"
  shows "members_of j (fold run_capex_command cs d) = members_of j d"
  using assms
proof (induction cs arbitrary: d)
  case (Cons c cs)
  let ?d = "run_capex_command c d"
  have step: "untouched {j} d ?d" using command_step [OF Cons.prems(1,2)] Cons.prems(3) by blast
  then have same: "members_of j ?d = members_of j d" by (simp add: untouched_def)
  have admin: "is_admin x j ty actor \<longleftrightarrow> (\<exists>m\<in>set (members_of j x). mb_actor_type m = ty \<and> mb_actor_id m = actor
      \<and> mb_state m = ''active'' \<and> mb_role m = ''project_admin'')" for x ty actor
    by (auto simp: is_admin_def members_of_def)
  have "\<not> is_admin ?d j ty actor" for ty actor
    using Cons.prems(3) [of ty actor] unfolding admin same .
  moreover have "j \<in> pj_id ` set (projects ?d)" using step Cons.prems(2) by (auto simp: untouched_def)
  ultimately have "members_of j (fold run_capex_command cs ?d) = members_of j ?d"
    by (intro Cons.IH commands_keep Cons.prems(1))
  with same show ?case by simp
qed simp

section \<open>Properties\<close>

text \<open>A project with one member, an admin, as its creation leaves it; \<open>state\<close> is that of the membership.\<close>

definition one_member :: "string \<Rightarrow> db" where
  "one_member state =
     (let p = \<lparr>pj_id = ''p'', pj_tenant = ''t'', pj_domain = ''d'', pj_key = ''k'', pj_name = ''n'', pj_state = ''active'',
           pj_metadata = [], pj_creator_id = ''ann'', pj_creator_type = ''human'', pj_created_at = ''2024'',
           pj_updated_at = ''2024''\<rparr>;
          m = \<lparr>mb_id = ''pm-1'', mb_project = ''p'', mb_tenant = ''t'', mb_domain = ''d'', mb_actor_type = ''human'',
           mb_actor_id = ''ann'', mb_role = ''project_admin'', mb_state = state, mb_granter_id = ''ann'',
           mb_granter_type = ''human'', mb_created_at = ''2024'', mb_updated_at = ''2024''\<rparr>;
          shown_members = (if state = ''active'' then [m] else [])
      in empty_db\<lparr>projects := [p], memberships := [m],
           project_authorizations := map (authorization_of p ''2024'') shown_members,
           project_views := map (view_of p ''2024'') shown_members\<rparr>)"

lemma one_member_ok: "capex_ok (one_member state)"
  by (auto simp: capex_ok_def projects_ok_def shown_def one_member_def Let_def list_project_memberships_def
    authorization_of_def view_of_def sort_dict_def empty_db_def)

lemma one_member_simps:
  "pj_id ` set (projects (one_member state)) = {''p''}"
  "is_admin (one_member state) i ty actor \<longleftrightarrow> i = ''p'' \<and> ty = ''human'' \<and> actor = ''ann'' \<and> state = ''active''"
  by (auto simp: one_member_def Let_def is_admin_def)

lemma member_found:
  "map_option mb_role (get_project_membership_for_actor (one_member ''active'') ''p'' ''human'' ''ann'') = Some ''project_admin''"
  by code_simp

definition stranger_request :: dict where
  "stranger_request = [(''actor_type'', JStr ''human''), (''actor_id'', JStr ''eve''), (''project_id'', JStr ''p''),
     (''project_membership_id'', JStr ''pm-1'')]"

text \<open>
  C10: The projected tables answer access questions as the memberships do: over any commands, if it holds at the
  start, the role the projection gives an actor on a project is that of the actor's active membership, and the
  projected list of an actor's projects is the one that joins projects and memberships.
\<close>

theorem projected_access_is_membership:
  assumes "capex_ok d"
  shows "role_for_project (fold run_capex_command cs d) i actor_type actor_id False =
      map_option mb_role (get_project_membership_for_actor (fold run_capex_command cs d) i actor_type actor_id)
    \<and> for_actor (fold run_capex_command cs d) tenant_id domain_id actor_type actor_id True =
      list_capex_projects_for_actor (fold run_capex_command cs d) tenant_id domain_id actor_type actor_id"
  using role_is_membership [OF runs_keep [OF assms, of cs]] projected_list [OF runs_keep [OF assms, of cs]] by blast

theorem projected_access_is_membership_witness:
  "role_for_project (one_member ''active'') ''p'' ''human'' ''ann'' False = Some ''project_admin''
   \<and> for_actor (one_member ''active'') ''t'' ''d'' ''human'' ''ann'' True =
     list_capex_projects_for_actor (one_member ''active'') ''t'' ''d'' ''human'' ''ann''"
  using projected_access_is_membership [OF one_member_ok, of "[]" "''active''" "''p''" "''human''" "''ann''" "''t''" "''d''"]
  by (simp add: member_found)

text \<open>
  C11: A command that changes the memberships of a project there is was issued by an actor with an active
  membership in it as its admin.
\<close>

theorem membership_changes_need_admin:
  assumes "capex_ok d" "j \<in> pj_id ` set (projects d)"
  shows "members_of j (run_capex_command c d) = members_of j d
    \<or> is_admin d j (py_str (jget (command_payload c) ''actor_type'')) (py_str (jget (command_payload c) ''actor_id''))"
  using command_step [OF assms, of c] by (auto simp: untouched_def)

theorem membership_changes_need_admin_witness:
  "\<forall>env. members_of ''p'' (snd (revoke_project_membership_command env stranger_request True (one_member ''active''))) =
     members_of ''p'' (one_member ''active'')"
proof
  fix env
  show "members_of ''p'' (snd (revoke_project_membership_command env stranger_request True (one_member ''active''))) =
     members_of ''p'' (one_member ''active'')"
    using membership_changes_need_admin [OF one_member_ok, of "''p''" "''active''"
        "Revoke_project_membership env stranger_request True"]
    by (simp add: one_member_simps run_capex_command_def command_payload_def stranger_request_def jget_def)
qed

text \<open>
  A project that has lost its admins never gets one again, and nothing changes its memberships any more, over
  any commands. Revoking does not guard against it: the last admin may revoke the own membership.
\<close>

lemma orphaned_project_stays_orphaned:
  assumes "capex_ok d" "j \<in> pj_id ` set (projects d)" "\<forall>actor_type actor_id. \<not> is_admin d j actor_type actor_id"
  shows "members_of j (fold run_capex_command cs d) = members_of j d"
  by (rule orphaned [OF assms(1,2)]) (use assms(3) in blast)

end
