(* ===== verification/Task_Commands.thy ===== *)
theory Task_Commands
  imports Capex_Projects Datetime Flags Human_Tasks
begin

text \<open>
  The commands that start and claim work: creating workflow runs and task runs and sweeping expired leases
  (\<open>src/onetruth/application/handlers/workflow_task_lifecycle.py\<close>), claiming a human task
  (\<open>src/onetruth/application/handlers/human_tasks.py\<close>).
\<close>

section \<open>Rows as the repositories return them\<close>

definition workflow_run_dict :: "run_row \<times> nat \<Rightarrow> dict" where
  "workflow_run_dict x = (case x of (r, active_issues) \<Rightarrow>
     [(''workflow_run_id'', JStr (wr_id r)), (''project_id'', of_opt (wr_project r)),
      (''workflow_id'', JStr (wr_workflow r)), (''workflow_version'', JStr (wr_version r)),
      (''tenant_id'', JStr (wr_tenant r)), (''domain_id'', JStr (wr_domain r)),
      (''partition_key'', JStr (wr_partition r)), (''logical_date'', of_opt (wr_logical_date r)),
      (''activation_key'', JStr (wr_activation r)), (''state'', JStr (wr_state r)),
      (''created_at'', JStr (wr_created_at r)), (''updated_at'', JStr (wr_updated_at r)),
      (''active_issue_count'', JInt (int active_issues))])"

definition task_run_dict :: "task_run_row \<Rightarrow> dict" where
  "task_run_dict r =
     [(''task_run_id'', JStr (tr_id r)), (''workflow_run_id'', JStr (tr_run r)), (''stage_id'', JStr (tr_stage r)),
      (''task_kind'', JStr (tr_kind r)), (''state'', JStr (tr_state r)), (''generation'', JInt (tr_generation r)),
      (''activation_key'', JStr (tr_activation r)), (''blocked_on_kind'', of_opt (tr_blocked_kind r)),
      (''blocked_on_ref'', of_opt (tr_blocked_ref r)), (''spawned_from_flag_id'', of_opt (tr_from_flag r)),
      (''spawned_from_task_run_id'', of_opt (tr_from_task_run r)), (''spawn_rule_id'', of_opt (tr_spawn_rule r)),
      (''spawn_cause_kind'', of_opt (tr_cause_kind r)), (''spawn_cause_event_id'', of_opt (tr_cause_event r)),
      (''spawn_depth'', JInt (tr_spawn_depth r)), (''spawn_budget_key'', of_opt (tr_budget_key r)),
      (''created_at'', JStr (tr_created_at r)), (''updated_at'', JStr (tr_updated_at r))]"

definition human_task_dict :: "human_task_row \<Rightarrow> dict" where
  "human_task_dict r =
     [(''human_task_id'', JStr (ht_id r)), (''workflow_run_id'', JStr (ht_run r)), (''task_run_id'', JStr (ht_task_run r)),
      (''task_kind'', JStr (ht_kind r)), (''state'', JStr (ht_state r)), (''candidate_roles'', str_list (ht_roles r)),
      (''owner_role'', of_opt (ht_owner_role r)), (''assignee_actor_id'', of_opt (ht_assignee_id r)),
      (''assignee_actor_type'', of_opt (ht_assignee_type r)), (''due_at'', of_opt (ht_due_at r)),
      (''escalation_at'', of_opt (ht_escalation_at r)), (''lease_version'', JInt (int (ht_lease_version r))),
      (''claimed_at'', of_opt (ht_claimed_at r)), (''claimed_until'', of_opt (ht_claimed_until r)),
      (''linked_approval_id'', of_opt (ht_approval r)), (''reopen_count'', JInt (int (ht_reopen_count r))),
      (''generation'', JInt (ht_generation r)), (''created_at'', JStr (ht_created_at r)),
      (''updated_at'', JStr (ht_updated_at r))]"

section \<open>Creating a workflow run\<close>

definition workflow_run_states :: "string list" where
  "workflow_run_states = [''OPEN'', ''COMPLETED'']"

definition task_run_states :: "string list" where
  "task_run_states = [''READY'', ''IN_PROGRESS'', ''COMPLETED'']"

definition human_task_states :: "string list" where
  "human_task_states = [''OPEN'', ''CLAIMED'', ''COMPLETED'']"

text \<open>A run of a project is created by a contributor of it.\<close>

definition run_project_allowed :: "db \<Rightarrow> dict \<Rightarrow> string option \<Rightarrow> unit result" where
  "run_project_allowed d payload project_id = (case project_id of
     None \<Rightarrow> Inr ()
   | Some i \<Rightarrow>
       rbind (require_fields payload [''actor_id'', ''actor_type'']) (\<lambda>_.
       rbind (require_project_access d i (py_str (jget payload ''tenant_id'')) (py_str (jget payload ''domain_id''))
         (py_str (jget payload ''actor_type'')) (py_str (jget payload ''actor_id'')) ''project_viewer''
         ''capex_project_not_found'') (\<lambda>p.
       require_project_membership_role d p (py_str (jget payload ''actor_type'')) (py_str (jget payload ''actor_id''))
         ''project_contributor'' ''capex_project_access_forbidden'')))"

definition create_workflow_run_operation ::
    "effect_env \<Rightarrow> dict \<Rightarrow> string \<Rightarrow> string option \<Rightarrow> string \<Rightarrow> receipt_context option \<Rightarrow> (dict, db) comp" where
  "create_workflow_run_operation env payload workflow_run_id project_id state receipt =
     (let workflow_id = py_str (jget payload ''workflow_id''); version = py_str (jget payload ''workflow_version'');
          tenant_id = py_str (jget payload ''tenant_id''); domain_id = py_str (jget payload ''domain_id'');
          partition_key = py_str (jget payload ''partition_key''); logical_date = opt_field payload ''logical_date'';
          activation_key = py_str (jget payload ''activation_key''); definition_id = workflow_id @ ''@'' @ version in
      seq (create_workflow_run workflow_run_id workflow_id version tenant_id domain_id partition_key logical_date
            activation_key state (fe_now env) project_id) (\<lambda>_.
      seq (emit env ''workflow.run.created'' tenant_id domain_id (str_field payload ''actor_type'' ''system'')
            (str_field payload ''actor_id'' ''system:runtime'')
            ([link ''workflow_run'' workflow_run_id,
              rel_link ''uses_definition'' ''workflow_contract_version'' definition_id,
              rel_link ''uses_decisions'' ''decision_catalog_version'' definition_id,
              rel_link ''uses_profile'' ''execution_profile_version'' definition_id] @
             (case project_id of None \<Rightarrow> [] | Some i \<Rightarrow> [rel_link ''project'' ''capex_project'' i]))
            [(''project_id'', of_opt project_id), (''workflow_id'', JStr workflow_id),
             (''partition_key'', JStr partition_key), (''activation_key'', JStr activation_key),
             (''logical_date'', of_opt logical_date)]
            (receipt_event_idempotency_key receipt ''runs.create.workflow.run.created'')) (\<lambda>_.
      seq (asks (\<lambda>d. get_workflow_run d workflow_run_id)) (\<lambda>created.
      seq (found_or (CommandError ''workflow_run_not_found'') created) (\<lambda>r. ret (workflow_run_dict r))))))"

definition create_workflow_run_error :: "exc \<Rightarrow> exc" where
  "create_workflow_run_error e = (case e of
     IntegrityError message \<Rightarrow>
       if contains ''workflow_runs.workflow_run_id'' message then CommandError ''duplicate_workflow_run_id''
       else CommandError ''duplicate_workflow_activation''
   | _ \<Rightarrow> e)"

definition create_workflow_run_command :: "effect_env \<Rightarrow> dict \<Rightarrow> bool \<Rightarrow> (dict, db) comp" where
  "create_workflow_run_command env payload include_receipt =
     seq (of_result (require_fields payload [''workflow_id'', ''workflow_version'', ''tenant_id'', ''domain_id'',
       ''partition_key'', ''activation_key''])) (\<lambda>_.
     let requested = jget payload ''workflow_run_id'';
         workflow_run_id = py_str (py_or requested (JStr (''wr-'' @ fe_uuid env)));
         state = str_field payload ''state'' ''OPEN'';
         project_id = opt_field payload ''project_id'' in
     seq (of_result (require (state \<in> set workflow_run_states) (CommandError ''invalid_workflow_state''))) (\<lambda>_.
     seq (\<lambda>d. (run_project_allowed d payload project_id, d)) (\<lambda>_.
     seq (of_result (prepare_command_receipt ''runs.create'' payload
       [(''workflow_run_id'', of_opt (opt_str requested)),
        (''workflow_id'', JStr (py_str (jget payload ''workflow_id''))),
        (''workflow_version'', JStr (py_str (jget payload ''workflow_version''))),
        (''tenant_id'', JStr (py_str (jget payload ''tenant_id''))),
        (''domain_id'', JStr (py_str (jget payload ''domain_id''))), (''project_id'', of_opt project_id),
        (''partition_key'', JStr (py_str (jget payload ''partition_key''))),
        (''logical_date'', of_opt (opt_field payload ''logical_date'')),
        (''activation_key'', JStr (py_str (jget payload ''activation_key''))), (''state'', JStr state),
        (''actor_id'', JStr (case opt_field payload ''actor_id'' of None \<Rightarrow> ''system:runtime'' | Some a \<Rightarrow> a)),
        (''actor_type'', JStr (str_field payload ''actor_type'' ''system''))]
       (Some (py_str (jget payload ''tenant_id''))) (Some (py_str (jget payload ''domain_id'')))
       (Some workflow_run_id) False)) (\<lambda>receipt.
     seq (handle (execute_with_command_receipt receipt
           (create_workflow_run_operation env payload workflow_run_id project_id state receipt))
         (\<lambda>e. raise (create_workflow_run_error e))) (\<lambda>outcome.
     ret (command_receipt_payload (fst outcome) receipt (snd outcome) include_receipt))))))"

section \<open>Creating a task run, with or without a human task\<close>

record task_request =
  tq_id :: string
  tq_state :: string
  tq_generation :: int
  tq_depth :: int
  tq_human :: bool
  tq_human_id :: string
  tq_human_state :: string
  tq_roles :: "string list"

definition spawned_from_flag :: "db \<Rightarrow> dict \<Rightarrow> unit result" where
  "spawned_from_flag d payload = (case opt_field payload ''spawned_from_flag_id'' of
     None \<Rightarrow> Inr ()
   | Some i \<Rightarrow> (case get_flag d i of
       None \<Rightarrow> Inl (CommandError ''flag_not_found'')
     | Some f \<Rightarrow> require (fl_run f = py_str (jget payload ''workflow_run_id''))
         (CommandError ''cross_workflow_flag_reference'')))"

definition create_requested_task_run :: "dict \<Rightarrow> task_request \<Rightarrow> string \<Rightarrow> (unit, db) comp" where
  "create_requested_task_run payload q now =
     create_task_run (tq_id q) (py_str (jget payload ''workflow_run_id'')) (py_str (jget payload ''stage_id''))
       (py_str (jget payload ''task_kind'')) (tq_state q) (tq_generation q) (py_str (jget payload ''activation_key''))
       (opt_field payload ''blocked_on_kind'') (opt_field payload ''blocked_on_ref'')
       (opt_field payload ''spawned_from_flag_id'') (opt_field payload ''spawned_from_task_run_id'')
       (opt_field payload ''spawn_rule_id'') (opt_field payload ''spawn_cause_kind'')
       (opt_field payload ''spawn_cause_event_id'') (tq_depth q) (opt_field payload ''spawn_budget_key'') now"

definition task_run_created :: "dict \<Rightarrow> task_request \<Rightarrow> dict" where
  "task_run_created payload q =
     [(''task_run_id'', JStr (tq_id q)), (''stage_id'', JStr (py_str (jget payload ''stage_id''))),
      (''task_kind'', JStr (py_str (jget payload ''task_kind''))),
      (''activation_key'', JStr (py_str (jget payload ''activation_key''))), (''generation'', JInt (tq_generation q)),
      (''spawned_from_flag_id'', of_opt (opt_field payload ''spawned_from_flag_id'')),
      (''spawned_from_task_run_id'', of_opt (opt_field payload ''spawned_from_task_run_id'')),
      (''spawn_rule_id'', of_opt (opt_field payload ''spawn_rule_id'')),
      (''spawn_cause_kind'', JStr (case opt_field payload ''spawn_cause_kind'' of None \<Rightarrow> ''none'' | Some k \<Rightarrow> k)),
      (''spawn_cause_event_id'', of_opt (opt_field payload ''spawn_cause_event_id'')),
      (''spawn_budget_key'', of_opt (opt_field payload ''spawn_budget_key'')), (''spawn_depth'', JInt (tq_depth q))]"

definition create_requested_human_task ::
    "effect_env \<Rightarrow> dict \<Rightarrow> task_request \<Rightarrow> run_row \<Rightarrow> receipt_context option \<Rightarrow> (unit, db) comp" where
  "create_requested_human_task env payload q run receipt =
     (let workflow_run_id = py_str (jget payload ''workflow_run_id''); task_kind = py_str (jget payload ''task_kind'') in
      if tq_human q then
        seq (create_human_task (tq_human_id q) workflow_run_id (tq_id q) task_kind (tq_human_state q) (tq_roles q)
              (opt_field payload ''owner_role'') (opt_field payload ''due_at'') (opt_field payload ''escalation_at'')
              (tq_generation q) (fe_now env)) (\<lambda>_.
        seq (emit env ''task.created'' (wr_tenant run) (wr_domain run) (str_field payload ''actor_type'' ''system'')
              (str_field payload ''actor_id'' ''system:runtime'')
              [link ''workflow_run'' workflow_run_id, link ''task_run'' (tq_id q), link ''human_task'' (tq_human_id q)]
              [(''human_task_id'', JStr (tq_human_id q)), (''task_kind'', JStr task_kind),
               (''state'', JStr (tq_human_state q)), (''candidate_roles'', str_list (tq_roles q))]
              (receipt_event_idempotency_key receipt ''tasks.create.task.created'')) (\<lambda>_. ret ()))
      else ret ())"

definition create_task_operation ::
    "effect_env \<Rightarrow> dict \<Rightarrow> task_request \<Rightarrow> receipt_context option \<Rightarrow> (dict, db) comp" where
  "create_task_operation env payload q receipt =
     (let workflow_run_id = py_str (jget payload ''workflow_run_id'') in
      seq (asks (\<lambda>d. get_workflow_run d workflow_run_id)) (\<lambda>found.
      seq (found_or (CommandError ''workflow_run_not_found'') found) (\<lambda>run.
      seq (\<lambda>d. (spawned_from_flag d payload, d)) (\<lambda>_.
      seq (create_requested_task_run payload q (fe_now env)) (\<lambda>_.
      seq (emit env ''task.run.created'' (wr_tenant (fst run)) (wr_domain (fst run))
            (str_field payload ''actor_type'' ''system'') (str_field payload ''actor_id'' ''system:runtime'')
            [link ''workflow_run'' workflow_run_id, link ''task_run'' (tq_id q)] (task_run_created payload q)
            (receipt_event_idempotency_key receipt ''tasks.create.task.run.created'')) (\<lambda>_.
      seq (create_requested_human_task env payload q (fst run) receipt) (\<lambda>_.
      seq (asks (\<lambda>d. get_task_run d (tq_id q))) (\<lambda>task_run.
      seq (asks (\<lambda>d. if tq_human q then get_human_task d (tq_human_id q) else None)) (\<lambda>human_task.
      seq (found_or (CommandError ''task_run_not_found'') task_run) (\<lambda>t.
      ret ((''task_run'', JObj (task_run_dict t)) #
        (case human_task of None \<Rightarrow> [] | Some h \<Rightarrow> [(''human_task'', JObj (human_task_dict h))]))))))))))))"

definition create_task_error :: "exc \<Rightarrow> exc" where
  "create_task_error e = (case e of
     IntegrityError message \<Rightarrow>
       if contains ''task_runs.workflow_run_id, task_runs.activation_key'' message
       then CommandError ''duplicate_task_activation''
       else if contains ''human_tasks.task_run_id'' message then CommandError ''duplicate_human_task'' else e
   | _ \<Rightarrow> e)"

text \<open>The uuid of the human task is drawn after the one of the task run.\<close>

definition create_task_run_command :: "effect_env \<Rightarrow> string \<Rightarrow> dict \<Rightarrow> bool \<Rightarrow> (dict, db) comp" where
  "create_task_run_command env human_uuid payload include_receipt =
     seq (of_result (require_fields payload [''workflow_run_id'', ''stage_id'', ''task_kind'', ''activation_key''])) (\<lambda>_.
     let workflow_run_id = py_str (jget payload ''workflow_run_id'');
         requested = jget payload ''task_run_id''; requested_human = jget payload ''human_task_id'';
         human = truthy (jget_default payload ''create_human_task'' (JBool False));
         state = str_field payload ''state'' ''READY'';
         candidates = jget_default payload ''candidate_roles'' (JArr []);
         human_state = str_field payload ''human_task_state'' ''OPEN'' in
     seq (of_result (require (state \<in> set task_run_states) (CommandError ''invalid_task_run_state''))) (\<lambda>_.
     seq (of_result (require (human \<longrightarrow> (case candidates of JArr _ \<Rightarrow> True | _ \<Rightarrow> False)) (CommandError ''invalid_candidate_roles''))) (\<lambda>_.
     seq (of_result (require (human \<longrightarrow> human_state \<in> set human_task_states)
       (CommandError ''invalid_human_task_state''))) (\<lambda>_.
     seq (of_result (py_iter candidates)) (\<lambda>items.
     seq (of_result (int_field payload ''generation'' 0)) (\<lambda>generation.
     seq (of_result (int_field payload ''spawn_depth'' 0)) (\<lambda>depth.
     let q = \<lparr>tq_id = py_str (py_or requested (JStr (''tr-'' @ fe_uuid env))), tq_state = state,
           tq_generation = generation, tq_depth = depth, tq_human = human,
           tq_human_id = py_str (py_or requested_human (JStr (''ht-'' @ human_uuid))), tq_human_state = human_state,
           tq_roles = map py_str items\<rparr> in
     seq (of_result (prepare_command_receipt ''tasks.create'' payload
       [(''workflow_run_id'', JStr workflow_run_id), (''task_run_id'', of_opt (opt_str requested)),
        (''stage_id'', JStr (py_str (jget payload ''stage_id''))),
        (''task_kind'', JStr (py_str (jget payload ''task_kind''))), (''state'', JStr state),
        (''activation_key'', JStr (py_str (jget payload ''activation_key''))), (''create_human_task'', JBool human),
        (''human_task_id'', if human then of_opt (opt_str requested_human) else JNull),
        (''human_task_state'', if human then JStr human_state else JNull),
        (''candidate_roles'', str_list (tq_roles q)), (''owner_role'', of_opt (opt_field payload ''owner_role'')),
        (''due_at'', of_opt (opt_field payload ''due_at'')),
        (''escalation_at'', of_opt (opt_field payload ''escalation_at'')), (''generation'', JInt generation),
        (''blocked_on_kind'', of_opt (opt_field payload ''blocked_on_kind'')),
        (''blocked_on_ref'', of_opt (opt_field payload ''blocked_on_ref'')),
        (''spawned_from_flag_id'', of_opt (opt_field payload ''spawned_from_flag_id'')),
        (''spawned_from_task_run_id'', of_opt (opt_field payload ''spawned_from_task_run_id'')),
        (''spawn_rule_id'', of_opt (opt_field payload ''spawn_rule_id'')),
        (''spawn_cause_kind'', of_opt (opt_field payload ''spawn_cause_kind'')),
        (''spawn_cause_event_id'', of_opt (opt_field payload ''spawn_cause_event_id'')),
        (''spawn_depth'', JInt depth), (''spawn_budget_key'', of_opt (opt_field payload ''spawn_budget_key'')),
        (''actor_id'', JStr (case opt_field payload ''actor_id'' of None \<Rightarrow> ''system:runtime'' | Some a \<Rightarrow> a)),
        (''actor_type'', JStr (str_field payload ''actor_type'' ''system''))]
       None None (Some workflow_run_id) False)) (\<lambda>receipt.
     seq (handle (execute_with_command_receipt receipt (create_task_operation env payload q receipt))
         (\<lambda>e. raise (create_task_error e))) (\<lambda>outcome.
     ret (command_receipt_payload (fst outcome) receipt (snd outcome) include_receipt))))))))))"

section \<open>Claiming a human task\<close>

text \<open>
  The expiry of the claim is computed from a reading of the clock of its own. The row of a task has no
  tenant and no domain, so the receipt has neither.
\<close>

definition claim_task_operation ::
    "effect_env \<Rightarrow> string \<Rightarrow> dict \<Rightarrow> int \<Rightarrow> receipt_context option \<Rightarrow> (dict, db) comp" where
  "claim_task_operation env lease_clock payload lease_seconds receipt =
     (let human_task_id = py_str (jget payload ''human_task_id''); actor_id = py_str (jget payload ''actor_id'');
          actor_type = py_str (jget payload ''actor_type''); now = fe_now env in
      seq (of_result (future_iso lease_clock lease_seconds)) (\<lambda>claimed_until.
      seq (claim_human_task human_task_id actor_id actor_type now claimed_until now) (\<lambda>claimed.
      case claimed of
        None \<Rightarrow>
          seq (asks (\<lambda>d. get_human_task d human_task_id)) (\<lambda>after_claim.
          seq (found_or (CommandError ''human_task_not_found'') after_claim) (\<lambda>_.
          raise (CommandError ''task_not_claimable'')))
      | Some h \<Rightarrow>
          seq (asks (\<lambda>d. get_task_run d (ht_task_run h))) (\<lambda>found.
          seq (found_or (CommandError ''task_run_not_found'') found) (\<lambda>t.
          seq (of_result (require (tr_state t \<noteq> ''COMPLETED'') (CommandError ''task_run_not_claimable''))) (\<lambda>_.
          let started = (tr_state t = ''READY'') in
          seq (if started then transition_task_run_state (tr_id t) ''READY'' ''IN_PROGRESS'' now else ret None) (\<lambda>_.
          seq (\<lambda>d. (workflow_scope d (ht_run h), d)) (\<lambda>scope.
          seq (emit env ''task.claimed'' (ws_tenant scope) (ws_domain scope) actor_type actor_id
                [link ''workflow_run'' (ht_run h), link ''task_run'' (ht_task_run h), link ''human_task'' (ht_id h)]
                [(''human_task_id'', JStr (ht_id h)), (''lease_version'', JInt (int (ht_lease_version h))),
                 (''claimed_until'', JStr (case ht_claimed_until h of None \<Rightarrow> ''None'' | Some until \<Rightarrow> until))]
                (receipt_event_idempotency_key receipt ''tasks.claim.task.claimed'')) (\<lambda>_.
          seq (if started then
                 seq (emit env ''task.run.state_changed'' (ws_tenant scope) (ws_domain scope) actor_type actor_id
                   [link ''workflow_run'' (ht_run h), link ''task_run'' (ht_task_run h)]
                   [(''task_run_id'', JStr (ht_task_run h)), (''from_state'', JStr (tr_state t)),
                    (''to_state'', JStr ''IN_PROGRESS''), (''reason'', JStr ''human_task_claimed'')]
                   (receipt_event_idempotency_key receipt ''tasks.claim.task.run.state_changed'')) (\<lambda>_. ret ())
               else ret ()) (\<lambda>_.
          seq (asks (\<lambda>d. get_human_task d human_task_id)) (\<lambda>claimed_now.
          seq (asks (\<lambda>d. get_task_run_for_human_task d human_task_id)) (\<lambda>run_now.
          ret [(''human_task'', case claimed_now of None \<Rightarrow> JNull | Some h' \<Rightarrow> JObj (human_task_dict h')),
               (''task_run'', case run_now of None \<Rightarrow> JNull | Some t' \<Rightarrow> JObj (task_run_dict t'))]))))))))))))"

definition claim_human_task_command :: "effect_env \<Rightarrow> string \<Rightarrow> dict \<Rightarrow> bool \<Rightarrow> (dict, db) comp" where
  "claim_human_task_command env lease_clock payload include_receipt =
     seq (of_result (require_fields payload
       [''human_task_id'', ''actor_id'', ''actor_type'', ''lease_seconds'', ''idempotency_key''])) (\<lambda>_.
     seq (of_result (assert_actor_type (py_str (jget payload ''actor_type'')))) (\<lambda>_.
     seq (of_result (py_int (jget payload ''lease_seconds''))) (\<lambda>lease_seconds.
     seq (of_result (require (0 < lease_seconds) (CommandError ''invalid_lease_seconds''))) (\<lambda>_.
     seq (asks (\<lambda>d. get_human_task d (py_str (jget payload ''human_task_id'')))) (\<lambda>found.
     seq (found_or (CommandError ''human_task_not_found'') found) (\<lambda>existing.
     seq (of_result (principal_from_payload payload True)) (\<lambda>principal.
     seq (of_result (require (\<not> decision_has_reason (claim_decision existing principal) ''candidate_role_mismatch'')
       (CommandError ''task_claim_forbidden''))) (\<lambda>_.
     seq (of_result (prepare_command_receipt ''tasks.claim'' payload
       [(''human_task_id'', JStr (py_str (jget payload ''human_task_id''))),
        (''actor_id'', JStr (py_str (jget payload ''actor_id''))),
        (''actor_type'', JStr (py_str (jget payload ''actor_type''))),
        (''actor_roles'', str_list (sort (remdups (pr_actor_roles principal)))), (''lease_seconds'', JInt lease_seconds)]
       None None (Some (ht_run existing)) True)) (\<lambda>receipt.
     seq (execute_with_command_receipt receipt (claim_task_operation env lease_clock payload lease_seconds receipt))
       (\<lambda>outcome.
     ret (command_receipt_payload (fst outcome) receipt (snd outcome) include_receipt)))))))))))"

section \<open>Sweeping expired leases\<close>

definition lease_sweeper :: string where
  "lease_sweeper = ''system:lease-sweeper''"

text \<open>One expired task; \<open>None\<close> when the loop goes on to the next (\<open>continue\<close>).\<close>

definition sweep_task :: "effect_env \<Rightarrow> string \<Rightarrow> human_task_row \<Rightarrow> (dict option, db) comp" where
  "sweep_task env now task =
     seq (reopen_human_task_after_lease_expiry (ht_id task) (ht_lease_version task) now) (\<lambda>reopened.
     case reopened of
       None \<Rightarrow> ret None
     | Some _ \<Rightarrow>
         seq (asks (\<lambda>d. get_task_run d (ht_task_run task))) (\<lambda>found.
         case found of
           None \<Rightarrow> ret None
         | Some t \<Rightarrow>
             seq (\<lambda>d. (workflow_scope d (ht_run task), d)) (\<lambda>scope.
             seq (emit env ''task.lease_expired'' (ws_tenant scope) (ws_domain scope) ''system'' lease_sweeper
                   [link ''workflow_run'' (ht_run task), link ''task_run'' (ht_task_run task),
                    link ''human_task'' (ht_id task)]
                   [(''human_task_id'', JStr (ht_id task)), (''lease_version'', JInt (int (ht_lease_version task))),
                    (''expiry_kind'', JStr ''claim_timeout''), (''reopened'', JBool True), (''escalated'', JBool False)]
                   None) (\<lambda>_.
             seq (if tr_state t = ''IN_PROGRESS'' then
                    seq (transition_task_run_state (tr_id t) ''IN_PROGRESS'' ''READY'' now) (\<lambda>_.
                    seq (emit env ''task.run.state_changed'' (ws_tenant scope) (ws_domain scope) ''system'' lease_sweeper
                      [link ''workflow_run'' (ht_run task), link ''task_run'' (ht_task_run task)]
                      [(''task_run_id'', JStr (ht_task_run task)), (''from_state'', JStr ''IN_PROGRESS''),
                       (''to_state'', JStr ''READY''), (''reason'', JStr ''human_task_lease_expired'')] None) (\<lambda>_. ret ()))
                  else ret ()) (\<lambda>_.
             ret (Some [(''human_task_id'', JStr (ht_id task)), (''task_run_id'', JStr (ht_task_run task)),
               (''workflow_run_id'', JStr (ht_run task)), (''lease_version'', JInt (int (ht_lease_version task)))]))))))"

definition sweep_now :: "effect_env \<Rightarrow> dict \<Rightarrow> string" where
  "sweep_now env payload = py_str (py_or (jget payload ''now'') (JStr (fe_now env)))"

definition sweep_leases_body :: "effect_env \<Rightarrow> dict \<Rightarrow> (dict, db) comp" where
  "sweep_leases_body env payload =
     (let now = sweep_now env payload in
      seq (asks (\<lambda>d. list_expired_claimed_human_tasks d now (opt_field payload ''workflow_run_id''))) (\<lambda>expired.
      seq (map_each (sweep_task env now) expired) (\<lambda>results.
      let processed = List.map_filter id results in
      ret [(''now'', JStr now), (''processed_count'', JInt (int (length processed))),
           (''reopened_human_task_ids'', JArr (map (\<lambda>p. jget p ''human_task_id'') processed)),
           (''processed'', JArr (map JObj processed))])))"

text \<open>The command on a connection without an open transaction: all of it, or nothing on an error.\<close>

definition sweep_leases_command :: "effect_env \<Rightarrow> dict \<Rightarrow> (dict, db) comp" where
  "sweep_leases_command env payload = atomically (sweep_leases_body env payload)"

end
