(* ===== verification/Task_Steps.thy ===== *)
theory Task_Steps
  imports Task_Commands
begin

text \<open>
  A human task and its task run stay in step: open and ready, claimed and in progress, completed and completed.
  The first section is the invariant with a hole, a human task whose task run has not followed yet.
\<close>

section \<open>In step\<close>

definition paired :: "string \<Rightarrow> string \<Rightarrow> bool" where
  "paired human run \<longleftrightarrow> (human, run) \<in> {(''OPEN'', ''READY''), (''CLAIMED'', ''IN_PROGRESS''), (''COMPLETED'', ''COMPLETED'')}"

definition task_key :: "human_task_row \<Rightarrow> string \<times> string \<times> string" where
  "task_key h = (ht_id h, ht_task_run h, ht_run h)"

definition in_step_but :: "(string \<times> string \<times> string) list \<Rightarrow> string option \<Rightarrow> db \<Rightarrow> bool" where
  "in_step_but ks i d \<longleftrightarrow> map task_key (human_tasks d) = ks \<and> distinct (map fst ks) \<and> distinct (map (fst \<circ> snd) ks)
     \<and> distinct (map tr_id (task_runs d))
     \<and> (\<forall>h\<in>set (human_tasks d). \<exists>t\<in>set (task_runs d). tr_id t = ht_task_run h \<and> tr_run t = ht_run h
          \<and> (Some (ht_id h) \<noteq> i \<longrightarrow> paired (ht_state h) (tr_state t)))"

definition in_step :: "db \<Rightarrow> bool" where
  "in_step d \<longleftrightarrow> in_step_but (map task_key (human_tasks d)) None d"

lemma log_free_in_step [intro, simp]: "log_free (in_step_but ks i)" "log_free in_step"
  by (simp_all add: log_free_def in_step_but_def in_step_def)

lemma in_step_keys: "in_step_but ks None d \<Longrightarrow> in_step d"
  by (auto simp: in_step_def in_step_but_def)

lemma in_step_ids:
  assumes "in_step_but ks i d"
  shows "distinct (map ht_id (human_tasks d))" "distinct (map ht_task_run (human_tasks d))"
  using assms by (auto simp: in_step_but_def task_key_def comp_def)

text \<open>A human task that has moved from a state paired with \<open>old\<close> to the state \<open>new\<close>, its task run still in \<open>old\<close>.\<close>

definition ahead :: "(string \<times> string \<times> string) list \<Rightarrow> string \<Rightarrow> string \<Rightarrow> string \<Rightarrow> human_task_row \<Rightarrow> db \<Rightarrow> bool" where
  "ahead ks old new i h d \<longleftrightarrow> in_step_but ks (Some i) d \<and> h \<in> set (human_tasks d) \<and> ht_id h = i \<and> ht_state h = new
     \<and> (\<exists>t. get_task_run d (ht_task_run h) = Some t \<and> tr_id t = ht_task_run h \<and> tr_state t = old)"

lemma log_free_ahead [intro, simp]: "log_free (ahead ks old new i h)"
  by (simp add: log_free_def in_step_but_def ahead_def get_task_run_def)

lemma human_task_moves:
  assumes keeps_key: "\<And>r. task_key (f r) = task_key r" and new: "\<And>r. ht_state (f r) = new"
    and guard: "\<And>r. q r \<Longrightarrow> ht_state r = before" and before: "\<And>y. paired before y \<Longrightarrow> y = old"
  shows "yields (in_step_but ks None)
     (update_one human_tasks (\<lambda>rs d. d\<lparr>human_tasks := rs\<rparr>) (\<lambda>r. ht_id r = i \<and> q r) f (\<lambda>d. get_human_task d i))
     (\<lambda>res d. case res of None \<Rightarrow> in_step_but ks None d | Some h \<Rightarrow> ahead ks old new i h d)"
proof (rule yieldsI)
  fix d res d' assume ok: "in_step_but ks None d"
    and run: "update_one human_tasks (\<lambda>rs d. d\<lparr>human_tasks := rs\<rparr>) (\<lambda>r. ht_id r = i \<and> q r) f (\<lambda>d. get_human_task d i) d
      = (Inr res, d')"
  have id: "ht_id (f r) = ht_id r" and same: "ht_task_run (f r) = ht_task_run r" "ht_run (f r) = ht_run r" for r
    using keeps_key [of r] by (simp_all add: task_key_def)
  show "case res of None \<Rightarrow> in_step_but ks None d' | Some h \<Rightarrow> ahead ks old new i h d'"
  proof (cases rule: human_task_table.outcome [where f = f and q = q, OF run [unfolded get_human_task_def] in_step_ids(1) [OF ok] id])
    case 1
    with ok show ?thesis by simp
  next
    case (2 r)
    have r: "r \<in> set (human_tasks d)" "ht_id r = i" using select_one_Some [OF 2(2)] by auto
    have fr: "f r \<in> set (human_tasks d')" using r 2(3,4) by (auto simp: set_update_where)
    have "\<exists>t\<in>set (task_runs d). tr_id t = ht_task_run h \<and> tr_run t = ht_run h
        \<and> (ht_id h \<noteq> i \<longrightarrow> paired (ht_state h) (tr_state t))" if h: "h \<in> set (human_tasks d')" for h
    proof -
      obtain k where k: "k \<in> set (human_tasks d)" "h = k \<or> h = f k \<and> ht_id k = i"
        using h 2(4) by (auto simp: set_update_where)
      obtain t where "t \<in> set (task_runs d)" "tr_id t = ht_task_run k" "tr_run t = ht_run k" "paired (ht_state k) (tr_state t)"
        using ok k(1) unfolding in_step_but_def by auto
      with k(2) show ?thesis by (intro bexI [of _ t]) (auto simp: id same)
    qed
    then have step: "in_step_but ks (Some i) d'"
      using ok unfolding in_step_but_def 2(4) by (simp add: map_update_where keeps_key)
    obtain t where t: "t \<in> set (task_runs d)" "tr_id t = ht_task_run r" "paired (ht_state r) (tr_state t)"
      using ok r unfolding in_step_but_def by auto
    then have "tr_state t = old" using guard [OF 2(3)] before by simp
    moreover have "get_task_run d' (ht_task_run r) = Some t"
      using ok select_of_key [of tr_id "task_runs d" t] t 2(4) by (simp add: get_task_run_def in_step_but_def)
    ultimately have "ahead ks old new i (f r) d'"
      using step fr new [of r] id [of r] r(2) t(2) by (simp add: ahead_def same)
    with 2(1) show ?thesis by simp
  qed
qed

lemma task_run_follows:
  assumes pair: "paired new follow"
  shows "yields (ahead ks old new i h) (transition_task_run_state (ht_task_run h) old follow now) (\<lambda>_. in_step_but ks None)"
proof (rule yieldsI)
  fix d u d' assume ahead: "ahead ks old new i h d"
    and run: "transition_task_run_state (ht_task_run h) old follow now d = (Inr u, d')"
  let ?f = "\<lambda>r. r\<lparr>tr_state := follow, tr_updated_at := now\<rparr>" and ?hit = "\<lambda>r. tr_id r = ht_task_run h \<and> tr_state r = old"
  have d': "d' = d\<lparr>task_runs := update_where ?hit ?f (task_runs d)\<rparr>"
    using run ahead by (auto simp: ahead_def transition_task_run_state_def Let_def)
  have step: "in_step_but ks (Some i) d" and h: "h \<in> set (human_tasks d)" "ht_id h = i" "ht_state h = new"
    using ahead by (simp_all add: ahead_def)
  obtain t where t: "t \<in> set (task_runs d)" "tr_id t = ht_task_run h" "tr_state t = old"
    using ahead by (auto simp: ahead_def get_task_run_def dest: select_one_Some)
  have "\<exists>x\<in>set (task_runs d'). tr_id x = ht_task_run k \<and> tr_run x = ht_run k \<and> paired (ht_state k) (tr_state x)"
    if k: "k \<in> set (human_tasks d)" for k
  proof -
    obtain x where x: "x \<in> set (task_runs d)" "tr_id x = ht_task_run k" "tr_run x = ht_run k"
      "Some (ht_id k) \<noteq> Some i \<longrightarrow> paired (ht_state k) (tr_state x)"
      using step k unfolding in_step_but_def by blast
    show ?thesis
    proof (cases "ht_task_run k = ht_task_run h")
      case True
      then have "k = h" using in_step_ids(2) [OF step] k h(1) by (auto simp: distinct_map inj_on_def)
      moreover have "x = t" using step x t \<open>k = h\<close> by (auto simp: in_step_but_def distinct_map inj_on_def)
      ultimately show ?thesis using x t h pair by (intro bexI [of _ "?f t"]) (auto simp: d' set_update_where)
    next
      case False
      then have "k \<noteq> h" by auto
      then have "ht_id k \<noteq> i" using in_step_ids(1) [OF step] k h(1,2) by (auto simp: distinct_map inj_on_def)
      with x False show ?thesis by (intro bexI [of _ x]) (auto simp: d' set_update_where)
    qed
  qed
  then show "in_step_but ks None d'"
    using step unfolding in_step_but_def d' by (simp add: map_update_where)
qed

section \<open>The operations\<close>

lemma yields_look: "(\<And>x. yields P (f x) Q) \<Longrightarrow> yields P (seq (\<lambda>s. (g s, s)) f) Q"
  by (auto simp: yields_def seq_eq_Inr)

lemma brings_look: "(\<And>s. P s \<Longrightarrow> Q s) \<Longrightarrow> (\<And>x. brings P (f x) Q) \<Longrightarrow> brings P (seq (\<lambda>s. (g s, s)) f) Q"
  unfolding brings_def seq_def by (auto split: sum.split)

lemma brings_found:
  "(\<And>s. P s \<Longrightarrow> Q s) \<Longrightarrow> (\<And>x. y = Some x \<Longrightarrow> brings P (f x) Q) \<Longrightarrow> brings P (seq (found_or e y) f) Q"
  by (cases y) (auto simp: brings_def found_or_def seq_unit comp_apply seq_def)

lemma yields_maybe_emit:
  "log_free P \<Longrightarrow> yields P (if b then seq (emit env ty tenant domain at who links p k) (\<lambda>_. ret ()) else ret ()) (\<lambda>_. P)"
  by (intro yields_if yields_emitting yields_ret)

lemma claim_moves:
  "yields (in_step_but ks None) (claim_human_task i actor ty since until now)
     (\<lambda>res d. case res of None \<Rightarrow> in_step_but ks None d | Some h \<Rightarrow> ahead ks ''READY'' ''CLAIMED'' i h d)"
  unfolding claim_human_task_def
  by (rule human_task_moves [where q = "\<lambda>r. ht_state r = ''OPEN''"])
    (auto simp: task_key_def claimed_row_def paired_def)

lemma reopen_moves:
  "yields (in_step_but ks None) (reopen_human_task_after_lease_expiry i v now)
     (\<lambda>res d. case res of None \<Rightarrow> in_step_but ks None d | Some h \<Rightarrow> ahead ks ''IN_PROGRESS'' ''OPEN'' i h d)"
  unfolding reopen_human_task_after_lease_expiry_def
  by (rule human_task_moves [where q = "\<lambda>r. ht_state r = ''CLAIMED'' \<and> ht_lease_version r = v"])
    (auto simp: task_key_def reopened_row_def paired_def)

lemma ahead_run:
  "ahead ks old new i h d \<Longrightarrow> get_task_run d (ht_task_run h) = Some t \<Longrightarrow> tr_state t = old \<and> tr_id t = ht_task_run h"
  by (auto simp: ahead_def)

lemma claim_in_step: "yields in_step (claim_task_operation env clock payload n receipt) (\<lambda>_. in_step)"
proof -
  have "yields (in_step_but ks None) (claim_task_operation env clock payload n receipt) (\<lambda>_. in_step_but ks None)" for ks
  proof -
    let ?i = "py_str (jget payload ''human_task_id'')"
    have rest: "yields (\<lambda>d. (case res of None \<Rightarrow> in_step_but ks None d | Some h \<Rightarrow> ahead ks ''READY'' ''CLAIMED'' ?i h d)
          \<and> found = get_task_run d (ht_task_run h))
        (if tr_state t = ''READY'' then transition_task_run_state (tr_id t) ''READY'' ''IN_PROGRESS'' now else ret None)
        (\<lambda>_. in_step_but ks None)" if "res = Some h" "found = Some t" for res h found t now
    proof (cases "tr_state t = ''READY'' \<and> tr_id t = ht_task_run h")
      case True
      with that show ?thesis
        by (auto intro!: yields_pre [OF task_run_follows] simp: paired_def)
    next
      case False
      have "\<not> (ahead ks ''READY'' ''CLAIMED'' ?i h d \<and> found = get_task_run d (ht_task_run h))" for d
        using ahead_run [of ks "''READY''" "''CLAIMED''" ?i h d t] False that by auto
      then show ?thesis unfolding yields_def that(1) option.case by blast
    qed
    show ?thesis
      unfolding claim_task_operation_def Let_def
      by (rule yields_check yields_seq [OF claim_moves] yields_seq [OF rest] yields_seq [OF yields_maybe_emit] yields_option
          yields_look yields_emitting log_free_in_step yields_asking yields_found yields_raise yields_ret
          | assumption | simp; fail)+
  qed
  then show ?thesis unfolding in_step_def yields_def by (metis in_step_but_def)
qed

text \<open>The sweep goes through a list read before; the keys of the rows in it do not change.\<close>

lemma sweep_task_in_step:
  assumes key: "task_key task \<in> set ks"
  shows "yields (in_step_but ks None) (sweep_task env now task) (\<lambda>_. in_step_but ks None)"
proof -
  let ?ahead = "ahead ks ''IN_PROGRESS'' ''OPEN'' (ht_id task)"
  let ?s = "\<lambda>res found d. (case res of None \<Rightarrow> in_step_but ks None d | Some h \<Rightarrow> ?ahead h d)
      \<and> found = get_task_run d (ht_task_run task)"
  have same: "ht_task_run h = ht_task_run task" if "?ahead h d" for h d
  proof -
    have "map task_key (human_tasks d) = ks" "h \<in> set (human_tasks d)" "distinct (map fst ks)" "ht_id h = ht_id task"
      using that by (simp_all add: ahead_def in_step_but_def)
    then have "task_key h \<in> set ks" "distinct (map fst ks)" "fst (task_key h) = fst (task_key task)"
      using image_eqI [of "task_key h" task_key h "set (human_tasks d)"] by (auto simp: task_key_def simp del: image_eqI)
    with key have "task_key h = task_key task" by (auto simp: distinct_map inj_on_def)
    then show ?thesis by (simp add: task_key_def)
  qed
  have rest: "yields (?s res found)
        (if tr_state t = ''IN_PROGRESS'' then
           seq (transition_task_run_state (tr_id t) ''IN_PROGRESS'' ''READY'' now') (\<lambda>_. seq (emit env ty tenant domain at who links p k) (\<lambda>_. ret ()))
         else ret ()) (\<lambda>_. in_step_but ks None)"
      if "res = Some h" "found = Some t" for res h found t now' ty tenant domain at who links p k
  proof (cases "tr_state t = ''IN_PROGRESS'' \<and> tr_id t = ht_task_run h")
    case True
    have "yields (?s res found) (transition_task_run_state (tr_id t) ''IN_PROGRESS'' ''READY'' now') (\<lambda>_. in_step_but ks None)"
      using True that by (auto intro!: yields_pre [OF task_run_follows] simp: paired_def)
    then have "yields (?s res found)
        (seq (transition_task_run_state (tr_id t) ''IN_PROGRESS'' ''READY'' now') (\<lambda>_. seq (emit env ty tenant domain at who links p k) (\<lambda>_. ret ())))
        (\<lambda>_. in_step_but ks None)"
      by (rule yields_seq) (intro yields_emitting log_free_in_step yields_ret, assumption)
    then show ?thesis using True by simp
  next
    case False
    have "\<not> (?ahead h d \<and> found = get_task_run d (ht_task_run task))" for d
      using ahead_run [of ks "''IN_PROGRESS''" "''OPEN''" "ht_id task" h d t] same [of h d] False that(2) by auto
    then show ?thesis unfolding yields_def that(1) option.case by blast
  qed
  have none: "yields (?s res found) (ret None) (\<lambda>_. in_step_but ks None)" if "res = Some h" "found = None" for res h found
  proof (rule yields_ret)
    fix d assume "?s res found d"
    then have h: "?ahead h d" and missing: "get_task_run d (ht_task_run task) = None" using that by simp_all
    from h obtain t where "get_task_run d (ht_task_run h) = Some t" unfolding ahead_def by blast
    with missing show "in_step_but ks None d" unfolding same [OF h] by simp
  qed
  have log: "log_free (?s res found)" for res found
    by (cases res) (simp_all add: log_free_def in_step_but_def ahead_def get_task_run_def)
  show ?thesis
    unfolding sweep_task_def
    by (rule yields_seq [OF reopen_moves] none yields_seq [OF rest] yields_option yields_asking yields_emitting log
        yields_look yields_ret | assumption | simp; fail)+
qed

lemma yields_with_integers: "yields P m Q \<Longrightarrow> yields P (with_integers ns m) Q"
proof (rule yieldsI)
  fix s x s' assume "yields P m Q" "P s" "with_integers ns m s = (Inr x, s')"
  then show "Q x s'" by (cases rule: with_integers_cases [of ns m s]) (auto simp: yields_def)
qed

text \<open>A task run in the given state that no human task belongs to yet.\<close>

definition unattended :: "string \<Rightarrow> string \<Rightarrow> string \<Rightarrow> db \<Rightarrow> bool" where
  "unattended i run state d \<longleftrightarrow> i \<notin> ht_task_run ` set (human_tasks d)
     \<and> (\<exists>t\<in>set (task_runs d). tr_id t = i \<and> tr_run t = run \<and> tr_state t = state)"

lemma log_free_unattended: "log_free (\<lambda>d. in_step_but ks None d \<and> unattended i run state d)"
  by (simp add: log_free_def in_step_but_def unattended_def)

lemma insert_task_run_Inr:
  assumes "insert_task_run r d = (Inr u, d')"
  shows "d' = d\<lparr>task_runs := task_runs d @ [r]\<rparr>" "tr_id r \<notin> tr_id ` set (task_runs d)"
  using assms by (auto simp: insert_task_run_def comp_apply split: if_splits)

lemma insert_human_task_Inr:
  assumes "insert_human_task r d = (Inr u, d')"
  shows "d' = d\<lparr>human_tasks := human_tasks d @ [r]\<rparr>" "ht_id r \<notin> ht_id ` set (human_tasks d)"
    "ht_task_run r \<notin> ht_task_run ` set (human_tasks d)"
  using assms by (auto simp: insert_human_task_def comp_apply split: if_splits)

lemma task_run_inserted:
  "yields (in_step_but ks None) (insert_task_run r) (\<lambda>_ d. in_step_but ks None d \<and> unattended (tr_id r) (tr_run r) (tr_state r) d)"
proof (rule yieldsI)
  fix d u d' assume ok: "in_step_but ks None d" and run: "insert_task_run r d = (Inr u, d')"
  note d' = insert_task_run_Inr [OF run]
  have "tr_id r \<notin> ht_task_run ` set (human_tasks d)"
  proof
    assume "tr_id r \<in> ht_task_run ` set (human_tasks d)"
    then obtain h where "h \<in> set (human_tasks d)" "ht_task_run h = tr_id r" by auto
    then obtain t where "t \<in> set (task_runs d)" "tr_id t = tr_id r" using ok unfolding in_step_but_def by metis
    with d'(2) show False by (metis imageI)
  qed
  moreover have "in_step_but ks None d'" using ok d'(2) unfolding in_step_but_def d'(1) by auto
  ultimately show "in_step_but ks None d' \<and> unattended (tr_id r) (tr_run r) (tr_state r) d'"
    by (simp add: unattended_def d'(1))
qed

lemma human_task_inserted:
  assumes pair: "paired (ht_state r) state"
  shows "yields (\<lambda>d. in_step_but ks None d \<and> unattended (ht_task_run r) (ht_run r) state d) (insert_human_task r) (\<lambda>_. in_step)"
proof (rule yieldsI)
  fix d u d' assume ok: "in_step_but ks None d \<and> unattended (ht_task_run r) (ht_run r) state d"
    and run: "insert_human_task r d = (Inr u, d')"
  note d' = insert_human_task_Inr [OF run]
  have new: "fst (task_key r) \<notin> set (map fst ks)" "fst (snd (task_key r)) \<notin> set (map (fst \<circ> snd) ks)"
    using ok d'(2,3) by (auto simp: in_step_but_def task_key_def image_image)
  have "in_step_but (ks @ [task_key r]) None d'"
    using ok new pair unfolding in_step_but_def unattended_def d'(1) by auto
  then show "in_step d'" by (rule in_step_keys)
qed

lemma create_in_step:
  assumes pair: "tq_human q \<Longrightarrow> paired (tq_human_state q) (tq_state q)"
  shows "yields in_step (create_task_operation env payload q receipt) (\<lambda>_. in_step)"
proof -
  let ?run = "py_str (jget payload ''workflow_run_id'')"
  have run: "yields (in_step_but ks None) (create_requested_task_run payload q now)
      (\<lambda>_ d. in_step_but ks None d \<and> unattended (tq_id q) ?run (tq_state q) d)" for ks now
    unfolding create_requested_task_run_def create_task_run_def
    by (rule yields_with_integers, rule yields_post [OF task_run_inserted]) simp
  have human: "yields (\<lambda>d. in_step_but ks None d \<and> unattended (tq_id q) ?run (tq_state q) d)
      (create_requested_human_task env payload q r receipt) (\<lambda>_. in_step)" for ks r
  proof (cases "tq_human q")
    case True
    have "yields (\<lambda>d. in_step_but ks None d \<and> unattended (tq_id q) ?run (tq_state q) d)
        (create_human_task i ?run (tq_id q) k (tq_human_state q) roles owner due esc g now) (\<lambda>_. in_step)"
        for i k roles owner due esc g now
      unfolding create_human_task_def
      by (rule yields_with_integers, rule yields_pre [OF human_task_inserted]) (use pair [OF True] in auto)
    then show ?thesis
      unfolding create_requested_human_task_def Let_def using True
      by (auto intro!: yields_seq [where R = "\<lambda>_. in_step"] yields_emitting yields_ret)
  next
    case False
    then show ?thesis
      unfolding create_requested_human_task_def Let_def by (auto intro!: yields_ret in_step_keys)
  qed
  have "yields (in_step_but ks None) (create_task_operation env payload q receipt) (\<lambda>_. in_step)" for ks
    unfolding create_task_operation_def Let_def
    by (rule yields_peek yields_found yields_look yields_seq [OF run] yields_emitting log_free_unattended
        yields_seq [OF human] yields_ret | assumption)+
  then show ?thesis unfolding in_step_def yields_def by blast
qed

lemma expired_task: "t \<in> set (list_expired_claimed_human_tasks d now w) \<Longrightarrow> t \<in> set (human_tasks d) \<and> ht_claimed_until t \<noteq> None"
  by (auto simp: list_expired_claimed_human_tasks_def split: option.splits)

lemma sweep_in_step: "yields in_step (sweep_leases_body env payload) (\<lambda>_. in_step)"
proof -
  have "yields (in_step_but ks None) (sweep_leases_body env payload) (\<lambda>_. in_step)" for ks
    unfolding sweep_leases_body_def Let_def
  proof (rule yields_asking)
    fix x let ?x = "\<lambda>d. list_expired_claimed_human_tasks d (sweep_now env payload) (opt_field payload ''workflow_run_id'')"
    have "yields (\<lambda>d. in_step_but ks None d \<and> x = ?x d) (map_each (sweep_task env (sweep_now env payload)) x)
        (\<lambda>_. in_step_but ks None)"
    proof (cases "set (map task_key x) \<subseteq> set ks")
      case True
      then show ?thesis
        by (intro yields_pre [OF yields_each [OF sweep_task_in_step]]) auto
    next
      case False
      have "\<not> (in_step_but ks None d \<and> x = ?x d)" for d
      proof
        assume "in_step_but ks None d \<and> x = ?x d"
        then have "set (map task_key x) \<subseteq> set (map task_key (human_tasks d))" "map task_key (human_tasks d) = ks"
          using expired_task [of _ d] by (auto simp: in_step_but_def)
        with False show False by simp
      qed
      then show ?thesis unfolding yields_def by blast
    qed
    then show "yields (\<lambda>d. in_step_but ks None d \<and> x = ?x d)
        (seq (map_each (sweep_task env (sweep_now env payload)) x) (\<lambda>results. ret (f results))) (\<lambda>_. in_step)" for f :: "dict option list \<Rightarrow> dict"
      by (rule yields_seq) (intro yields_ret in_step_keys)
  qed
  then show ?thesis unfolding in_step_def yields_def by blast
qed

section \<open>Sequences of commands\<close>

datatype task_command =
    Create_workflow_run effect_env dict bool
  | Create_task_run effect_env string dict bool
  | Claim_human_task effect_env string dict bool
  | Sweep_leases effect_env dict

definition run_task_command :: "task_command \<Rightarrow> db \<Rightarrow> db" where
  "run_task_command c d = (case c of
     Create_workflow_run env payload receipt \<Rightarrow> snd (create_workflow_run_command env payload receipt d)
   | Create_task_run env human_uuid payload receipt \<Rightarrow> snd (create_task_run_command env human_uuid payload receipt d)
   | Claim_human_task env lease_clock payload receipt \<Rightarrow> snd (claim_human_task_command env lease_clock payload receipt d)
   | Sweep_leases env payload \<Rightarrow> snd (sweep_leases_command env payload d))"

text \<open>A creation may ask for any two states; this is whether the states it asks for go together.\<close>

definition asks_in_step :: "task_command \<Rightarrow> bool" where
  "asks_in_step c = (case c of
     Create_task_run env human_uuid payload receipt \<Rightarrow>
       truthy (jget_default payload ''create_human_task'' (JBool False)) \<longrightarrow>
         paired (str_field payload ''human_task_state'' ''OPEN'') (str_field payload ''state'' ''READY'')
   | _ \<Rightarrow> True)"

text \<open>What holds through the operations holds through the commands.\<close>

lemma create_run_brings:
  assumes P: "log_free P" "\<And>d rs. P (d\<lparr>runs := rs\<rparr>) = P d"
  shows "brings P (create_workflow_run_command env payload b) P"
proof -
  have "yields P (create_workflow_run i w v tenant domain part date act st now project) (\<lambda>_. P)"
    for i w v tenant domain part date act st now project
    by (rule yieldsI) (auto simp: create_workflow_run_def insert_workflow_run_def comp_apply P(2) split: if_splits)
  then have "yields P (create_workflow_run_operation env payload i project st receipt) (\<lambda>_. P)" for i project st receipt
    unfolding create_workflow_run_operation_def Let_def
    by (rule yields_seq) (intro yields_emitting P(1) yields_peek yields_found yields_ret, assumption)
  then show ?thesis
    unfolding create_workflow_run_command_def Let_def
    by (intro brings_checked brings_look brings_finish brings_reraise brings_executed P(1))
qed

lemma create_task_brings:
  assumes P: "log_free P"
    and op: "\<And>q receipt. tq_human q = truthy (jget_default payload ''create_human_task'' (JBool False)) \<Longrightarrow>
      tq_human_state q = str_field payload ''human_task_state'' ''OPEN'' \<Longrightarrow> tq_state q = str_field payload ''state'' ''READY'' \<Longrightarrow>
      yields P (create_task_operation env payload q receipt) (\<lambda>_. P)"
  shows "brings P (create_task_run_command env uuid payload b) P"
  unfolding create_task_run_command_def Let_def
  by (intro brings_checked brings_finish brings_reraise brings_executed P op) simp_all

lemma claim_brings:
  assumes P: "log_free P" and op: "\<And>n receipt. yields P (claim_task_operation env clock payload n receipt) (\<lambda>_. P)"
  shows "brings P (claim_human_task_command env clock payload b) P"
  unfolding claim_human_task_command_def Let_def
  by (intro brings_checked brings_asking brings_found brings_finish brings_executed P op)

lemma sweep_brings: "yields P (sweep_leases_body env payload) (\<lambda>_. P) \<Longrightarrow> brings P (sweep_leases_command env payload) P"
  unfolding sweep_leases_command_def brings_keeps by (rule keeps_atomic)

lemma commands_in_step:
  assumes "in_step d" "asks_in_step c" shows "in_step (run_task_command c d)"
proof -
  have "brings in_step (create_workflow_run_command env payload b) in_step" for env payload b
    by (rule create_run_brings) (auto simp: in_step_def in_step_but_def)
  moreover have "brings in_step (create_task_run_command env uuid payload b) in_step"
    if "c = Create_task_run env uuid payload b" for env uuid payload b
    using assms(2) by (intro create_task_brings create_in_step) (auto simp: asks_in_step_def that)
  moreover have "brings in_step (claim_human_task_command env clock payload b) in_step" for env clock payload b
    by (intro claim_brings claim_in_step log_free_in_step)
  moreover have "brings in_step (sweep_leases_command env payload) in_step" for env payload
    by (intro sweep_brings sweep_in_step)
  ultimately show ?thesis
    using assms(1) by (cases c) (simp_all add: run_task_command_def brings_def)
qed

lemma runs_in_step:
  "in_step d \<Longrightarrow> \<forall>c\<in>set cs. asks_in_step c \<Longrightarrow> in_step (fold run_task_command cs d)"
  by (induction cs arbitrary: d) (simp_all add: commands_in_step)

section \<open>Properties\<close>

text \<open>
  C6: A human task and its task run stay in step over any commands whose creations ask for states that go together:
  every human task has its task run, in the same workflow run, and the two are open and ready, claimed and in
  progress, or both completed.
\<close>

theorem human_tasks_stay_in_step:
  assumes "in_step d" "\<forall>c\<in>set cs. asks_in_step c" "h \<in> set (human_tasks (fold run_task_command cs d))"
  shows "\<exists>t\<in>set (task_runs (fold run_task_command cs d)). tr_id t = ht_task_run h \<and> tr_run t = ht_run h
    \<and> paired (ht_state h) (tr_state t)"
  using runs_in_step [OF assms(1,2)] assms(3) unfolding in_step_def in_step_but_def by auto

text \<open>An effect environment with fixed readings, and a claim that has expired.\<close>

definition fixed_effects :: effect_env where
  "fixed_effects = \<lparr>fe_now = ''2026-03-01T12:00:00Z'', fe_uuid = ''u'', fe_event = (\<lambda>n. (''2026-03-01T12:00:00Z'', [CHR ''e'', char_of (48 + n)]))\<rparr>"

definition expired_sample :: db where
  "expired_sample = task_sample_db\<lparr>
     human_tasks := map (claimed_row ''ann'' ''human'' ''2026-03-01T08:00:00Z'' ''2026-03-01T09:00:00Z'' ''2026-03-01T08:00:00Z'')
       (human_tasks task_sample_db),
     task_runs := map (\<lambda>t. t\<lparr>tr_state := ''IN_PROGRESS''\<rparr>) (task_runs task_sample_db)\<rparr>"

lemma expired_sample_in_step: "in_step expired_sample"
  by (simp add: in_step_def in_step_but_def expired_sample_def task_sample_db_def sample_db_def sample_task_run_def
    task_key_def claimed_row_def paired_def)

theorem human_tasks_stay_in_step_witness:
  "\<exists>t\<in>set (task_runs (fold run_task_command [Sweep_leases fixed_effects []] expired_sample)).
     tr_id t = ''tr'' \<and> tr_state t = ''READY''"
proof -
  obtain h where h: "h \<in> set (human_tasks (fold run_task_command [Sweep_leases fixed_effects []] expired_sample))"
    "ht_task_run h = ''tr''" "ht_state h = ''OPEN''"
    by (rule that [of "hd (human_tasks (fold run_task_command [Sweep_leases fixed_effects []] expired_sample))"]) code_simp+
  have "\<forall>c\<in>set [Sweep_leases fixed_effects []]. asks_in_step c" by (simp add: asks_in_step_def)
  from human_tasks_stay_in_step [OF expired_sample_in_step this h(1)] h(2,3) show ?thesis
    by (auto simp: paired_def)
qed

end
