(* ===== verification/Task_Leases.thy ===== *)
theory Task_Leases
  imports Task_Steps
begin

text \<open>
  Leases of human tasks: what a sweep does to the tasks, when a claim counts as expired, and tasks that were
  created as claimed.
\<close>

section \<open>What a sweep does to the tasks\<close>

definition swept :: "string \<Rightarrow> human_task_row list \<Rightarrow> human_task_row list \<Rightarrow> human_task_row list" where
  "swept now expired hs = map (\<lambda>h. if h \<in> set expired then reopened_row now h else h) hs"

lemma log_free_human_tasks [intro, simp]: "log_free (\<lambda>d. human_tasks d = hs)"
  by (simp add: log_free_def)

lemma transition_human_tasks:
  "yields (\<lambda>d. human_tasks d = hs) (transition_task_run_state i from_state to_state now) (\<lambda>_ d. human_tasks d = hs)"
  by (rule yieldsI) (auto simp: transition_task_run_state_def Let_def split: option.splits if_splits)

lemma settled_human_tasks:
  "yields (\<lambda>d. human_tasks d = hs)
     (if b then seq (transition_task_run_state i from_state to_state now) (\<lambda>_.
        seq (emit env ty tenant domain at who links p k) (\<lambda>_. ret ())) else ret ()) (\<lambda>_ d. human_tasks d = hs)"
  by (intro yields_if yields_seq [OF transition_human_tasks] yields_emitting log_free_human_tasks yields_ret)

lemma sweep_task_swept:
  assumes H: "distinct (map ht_id hs)" "task \<in> set hs" "ht_state task = ''CLAIMED''"
  shows "yields (\<lambda>d. human_tasks d = hs) (sweep_task env now task) (\<lambda>_ d. human_tasks d = swept now [task] hs)"
proof -
  have reopen: "yields (\<lambda>d. human_tasks d = hs) (reopen_human_task_after_lease_expiry (ht_id task) (ht_lease_version task) now)
      (\<lambda>_ d. human_tasks d = swept now [task] hs)"
  proof (rule yieldsI)
    fix d r d' assume hs: "human_tasks d = hs"
      and run: "reopen_human_task_after_lease_expiry (ht_id task) (ht_lease_version task) now d = (Inr r, d')"
    have "human_tasks d' = update_where (\<lambda>r. ht_id r = ht_id task \<and> ht_state r = ''CLAIMED'' \<and> ht_lease_version r = ht_lease_version task)
        (reopened_row now) hs"
      using run hs by (auto simp: reopen_human_task_after_lease_expiry_def update_one_def Let_def)
    also have "\<dots> = swept now [task] hs"
    proof -
      have "ht_id r = ht_id task \<and> ht_state r = ''CLAIMED'' \<and> ht_lease_version r = ht_lease_version task \<longleftrightarrow> r \<in> set [task]"
        if "r \<in> set hs" for r
        using inj_onD [of ht_id "set hs" r task] H that by (auto simp: distinct_map)
      then show ?thesis unfolding update_where_def swept_def by (intro map_cong refl if_cong) blast+
    qed
    finally show "human_tasks d' = swept now [task] hs" .
  qed
  show ?thesis
    unfolding sweep_task_def
    by (rule yields_seq [OF reopen] yields_seq [OF settled_human_tasks] yields_option yields_peek yields_look yields_emitting
        log_free_human_tasks yields_ret | assumption)+
qed

lemma sweep_tasks_swept:
  assumes "distinct (map ht_id hs)" "set xs \<subseteq> set hs" "distinct xs" "\<forall>x\<in>set xs. ht_state x = ''CLAIMED''"
  shows "yields (\<lambda>d. human_tasks d = hs) (map_each (sweep_task env now) xs) (\<lambda>_ d. human_tasks d = swept now xs hs)"
  using assms
proof (induction xs arbitrary: hs)
  case Nil
  then show ?case by (auto intro!: yields_ret simp: swept_def)
next
  case (Cons x xs)
  let ?hs = "swept now [x] hs"
  have "map ht_id ?hs = map ht_id hs" by (simp add: swept_def)
  moreover have "set xs \<subseteq> set ?hs" using Cons.prems by (force simp: swept_def)
  ultimately have rest: "yields (\<lambda>d. human_tasks d = ?hs) (map_each (sweep_task env now) xs) (\<lambda>_ d. human_tasks d = swept now xs ?hs)"
    using Cons.prems by (intro Cons.IH) simp_all
  have "reopened_row now x \<notin> set xs" using Cons.prems(4) by (auto simp: reopened_row_def)
  then have "swept now xs ?hs = swept now (x # xs) hs" using Cons.prems(3) by (auto simp: swept_def)
  with rest have rest: "yields (\<lambda>d. human_tasks d = ?hs) (map_each (sweep_task env now) xs) (\<lambda>_ d. human_tasks d = swept now (x # xs) hs)"
    by simp
  have first: "yields (\<lambda>d. human_tasks d = hs) (sweep_task env now x) (\<lambda>_ d. human_tasks d = ?hs)"
    using Cons.prems by (intro sweep_task_swept) simp_all
  show ?case
    unfolding map_each.simps by (rule yields_seq [OF first], rule yields_seq [OF rest], rule yields_ret)
qed

lemma sweep_swept:
  assumes ids: "distinct (map ht_id (human_tasks d))" and run: "sweep_leases_body env payload d = (Inr out, d')"
  shows "human_tasks d' = swept (sweep_now env payload)
    (list_expired_claimed_human_tasks d (sweep_now env payload) (opt_field payload ''workflow_run_id'')) (human_tasks d)"
proof -
  let ?x = "list_expired_claimed_human_tasks d (sweep_now env payload) (opt_field payload ''workflow_run_id'')"
  obtain rs where "map_each (sweep_task env (sweep_now env payload)) ?x d = (Inr rs, d')"
    using run by (auto simp: sweep_leases_body_def Let_def seq_unit seq_eq_Inr comp_apply)
  moreover have "set ?x \<subseteq> set (human_tasks d)" "distinct ?x" "\<forall>x\<in>set ?x. ht_state x = ''CLAIMED''"
    using ids by (auto simp: list_expired_claimed_human_tasks_def distinct_map)
  ultimately show ?thesis using yieldsD [OF sweep_tasks_swept [OF ids]] by blast
qed

lemma nothing_expired:
  assumes "human_tasks d' = swept now (list_expired_claimed_human_tasks d now w) (human_tasks d)"
  shows "list_expired_claimed_human_tasks d' now w = []"
proof -
  have "h \<notin> set (list_expired_claimed_human_tasks d' now w)" for h
  proof
    assume h: "h \<in> set (list_expired_claimed_human_tasks d' now w)"
    then have "h \<in> set (swept now (list_expired_claimed_human_tasks d now w) (human_tasks d))" "ht_state h = ''CLAIMED''"
      unfolding assms [symmetric] by (auto simp: list_expired_claimed_human_tasks_def)
    then have "h \<in> set (human_tasks d)" "h \<notin> set (list_expired_claimed_human_tasks d now w)"
      by (auto simp: swept_def reopened_row_def split: if_splits)
    with h show False by (auto simp: list_expired_claimed_human_tasks_def)
  qed
  then show ?thesis by (metis list.set_intros(1) neq_Nil_conv)
qed

section \<open>A claim that nobody made\<close>

definition keeps_task :: "human_task_row \<Rightarrow> db \<Rightarrow> bool" where
  "keeps_task h d \<longleftrightarrow> distinct (map ht_id (human_tasks d)) \<and> h \<in> set (human_tasks d)"

lemma log_free_keeps_task [intro, simp]: "log_free (keeps_task h)"
  by (simp add: log_free_def keeps_task_def)

text \<open>What a creation keeps: it adds a task run, and a human task in the requested state that nobody holds.\<close>

lemma create_operation_keeps:
  assumes log: "log_free P" and runs: "\<And>d ts. P (d\<lparr>task_runs := ts\<rparr>) = P d"
    and ins: "\<And>d r u d'. P d \<Longrightarrow> insert_human_task r d = (Inr u, d') \<Longrightarrow> ht_state r = tq_human_state q \<Longrightarrow>
      ht_claimed_until r = None \<Longrightarrow> ht_assignee_id r = None \<Longrightarrow> P d'"
  shows "yields P (create_task_operation env payload q receipt) (\<lambda>_. P)"
proof -
  have run: "yields P (create_requested_task_run payload q now) (\<lambda>_. P)" for now
    unfolding create_requested_task_run_def create_task_run_def
    by (rule yields_with_integers, rule yieldsI) (auto simp: runs dest: insert_task_run_Inr(1))
  have task: "yields P (create_human_task i w t k (tq_human_state q) roles owner due esc g now) (\<lambda>_. P)"
    for i w t k roles owner due esc g now
    unfolding create_human_task_def
    by (rule yields_with_integers, rule yieldsI, erule (1) ins) simp_all
  have human: "yields P (create_requested_human_task env payload q r receipt) (\<lambda>_. P)" for r
    unfolding create_requested_human_task_def Let_def
    by (intro yields_if yields_seq [OF task] yields_emitting log yields_ret)
  show ?thesis
    unfolding create_task_operation_def Let_def
    by (rule yields_peek yields_found yields_look yields_seq [OF run] yields_emitting log
        yields_seq [OF human] yields_ret | assumption)+
qed

lemma create_keeps_task: "yields (keeps_task h) (create_task_operation env payload q receipt) (\<lambda>_. keeps_task h)"
proof (rule create_operation_keeps)
  fix d r u d' assume "keeps_task h d" and run: "insert_human_task r d = (Inr u, d')"
  then show "keeps_task h d'" using insert_human_task_Inr [OF run] by (auto simp: keeps_task_def)
qed (simp_all add: keeps_task_def)

lemma claim_keeps_task:
  assumes "ht_state h = ''CLAIMED''"
  shows "yields (keeps_task h) (claim_task_operation env clock payload n receipt) (\<lambda>_. keeps_task h)"
proof -
  have claim: "yields (keeps_task h) (claim_human_task i a t since until now) (\<lambda>_. keeps_task h)" for i a t since until now
    using assms
    by (intro yieldsI) (auto simp: keeps_task_def claim_human_task_def update_one_def Let_def map_update_where set_update_where)
  have run: "yields (keeps_task h) (transition_task_run_state i from_state to_state now) (\<lambda>_. keeps_task h)" for i from_state to_state now
    by (rule yieldsI) (auto simp: keeps_task_def transition_task_run_state_def Let_def split: option.splits if_splits)
  have started: "yields (keeps_task h) (if b then transition_task_run_state i from_state to_state now else ret None) (\<lambda>_. keeps_task h)"
    for b i from_state to_state now
    by (intro yields_if run yields_ret)
  show ?thesis
    unfolding claim_task_operation_def Let_def
    by (rule yields_check yields_seq [OF claim] yields_seq [OF started] yields_seq [OF yields_maybe_emit] yields_option
        yields_look yields_emitting log_free_keeps_task yields_peek yields_found yields_raise yields_ret | assumption)+
qed

lemma sweep_keeps_task:
  assumes "ht_claimed_until h = None"
  shows "yields (keeps_task h) (sweep_leases_body env payload) (\<lambda>_. keeps_task h)"
proof (rule yieldsI)
  fix d out d' assume kept: "keeps_task h d" and run: "sweep_leases_body env payload d = (Inr out, d')"
  have ids: "distinct (map ht_id (human_tasks d))" using kept by (simp add: keeps_task_def)
  have "h \<notin> set (list_expired_claimed_human_tasks d now w)" for now w using expired_task [of h d now w] assms by blast
  then show "keeps_task h d'"
    using kept unfolding keeps_task_def sweep_swept [OF ids run] swept_def by (force simp: comp_def if_distrib cong: if_cong)
qed

lemma runs_keep_task:
  assumes "ht_state h = ''CLAIMED''" "ht_claimed_until h = None"
  shows "keeps_task h d \<Longrightarrow> keeps_task h (fold run_task_command cs d)"
proof (induction cs arbitrary: d)
  case (Cons c cs)
  have "brings (keeps_task h) (create_workflow_run_command env payload b) (keeps_task h)" for env payload b
    by (rule create_run_brings) (auto simp: keeps_task_def)
  moreover have "brings (keeps_task h) (create_task_run_command env uuid payload b) (keeps_task h)" for env uuid payload b
    by (intro create_task_brings create_keeps_task log_free_keeps_task)
  moreover have "brings (keeps_task h) (claim_human_task_command env clock payload b) (keeps_task h)" for env clock payload b
    by (intro claim_brings claim_keeps_task log_free_keeps_task assms)
  moreover have "brings (keeps_task h) (sweep_leases_command env payload) (keeps_task h)" for env payload
    by (intro sweep_brings sweep_keeps_task assms)
  ultimately have "keeps_task h (run_task_command c d)"
    using Cons.prems by (cases c) (simp_all add: run_task_command_def brings_def)
  then show ?case using Cons.IH by simp
qed simp

text \<open>The tasks a creation in state CLAIMED adds: claimed, by nobody and for no time.\<close>

definition held_by_nobody :: "human_task_row \<Rightarrow> bool" where
  "held_by_nobody h \<longleftrightarrow> ht_state h = ''CLAIMED'' \<and> ht_claimed_until h = None \<and> ht_assignee_id h = None"

definition adds_stuck :: "human_task_row list \<Rightarrow> db \<Rightarrow> bool" where
  "adds_stuck hs d \<longleftrightarrow> distinct (map ht_id (human_tasks d))
     \<and> (\<forall>h\<in>set (human_tasks d). h \<in> set hs \<or> held_by_nobody h)"

lemma log_free_adds_stuck [intro, simp]: "log_free (adds_stuck hs)"
  by (simp add: log_free_def adds_stuck_def)

lemma create_claimed_brings:
  assumes "str_field payload ''human_task_state'' ''OPEN'' = ''CLAIMED''"
  shows "brings (adds_stuck hs) (create_task_run_command env uuid payload b) (adds_stuck hs)"
proof (rule create_task_brings)
  fix q :: task_request and receipt assume q: "tq_human_state q = str_field payload ''human_task_state'' ''OPEN''"
  show "yields (adds_stuck hs) (create_task_operation env payload q receipt) (\<lambda>_. adds_stuck hs)"
  proof (rule create_operation_keeps)
    fix d r u d' assume "adds_stuck hs d" and run: "insert_human_task r d = (Inr u, d')"
      and "ht_state r = tq_human_state q" "ht_claimed_until r = None" "ht_assignee_id r = None"
    then show "adds_stuck hs d'"
      using insert_human_task_Inr [OF run] assms q by (auto simp: adds_stuck_def held_by_nobody_def)
  qed (simp_all add: adds_stuck_def)
qed simp

lemma nobody_completes:
  assumes "keeps_task h d" "ht_assignee_id h = None"
  shows "complete_human_task (ht_id h) actor_id actor_type now d = (Inr None, d)"
proof -
  have kept: "distinct (map ht_id (human_tasks d))" "h \<in> set (human_tasks d)"
    using assms(1) by (simp_all add: keeps_task_def)
  have "\<not> (ht_state r = ''CLAIMED'' \<and> ht_assignee_id r = Some actor_id \<and> ht_assignee_type r = Some actor_type)"
    if r: "r \<in> set (human_tasks d)" "ht_id r = ht_id h" for r
  proof -
    have "r = h" using inj_onD [of ht_id _ r h] kept r by (auto simp: distinct_map)
    then show ?thesis using assms(2) by simp
  qed
  then show ?thesis unfolding complete_human_task_def by (rule human_task_table.missed)
qed

section \<open>Properties\<close>

text \<open>
  C21: A sweep that returns has reopened exactly the tasks whose claim had expired, each once, and left every
  other task as it was; after it no claim is expired.
\<close>

theorem sweep_reopens_the_expired:
  assumes "distinct (map ht_id (human_tasks d))" "sweep_leases_command env payload d = (Inr out, d')"
  shows "human_tasks d' = map (\<lambda>h. if h \<in> set (list_expired_claimed_human_tasks d (sweep_now env payload) (opt_field payload ''workflow_run_id''))
        then reopened_row (sweep_now env payload) h else h) (human_tasks d)
    \<and> list_expired_claimed_human_tasks d' (sweep_now env payload) (opt_field payload ''workflow_run_id'') = []"
proof -
  have "sweep_leases_body env payload d = (Inr out, d')" using assms(2) by (simp add: sweep_leases_command_def)
  note swept = sweep_swept [OF assms(1) this]
  from swept nothing_expired [OF swept] show ?thesis by (simp add: swept_def)
qed

theorem sweep_reopens_the_expired_witness:
  "\<exists>out d'. sweep_leases_command fixed_effects [] expired_sample = (Inr out, d')
     \<and> human_tasks d' = map (reopened_row ''2026-03-01T12:00:00Z'') (human_tasks expired_sample)"
proof -
  have "\<not> isl (fst (sweep_leases_command fixed_effects [] expired_sample))" by code_simp
  then obtain out d' where run: "sweep_leases_command fixed_effects [] expired_sample = (Inr out, d')"
    by (cases "sweep_leases_command fixed_effects [] expired_sample"; cases "fst (sweep_leases_command fixed_effects [] expired_sample)") auto
  have now: "sweep_now fixed_effects [] = ''2026-03-01T12:00:00Z''" by code_simp
  have all: "list_expired_claimed_human_tasks expired_sample ''2026-03-01T12:00:00Z'' None = human_tasks expired_sample"
    by code_simp
  have none: "opt_field [] ''workflow_run_id'' = None" by code_simp
  have "distinct (map ht_id (human_tasks expired_sample))" by code_simp
  from sweep_reopens_the_expired [OF this run] have "human_tasks d' = map (reopened_row ''2026-03-01T12:00:00Z'') (human_tasks expired_sample)"
    unfolding now none all by simp
  with run show ?thesis by blast
qed

text \<open>
  C22: A lease of \<open>n\<close> seconds taken at \<open>t\<close> is compared with the time of a sweep as a text, and the comparison is off
  by less than a second: a listed claim ends less than a second after the sweep, a claim that is not listed ends
  less than a second before it or later.
\<close>

theorem lease_expires_within_a_second:
  assumes h: "h \<in> set (human_tasks d)" "ht_state h = ''CLAIMED''" "ht_claimed_until h = Some until"
    and t: "instant_ok t" "future_iso (iso_text t) n = Inr until" and now: "instant_ok now"
  shows "if h \<in> set (list_expired_claimed_human_tasks d (iso_text now) None)
    then t + n * second_us < now + second_us else now < t + n * second_us + second_us"
proof -
  let ?u = "t + n * second_us"
  have u: "instant_ok ?u" "until = iso_text ?u"
    using t(2) by (auto simp: future_iso_def parse_iso_text [OF t(1)] shift_seconds_def in_range_def split: if_splits)
  have "h \<in> set (list_expired_claimed_human_tasks d (iso_text now) None) \<longleftrightarrow> iso_text ?u \<le> iso_text now"
    using h u(2) by (simp add: list_expired_claimed_human_tasks_def)
  then show ?thesis
    unfolding text_order [OF u(1) now] by (auto simp: second_us_def)
qed

theorem lease_expires_within_a_second_witness:
  "future_iso (iso_text 63908035200000000) 3600 = Inr ''2026-03-01T09:00:00Z''
   \<and> map ht_claimed_until (human_tasks expired_sample) = [Some ''2026-03-01T09:00:00Z'']
   \<and> list_expired_claimed_human_tasks expired_sample (iso_text 63908038800000000) None = human_tasks expired_sample
   \<and> (63908035200000000 :: int) + 3600 * second_us < 63908038800000000 + second_us
   \<and> list_expired_claimed_human_tasks expired_sample (iso_text 63908038800500000) None = []
   \<and> (63908038800500000 :: int) < 63908035200000000 + 3600 * second_us + second_us"
proof -
  let ?h = "hd (human_tasks expired_sample)"
  have until: "future_iso (iso_text 63908035200000000) 3600 = Inr ''2026-03-01T09:00:00Z''"
    unfolding future_iso_def parse_iso_text [OF sample_instants(1)]
    by (simp add: sample_instants shift_seconds_def in_range_def second_us_def sample_times)
  have h: "?h \<in> set (human_tasks expired_sample)" "ht_state ?h = ''CLAIMED''"
    "ht_claimed_until ?h = Some ''2026-03-01T09:00:00Z''"
    by code_simp+
  have ends: "map ht_claimed_until (human_tasks expired_sample) = [Some ''2026-03-01T09:00:00Z'']" by code_simp
  have listed: "list_expired_claimed_human_tasks expired_sample (iso_text 63908038800000000) None = human_tasks expired_sample"
    unfolding sample_times by code_simp
  have unlisted: "list_expired_claimed_human_tasks expired_sample (iso_text 63908038800500000) None = []"
    unfolding sample_times by code_simp
  show ?thesis
    using until ends listed unlisted h(1)
      lease_expires_within_a_second [OF h sample_instants(1) until sample_instants(2)]
      lease_expires_within_a_second [OF h sample_instants(1) until sample_instants(3)]
    by simp
qed

text \<open>
  C40: Creating a task with \<open>human_task_state\<close> CLAIMED makes a task that stays claimed for ever: the human task
  such a creation adds has no assignee and no lease, no creation, claim or sweep that follows changes it, and
  completing it finds nothing for any actor.
\<close>

theorem task_created_claimed_stays_stuck:
  assumes "distinct (map ht_id (human_tasks d))" "str_field payload ''human_task_state'' ''OPEN'' = ''CLAIMED''"
    and "h \<in> set (human_tasks (run_task_command (Create_task_run env uuid payload b) d))" "h \<notin> set (human_tasks d)"
  shows "ht_state h = ''CLAIMED'' \<and> ht_assignee_id h = None \<and> ht_claimed_until h = None
    \<and> h \<in> set (human_tasks (fold run_task_command (Create_task_run env uuid payload b # cs) d))
    \<and> complete_human_task (ht_id h) actor_id actor_type now (fold run_task_command (Create_task_run env uuid payload b # cs) d)
        = (Inr None, fold run_task_command (Create_task_run env uuid payload b # cs) d)"
proof -
  let ?d = "run_task_command (Create_task_run env uuid payload b) d"
  have "adds_stuck (human_tasks d) d" using assms(1) by (simp add: adds_stuck_def)
  then have "adds_stuck (human_tasks d) ?d"
    using create_claimed_brings [OF assms(2)] by (simp add: brings_def run_task_command_def)
  then have h: "held_by_nobody h" "keeps_task h ?d"
    using assms(3,4) by (auto simp: adds_stuck_def keeps_task_def)
  then have kept: "keeps_task h (fold run_task_command cs ?d)"
    by (intro runs_keep_task) (simp_all add: held_by_nobody_def)
  with h(1) nobody_completes [OF kept] show ?thesis by (simp add: held_by_nobody_def keeps_task_def)
qed

definition claimed_request :: dict where
  "claimed_request = [(''workflow_run_id'', JStr ''r''), (''stage_id'', JStr ''s''), (''task_kind'', JStr ''review''),
     (''activation_key'', JStr ''again''), (''task_run_id'', JStr ''tr2''), (''human_task_id'', JStr ''h2''),
     (''create_human_task'', JBool True), (''human_task_state'', JStr ''CLAIMED'')]"

text \<open>The command runs the operation on the request it reads from the payload.\<close>

lemma claimed_request_fields:
  "require_fields claimed_request [''workflow_run_id'', ''stage_id'', ''task_kind'', ''activation_key''] = Inr ()"
  "str_field claimed_request ''human_task_state'' ''OPEN'' = ''CLAIMED''"
  "str_field claimed_request ''state'' ''READY'' = ''READY''"
  "''READY'' \<in> set task_run_states" "''CLAIMED'' \<in> set human_task_states"
  "jget_default claimed_request ''create_human_task'' (JBool False) = JBool True" "truthy (JBool True)"
  "jget_default claimed_request ''candidate_roles'' (JArr []) = JArr []" "py_iter (JArr []) = Inr []"
  "int_field claimed_request ''generation'' 0 = Inr 0" "int_field claimed_request ''spawn_depth'' 0 = Inr 0"
  "py_str (py_or (JStr ''tr2'') v) = ''tr2''" "py_str (py_or (JStr ''h2'') v) = ''h2''"
  "jget claimed_request ''task_run_id'' = JStr ''tr2''" "jget claimed_request ''human_task_id'' = JStr ''h2''"
  by code_simp+

lemma claimed_request_without_receipt:
  "prepare_command_receipt ''tasks.create'' claimed_request xs None None w False = Inr None"
  by (simp add: prepare_command_receipt_def normalize_command_idempotency_key_def claimed_request_def jget_def)

definition claimed_task_request :: task_request where
  "claimed_task_request = \<lparr>tq_id = ''tr2'', tq_state = ''READY'', tq_generation = 0, tq_depth = 0, tq_human = True,
     tq_human_id = ''h2'', tq_human_state = ''CLAIMED'', tq_roles = []\<rparr>"

lemma claimed_request_runs:
  "snd (create_task_run_command env uuid claimed_request False d) =
   snd (execute_with_command_receipt None (create_task_operation env claimed_request claimed_task_request None) d)"
proof -
  have finish: "snd (seq (handle m (\<lambda>e. raise (f e))) (\<lambda>x. ret (g x)) d) = snd (m d)"
    for m :: "('x, db) comp" and f and g :: "'x \<Rightarrow> 'y"
    by (cases "m d"; cases "fst (m d)") (auto simp: seq_def handle_def comp_apply)
  show ?thesis
    unfolding create_task_run_command_def Let_def claimed_request_without_receipt claimed_request_fields
      claimed_task_request_def
    by (simp add: claimed_request_fields(4,5) seq_unit finish)
qed

lemma claimed_task_created:
  "list_ex (\<lambda>h. ht_id h = ''h2'') (human_tasks (snd (execute_with_command_receipt None
     (create_task_operation fixed_effects claimed_request claimed_task_request None) task_sample_db)))"
  by code_simp
theorem task_created_claimed_stays_stuck_witness:
  "\<exists>h. h \<in> set (human_tasks (fold run_task_command
       [Create_task_run fixed_effects ''u2'' claimed_request False, Sweep_leases fixed_effects []] task_sample_db))
     \<and> ht_id h = ''h2'' \<and> ht_state h = ''CLAIMED''"
proof -
  let ?create = "Create_task_run fixed_effects ''u2'' claimed_request False"
  have ids: "distinct (map ht_id (human_tasks task_sample_db))" "list_all (\<lambda>h. ht_id h \<noteq> ''h2'') (human_tasks task_sample_db)"
    by code_simp+
  have "list_ex (\<lambda>h. ht_id h = ''h2'') (human_tasks (run_task_command ?create task_sample_db))"
    using claimed_task_created by (simp add: run_task_command_def claimed_request_runs)
  then obtain h where h: "h \<in> set (human_tasks (run_task_command ?create task_sample_db))" "ht_id h = ''h2''"
    by (auto simp: list_ex_iff)
  with ids(2) have "h \<notin> set (human_tasks task_sample_db)" by (auto simp: list_all_iff)
  from task_created_claimed_stays_stuck [OF ids(1) claimed_request_fields(2) h(1) this, of "[Sweep_leases fixed_effects []]"] h(2)
  show ?thesis by blast
qed

end
