(* ===== verification/Runtime_Slots.thy ===== *)
theory Runtime_Slots
  imports Datetime Store
begin

text \<open>
  Slots that serialize the work on a project, \<open>src/onetruth/infrastructure/repositories/capex_project_runtime_slots.py\<close>:
  at most one active slot per project and lock family, held under a lease until it is released or, once its
  expiry time has passed, taken over. The keyword arguments of \<open>acquire_project_runtime_slot\<close> are passed as the row
  they make; the columns the function fills in itself are overwritten. Byte strings do not occur in the
  metadata, and a timestamp without offset, which Python reads in the local time zone, is an error.
\<close>

section \<open>Validation\<close>

abbreviation slot_require :: "bool \<Rightarrow> string \<Rightarrow> unit result" where
  "slot_require b code \<equiv> require b (ProjectRuntimeSlotError code)"

definition supported_lock_families :: "string list" where
  "supported_lock_families = [''ingest'', ''pointer'']"

definition default_policy_version :: string where
  "default_policy_version = ''capex.project_runtime_slot_policy.v1''"

text \<open>\<open>_CANONICAL_REF_RE.fullmatch\<close>.\<close>

definition canonical_ref :: "string \<Rightarrow> bool" where
  "canonical_ref s \<longleftrightarrow> s \<noteq> [] \<and> is_alnum (hd s) \<and> length s \<le> 255
     \<and> list_all (\<lambda>c. is_alnum c \<or> c \<in> set ''_.:/#@-'') (tl s)"

definition slot_forbidden_raw_keys :: "string list" where
  "slot_forbidden_raw_keys = [''absolute_path'', ''base64'', ''base64_content'', ''blob_bytes'', ''content_base64'',
     ''file_name'', ''filename'', ''local_path'', ''raw_bytes'', ''raw_content'', ''raw_filename'', ''raw_log'',
     ''source_path'']"

definition slot_raw_text :: "string \<Rightarrow> bool" where
  "slot_raw_text value \<longleftrightarrow> prefix ''/'' value \<or> prefix ''file://'' value
     \<or> contains ([CHR 0x5C] @ ''Users'' @ [CHR 0x5C]) value \<or> contains ''/Users/'' value"

fun slot_reject_raw_material :: "json \<Rightarrow> unit result" where
  "slot_reject_raw_material (JObj kvs) =
     check_all (\<lambda>p. rbind (slot_require
         (replace_char (CHR ''-'') (CHR ''_'') (py_lower (fst p)) \<notin> set slot_forbidden_raw_keys)
         ''project_runtime_slot_raw_material'') (\<lambda>_. slot_reject_raw_material (snd p))) kvs"
| "slot_reject_raw_material (JArr vs) = check_all slot_reject_raw_material vs"
| "slot_reject_raw_material (JStr s) = slot_require (\<not> slot_raw_text s) ''project_runtime_slot_raw_material''"
| "slot_reject_raw_material _ = Inr ()"

definition validate_slot_scope :: "db \<Rightarrow> string \<Rightarrow> string \<Rightarrow> string \<Rightarrow> unit result" where
  "validate_slot_scope d tenant_id domain_id project_id =
     slot_require (exists_row (\<lambda>p. pj_id p = project_id \<and> pj_tenant p = tenant_id \<and> pj_domain p = domain_id)
       (projects d)) ''project_runtime_slot_scope_invalid''"

definition validate_lock_family :: "string \<Rightarrow> unit result" where
  "validate_lock_family lock_family =
     slot_require (lock_family \<in> set supported_lock_families) ''project_runtime_slot_family_unsupported''"

definition validate_slot_key :: "string \<Rightarrow> string \<Rightarrow> unit result" where
  "validate_slot_key lock_family slot_key =
     slot_require (prefix (lock_family @ '':'') slot_key \<and> canonical_ref slot_key) ''project_runtime_slot_key_invalid''"

definition validate_slot_ref :: "string \<Rightarrow> unit result" where
  "validate_slot_ref value = slot_require (canonical_ref value) ''project_runtime_slot_ref_invalid''"

section \<open>Policies\<close>

definition get_project_concurrency_policy ::
    "db \<Rightarrow> string \<Rightarrow> string \<Rightarrow> string \<Rightarrow> string \<Rightarrow> slot_policy_row option" where
  "get_project_concurrency_policy d tenant_id domain_id project_id lock_family =
     select_one (\<lambda>r. sp_tenant r = tenant_id \<and> sp_domain r = domain_id \<and> sp_project r = project_id
       \<and> sp_family r = lock_family) (slot_policies d)"

definition insert_slot_policy :: "slot_policy_row \<Rightarrow> (unit, db) comp" where
  "insert_slot_policy r d =
     (if exists_row (\<lambda>x. sp_tenant x = sp_tenant r \<and> sp_domain x = sp_domain r \<and> sp_project x = sp_project r
        \<and> sp_family x = sp_family r) (slot_policies d)
      then raise (IntegrityError (''UNIQUE constraint failed: capex_project_concurrency_policies.tenant_id, ''
        @ ''capex_project_concurrency_policies.domain_id, capex_project_concurrency_policies.project_id, ''
        @ ''capex_project_concurrency_policies.lock_family'')) d
      else if exists_row (\<lambda>x. sp_id x = sp_id r) (slot_policies d)
      then raise (IntegrityError (''UNIQUE constraint failed: capex_project_concurrency_policies.''
        @ ''project_concurrency_policy_id'')) d
      else if sp_project r \<notin> set (map pj_id (projects d)) then raise fk_failed d
      else (Inr (), d\<lparr>slot_policies := slot_policies d @ [r]\<rparr>))"

definition ensure_project_concurrency_policy ::
    "string \<Rightarrow> string \<Rightarrow> string \<Rightarrow> string \<Rightarrow> string \<Rightarrow> int \<Rightarrow> string \<Rightarrow> dict \<Rightarrow> (slot_policy_row, db) comp" where
  "ensure_project_concurrency_policy tenant_id domain_id project_id lock_family created_at max_active_slots
       policy_version metadata d =
     (case rbind (validate_slot_scope d tenant_id domain_id project_id) (\<lambda>_.
           rbind (validate_lock_family lock_family) (\<lambda>_.
           rbind (slot_require (max_active_slots = 1) ''project_runtime_slot_policy_invalid'') (\<lambda>_.
           slot_reject_raw_material (JObj metadata)))) of
        Inl e \<Rightarrow> (Inl e, d)
      | Inr _ \<Rightarrow>
          (case get_project_concurrency_policy d tenant_id domain_id project_id lock_family of
             Some existing \<Rightarrow> (Inr existing, d)
           | None \<Rightarrow>
               seq (insert_slot_policy \<lparr>sp_id = ''project-concurrency-policy:'' @ tenant_id @ '':'' @ domain_id @ '':''
                      @ project_id @ '':'' @ lock_family, sp_tenant = tenant_id, sp_domain = domain_id,
                    sp_project = project_id, sp_family = lock_family, sp_max_slots = max_active_slots,
                    sp_state = ''active'', sp_version = policy_version, sp_metadata = sort_dict metadata,
                    sp_created_at = created_at, sp_updated_at = created_at\<rparr>) (\<lambda>_.
               read_back (\<lambda>d. get_project_concurrency_policy d tenant_id domain_id project_id lock_family)) d))"

section \<open>Slots\<close>

definition active_family_key :: "string \<Rightarrow> string \<Rightarrow> string \<Rightarrow> string \<Rightarrow> string" where
  "active_family_key tenant_id domain_id project_id lock_family =
     tenant_id @ '':'' @ domain_id @ '':'' @ project_id @ '':'' @ lock_family"

definition get_project_runtime_slot :: "db \<Rightarrow> string \<Rightarrow> slot_row option" where
  "get_project_runtime_slot d project_runtime_slot_id = select_one (\<lambda>r. sl_id r = project_runtime_slot_id) (slots d)"

definition slot_scope :: "slot_row \<Rightarrow> string \<times> string \<times> string \<times> string" where
  "slot_scope r = (sl_tenant r, sl_domain r, sl_project r, sl_family r)"

definition active_in :: "string \<times> string \<times> string \<times> string \<Rightarrow> slot_row \<Rightarrow> bool" where
  "active_in scope r \<longleftrightarrow> slot_scope r = scope \<and> sl_state r = ''active'' \<and> sl_active r \<noteq> None"

definition get_active_project_runtime_slot ::
    "db \<Rightarrow> string \<Rightarrow> string \<Rightarrow> string \<Rightarrow> string \<Rightarrow> slot_row option" where
  "get_active_project_runtime_slot d tenant_id domain_id project_id lock_family =
     (case sort_key sl_acquired_at (sort_key sl_id
        (filter (active_in (tenant_id, domain_id, project_id, lock_family)) (slots d))) of
        [] \<Rightarrow> None | r # _ \<Rightarrow> Some r)"

definition slot_expired :: "slot_row \<Rightarrow> string \<Rightarrow> bool result" where
  "slot_expired r now_iso = (case sl_expires_at r of
     None \<Rightarrow> Inr False
   | Some expires_at \<Rightarrow>
       rbind (parse_iso_datetime expires_at) (\<lambda>t. rbind (parse_iso_datetime now_iso) (\<lambda>now. Inr (t \<le> now))))"

definition expire_project_runtime_slot :: "string \<Rightarrow> string \<Rightarrow> (unit, db) comp" where
  "expire_project_runtime_slot project_runtime_slot_id expired_at =
     modify (\<lambda>d. d\<lparr>slots := update_where (\<lambda>r. sl_id r = project_runtime_slot_id \<and> sl_state r = ''active'')
       (\<lambda>r. r\<lparr>sl_state := ''expired'', sl_active := None, sl_updated_at := expired_at\<rparr>) (slots d)\<rparr>)"

definition insert_slot :: "slot_row \<Rightarrow> (unit, db) comp" where
  "insert_slot r d =
     (if sl_active r \<noteq> None \<and> exists_row (\<lambda>x. sl_active x = sl_active r) (slots d)
      then raise (IntegrityError ''UNIQUE constraint failed: capex_project_runtime_slots.active_family_key'') d
      else if exists_row (\<lambda>x. sl_id x = sl_id r) (slots d)
      then raise (IntegrityError ''UNIQUE constraint failed: capex_project_runtime_slots.project_runtime_slot_id'') d
      else if sl_project r \<notin> set (map pj_id (projects d)) then raise fk_failed d
      else (Inr (), d\<lparr>slots := slots d @ [r]\<rparr>))"

definition acquired_row :: "slot_row \<Rightarrow> slot_row" where
  "acquired_row r = r\<lparr>sl_state := ''active'',
     sl_active := Some (active_family_key (sl_tenant r) (sl_domain r) (sl_project r) (sl_family r)),
     sl_released_at := None, sl_metadata := sort_dict (sl_metadata r), sl_created_at := sl_acquired_at r,
     sl_updated_at := sl_acquired_at r\<rparr>"

definition store_slot :: "slot_row \<Rightarrow> (slot_row, db) comp" where
  "store_slot r = seq (insert_slot (acquired_row r)) (\<lambda>_. read_back (\<lambda>d. get_project_runtime_slot d (sl_id r)))"

definition slot_request_ok :: "db \<Rightarrow> slot_row \<Rightarrow> unit result" where
  "slot_request_ok d r =
     rbind (validate_slot_scope d (sl_tenant r) (sl_domain r) (sl_project r)) (\<lambda>_.
     rbind (validate_lock_family (sl_family r)) (\<lambda>_.
     rbind (validate_slot_key (sl_family r) (sl_key r)) (\<lambda>_.
     rbind (validate_slot_ref (sl_holder r)) (\<lambda>_.
     rbind (validate_slot_ref (sl_lease r)) (\<lambda>_.
     slot_reject_raw_material (JObj (sl_metadata r)))))))"

definition same_slot_request :: "slot_row \<Rightarrow> slot_row \<Rightarrow> bool" where
  "same_slot_request a r \<longleftrightarrow> sl_key a = sl_key r \<and> sl_holder a = sl_holder r \<and> sl_lease a = sl_lease r"

definition acquire_project_runtime_slot :: "slot_row \<Rightarrow> (slot_row, db) comp" where
  "acquire_project_runtime_slot r d =
     (case slot_request_ok d r of
        Inl e \<Rightarrow> (Inl e, d)
      | Inr _ \<Rightarrow>
          seq (ensure_project_concurrency_policy (sl_tenant r) (sl_domain r) (sl_project r) (sl_family r)
                (sl_acquired_at r) 1 default_policy_version []) (\<lambda>policy.
          seq (of_result (slot_require (sp_state policy = ''active'' \<and> sp_max_slots policy = 1)
                ''project_runtime_slot_policy_inactive'')) (\<lambda>_.
          seq (asks (\<lambda>d. get_active_project_runtime_slot d (sl_tenant r) (sl_domain r) (sl_project r) (sl_family r)))
            (\<lambda>active.
          case active of
            None \<Rightarrow> store_slot r
          | Some a \<Rightarrow>
              seq (of_result (slot_expired a (sl_acquired_at r))) (\<lambda>expired.
              if expired then seq (expire_project_runtime_slot (sl_id a) (sl_acquired_at r)) (\<lambda>_. store_slot r)
              else if same_slot_request a r then ret a
              else raise (ProjectRuntimeSlotError ''project_runtime_slot_conflict''))))) d)"

definition release_project_runtime_slot :: "string \<Rightarrow> string \<Rightarrow> string \<Rightarrow> (slot_row, db) comp" where
  "release_project_runtime_slot project_runtime_slot_id lease_token released_at =
     seq (asks (\<lambda>d. get_project_runtime_slot d project_runtime_slot_id)) (\<lambda>slot.
     case slot of
       None \<Rightarrow> raise (ProjectRuntimeSlotError ''project_runtime_slot_not_found'')
     | Some r \<Rightarrow>
         seq (of_result (slot_require (sl_state r = ''active'' \<and> sl_lease r = lease_token)
               ''project_runtime_slot_stale_release'')) (\<lambda>_.
         seq (modify (\<lambda>d. d\<lparr>slots := update_where
               (\<lambda>r. sl_id r = project_runtime_slot_id \<and> sl_lease r = lease_token \<and> sl_state r = ''active'')
               (\<lambda>r. r\<lparr>sl_state := ''released'', sl_active := None, sl_released_at := Some released_at,
                  sl_updated_at := released_at\<rparr>) (slots d)\<rparr>)) (\<lambda>_.
         read_back (\<lambda>d. get_project_runtime_slot d project_runtime_slot_id))))"

section \<open>One active slot\<close>

definition slot_row_ok :: "slot_row \<Rightarrow> bool" where
  "slot_row_ok r \<longleftrightarrow> sl_active r = (if sl_state r = ''active''
     then Some (active_family_key (sl_tenant r) (sl_domain r) (sl_project r) (sl_family r)) else None)"

definition slots_ok :: "db \<Rightarrow> bool" where
  "slots_ok d \<longleftrightarrow> distinct (map sl_id (slots d)) \<and> unique_keys sl_active (slots d) \<and> (\<forall>r\<in>set (slots d). slot_row_ok r)"

lemma active_once:
  assumes "slots_ok d" "r \<in> set (slots d)" "active_in scope r"
  shows "filter (active_in scope) (slots d) = [r]"
proof (rule unique_keys_once [where key = sl_active])
  fix x assume "x \<in> set (slots d)" "active_in scope x"
  then show "sl_active x = Some (case scope of (t, m, p, f) \<Rightarrow> active_family_key t m p f)"
    using assms(1) by (auto simp: slots_ok_def slot_row_ok_def active_in_def slot_scope_def)
qed (use assms in \<open>auto simp: slots_ok_def\<close>)

lemma get_active_eq:
  assumes "slots_ok d"
  shows "get_active_project_runtime_slot d t m p f = (case filter (active_in (t, m, p, f)) (slots d) of
     [] \<Rightarrow> None | r # _ \<Rightarrow> Some r)"
proof (cases "filter (active_in (t, m, p, f)) (slots d)")
  case (Cons r rs)
  then have "r \<in> set (filter (active_in (t, m, p, f)) (slots d))" by simp
  then have "r \<in> set (slots d)" "active_in (t, m, p, f) r" by simp_all
  from active_once [OF assms this] show ?thesis by (simp add: get_active_project_runtime_slot_def)
qed (simp add: get_active_project_runtime_slot_def)

lemma given_up_ok:
  assumes "slots_ok d" "\<And>r. q r \<Longrightarrow> sl_state (f r) \<noteq> ''active'' \<and> sl_active (f r) = None \<and> sl_id (f r) = sl_id r"
  shows "slots_ok (d\<lparr>slots := update_where q f (slots d)\<rparr>)"
proof -
  have "map sl_id (update_where q f (slots d)) = map sl_id (slots d)"
    using assms(2) by (simp add: update_where_def)
  moreover have "unique_keys sl_active (update_where q f (slots d))"
    using assms by (intro unique_keys_released) (auto simp: slots_ok_def)
  ultimately show ?thesis
    using assms by (auto simp: slots_ok_def slot_row_ok_def set_update_where)
qed

lemma slots_frame: "slots d' = slots d \<Longrightarrow> slots_ok d' = slots_ok d"
  by (simp add: slots_ok_def)

lemma ensure_policy_slots:
  assumes "ensure_project_concurrency_policy t m p f c n v md d = (res, d')"
  shows "slots d' = slots d \<and> projects d' = projects d"
  using assms
  by (auto simp: ensure_project_concurrency_policy_def insert_slot_policy_def read_back_def comp_simps seq_def ret_def
      raise_def asks_def split: sum.splits option.splits if_splits prod.splits)

lemma store_slot_cases:
  assumes "store_slot r d = (res, d')"
  obtains e where "res = Inl e" "d' = d"
  | "res = Inr (acquired_row r)" "d' = d\<lparr>slots := slots d @ [acquired_row r]\<rparr>" "\<forall>x\<in>set (slots d). sl_id x \<noteq> sl_id r"
      "\<forall>x\<in>set (slots d). sl_active x \<noteq> sl_active (acquired_row r)"
proof (cases "insert_slot (acquired_row r) d")
  case (Pair r1 d1)
  have id: "sl_id (acquired_row r) = sl_id r" by (simp add: acquired_row_def)
  show ?thesis
  proof (cases r1)
    case (Inl e)
    then show ?thesis
      using assms Pair that(1) by (auto simp: store_slot_def seq_def insert_slot_def raise_def split: if_splits)
  next
    case (Inr u)
    then have ins: "d1 = d\<lparr>slots := slots d @ [acquired_row r]\<rparr>" "\<forall>x\<in>set (slots d). sl_id x \<noteq> sl_id r"
      "\<forall>x\<in>set (slots d). sl_active x \<noteq> sl_active (acquired_row r)"
      using Pair by (auto simp: insert_slot_def raise_def id acquired_row_def split: if_splits)
    then have "select_one (\<lambda>x. sl_id x = sl_id r) (slots d1) = Some (acquired_row r)"
      by (simp add: select_one_append select_one_None [THEN iffD2] id)
    with ins that(2) assms Pair Inr show ?thesis
      by (auto simp: store_slot_def seq_def read_back_def asks_def ret_def get_project_runtime_slot_def)
  qed
qed

lemma stored_ok:
  assumes "slots_ok d" "\<forall>x\<in>set (slots d). sl_id x \<noteq> sl_id r" "\<forall>x\<in>set (slots d). sl_active x \<noteq> sl_active (acquired_row r)"
  shows "slots_ok (d\<lparr>slots := slots d @ [acquired_row r]\<rparr>)"
  using assms by (auto simp: slots_ok_def slot_row_ok_def acquired_row_def unique_keys_snoc)

section \<open>Operations\<close>

datatype slot_op =
    Ensure_policy string string string string string int string dict
  | Acquire_slot slot_row
  | Release_slot string string string

fun run_slot_op :: "slot_op \<Rightarrow> db \<Rightarrow> db" where
  "run_slot_op (Ensure_policy t m p f now n v metadata) d = snd (ensure_project_concurrency_policy t m p f now n v metadata d)"
| "run_slot_op (Acquire_slot r) d = snd (acquire_project_runtime_slot r d)"
| "run_slot_op (Release_slot i lease now) d = snd (release_project_runtime_slot i lease now d)"

text \<open>What an acquisition does: an error that changes no slot, a slot held already, a new slot, or a new slot after the expired one.\<close>

abbreviation expired_row :: "string \<Rightarrow> slot_row \<Rightarrow> slot_row" where
  "expired_row now \<equiv> \<lambda>r. r\<lparr>sl_state := ''expired'', sl_active := None, sl_updated_at := now\<rparr>"

definition expiring :: "slot_row \<Rightarrow> string \<Rightarrow> slot_row list \<Rightarrow> slot_row list" where
  "expiring a now = update_where (\<lambda>r. sl_id r = sl_id a \<and> sl_state r = ''active'') (expired_row now)"

lemma acquire_cases:
  assumes run: "acquire_project_runtime_slot r d = (res, d')" and ok: "slots_ok d"
  obtains e where "res = Inl e" "slots d' = slots d"
  | a e where "res = Inl e" "a \<in> set (slots d)" "active_in (slot_scope r) a" "slot_expired a (sl_acquired_at r) = Inr True"
      "slots d' = expiring a (sl_acquired_at r) (slots d)"
  | a where "res = Inr a" "a \<in> set (slots d)" "active_in (slot_scope r) a" "same_slot_request a r"
      "slot_expired a (sl_acquired_at r) = Inr False" "slots d' = slots d"
  | rows where "res = Inr (acquired_row r)" "slots d' = rows @ [acquired_row r]"
      "\<forall>x\<in>set rows. sl_id x \<noteq> sl_id r" "\<forall>x\<in>set rows. sl_active x \<noteq> sl_active (acquired_row r)"
      "rows = slots d \<and> filter (active_in (slot_scope r)) (slots d) = []
       \<or> (\<exists>a\<in>set (slots d). active_in (slot_scope r) a \<and> slot_expired a (sl_acquired_at r) = Inr True
            \<and> rows = expiring a (sl_acquired_at r) (slots d))"
proof (cases "slot_request_ok d r")
  case (Inl e)
  then show ?thesis using run that(1) by (auto simp: acquire_project_runtime_slot_def)
next
  case (Inr u)
  obtain pr d1 where policy: "ensure_project_concurrency_policy (sl_tenant r) (sl_domain r) (sl_project r) (sl_family r)
      (sl_acquired_at r) 1 default_policy_version [] d = (pr, d1)" by fastforce
  from ensure_policy_slots [OF policy] have same: "slots d1 = slots d" by simp
  show ?thesis
  proof (cases pr)
    case (Inl e)
    then show ?thesis using run that(1) same Inr policy by (auto simp: acquire_project_runtime_slot_def comp_simps)
  next
    case p: (Inr p)
    show ?thesis
    proof (cases "sp_state p = ''active'' \<and> sp_max_slots p = 1")
      case False
      then show ?thesis using run that(1) same Inr policy p
        by (auto simp: acquire_project_runtime_slot_def seq_def of_result_def require_def)
    next
      case True
      have active: "get_active_project_runtime_slot d1 (sl_tenant r) (sl_domain r) (sl_project r) (sl_family r)
          = (case filter (active_in (slot_scope r)) (slots d) of [] \<Rightarrow> None | a # _ \<Rightarrow> Some a)"
        using get_active_eq [of d1] slots_frame [OF same] ok same by (simp add: slot_scope_def)
      show ?thesis
      proof (cases "filter (active_in (slot_scope r)) (slots d)")
        case Nil
        have stored: "store_slot r d1 = (res, d')"
          using run Inr policy p True active Nil
          by (simp add: acquire_project_runtime_slot_def comp_simps)
        show ?thesis
          by (cases rule: store_slot_cases [OF stored]) (use that(1,4) same Nil in auto)
      next
        case (Cons a rest)
        then have "a \<in> set (filter (active_in (slot_scope r)) (slots d))" by simp
        then have a: "a \<in> set (slots d)" "active_in (slot_scope r) a" by simp_all
        show ?thesis
        proof (cases "slot_expired a (sl_acquired_at r)")
          case (Inl e)
          then show ?thesis using run Inr policy p True active Cons that(1) same
            by (auto simp: acquire_project_runtime_slot_def comp_simps)
        next
          case e: (Inr expired)
          show ?thesis
          proof (cases expired)
            case True': True
            let ?d2 = "d1\<lparr>slots := expiring a (sl_acquired_at r) (slots d)\<rparr>"
            have stored: "store_slot r ?d2 = (res, d')"
              using run Inr policy p True active Cons e True' same
              by (simp add: acquire_project_runtime_slot_def comp_simps expire_project_runtime_slot_def expiring_def)
            show ?thesis
              by (cases rule: store_slot_cases [OF stored]) (use that(2,4) a e True' in auto)
          next
            case False': False
            then show ?thesis using run Inr policy p True active Cons e that(1,3) a same
              by (auto simp: acquire_project_runtime_slot_def comp_simps split: if_splits)
          qed
        qed
      qed
    qed
  qed
qed

lemma release_cases:
  assumes run: "release_project_runtime_slot i lease now d = (res, d')"
  obtains "slots d' = slots d"
  | "d' = d\<lparr>slots := update_where (\<lambda>r. sl_id r = i \<and> sl_lease r = lease \<and> sl_state r = ''active'')
       (\<lambda>r. r\<lparr>sl_state := ''released'', sl_active := None, sl_released_at := Some now, sl_updated_at := now\<rparr>) (slots d)\<rparr>"
proof (cases "get_project_runtime_slot d i")
  case None
  then show ?thesis using run that(1) by (simp add: release_project_runtime_slot_def comp_simps)
next
  case (Some r)
  show ?thesis
  proof (cases "sl_state r = ''active'' \<and> sl_lease r = lease")
    case True
    with run Some that(2) show ?thesis
      by (auto simp: release_project_runtime_slot_def comp_simps read_back_def seq_def asks_def modify_def ret_def raise_def
          split: option.splits)
  next
    case False
    with run Some that(1) show ?thesis
      by (auto simp: release_project_runtime_slot_def seq_def asks_def of_result_def require_def)
  qed
qed

lemma expiring_ok:
  assumes "slots_ok d"
  shows "slots_ok (d\<lparr>slots := expiring a now (slots d)\<rparr>)"
  unfolding expiring_def using assms by (intro given_up_ok) simp_all

lemma run_slot_op_ok:
  assumes ok: "slots_ok d"
  shows "slots_ok (run_slot_op op d)"
proof (cases op)
  case (Ensure_policy t m p f now n v metadata)
  then show ?thesis
    using ensure_policy_slots [of t m p f now n v metadata d] ok by (metis prod.collapse run_slot_op.simps(1) slots_frame)
next
  case (Acquire_slot r)
  obtain res d' where run: "acquire_project_runtime_slot r d = (res, d')" by fastforce
  have "slots_ok d'"
  proof (cases rule: acquire_cases [OF run ok])
    case (2 a e)
    with expiring_ok [OF ok, of a "sl_acquired_at r"] show ?thesis by (simp add: slots_ok_def)
  next
    case (4 rows)
    have "slots_ok (d\<lparr>slots := rows\<rparr>)" using 4(5) ok expiring_ok [OF ok] by auto
    from stored_ok [OF this, of r] 4(2-4) show ?thesis by (simp add: slots_ok_def)
  qed (use ok in \<open>simp_all add: slots_ok_def\<close>)
  then show ?thesis using Acquire_slot run by simp
next
  case (Release_slot i lease now)
  obtain res d' where run: "release_project_runtime_slot i lease now d = (res, d')" by fastforce
  have "slots_ok d'"
  proof (cases rule: release_cases [OF run])
    case 1
    then show ?thesis using ok by (simp add: slots_ok_def)
  next
    case 2
    show ?thesis unfolding 2 using ok by (intro given_up_ok) simp_all
  qed
  then show ?thesis using Release_slot run by simp
qed

lemma runs_slots_ok: "slots_ok d \<Longrightarrow> slots_ok (fold run_slot_op ops d)"
  by (induction ops arbitrary: d) (simp_all add: run_slot_op_ok)

lemma nothing_active_after_expiry:
  assumes "slots_ok d" "a \<in> set (slots d)" "active_in scope a"
  shows "filter (active_in scope) (expiring a now (slots d)) = []"
proof -
  have "\<not> active_in scope x" if "x \<in> set (expiring a now (slots d))" for x
  proof
    assume x: "active_in scope x"
    then have "x \<in> set (slots d)" "\<not> (sl_id x = sl_id a \<and> sl_state x = ''active'')"
      using that by (auto simp: expiring_def set_update_where active_in_def)
    moreover from this(1) x have "x \<in> set (filter (active_in scope) (slots d))" by simp
    then have "x = a" using active_once [OF assms] by simp
    ultimately show False using x by (simp add: active_in_def)
  qed
  then show ?thesis by (simp add: filter_empty_conv)
qed

text \<open>The operations that end the hold of an active slot.\<close>

fun ends_hold :: "slot_row \<Rightarrow> slot_op \<Rightarrow> bool" where
  "ends_hold r (Release_slot i lease now) = (i = sl_id r \<and> lease = sl_lease r)"
| "ends_hold r (Acquire_slot q) = (slot_scope q = slot_scope r \<and> slot_expired r (sl_acquired_at q) = Inr True)"
| "ends_hold r _ = False"

lemma hold_kept:
  assumes ok: "slots_ok d" and r: "r \<in> set (slots d)" "sl_state r = ''active''" and op: "\<not> ends_hold r op"
  shows "r \<in> set (slots (run_slot_op op d))"
proof (cases op)
  case (Ensure_policy t m p f now n v metadata)
  then show ?thesis
    using ensure_policy_slots [of t m p f now n v metadata d] r by (metis prod.collapse run_slot_op.simps(1))
next
  case (Acquire_slot q)
  obtain res d' where run: "acquire_project_runtime_slot q d = (res, d')" by fastforce
  have kept: "r \<in> set (expiring a (sl_acquired_at q) (slots d))"
    if a: "a \<in> set (slots d)" "active_in (slot_scope q) a" "slot_expired a (sl_acquired_at q) = Inr True" for a
  proof -
    have "r \<noteq> a" using a(2,3) op Acquire_slot by (auto simp: active_in_def)
    then have "sl_id r \<noteq> sl_id a" using ok r(1) a(1) by (auto simp: slots_ok_def distinct_map dest: inj_onD)
    then show ?thesis using r(1) by (force simp: expiring_def set_update_where)
  qed
  have "r \<in> set (slots d')"
    by (cases rule: acquire_cases [OF run ok]) (use r kept in auto)
  then show ?thesis using Acquire_slot run by simp
next
  case (Release_slot i lease now)
  obtain res d' where run: "release_project_runtime_slot i lease now d = (res, d')" by fastforce
  have "r \<in> set (slots d')"
    by (cases rule: release_cases [OF run]) (use r op Release_slot in \<open>force simp: set_update_where\<close>)+
  then show ?thesis using Release_slot run by simp
qed

section \<open>Properties\<close>

text \<open>
  C12: A lock has one holder: whatever operations came before, when an acquisition returns a slot, this slot has
  the requested key, holder and lease token and no other slot of the project and lock family is active; and while
  an active slot has not expired, an acquisition with another key, holder or lease token is refused and changes
  no slot.
\<close>

theorem slot_acquired_exclusively:
  assumes "slots_ok d" "acquire_project_runtime_slot r (fold run_slot_op ops d) = (res, d')"
  shows "(\<forall>a. res = Inr a \<longrightarrow> filter (active_in (slot_scope r)) (slots d') = [a] \<and> same_slot_request a r)
    \<and> (\<forall>b\<in>set (slots (fold run_slot_op ops d)).
         active_in (slot_scope r) b \<and> slot_expired b (sl_acquired_at r) \<noteq> Inr True \<and> \<not> same_slot_request b r \<longrightarrow>
         isl res \<and> slots d' = slots (fold run_slot_op ops d))"
proof -
  note ok = runs_slots_ok [OF assms(1), of ops]
  have one: "a = b" if "a \<in> set (slots (fold run_slot_op ops d))" "active_in (slot_scope r) a"
    "b \<in> set (slots (fold run_slot_op ops d))" "active_in (slot_scope r) b" for a b
    using active_once [OF ok that(1,2)] active_once [OF ok that(3,4)] by simp
  show ?thesis
    using assms(2)
  proof (cases rule: acquire_cases [OF assms(2) ok])
    case (2 a e)
    have "slot_expired b (sl_acquired_at r) = Inr True"
      if "b \<in> set (slots (fold run_slot_op ops d))" "active_in (slot_scope r) b" for b
      using one [OF that 2(2,3)] 2(4) by (simp only:)
    with 2(1) show ?thesis by (simp only: sum.distinct) blast
  next
    case (3 a)
    have "same_slot_request b r" if "b \<in> set (slots (fold run_slot_op ops d))" "active_in (slot_scope r) b" for b
      using one [OF that 3(2,3)] 3(4) by (simp only:)
    moreover have "filter (active_in (slot_scope r)) (slots d') = [a]"
      unfolding 3(6) by (rule active_once [OF ok 3(2,3)])
    ultimately show ?thesis using 3(1,4) by (simp only: sum.inject) blast
  next
    case (4 rows)
    have "filter (active_in (slot_scope r)) rows = []"
      using 4(5) nothing_active_after_expiry [OF ok, where scope = "slot_scope r"] by auto
    moreover have "active_in (slot_scope r) (acquired_row r)" "same_slot_request (acquired_row r) r"
      by (simp_all add: active_in_def slot_scope_def acquired_row_def same_slot_request_def)
    moreover have "slot_expired b (sl_acquired_at r) = Inr True"
      if "b \<in> set (slots (fold run_slot_op ops d))" "active_in (slot_scope r) b" for b
    proof -
      have "filter (active_in (slot_scope r)) (slots (fold run_slot_op ops d)) \<noteq> []"
        using that unfolding filter_empty_conv by blast
      with 4(5) obtain a where a: "a \<in> set (slots (fold run_slot_op ops d))" "active_in (slot_scope r) a"
        "slot_expired a (sl_acquired_at r) = Inr True" by blast
      show ?thesis using one [OF that a(1,2)] a(3) by (simp only:)
    qed
    ultimately show ?thesis using 4(1,2) by (simp only: sum.inject filter.simps filter_append append_Nil simp_thms if_True) blast
  qed simp_all
qed

definition slot_sample_db :: db where
  "slot_sample_db = empty_db\<lparr>projects := [\<lparr>pj_id = ''p'', pj_tenant = ''t'', pj_domain = ''d'', pj_key = ''k'',
     pj_name = ''P'', pj_state = ''active'', pj_metadata = [], pj_creator_id = ''ann'', pj_creator_type = ''human'',
     pj_created_at = ''t0'', pj_updated_at = ''t0''\<rparr>]\<rparr>"

definition slot_request :: "string \<Rightarrow> string \<Rightarrow> slot_row" where
  "slot_request i holder = \<lparr>sl_id = i, sl_tenant = ''t'', sl_domain = ''d'', sl_project = ''p'', sl_family = ''ingest'',
     sl_key = ''ingest:1'', sl_holder = holder, sl_lease = ''lease-'' @ holder, sl_state = [], sl_active = None,
     sl_acquired_at = ''t1'', sl_expires_at = None, sl_released_at = None, sl_metadata = [], sl_created_at = [],
     sl_updated_at = []\<rparr>"

lemma slot_sample_ok: "slots_ok slot_sample_db"
  by (simp add: slots_ok_def slot_sample_db_def empty_db_def)

theorem slot_acquired_exclusively_witness:
  "map sl_id (filter (active_in (slot_scope (slot_request ''b'' ''bob''))) (slots (snd (acquire_project_runtime_slot
     (slot_request ''b'' ''bob'') (fold run_slot_op [Acquire_slot (slot_request ''a'' ''ann''), Release_slot ''a'' ''lease-ann'' ''t2'']
       slot_sample_db))))) = [''b'']
   \<and> isl (fst (acquire_project_runtime_slot (slot_request ''b'' ''bob'')
       (fold run_slot_op [Acquire_slot (slot_request ''a'' ''ann'')] slot_sample_db)))
   \<and> slots (snd (acquire_project_runtime_slot (slot_request ''b'' ''bob'')
       (fold run_slot_op [Acquire_slot (slot_request ''a'' ''ann'')] slot_sample_db))) = [acquired_row (slot_request ''a'' ''ann'')]"
proof -
  let ?ann = "acquired_row (slot_request ''a'' ''ann'')"
  let ?d = "fold run_slot_op [Acquire_slot (slot_request ''a'' ''ann''), Release_slot ''a'' ''lease-ann'' ''t2''] slot_sample_db"
  let ?e = "fold run_slot_op [Acquire_slot (slot_request ''a'' ''ann'')] slot_sample_db"
  obtain res d' where run: "acquire_project_runtime_slot (slot_request ''b'' ''bob'') ?d = (res, d')" by fastforce
  have "(case fst (acquire_project_runtime_slot (slot_request ''b'' ''bob'') ?d) of Inr a \<Rightarrow> sl_id a = ''b'' | Inl e \<Rightarrow> False)"
    by code_simp
  then obtain a where "res = Inr a" "sl_id a = ''b''" using run by (auto split: sum.splits)
  with slot_acquired_exclusively [OF slot_sample_ok run] run
  have given: "map sl_id (filter (active_in (slot_scope (slot_request ''b'' ''bob'')))
      (slots (snd (acquire_project_runtime_slot (slot_request ''b'' ''bob'') ?d)))) = [''b'']" by simp
  have held: "slots ?e = [?ann]" by code_simp
  have other: "active_in (slot_scope (slot_request ''b'' ''bob'')) ?ann" "\<not> same_slot_request ?ann (slot_request ''b'' ''bob'')"
    "slot_expired ?ann (sl_acquired_at (slot_request ''b'' ''bob'')) \<noteq> Inr True"
    by (simp_all add: active_in_def slot_scope_def acquired_row_def slot_request_def same_slot_request_def slot_expired_def)
  have "acquire_project_runtime_slot (slot_request ''b'' ''bob'') ?e =
      (fst (acquire_project_runtime_slot (slot_request ''b'' ''bob'') ?e), snd (acquire_project_runtime_slot (slot_request ''b'' ''bob'') ?e))"
    by (rule prod.collapse [symmetric])
  from slot_acquired_exclusively [OF slot_sample_ok this, THEN conjunct2] other given show ?thesis
    unfolding held by (simp only: list.set) blast
qed

text \<open>
  C13: Nobody loses a slot that is his: an active slot stays exactly as it is over any operations, other holders'
  acquisitions and releases under other lease tokens included, unless it is released under its own lease token
  or an acquisition comes at or after its expiry time.
\<close>

theorem active_slot_kept:
  assumes "slots_ok d" "r \<in> set (slots d)" "sl_state r = ''active''"
    and "\<And>op. op \<in> set ops \<Longrightarrow> \<not> ends_hold r op"
  shows "r \<in> set (slots (fold run_slot_op ops d))"
  using assms
proof (induction ops arbitrary: d)
  case (Cons op ops)
  have "r \<in> set (slots (run_slot_op op d))" using Cons.prems by (intro hold_kept) simp_all
  from Cons.IH [OF run_slot_op_ok [OF Cons.prems(1)] this Cons.prems(3)] Cons.prems(4) show ?case by simp
qed simp

theorem active_slot_kept_witness:
  "\<exists>r\<in>set (slots (fold run_slot_op [Acquire_slot (slot_request ''b'' ''bob''), Release_slot ''a'' ''lease-bob'' ''t2'']
     (run_slot_op (Acquire_slot (slot_request ''a'' ''ann'')) slot_sample_db))). sl_holder r = ''ann'' \<and> sl_state r = ''active''"
proof -
  let ?d = "run_slot_op (Acquire_slot (slot_request ''a'' ''ann'')) slot_sample_db"
  have "slots ?d = [acquired_row (slot_request ''a'' ''ann'')]" by code_simp
  then have r: "acquired_row (slot_request ''a'' ''ann'') \<in> set (slots ?d)" by simp
  have row: "sl_state (acquired_row (slot_request ''a'' ''ann'')) = ''active''" "sl_holder (acquired_row (slot_request ''a'' ''ann'')) = ''ann''"
    by (simp_all add: acquired_row_def slot_request_def)
  have "\<not> ends_hold (acquired_row (slot_request ''a'' ''ann'')) op"
    if "op \<in> set [Acquire_slot (slot_request ''b'' ''bob''), Release_slot ''a'' ''lease-bob'' ''t2'']" for op
    using that by (auto simp: acquired_row_def slot_request_def slot_expired_def)
  from active_slot_kept [OF run_slot_op_ok [OF slot_sample_ok] r row(1) this] row show ?thesis by blast
qed

text \<open>
  The joined keys are ambiguous: projects of different scopes whose names contain colons can have the same key, and then a
  slot of one keeps the other from getting one, with an integrity error.
\<close>

lemma scope_keys_collide:
  "active_family_key ''t'' ''a'' ''b:c'' f = active_family_key ''t'' ''a:b'' ''c'' f"
  by (simp add: active_family_key_def)

end
