(* ===== verification/Source_Occurrences.thy ===== *)
theory Source_Occurrences
  imports Store
begin

text \<open>
  The register of source occurrences and the identities of their contents,
  \<open>src/onetruth/infrastructure/repositories/capex_source_occurrences.py\<close>, and the resolution of source refs
  against it, \<open>src/onetruth/capex_platform/source_refs.py\<close>. \<open>SourceRefResolutionError\<close> carries the
  resolutions, which its one caller reads, so it is the left side of a sum of its own.
\<close>

section \<open>Content identities\<close>

definition content_identity_id :: "string \<Rightarrow> string \<Rightarrow> string \<Rightarrow> string \<Rightarrow> string" where
  "content_identity_id tenant_id domain_id digest_algorithm content_digest =
     ''cci:'' @ tenant_id @ '':'' @ domain_id @ '':'' @ py_lower digest_algorithm @ '':'' @ py_lower content_digest"

definition insert_content_identity :: "content_identity_row \<Rightarrow> (unit, db) comp" where
  "insert_content_identity r d =
     (if exists_row (\<lambda>x. ci_tenant x = ci_tenant r \<and> ci_domain x = ci_domain r
        \<and> ci_algorithm x = ci_algorithm r \<and> ci_digest x = ci_digest r) (content_identities d)
      then raise (IntegrityError (''UNIQUE constraint failed: capex_content_identities.tenant_id, ''
        @ ''capex_content_identities.domain_id, capex_content_identities.digest_algorithm, ''
        @ ''capex_content_identities.content_digest'')) d
      else if exists_row (\<lambda>x. ci_id x = ci_id r) (content_identities d)
      then raise (IntegrityError ''UNIQUE constraint failed: capex_content_identities.content_identity_id'') d
      else (Inr (), d\<lparr>content_identities := content_identities d @ [r]\<rparr>))"

definition create_content_identity :: "content_identity_row \<Rightarrow> (unit, db) comp" where
  "create_content_identity r = with_integers (case ci_byte_size r of None \<Rightarrow> [] | Some n \<Rightarrow> [n])
     (insert_content_identity (r\<lparr>ci_metadata := sort_dict (ci_metadata r)\<rparr>))"

definition get_content_identity :: "db \<Rightarrow> string \<Rightarrow> content_identity_row option" where
  "get_content_identity d i = select_one (\<lambda>r. ci_id r = i) (content_identities d)"

definition get_content_identity_by_digest ::
    "db \<Rightarrow> string \<Rightarrow> string \<Rightarrow> string \<Rightarrow> string \<Rightarrow> content_identity_row option" where
  "get_content_identity_by_digest d tenant_id domain_id digest_algorithm content_digest =
     select_one (\<lambda>r. ci_tenant r = tenant_id \<and> ci_domain r = domain_id \<and> ci_algorithm r = digest_algorithm
       \<and> ci_digest r = content_digest) (content_identities d)"

text \<open>\<open>INSERT ... ON CONFLICT(tenant_id, domain_id, digest_algorithm, content_digest) DO NOTHING\<close>; that conflict is
  looked for first. The id is the one asked for, unless it is absent or empty.\<close>

definition upsert_content_identity :: "content_identity_row \<Rightarrow> string option \<Rightarrow> (string, db) comp" where
  "upsert_content_identity r requested_content_identity_id =
     (let resolved_id = (case requested_content_identity_id of
            Some i \<Rightarrow> if i \<noteq> [] then i else content_identity_id (ci_tenant r) (ci_domain r) (ci_algorithm r) (ci_digest r)
          | None \<Rightarrow> content_identity_id (ci_tenant r) (ci_domain r) (ci_algorithm r) (ci_digest r));
          existing = (\<lambda>d. get_content_identity_by_digest d (ci_tenant r) (ci_domain r) (ci_algorithm r) (ci_digest r)) in
      seq (with_integers (case ci_byte_size r of None \<Rightarrow> [] | Some n \<Rightarrow> [n])
            (\<lambda>d. if existing d \<noteq> None then (Inr (), d)
                 else insert_content_identity (r\<lparr>ci_id := resolved_id, ci_metadata := sort_dict (ci_metadata r)\<rparr>) d)) (\<lambda>_.
      seq (read_back existing) (\<lambda>row. ret (ci_id row))))"

section \<open>Source occurrences\<close>

definition source_ref_prefix :: string where
  "source_ref_prefix = ''source_occurrence:''"

definition source_occurrence_statuses :: "string list" where
  "source_occurrence_statuses = [''available'', ''quarantined'', ''redacted'', ''superseded'', ''deleted'']"

definition resolvable_source_occurrence_statuses :: "string list" where
  "resolvable_source_occurrence_statuses = [''available'']"

definition source_ref_for_occurrence :: "string \<Rightarrow> string" where
  "source_ref_for_occurrence source_occurrence_id = source_ref_prefix @ source_occurrence_id"

definition parse_source_occurrence_ref :: "string \<Rightarrow> string option" where
  "parse_source_occurrence_ref source_ref =
     (let source_occurrence_id = drop (length source_ref_prefix) source_ref
      in if \<not> prefix source_ref_prefix source_ref \<or> source_occurrence_id = [] \<or> list_ex is_space source_occurrence_id
         then None else Some source_occurrence_id)"

definition insert_source_occurrence :: "source_occurrence_row \<Rightarrow> (unit, db) comp" where
  "insert_source_occurrence r d =
     (if exists_row (\<lambda>x. so_tenant x = so_tenant r \<and> so_domain x = so_domain r \<and> so_ref x = so_ref r)
        (source_occurrences d)
      then raise (IntegrityError (''UNIQUE constraint failed: capex_source_occurrences.tenant_id, ''
        @ ''capex_source_occurrences.domain_id, capex_source_occurrences.source_ref'')) d
      else if exists_row (\<lambda>x. so_id x = so_id r) (source_occurrences d)
      then raise (IntegrityError ''UNIQUE constraint failed: capex_source_occurrences.source_occurrence_id'') d
      else if \<not> fk_ok (so_project r) (map pj_id (projects d)) \<or> so_content r \<notin> set (map ci_id (content_identities d))
      then raise fk_failed d
      else (Inr (), d\<lparr>source_occurrences := source_occurrences d @ [r]\<rparr>))"

definition create_source_occurrence :: "source_occurrence_row \<Rightarrow> string option \<Rightarrow> (unit, db) comp" where
  "create_source_occurrence r source_ref =
     seq (of_result (require (so_status r \<in> set source_occurrence_statuses) ValueError)) (\<lambda>_.
     insert_source_occurrence (r\<lparr>
       so_ref := (case source_ref of Some s \<Rightarrow> if s \<noteq> [] then s else source_ref_for_occurrence (so_id r)
                  | None \<Rightarrow> source_ref_for_occurrence (so_id r)),
       so_locator := sort_dict (so_locator r), so_metadata := sort_dict (so_metadata r),
       so_updated_at := so_created_at r\<rparr>))"

definition update_source_occurrence_status :: "string \<Rightarrow> string \<Rightarrow> string \<Rightarrow> (unit, db) comp" where
  "update_source_occurrence_status source_occurrence_id status updated_at =
     seq (of_result (require (status \<in> set source_occurrence_statuses) ValueError)) (\<lambda>_.
     modify (\<lambda>d. d\<lparr>source_occurrences := update_where (\<lambda>r. so_id r = source_occurrence_id)
       (\<lambda>r. r\<lparr>so_status := status, so_updated_at := updated_at\<rparr>) (source_occurrences d)\<rparr>))"

definition get_source_occurrence :: "db \<Rightarrow> string \<Rightarrow> source_occurrence_row option" where
  "get_source_occurrence d source_occurrence_id = select_one (\<lambda>r. so_id r = source_occurrence_id) (source_occurrences d)"

definition get_source_occurrence_by_ref :: "db \<Rightarrow> string \<Rightarrow> source_occurrence_row option" where
  "get_source_occurrence_by_ref d source_ref = select_one (\<lambda>r. so_ref r = source_ref) (source_occurrences d)"

text \<open>The first row with this ref, in any tenant, that has a content identity: a \<open>JOIN\<close> along its primary key.\<close>

definition get_source_occurrence_with_content_identity ::
    "db \<Rightarrow> string \<Rightarrow> (source_occurrence_row \<times> content_identity_row) option" where
  "get_source_occurrence_with_content_identity d source_ref =
     (case List.map_filter (\<lambda>r. if so_ref r = source_ref
            then map_option (\<lambda>c. (r, c)) (get_content_identity d (so_content r)) else None) (source_occurrences d) of
        [] \<Rightarrow> None | x # _ \<Rightarrow> Some x)"

section \<open>Resolution of source refs\<close>

record source_resolution =
  rs_ref :: string
  rs_resolved :: bool
  rs_denial :: "string option"
  rs_occurrence :: "string option"
  rs_scope :: "(string \<times> string \<times> string option) option"
  rs_status :: "string option"
  rs_content :: "content_identity_row option"

definition resolution_from_row ::
    "source_occurrence_row \<times> content_identity_row \<Rightarrow> bool \<Rightarrow> string option \<Rightarrow> source_resolution" where
  "resolution_from_row row resolved denial_reason =
     (case row of (r, c) \<Rightarrow> \<lparr>rs_ref = so_ref r, rs_resolved = resolved, rs_denial = denial_reason, rs_occurrence = Some (so_id r),
        rs_scope = Some (so_tenant r, so_domain r, so_project r), rs_status = Some (so_status r), rs_content = Some c\<rparr>)"

definition resolve_source_ref :: "db \<Rightarrow> string \<Rightarrow> string \<Rightarrow> string \<Rightarrow> string option \<Rightarrow> source_resolution" where
  "resolve_source_ref d source_ref tenant_id domain_id project_id =
     (case parse_source_occurrence_ref source_ref of
        None \<Rightarrow> \<lparr>rs_ref = source_ref, rs_resolved = False, rs_denial = Some ''malformed_source_ref'', rs_occurrence = None,
          rs_scope = None, rs_status = None, rs_content = None\<rparr>
      | Some source_occurrence_id \<Rightarrow>
          (case get_source_occurrence_with_content_identity d source_ref of
             None \<Rightarrow> \<lparr>rs_ref = source_ref, rs_resolved = False, rs_denial = Some ''source_occurrence_not_found'',
               rs_occurrence = Some source_occurrence_id, rs_scope = None, rs_status = None, rs_content = None\<rparr>
           | Some (r, c) \<Rightarrow>
               if so_tenant r \<noteq> tenant_id \<or> so_domain r \<noteq> domain_id \<or> so_project r \<noteq> project_id
               then resolution_from_row (r, c) False (Some ''source_occurrence_scope_mismatch'')
               else if so_status r \<notin> set resolvable_source_occurrence_statuses
               then resolution_from_row (r, c) False (Some (''source_occurrence_status_not_resolvable:'' @ so_status r))
               else resolution_from_row (r, c) True None))"

definition require_meaningful_source_refs ::
    "db \<Rightarrow> string list \<Rightarrow> string \<Rightarrow> string \<Rightarrow> string option \<Rightarrow> source_resolution list + source_resolution list" where
  "require_meaningful_source_refs d source_refs tenant_id domain_id project_id =
     (if source_refs = [] then Inl []
      else let resolutions = map (\<lambda>source_ref. resolve_source_ref d source_ref tenant_id domain_id project_id) source_refs
           in if list_ex (\<lambda>x. \<not> rs_resolved x) resolutions then Inl resolutions else Inr resolutions)"

text \<open>What it means that a ref resolves.\<close>

definition ref_resolves :: "db \<Rightarrow> string \<Rightarrow> string \<Rightarrow> string option \<Rightarrow> string \<Rightarrow> bool" where
  "ref_resolves d tenant_id domain_id project_id source_ref \<longleftrightarrow>
     parse_source_occurrence_ref source_ref \<noteq> None
     \<and> (\<exists>r c. get_source_occurrence_with_content_identity d source_ref = Some (r, c) \<and> so_tenant r = tenant_id
          \<and> so_domain r = domain_id \<and> so_project r = project_id \<and> so_status r = ''available'')"

lemma resolved_iff: "rs_resolved (resolve_source_ref d s t m p) = ref_resolves d t m p s"
  by (auto simp: resolve_source_ref_def ref_resolves_def resolution_from_row_def resolvable_source_occurrence_statuses_def
      split: option.splits)

lemma found_row:
  assumes "get_source_occurrence_with_content_identity d s = Some (r, c)"
  shows "r \<in> set (source_occurrences d)" "so_ref r = s" "c \<in> set (content_identities d)" "ci_id c = so_content r"
proof -
  let ?f = "\<lambda>r. if so_ref r = s then map_option (\<lambda>c. (r, c)) (get_content_identity d (so_content r)) else None"
  have "(r, c) \<in> set (List.map_filter ?f (source_occurrences d))"
    using assms by (auto simp: get_source_occurrence_with_content_identity_def split: list.splits)
  then have "\<exists>x\<in>set (source_occurrences d). ?f x = Some (r, c)" unfolding in_map_filter .
  then show "r \<in> set (source_occurrences d)" "so_ref r = s" "c \<in> set (content_identities d)" "ci_id c = so_content r"
    by (auto simp: get_content_identity_def split: if_splits dest: select_one_Some)
qed

lemma meaningful_iff:
  "require_meaningful_source_refs d refs t m p = (if refs \<noteq> [] \<and> (\<forall>s\<in>set refs. ref_resolves d t m p s)
     then Inr (map (\<lambda>s. resolve_source_ref d s t m p) refs)
     else Inl (map (\<lambda>s. resolve_source_ref d s t m p) refs))"
  by (auto simp: require_meaningful_source_refs_def Let_def list_ex_iff resolved_iff)

lemma resolved_ref: "rs_ref (resolve_source_ref d s t m p) = s"
  by (auto simp: resolve_source_ref_def resolution_from_row_def found_row(2) split: option.splits)

end
