(* ===== verification/Closure_Governance.thy ===== *)
theory Closure_Governance
  imports Source_Occurrences
begin

text \<open>
  Closing a target of a project against evidence: waivers, gate evaluations and closure snapshots,
  \<open>src/onetruth/infrastructure/repositories/capex_closure_governance.py\<close>, and the operations of
  \<open>src/onetruth/capex_platform/closure_governance.py\<close>. An evaluation asks for every required dimension whether its
  source refs resolve or an active waiver covers it; a snapshot is taken from an evaluation that did not fail and
  goes stale when something it was based on changes. The time is an argument. Keyword arguments that become
  columns are passed as the row they make; the columns the function fills in itself are overwritten.
\<close>

section \<open>The tables\<close>

definition waiver_states :: "string list" where
  "waiver_states = [''active'', ''revoked'', ''expired'']"

definition closure_evaluation_results :: "string list" where
  "closure_evaluation_results = [''pass'', ''fail'', ''satisfied_by_waiver'']"

definition closure_snapshot_states :: "string list" where
  "closure_snapshot_states = [''current'', ''stale'', ''reopened'']"

definition create_waiver :: "waiver_row \<Rightarrow> (unit, db) comp" where
  "create_waiver r d =
     (if wv_state r \<notin> set waiver_states then raise ValueError d
      else if exists_row (\<lambda>x. wv_id x = wv_id r) (waivers d)
      then raise (IntegrityError ''UNIQUE constraint failed: capex_waivers.waiver_id'') d
      else if \<not> fk_ok (wv_project r) (map pj_id (projects d)) then raise fk_failed d
      else (Inr (), d\<lparr>waivers := waivers d
             @ [r\<lparr>wv_metadata := sort_dict (wv_metadata r), wv_updated_at := wv_created_at r\<rparr>]\<rparr>))"

definition update_waiver_state :: "string \<Rightarrow> string \<Rightarrow> string \<Rightarrow> string option \<Rightarrow> (unit, db) comp" where
  "update_waiver_state waiver_id state updated_at revoked_at =
     seq (of_result (require (state \<in> set waiver_states) ValueError)) (\<lambda>_.
     modify (\<lambda>d. d\<lparr>waivers := update_where (\<lambda>r. wv_id r = waiver_id)
       (\<lambda>r. r\<lparr>wv_state := state, wv_revoked_at := revoked_at, wv_updated_at := updated_at\<rparr>) (waivers d)\<rparr>))"

definition get_waiver :: "db \<Rightarrow> string \<Rightarrow> waiver_row option" where
  "get_waiver d waiver_id = select_one (\<lambda>r. wv_id r = waiver_id) (waivers d)"

definition create_closure_gate_evaluation :: "evaluation_row \<Rightarrow> (unit, db) comp" where
  "create_closure_gate_evaluation r d =
     (if ge_result r \<notin> set closure_evaluation_results then raise ValueError d
      else if exists_row (\<lambda>x. ge_id x = ge_id r) (gate_evaluations d)
      then raise (IntegrityError
        ''UNIQUE constraint failed: capex_closure_gate_evaluations.closure_gate_evaluation_id'') d
      else if \<not> fk_ok (ge_project r) (map pj_id (projects d)) then raise fk_failed d
      else (Inr (), d\<lparr>gate_evaluations := gate_evaluations d
             @ [r\<lparr>ge_required := map sort_dict (ge_required r), ge_satisfied := map sort_dict (ge_satisfied r),
                  ge_missing := map sort_dict (ge_missing r), ge_waivers := map sort_dict (ge_waivers r),
                  ge_basis := sort_dict (ge_basis r), ge_metadata := sort_dict (ge_metadata r)\<rparr>]\<rparr>))"

definition get_closure_gate_evaluation :: "db \<Rightarrow> string \<Rightarrow> evaluation_row option" where
  "get_closure_gate_evaluation d i = select_one (\<lambda>r. ge_id r = i) (gate_evaluations d)"

definition create_closure_snapshot :: "snapshot_row \<Rightarrow> (unit, db) comp" where
  "create_closure_snapshot r d =
     (if sn_state r \<notin> set closure_snapshot_states \<or> sn_result r \<notin> set closure_evaluation_results then raise ValueError d
      else if exists_row (\<lambda>x. sn_id x = sn_id r) (closure_snapshots d)
      then raise (IntegrityError ''UNIQUE constraint failed: capex_closure_snapshots.closure_snapshot_id'') d
      else if \<not> fk_ok (sn_project r) (map pj_id (projects d)) \<or> sn_evaluation r \<notin> set (map ge_id (gate_evaluations d))
      then raise fk_failed d
      else (Inr (), d\<lparr>closure_snapshots := closure_snapshots d
             @ [r\<lparr>sn_basis := sort_dict (sn_basis r), sn_metadata := sort_dict (sn_metadata r), sn_stale_reason := None,
                  sn_stale_at := None, sn_reopened_at := None, sn_updated_at := sn_created_at r\<rparr>]\<rparr>))"

definition get_closure_snapshot :: "db \<Rightarrow> string \<Rightarrow> snapshot_row option" where
  "get_closure_snapshot d i = select_one (\<lambda>r. sn_id r = i) (closure_snapshots d)"

definition in_closure_scope :: "string option \<Rightarrow> string option \<Rightarrow> string option \<Rightarrow> snapshot_row \<Rightarrow> bool" where
  "in_closure_scope tenant_id domain_id project_id r \<longleftrightarrow>
     (tenant_id = None \<or> tenant_id = Some (sn_tenant r)) \<and> (domain_id = None \<or> domain_id = Some (sn_domain r))
     \<and> (project_id = None \<or> project_id = sn_project r)"

definition list_current_closure_snapshots ::
    "db \<Rightarrow> string option \<Rightarrow> string option \<Rightarrow> string option \<Rightarrow> snapshot_row list" where
  "list_current_closure_snapshots d tenant_id domain_id project_id =
     sort_key sn_created_at (sort_key sn_id (filter (\<lambda>r. sn_state r = ''current''
       \<and> in_closure_scope tenant_id domain_id project_id r) (closure_snapshots d)))"

definition stale_row :: "string \<Rightarrow> string \<Rightarrow> snapshot_row \<Rightarrow> snapshot_row" where
  "stale_row stale_reason stale_at r = r\<lparr>sn_state := ''stale'', sn_stale_reason := Some stale_reason,
     sn_stale_at := Some stale_at, sn_updated_at := stale_at\<rparr>"

definition mark_closure_snapshot_stale :: "string \<Rightarrow> string \<Rightarrow> string \<Rightarrow> (unit, db) comp" where
  "mark_closure_snapshot_stale closure_snapshot_id stale_reason stale_at =
     modify (\<lambda>d. d\<lparr>closure_snapshots := update_where (\<lambda>r. sn_id r = closure_snapshot_id \<and> sn_state r = ''current'')
       (stale_row stale_reason stale_at) (closure_snapshots d)\<rparr>)"

section \<open>Waivers\<close>

definition default_closure_policy_version :: string where
  "default_closure_policy_version = ''capex.closure.v1''"

definition grant_waiver :: "waiver_row \<Rightarrow> (waiver_row, db) comp" where
  "grant_waiver r = seq (create_waiver (r\<lparr>wv_state := ''active'', wv_revoked_at := None\<rparr>)) (\<lambda>_.
     read_back (\<lambda>d. get_waiver d (wv_id r)))"

definition waiver_is_active_in_scope ::
    "waiver_row \<Rightarrow> string \<Rightarrow> string \<Rightarrow> string option \<Rightarrow> string \<Rightarrow> string \<Rightarrow> string \<Rightarrow> string \<Rightarrow> bool" where
  "waiver_is_active_in_scope w tenant_id domain_id project_id closure_target_kind closure_target_ref dimension_id now_iso =
     (if wv_state w \<noteq> ''active'' then False
      else if wv_tenant w \<noteq> tenant_id \<or> wv_domain w \<noteq> domain_id then False
      else if wv_project w \<noteq> project_id then False
      else if (case wv_expires_at w of None \<Rightarrow> False | Some expires_at \<Rightarrow> expires_at < now_iso) then False
      else if wv_scope_kind w = ''closure_dimension'' then wv_scope_ref w = dimension_id
      else if wv_scope_kind w = ''closure_target''
      then wv_scope_ref w = closure_target_kind @ '':'' @ closure_target_ref
      else if wv_scope_kind w = ''capex_project'' then project_id = Some (wv_scope_ref w)
      else False)"

fun first_active_matching_waiver ::
    "db \<Rightarrow> string list \<Rightarrow> string \<Rightarrow> string \<Rightarrow> string option \<Rightarrow> string \<Rightarrow> string \<Rightarrow> string \<Rightarrow> string \<Rightarrow> waiver_row option" where
  "first_active_matching_waiver d [] t m p kind ref dimension now = None"
| "first_active_matching_waiver d (waiver_id # waiver_ids) t m p kind ref dimension now =
     (case get_waiver d waiver_id of
        None \<Rightarrow> first_active_matching_waiver d waiver_ids t m p kind ref dimension now
      | Some waiver \<Rightarrow>
          if waiver_is_active_in_scope waiver t m p kind ref dimension now then Some waiver
          else first_active_matching_waiver d waiver_ids t m p kind ref dimension now)"

section \<open>Evaluation of a gate\<close>

record closure_dimension =
  dm_id :: string
  dm_source_refs :: "string list"
  dm_waiver_ids :: "string list"

definition resolve_dimension_source_refs ::
    "db \<Rightarrow> closure_dimension \<Rightarrow> string \<Rightarrow> string \<Rightarrow> string option \<Rightarrow> bool \<times> string option \<times> string list" where
  "resolve_dimension_source_refs d dimension tenant_id domain_id project_id =
     (if dm_source_refs dimension = [] then (False, Some ''missing_source_refs'', [])
      else case require_meaningful_source_refs d (dm_source_refs dimension) tenant_id domain_id project_id of
        Inl resolutions \<Rightarrow> (False, Some ''unresolved_source_refs'', filter (\<lambda>s. s \<noteq> []) (map rs_ref resolutions))
      | Inr resolutions \<Rightarrow> (True, None, map rs_ref resolutions))"

text \<open>What one pass of the loop appends to the lists of satisfied and missing dimensions, waivers and basis refs.\<close>

record gate_progress =
  gp_required :: "dict list"
  gp_satisfied :: "dict list"
  gp_missing :: "dict list"
  gp_waivers :: "dict list"
  gp_basis :: "string list"

definition gate_start :: gate_progress where
  "gate_start = \<lparr>gp_required = [], gp_satisfied = [], gp_missing = [], gp_waivers = [], gp_basis = []\<rparr>"

definition evaluate_dimension ::
    "db \<Rightarrow> string \<Rightarrow> string \<Rightarrow> string option \<Rightarrow> string \<Rightarrow> string \<Rightarrow> string \<Rightarrow> closure_dimension \<Rightarrow> gate_progress \<Rightarrow> gate_progress" where
  "evaluate_dimension d t m p kind ref now dimension g0 =
     (case resolve_dimension_source_refs d dimension t m p of (satisfied, reason, basis_refs) \<Rightarrow>
      let name = (''dimension_id'', JStr (dm_id dimension));
          g = g0\<lparr>gp_required := gp_required g0 @ [[name]], gp_basis := gp_basis g0 @ basis_refs\<rparr> in
      if satisfied
      then g\<lparr>gp_satisfied := gp_satisfied g @ [[name, (''satisfied_by'', JStr ''source_refs''),
             (''source_refs'', JArr (map JStr (dm_source_refs dimension)))]]\<rparr>
      else case first_active_matching_waiver d (dm_waiver_ids dimension) t m p kind ref (dm_id dimension) now of
        Some w \<Rightarrow> g\<lparr>
          gp_waivers := gp_waivers g @ [[name, (''waiver_id'', JStr (wv_id w)), (''satisfied_by'', JStr ''waiver'')]],
          gp_satisfied := gp_satisfied g @ [[name, (''satisfied_by'', JStr ''waiver''), (''waiver_id'', JStr (wv_id w))]],
          gp_basis := gp_basis g @ [''waiver:'' @ wv_id w]\<rparr>
      | None \<Rightarrow> g\<lparr>gp_missing := gp_missing g @ [[name, (''reason'', JStr (case reason of
            Some s \<Rightarrow> if s \<noteq> [] then s else ''missing_source_refs'' | None \<Rightarrow> ''missing_source_refs''))]]\<rparr>)"

definition gate_result :: "gate_progress \<Rightarrow> string" where
  "gate_result g = (if gp_missing g \<noteq> [] then ''fail'' else if gp_waivers g \<noteq> [] then ''satisfied_by_waiver'' else ''pass'')"

definition evaluate_closure_gate :: "evaluation_row \<Rightarrow> closure_dimension list \<Rightarrow> (evaluation_row, db) comp" where
  "evaluate_closure_gate r dimensions =
     seq (of_result (require (dimensions \<noteq> []) ValueError)) (\<lambda>_.
     seq (asks (\<lambda>d. fold (evaluate_dimension d (ge_tenant r) (ge_domain r) (ge_project r) (ge_target_kind r) (ge_target r)
           (ge_created_at r)) dimensions gate_start)) (\<lambda>g.
     seq (create_closure_gate_evaluation (r\<lparr>ge_required := gp_required g, ge_satisfied := gp_satisfied g,
           ge_missing := gp_missing g, ge_waivers := gp_waivers g,
           ge_basis := [(''policy_version'', JStr (ge_version r)), (''basis_refs'', JArr (map JStr (sort (remdups (gp_basis g)))))],
           ge_result := gate_result g\<rparr>)) (\<lambda>_.
     read_back (\<lambda>d. get_closure_gate_evaluation d (ge_id r)))))"

section \<open>Snapshots\<close>

definition snapshot_from :: "evaluation_row \<Rightarrow> string \<Rightarrow> string \<Rightarrow> string \<Rightarrow> dict \<Rightarrow> string \<Rightarrow> snapshot_row" where
  "snapshot_from e closure_snapshot_id actor_id actor_type metadata created_at =
     \<lparr>sn_id = closure_snapshot_id, sn_evaluation = ge_id e, sn_tenant = ge_tenant e, sn_domain = ge_domain e,
      sn_project = ge_project e, sn_target_kind = ge_target_kind e, sn_target = ge_target e, sn_version = ge_version e,
      sn_state = ''current'', sn_result = ge_result e, sn_basis = ge_basis e, sn_metadata = metadata,
      sn_actor_id = actor_id, sn_actor_type = actor_type, sn_stale_reason = None, sn_stale_at = None,
      sn_reopened_at = None, sn_created_at = created_at, sn_updated_at = created_at\<rparr>"

definition create_closure_snapshot_from_evaluation ::
    "string \<Rightarrow> string \<Rightarrow> string \<Rightarrow> string \<Rightarrow> dict \<Rightarrow> string \<Rightarrow> (snapshot_row, db) comp" where
  "create_closure_snapshot_from_evaluation closure_snapshot_id closure_gate_evaluation_id actor_id actor_type metadata now =
     seq (asks (\<lambda>d. get_closure_gate_evaluation d closure_gate_evaluation_id)) (\<lambda>evaluation.
     case evaluation of
       None \<Rightarrow> raise ValueError
     | Some e \<Rightarrow>
         seq (of_result (require (ge_result e \<noteq> ''fail'') ValueError)) (\<lambda>_.
         seq (create_closure_snapshot (snapshot_from e closure_snapshot_id actor_id actor_type metadata now)) (\<lambda>_.
         read_back (\<lambda>d. get_closure_snapshot d closure_snapshot_id))))"

section \<open>Recurrence\<close>

record recurrence_rule =
  rr_id :: string
  rr_trigger :: string
  rr_action :: string

definition recurrence_rule_registry :: "recurrence_rule list \<Rightarrow> recurrence_rule list result" where
  "recurrence_rule_registry rules = (if distinct (map rr_id rules) then Inr rules else Inl ValueError)"

definition rules_for_trigger :: "recurrence_rule list \<Rightarrow> string \<Rightarrow> recurrence_rule list" where
  "rules_for_trigger registry trigger_kind = filter (\<lambda>rule. rr_trigger rule = trigger_kind) registry"

definition default_recurrence_rules :: "recurrence_rule list" where
  "default_recurrence_rules =
     [\<lparr>rr_id = ''source_occurrence_basis_changed'', rr_trigger = ''basis_ref_changed'', rr_action = ''mark_stale''\<rparr>,
      \<lparr>rr_id = ''waiver_lifecycle_changed'', rr_trigger = ''waiver_lifecycle_changed'', rr_action = ''mark_stale''\<rparr>]"

text \<open>All texts in a JSON value, the keys of objects included.\<close>

fun strings_in :: "json \<Rightarrow> string list" where
  "strings_in (JStr s) = [s]"
| "strings_in (JObj kvs) = concat (map (\<lambda>p. fst p # strings_in (snd p)) kvs)"
| "strings_in (JArr vs) = concat (map strings_in vs)"
| "strings_in _ = []"

definition changed_basis :: "string list \<Rightarrow> snapshot_row \<Rightarrow> string list" where
  "changed_basis changed r = sort (remdups (filter (\<lambda>s. s \<in> set changed) (strings_in (JObj (sn_basis r)))))"

fun mark_stale_loop :: "string list \<Rightarrow> string \<Rightarrow> string \<Rightarrow> snapshot_row list \<Rightarrow> (string list, db) comp" where
  "mark_stale_loop changed trigger_kind now [] = ret []"
| "mark_stale_loop changed trigger_kind now (r # rest) =
     (if changed_basis changed r = [] then mark_stale_loop changed trigger_kind now rest
      else seq (mark_closure_snapshot_stale (sn_id r) (trigger_kind @ '':'' @ py_join '','' (changed_basis changed r)) now) (\<lambda>_.
        seq (mark_stale_loop changed trigger_kind now rest) (\<lambda>ids. ret (sn_id r # ids))))"

definition mark_stale_closure_snapshots_for_basis_refs ::
    "string list \<Rightarrow> string option \<Rightarrow> string option \<Rightarrow> string option \<Rightarrow> string \<Rightarrow> recurrence_rule list \<Rightarrow> string \<Rightarrow>
     (string list, db) comp" where
  "mark_stale_closure_snapshots_for_basis_refs changed tenant_id domain_id project_id trigger_kind registry now =
     (if changed = [] \<or> rules_for_trigger registry trigger_kind = [] then ret []
      else seq (asks (\<lambda>d. list_current_closure_snapshots d tenant_id domain_id project_id)) (\<lambda>rows.
        mark_stale_loop changed trigger_kind now rows))"

section \<open>What an evaluation decides\<close>

definition dimension_met ::
    "db \<Rightarrow> string \<Rightarrow> string \<Rightarrow> string option \<Rightarrow> string \<Rightarrow> string \<Rightarrow> string \<Rightarrow> closure_dimension \<Rightarrow> bool" where
  "dimension_met d t m p kind ref now dimension \<longleftrightarrow>
     (dm_source_refs dimension \<noteq> [] \<and> (\<forall>s\<in>set (dm_source_refs dimension). ref_resolves d t m p s))
     \<or> (\<exists>i\<in>set (dm_waiver_ids dimension). \<exists>w. get_waiver d i = Some w
          \<and> waiver_is_active_in_scope w t m p kind ref (dm_id dimension) now)"

lemma first_waiver_iff:
  "first_active_matching_waiver d ids t m p kind ref dimension now \<noteq> None \<longleftrightarrow>
     (\<exists>i\<in>set ids. \<exists>w. get_waiver d i = Some w \<and> waiver_is_active_in_scope w t m p kind ref dimension now)"
  by (induction ids) (auto split: option.splits)

lemma dimension_source_refs:
  "fst (resolve_dimension_source_refs d dimension t m p) \<longleftrightarrow>
     dm_source_refs dimension \<noteq> [] \<and> (\<forall>s\<in>set (dm_source_refs dimension). ref_resolves d t m p s)"
  by (auto simp: resolve_dimension_source_refs_def meaningful_iff)

definition named_dimension :: "string \<Rightarrow> dict \<Rightarrow> bool" where
  "named_dimension i entry \<longleftrightarrow> distinct (map fst entry) \<and> jget entry ''dimension_id'' = JStr i"

text \<open>What a pass adds for a dimension that is met, and for one that is not.\<close>

lemma evaluate_dimension_cases:
  obtains (met) x ws bs where "dimension_met d t m p kind ref now dimension" "named_dimension (dm_id dimension) x"
      "evaluate_dimension d t m p kind ref now dimension g = g\<lparr>gp_required := gp_required g @ [[(''dimension_id'', JStr (dm_id dimension))]],
        gp_satisfied := gp_satisfied g @ [x], gp_waivers := gp_waivers g @ ws, gp_basis := gp_basis g @ bs\<rparr>"
  | (missing) x bs where "\<not> dimension_met d t m p kind ref now dimension" "named_dimension (dm_id dimension) x"
      "evaluate_dimension d t m p kind ref now dimension g = g\<lparr>gp_required := gp_required g @ [[(''dimension_id'', JStr (dm_id dimension))]],
        gp_missing := gp_missing g @ [x], gp_basis := gp_basis g @ bs\<rparr>"
proof -
  obtain satisfied reason bs where resolved: "resolve_dimension_source_refs d dimension t m p = (satisfied, reason, bs)"
    using prod_cases3 by blast
  have refs: "satisfied \<longleftrightarrow> dm_source_refs dimension \<noteq> [] \<and> (\<forall>s\<in>set (dm_source_refs dimension). ref_resolves d t m p s)"
    using dimension_source_refs [of d dimension t m p] resolved by simp
  let ?waiver = "first_active_matching_waiver d (dm_waiver_ids dimension) t m p kind ref (dm_id dimension) now"
  consider "satisfied" | w where "\<not> satisfied" "?waiver = Some w" | "\<not> satisfied" "?waiver = None" by fastforce
  then show ?thesis
  proof cases
    case 1
    then have "dimension_met d t m p kind ref now dimension" using refs by (auto simp: dimension_met_def)
    moreover have "named_dimension (dm_id dimension) [(''dimension_id'', JStr (dm_id dimension)),
        (''satisfied_by'', JStr ''source_refs''), (''source_refs'', JArr (map JStr (dm_source_refs dimension)))]"
      by (simp add: named_dimension_def jget_def)
    ultimately show ?thesis
      by (rule met [where ws = "[]" and bs = bs]) (use 1 in \<open>simp add: evaluate_dimension_def resolved Let_def\<close>)
  next
    case (2 w)
    have "dimension_met d t m p kind ref now dimension"
      using first_waiver_iff [of d "dm_waiver_ids dimension" t m p kind ref "dm_id dimension" now] 2(2)
      by (auto simp: dimension_met_def)
    moreover have "named_dimension (dm_id dimension)
        [(''dimension_id'', JStr (dm_id dimension)), (''satisfied_by'', JStr ''waiver''), (''waiver_id'', JStr (wv_id w))]"
      by (simp add: named_dimension_def jget_def)
    ultimately show ?thesis
      by (rule met [where ws = "[[(''dimension_id'', JStr (dm_id dimension)), (''waiver_id'', JStr (wv_id w)),
          (''satisfied_by'', JStr ''waiver'')]]" and bs = "bs @ [''waiver:'' @ wv_id w]"]) (use 2 in \<open>simp add: evaluate_dimension_def resolved Let_def\<close>)
  next
    case 3
    have "\<not> dimension_met d t m p kind ref now dimension"
      using first_waiver_iff [of d "dm_waiver_ids dimension" t m p kind ref "dm_id dimension" now] 3 refs
      by (auto simp: dimension_met_def)
    moreover have "named_dimension (dm_id dimension) [(''dimension_id'', JStr (dm_id dimension)), (''reason'', JStr
        (case reason of Some s \<Rightarrow> if s \<noteq> [] then s else ''missing_source_refs'' | None \<Rightarrow> ''missing_source_refs''))]"
      by (simp add: named_dimension_def jget_def)
    ultimately show ?thesis
      by (rule missing [where bs = bs]) (use 3 in \<open>simp add: evaluate_dimension_def resolved Let_def\<close>)
  qed
qed

definition names_of :: "dict list \<Rightarrow> json set" where
  "names_of entries = (\<lambda>entry. jget entry ''dimension_id'') ` set entries"

definition gate_progress_ok :: "gate_progress \<Rightarrow> bool" where
  "gate_progress_ok g \<longleftrightarrow> names_of (gp_required g) = names_of (gp_satisfied g) \<union> names_of (gp_missing g)
     \<and> (\<forall>x\<in>set (gp_required g) \<union> set (gp_satisfied g) \<union> set (gp_missing g). distinct (map fst x))"

lemma dimensions_evaluated:
  assumes "gate_progress_ok g"
  shows "gate_progress_ok (fold (evaluate_dimension d t m p kind ref now) dims g)
    \<and> (gp_missing (fold (evaluate_dimension d t m p kind ref now) dims g) = [] \<longleftrightarrow>
         gp_missing g = [] \<and> (\<forall>x\<in>set dims. dimension_met d t m p kind ref now x))"
  using assms
proof (induction dims arbitrary: g)
  case (Cons x dims)
  show ?case
  proof (cases rule: evaluate_dimension_cases [of d t m p kind ref now x g])
    case (met e ws bs)
    then have "gate_progress_ok (evaluate_dimension d t m p kind ref now x g)"
      using Cons.prems by (auto simp: gate_progress_ok_def names_of_def named_dimension_def jget_def)
    from Cons.IH [OF this] met(1,3) show ?thesis by simp
  next
    case (missing e bs)
    then have "gate_progress_ok (evaluate_dimension d t m p kind ref now x g)"
      using Cons.prems by (auto simp: gate_progress_ok_def names_of_def named_dimension_def jget_def)
    from Cons.IH [OF this] missing(1,3) show ?thesis by simp
  qed
qed simp

lemma gate_start_ok: "gate_progress_ok gate_start"
  by (simp add: gate_progress_ok_def gate_start_def names_of_def)

text \<open>Storing sorts the keys of an entry, which leaves what stands under them.\<close>

lemma jget_sort_dict:
  assumes "distinct (map fst kvs)"
  shows "jget (sort_dict kvs) k = sort_json (jget kvs k)"
proof -
  let ?kvs = "map (\<lambda>p. (fst p, sort_json (snd p))) kvs"
  have keys: "distinct (map fst ?kvs)" using assms by (simp add: comp_def)
  have "mset (map fst (sort_key fst ?kvs)) = mset (map fst ?kvs)" by (simp add: image_mset.compositionality comp_def)
  then have "distinct (map fst (sort_key fst ?kvs))" using keys mset_eq_imp_distinct_iff by blast
  then have "map_of (sort_key fst ?kvs) = map_of ?kvs" using keys by (simp add: map_of_inject_set)
  moreover have "map_of ?kvs k = map_option sort_json (map_of kvs k)" by (induction kvs) auto
  ultimately show ?thesis by (simp add: jget_def sort_dict_def split: option.split)
qed

section \<open>The life of snapshots\<close>

datatype closure_op =
    Grant_waiver waiver_row
  | Move_waiver string string string "string option"
  | Evaluate_gate evaluation_row "closure_dimension list"
  | Take_snapshot string string string string dict string
  | Mark_stale "string list" "string option" "string option" "string option" string "recurrence_rule list" string
  | Move_source string string string

fun run_closure_op :: "closure_op \<Rightarrow> db \<Rightarrow> db" where
  "run_closure_op (Grant_waiver r) d = snd (grant_waiver r d)"
| "run_closure_op (Move_waiver i state now revoked) d = snd (update_waiver_state i state now revoked d)"
| "run_closure_op (Evaluate_gate r dims) d = snd (evaluate_closure_gate r dims d)"
| "run_closure_op (Take_snapshot i e actor type metadata now) d =
     snd (create_closure_snapshot_from_evaluation i e actor type metadata now d)"
| "run_closure_op (Mark_stale changed t m p trigger registry now) d =
     snd (mark_stale_closure_snapshots_for_basis_refs changed t m p trigger registry now d)"
| "run_closure_op (Move_source i status now) d = snd (update_source_occurrence_status i status now d)"

definition evaluation_row_ok :: "evaluation_row \<Rightarrow> bool" where
  "evaluation_row_ok e \<longleftrightarrow> names_of (ge_required e) = names_of (ge_satisfied e) \<union> names_of (ge_missing e)
     \<and> (ge_result e = ''fail'' \<longleftrightarrow> ge_missing e \<noteq> [])"

definition snapshot_of :: "evaluation_row \<Rightarrow> snapshot_row \<Rightarrow> bool" where
  "snapshot_of e s \<longleftrightarrow> sn_evaluation s = ge_id e \<and> sn_tenant s = ge_tenant e \<and> sn_domain s = ge_domain e
     \<and> sn_project s = ge_project e \<and> sn_target_kind s = ge_target_kind e \<and> sn_target s = ge_target e
     \<and> sn_version s = ge_version e \<and> sn_result s = ge_result e \<and> sn_basis s = sort_dict (ge_basis e)"

definition closure_ok :: "db \<Rightarrow> bool" where
  "closure_ok d \<longleftrightarrow> distinct (map ge_id (gate_evaluations d)) \<and> distinct (map sn_id (closure_snapshots d))
     \<and> (\<forall>e\<in>set (gate_evaluations d). evaluation_row_ok e)
     \<and> (\<forall>s\<in>set (closure_snapshots d). \<exists>e\<in>set (gate_evaluations d). ge_result e \<noteq> ''fail'' \<and> snapshot_of e s)"

lemma closure_frame:
  "gate_evaluations d' = gate_evaluations d \<Longrightarrow> closure_snapshots d' = closure_snapshots d \<Longrightarrow> closure_ok d' = closure_ok d"
  by (simp add: closure_ok_def)

lemma names_of_stored:
  assumes "\<forall>x\<in>set xs. distinct (map fst x)"
  shows "names_of (map sort_dict xs) = sort_json ` names_of xs"
  using assms by (force simp: names_of_def jget_sort_dict)

text \<open>A stored evaluation is the one computed, and it is what the call returns.\<close>

definition evaluated_row :: "db \<Rightarrow> evaluation_row \<Rightarrow> closure_dimension list \<Rightarrow> evaluation_row" where
  "evaluated_row d r dims =
     (let g = fold (evaluate_dimension d (ge_tenant r) (ge_domain r) (ge_project r) (ge_target_kind r) (ge_target r)
            (ge_created_at r)) dims gate_start
      in r\<lparr>ge_required := map sort_dict (gp_required g), ge_satisfied := map sort_dict (gp_satisfied g),
          ge_missing := map sort_dict (gp_missing g), ge_waivers := map sort_dict (gp_waivers g),
          ge_basis := sort_dict [(''policy_version'', JStr (ge_version r)),
            (''basis_refs'', JArr (map JStr (sort (remdups (gp_basis g)))))],
          ge_result := gate_result g, ge_metadata := sort_dict (ge_metadata r)\<rparr>)"

lemma evaluate_cases:
  assumes "evaluate_closure_gate r dims d = (res, d')"
  obtains e where "res = Inl e" "d' = d"
  | "res = Inr (evaluated_row d r dims)" "d' = d\<lparr>gate_evaluations := gate_evaluations d @ [evaluated_row d r dims]\<rparr>"
      "\<forall>x\<in>set (gate_evaluations d). ge_id x \<noteq> ge_id r" "dims \<noteq> []"
proof (cases "dims = []")
  case True
  then show ?thesis using assms that(1) by (auto simp: evaluate_closure_gate_def comp_simps)
next
  case False
  define g where "g = fold (evaluate_dimension d (ge_tenant r) (ge_domain r) (ge_project r) (ge_target_kind r) (ge_target r)
      (ge_created_at r)) dims gate_start"
  define row where "row = r\<lparr>ge_required := gp_required g, ge_satisfied := gp_satisfied g,
           ge_missing := gp_missing g, ge_waivers := gp_waivers g,
           ge_basis := [(''policy_version'', JStr (ge_version r)), (''basis_refs'', JArr (map JStr (sort (remdups (gp_basis g)))))],
           ge_result := gate_result g\<rparr>"
  have run: "seq (create_closure_gate_evaluation row) (\<lambda>_. read_back (\<lambda>d. get_closure_gate_evaluation d (ge_id r))) d = (res, d')"
    using assms False by (simp add: evaluate_closure_gate_def comp_simps g_def row_def)
  show ?thesis
  proof (cases "exists_row (\<lambda>x. ge_id x = ge_id row) (gate_evaluations d) \<or> \<not> fk_ok (ge_project row) (map pj_id (projects d))
      \<or> ge_result row \<notin> set closure_evaluation_results")
    case True
    then have "\<exists>e. create_closure_gate_evaluation row d = (Inl e, d)"
      by (auto simp: create_closure_gate_evaluation_def raise_def simp del: exists_row_iff)
    then obtain e where "create_closure_gate_evaluation row d = (Inl e, d)" ..
    with run that(1) show ?thesis by (auto simp: comp_simps)
  next
    case ok: False
    have stored: "evaluated_row d r dims = row\<lparr>ge_required := map sort_dict (ge_required row), ge_satisfied := map sort_dict (ge_satisfied row),
                  ge_missing := map sort_dict (ge_missing row), ge_waivers := map sort_dict (ge_waivers row),
                  ge_basis := sort_dict (ge_basis row), ge_metadata := sort_dict (ge_metadata row)\<rparr>"
      by (simp add: evaluated_row_def row_def g_def [symmetric] Let_def)
    have new: "\<forall>x\<in>set (gate_evaluations d). ge_id x \<noteq> ge_id r" using ok by (auto simp: row_def)
    have created: "create_closure_gate_evaluation row d =
        (Inr (), d\<lparr>gate_evaluations := gate_evaluations d @ [evaluated_row d r dims]\<rparr>)"
      unfolding stored using ok by (auto simp: create_closure_gate_evaluation_def)
    have "ge_id (evaluated_row d r dims) = ge_id r" by (simp add: evaluated_row_def Let_def)
    then have "get_closure_gate_evaluation (d\<lparr>gate_evaluations := gate_evaluations d @ [evaluated_row d r dims]\<rparr>) (ge_id r)
        = Some (evaluated_row d r dims)"
      using new by (simp add: get_closure_gate_evaluation_def select_one_append select_one_None [THEN iffD2])
    with run created new False that(2) show ?thesis by (auto simp: comp_simps read_back_def)
  qed
qed

lemma evaluated_row_ok: "evaluation_row_ok (evaluated_row d r dims)"
  and evaluated_result: "ge_result (evaluated_row d r dims) \<noteq> ''fail'' \<longleftrightarrow>
    (\<forall>x\<in>set dims. dimension_met d (ge_tenant r) (ge_domain r) (ge_project r) (ge_target_kind r) (ge_target r) (ge_created_at r) x)"
proof -
  define g where "g = fold (evaluate_dimension d (ge_tenant r) (ge_domain r) (ge_project r) (ge_target_kind r) (ge_target r)
      (ge_created_at r)) dims gate_start"
  have g: "gate_progress_ok g" "gp_missing g = [] \<longleftrightarrow> (\<forall>x\<in>set dims. dimension_met d (ge_tenant r) (ge_domain r)
      (ge_project r) (ge_target_kind r) (ge_target r) (ge_created_at r) x)"
    using dimensions_evaluated [OF gate_start_ok, of d "ge_tenant r" "ge_domain r" "ge_project r" "ge_target_kind r" "ge_target r"
        "ge_created_at r" dims]
    by (simp_all add: g_def gate_start_def)
  have result: "ge_result (evaluated_row d r dims) = ''fail'' \<longleftrightarrow> gp_missing g \<noteq> []"
    by (simp add: evaluated_row_def g_def [symmetric] Let_def gate_result_def)
  show "evaluation_row_ok (evaluated_row d r dims)"
    using g(1) result by (simp add: evaluation_row_ok_def evaluated_row_def g_def [symmetric] Let_def gate_progress_ok_def
        names_of_stored image_Un)
  show "ge_result (evaluated_row d r dims) \<noteq> ''fail'' \<longleftrightarrow>
    (\<forall>x\<in>set dims. dimension_met d (ge_tenant r) (ge_domain r) (ge_project r) (ge_target_kind r) (ge_target r) (ge_created_at r) x)"
    using result g(2) by simp
qed

lemma snapshot_cases:
  assumes "create_closure_snapshot_from_evaluation i ev actor type metadata now d = (res, d')"
  obtains e where "res = Inl e" "d' = d"
  | e s where "res = Inr s" "e \<in> set (gate_evaluations d)" "ge_result e \<noteq> ''fail''" "snapshot_of e s" "sn_id s = i" "sn_state s = ''current''"
      "d' = d\<lparr>closure_snapshots := closure_snapshots d @ [s]\<rparr>" "\<forall>x\<in>set (closure_snapshots d). sn_id x \<noteq> i"
proof (cases "get_closure_gate_evaluation d ev")
  case None
  then show ?thesis using assms that(1) by (auto simp: create_closure_snapshot_from_evaluation_def comp_simps)
next
  case (Some e)
  then have e: "e \<in> set (gate_evaluations d)" by (auto simp: get_closure_gate_evaluation_def dest: select_one_Some)
  let ?s = "snapshot_from e i actor type metadata now"
  let ?row = "?s\<lparr>sn_basis := sort_dict (sn_basis ?s), sn_metadata := sort_dict (sn_metadata ?s), sn_stale_reason := None,
                  sn_stale_at := None, sn_reopened_at := None, sn_updated_at := sn_created_at ?s\<rparr>"
  show ?thesis
  proof (cases "ge_result e = ''fail''")
    case True
    then show ?thesis using Some assms that(1) by (auto simp: create_closure_snapshot_from_evaluation_def comp_simps)
  next
    case False
    have run: "seq (create_closure_snapshot ?s) (\<lambda>_. read_back (\<lambda>d. get_closure_snapshot d i)) d = (res, d')"
      using Some assms False by (simp add: create_closure_snapshot_from_evaluation_def comp_simps)
    obtain r1 d1 where c: "create_closure_snapshot ?s d = (r1, d1)" by fastforce
    show ?thesis
    proof (cases r1)
      case (Inl x)
      then have "d1 = d" using c by (auto simp: create_closure_snapshot_def raise_def split: if_splits)
      with run c Inl that(1) show ?thesis by (auto simp: comp_simps)
    next
      case (Inr u)
      then have d1: "d1 = d\<lparr>closure_snapshots := closure_snapshots d @ [?row]\<rparr>" and new: "\<forall>x\<in>set (closure_snapshots d). sn_id x \<noteq> i"
        using c by (auto simp: create_closure_snapshot_def raise_def snapshot_from_def split: if_splits)
      have row: "sn_id ?row = i" "sn_state ?row = ''current''" "snapshot_of e ?row"
        by (simp_all add: snapshot_from_def snapshot_of_def)
      have "get_closure_snapshot d1 i = Some ?row"
        unfolding d1 using new row(1) by (simp add: get_closure_snapshot_def select_one_append select_one_None [THEN iffD2])
      with run c Inr have "res = Inr ?row" "d' = d1" by (auto simp: comp_simps read_back_def)
      with that(2) e False row d1 new show ?thesis by blast
    qed
  qed
qed

lemma snapshots_marked:
  assumes "closure_ok d" "\<And>r. q r \<Longrightarrow> sn_id (f r) = sn_id r \<and> (\<forall>e. snapshot_of e (f r) = snapshot_of e r)"
  shows "closure_ok (d\<lparr>closure_snapshots := map (\<lambda>r. if q r then f r else r) (closure_snapshots d)\<rparr>)"
proof -
  have ids: "map sn_id (map (\<lambda>r. if q r then f r else r) (closure_snapshots d)) = map sn_id (closure_snapshots d)"
    using assms(2) by simp
  have "distinct (map sn_id (map (\<lambda>r. if q r then f r else r) (closure_snapshots d)))"
    unfolding ids using assms(1) by (simp add: closure_ok_def)
  then show ?thesis using assms by (auto simp: closure_ok_def)
qed

lemma stale_row_simps [simp]:
  "sn_id (stale_row w t r) = sn_id r" "sn_state (stale_row w t r) = ''stale''" "snapshot_of e (stale_row w t r) = snapshot_of e r"
  "changed_basis c (stale_row w t r) = changed_basis c r"
  by (simp_all add: stale_row_def snapshot_of_def changed_basis_def)

definition outdated :: "string list \<Rightarrow> string \<Rightarrow> string \<Rightarrow> snapshot_row \<Rightarrow> snapshot_row" where
  "outdated changed trigger_kind now r = stale_row (trigger_kind @ '':'' @ py_join '','' (changed_basis changed r)) now r"

text \<open>The loop marks the rows it is given, each found again under its id.\<close>

lemma mark_stale_loop_marks:
  assumes "distinct (map sn_id (closure_snapshots d))" "distinct xs"
    and "\<And>x. x \<in> set xs \<Longrightarrow> x \<in> set (closure_snapshots d) \<and> sn_state x = ''current''"
  shows "mark_stale_loop changed trigger now xs d = (Inr (map sn_id (filter (\<lambda>x. changed_basis changed x \<noteq> []) xs)),
    d\<lparr>closure_snapshots := map (\<lambda>r. if r \<in> set xs \<and> changed_basis changed r \<noteq> [] then outdated changed trigger now r else r)
      (closure_snapshots d)\<rparr>)"
  using assms
proof (induction xs arbitrary: d)
  case Nil
  then show ?case by (simp add: comp_simps)
next
  case (Cons x xs)
  show ?case
  proof (cases "changed_basis changed x = []")
    case True
    have "(\<lambda>r. if r \<in> set (x # xs) \<and> changed_basis changed r \<noteq> [] then outdated changed trigger now r else r) =
        (\<lambda>r. if r \<in> set xs \<and> changed_basis changed r \<noteq> [] then outdated changed trigger now r else r)"
      using True by auto
    with True Cons.IH [OF Cons.prems(1)] Cons.prems(2,3) show ?thesis by simp
  next
    case False
    let ?S = "closure_snapshots d"
    let ?S1 = "map (\<lambda>r. if r = x then outdated changed trigger now r else r) ?S"
    let ?d1 = "d\<lparr>closure_snapshots := ?S1\<rparr>"
    have same: "sn_id r = sn_id x \<longleftrightarrow> r = x" if "r \<in> set ?S" for r
      using Cons.prems(1) Cons.prems(3) [of x] that by (auto simp: distinct_map dest: inj_onD)
    then have "update_where (\<lambda>r. sn_id r = sn_id x \<and> sn_state r = ''current'')
        (stale_row (trigger @ '':'' @ py_join '','' (changed_basis changed x)) now) ?S = ?S1"
      using Cons.prems(3) [of x] by (auto simp: update_where_def outdated_def)
    then have marked: "mark_closure_snapshot_stale (sn_id x) (trigger @ '':'' @ py_join '','' (changed_basis changed x)) now d
        = (Inr (), ?d1)"
      by (simp add: mark_closure_snapshot_stale_def comp_simps)
    have ids: "map sn_id ?S1 = map sn_id ?S" by (simp add: outdated_def)
    have rest: "y \<in> set ?S1 \<and> sn_state y = ''current''" if "y \<in> set xs" for y
      using Cons.prems(2,3) that by auto
    have IH: "mark_stale_loop changed trigger now xs ?d1 = (Inr (map sn_id (filter (\<lambda>x. changed_basis changed x \<noteq> []) xs)),
        ?d1\<lparr>closure_snapshots := map (\<lambda>r. if r \<in> set xs \<and> changed_basis changed r \<noteq> [] then outdated changed trigger now r else r)
          (closure_snapshots ?d1)\<rparr>)"
    proof (rule Cons.IH)
      show "distinct (map sn_id (closure_snapshots ?d1))" using Cons.prems(1) ids by (simp del: map_map)
      show "distinct xs" using Cons.prems(2) by simp
    qed (use rest in simp)
    have old: "outdated changed trigger now x \<notin> set xs"
      using Cons.prems(3) [of "outdated changed trigger now x"] by (auto simp: outdated_def)
    have "map (\<lambda>r. if r \<in> set xs \<and> changed_basis changed r \<noteq> [] then outdated changed trigger now r else r) ?S1 =
        map (\<lambda>r. if r \<in> set (x # xs) \<and> changed_basis changed r \<noteq> [] then outdated changed trigger now r else r) ?S"
      using old Cons.prems(2) False by auto
    with IH False marked show ?thesis by (simp add: comp_simps)
  qed
qed

lemma marks_stale:
  assumes "closure_ok d"
  shows "mark_stale_closure_snapshots_for_basis_refs changed t m p trigger registry now d =
    (if changed = [] \<or> rules_for_trigger registry trigger = [] then (Inr [], d)
     else (Inr (map sn_id (filter (\<lambda>x. changed_basis changed x \<noteq> []) (list_current_closure_snapshots d t m p))),
       d\<lparr>closure_snapshots := map (\<lambda>r. if sn_state r = ''current'' \<and> in_closure_scope t m p r \<and> changed_basis changed r \<noteq> []
          then outdated changed trigger now r else r) (closure_snapshots d)\<rparr>))"
proof -
  let ?xs = "list_current_closure_snapshots d t m p"
  have xs: "set ?xs = {r \<in> set (closure_snapshots d). sn_state r = ''current'' \<and> in_closure_scope t m p r}"
    by (auto simp: list_current_closure_snapshots_def)
  have distinct: "distinct (map sn_id (closure_snapshots d))" using assms by (simp add: closure_ok_def)
  then have "distinct ?xs" by (simp add: list_current_closure_snapshots_def distinct_map)
  with distinct xs have "mark_stale_loop changed trigger now ?xs d = (Inr (map sn_id (filter (\<lambda>x. changed_basis changed x \<noteq> []) ?xs)),
    d\<lparr>closure_snapshots := map (\<lambda>r. if r \<in> set ?xs \<and> changed_basis changed r \<noteq> [] then outdated changed trigger now r else r)
      (closure_snapshots d)\<rparr>)"
    by (intro mark_stale_loop_marks) auto
  moreover have "map (\<lambda>r. if r \<in> set ?xs \<and> changed_basis changed r \<noteq> [] then outdated changed trigger now r else r)
      (closure_snapshots d) = map (\<lambda>r. if sn_state r = ''current'' \<and> in_closure_scope t m p r \<and> changed_basis changed r \<noteq> []
          then outdated changed trigger now r else r) (closure_snapshots d)"
    using xs by auto
  ultimately show ?thesis by (auto simp: mark_stale_closure_snapshots_for_basis_refs_def comp_simps)
qed

lemma run_closure_op_ok:
  assumes ok: "closure_ok d"
  shows "closure_ok (run_closure_op op d)"
proof (cases op)
  case (Grant_waiver r)
  then show ?thesis using ok
    by (auto simp: grant_waiver_def create_waiver_def read_back_def seq_def asks_def ret_def raise_def closure_ok_def
        split: prod.splits sum.splits option.splits if_splits)
next
  case (Move_waiver i state now revoked)
  then show ?thesis using ok
    by (auto simp: update_waiver_state_def comp_simps require_def closure_ok_def seq_def of_result_def modify_def)
next
  case (Evaluate_gate r dims)
  obtain res d' where run: "evaluate_closure_gate r dims d = (res, d')" by fastforce
  have "closure_ok d'"
  proof (cases rule: evaluate_cases [OF run])
    case 2
    have id: "ge_id (evaluated_row d r dims) = ge_id r" by (simp add: evaluated_row_def Let_def)
    have old: "\<exists>e\<in>set (gate_evaluations d'). ge_result e \<noteq> ''fail'' \<and> snapshot_of e s"
      if "s \<in> set (closure_snapshots d)" for s
      using ok that 2(2) by (auto simp: closure_ok_def)
    have "distinct (map ge_id (gate_evaluations d'))" using ok 2(2,3) id by (auto simp: closure_ok_def)
    moreover have "\<forall>e\<in>set (gate_evaluations d'). evaluation_row_ok e"
      using ok 2(2) evaluated_row_ok [of d r dims] by (auto simp: closure_ok_def)
    ultimately show ?thesis using old ok 2(2) by (simp add: closure_ok_def)
  qed (use ok in simp)
  then show ?thesis using Evaluate_gate run by simp
next
  case (Take_snapshot i ev actor type metadata now)
  obtain res d' where run: "create_closure_snapshot_from_evaluation i ev actor type metadata now d = (res, d')" by fastforce
  have "closure_ok d'"
    by (cases rule: snapshot_cases [OF run]) (use ok in \<open>auto simp: closure_ok_def\<close>)
  then show ?thesis using Take_snapshot run by simp
next
  case (Mark_stale changed t m p trigger registry now)
  then show ?thesis using ok marks_stale [OF ok] snapshots_marked [OF ok] by (auto simp: outdated_def)
next
  case (Move_source i status now)
  then show ?thesis using ok
    by (auto simp: update_source_occurrence_status_def comp_simps require_def closure_ok_def seq_def of_result_def modify_def)
qed

lemma runs_closure_ok: "closure_ok d \<Longrightarrow> closure_ok (fold run_closure_op ops d)"
  by (induction ops arbitrary: d) (simp_all add: run_closure_op_ok)

section \<open>Properties\<close>

text \<open>
  C14: A gate is not failed exactly when every required dimension is met: its source refs, at least one, all resolve to
  available occurrences of the scope, or one of its waivers is active, in scope and not expired at the time.
\<close>

theorem gate_passes_iff_met:
  assumes "evaluate_closure_gate r dims d = (Inr e, d')"
  shows "ge_result e \<noteq> ''fail'' \<longleftrightarrow> (\<forall>x\<in>set dims.
     dimension_met d (ge_tenant r) (ge_domain r) (ge_project r) (ge_target_kind r) (ge_target r) (ge_created_at r) x)"
  by (cases rule: evaluate_cases [OF assms]) (simp_all add: evaluated_result)

definition closure_sample_db :: db where
  "closure_sample_db = empty_db\<lparr>waivers := [\<lparr>wv_id = ''w'', wv_tenant = ''t'', wv_domain = ''d'', wv_project = None,
     wv_scope_kind = ''closure_dimension'', wv_scope_ref = ''technical'', wv_state = ''active'', wv_reason = ''agreed'',
     wv_version = ''v'', wv_metadata = [], wv_actor_id = ''ann'', wv_actor_type = ''human'', wv_expires_at = None,
     wv_revoked_at = None, wv_created_at = ''t0'', wv_updated_at = ''t0''\<rparr>]\<rparr>"

definition sample_gate :: evaluation_row where
  "sample_gate = \<lparr>ge_id = ''e'', ge_tenant = ''t'', ge_domain = ''d'', ge_project = None, ge_target_kind = ''work'', ge_target = ''1'',
     ge_version = ''v'', ge_required = [], ge_satisfied = [], ge_missing = [], ge_waivers = [], ge_basis = [], ge_result = [],
     ge_metadata = [], ge_actor_id = ''ann'', ge_actor_type = ''human'', ge_created_at = ''t1''\<rparr>"

definition sample_dimension :: "string \<Rightarrow> closure_dimension" where
  "sample_dimension i = \<lparr>dm_id = i, dm_source_refs = [''source_occurrence:x''], dm_waiver_ids = [''w'']\<rparr>"

theorem gate_passes_iff_met_witness:
  "\<exists>e d'. evaluate_closure_gate sample_gate [sample_dimension ''technical'', sample_dimension ''handover''] closure_sample_db = (Inr e, d')
     \<and> ge_result e = ''fail'' \<and> \<not> dimension_met closure_sample_db ''t'' ''d'' None ''work'' ''1'' ''t1'' (sample_dimension ''handover'')"
proof -
  let ?dims = "[sample_dimension ''technical'', sample_dimension ''handover'']"
  obtain res d' where run: "evaluate_closure_gate sample_gate ?dims closure_sample_db = (res, d')" by fastforce
  have "\<not> isl (fst (evaluate_closure_gate sample_gate ?dims closure_sample_db))" by code_simp
  with run obtain e where e: "res = Inr e" by (cases res) auto
  have met: "dimension_met closure_sample_db ''t'' ''d'' None ''work'' ''1'' ''t1'' (sample_dimension ''technical'')"
    "\<not> dimension_met closure_sample_db ''t'' ''d'' None ''work'' ''1'' ''t1'' (sample_dimension ''handover'')"
    by (simp_all add: dimension_met_def sample_dimension_def closure_sample_db_def empty_db_def ref_resolves_def
        get_source_occurrence_with_content_identity_def List.map_filter_def get_waiver_def waiver_is_active_in_scope_def)
  from gate_passes_iff_met [OF run [unfolded e]] met run e show ?thesis by (auto simp: sample_gate_def)
qed

text \<open>
  C15: Every closure snapshot is backed, over any operations: it was taken from a stored evaluation of the same target,
  scope, policy and basis, that left no dimension missing and lists every required dimension as satisfied.
\<close>

theorem closure_snapshots_backed:
  assumes "closure_ok d" "s \<in> set (closure_snapshots (fold run_closure_op ops d))"
  shows "\<exists>e\<in>set (gate_evaluations (fold run_closure_op ops d)). snapshot_of e s \<and> ge_missing e = []
     \<and> names_of (ge_required e) = names_of (ge_satisfied e)"
proof -
  obtain e where e: "e \<in> set (gate_evaluations (fold run_closure_op ops d))" "ge_result e \<noteq> ''fail''" "snapshot_of e s"
    using runs_closure_ok [OF assms(1), of ops] assms(2) by (auto simp: closure_ok_def)
  then have "evaluation_row_ok e" using runs_closure_ok [OF assms(1), of ops] by (simp add: closure_ok_def)
  with e have "ge_missing e = []" "names_of (ge_required e) = names_of (ge_satisfied e)"
    by (auto simp: evaluation_row_ok_def names_of_def)
  with e show ?thesis by blast
qed

abbreviation closing_ops :: "closure_op list" where
  "closing_ops \<equiv> [Evaluate_gate sample_gate [sample_dimension ''technical''], Move_waiver ''w'' ''revoked'' ''t2'' (Some ''t2''),
     Take_snapshot ''s'' ''e'' ''ann'' ''human'' [] ''t3'']"

lemma closure_sample_ok: "closure_ok closure_sample_db"
  by (simp add: closure_ok_def closure_sample_db_def empty_db_def)

lemma closing_sample:
  "map (\<lambda>s. (sn_id s, sn_state s)) (closure_snapshots (fold run_closure_op closing_ops closure_sample_db)) = [(''s'', ''current'')]
   \<and> map wv_state (waivers (fold run_closure_op closing_ops closure_sample_db)) = [''revoked'']"
  by code_simp

theorem closure_snapshots_backed_witness:
  "\<exists>e\<in>set (gate_evaluations (fold run_closure_op closing_ops closure_sample_db)). ge_missing e = []
     \<and> names_of (ge_required e) = names_of (ge_satisfied e)"
proof -
  obtain s where "s \<in> set (closure_snapshots (fold run_closure_op closing_ops closure_sample_db))"
    using closing_sample by (cases "closure_snapshots (fold run_closure_op closing_ops closure_sample_db)") auto
  from closure_snapshots_backed [OF closure_sample_ok this] show ?thesis by blast
qed

text \<open>
  C16: When basis refs change, exactly the current snapshots of the scope that mention one of them in their basis
  become stale, with the changed refs as reason, and no other snapshot changes.
\<close>

theorem changed_basis_makes_stale:
  assumes "closure_ok d" "changed \<noteq> []" "rules_for_trigger registry trigger \<noteq> []"
  shows "closure_snapshots (snd (mark_stale_closure_snapshots_for_basis_refs changed t m p trigger registry now
       (fold run_closure_op ops d))) =
     map (\<lambda>r. if sn_state r = ''current'' \<and> in_closure_scope t m p r \<and> changed_basis changed r \<noteq> []
        then outdated changed trigger now r else r) (closure_snapshots (fold run_closure_op ops d))"
  using assms(2,3) by (simp add: marks_stale [OF runs_closure_ok [OF assms(1)]])

theorem changed_basis_makes_stale_witness:
  "map (\<lambda>s. (sn_state s, sn_stale_reason s)) (closure_snapshots (snd (mark_stale_closure_snapshots_for_basis_refs [''waiver:w''] None None
     None ''waiver_lifecycle_changed'' default_recurrence_rules ''t4'' (fold run_closure_op closing_ops closure_sample_db)))) =
   [(''stale'', Some ''waiver_lifecycle_changed:waiver:w'')]"
proof -
  have rules: "rules_for_trigger default_recurrence_rules ''waiver_lifecycle_changed'' \<noteq> []" by code_simp
  have "map (\<lambda>s. (sn_state s, sn_stale_reason s)) (map (\<lambda>r. if sn_state r = ''current'' \<and> in_closure_scope None None None r
        \<and> changed_basis [''waiver:w''] r \<noteq> [] then outdated [''waiver:w''] ''waiver_lifecycle_changed'' ''t4'' r else r)
      (closure_snapshots (fold run_closure_op closing_ops closure_sample_db))) =
    [(''stale'', Some ''waiver_lifecycle_changed:waiver:w'')]"
    by code_simp
  then show ?thesis by (subst changed_basis_makes_stale [OF closure_sample_ok _ rules]) simp_all
qed

end
