(* ===== verification/Input_Bindings.thy ===== *)
theory Input_Bindings
  imports Pointers
begin

text \<open>
  The inputs that workflow runs and tasks are bound to, \<open>src/onetruth/infrastructure/repositories/input_bindings.py\<close>.
  Capturing a pointer records the generation and the artifact version it has at that time; the binding is stale
  once the pointer has moved on. Ids the code draws itself are arguments, as is the time SQLite fills in.
\<close>

section \<open>Operations\<close>

definition insert_run_input :: "run_input_row \<Rightarrow> (unit, db) comp" where
  "insert_run_input r d =
     (if exists_row (\<lambda>x. wi_run x = wi_run r \<and> wi_key x = wi_key r) (run_inputs d)
      then raise (InputBindingConflictError ''workflow_run'' (wi_run r) (wi_key r)) d
      else if exists_row (\<lambda>x. wi_id x = wi_id r) (run_inputs d)
      then raise (IntegrityError ''UNIQUE constraint failed: workflow_run_inputs.workflow_run_input_id'') d
      else if wi_run r \<notin> wr_id ` set (runs d) \<or> \<not> fk_ok (wi_artifact r) (artifact_ids d)
        \<or> \<not> fk_ok (wi_pointer_artifact r) (artifact_ids d) \<or> \<not> fk_ok (wi_captured_by r) (map tr_id (task_runs d))
      then raise fk_failed d
      else (Inr (), d\<lparr>run_inputs := run_inputs d @ [r]\<rparr>))"

definition given_id :: "string option \<Rightarrow> string \<Rightarrow> string" where
  "given_id requested fresh = (case requested of None \<Rightarrow> fresh | Some i \<Rightarrow> if i = [] then fresh else i)"

definition integers_of :: "int option \<Rightarrow> int list" where
  "integers_of n = (case n of None \<Rightarrow> [] | Some m \<Rightarrow> [m])"

definition create_workflow_run_input :: "run_input_row \<Rightarrow> string option \<Rightarrow> string \<Rightarrow> (string, db) comp" where
  "create_workflow_run_input r workflow_run_input_id fresh =
     (let resolved_id = given_id workflow_run_input_id (''wri-'' @ fresh) in
      seq (with_integers (integers_of (wi_generation r)) (insert_run_input (r\<lparr>wi_id := resolved_id\<rparr>)))
        (\<lambda>_. ret resolved_id))"

definition create_workflow_run_artifact_input ::
    "string \<Rightarrow> string \<Rightarrow> string \<Rightarrow> string option \<Rightarrow> string \<Rightarrow> dict option \<Rightarrow> string option \<Rightarrow> string \<Rightarrow> (string, db) comp" where
  "create_workflow_run_artifact_input workflow_run_id binding_key artifact_version_id captured_by_task_run_id captured_at
       metadata workflow_run_input_id fresh =
     create_workflow_run_input \<lparr>wi_id = [], wi_run = workflow_run_id, wi_key = binding_key, wi_source_kind = ''artifact_version'',
       wi_source = artifact_version_id, wi_artifact = Some artifact_version_id, wi_pointer_key = None, wi_generation = None,
       wi_pointer_artifact = None, wi_captured_by = captured_by_task_run_id, wi_captured_at = captured_at,
       wi_metadata = metadata\<rparr> workflow_run_input_id fresh"

definition insert_task_input :: "task_input_row \<Rightarrow> (unit, db) comp" where
  "insert_task_input r d =
     (if exists_row (\<lambda>x. ti_task_run x = ti_task_run r \<and> ti_key x = ti_key r) (task_inputs d)
      then raise (InputBindingConflictError ''task_run'' (ti_task_run r) (ti_key r)) d
      else if exists_row (\<lambda>x. ti_id x = ti_id r) (task_inputs d)
      then raise (IntegrityError ''UNIQUE constraint failed: task_input_bindings.task_input_binding_id'') d
      else if ti_task_run r \<notin> tr_id ` set (task_runs d) \<or> ti_run r \<notin> wr_id ` set (runs d)
        \<or> \<not> fk_ok (ti_artifact r) (artifact_ids d) \<or> \<not> fk_ok (ti_pointer_artifact r) (artifact_ids d)
      then raise fk_failed d
      else (Inr (), d\<lparr>task_inputs := task_inputs d @ [r]\<rparr>))"

definition create_task_input_binding :: "task_input_row \<Rightarrow> string option \<Rightarrow> string \<Rightarrow> (string, db) comp" where
  "create_task_input_binding r task_input_binding_id fresh =
     (let resolved_id = given_id task_input_binding_id (''tib-'' @ fresh) in
      seq (with_integers (integers_of (ti_generation r)) (insert_task_input (r\<lparr>ti_id := resolved_id\<rparr>)))
        (\<lambda>_. ret resolved_id))"

definition pointer_input :: "string \<Rightarrow> string \<Rightarrow> string \<Rightarrow> string \<Rightarrow> string \<Rightarrow> dict option \<Rightarrow> string \<Rightarrow> pointer_row \<Rightarrow> task_input_row" where
  "pointer_input task_run_id workflow_run_id binding_key pointer_key captured_at metadata stamp pointer =
     \<lparr>ti_id = [], ti_task_run = task_run_id, ti_run = workflow_run_id, ti_key = binding_key, ti_source_kind = ''pointer'',
      ti_source = pointer_key, ti_artifact = Some (pt_artifact pointer), ti_pointer_key = Some pointer_key,
      ti_generation = Some (pt_generation pointer), ti_pointer_artifact = Some (pt_artifact pointer),
      ti_captured_at = captured_at, ti_metadata = metadata, ti_created_at = stamp\<rparr>"

definition capture_task_pointer_input ::
    "string \<Rightarrow> string \<Rightarrow> string \<Rightarrow> string \<Rightarrow> string \<Rightarrow> dict option \<Rightarrow> string option \<Rightarrow> string \<Rightarrow> string \<Rightarrow> (string, db) comp" where
  "capture_task_pointer_input task_run_id workflow_run_id binding_key pointer_key captured_at metadata
       task_input_binding_id fresh stamp =
     seq (asks (\<lambda>d. get_pointer d workflow_run_id pointer_key)) (\<lambda>pointer.
     case pointer of
       None \<Rightarrow> raise ValueError
     | Some pointer \<Rightarrow> create_task_input_binding
         (pointer_input task_run_id workflow_run_id binding_key pointer_key captured_at metadata stamp pointer)
         task_input_binding_id fresh)"

definition list_task_input_bindings :: "db \<Rightarrow> string \<Rightarrow> task_input_row list" where
  "list_task_input_bindings d task_run_id = sort_key ti_key (filter (\<lambda>r. ti_task_run r = task_run_id) (task_inputs d))"

text \<open>\<open>str\<close> of a column that may be null, and \<open>int\<close> of one.\<close>

definition printed_or_none :: "string option \<Rightarrow> string" where
  "printed_or_none x = (case x of None \<Rightarrow> ''None'' | Some s \<Rightarrow> s)"

definition is_task_input_binding_stale :: "db \<Rightarrow> string \<Rightarrow> string \<Rightarrow> bool result" where
  "is_task_input_binding_stale d task_run_id binding_key =
     (case select_one (\<lambda>r. ti_task_run r = task_run_id \<and> ti_key r = binding_key) (task_inputs d) of
        None \<Rightarrow> Inl ValueError
      | Some binding \<Rightarrow>
          if ti_source_kind binding \<noteq> ''pointer'' then Inr False
          else
            let resolved_pointer_key = (case ti_pointer_key binding of Some k \<Rightarrow> k | None \<Rightarrow> ti_source binding) in
            (case get_pointer d (ti_run binding) resolved_pointer_key of
               None \<Rightarrow> Inr True
             | Some current \<Rightarrow>
                 (case ti_generation binding of
                    None \<Rightarrow> Inl (OtherException ''TypeError'')
                  | Some generation \<Rightarrow>
                      if pt_generation current \<noteq> generation then Inr True
                      else if pt_artifact current \<noteq> printed_or_none (ti_pointer_artifact binding) then Inr True
                      else Inr False)))"

section \<open>A captured pointer\<close>

interpretation run_input_ids: unique_table run_inputs "\<lambda>r. Some (wi_id r)" insert_run_input
  by unfold_locales (auto simp: insert_run_input_def comp_simps split: if_splits)

interpretation run_input_keys: unique_table run_inputs "\<lambda>r. Some (wi_run r, wi_key r)" insert_run_input
  by unfold_locales (auto simp: insert_run_input_def comp_simps split: if_splits)

interpretation task_input_ids: unique_table task_inputs "\<lambda>r. Some (ti_id r)" insert_task_input
  by unfold_locales (auto simp: insert_task_input_def comp_simps split: if_splits)

interpretation task_input_keys: unique_table task_inputs "\<lambda>r. Some (ti_task_run r, ti_key r)" insert_task_input
  by unfold_locales (auto simp: insert_task_input_def comp_simps split: if_splits)

lemma capture_Inr:
  assumes "capture_task_pointer_input task_run run key pk at metadata wanted fresh stamp d = (Inr i, d')"
  obtains p where "get_pointer d run pk = Some p"
    "select_one (\<lambda>r. ti_task_run r = task_run \<and> ti_key r = key) (task_inputs d') =
       Some ((pointer_input task_run run key pk at metadata stamp p)\<lparr>ti_id := i\<rparr>)"
proof -
  obtain p where p: "get_pointer d run pk = Some p"
    using assms by (auto simp: capture_task_pointer_input_def comp_simps split: option.splits)
  let ?r = "(pointer_input task_run run key pk at metadata stamp p)\<lparr>ti_id := i\<rparr>"
  have "insert_task_input ?r d = (Inr (), d')"
    using assms p
    by (auto simp: capture_task_pointer_input_def comp_simps create_task_input_binding_def Let_def seq_eq_Inr with_integers_Inr)
  from task_input_keys.lookup_inserted(2) [OF this, of "(task_run, key)"] p that show ?thesis
    by (simp add: pointer_input_def)
qed

lemma promotions_keep_inputs: "task_inputs (fold run_promotion ps d) = task_inputs d"
proof (induction ps arbitrary: d)
  case (Cons p ps)
  obtain res d' where run: "promote_pointer p d = (res, d')" by fastforce
  have "task_inputs d' = task_inputs d"
    by (cases rule: promote_pointer_cases [OF run]) (auto dest: insert_pointer_Inr)
  with Cons run show ?case by simp
qed simp

section \<open>Properties\<close>

text \<open>
  C17: A captured input notices every move: after a pointer was captured, whatever promotions follow, the binding is
  reported stale exactly when the run's pointer of that key is gone or has another generation or artifact version than it
  had at the capture.
\<close>

theorem captured_input_stale_iff_moved:
  assumes "capture_task_pointer_input task_run run key pk at metadata wanted fresh stamp d = (Inr i, d1)"
  shows "\<exists>p. get_pointer d run pk = Some p \<and> is_task_input_binding_stale (fold run_promotion ps d1) task_run key =
     Inr (case get_pointer (fold run_promotion ps d1) run pk of None \<Rightarrow> True
          | Some q \<Rightarrow> \<not> (pt_generation q = pt_generation p \<and> pt_artifact q = pt_artifact p))"
proof -
  obtain p where p: "get_pointer d run pk = Some p"
    "select_one (\<lambda>r. ti_task_run r = task_run \<and> ti_key r = key) (task_inputs (fold run_promotion ps d1)) =
       Some ((pointer_input task_run run key pk at metadata stamp p)\<lparr>ti_id := i\<rparr>)"
    using capture_Inr [OF assms] unfolding promotions_keep_inputs by blast
  then show ?thesis
    by (auto simp: is_task_input_binding_stale_def pointer_input_def printed_or_none_def split: option.split)
qed

abbreviation capture_sample :: "(string, db) comp" where
  "capture_sample \<equiv> capture_task_pointer_input ''tr'' ''r'' ''plan'' ''plan:official'' ''t1'' None None ''1'' ''t1''"

theorem captured_input_stale_iff_moved_witness:
  "\<exists>i d1. capture_sample pointer_made_db = (Inr i, d1) \<and> is_task_input_binding_stale d1 ''tr'' ''plan'' = Inr False
     \<and> is_task_input_binding_stale (run_promotion (sample_promotion ''v2'' (Some 0)) d1) ''tr'' ''plan'' = Inr True"
proof -
  obtain res d1 where run: "capture_sample pointer_made_db = (res, d1)" by fastforce
  have "\<not> isl (fst (capture_sample pointer_made_db))" by code_simp
  with run obtain i where i: "res = Inr i" by (cases res) auto
  let ?moved = "run_promotion (sample_promotion ''v2'' (Some 0)) d1"
  have facts: "map_option pt_generation (get_pointer pointer_made_db ''r'' ''plan:official'') = Some 0"
    "get_pointer (snd (capture_sample pointer_made_db)) ''r'' ''plan:official'' = get_pointer pointer_made_db ''r'' ''plan:official''"
    "map_option pt_generation (get_pointer (run_promotion (sample_promotion ''v2'' (Some 0)) (snd (capture_sample pointer_made_db)))
       ''r'' ''plan:official'') = Some 1"
    by code_simp+
  from captured_input_stale_iff_moved [OF run [unfolded i], of "[]"]
    captured_input_stale_iff_moved [OF run [unfolded i], of "[sample_promotion ''v2'' (Some 0)]"] facts run i
  show ?thesis by auto
qed

end
