(* ===== verification/Edge_Executions.thy ===== *)
theory Edge_Executions
  imports Keyed_Table
begin

text \<open>
  Executions of the edges between workflows, \<open>src/onetruth/infrastructure/repositories/edge_executions.py\<close>: an edge is
  taken once per source artifact and target partition and once per correlation key, and is then activated and advanced.
  Keyword arguments that become columns are passed as the row they make; the columns the function fills in
  itself are overwritten.
\<close>

section \<open>Operations\<close>

text \<open>The message of the constraint on the correlation key becomes the conflict error; the other violations pass.\<close>

definition insert_edge_execution :: "edge_row \<Rightarrow> (unit, db) comp" where
  "insert_edge_execution r d =
     (if exists_row (\<lambda>x. ee_edge x = ee_edge r \<and> ee_correlation x = ee_correlation r) (edge_executions d)
      then raise (EdgeExecutionConflictError (ee_edge r) (ee_correlation r)) d
      else if exists_row (\<lambda>x. ee_edge x = ee_edge r \<and> ee_source_run x = ee_source_run r
        \<and> ee_source_artifact x = ee_source_artifact r \<and> ee_target_partition x = ee_target_partition r) (edge_executions d)
      then raise (IntegrityError (''UNIQUE constraint failed: edge_executions.edge_id, ''
        @ ''edge_executions.source_workflow_run_id, edge_executions.source_artifact_version_id, ''
        @ ''edge_executions.target_partition_key'')) d
      else if exists_row (\<lambda>x. ee_id x = ee_id r) (edge_executions d)
      then raise (IntegrityError ''UNIQUE constraint failed: edge_executions.edge_execution_id'') d
      else if ee_source_run r \<notin> wr_id ` set (runs d) \<or> ee_source_artifact r \<notin> set (artifact_ids d)
        \<or> \<not> fk_ok (ee_target_run r) (map wr_id (runs d)) \<or> \<not> fk_ok (ee_seed r) (artifact_ids d)
      then raise fk_failed d
      else (Inr (), d\<lparr>edge_executions := edge_executions d @ [r]\<rparr>))"

definition create_edge_execution :: "edge_row \<Rightarrow> (unit, db) comp" where
  "create_edge_execution r = insert_edge_execution (r\<lparr>ee_activation_key := None, ee_updated_at := ee_created_at r\<rparr>)"

definition get_edge_execution :: "db \<Rightarrow> string \<Rightarrow> edge_row option" where
  "get_edge_execution d edge_execution_id = select_one (\<lambda>r. ee_id r = edge_execution_id) (edge_executions d)"

definition get_edge_execution_by_scope :: "db \<Rightarrow> string \<Rightarrow> string \<Rightarrow> string \<Rightarrow> string \<Rightarrow> edge_row option" where
  "get_edge_execution_by_scope d edge_id source_workflow_run_id source_artifact_version_id target_partition_key =
     select_one (\<lambda>r. ee_edge r = edge_id \<and> ee_source_run r = source_workflow_run_id
       \<and> ee_source_artifact r = source_artifact_version_id \<and> ee_target_partition r = target_partition_key) (edge_executions d)"

definition get_edge_execution_by_correlation :: "db \<Rightarrow> string \<Rightarrow> string \<Rightarrow> edge_row option" where
  "get_edge_execution_by_correlation d edge_id correlation_key =
     select_one (\<lambda>r. ee_edge r = edge_id \<and> ee_correlation r = correlation_key) (edge_executions d)"

definition list_edge_executions ::
    "db \<Rightarrow> string option \<Rightarrow> string option \<Rightarrow> string option \<Rightarrow> string option \<Rightarrow> edge_row list" where
  "list_edge_executions d edge_id source_workflow_run_id status target_workflow_run_id =
     sort_key ee_created_at (sort_key ee_id (filter (\<lambda>r.
       (edge_id = None \<or> edge_id = Some (ee_edge r))
       \<and> (source_workflow_run_id = None \<or> source_workflow_run_id = Some (ee_source_run r))
       \<and> (status = None \<or> status = Some (ee_status r))
       \<and> (target_workflow_run_id = None \<or> target_workflow_run_id = ee_target_run r)) (edge_executions d)))"

text \<open>The columns that both updates set.\<close>

record edge_progress =
  eg_status :: string
  eg_cursor :: "dict option"
  eg_compensation :: "dict option"
  eg_inputs :: "dict option"
  eg_updated_at :: string

definition edge_advanced :: "edge_progress \<Rightarrow> edge_row \<Rightarrow> edge_row" where
  "edge_advanced p r = r\<lparr>ee_status := eg_status p, ee_cursor := eg_cursor p, ee_compensation := eg_compensation p,
     ee_inputs := eg_inputs p, ee_updated_at := eg_updated_at p\<rparr>"

definition edge_activated :: "string \<Rightarrow> string \<Rightarrow> string \<Rightarrow> string \<Rightarrow> edge_progress \<Rightarrow> edge_row \<Rightarrow> edge_row" where
  "edge_activated target_workflow_run_id trigger_ref activation_idempotency_key activated_at p r =
     (edge_advanced p r)\<lparr>ee_target_run := Some target_workflow_run_id, ee_trigger := Some trigger_ref,
        ee_activation_key := Some activation_idempotency_key, ee_activated_at := Some activated_at\<rparr>"

abbreviation put_edges :: "edge_row list \<Rightarrow> db \<Rightarrow> db" where
  "put_edges xs d \<equiv> d\<lparr>edge_executions := xs\<rparr>"

definition update_edge_execution_activation ::
    "string \<Rightarrow> string \<Rightarrow> string \<Rightarrow> string \<Rightarrow> string \<Rightarrow> edge_progress \<Rightarrow> (edge_row option, db) comp" where
  "update_edge_execution_activation edge_execution_id target_workflow_run_id trigger_ref activation_idempotency_key
       activated_at p d =
     (if exists_row (\<lambda>r. ee_id r = edge_execution_id) (edge_executions d) \<and> target_workflow_run_id \<notin> wr_id ` set (runs d)
      then raise fk_failed d
      else update_one edge_executions put_edges (\<lambda>r. ee_id r = edge_execution_id \<and> True)
        (edge_activated target_workflow_run_id trigger_ref activation_idempotency_key activated_at p)
        (\<lambda>d. get_edge_execution d edge_execution_id) d)"

definition update_edge_execution_cursor :: "string \<Rightarrow> edge_progress \<Rightarrow> (edge_row option, db) comp" where
  "update_edge_execution_cursor edge_execution_id p =
     update_one edge_executions put_edges (\<lambda>r. ee_id r = edge_execution_id \<and> True) (edge_advanced p)
       (\<lambda>d. get_edge_execution d edge_execution_id)"

section \<open>What identifies an edge execution stays\<close>

interpretation edge_ids: unique_table edge_executions "\<lambda>r. Some (ee_id r)" insert_edge_execution
  by unfold_locales (auto simp: insert_edge_execution_def comp_simps split: if_splits)

interpretation edge_correlations: unique_table edge_executions "\<lambda>r. Some (ee_edge r, ee_correlation r)" insert_edge_execution
  by unfold_locales (auto simp: insert_edge_execution_def comp_simps split: if_splits)

interpretation edge_scopes: unique_table edge_executions
    "\<lambda>r. Some (ee_edge r, ee_source_run r, ee_source_artifact r, ee_target_partition r)" insert_edge_execution
  by unfold_locales (auto simp: insert_edge_execution_def comp_simps split: if_splits)

interpretation edge_table: keyed_table edge_executions put_edges ee_id
  by unfold_locales simp_all

definition edge_identity :: "edge_row \<Rightarrow> edge_row" where
  "edge_identity r = r\<lparr>ee_target_run := None, ee_activation_key := None, ee_status := [], ee_cursor := None,
     ee_compensation := None, ee_inputs := None, ee_trigger := None, ee_updated_at := [], ee_activated_at := None\<rparr>"

lemma edge_update_simps [simp]:
  "edge_identity (edge_advanced p r) = edge_identity r"
  "edge_identity (edge_activated t g k a p r) = edge_identity r"
  "ee_id (edge_advanced p r) = ee_id r" "ee_id (edge_activated t g k a p r) = ee_id r"
  by (simp_all add: edge_identity_def edge_advanced_def edge_activated_def)

datatype edge_op =
    Create_edge edge_row
  | Activate_edge string string string string string edge_progress
  | Advance_edge string edge_progress

fun run_edge_op :: "edge_op \<Rightarrow> db \<Rightarrow> db" where
  "run_edge_op (Create_edge r) d = snd (create_edge_execution r d)"
| "run_edge_op (Activate_edge i t g k a p) d = snd (update_edge_execution_activation i t g k a p d)"
| "run_edge_op (Advance_edge i p) d = snd (update_edge_execution_cursor i p d)"

definition identity_at :: "db \<Rightarrow> string \<Rightarrow> edge_row option" where
  "identity_at d i = map_option edge_identity (get_edge_execution d i)"

lemma edge_step:
  assumes "identity_at d i = Some x"
  shows "identity_at (run_edge_op op d) i = Some x"
proof (cases op)
  case (Create_edge r)
  obtain res d' where run: "create_edge_execution r d = (res, d')" by fastforce
  have "edge_executions d' = edge_executions d \<or> (\<exists>r. edge_executions d' = edge_executions d @ [r])"
    using run by (auto simp: create_edge_execution_def insert_edge_execution_def raise_def split: if_splits)
  then have "get_edge_execution d' i = get_edge_execution d i"
    using assms by (auto simp: identity_at_def get_edge_execution_def select_one_append)
  with assms run Create_edge show ?thesis by (simp add: identity_at_def)
next
  case (Activate_edge j t g k a p)
  obtain res d' where run: "update_edge_execution_activation j t g k a p d = (res, d')" by fastforce
  have "identity_at d' i = Some x"
  proof (cases "exists_row (\<lambda>r. ee_id r = j) (edge_executions d) \<and> t \<notin> wr_id ` set (runs d)")
    case True
    with run have "d' = d" unfolding update_edge_execution_activation_def by (simp add: raise_def)
    with assms show ?thesis by simp
  next
    case False
    with run have "update_one edge_executions put_edges (\<lambda>r. ee_id r = j \<and> True) (edge_activated t g k a p)
        (\<lambda>d. get_edge_execution d j) d = (res, d')"
      unfolding update_edge_execution_activation_def by (simp only: if_False)
    from edge_table.lookups(1) [OF this, of i] assms show ?thesis
      by (cases "i = j") (auto simp: identity_at_def get_edge_execution_def)
  qed
  with run Activate_edge show ?thesis by simp
next
  case (Advance_edge j p)
  obtain res d' where run: "update_edge_execution_cursor j p d = (res, d')" by fastforce
  from edge_table.lookups(1) [OF run [unfolded update_edge_execution_cursor_def], of i] assms
  have "identity_at d' i = Some x" by (cases "i = j") (auto simp: identity_at_def get_edge_execution_def)
  with run Advance_edge show ?thesis by simp
qed

text \<open>
  An edge execution keeps what identifies it over any operations: the edge, its source and target, its keys and its
  seed; only its progress and its activation change.
\<close>

lemma edge_execution_keeps_identity:
  "identity_at d i = Some x \<Longrightarrow> identity_at (fold run_edge_op ops d) i = Some x"
  by (induction ops arbitrary: d) (simp_all add: edge_step)

end
