(* ===== verification/Capex_Documents.thy ===== *)
theory Capex_Documents
  imports Ingest_Jobs
begin

text \<open>
  What the builders of planning documents under \<open>src/onetruth/capex_platform/\<close> share. Each module has its own copy of
  these helpers, which differ in the error they raise and in the list of forbidden keys, so both are arguments here.
  A document is a JSON value; \<open>details\<close> of the errors are dropped.
\<close>

section \<open>Texts\<close>

text \<open>\<open>str(value).strip()\<close>, where \<open>None\<close> counts as missing.\<close>

definition require_text :: "exc \<Rightarrow> json \<Rightarrow> string result" where
  "require_text e value =
     (let normalized = (if value = JNull then [] else py_strip (py_str value))
      in if normalized = [] then Inl e else Inr normalized)"

definition optional_text :: "json \<Rightarrow> string option" where
  "optional_text value =
     (let normalized = (if value = JNull then [] else py_strip (py_str value))
      in if normalized = [] then None else Some normalized)"

lemma require_text_Inr:
  "require_text e value = Inr s \<Longrightarrow> s \<noteq> [] \<and> py_strip s = s"
  by (auto simp: require_text_def Let_def split: if_splits)

lemma require_text_stripped: "s \<noteq> [] \<Longrightarrow> py_strip s = s \<Longrightarrow> require_text e (JStr s) = Inr s"
  by (simp add: require_text_def)

definition json_digest :: "json \<Rightarrow> string" where
  "json_digest value = sha256_text (canonical_json value)"

definition json_texts :: "string list \<Rightarrow> json" where
  "json_texts ss = JArr (map JStr ss)"

section \<open>Raw material\<close>

text \<open>
  \<open>_RAW_FILENAME_RE\<close> without its anchors, case ignored: letters, digits, blanks, underscores, dots and hyphens, then a dot and
  one of the extensions.
\<close>

definition document_extensions :: "string list" where
  "document_extensions = [''pdf'', ''docx'', ''xlsx'', ''pptx'', ''png'', ''jpg'', ''jpeg'', ''zip'', ''txt'', ''csv'']"

definition document_name_with :: "string \<Rightarrow> string \<Rightarrow> bool" where
  "document_name_with s ext =
     (let stem = take (length s - Suc (length ext)) s in
      suffix (CHR ''.'' # ext) (py_lower s) \<and> stem \<noteq> [] \<and> list_all (\<lambda>c. is_alnum c \<or> c \<in> set '' _.-'') stem)"

definition document_name :: "string \<Rightarrow> bool" where
  "document_name s = match_dollar (\<lambda>s. list_ex (document_name_with s) document_extensions) s"

definition raw_locator :: "string \<Rightarrow> bool" where
  "raw_locator s \<longleftrightarrow> absolute_path s \<or> list_ex (\<lambda>marker. contains marker s) raw_path_markers"

definition inline_content :: "string \<Rightarrow> bool" where
  "inline_content s \<longleftrightarrow> prefix ''data:'' (py_lower s) \<or> contains ''base64,'' (py_lower s)"

text \<open>The walk through a value, with the checks of keys and of texts.\<close>

fun reject_raw :: "(string \<Rightarrow> unit result) \<Rightarrow> (string \<Rightarrow> unit result) \<Rightarrow> json \<Rightarrow> unit result" where
  "reject_raw key text (JObj kvs) = check_all (\<lambda>p. rbind (key (fst p)) (\<lambda>_. reject_raw key text (snd p))) kvs"
| "reject_raw key text (JArr vs) = check_all (reject_raw key text) vs"
| "reject_raw key text (JStr s) = text s"
| "reject_raw key text _ = Inr ()"

section \<open>Source refs of a corpus baseline\<close>

definition corpus_baseline_schema_version :: string where
  "corpus_baseline_schema_version = ''capex.corpus_baseline.workflow_outputs.v1''"

text \<open>\<open>_SOURCE_REF_RE.match\<close>.\<close>

definition is_source_ref :: "string \<Rightarrow> bool" where
  "is_source_ref s = match_dollar (\<lambda>s. prefix ''source_occurrence:'' s \<and> length ''source_occurrence:'' < length s
     \<and> list_all (\<lambda>c. is_alnum c \<or> c \<in> set ''_.:-'') (drop (length ''source_occurrence:'') s)) s"

text \<open>The source refs in the envelopes of the generated artifacts; what has no envelope is skipped.\<close>

fun envelope_refs :: "json list \<Rightarrow> string list result" where
  "envelope_refs [] = Inr []"
| "envelope_refs (JObj artifact # rest) =
     (case jget artifact ''envelope'' of
        JObj envelope \<Rightarrow>
          rbind (py_iter (py_or (jget envelope ''source_refs'') (JArr []))) (\<lambda>refs.
          rbind (envelope_refs rest) (\<lambda>others. Inr (map py_str refs @ others)))
      | _ \<Rightarrow> envelope_refs rest)"
| "envelope_refs (_ # rest) = envelope_refs rest"

definition corpus_source_refs :: "(string \<Rightarrow> bool) \<Rightarrow> exc \<Rightarrow> dict \<Rightarrow> string list result" where
  "corpus_source_refs accepted e corpus =
     rbind (py_iter (py_or (jget corpus ''generated_artifacts'') (JArr []))) (\<lambda>artifacts.
     rbind (envelope_refs artifacts) (\<lambda>refs.
     let found = filter accepted refs in if found = [] then Inl e else Inr found))"

text \<open>\<open>corpus.get("basis", {}).get("packet_register_id") if isinstance(corpus.get("basis"), Mapping) else None\<close>.\<close>

definition packet_register_id :: "dict \<Rightarrow> json" where
  "packet_register_id corpus = (case jget corpus ''basis'' of JObj basis \<Rightarrow> jget basis ''packet_register_id'' | _ \<Rightarrow> JNull)"

definition document_scope :: "exc \<Rightarrow> dict \<Rightarrow> (string \<times> string \<times> string) result" where
  "document_scope e raw =
     rbind (require_text e (jget raw ''tenant_id'')) (\<lambda>t.
     rbind (require_text e (jget raw ''domain_id'')) (\<lambda>d.
     rbind (require_text e (jget raw ''project_id'')) (\<lambda>p. Inr (t, d, p))))"

text \<open>A section of rows with their number and digest.\<close>

definition digest_section :: "string \<Rightarrow> json list \<Rightarrow> json" where
  "digest_section schema_version rows = JObj [(''schema_version'', JStr schema_version), (''rows'', JArr rows),
     (''row_count'', JInt (int (length rows))), (''snapshot_digest'', JStr (json_digest (JArr rows)))]"

definition no_effects :: "string list \<Rightarrow> json" where
  "no_effects names = JObj (map (\<lambda>n. (n, JBool False)) names)"

section \<open>Collecting the rows of observations\<close>

text \<open>
  The loop over the observations: each must be an object, gives a row or raises, and must have an id of its own.
\<close>

fun collect_rows :: "exc \<Rightarrow> exc \<Rightarrow> (dict \<Rightarrow> 'r result) \<Rightarrow> ('r \<Rightarrow> string) \<Rightarrow> string list \<Rightarrow> json list \<Rightarrow> 'r list result" where
  "collect_rows no_object duplicate row name seen [] = Inr []"
| "collect_rows no_object duplicate row name seen (JObj observation # rest) =
     rbind (row observation) (\<lambda>r.
     rbind (require (name r \<notin> set seen) duplicate) (\<lambda>_.
     rbind (collect_rows no_object duplicate row name (name r # seen) rest) (\<lambda>rs. Inr (r # rs))))"
| "collect_rows no_object duplicate row name seen (_ # rest) = Inl no_object"

lemma collect_rows_Inr:
  assumes "collect_rows e1 e2 row name seen observations = Inr rs"
  shows "distinct (map name rs) \<and> set (map name rs) \<inter> set seen = {} \<and> length rs = length observations
    \<and> (\<forall>r\<in>set rs. \<exists>ob. JObj ob \<in> set observations \<and> row ob = Inr r)"
  using assms
proof (induction observations arbitrary: rs seen)
  case (Cons ob rest)
  show ?case
  proof (cases ob)
    case (JObj observation)
    with Cons.prems obtain r rs' where r: "row observation = Inr r" "name r \<notin> set seen"
      "collect_rows e1 e2 row name (name r # seen) rest = Inr rs'" "rs = r # rs'"
      by (auto simp: rbind_eq_Inr)
    from Cons.IH [OF r(3)] have IH: "distinct (map name rs')" "name r \<notin> set (map name rs')"
      "set (map name rs') \<inter> set seen = {}" "length rs' = length rest"
      "\<forall>x\<in>set rs'. \<exists>ob. JObj ob \<in> set rest \<and> row ob = Inr x"
      by auto
    have "\<exists>ob'. JObj ob' \<in> set (ob # rest) \<and> row ob' = Inr x" if "x \<in> set rs" for x
    proof (cases "x = r")
      case True
      then show ?thesis using r(1) JObj by auto
    next
      case False
      then show ?thesis using that r(4) IH(5) by auto
    qed
    then show ?thesis using IH(1-4) r(2,4) by simp
  qed (use Cons.prems in simp_all)
qed simp

end
