(* ===== verification/Lifecycle_Stages.thy ===== *)
theory Lifecycle_Stages
  imports Capex_Documents
begin

text \<open>
  The lifecycle stages of a project from observations, \<open>src/onetruth/capex_platform/lifecycle_stage_state_workflow.py\<close>:
  an observation names a stage and asks for a readiness state, and what evidence, conflicts and drafts it refers to decides
  which state it gets. A state row and its row in the readiness matrix are two views of one record here.
\<close>

section \<open>Rows\<close>

definition lifecycle_stage_ids :: "string list" where
  "lifecycle_stage_ids = [''intake'', ''baseline'', ''planning_procurement'', ''execution_delivery'',
     ''commissioning_closeout'', ''post_closeout'']"

definition readiness_states :: "string list" where
  "readiness_states = [''not_started'', ''in_progress'', ''ready'', ''blocked_missing_evidence'', ''blocked_conflict'',
     ''ai_draft_only'']"

definition lifecycle_forbidden_raw_keys :: "string list" where
  "lifecycle_forbidden_raw_keys = [''absolute_path'', ''base64'', ''base64_content'', ''blob_bytes'', ''content'',
     ''document_text'', ''evidence_text'', ''extracted_text'', ''file_name'', ''filename'', ''full_text'',
     ''lifecycle_notes'', ''local_path'', ''ocr_text'', ''path'', ''raw_bytes'', ''raw_content'', ''raw_evidence'',
     ''raw_file'', ''raw_filename'', ''raw_stage'', ''source_filename'', ''source_text'', ''stage_text'', ''text'',
     ''text_excerpt'']"

abbreviation lifecycle_error :: "string \<Rightarrow> exc" where
  "lifecycle_error \<equiv> LifecycleStageStateWorkflowError"

definition lifecycle_require_nonempty :: "json \<Rightarrow> string result" where
  "lifecycle_require_nonempty = require_text (lifecycle_error ''lifecycle_required_field_missing'')"

definition lifecycle_reject_raw_material :: "json \<Rightarrow> unit result" where
  "lifecycle_reject_raw_material = reject_raw
     (\<lambda>key. require (py_lower (py_strip key) \<notin> set lifecycle_forbidden_raw_keys) (lifecycle_error ''lifecycle_raw_material_rejected''))
     (\<lambda>s. require (\<not> (raw_locator (py_strip s) \<or> document_name (py_strip s))) (lifecycle_error ''lifecycle_raw_material_rejected''))"

definition lifecycle_allowed_stage :: "json \<Rightarrow> string result" where
  "lifecycle_allowed_stage raw = rbind (lifecycle_require_nonempty raw) (\<lambda>s.
     rbind (require (s \<in> set lifecycle_stage_ids) (lifecycle_error ''lifecycle_stage_id_invalid'')) (\<lambda>_. Inr s))"

definition lifecycle_allowed_readiness_state :: "json \<Rightarrow> string result" where
  "lifecycle_allowed_readiness_state raw = rbind (lifecycle_require_nonempty raw) (\<lambda>s.
     rbind (require (s \<in> set readiness_states) (lifecycle_error ''lifecycle_readiness_state_invalid'')) (\<lambda>_. Inr s))"

definition lifecycle_available_source_refs :: "dict \<Rightarrow> string list result" where
  "lifecycle_available_source_refs = corpus_source_refs is_source_ref (lifecycle_error ''lifecycle_source_basis_required'')"

definition lifecycle_source_ref :: "string list \<Rightarrow> json \<Rightarrow> string result" where
  "lifecycle_source_ref available value =
     rbind (require (is_source_ref (py_str value)) (lifecycle_error ''lifecycle_source_ref_invalid'')) (\<lambda>_.
     rbind (require (py_str value \<in> set available) (lifecycle_error ''lifecycle_source_ref_not_in_corpus_baseline'')) (\<lambda>_.
     Inr (py_str value)))"

definition lifecycle_source_refs :: "string list \<Rightarrow> bool \<Rightarrow> json \<Rightarrow> string list result" where
  "lifecycle_source_refs available required raw =
     (if raw = JNull \<or> raw = JStr []
      then if required then Inl (lifecycle_error ''lifecycle_source_refs_required'') else Inr []
      else case raw of
        JArr values \<Rightarrow> rbind (map_result (lifecycle_source_ref available) values) (\<lambda>refs. Inr (sort refs))
      | _ \<Rightarrow> Inl (lifecycle_error ''lifecycle_source_refs_must_be_list''))"

text \<open>The state, the result and the reason.\<close>

definition readiness_outcome ::
    "string \<Rightarrow> string list \<Rightarrow> string list \<Rightarrow> string list \<Rightarrow> string \<times> string \<times> string" where
  "readiness_outcome requested evidence conflicts drafts =
     (if conflicts \<noteq> [] then (''blocked_conflict'', ''fail'', ''conflicting_lifecycle_evidence'')
      else if drafts \<noteq> [] \<and> evidence = [] then (''ai_draft_only'', ''fail'', ''ai_draft_cannot_set_lifecycle_stage'')
      else if requested = ''ready'' \<and> evidence = [] then (''blocked_missing_evidence'', ''fail'', ''missing_stage_evidence'')
      else if requested = ''blocked_conflict'' then (''blocked_conflict'', ''fail'', ''conflicting_lifecycle_evidence'')
      else if requested = ''blocked_missing_evidence'' then (''blocked_missing_evidence'', ''fail'', ''missing_stage_evidence'')
      else if requested = ''ai_draft_only'' then (''ai_draft_only'', ''fail'', ''ai_draft_cannot_set_lifecycle_stage'')
      else if requested = ''ready'' then (''ready'', ''pass'', ''stage_supported_by_evidence'')
      else if requested = ''not_started'' then (''not_started'', ''informational'', ''stage_not_started'')
      else (''in_progress'', ''informational'', ''stage_in_progress''))"

text \<open>\<open>str.title\<close>: a letter is a capital exactly when no letter stands before it.\<close>

fun py_title_from :: "bool \<Rightarrow> string \<Rightarrow> string" where
  "py_title_from after [] = []"
| "py_title_from after (c # s) =
     (if after then lower_char c else upper_char c) # py_title_from (is_lower c \<or> is_upper c) s"

definition stage_label :: "string \<Rightarrow> string" where
  "stage_label stage_id = py_title_from False (replace_char (CHR ''_'') (CHR '' '') stage_id)"

record stage_row =
  sg_id :: string
  sg_order :: nat
  sg_label :: string
  sg_state :: string
  sg_result :: string
  sg_reason :: string
  sg_summary :: string
  sg_refs :: "string list"
  sg_evidence :: "string list"
  sg_conflicts :: "string list"
  sg_drafts :: "string list"

text \<open>\<open>LIFECYCLE_STAGE_IDS.index(stage_id) + 1\<close>.\<close>

definition stage_order :: "string \<Rightarrow> nat" where
  "stage_order stage_id = Suc (length (takeWhile (\<lambda>s. s \<noteq> stage_id) lifecycle_stage_ids))"

definition lifecycle_stage_row :: "string list \<Rightarrow> dict \<Rightarrow> stage_row result" where
  "lifecycle_stage_row available observation =
     rbind (lifecycle_reject_raw_material (JObj observation)) (\<lambda>_.
     rbind (lifecycle_allowed_stage (jget observation ''stage_id'')) (\<lambda>stage_id.
     rbind (lifecycle_source_refs available True (jget observation ''source_refs'')) (\<lambda>refs.
     rbind (lifecycle_source_refs available False (jget observation ''evidence_source_refs'')) (\<lambda>evidence.
     rbind (lifecycle_source_refs available False (jget observation ''conflict_source_refs'')) (\<lambda>conflicts.
     rbind (lifecycle_source_refs available False (jget observation ''ai_draft_source_refs'')) (\<lambda>drafts.
     rbind (lifecycle_allowed_readiness_state (jget_default observation ''readiness_state'' (JStr ''in_progress''))) (\<lambda>requested.
     case readiness_outcome requested evidence conflicts drafts of (state, outcome, reason) \<Rightarrow>
     rbind (lifecycle_require_nonempty (jget observation ''stage_summary'')) (\<lambda>summary.
     Inr \<lparr>sg_id = stage_id, sg_order = stage_order stage_id, sg_label = stage_label stage_id, sg_state = state,
       sg_result = outcome, sg_reason = reason, sg_summary = summary, sg_refs = refs, sg_evidence = evidence,
       sg_conflicts = conflicts, sg_drafts = drafts\<rparr>))))))))"

definition stage_state_json :: "stage_row \<Rightarrow> json" where
  "stage_state_json r = JObj [(''stage_id'', JStr (sg_id r)), (''stage_order'', JInt (int (sg_order r))),
     (''stage_label'', JStr (sg_label r)), (''readiness_state'', JStr (sg_state r)),
     (''navigation_result'', JStr (sg_result r)), (''reason'', JStr (sg_reason r)), (''stage_summary'', JStr (sg_summary r)),
     (''source_refs'', json_texts (sg_refs r)), (''evidence_source_refs'', json_texts (sg_evidence r)),
     (''conflict_source_refs'', json_texts (sg_conflicts r)), (''ai_draft_source_refs'', json_texts (sg_drafts r)),
     (''derived_navigation_only'', JBool True), (''official_truth'', JBool False)]"

definition stage_matrix_json :: "stage_row \<Rightarrow> json" where
  "stage_matrix_json r = JObj [(''stage_id'', JStr (sg_id r)), (''stage_order'', JInt (int (sg_order r))),
     (''readiness_state'', JStr (sg_state r)), (''result'', JStr (sg_result r)), (''reason'', JStr (sg_reason r)),
     (''source_refs'', json_texts (sg_refs r)), (''evidence_source_refs'', json_texts (sg_evidence r)),
     (''derived_navigation_only'', JBool True)]"

definition flag_type_by_state :: "string \<Rightarrow> string option" where
  "flag_type_by_state = map_of [(''blocked_missing_evidence'', ''missing_stage_evidence''),
     (''blocked_conflict'', ''conflicting_lifecycle_evidence''), (''ai_draft_only'', ''ai_draft_cannot_set_lifecycle_stage'')]"

definition stage_flag_rows :: "stage_row \<Rightarrow> (string \<times> json) list" where
  "stage_flag_rows r = (case flag_type_by_state (sg_state r) of
     None \<Rightarrow> []
   | Some flag_type \<Rightarrow>
       let flag_id = sg_id r @ '':'' @ flag_type;
           refs = (if sg_state r = ''blocked_conflict'' then sg_conflicts r
             else if sg_state r = ''ai_draft_only'' then sg_drafts r else sg_refs r)
       in [(flag_id, JObj [(''flag_id'', JStr flag_id), (''stage_id'', JStr (sg_id r)), (''flag_type'', JStr flag_type),
            (''severity'', JStr (if sg_state r \<noteq> ''blocked_missing_evidence'' then ''high'' else ''medium'')),
            (''reason'', JStr (sg_reason r)), (''source_refs'', json_texts refs)])])"

section \<open>The document\<close>

definition lifecycle_stage_rows :: "dict \<Rightarrow> json list \<Rightarrow> stage_row list result" where
  "lifecycle_stage_rows corpus observations =
     rbind (lifecycle_available_source_refs corpus) (\<lambda>available.
     rbind (require (observations \<noteq> []) (lifecycle_error ''lifecycle_stage_observations_required'')) (\<lambda>_.
     collect_rows (lifecycle_error ''lifecycle_stage_observation_must_be_object'')
       (lifecycle_error ''lifecycle_stage_duplicate_stage_id'') (lifecycle_stage_row available) sg_id [] observations))"

definition build_lifecycle_stage_state_workflow_outputs ::
    "dict \<Rightarrow> json list \<Rightarrow> string \<Rightarrow> string \<Rightarrow> string \<Rightarrow> string \<Rightarrow> dict result" where
  "build_lifecycle_stage_state_workflow_outputs corpus observations workflow_id created_at actor_id actor_type =
     rbind (require (jget corpus ''schema_version'' = JStr corpus_baseline_schema_version)
       (lifecycle_error ''lifecycle_requires_corpus_baseline_outputs'')) (\<lambda>_.
     rbind (document_scope (lifecycle_error ''lifecycle_required_field_missing'') corpus) (\<lambda>(tenant_id, domain_id, project_id).
     rbind (lifecycle_stage_rows corpus observations) (\<lambda>unsorted.
     let rows = sort_key sg_order unsorted;
         flag_rows = map snd (sort_key fst (concat (map stage_flag_rows unsorted))) in
     rbind (lifecycle_require_nonempty (JStr workflow_id)) (\<lambda>workflow_id.
     rbind (lifecycle_require_nonempty (JStr created_at)) (\<lambda>created_at.
     rbind (lifecycle_require_nonempty (JStr actor_id)) (\<lambda>actor_id.
     rbind (lifecycle_require_nonempty (JStr actor_type)) (\<lambda>actor_type.
     rbind (lifecycle_require_nonempty (jget corpus ''workflow_id'')) (\<lambda>corpus_workflow_id.
     rbind (lifecycle_require_nonempty (packet_register_id corpus)) (\<lambda>packet_register_id.
     Inr [(''schema_version'', JStr ''capex.lifecycle_stage_state.workflow_outputs.v1''),
       (''activation_posture'', JStr ''planning_only_no_capex_activation''), (''workflow_id'', JStr workflow_id),
       (''tenant_id'', JStr tenant_id), (''domain_id'', JStr domain_id), (''project_id'', JStr project_id),
       (''created_at'', JStr created_at),
       (''created_by_actor'', JObj [(''id'', JStr actor_id), (''type'', JStr actor_type)]),
       (''basis'', JObj [(''corpus_baseline_workflow_id'', JStr corpus_workflow_id),
          (''packet_register_id'', JStr packet_register_id)]),
       (''lifecycle_stage_state'', digest_section ''capex.lifecycle_stage_state.v1'' (map stage_state_json rows)),
       (''stage_readiness_matrix'', digest_section ''capex.stage_readiness_matrix.v1'' (map stage_matrix_json rows)),
       (''lifecycle_navigation_flags'', digest_section ''capex.lifecycle_navigation_flags.v1'' flag_rows),
       (''truth_effects'', no_effects [''creates_workflow_run'', ''creates_tasks'', ''creates_approvals'',
          ''creates_closure_snapshots'', ''creates_reviewed_baseline'', ''writes_artifacts'',
          ''promotes_official_pointers'', ''activates_workflow_pack'']),
       (''cannot_be_used_for'', json_texts [''authored_workflow_pack_activation'', ''workflow_run_creation'',
          ''public_route_activation'', ''frontend_route_activation'', ''official_stage_truth'',
          ''waterfall_gate_authority'', ''reviewed_baseline_creation'', ''closure_snapshot_creation'',
          ''evidence_sufficiency_claim'', ''official_pointer_creation'', ''capex_runtime_activation'',
          ''product_activation''])])))))))))"

definition lifecycle_stage_state_workflow_digest :: "dict \<Rightarrow> string" where
  "lifecycle_stage_state_workflow_digest outputs = json_digest (JObj outputs)"

section \<open>Readiness\<close>

lemma stage_row_Inr:
  assumes "lifecycle_stage_row available ob = Inr r"
  shows "sg_id r \<in> set lifecycle_stage_ids" "sg_order r = stage_order (sg_id r)"
    "set (sg_evidence r) \<subseteq> set available" "set (sg_conflicts r) \<subseteq> set available" "set (sg_drafts r) \<subseteq> set available"
    "set (sg_refs r) \<subseteq> set available"
    "\<exists>requested\<in>set readiness_states. (sg_state r, sg_result r, sg_reason r)
       = readiness_outcome requested (sg_evidence r) (sg_conflicts r) (sg_drafts r)"
proof -
  have refs: "set ss \<subseteq> set available" if "lifecycle_source_refs available b v = Inr ss" for b v ss
  proof -
    have all: "set ys \<subseteq> set available" if "map_result (lifecycle_source_ref available) xs = Inr ys" for xs ys
      using that
    proof (induction xs arbitrary: ys)
      case (Cons x xs)
      then obtain y zs where "lifecycle_source_ref available x = Inr y" "map_result (lifecycle_source_ref available) xs = Inr zs"
        "ys = y # zs"
        by (auto simp: rbind_eq_Inr)
      moreover from this have "y \<in> set available" by (auto simp: lifecycle_source_ref_def rbind_eq_Inr)
      ultimately show ?case using Cons.IH by simp
    qed simp
    then show ?thesis using that
      by (auto simp: lifecycle_source_refs_def rbind_eq_Inr split: if_splits json.splits dest: all [THEN subsetD])
  qed
  note row = lifecycle_stage_row_def rbind_eq_Inr split_beta
  show "\<exists>requested\<in>set readiness_states. (sg_state r, sg_result r, sg_reason r)
       = readiness_outcome requested (sg_evidence r) (sg_conflicts r) (sg_drafts r)"
    using assms by (auto simp: row lifecycle_allowed_readiness_state_def intro!: bexI)
  show "sg_id r \<in> set lifecycle_stage_ids" "sg_order r = stage_order (sg_id r)"
    using assms by (auto simp: row lifecycle_allowed_stage_def)
  show "set (sg_evidence r) \<subseteq> set available" "set (sg_conflicts r) \<subseteq> set available" "set (sg_drafts r) \<subseteq> set available"
    "set (sg_refs r) \<subseteq> set available"
    using assms by (auto simp: row dest!: refs [THEN subsetD, rotated])
qed

lemma ready_outcome:
  assumes "(''ready'', result, reason) = readiness_outcome requested evidence conflicts drafts"
  shows "evidence \<noteq> [] \<and> conflicts = [] \<and> result = ''pass''"
  using assms by (auto simp: readiness_outcome_def split: if_splits)

lemma stage_order_inj: "inj_on stage_order (set lifecycle_stage_ids)"
  by (simp add: lifecycle_stage_ids_def stage_order_def)

lemma strictly_sorted: "sorted xs \<Longrightarrow> distinct xs \<Longrightarrow> sorted_wrt (<) (xs :: nat list)"
  by (simp add: strict_sorted_iff)

text \<open>
  C18: the rows of a lifecycle stage document stand for different stages, in the order of the lifecycle; a row is ready, with
  the result pass, only on evidence and with no conflict, and what it refers to are source refs of the corpus baseline.
\<close>

theorem stages_ready_on_evidence:
  assumes "build_lifecycle_stage_state_workflow_outputs corpus observations w t a ty = Inr outputs"
  shows "\<exists>rows available. jget outputs ''lifecycle_stage_state''
        = digest_section ''capex.lifecycle_stage_state.v1'' (map stage_state_json rows)
     \<and> lifecycle_available_source_refs corpus = Inr available \<and> length rows = length observations
     \<and> sorted_wrt (<) (map sg_order rows)
     \<and> (\<forall>r\<in>set rows. sg_id r \<in> set lifecycle_stage_ids
          \<and> set (sg_evidence r @ sg_conflicts r @ sg_drafts r @ sg_refs r) \<subseteq> set available
          \<and> (sg_state r = ''ready'' \<longrightarrow> sg_evidence r \<noteq> [] \<and> sg_conflicts r = [] \<and> sg_result r = ''pass''))"
proof -
  obtain unsorted where rows: "lifecycle_stage_rows corpus observations = Inr unsorted"
    and out: "jget outputs ''lifecycle_stage_state''
        = digest_section ''capex.lifecycle_stage_state.v1'' (map stage_state_json (sort_key sg_order unsorted))"
    using assms by (auto simp: build_lifecycle_stage_state_workflow_outputs_def rbind_eq_Inr jget_def Let_def split: prod.splits)
  from rows obtain available where av: "lifecycle_available_source_refs corpus = Inr available"
    and collected: "collect_rows (lifecycle_error ''lifecycle_stage_observation_must_be_object'')
       (lifecycle_error ''lifecycle_stage_duplicate_stage_id'') (lifecycle_stage_row available) sg_id [] observations = Inr unsorted"
    by (auto simp: lifecycle_stage_rows_def rbind_eq_Inr)
  note facts = collect_rows_Inr [OF collected]
  have row: "\<exists>ob. lifecycle_stage_row available ob = Inr r" if "r \<in> set unsorted" for r using facts that by blast
  have ids: "sg_id r \<in> set lifecycle_stage_ids" "sg_order r = stage_order (sg_id r)" if "r \<in> set unsorted" for r
    using row [OF that] stage_row_Inr(1,2) by blast+
  have "distinct (map sg_order unsorted)"
  proof -
    have "map sg_order unsorted = map stage_order (map sg_id unsorted)" using ids(2) by simp
    moreover have "inj_on stage_order (set (map sg_id unsorted))"
      using stage_order_inj by (rule inj_on_subset) (use ids(1) in auto)
    ultimately show ?thesis using facts by (metis distinct_map)
  qed
  then have "distinct (map sg_order (sort_key sg_order unsorted))" by (simp add: distinct_map)
  then have sorted: "sorted_wrt (<) (map sg_order (sort_key sg_order unsorted))"
    by (intro strictly_sorted) simp_all
  have "sg_id r \<in> set lifecycle_stage_ids
      \<and> set (sg_evidence r @ sg_conflicts r @ sg_drafts r @ sg_refs r) \<subseteq> set available
      \<and> (sg_state r = ''ready'' \<longrightarrow> sg_evidence r \<noteq> [] \<and> sg_conflicts r = [] \<and> sg_result r = ''pass'')"
    if r: "r \<in> set unsorted" for r
  proof -
    obtain ob where ob: "lifecycle_stage_row available ob = Inr r" using row [OF r] by blast
    note f = stage_row_Inr [OF ob]
    have "sg_evidence r \<noteq> [] \<and> sg_conflicts r = [] \<and> sg_result r = ''pass''" if "sg_state r = ''ready''"
      using f(7) that ready_outcome by metis
    then show ?thesis using f(1,3-6) by simp
  qed
  then have "\<forall>r\<in>set (sort_key sg_order unsorted). sg_id r \<in> set lifecycle_stage_ids
      \<and> set (sg_evidence r @ sg_conflicts r @ sg_drafts r @ sg_refs r) \<subseteq> set available
      \<and> (sg_state r = ''ready'' \<longrightarrow> sg_evidence r \<noteq> [] \<and> sg_conflicts r = [] \<and> sg_result r = ''pass'')"
    by simp
  moreover have "length (sort_key sg_order unsorted) = length observations" using facts by simp
  ultimately show ?thesis using out av sorted by blast
qed

text \<open>
  A corpus baseline with two source refs, a stage with evidence, and one asked to be ready on a draft alone. The digests stay
  symbolic.
\<close>

definition sample_corpus :: dict where
  "sample_corpus = [(''schema_version'', JStr corpus_baseline_schema_version), (''tenant_id'', JStr ''t''),
     (''domain_id'', JStr ''d''), (''project_id'', JStr ''p''), (''workflow_id'', JStr ''w''),
     (''basis'', JObj [(''packet_register_id'', JStr ''r'')]),
     (''generated_artifacts'', JArr [JObj [(''envelope'', JObj [(''source_refs'', json_texts [''source_occurrence:a'', ''source_occurrence:b''])])]])]"

definition sample_stages :: "json list" where
  "sample_stages = [
     JObj [(''stage_id'', JStr ''baseline''), (''readiness_state'', JStr ''ready''), (''stage_summary'', JStr ''s''),
       (''source_refs'', JArr []), (''ai_draft_source_refs'', json_texts [''source_occurrence:b''])],
     JObj [(''stage_id'', JStr ''intake''), (''readiness_state'', JStr ''ready''), (''stage_summary'', JStr ''s''),
       (''source_refs'', json_texts [''source_occurrence:a'']), (''evidence_source_refs'', json_texts [''source_occurrence:a''])]]"

lemma sample_stage_rows:
  "map_sum id (map (\<lambda>r. (sg_id r, sg_state r, sg_refs r))) (lifecycle_stage_rows sample_corpus sample_stages)
     = Inr [(''baseline'', ''ai_draft_only'', []), (''intake'', ''ready'', [''source_occurrence:a''])]"
  by code_simp

lemma sample_stages_build:
  "\<exists>outputs. build_lifecycle_stage_state_workflow_outputs sample_corpus sample_stages ''w'' ''now'' ''a'' ''human'' = Inr outputs"
proof -
  obtain rows where rows: "lifecycle_stage_rows sample_corpus sample_stages = Inr rows" 
    using sample_stage_rows by (cases "lifecycle_stage_rows sample_corpus sample_stages") simp_all
  have scope: "document_scope (lifecycle_error ''lifecycle_required_field_missing'') sample_corpus = Inr (''t'', ''d'', ''p'')"
    by code_simp
  have need: "lifecycle_require_nonempty (JStr ''w'') = Inr ''w''" "lifecycle_require_nonempty (JStr ''now'') = Inr ''now''"
    "lifecycle_require_nonempty (JStr ''a'') = Inr ''a''" "lifecycle_require_nonempty (JStr ''human'') = Inr ''human''"
    "lifecycle_require_nonempty (jget sample_corpus ''workflow_id'') = Inr ''w''"
    "lifecycle_require_nonempty (packet_register_id sample_corpus) = Inr ''r''"
    by code_simp+
  have "jget sample_corpus ''schema_version'' = JStr corpus_baseline_schema_version" by code_simp
  then show ?thesis
    by (simp add: build_lifecycle_stage_state_workflow_outputs_def rows scope need Let_def)
qed

theorem stages_ready_on_evidence_witness:
  "\<exists>outputs rows. build_lifecycle_stage_state_workflow_outputs sample_corpus sample_stages ''w'' ''now'' ''a'' ''human''
       = Inr outputs
     \<and> jget outputs ''lifecycle_stage_state''
       = digest_section ''capex.lifecycle_stage_state.v1'' (map stage_state_json rows)
     \<and> length rows = 2 \<and> sorted_wrt (<) (map sg_order rows)"
proof -
  obtain outputs where out: "build_lifecycle_stage_state_workflow_outputs sample_corpus sample_stages ''w'' ''now'' ''a'' ''human''
      = Inr outputs"
    using sample_stages_build by blast
  have "length sample_stages = 2" by (simp add: sample_stages_def)
  then show ?thesis using stages_ready_on_evidence [OF out] out by metis
qed

end
