(* ===== verification/Commitment_Chain.thy ===== *)
theory Commitment_Chain
  imports Capex_Documents
begin

text \<open>
  Commercial commitments from observations, \<open>src/onetruth/capex_platform/governance_commitment_chain.py\<close>: each observation
  gives a commitment with its events in order of time, the ledger entries of the events that carry money, and flags.
\<close>

section \<open>What both kinds of document share\<close>

text \<open>A list of texts, each checked and each given once.\<close>

fun distinct_texts :: "(json \<Rightarrow> string result) \<Rightarrow> exc \<Rightarrow> string list \<Rightarrow> json list \<Rightarrow> string list result" where
  "distinct_texts item duplicate seen [] = Inr []"
| "distinct_texts item duplicate seen (v # vs) =
     rbind (item v) (\<lambda>s. rbind (require (s \<notin> set seen) duplicate) (\<lambda>_.
     rbind (distinct_texts item duplicate (s # seen) vs) (\<lambda>ss. Inr (s # ss))))"

lemma distinct_texts_Inr:
  assumes "distinct_texts item e seen vs = Inr ss" "\<And>v s. item v = Inr s \<Longrightarrow> s \<in> A"
  shows "distinct ss \<and> set ss \<inter> set seen = {} \<and> length ss = length vs \<and> set ss \<subseteq> A"
  using assms(1)
proof (induction vs arbitrary: seen ss)
  case (Cons v vs)
  then obtain s rest where s: "item v = Inr s" "s \<notin> set seen" "distinct_texts item e (s # seen) vs = Inr rest" "ss = s # rest"
    by (auto simp: rbind_eq_Inr)
  from Cons.IH [OF s(3)] s(2,4) assms(2) [OF s(1)] show ?case by auto
qed simp

definition reject_raw_texts :: "string list \<Rightarrow> exc \<Rightarrow> exc \<Rightarrow> exc \<Rightarrow> json \<Rightarrow> unit result" where
  "reject_raw_texts keys raw_field inline raw_value = reject_raw
     (\<lambda>key. require (\<not> (key \<in> set keys \<or> prefix ''raw_'' key)) raw_field)
     (\<lambda>s. rbind (require (\<not> inline_content s) inline) (\<lambda>_. require (\<not> (raw_locator s \<or> document_name s)) raw_value))"

definition allowed_text :: "exc \<Rightarrow> exc \<Rightarrow> string list \<Rightarrow> json \<Rightarrow> string result" where
  "allowed_text missing invalid allowed value =
     rbind (require_text missing value) (\<lambda>s. rbind (require (s \<in> set allowed) invalid) (\<lambda>_. Inr s))"

section \<open>Events\<close>

definition commitment_event_types :: "string list" where
  "commitment_event_types = [''approval'', ''budget'', ''quote'', ''order'', ''revision'', ''settlement'', ''responsibility_shift'']"

definition commitment_types :: "string list" where
  "commitment_types = [''approval'', ''budget'', ''quote'', ''purchase_order'', ''change_order'', ''settlement'', ''responsibility'']"

definition officialness_scopes :: "string list" where
  "officialness_scopes = [''external'', ''internal'', ''mixed'', ''draft'']"

definition commercial_statuses :: "string list" where
  "commercial_statuses = [''draft'', ''proposed'', ''approved'', ''ordered'', ''revised'', ''settled'', ''voided'']"

definition commitment_forbidden_raw_keys :: "string list" where
  "commitment_forbidden_raw_keys = [''absolute_path'', ''base64'', ''base64_content'', ''blob_bytes'', ''content'',
     ''document_text'', ''extracted_text'', ''file_name'', ''filename'', ''local_path'', ''ocr_text'', ''path'', ''raw_bytes'',
     ''raw_content'', ''raw_file'', ''raw_filename'', ''source_filename'']"

abbreviation commitment_error :: "string \<Rightarrow> exc" where
  "commitment_error code \<equiv> GovernanceCommitmentChainError (''commitment_'' @ code)"

abbreviation commitment_missing :: exc where
  "commitment_missing \<equiv> commitment_error ''required_field_missing''"

definition commitment_reject_raw_material :: "json \<Rightarrow> unit result" where
  "commitment_reject_raw_material = reject_raw_texts commitment_forbidden_raw_keys (commitment_error ''raw_field_forbidden'')
     (commitment_error ''inline_content_forbidden'') (commitment_error ''raw_value_forbidden'')"

definition commitment_allowed :: "string list \<Rightarrow> string \<Rightarrow> dict \<Rightarrow> string result" where
  "commitment_allowed allowed field raw =
     allowed_text commitment_missing (commitment_error (field @ ''_invalid'')) allowed (jget raw field)"

record commitment_event =
  cv_id :: string
  cv_type :: string
  cv_effective_at :: string
  cv_revision :: "string option"
  cv_amount :: json
  cv_currency :: "string option"
  cv_from :: "string option"
  cv_to :: "string option"

text \<open>\<open>isinstance(amount, int)\<close> holds of the truth values too.\<close>

definition amount_ok :: "json \<Rightarrow> bool" where
  "amount_ok v = (case v of JNull \<Rightarrow> True | JInt n \<Rightarrow> 0 \<le> n | JBool _ \<Rightarrow> True | _ \<Rightarrow> False)"

fun commitment_event_rows :: "string list \<Rightarrow> json list \<Rightarrow> commitment_event list result" where
  "commitment_event_rows seen [] = Inr []"
| "commitment_event_rows seen (JObj raw # rest) =
     rbind (commitment_allowed commitment_event_types ''event_type'' raw) (\<lambda>event_type.
     rbind (require_text commitment_missing (jget raw ''event_id'')) (\<lambda>event_id.
     rbind (require (event_id \<notin> set seen) (commitment_error ''duplicate_event_id'')) (\<lambda>_.
     rbind (require (amount_ok (jget raw ''amount_cents'')) (commitment_error ''amount_invalid'')) (\<lambda>_.
     rbind (require_text commitment_missing (jget raw ''effective_at'')) (\<lambda>effective_at.
     rbind (commitment_event_rows (event_id # seen) rest) (\<lambda>rows.
     Inr (\<lparr>cv_id = event_id, cv_type = event_type, cv_effective_at = effective_at,
           cv_revision = optional_text (jget raw ''revision_id''), cv_amount = jget raw ''amount_cents'',
           cv_currency = optional_text (jget raw ''currency''), cv_from = optional_text (jget raw ''responsibility_from''),
           cv_to = optional_text (jget raw ''responsibility_to'')\<rparr> # rows)))))))"
| "commitment_event_rows seen (_ # rest) = Inl (commitment_error ''event_must_be_object'')"

definition commitment_events :: "json \<Rightarrow> commitment_event list result" where
  "commitment_events value =
     (case value of
        JArr items \<Rightarrow>
          if items = [] then Inl (commitment_error ''events_required'')
          else rbind (commitment_event_rows [] items) (\<lambda>rows. Inr (sort_key cv_effective_at (sort_key cv_id rows)))
      | _ \<Rightarrow> Inl (commitment_error ''events_required''))"

definition event_json :: "commitment_event \<Rightarrow> json" where
  "event_json e = JObj [(''event_id'', JStr (cv_id e)), (''event_type'', JStr (cv_type e)),
     (''effective_at'', JStr (cv_effective_at e)), (''revision_id'', of_opt (cv_revision e)), (''amount_cents'', cv_amount e),
     (''currency'', of_opt (cv_currency e)), (''responsibility_from'', of_opt (cv_from e)), (''responsibility_to'', of_opt (cv_to e))]"

section \<open>Commitments\<close>

record commitment_flag =
  cf_id :: string
  cf_type :: string
  cf_severity :: string

record commitment =
  cm_id :: string
  cm_type :: string
  cm_status :: string
  cm_scope :: string
  cm_refs :: "string list"
  cm_events :: "commitment_event list"
  cm_shift :: "string option"
  cm_flags :: "commitment_flag list"

definition commitment_available_source_refs :: "dict \<Rightarrow> string list result" where
  "commitment_available_source_refs = corpus_source_refs (\<lambda>_. True) (commitment_error ''source_basis_required'')"

definition commitment_source_ref :: "string list \<Rightarrow> json \<Rightarrow> string result" where
  "commitment_source_ref available v = rbind (require_text commitment_missing v) (\<lambda>s.
     rbind (require (s \<in> set available) (commitment_error ''source_ref_not_in_corpus_baseline'')) (\<lambda>_. Inr s))"

definition commitment_source_refs :: "string list \<Rightarrow> json \<Rightarrow> string list result" where
  "commitment_source_refs available value =
     (case value of
        JArr items \<Rightarrow>
          if items = [] then Inl (commitment_error ''source_refs_required'')
          else rbind (distinct_texts (commitment_source_ref available) (commitment_error ''duplicate_source_ref'') [] items)
            (\<lambda>refs. Inr (sort refs))
      | _ \<Rightarrow> Inl (commitment_error ''source_refs_required''))"

definition settles :: "commitment_event list \<Rightarrow> bool" where
  "settles evs = list_ex (\<lambda>e. cv_type e = ''settlement'') evs"

definition observed_flag :: "json \<Rightarrow> commitment_flag result" where
  "observed_flag value =
     (case value of
        JObj raw \<Rightarrow>
          rbind (require_text commitment_missing (jget raw ''flag_id'')) (\<lambda>flag_id.
          rbind (require_text commitment_missing (jget raw ''flag_type'')) (\<lambda>flag_type.
          rbind (require_text commitment_missing (jget raw ''severity'')) (\<lambda>severity.
          Inr \<lparr>cf_id = flag_id, cf_type = flag_type, cf_severity = severity\<rparr>)))
      | _ \<Rightarrow> Inl (commitment_error ''flag_must_be_object''))"

definition commitment_flags :: "string \<Rightarrow> dict \<Rightarrow> commitment_event list \<Rightarrow> commitment_flag list result" where
  "commitment_flags commitment_id observation evs =
     rbind (py_iter (py_or (jget observation ''flags'') (JArr []))) (\<lambda>items.
     rbind (map_result observed_flag items) (\<lambda>observed.
     Inr ((if settles evs then [\<lparr>cf_id = commitment_id @ '':settlement-not-technical-rca'',
             cf_type = ''settlement_not_technical_rca'', cf_severity = ''medium''\<rparr>] else []) @ observed)))"

definition commitment_row :: "string list \<Rightarrow> dict \<Rightarrow> commitment result" where
  "commitment_row available observation =
     rbind (commitment_reject_raw_material (JObj observation)) (\<lambda>_.
     rbind (require_text commitment_missing (jget observation ''commitment_id'')) (\<lambda>commitment_id.
     rbind (commitment_allowed commitment_types ''commitment_type'' observation) (\<lambda>commitment_type.
     rbind (commitment_allowed commercial_statuses ''commercial_status'' observation) (\<lambda>commercial_status.
     rbind (commitment_allowed officialness_scopes ''officialness_scope'' observation) (\<lambda>officialness_scope.
     rbind (commitment_source_refs available (jget observation ''source_refs'')) (\<lambda>refs.
     rbind (commitment_events (jget observation ''events'')) (\<lambda>evs.
     rbind (require (\<not> (settles evs \<and> truthy (jget_default observation ''closes_technical_rca'' (JBool False))))
       (GovernanceCommitmentChainError ''settlement_must_not_close_technical_rca'')) (\<lambda>_.
     rbind (commitment_flags commitment_id observation evs) (\<lambda>flags.
     Inr \<lparr>cm_id = commitment_id, cm_type = commitment_type, cm_status = commercial_status, cm_scope = officialness_scope,
       cm_refs = refs, cm_events = evs, cm_shift = optional_text (jget observation ''responsibility_shift''),
       cm_flags = flags\<rparr>)))))))))"

definition revision_history :: "commitment \<Rightarrow> commitment_event list" where
  "revision_history c = filter (\<lambda>e. cv_type e \<in> {''order'', ''revision''}) (cm_events c)"

definition current_revision_id :: "commitment \<Rightarrow> string option" where
  "current_revision_id c = (if revision_history c = [] then None else cv_revision (last (revision_history c)))"

definition commitment_json :: "commitment \<Rightarrow> json" where
  "commitment_json c = JObj [(''commitment_id'', JStr (cm_id c)), (''commitment_type'', JStr (cm_type c)),
     (''commercial_status'', JStr (cm_status c)), (''officialness_scope'', JStr (cm_scope c)),
     (''source_refs'', json_texts (cm_refs c)), (''events'', JArr (map event_json (cm_events c))),
     (''revision_history'', JArr (map (\<lambda>e. JObj [(''event_id'', JStr (cv_id e)), (''revision_id'', of_opt (cv_revision e)),
        (''effective_at'', JStr (cv_effective_at e))]) (revision_history c))),
     (''current_revision_id'', of_opt (current_revision_id c)), (''responsibility_shift'', of_opt (cm_shift c)),
     (''technical_rca_status'', JStr ''not_closed_by_commercial_settlement''), (''official_truth'', JBool False)]"

text \<open>The entries of the ledger and the flags, each with the id they are sorted by.\<close>

definition ledger_rows :: "commitment \<Rightarrow> (string \<times> json) list" where
  "ledger_rows c = map (\<lambda>e. (cm_id c @ '':'' @ cv_id e,
       JObj [(''ledger_entry_id'', JStr (cm_id c @ '':'' @ cv_id e)), (''commitment_id'', JStr (cm_id c)),
         (''event_id'', JStr (cv_id e)), (''event_type'', JStr (cv_type e)), (''amount_cents'', cv_amount e),
         (''currency'', of_opt (cv_currency e)), (''commercial_status'', JStr (cm_status c)),
         (''source_refs'', json_texts (cm_refs c))]))
     (filter (\<lambda>e. cv_type e \<in> {''budget'', ''quote'', ''order'', ''revision'', ''settlement''}) (cm_events c))"

definition commitment_flag_rows :: "commitment \<Rightarrow> (string \<times> json) list" where
  "commitment_flag_rows c = map (\<lambda>f. (cf_id f,
       JObj [(''flag_id'', JStr (cf_id f)), (''commitment_id'', JStr (cm_id c)), (''flag_type'', JStr (cf_type f)),
         (''severity'', JStr (cf_severity f)), (''source_refs'', json_texts (cm_refs c))])) (cm_flags c)"

section \<open>The document\<close>

definition governance_commitment_chain_schema_version :: string where
  "governance_commitment_chain_schema_version = ''capex.governance_commitment_chain.outputs.v1''"

definition commitment_rows :: "dict \<Rightarrow> json list \<Rightarrow> commitment list result" where
  "commitment_rows corpus observations =
     rbind (commitment_available_source_refs corpus) (\<lambda>available.
     rbind (require (observations \<noteq> []) (commitment_error ''observations_required'')) (\<lambda>_.
     collect_rows (commitment_error ''observation_must_be_object'') (commitment_error ''duplicate_id'')
       (commitment_row available) cm_id [] observations))"

definition sorted_rows :: "('r \<Rightarrow> (string \<times> json) list) \<Rightarrow> 'r list \<Rightarrow> json list" where
  "sorted_rows rows rs = map snd (sort_key fst (concat (map rows rs)))"

definition build_governance_commitment_chain_outputs ::
    "dict \<Rightarrow> json list \<Rightarrow> string \<Rightarrow> string \<Rightarrow> string \<Rightarrow> string \<Rightarrow> dict result" where
  "build_governance_commitment_chain_outputs corpus observations workflow_id created_at actor_id actor_type =
     rbind (require (jget corpus ''schema_version'' = JStr corpus_baseline_schema_version)
       (commitment_error ''requires_corpus_baseline_outputs'')) (\<lambda>_.
     rbind (document_scope commitment_missing corpus) (\<lambda>(tenant_id, domain_id, project_id).
     rbind (commitment_rows corpus observations) (\<lambda>rows.
     rbind (require_text commitment_missing (JStr workflow_id)) (\<lambda>workflow_id.
     rbind (require_text commitment_missing (JStr created_at)) (\<lambda>created_at.
     rbind (require_text commitment_missing (JStr actor_id)) (\<lambda>actor_id.
     rbind (require_text commitment_missing (JStr actor_type)) (\<lambda>actor_type.
     rbind (require_text commitment_missing (jget corpus ''workflow_id'')) (\<lambda>corpus_workflow_id.
     rbind (require_text commitment_missing (packet_register_id corpus)) (\<lambda>packet_register_id.
     Inr [(''schema_version'', JStr governance_commitment_chain_schema_version),
       (''activation_posture'', JStr ''planning_only_no_capex_activation''), (''workflow_id'', JStr workflow_id),
       (''tenant_id'', JStr tenant_id), (''domain_id'', JStr domain_id), (''project_id'', JStr project_id),
       (''created_at'', JStr created_at),
       (''created_by_actor'', JObj [(''id'', JStr actor_id), (''type'', JStr actor_type)]),
       (''basis'', JObj [(''corpus_baseline_workflow_id'', JStr corpus_workflow_id),
          (''packet_register_id'', JStr packet_register_id)]),
       (''commitment_chain'', digest_section ''capex.commitment_chain.v1'' (map commitment_json (sort_key cm_id rows))),
       (''expenditure_ledger'', digest_section ''capex.expenditure_ledger.v1'' (sorted_rows ledger_rows rows)),
       (''commitment_flags'', digest_section ''capex.commitment_flags.v1'' (sorted_rows commitment_flag_rows rows)),
       (''truth_effects'', no_effects [''creates_workflow_run'', ''creates_approvals'', ''closes_technical_rca'',
          ''creates_reviewed_baseline'', ''writes_artifacts'', ''promotes_official_pointers'', ''activates_workflow_pack'']),
       (''cannot_be_used_for'', json_texts [''authored_workflow_pack_activation'', ''workflow_run_creation'',
          ''public_route_activation'', ''frontend_route_activation'', ''approval_response_mutation'', ''technical_rca_closure'',
          ''reviewed_baseline_creation'', ''official_pointer_creation'', ''capex_runtime_activation'',
          ''product_activation''])])))))))))"

definition governance_commitment_chain_digest :: "dict \<Rightarrow> string" where
  "governance_commitment_chain_digest outputs = json_digest (JObj outputs)"

section \<open>The rows of a chain\<close>

lemma event_rows_Inr:
  assumes "commitment_event_rows seen items = Inr rows"
  shows "distinct (map cv_id rows) \<and> set (map cv_id rows) \<inter> set seen = {} \<and> length rows = length items"
  using assms
proof (induction seen items arbitrary: rows rule: commitment_event_rows.induct)
  case (2 seen raw rest)
  then obtain i r rs where r: "commitment_event_rows (i # seen) rest = Inr rs" "i \<notin> set seen" "rows = r # rs" "cv_id r = i"
    and IH: "distinct (map cv_id rs) \<and> set (map cv_id rs) \<inter> set (i # seen) = {} \<and> length rs = length rest"
    by (auto simp: rbind_eq_Inr)
  then show ?case by auto
qed simp_all

lemma commitment_row_Inr:
  assumes "commitment_row available ob = Inr c"
  shows "cm_refs c \<noteq> []" "distinct (cm_refs c)" "set (cm_refs c) \<subseteq> set available"
    "cm_events c \<noteq> []" "distinct (map cv_id (cm_events c))" "sorted (map cv_effective_at (cm_events c))"
proof -
  obtain items where refs: "jget ob ''source_refs'' = JArr items" "items \<noteq> []"
    and texts: "\<exists>ss. distinct_texts (commitment_source_ref available) (commitment_error ''duplicate_source_ref'') [] items = Inr ss
      \<and> cm_refs c = sort ss"
    using assms by (auto simp: commitment_row_def rbind_eq_Inr commitment_source_refs_def split: json.splits if_splits)
  then obtain ss where ss: "distinct_texts (commitment_source_ref available) (commitment_error ''duplicate_source_ref'') [] items = Inr ss"
    "cm_refs c = sort ss" by blast
  have "distinct ss \<and> set ss \<inter> set [] = {} \<and> length ss = length items \<and> set ss \<subseteq> set available"
    by (rule distinct_texts_Inr [OF ss(1)]) (auto simp: commitment_source_ref_def rbind_eq_Inr)
  then show "distinct (cm_refs c)" "set (cm_refs c) \<subseteq> set available" "cm_refs c \<noteq> []"
    using ss(2) refs(2) by (auto dest: arg_cong [of _ _ length])
  obtain evs rows where evs: "commitment_event_rows [] evs = Inr rows" "evs \<noteq> []"
      "cm_events c = sort_key cv_effective_at (sort_key cv_id rows)"
    using assms by (auto simp: commitment_row_def rbind_eq_Inr commitment_events_def split: json.splits if_splits)
  from event_rows_Inr [OF evs(1)] have rows: "distinct (map cv_id rows)" "length rows = length evs" by simp_all
  show "sorted (map cv_effective_at (cm_events c))" unfolding evs(3) by (rule sorted_sort_key)
  have "length (cm_events c) = length evs" unfolding evs(3) using rows(2) by simp
  then show "cm_events c \<noteq> []" using evs(2) by auto
  show "distinct (map cv_id (cm_events c))" using rows(1) unfolding evs(3) by (simp add: distinct_map)
qed

end
