(* ===== verification/Assumption_Closure.thy ===== *)
theory Assumption_Closure
  imports Commitment_Chain
begin

text \<open>
  The closure of assumptions about counterparties, \<open>src/onetruth/capex_platform/assumption_closure_workflow.py\<close>, built on a
  corpus baseline and on a commitment chain of the same scope: an assumption is closed on evidence or by a waiver, and not
  while a source contradicts it. A register row and its row in the closure matrix are two views of one record here.
\<close>

section \<open>Rows\<close>

definition assumption_kinds :: "string list" where
  "assumption_kinds = [''supplier'', ''counterparty'', ''commercial'', ''schedule'', ''technical'', ''interface'', ''permit'',
     ''safety'', ''scope'']"

definition closure_states :: "string list" where
  "closure_states = [''closed_with_evidence'', ''closed_by_waiver'', ''open_missing_evidence'', ''blocked_contradicted'',
     ''open_ai_draft_only'']"

definition assumption_forbidden_raw_keys :: "string list" where
  "assumption_forbidden_raw_keys = [''absolute_path'', ''assumption_text'', ''base64'', ''base64_content'', ''blob_bytes'',
     ''content'', ''document_text'', ''evidence_text'', ''extracted_text'', ''file_name'', ''filename'', ''full_text'',
     ''local_path'', ''ocr_text'', ''path'', ''raw_assumption'', ''raw_bytes'', ''raw_content'', ''raw_evidence'', ''raw_file'',
     ''raw_filename'', ''source_filename'', ''source_text'', ''text'', ''text_excerpt'']"

abbreviation assumption_error :: "string \<Rightarrow> exc" where
  "assumption_error code \<equiv> AssumptionClosureWorkflowError (''assumption_'' @ code)"

abbreviation assumption_missing :: exc where
  "assumption_missing \<equiv> assumption_error ''required_field_missing''"

definition assumption_reject_raw_material :: "json \<Rightarrow> unit result" where
  "assumption_reject_raw_material = reject_raw_texts assumption_forbidden_raw_keys (assumption_error ''raw_field_forbidden'')
     (assumption_error ''inline_content_forbidden'') (assumption_error ''raw_value_forbidden'')"

definition assumption_available_source_refs :: "dict \<Rightarrow> string list result" where
  "assumption_available_source_refs = corpus_source_refs is_source_ref (assumption_error ''source_basis_required'')"

definition assumption_source_ref :: "string list \<Rightarrow> json \<Rightarrow> string result" where
  "assumption_source_ref available v = rbind (require_text assumption_missing v) (\<lambda>s.
     rbind (require (is_source_ref s) (assumption_error ''source_ref_invalid'')) (\<lambda>_.
     rbind (require (s \<in> set available) (assumption_error ''source_ref_not_in_corpus_baseline'')) (\<lambda>_. Inr s)))"

definition assumption_source_refs :: "string list \<Rightarrow> bool \<Rightarrow> json \<Rightarrow> string list result" where
  "assumption_source_refs available required value =
     (case value of
        JNull \<Rightarrow> if required then Inl (assumption_error ''source_refs_required'') else Inr []
      | JArr items \<Rightarrow>
          if required \<and> items = [] then Inl (assumption_error ''source_refs_required'')
          else rbind (distinct_texts (assumption_source_ref available) (assumption_error ''duplicate_source_ref'') [] items)
            (\<lambda>refs. Inr (sort refs))
      | _ \<Rightarrow> Inl (assumption_error ''source_refs_required''))"

definition assumption_ids :: "json \<Rightarrow> string list result" where
  "assumption_ids value =
     (case value of
        JNull \<Rightarrow> Inr []
      | JArr items \<Rightarrow> rbind (distinct_texts (require_text assumption_missing) (assumption_error ''duplicate_id_ref'') [] items)
          (\<lambda>ids. Inr (sort ids))
      | _ \<Rightarrow> Inl (assumption_error ''id_list_invalid''))"

definition closure_outcome :: "string list \<Rightarrow> string list \<Rightarrow> string list \<Rightarrow> string list \<Rightarrow> string \<times> string \<times> string" where
  "closure_outcome evidence waiver_ids contradictions drafts =
     (if contradictions \<noteq> [] then (''blocked_contradicted'', ''fail'', ''contradicted_evidence'')
      else if evidence \<noteq> [] then (''closed_with_evidence'', ''pass'', ''evidence_specific_closure'')
      else if waiver_ids \<noteq> [] then (''closed_by_waiver'', ''satisfied_by_waiver'', ''waiver_satisfies_dimension'')
      else if drafts \<noteq> [] then (''open_ai_draft_only'', ''fail'', ''ai_draft_cannot_close'')
      else (''open_missing_evidence'', ''fail'', ''missing_evidence''))"

record assumption =
  as_id :: string
  as_counterparty :: string
  as_kind :: string
  as_summary :: string
  as_owner :: "string option"
  as_refs :: "string list"
  as_evidence :: "string list"
  as_waivers :: "string list"
  as_contradictions :: "string list"
  as_drafts :: "string list"

definition assumption_outcome :: "assumption \<Rightarrow> string \<times> string \<times> string" where
  "assumption_outcome a = closure_outcome (as_evidence a) (as_waivers a) (as_contradictions a) (as_drafts a)"

definition assumption_row :: "string list \<Rightarrow> dict \<Rightarrow> assumption result" where
  "assumption_row available observation =
     rbind (assumption_reject_raw_material (JObj observation)) (\<lambda>_.
     rbind (require_text assumption_missing (jget observation ''assumption_id'')) (\<lambda>assumption_id.
     rbind (require_text assumption_missing (jget observation ''counterparty_id'')) (\<lambda>counterparty_id.
     rbind (allowed_text assumption_missing (assumption_error ''kind_invalid'') assumption_kinds
       (jget observation ''assumption_kind'')) (\<lambda>assumption_kind.
     rbind (assumption_source_refs available True (jget observation ''source_refs'')) (\<lambda>refs.
     rbind (assumption_source_refs available False (jget observation ''evidence_source_refs'')) (\<lambda>evidence.
     rbind (assumption_source_refs available False (jget observation ''contradicted_by_source_refs'')) (\<lambda>contradictions.
     rbind (assumption_source_refs available False (jget observation ''ai_draft_source_refs'')) (\<lambda>drafts.
     rbind (assumption_ids (jget observation ''waiver_ids'')) (\<lambda>waiver_ids.
     rbind (require_text assumption_missing (jget observation ''assumption_summary'')) (\<lambda>summary.
     Inr \<lparr>as_id = assumption_id, as_counterparty = counterparty_id, as_kind = assumption_kind, as_summary = summary,
       as_owner = optional_text (jget observation ''owner_role''), as_refs = refs, as_evidence = evidence,
       as_waivers = waiver_ids, as_contradictions = contradictions, as_drafts = drafts\<rparr>))))))))))"

definition closeable :: "assumption \<Rightarrow> bool" where
  "closeable a \<longleftrightarrow> fst (assumption_outcome a) \<in> {''closed_with_evidence'', ''closed_by_waiver''}"

definition register_json :: "assumption \<Rightarrow> json" where
  "register_json a = JObj [(''assumption_id'', JStr (as_id a)), (''counterparty_id'', JStr (as_counterparty a)),
     (''assumption_kind'', JStr (as_kind a)), (''assumption_summary'', JStr (as_summary a)), (''owner_role'', of_opt (as_owner a)),
     (''source_refs'', json_texts (as_refs a)), (''official_truth'', JBool False)]"

definition matrix_json :: "assumption \<Rightarrow> json" where
  "matrix_json a = (case assumption_outcome a of (state, outcome, reason) \<Rightarrow>
     JObj [(''assumption_id'', JStr (as_id a)), (''counterparty_id'', JStr (as_counterparty a)),
       (''closure_state'', JStr state), (''result'', JStr outcome), (''reason'', JStr reason),
       (''source_refs'', json_texts (as_refs a)), (''evidence_source_refs'', json_texts (as_evidence a)),
       (''waiver_refs'', json_texts (map (\<lambda>i. ''waiver:'' @ i) (as_waivers a))),
       (''contradicted_by_source_refs'', json_texts (as_contradictions a)),
       (''ai_draft_source_refs'', json_texts (as_drafts a)), (''closeable'', JBool (closeable a))])"

definition assumption_flag :: "assumption \<Rightarrow> string \<Rightarrow> string \<Rightarrow> string \<Rightarrow> string list \<Rightarrow> (string \<times> json) list" where
  "assumption_flag a label flag_type severity refs =
     [(as_id a @ '':'' @ label, JObj [(''flag_id'', JStr (as_id a @ '':'' @ label)), (''assumption_id'', JStr (as_id a)),
        (''counterparty_id'', JStr (as_counterparty a)), (''flag_type'', JStr flag_type), (''severity'', JStr severity),
        (''reason'', JStr (snd (snd (assumption_outcome a)))), (''source_refs'', json_texts refs)])]"

definition assumption_flag_rows :: "assumption \<Rightarrow> (string \<times> json) list" where
  "assumption_flag_rows a =
     (let state = fst (assumption_outcome a) in
      if closeable a then []
      else if state = ''blocked_contradicted''
      then assumption_flag a ''contradicted-evidence'' ''contradicted_evidence'' ''high'' (as_contradictions a)
      else if state = ''open_ai_draft_only''
      then assumption_flag a ''ai-draft-cannot-close'' ''ai_draft_cannot_close'' ''high'' (as_drafts a)
      else assumption_flag a ''missing-evidence'' ''missing_evidence'' ''medium'' (as_refs a))"

section \<open>The documents it is built on\<close>

fun refs_of_rows :: "json list \<Rightarrow> string list result" where
  "refs_of_rows [] = Inr []"
| "refs_of_rows (JObj row # rest) =
     rbind (py_iter (py_or (jget row ''source_refs'') (JArr []))) (\<lambda>refs.
     rbind (refs_of_rows rest) (\<lambda>others. Inr (map py_str refs @ others)))"
| "refs_of_rows (_ # rest) = refs_of_rows rest"

definition refs_of_section :: "dict \<Rightarrow> string \<Rightarrow> string list result" where
  "refs_of_section raw section_name =
     (case jget raw section_name of
        JObj sec \<Rightarrow> rbind (py_iter (py_or (jget sec ''rows'') (JArr []))) refs_of_rows
      | _ \<Rightarrow> Inr [])"

definition source_refs_in_governance :: "dict \<Rightarrow> string list result" where
  "source_refs_in_governance raw =
     rbind (map_result (refs_of_section raw) [''commitment_chain'', ''expenditure_ledger'', ''commitment_flags''])
       (\<lambda>refs. Inr (concat refs))"

definition require_governance_source_refs_in_corpus :: "dict \<Rightarrow> string list \<Rightarrow> unit result" where
  "require_governance_source_refs_in_corpus governance available =
     rbind (source_refs_in_governance governance) (\<lambda>refs.
     require (set refs \<subseteq> set available) (assumption_error ''governance_source_ref_not_in_corpus_baseline''))"

text \<open>The checks at the start: the scope of both documents and the source refs of the corpus.\<close>

definition assumption_basis :: "dict \<Rightarrow> dict \<Rightarrow> ((string \<times> string \<times> string) \<times> string list) result" where
  "assumption_basis corpus governance =
     rbind (require (jget corpus ''schema_version'' = JStr corpus_baseline_schema_version)
       (assumption_error ''requires_corpus_baseline_outputs'')) (\<lambda>_.
     rbind (require (jget governance ''schema_version'' = JStr governance_commitment_chain_schema_version)
       (assumption_error ''requires_governance_commitment_outputs'')) (\<lambda>_.
     rbind (document_scope assumption_missing corpus) (\<lambda>scope.
     rbind (document_scope assumption_missing governance) (\<lambda>candidate.
     rbind (require (candidate = scope) (assumption_error ''workflow_scope_mismatch'')) (\<lambda>_.
     rbind (assumption_available_source_refs corpus) (\<lambda>available.
     rbind (require_governance_source_refs_in_corpus governance available) (\<lambda>_.
     Inr (scope, available))))))))"

section \<open>The document\<close>

definition assumption_rows :: "string list \<Rightarrow> json list \<Rightarrow> assumption list result" where
  "assumption_rows available observations =
     rbind (require (observations \<noteq> []) (assumption_error ''observations_required'')) (\<lambda>_.
     collect_rows (assumption_error ''observation_must_be_object'') (assumption_error ''duplicate_id'')
       (assumption_row available) as_id [] observations)"

definition build_assumption_closure_workflow_outputs ::
    "dict \<Rightarrow> dict \<Rightarrow> json list \<Rightarrow> string \<Rightarrow> string \<Rightarrow> string \<Rightarrow> string \<Rightarrow> dict result" where
  "build_assumption_closure_workflow_outputs corpus governance observations workflow_id created_at actor_id actor_type =
     rbind (assumption_basis corpus governance) (\<lambda>((tenant_id, domain_id, project_id), available).
     rbind (assumption_rows available observations) (\<lambda>rows.
     rbind (require_text assumption_missing (JStr workflow_id)) (\<lambda>workflow_id.
     rbind (require_text assumption_missing (JStr created_at)) (\<lambda>created_at.
     rbind (require_text assumption_missing (JStr actor_id)) (\<lambda>actor_id.
     rbind (require_text assumption_missing (JStr actor_type)) (\<lambda>actor_type.
     rbind (require_text assumption_missing (jget corpus ''workflow_id'')) (\<lambda>corpus_workflow_id.
     rbind (require_text assumption_missing (jget governance ''workflow_id'')) (\<lambda>governance_workflow_id.
     rbind (require_text assumption_missing (packet_register_id corpus)) (\<lambda>packet_register_id.
     Inr [(''schema_version'', JStr ''capex.assumption_closure.workflow_outputs.v1''),
       (''activation_posture'', JStr ''planning_only_no_capex_activation''), (''workflow_id'', JStr workflow_id),
       (''tenant_id'', JStr tenant_id), (''domain_id'', JStr domain_id), (''project_id'', JStr project_id),
       (''created_at'', JStr created_at),
       (''created_by_actor'', JObj [(''id'', JStr actor_id), (''type'', JStr actor_type)]),
       (''basis'', JObj [(''corpus_baseline_workflow_id'', JStr corpus_workflow_id),
          (''governance_commitment_chain_workflow_id'', JStr governance_workflow_id),
          (''packet_register_id'', JStr packet_register_id)]),
       (''counterparty_assumption_register'',
          digest_section ''capex.counterparty_assumption_register.v1'' (map register_json (sort_key as_id rows))),
       (''assumption_closure_matrix'', digest_section ''capex.assumption_closure_matrix.v1'' (map matrix_json (sort_key as_id rows))),
       (''assumption_flags'', digest_section ''capex.assumption_flags.v1'' (sorted_rows assumption_flag_rows rows)),
       (''truth_effects'', no_effects [''creates_workflow_run'', ''creates_approvals'', ''creates_closure_snapshots'',
          ''creates_reviewed_baseline'', ''writes_artifacts'', ''promotes_official_pointers'', ''activates_workflow_pack'']),
       (''cannot_be_used_for'', json_texts [''authored_workflow_pack_activation'', ''workflow_run_creation'',
          ''public_route_activation'', ''frontend_route_activation'', ''closure_snapshot_creation'',
          ''evidence_sufficiency_claim'', ''reviewed_baseline_creation'', ''official_pointer_creation'',
          ''capex_runtime_activation'', ''product_activation''])])))))))))"

definition assumption_closure_workflow_digest :: "dict \<Rightarrow> string" where
  "assumption_closure_workflow_digest outputs = json_digest (JObj outputs)"

section \<open>Closing an assumption\<close>

lemma closeable_iff: "closeable a \<longleftrightarrow> as_contradictions a = [] \<and> (as_evidence a \<noteq> [] \<or> as_waivers a \<noteq> [])"
  by (simp add: closeable_def assumption_outcome_def closure_outcome_def)

lemma open_assumption_flagged: "length (assumption_flag_rows a) = (if closeable a then 0 else 1)"
  by (simp add: assumption_flag_rows_def assumption_flag_def Let_def)

lemma outcome_known: "fst (assumption_outcome a) \<in> set closure_states"
  by (simp add: assumption_outcome_def closure_outcome_def closure_states_def)

section \<open>A commitment chain is a fit basis\<close>

text \<open>A row whose source refs are among given ones.\<close>

definition refs_row :: "string set \<Rightarrow> json \<Rightarrow> bool" where
  "refs_row A v \<longleftrightarrow> (\<exists>kvs refs. v = JObj kvs \<and> jget kvs ''source_refs'' = json_texts refs \<and> set refs \<subseteq> A)"

lemma refs_of_rows_within:
  assumes "\<forall>v\<in>set vs. refs_row A v"
  shows "\<exists>refs. refs_of_rows vs = Inr refs \<and> set refs \<subseteq> A"
  using assms
proof (induction vs)
  case (Cons v vs)
  then obtain kvs refs others where v: "v = JObj kvs" "jget kvs ''source_refs'' = json_texts refs" "set refs \<subseteq> A"
    and others: "refs_of_rows vs = Inr others" "set others \<subseteq> A"
    by (auto simp: refs_row_def)
  have "py_iter (py_or (json_texts refs) (JArr [])) = Inr (map JStr refs)"
    by (auto simp: py_or_def py_iter_def json_texts_def)
  then show ?case using v others by (simp add: comp_def)
qed simp

lemma refs_of_digest_section:
  assumes "jget raw name = digest_section version rows"
  shows "refs_of_section raw name = refs_of_rows rows"
proof -
  obtain kvs where "digest_section version rows = JObj kvs" "jget kvs ''rows'' = JArr rows"
    by (simp add: digest_section_def jget_def)
  then show ?thesis by (simp add: refs_of_section_def assms py_or_def py_iter_def)
qed

lemma refs_of_section_within:
  assumes "jget raw name = digest_section version rows" "\<forall>v\<in>set rows. refs_row A v"
  shows "\<exists>refs. refs_of_section raw name = Inr refs \<and> set refs \<subseteq> A"
  using refs_of_rows_within [OF assms(2)] refs_of_digest_section [OF assms(1)] by simp

lemma document_scope_Inr:
  "document_scope e raw = Inr (t, m, p) \<longleftrightarrow> require_text e (jget raw ''tenant_id'') = Inr t
     \<and> require_text e (jget raw ''domain_id'') = Inr m \<and> require_text e (jget raw ''project_id'') = Inr p"
  by (auto simp: document_scope_def rbind_eq_Inr)

lemma require_text_any: "require_text e v = Inr s \<longleftrightarrow> require_text e' v = Inr s"
  by (auto simp: require_text_def Let_def)

lemma chain_rows_within:
  assumes "commitment_rows corpus observations = Inr rows" "commitment_available_source_refs corpus = Inr available"
  shows "\<forall>c\<in>set rows. set (cm_refs c) \<subseteq> set available"
proof -
  have "collect_rows (commitment_error ''observation_must_be_object'') (commitment_error ''duplicate_id'')
       (commitment_row available) cm_id [] observations = Inr rows"
    using assms by (auto simp: commitment_rows_def rbind_eq_Inr)
  from collect_rows_Inr [OF this] show ?thesis using commitment_row_Inr(3) by blast
qed

lemma all_sorted_rows: "(\<forall>v\<in>set (sorted_rows rows rs). P v) \<longleftrightarrow> (\<forall>c\<in>set rs. \<forall>x\<in>set (rows c). P (snd x))"
  by (auto simp: sorted_rows_def)

lemma chain_sections:
  assumes "build_governance_commitment_chain_outputs corpus observations w t a ty = Inr chain"
  obtains rows where "commitment_rows corpus observations = Inr rows"
    "jget chain ''schema_version'' = JStr governance_commitment_chain_schema_version"
    "jget corpus ''schema_version'' = JStr corpus_baseline_schema_version"
    "jget chain ''commitment_chain'' = digest_section ''capex.commitment_chain.v1'' (map commitment_json (sort_key cm_id rows))"
    "jget chain ''expenditure_ledger'' = digest_section ''capex.expenditure_ledger.v1'' (sorted_rows ledger_rows rows)"
    "jget chain ''commitment_flags'' = digest_section ''capex.commitment_flags.v1'' (sorted_rows commitment_flag_rows rows)"
    "\<exists>x y z. document_scope commitment_missing corpus = Inr (x, y, z) \<and> jget chain ''tenant_id'' = JStr x
       \<and> jget chain ''domain_id'' = JStr y \<and> jget chain ''project_id'' = JStr z"
  using assms by (auto simp: build_governance_commitment_chain_outputs_def rbind_eq_Inr jget_def split: prod.splits)

lemma same_refs_found:
  assumes "corpus_source_refs (\<lambda>_. True) e corpus = Inr all" "\<forall>s\<in>set all. ok s"
  shows "corpus_source_refs ok e' corpus = Inr all"
proof -
  have "filter ok all = all" using assms(2) by (simp add: filter_id_conv)
  moreover obtain artifacts where "py_iter (py_or (jget corpus ''generated_artifacts'') (JArr [])) = Inr artifacts"
    "envelope_refs artifacts = Inr all" "all \<noteq> []"
    using assms(1) by (auto simp: corpus_source_refs_def rbind_eq_Inr split: if_splits)
  ultimately show ?thesis by (simp add: corpus_source_refs_def)
qed

lemma chain_refs_within:
  assumes "\<forall>c\<in>set rows. set (cm_refs c) \<subseteq> A"
  shows "\<forall>v\<in>set (map commitment_json (sort_key cm_id rows)). refs_row A v"
    "\<forall>v\<in>set (sorted_rows ledger_rows rows). refs_row A v"
    "\<forall>v\<in>set (sorted_rows commitment_flag_rows rows). refs_row A v"
  unfolding all_sorted_rows using assms
  by (auto simp: refs_row_def commitment_json_def ledger_rows_def commitment_flag_rows_def jget_def)

text \<open>The scope a chain was built for is the scope both documents show.\<close>

lemma scopes_agree:
  assumes "document_scope commitment_missing corpus = Inr (x, y, z)" "jget chain ''tenant_id'' = JStr x"
    "jget chain ''domain_id'' = JStr y" "jget chain ''project_id'' = JStr z"
  shows "document_scope assumption_missing corpus = Inr (x, y, z)" "document_scope assumption_missing chain = Inr (x, y, z)"
proof -
  have texts: "require_text commitment_missing (jget corpus ''tenant_id'') = Inr x"
    "require_text commitment_missing (jget corpus ''domain_id'') = Inr y"
    "require_text commitment_missing (jget corpus ''project_id'') = Inr z"
    using assms(1) unfolding document_scope_Inr by blast+
  show "document_scope assumption_missing corpus = Inr (x, y, z)"
    unfolding document_scope_Inr using texts require_text_any by blast
  show "document_scope assumption_missing chain = Inr (x, y, z)"
    unfolding document_scope_Inr assms(2-4) using require_text_Inr texts require_text_stripped by blast
qed

text \<open>
  C19: A commitment chain can be handed on: when a chain was built from a corpus baseline all of whose source refs have the
  form of a source ref, the checks with which the closure of assumptions starts accept the two documents, with the scope of
  the corpus and its source refs.
\<close>

theorem chain_feeds_closure:
  assumes "build_governance_commitment_chain_outputs corpus observations w t a ty = Inr chain"
    and "commitment_available_source_refs corpus = Inr available" "\<forall>s\<in>set available. is_source_ref s"
  shows "\<exists>scope. assumption_basis corpus chain = Inr (scope, available) \<and> document_scope commitment_missing corpus = Inr scope"
proof -
  obtain rows x y z where rows: "commitment_rows corpus observations = Inr rows"
    and versions: "jget chain ''schema_version'' = JStr governance_commitment_chain_schema_version"
      "jget corpus ''schema_version'' = JStr corpus_baseline_schema_version"
    and sections: "jget chain ''commitment_chain'' = digest_section ''capex.commitment_chain.v1'' (map commitment_json (sort_key cm_id rows))"
      "jget chain ''expenditure_ledger'' = digest_section ''capex.expenditure_ledger.v1'' (sorted_rows ledger_rows rows)"
      "jget chain ''commitment_flags'' = digest_section ''capex.commitment_flags.v1'' (sorted_rows commitment_flag_rows rows)"
    and scope: "document_scope commitment_missing corpus = Inr (x, y, z)" "jget chain ''tenant_id'' = JStr x"
       "jget chain ''domain_id'' = JStr y" "jget chain ''project_id'' = JStr z"
    using chain_sections [OF assms(1)] by metis
  have found: "assumption_available_source_refs corpus = Inr available"
    using same_refs_found assms(2,3) unfolding commitment_available_source_refs_def assumption_available_source_refs_def by blast
  note scopes = scopes_agree [OF scope]
  have within: "\<forall>c\<in>set rows. set (cm_refs c) \<subseteq> set available" by (rule chain_rows_within [OF rows assms(2)])
  note refs = chain_refs_within [OF within]
  obtain r1 r2 r3 where "refs_of_section chain ''commitment_chain'' = Inr r1" "set r1 \<subseteq> set available"
      "refs_of_section chain ''expenditure_ledger'' = Inr r2" "set r2 \<subseteq> set available"
      "refs_of_section chain ''commitment_flags'' = Inr r3" "set r3 \<subseteq> set available"
    using refs_of_section_within [OF sections(1) refs(1)] refs_of_section_within [OF sections(2) refs(2)]
      refs_of_section_within [OF sections(3) refs(3)] by blast
  then have "require_governance_source_refs_in_corpus chain available = Inr ()"
    by (simp add: require_governance_source_refs_in_corpus_def source_refs_in_governance_def)
  then show ?thesis using scope(1) unfolding assumption_basis_def versions scopes found by simp
qed

text \<open>A corpus, a settled order on it, and what is built from it; the digests stay symbolic.\<close>

definition sample_baseline :: "string list \<Rightarrow> dict" where
  "sample_baseline refs = [(''schema_version'', JStr corpus_baseline_schema_version), (''tenant_id'', JStr '' t ''),
     (''domain_id'', JStr ''d''), (''project_id'', JStr ''p''), (''workflow_id'', JStr ''w''),
     (''basis'', JObj [(''packet_register_id'', JStr ''r'')]),
     (''generated_artifacts'', JArr [JObj [(''envelope'', JObj [(''source_refs'', json_texts refs)])]])]"

definition sample_commitments :: "string \<Rightarrow> json list" where
  "sample_commitments ref = [JObj [(''commitment_id'', JStr ''c''), (''commitment_type'', JStr ''purchase_order''),
     (''commercial_status'', JStr ''settled''), (''officialness_scope'', JStr ''external''), (''source_refs'', json_texts [ref]),
     (''events'', JArr [JObj [(''event_id'', JStr ''e2''), (''event_type'', JStr ''settlement''), (''effective_at'', JStr ''2026-02''),
         (''amount_cents'', JBool True)],
       JObj [(''event_id'', JStr ''e1''), (''event_type'', JStr ''order''), (''effective_at'', JStr ''2026-01''),
         (''amount_cents'', JInt 5), (''revision_id'', JStr ''r1'')]])]]"

lemma sample_commitment_rows:
  "map_sum id (map (\<lambda>c. (cm_refs c, map cv_amount (cm_events c), current_revision_id c)))
     (commitment_rows (sample_baseline [''source_occurrence:a'']) (sample_commitments ''source_occurrence:a'')) =
   Inr [([''source_occurrence:a''], [JInt 5, JBool True], Some ''r1'')]"
  "map_sum id (map cm_refs) (commitment_rows (sample_baseline [''source_occurrence:a'', ''doc-1'']) (sample_commitments ''doc-1'')) =
   Inr [[''doc-1'']]"
  by code_simp+

lemma sample_chain_built:
  assumes "commitment_rows (sample_baseline refs) observations = Inr rows"
  shows "\<exists>chain. build_governance_commitment_chain_outputs (sample_baseline refs) observations ''w'' ''now'' ''a'' ''human'' = Inr chain"
proof -
  have "jget (sample_baseline refs) ''schema_version'' = JStr corpus_baseline_schema_version"
    "document_scope commitment_missing (sample_baseline refs) = Inr (''t'', ''d'', ''p'')"
    "require_text commitment_missing (jget (sample_baseline refs) ''workflow_id'') = Inr ''w''"
    "require_text commitment_missing (packet_register_id (sample_baseline refs)) = Inr ''r''"
    by (simp_all add: sample_baseline_def jget_def document_scope_def packet_register_id_def require_text_def Let_def) code_simp+
  moreover have "require_text commitment_missing (JStr ''w'') = Inr ''w''" "require_text commitment_missing (JStr ''now'') = Inr ''now''"
    "require_text commitment_missing (JStr ''a'') = Inr ''a''" "require_text commitment_missing (JStr ''human'') = Inr ''human''"
    by code_simp+
  ultimately show ?thesis unfolding build_governance_commitment_chain_outputs_def assms by simp
qed

theorem chain_feeds_closure_witness:
  "\<exists>chain. build_governance_commitment_chain_outputs (sample_baseline [''source_occurrence:a''])
       (sample_commitments ''source_occurrence:a'') ''w'' ''now'' ''a'' ''human'' = Inr chain
     \<and> assumption_basis (sample_baseline [''source_occurrence:a'']) chain = Inr ((''t'', ''d'', ''p''), [''source_occurrence:a''])"
proof -
  obtain rows where "commitment_rows (sample_baseline [''source_occurrence:a'']) (sample_commitments ''source_occurrence:a'') = Inr rows"
    using sample_commitment_rows(1)
    by (cases "commitment_rows (sample_baseline [''source_occurrence:a'']) (sample_commitments ''source_occurrence:a'')") simp_all
  from sample_chain_built [OF this] obtain chain where
    chain: "build_governance_commitment_chain_outputs (sample_baseline [''source_occurrence:a''])
      (sample_commitments ''source_occurrence:a'') ''w'' ''now'' ''a'' ''human'' = Inr chain" by blast
  have "commitment_available_source_refs (sample_baseline [''source_occurrence:a'']) = Inr [''source_occurrence:a'']" by code_simp
  moreover have "\<forall>s\<in>set [''source_occurrence:a'']. is_source_ref s" by code_simp
  moreover have "document_scope commitment_missing (sample_baseline [''source_occurrence:a'']) = Inr (''t'', ''d'', ''p'')" by code_simp
  ultimately show ?thesis using chain_feeds_closure [OF chain] chain by auto
qed

text \<open>
  The two modules disagree on what a source ref is: a chain may rest on a ref of the corpus in another form, and then no
  assumption can be closed on this corpus and chain, with the error that the ref is not in the corpus.
\<close>

lemma chain_with_other_ref_refused:
  "\<exists>chain. build_governance_commitment_chain_outputs (sample_baseline [''source_occurrence:a'', ''doc-1''])
       (sample_commitments ''doc-1'') ''w'' ''now'' ''a'' ''human'' = Inr chain
     \<and> assumption_basis (sample_baseline [''source_occurrence:a'', ''doc-1'']) chain
       = Inl (assumption_error ''governance_source_ref_not_in_corpus_baseline'')"
proof -
  let ?corpus = "sample_baseline [''source_occurrence:a'', ''doc-1'']"
  obtain c where rows: "commitment_rows ?corpus (sample_commitments ''doc-1'') = Inr [c]" and refs: "cm_refs c = [''doc-1'']"
    using sample_commitment_rows(2) by (cases "commitment_rows ?corpus (sample_commitments ''doc-1'')") auto
  from sample_chain_built [OF rows] obtain chain where
    chain: "build_governance_commitment_chain_outputs ?corpus (sample_commitments ''doc-1'') ''w'' ''now'' ''a'' ''human'' = Inr chain"
    by blast
  obtain rs x y z where rs: "commitment_rows ?corpus (sample_commitments ''doc-1'') = Inr rs"
    and versions: "jget chain ''schema_version'' = JStr governance_commitment_chain_schema_version"
      "jget ?corpus ''schema_version'' = JStr corpus_baseline_schema_version"
    and sections: "jget chain ''commitment_chain'' = digest_section ''capex.commitment_chain.v1'' (map commitment_json (sort_key cm_id rs))"
      "jget chain ''expenditure_ledger'' = digest_section ''capex.expenditure_ledger.v1'' (sorted_rows ledger_rows rs)"
      "jget chain ''commitment_flags'' = digest_section ''capex.commitment_flags.v1'' (sorted_rows commitment_flag_rows rs)"
    and scope: "document_scope commitment_missing ?corpus = Inr (x, y, z)" "jget chain ''tenant_id'' = JStr x"
       "jget chain ''domain_id'' = JStr y" "jget chain ''project_id'' = JStr z"
    using chain_sections [OF chain] by metis
  have c: "rs = [c]" using rs rows by simp
  note scopes = scopes_agree [OF scope]
  have found: "assumption_available_source_refs ?corpus = Inr [''source_occurrence:a'']" by code_simp
  have "refs_of_section chain ''commitment_chain'' = Inr [''doc-1'']"
    unfolding refs_of_digest_section [OF sections(1)]
    by (simp add: c commitment_json_def jget_def refs json_texts_def py_or_def py_iter_def)
  moreover obtain r2 r3 where "refs_of_section chain ''expenditure_ledger'' = Inr r2" "refs_of_section chain ''commitment_flags'' = Inr r3"
    using chain_refs_within [of rs UNIV] refs_of_section_within [OF sections(2)] refs_of_section_within [OF sections(3)] by blast
  ultimately have "require_governance_source_refs_in_corpus chain [''source_occurrence:a'']
      = Inl (assumption_error ''governance_source_ref_not_in_corpus_baseline'')"
    unfolding require_governance_source_refs_in_corpus_def source_refs_in_governance_def by (simp add: require_def)
  then have "assumption_basis ?corpus chain = Inl (assumption_error ''governance_source_ref_not_in_corpus_baseline'')"
    unfolding assumption_basis_def versions scopes found by simp
  then show ?thesis using chain by blast
qed

text \<open>The id of a ledger entry joins two ids with a colon, so that entries of different commitments can share one.\<close>

lemma ledger_ids_collide:
  assumes "cm_id c1 = ''a''" "cm_id c2 = ''a:b''" "e1 \<in> set (cm_events c1)" "e2 \<in> set (cm_events c2)"
    and "cv_id e1 = ''b:c''" "cv_id e2 = ''c''" "cv_type e1 = ''order''" "cv_type e2 = ''order''"
  shows "''a:b:c'' \<in> fst ` set (ledger_rows c1) \<inter> fst ` set (ledger_rows c2)"
proof -
  have "''a'' @ '':'' @ cv_id e1 = ''a:b:c''" "''a:b'' @ '':'' @ cv_id e2 = ''a:b:c''" using assms(5,6) by simp_all
  then show ?thesis using assms(1-4,7,8) by (force simp: ledger_rows_def)
qed

end
