(* ===== verification/Procurement_Policy.thy ===== *)
theory Procurement_Policy
  imports Capex_Documents
begin

text \<open>
  Fields and escalation thresholds of procurement, \<open>src/onetruth/capex_platform/procurement_fields_thresholds.py\<close>: the rows
  given, or those of Annex B by default, are checked and put into two registers; threshold values are refused. Columns that
  the checks force to one value are not kept in the rows here. Arguments that are no list of the right kind in Python are
  other JSON values.
\<close>

section \<open>Annex B\<close>

definition required_signoff_gate_refs :: "string list" where
  "required_signoff_gate_refs = [''SME-RP-G006'', ''SME-RP-G007'']"

definition annex_b_procurement_field_ids :: "string list" where
  "annex_b_procurement_field_ids = [''scope_id'', ''capex_scope'', ''capex_main_group'', ''level_2_group'', ''budget_line'',
     ''approved_budget'', ''forecast'', ''purchase_requisition'', ''purchase_order'', ''supplier'', ''quotation'',
     ''change_order'', ''invoice'', ''controlling_allocation'', ''deviation_amount'', ''deviation_category'',
     ''technical_risk'', ''schedule_impact'', ''residual_risk'', ''evidence_refs'', ''recommendation'', ''decision_maker'',
     ''escalation_reason'', ''outcome'', ''conditions'']"

definition annex_b_threshold_families :: "string list" where
  "annex_b_threshold_families = [''budget deviation'', ''schedule shift with production impact'', ''safety or quality impact'',
     ''residual risk acceptance'', ''supplier dispute or claim exposure'', ''decision despite incomplete evidence'',
     ''recurring defect / system-effectiveness risk'']"

definition commercial_evidence_cannot_close_dimensions :: "string list" where
  "commercial_evidence_cannot_close_dimensions = [''technical'', ''effectiveness'', ''handover'', ''assumption'', ''closure'']"

definition procurement_forbidden_raw_keys :: "string list" where
  "procurement_forbidden_raw_keys = [''absolute_path'', ''ai_completion'', ''ai_output'', ''ai_prompt'', ''ai_response'',
     ''ai_summary'', ''base64'', ''base64_content'', ''blob_bytes'', ''content'', ''document_text'', ''evidence_text'',
     ''excerpt'', ''extracted_text'', ''file_name'', ''filename'', ''full_text'', ''local_path'', ''ocr_text'', ''path'',
     ''raw_ai'', ''raw_ai_text'', ''raw_bytes'', ''raw_content'', ''raw_corpus'', ''raw_evidence'', ''raw_file'',
     ''raw_filename'', ''raw_log'', ''source_filename'', ''source_text'', ''text'', ''text_excerpt'']"

definition forbidden_threshold_value_keys :: "string list" where
  "forbidden_threshold_value_keys = [''amount'', ''amount_cents'', ''days'', ''limit'', ''limit_value'', ''max_amount'',
     ''max_value'', ''min_amount'', ''min_value'', ''numeric_threshold'', ''numeric_threshold_value'', ''percent'',
     ''threshold_amount'', ''threshold_days'', ''threshold_percent'', ''threshold_value'', ''value'']"

definition field_family :: "string \<Rightarrow> string" where
  "field_family field_id =
     (if field_id \<in> {''scope_id'', ''capex_scope'', ''capex_main_group'', ''level_2_group'', ''budget_line''}
      then ''scope_and_budget_structure''
      else if field_id \<in> {''approved_budget'', ''forecast'', ''controlling_allocation'', ''deviation_amount'', ''deviation_category''}
      then ''commercial_control''
      else if field_id \<in> {''purchase_requisition'', ''purchase_order'', ''supplier'', ''quotation'', ''change_order'', ''invoice''}
      then ''procurement_evidence''
      else if field_id \<in> {''technical_risk'', ''schedule_impact'', ''residual_risk'', ''evidence_refs'', ''recommendation''}
      then ''risk_and_recommendation''
      else ''decision_and_outcome'')"

text \<open>\<open>s.replace("__", "_")\<close>.\<close>

fun halve_underscores :: "string \<Rightarrow> string" where
  "halve_underscores (a # b # s) =
     (if a = CHR ''_'' \<and> b = CHR ''_'' then CHR ''_'' # halve_underscores s else a # halve_underscores (b # s))"
| "halve_underscores s = s"

definition threshold_slug :: "string \<Rightarrow> string" where
  "threshold_slug value = halve_underscores (replace_char (CHR '' '') (CHR ''_'')
     (py_lower (replace_char (CHR ''-'') (CHR '' '') (replace_char (CHR ''/'') (CHR '' '') value))))"

section \<open>Checks\<close>

abbreviation procurement_error :: "string \<Rightarrow> exc" where
  "procurement_error code \<equiv> ProcurementFieldsThresholdsError (''procurement_'' @ code)"

definition procurement_require_nonempty :: "json \<Rightarrow> string result" where
  "procurement_require_nonempty = require_text (procurement_error ''required_field_missing'')"

definition procurement_reject_raw_material :: "json \<Rightarrow> unit result" where
  "procurement_reject_raw_material = reject_raw
     (\<lambda>key. require (\<not> (py_lower (py_strip key) \<in> set procurement_forbidden_raw_keys \<or> prefix ''raw_'' (py_lower (py_strip key))))
        (procurement_error ''raw_material_rejected''))
     (\<lambda>s. require (\<not> (inline_content (py_strip s) \<or> raw_locator (py_strip s) \<or> document_name (py_strip s)))
        (procurement_error ''raw_material_rejected''))"

fun reject_threshold_value_material :: "json \<Rightarrow> unit result" where
  "reject_threshold_value_material (JObj kvs) =
     check_all (\<lambda>p. rbind (require (\<not> (fst p \<in> set forbidden_threshold_value_keys \<and> snd p \<noteq> JNull))
         (procurement_error ''numeric_threshold_value_forbidden'')) (\<lambda>_. reject_threshold_value_material (snd p))) kvs"
| "reject_threshold_value_material (JArr vs) = check_all reject_threshold_value_material vs"
| "reject_threshold_value_material _ = Inr ()"

definition reject_commercial_closure :: "dict \<Rightarrow> unit result" where
  "reject_commercial_closure row =
     check_all (\<lambda>field. case jget row field of
         JNull \<Rightarrow> Inr ()
       | JArr items \<Rightarrow> require (list_all (\<lambda>i. py_str i \<notin> set commercial_evidence_cannot_close_dimensions) items)
           (procurement_error ''commercial_closure_boundary_violation'')
       | _ \<Rightarrow> Inl (procurement_error ''commercial_closure_boundary_invalid''))
       [''closes_dimensions'', ''can_close_dimensions'']"

definition register_id :: "string \<Rightarrow> bool" where
  "register_id = match_dollar (\<lambda>s. s \<noteq> [] \<and> is_lower (hd s) \<and> list_all (\<lambda>c. is_lower c \<or> is_digit c \<or> c = CHR ''_'') (tl s))"

definition gate_ref :: "string \<Rightarrow> bool" where
  "gate_ref = match_dollar (\<lambda>s. length s = 11 \<and> prefix ''SME-RP-G'' s \<and> list_all is_digit (drop 8 s))"

definition field_id_of :: "json \<Rightarrow> string result" where
  "field_id_of value = rbind (procurement_require_nonempty value) (\<lambda>s.
     rbind (require (register_id s) (procurement_error ''field_id_invalid'')) (\<lambda>_. Inr s))"

definition family_id_of :: "json \<Rightarrow> string result" where
  "family_id_of value = rbind (procurement_require_nonempty value) (\<lambda>s.
     rbind (require (register_id s) (procurement_error ''threshold_family_id_invalid'')) (\<lambda>_. Inr s))"

definition require_boolean :: "bool \<Rightarrow> json \<Rightarrow> unit result" where
  "require_boolean b value = require (value = JBool b) (procurement_error ''required_boolean_invalid'')"

definition require_value :: "string \<Rightarrow> json \<Rightarrow> unit result" where
  "require_value expected value = rbind (procurement_require_nonempty value) (\<lambda>s.
     require (s = expected) (procurement_error ''required_value_invalid''))"

definition signoff_gate_ref :: "json \<Rightarrow> string result" where
  "signoff_gate_ref value = rbind (procurement_require_nonempty value) (\<lambda>s.
     rbind (require (gate_ref s) (procurement_error ''signoff_gate_ref_invalid'')) (\<lambda>_. Inr s))"

definition signoff_gate_refs :: "json \<Rightarrow> string list result" where
  "signoff_gate_refs value =
     (case value of
        JArr items \<Rightarrow>
          rbind (map_result signoff_gate_ref items) (\<lambda>refs.
          rbind (require (set refs = set required_signoff_gate_refs) (procurement_error ''required_signoff_gate_refs_missing''))
            (\<lambda>_. Inr (sort refs)))
      | _ \<Rightarrow> Inl (procurement_error ''signoff_gate_refs_required''))"

definition require_gate_ref_set :: "string list \<Rightarrow> json \<Rightarrow> string list result" where
  "require_gate_ref_set required value =
     (case value of
        JArr items \<Rightarrow>
          (let refs = sort (map py_str items) in
           rbind (require (refs = sort required) (procurement_error ''threshold_family_gate_refs_mismatch'')) (\<lambda>_. Inr refs))
      | _ \<Rightarrow> Inl (procurement_error ''threshold_family_gate_refs_required''))"

section \<open>Rows\<close>

text \<open>The loop over rows: an object, its id, which must be new, then the other columns.\<close>

fun collect_keyed ::
    "exc \<Rightarrow> exc \<Rightarrow> (dict \<Rightarrow> string result) \<Rightarrow> (dict \<Rightarrow> string \<Rightarrow> 'r result) \<Rightarrow> string list \<Rightarrow> json list \<Rightarrow> 'r list result" where
  "collect_keyed no_object duplicate key row seen [] = Inr []"
| "collect_keyed no_object duplicate key row seen (JObj raw # rest) =
     rbind (key raw) (\<lambda>i. rbind (require (i \<notin> set seen) duplicate) (\<lambda>_. rbind (row raw i) (\<lambda>r.
     rbind (collect_keyed no_object duplicate key row (i # seen) rest) (\<lambda>rs. Inr (r # rs)))))"
| "collect_keyed no_object duplicate key row seen (_ # rest) = Inl no_object"

lemma collect_keyed_Inr:
  assumes "collect_keyed e1 e2 key row seen raws = Inr rs" "\<And>raw i r. row raw i = Inr r \<Longrightarrow> name r = i \<and> P r"
  shows "distinct (map name rs) \<and> set (map name rs) \<inter> set seen = {} \<and> length rs = length raws \<and> (\<forall>r\<in>set rs. P r)"
  using assms(1)
proof (induction raws arbitrary: rs seen)
  case (Cons v rest)
  show ?case
  proof (cases v)
    case (JObj raw)
    with Cons.prems obtain i r rs' where r: "i \<notin> set seen" "row raw i = Inr r"
      "collect_keyed e1 e2 key row (i # seen) rest = Inr rs'" "rs = r # rs'"
      by (auto simp: rbind_eq_Inr)
    from Cons.IH [OF r(3)] assms(2) [OF r(2)] r(1,4) show ?thesis by auto
  qed (use Cons.prems in simp_all)
qed simp

record field_row =
  fr_id :: string
  fr_family :: string

record family_row =
  fm_id :: string
  fm_label :: string
  fm_gates :: "string list"

definition field_row_key :: "dict \<Rightarrow> string result" where
  "field_row_key raw = rbind (procurement_reject_raw_material (JObj raw)) (\<lambda>_.
     rbind (reject_commercial_closure raw) (\<lambda>_. field_id_of (jget raw ''field_id'')))"

definition field_row_of :: "dict \<Rightarrow> string \<Rightarrow> field_row result" where
  "field_row_of raw field_id =
     rbind (procurement_require_nonempty (jget raw ''field_family'')) (\<lambda>family.
     rbind (require_boolean True (jget raw ''required'')) (\<lambda>_.
     rbind (require_value ''observed_or_reconciled_evidence'' (jget raw ''evidence_posture'')) (\<lambda>_.
     rbind (require_value ''Annex B'' (jget raw ''source_annex_ref'')) (\<lambda>_.
     rbind (require_boolean False (jget raw ''can_create_official_truth'')) (\<lambda>_.
     Inr \<lparr>fr_id = field_id, fr_family = family\<rparr>)))))"

definition field_row_json :: "field_row \<Rightarrow> json" where
  "field_row_json r = JObj [(''field_id'', JStr (fr_id r)), (''field_family'', JStr (fr_family r)), (''required'', JBool True),
     (''evidence_posture'', JStr ''observed_or_reconciled_evidence''), (''source_annex_ref'', JStr ''Annex B''),
     (''can_create_official_truth'', JBool False)]"

definition procurement_field_rows :: "json \<Rightarrow> field_row list result" where
  "procurement_field_rows value =
     (case value of
        JArr raws \<Rightarrow>
          rbind (require (raws \<noteq> []) (procurement_error ''fields_required'')) (\<lambda>_.
          rbind (collect_keyed (procurement_error ''field_row_must_be_object'') (procurement_error ''duplicate_field_id'')
            field_row_key field_row_of [] raws) (\<lambda>rows.
          rbind (require (set annex_b_procurement_field_ids \<subseteq> set (map fr_id rows))
            (procurement_error ''required_annex_b_fields_missing'')) (\<lambda>_. Inr (sort_key fr_id rows))))
      | _ \<Rightarrow> Inl (procurement_error ''fields_required''))"

definition family_row_key :: "dict \<Rightarrow> string result" where
  "family_row_key raw = rbind (procurement_reject_raw_material (JObj raw)) (\<lambda>_.
     rbind (reject_threshold_value_material (JObj raw)) (\<lambda>_. family_id_of (jget raw ''threshold_family_id'')))"

definition family_row_of :: "string list \<Rightarrow> dict \<Rightarrow> string \<Rightarrow> family_row result" where
  "family_row_of gates raw family_id =
     rbind (procurement_require_nonempty (jget raw ''threshold_family_label'')) (\<lambda>label.
     rbind (require (label \<in> set annex_b_threshold_families) (procurement_error ''threshold_family_not_in_annex_b'')) (\<lambda>_.
     rbind (require_value ''absent_pending_business_signoff'' (jget raw ''threshold_value_state'')) (\<lambda>_.
     rbind (require_boolean True (jget raw ''configurable_after_business_signoff'')) (\<lambda>_.
     rbind (require_gate_ref_set gates (jget raw ''required_signoff_gate_refs'')) (\<lambda>refs.
     rbind (require_value ''Annex B'' (jget raw ''source_annex_ref'')) (\<lambda>_.
     rbind (require_boolean False (jget raw ''creates_activation'')) (\<lambda>_.
     Inr \<lparr>fm_id = family_id, fm_label = label, fm_gates = refs\<rparr>)))))))"

definition family_row_json :: "family_row \<Rightarrow> json" where
  "family_row_json r = JObj [(''threshold_family_id'', JStr (fm_id r)), (''threshold_family_label'', JStr (fm_label r)),
     (''threshold_value_state'', JStr ''absent_pending_business_signoff''), (''configurable_after_business_signoff'', JBool True),
     (''required_signoff_gate_refs'', json_texts (fm_gates r)), (''source_annex_ref'', JStr ''Annex B''),
     (''creates_activation'', JBool False)]"

definition threshold_family_rows :: "string list \<Rightarrow> json \<Rightarrow> family_row list result" where
  "threshold_family_rows gates value =
     (case value of
        JArr raws \<Rightarrow>
          rbind (require (raws \<noteq> []) (procurement_error ''threshold_families_required'')) (\<lambda>_.
          rbind (collect_keyed (procurement_error ''threshold_family_row_must_be_object'')
            (procurement_error ''duplicate_threshold_family_id'') family_row_key (family_row_of gates) [] raws) (\<lambda>rows.
          rbind (require (set (map threshold_slug annex_b_threshold_families) \<subseteq> set (map fm_id rows))
            (procurement_error ''required_threshold_families_missing'')) (\<lambda>_. Inr (sort_key fm_id rows))))
      | _ \<Rightarrow> Inl (procurement_error ''threshold_families_required''))"

definition default_field_rows :: json where
  "default_field_rows = JArr (map (\<lambda>i. field_row_json \<lparr>fr_id = i, fr_family = field_family i\<rparr>) annex_b_procurement_field_ids)"

definition default_threshold_family_rows :: "string list \<Rightarrow> json" where
  "default_threshold_family_rows gates =
     JArr (map (\<lambda>l. family_row_json \<lparr>fm_id = threshold_slug l, fm_label = l, fm_gates = gates\<rparr>) annex_b_threshold_families)"

section \<open>The document\<close>

definition observation_boundary :: json where
  "observation_boundary = JObj [(''schema_version'', JStr ''capex.commercial_observation_boundary.v1''),
     (''commercial_evidence_posture'', JStr ''observed_or_reconciled_evidence_only''),
     (''commercial_evidence_can_directly_close_dimensions'', JBool False),
     (''commercial_evidence_cannot_close_dimensions'', json_texts commercial_evidence_cannot_close_dimensions),
     (''commercial_evidence_sets_official_truth'', JBool False),
     (''waiver_or_business_signoff_required_for_activation'', JBool True)]"

definition field_register :: "field_row list \<Rightarrow> json" where
  "field_register rows = JObj [(''schema_version'', JStr ''capex.procurement_required_field_register.v1''),
     (''source_annex'', JStr ''Annex B''), (''rows'', JArr (map field_row_json rows)), (''row_count'', JInt (int (length rows))),
     (''all_fields_required'', JBool True), (''register_digest'', JStr (json_digest (JArr (map field_row_json rows))))]"

definition family_register :: "string list \<Rightarrow> family_row list \<Rightarrow> json" where
  "family_register gates rows = JObj [(''schema_version'', JStr ''capex.executive_escalation_threshold_family_register.v1''),
     (''source_annex'', JStr ''Annex B''), (''rows'', JArr (map family_row_json rows)), (''row_count'', JInt (int (length rows))),
     (''threshold_value_policy'', JStr ''no_numeric_thresholds_invented_by_platform''), (''threshold_values_present'', JBool False),
     (''requires_business_signoff_gate_refs'', json_texts gates),
     (''register_digest'', JStr (json_digest (JArr (map family_row_json rows))))]"

definition given_or :: "json \<Rightarrow> json option \<Rightarrow> json" where
  "given_or otherwise value = (case value of None \<Rightarrow> otherwise | Some v \<Rightarrow> v)"

definition build_procurement_fields_and_threshold_policy_outputs ::
    "string \<Rightarrow> string \<Rightarrow> string \<Rightarrow> string \<Rightarrow> json option \<Rightarrow> json option \<Rightarrow> json \<Rightarrow> dict result" where
  "build_procurement_fields_and_threshold_policy_outputs policy_id created_at actor_id actor_type fields_given families_given
       gates_given =
     rbind (signoff_gate_refs gates_given) (\<lambda>gates.
     rbind (procurement_field_rows (given_or default_field_rows fields_given)) (\<lambda>fields.
     rbind (threshold_family_rows gates (given_or (default_threshold_family_rows gates) families_given)) (\<lambda>families.
     rbind (procurement_require_nonempty (JStr policy_id)) (\<lambda>policy_id.
     rbind (procurement_require_nonempty (JStr created_at)) (\<lambda>created_at.
     rbind (procurement_require_nonempty (JStr actor_id)) (\<lambda>actor_id.
     rbind (procurement_require_nonempty (JStr actor_type)) (\<lambda>actor_type.
     Inr [(''schema_version'', JStr ''capex.procurement_fields_thresholds.outputs.v1''),
       (''activation_posture'', JStr ''planning_only_no_capex_activation''), (''policy_id'', JStr policy_id),
       (''created_at'', JStr created_at),
       (''created_by_actor'', JObj [(''id'', JStr actor_id), (''type'', JStr actor_type)]),
       (''signoff_gate_refs'', json_texts gates), (''procurement_required_field_register'', field_register fields),
       (''executive_escalation_threshold_family_register'', family_register gates families),
       (''commercial_observation_boundary'', observation_boundary),
       (''truth_effects'', no_effects [''creates_workflow_run'', ''creates_tasks'', ''creates_approvals'',
          ''creates_threshold_values'', ''activates_thresholds'', ''activates_procurement_workflow'',
          ''creates_erp_or_accounting_behavior'', ''creates_ceo_cockpit_state'', ''creates_official_project_state'',
          ''writes_artifacts'', ''promotes_official_pointers'', ''activates_workflow_pack'']),
       (''cannot_be_used_for'', json_texts [''numeric_threshold_signoff'', ''threshold_activation'',
          ''procurement_workflow_activation'', ''erp_or_accounting_ledger_behavior'', ''ceo_cockpit_activation'',
          ''public_route_activation'', ''frontend_route_activation'', ''official_project_state'',
          ''closure_snapshot_creation'', ''capex_runtime_activation'', ''product_activation'']),
       (''policy_digest'', JStr (json_digest (JObj [(''fields'', JArr (map field_row_json fields)),
          (''threshold_families'', JArr (map family_row_json families)), (''boundary'', observation_boundary),
          (''signoff_gate_refs'', json_texts gates)])))])))))))"

definition procurement_fields_thresholds_digest :: "dict \<Rightarrow> string" where
  "procurement_fields_thresholds_digest outputs = json_digest (JObj outputs)"

section \<open>The registers are complete\<close>

lemma distinct_sort_keyed: "distinct (map f rows) \<Longrightarrow> sorted_wrt (<) (map f (sort_key f rows))" for f :: "'r \<Rightarrow> 'k::linorder"
  by (simp add: strict_sorted_iff distinct_map)

lemma field_rows_Inr:
  assumes "procurement_field_rows value = Inr rows"
  shows "sorted_wrt (<) (map fr_id rows)" "set annex_b_procurement_field_ids \<subseteq> set (map fr_id rows)"
proof -
  obtain raws unsorted where u: "collect_keyed (procurement_error ''field_row_must_be_object'') (procurement_error ''duplicate_field_id'')
      field_row_key field_row_of [] raws = Inr unsorted" "set annex_b_procurement_field_ids \<subseteq> set (map fr_id unsorted)"
      "rows = sort_key fr_id unsorted"
    using assms by (auto simp: procurement_field_rows_def rbind_eq_Inr split: json.splits)
  have "distinct (map fr_id unsorted) \<and> set (map fr_id unsorted) \<inter> set [] = {} \<and> length unsorted = length raws
      \<and> (\<forall>r\<in>set unsorted. True)"
    by (rule collect_keyed_Inr [OF u(1)]) (auto simp: field_row_of_def rbind_eq_Inr)
  then show "sorted_wrt (<) (map fr_id rows)" unfolding u(3) by (intro distinct_sort_keyed) blast
  show "set annex_b_procurement_field_ids \<subseteq> set (map fr_id rows)" using u(2) unfolding u(3) by simp
qed

lemma family_rows_Inr:
  assumes "threshold_family_rows gates value = Inr rows"
  shows "sorted_wrt (<) (map fm_id rows)" "set (map threshold_slug annex_b_threshold_families) \<subseteq> set (map fm_id rows)"
    "\<forall>r\<in>set rows. fm_label r \<in> set annex_b_threshold_families \<and> fm_gates r = sort gates"
proof -
  obtain raws unsorted where u: "collect_keyed (procurement_error ''threshold_family_row_must_be_object'')
      (procurement_error ''duplicate_threshold_family_id'') family_row_key (family_row_of gates) [] raws = Inr unsorted"
      "set (map threshold_slug annex_b_threshold_families) \<subseteq> set (map fm_id unsorted)" "rows = sort_key fm_id unsorted"
    using assms by (auto simp: threshold_family_rows_def rbind_eq_Inr split: json.splits)
  have gates_of: "require_gate_ref_set gates v = Inr refs \<Longrightarrow> refs = sort gates" for v refs
    by (auto simp: require_gate_ref_set_def rbind_eq_Inr Let_def split: json.splits)
  have facts: "distinct (map fm_id unsorted) \<and> set (map fm_id unsorted) \<inter> set [] = {} \<and> length unsorted = length raws
      \<and> (\<forall>r\<in>set unsorted. fm_label r \<in> set annex_b_threshold_families \<and> fm_gates r = sort gates)"
    by (rule collect_keyed_Inr [OF u(1)]) (auto simp: family_row_of_def rbind_eq_Inr dest: gates_of)
  then show "sorted_wrt (<) (map fm_id rows)" unfolding u(3) by (intro distinct_sort_keyed) blast
  show "set (map threshold_slug annex_b_threshold_families) \<subseteq> set (map fm_id rows)" using u(2) unfolding u(3) by simp
  show "\<forall>r\<in>set rows. fm_label r \<in> set annex_b_threshold_families \<and> fm_gates r = sort gates"
    using facts unfolding u(3) by simp
qed

lemma signoff_gate_refs_Inr:
  assumes "signoff_gate_refs value = Inr gs"
  shows "set gs = set required_signoff_gate_refs"
proof (cases "value")
  case (JArr items)
  then have "\<exists>refs. set refs = set required_signoff_gate_refs \<and> sort refs = gs"
    using assms by (simp add: signoff_gate_refs_def rbind_eq_Inr) blast
  then show ?thesis by (elim exE conjE) (drule sym [of "sort _"], simp)
qed (use assms in \<open>simp_all add: signoff_gate_refs_def\<close>)

text \<open>
  A policy holds every field and every threshold family of Annex B once, in the order of their ids, and each family waits
  for the sign-off of all the required gates.
\<close>

lemma annex_b_registers_complete:
  assumes "build_procurement_fields_and_threshold_policy_outputs i at actor type fields_given families_given gates_given = Inr outputs"
  shows "\<exists>fs ts gs. jget outputs ''procurement_required_field_register'' = field_register fs
     \<and> jget outputs ''executive_escalation_threshold_family_register'' = family_register gs ts
     \<and> sorted_wrt (<) (map fr_id fs) \<and> set annex_b_procurement_field_ids \<subseteq> set (map fr_id fs)
     \<and> sorted_wrt (<) (map fm_id ts) \<and> set (map threshold_slug annex_b_threshold_families) \<subseteq> set (map fm_id ts)
     \<and> (\<forall>r\<in>set ts. set (fm_gates r) = set required_signoff_gate_refs)"
proof -
  obtain gs fs ts where parts: "signoff_gate_refs gates_given = Inr gs" "procurement_field_rows (given_or default_field_rows fields_given) = Inr fs"
      "threshold_family_rows gs (given_or (default_threshold_family_rows gs) families_given) = Inr ts"
    and out: "jget outputs ''procurement_required_field_register'' = field_register fs"
      "jget outputs ''executive_escalation_threshold_family_register'' = family_register gs ts"
    using assms unfolding build_procurement_fields_and_threshold_policy_outputs_def rbind_eq_Inr
    by (elim exE conjE) (drule Inr_inject, hypsubst, rule that, assumption+, simp_all add: jget_def)
  have "\<forall>r\<in>set ts. set (fm_gates r) = set required_signoff_gate_refs"
    using family_rows_Inr(3) [OF parts(3)] signoff_gate_refs_Inr [OF parts(1)] by simp
  then show ?thesis using out field_rows_Inr [OF parts(2)] family_rows_Inr(1,2) [OF parts(3)] by blast
qed

text \<open>
  The label of a family is not compared with its id: once the raw checks have passed, any label of Annex B goes with any id.
\<close>

lemma label_not_compared:
  assumes "family_row_json r = JObj raw" "fm_label r \<in> set annex_b_threshold_families" "fm_gates r = sort gates"
  shows "family_row_of gates raw i = Inr (r\<lparr>fm_id := i\<rparr>)"
proof -
  have "list_all (\<lambda>l. procurement_require_nonempty (JStr l) = Inr l) (''absent_pending_business_signoff'' # ''Annex B''
      # annex_b_threshold_families)" by code_simp
  then have texts: "procurement_require_nonempty (JStr (fm_label r)) = Inr (fm_label r)"
    "procurement_require_nonempty (JStr ''Annex B'') = Inr ''Annex B''"
    "procurement_require_nonempty (JStr ''absent_pending_business_signoff'') = Inr ''absent_pending_business_signoff''"
    using assms(2) by (simp_all add: list_all_iff)
  have "require_gate_ref_set gates (json_texts (fm_gates r)) = Inr (fm_gates r)"
    using assms(3) by (simp add: require_gate_ref_set_def json_texts_def comp_def Let_def sorted_sort_id)
  with assms(1) show ?thesis
    by (auto simp: family_row_json_def family_row_of_def jget_def texts assms(2) require_value_def require_boolean_def)
qed

end
