(* ===== verification/Spec2Isabelle.thy ===== *)
theory Spec2Isabelle
  imports Partition_Codec Pointer_Address Effect_Ledger Runtime_Outbox Flags Ingest_Jobs Human_Tasks Executions Pointers Approval_Commands
    Artifact_Versions Provenance Execution_Lifecycle Capex_Access Task_Leases Runtime_Slots Closure_Governance Input_Bindings
    Edge_Executions Lifecycle_Stages Assumption_Closure Procurement_Policy
begin

text \<open>
  A verification development for the onetruth runtime (\<open>src/onetruth\<close>).

  \<^bold>\<open>The program.\<close> The runtime keeps workflow runs, task runs, human tasks, flags, approvals,
  artifact pointers and ingest jobs in one SQLite database. Every change goes through a command
  handler: it checks the payload, derives a scope key and the fingerprint of the request, opens a
  transaction, returns the stored outcome if the same command was executed before with the same
  idempotency key, and otherwise changes rows, appends to the event log and stores a receipt.
  Consumers read the event log through cursors. The claims worth making about it are that commands
  are atomic and take effect once, that the log is append only and read completely, that rows move
  only along their state tables, and that the typed keys are unambiguous. The capex platform on top of
  it locks projects by slots, registers sources, closes targets through gates and waivers, and builds
  planning documents from observations; there the claims are that a slot has one holder, that what is
  closed or ready rests on evidence or a waiver, and that the documents agree with what they refer to.

  \<^bold>\<open>Theories and code.\<close>

    \<^item> \<open>Prelude\<close>, \<open>Py_Text\<close>: exceptions and results, computations over a state, atomicity, SQL
      idioms on tables kept as lists; Python text operations and regular expressions on ASCII.
    \<^item> \<open>Calendar\<close>, \<open>Partition_Codec\<close>: \<open>datetime.date\<close> as far as used; \<open>domain/partition_codec.py\<close>
      and \<open>domain/logistics_calendar.py\<close>.
    \<^item> \<open>Pointer_Address\<close>: \<open>domain/pointer_address.py\<close>, pointer ids and the resolution of legacy pointers.
    \<^item> \<open>Json\<close>, \<open>Json_Text\<close>, \<open>Sha256\<close>: \<open>json.dumps\<close>, its injectivity, and the digest.
    \<^item> \<open>Store\<close>: the tables of \<open>create_sqlite_substrate\<close> in \<open>infrastructure/events/event_store.py\<close>
      as records, and the locale \<open>unique_table\<close>, the contract of a column with a unique constraint.
    \<^item> \<open>Transactions\<close>: transaction frames and savepoints of \<open>handlers/_shared/command_boundary.py\<close>
      on a connection, and their abstract meaning \<open>atomically\<close>.
    \<^item> \<open>Lifecycle\<close>: the locale of tables whose rows carry a status, with reachability proved once.
    \<^item> \<open>Event_Store\<close>: \<open>append_event\<close>, \<open>list_events\<close> and the receipt table.
    \<^item> \<open>Runs\<close>: \<open>repositories/workflow_runs.py\<close> and \<open>task_runs.py\<close>.
    \<^item> \<open>Command_Boundary\<close>: the rest of \<open>command_boundary.py\<close>, \<open>_execute_with_command_receipt\<close> first.
    \<^item> \<open>Effect_Ledger\<close>: \<open>repositories/effect_ledger.py\<close> and \<open>handlers/_shared/effect_ledger.py\<close>.
    \<^item> \<open>Runtime_Outbox\<close>: \<open>repositories/runtime_outbox.py\<close>.
    \<^item> \<open>Capabilities\<close>: \<open>services/capabilities/\<close>, the authorization decisions.
    \<^item> \<open>Keyed_Table\<close>: the locale of tables changed by conditional updates on their key.
    \<^item> \<open>Human_Tasks\<close>: \<open>repositories/human_tasks.py\<close> and \<open>approvals.py\<close>, over the abstract lease machine.
    \<^item> \<open>Executions\<close>: \<open>repositories/execution_sessions.py\<close>, \<open>tool_executions.py\<close> and
      \<open>tool_execution_attempts.py\<close>.
    \<^item> \<open>Pointers\<close>: \<open>repositories/artifact_pointers.py\<close>, promotion against the generation that was read.
    \<^item> \<open>Approval_Commands\<close>: \<open>handlers/approvals.py\<close>, requesting and answering approvals, with response hooks.
    \<^item> \<open>Datetime\<close>: ISO timestamps as \<open>utc_now_iso\<close> writes and \<open>_parse_iso_datetime\<close> reads them, leases
      (\<open>_future_iso\<close>), and what comparing timestamps as texts means.
    \<^item> \<open>Command_Effects\<close>: what handlers of many effects share, and how to reason about them: what a
      computation keeps, yields and brings about, and the locale \<open>evolution\<close> of preorders on states.
    \<^item> \<open>Artifact_Versions\<close>, \<open>Provenance\<close>: \<open>repositories/artifact_versions.py\<close>, \<open>artifact_links.py\<close> and
      \<open>artifact_provenance.py\<close>, version chains and the cycle check on the provenance graph.
    \<^item> \<open>Execution_Commands\<close>, \<open>Execution_Lifecycle\<close>: \<open>handlers/execution_runtime.py\<close> and
      \<open>repositories/policy_decisions.py\<close>, and the life of sessions and tool executions over commands.
    \<^item> \<open>Capex_Projects\<close>, \<open>Capex_Commands\<close>, \<open>Capex_Access\<close>: \<open>repositories/capex_projects.py\<close>,
      \<open>capex_project_authorization.py\<close>, the projection in \<open>capex_platform/\<close>, \<open>services/capex_project_access.py\<close>,
      \<open>handlers/capex_projects.py\<close>, and access over commands.
    \<^item> \<open>Task_Commands\<close>, \<open>Task_Steps\<close>, \<open>Task_Leases\<close>: creating runs and tasks, claiming and sweeping
      (\<open>handlers/workflow_task_lifecycle.py\<close>, \<open>handlers/human_tasks.py\<close>), human tasks in step with their
      task runs, and leases.
    \<^item> \<open>Ingest_Jobs\<close>: \<open>repositories/capex_ingest_jobs.py\<close>, batches, jobs, numbered attempts and logs.
    \<^item> \<open>Flags\<close>: \<open>repositories/flags.py\<close> and the two public commands of \<open>handlers/flags.py\<close>.
    \<^item> \<open>Runtime_Slots\<close>: \<open>repositories/capex_project_runtime_slots.py\<close>, one active slot per project and
      lock family under a lease.
    \<^item> \<open>Input_Bindings\<close>, \<open>Edge_Executions\<close>: \<open>repositories/input_bindings.py\<close> over the pointers, and
      \<open>repositories/edge_executions.py\<close>.
    \<^item> \<open>Source_Occurrences\<close>, \<open>Closure_Governance\<close>: \<open>repositories/capex_source_occurrences.py\<close> with
      \<open>capex_platform/source_refs.py\<close>, and \<open>repositories/capex_closure_governance.py\<close> with
      \<open>capex_platform/closure_governance.py\<close>: waivers, gates, snapshots and what makes them stale.
    \<^item> \<open>Capex_Documents\<close>: what the builders of planning documents share; \<open>Lifecycle_Stages\<close>,
      \<open>Commitment_Chain\<close>, \<open>Assumption_Closure\<close>, \<open>Procurement_Policy\<close>: the builders
      \<open>capex_platform/lifecycle_stage_state_workflow.py\<close>, \<open>governance_commitment_chain.py\<close>,
      \<open>assumption_closure_workflow.py\<close> and \<open>procurement_fields_thresholds.py\<close>.

  \<^bold>\<open>State.\<close> The database is the record \<open>db\<close> with one list of row records per table. Code that
  writes is a function \<open>db \<Rightarrow> (exc + 'a) * db\<close>; code that only reads is a function of \<open>db\<close>. A raised
  exception is an \<open>Inl\<close>; classes with a \<open>code\<close> keep it, messages and \<open>details\<close> are dropped. What
  comes from outside (clock readings, uuids, a callback's behaviour) is an argument.

  \<^bold>\<open>What the lemmas show.\<close> Per table: keys stay unique and what is inserted is found. Per command:
  an exhaustive case rule that says what changed on each way out, from which atomicity and the
  properties follow. For transactions and receipts: the frame by frame code refines its abstract
  meaning. For the log and the outbox: paging and dispatching deliver every event once, in order. For
  the builders of documents: what holds of every row of a document that was built, and that one
  document is accepted where the next is built on it.

  \<^bold>\<open>Bounds and fuel.\<close> Dates are Python's, years 1 to 9999, with the overflow error written out.
  The client loop that reads the log page by page has fuel; more than the number of events is enough,
  because every page but the last is not empty. Integers of JSON are unbounded, as Python's are; one
  that a caller passes to be stored and that does not fit into 64 bits is an \<open>OverflowError\<close>. What the
  database counts up itself (sequence numbers, generations, lease versions) is not bounded.

  \<^bold>\<open>Not modelled.\<close> Text outside ASCII and fractional JSON numbers; the contents of exception
  messages, and which of several violated unique constraints SQLite names, where no code looks at it;
  completing and confirming human tasks and the handlers of artifacts and pointers, which call the
  planning services, the blob store and the compiled definitions; the other builders and read models of
  the capex platform, which follow the pattern of those modelled; the HTTP adapter (\<open>api/\<close>), the command line, the OpenAI integration, and the definition
  compiler, which are translation layers over the commands; the logistics planning services, whose
  workbooks and templates are data of one deployment. Handlers not yet translated are listed with
  that status in the manifest.
\<close>

end
